(* ===== verification/Prelude.thy ===== *)
theory Prelude
  imports Main
begin

text \<open>
  The prelude of the development: the named collections every component proof draws on, and
  generic facts on lists and options that the components share.

  \<^item> \<open>inv_intros\<close> collects the preservation lemmas of the state invariants;
  \<^item> \<open>event_simps\<close> collects the facts that say which rule keys a handler can emit.
\<close>

named_theorems inv_intros
named_theorems event_simps

text \<open>The integer types of the source. Unix seconds (\<open>i64\<close>) are integers: every value is a
  clock reading or a difference of two, far inside the range. Counters (\<open>u64\<close>, \<open>u32\<close>,
  \<open>usize\<close>) are naturals; where the source adds to an arbitrary \<open>u64\<close> the wrap-around is
  written out with \<open>u64_add\<close>.\<close>

type_synonym i64 = int
type_synonym u64 = nat
type_synonym u32 = nat
type_synonym usize = nat

definition u64_add :: "u64 \<Rightarrow> u64 \<Rightarrow> u64" where
  "u64_add a b = (a + b) mod 2 ^ 64"

lemma u64_add_exact: "a + b < 2 ^ 64 \<Longrightarrow> u64_add a b = a + b"
  by (simp add: u64_add_def)

section \<open>Lists\<close>

text \<open>\<open>slice::iter().max()\<close> on naturals with \<open>unwrap_or(0)\<close>.\<close>

fun max_or0 :: "nat list \<Rightarrow> nat" where
  "max_or0 [] = 0"
| "max_or0 (x # xs) = max x (max_or0 xs)"

lemma max_or0_ge: "x \<in> set xs \<Longrightarrow> x \<le> max_or0 xs"
  by (induction xs) auto

lemma max_or0_le: "(\<And>x. x \<in> set xs \<Longrightarrow> x \<le> b) \<Longrightarrow> max_or0 xs \<le> b"
  by (induction xs) auto

lemma max_or0_in: "xs \<noteq> [] \<Longrightarrow> max_or0 xs \<in> set xs"
proof (induction xs)
  case (Cons x xs)
  then show ?case by (cases "xs = []") (auto simp: max_def)
qed simp

text \<open>A front-pruned list (\<open>while front is stale: pop_front\<close>).\<close>

lemma dropWhile_sorted_filter:
  "sorted (map f xs) \<Longrightarrow> dropWhile (\<lambda>x. f x \<le> (c::'b::linorder)) xs = filter (\<lambda>x. c < f x) xs"
  by (induction xs) (auto simp: filter_id_conv not_le less_le_trans intro!: filter_True [symmetric])

lemma sorted_le_last: "sorted xs \<Longrightarrow> x \<in> set xs \<Longrightarrow> x \<le> last xs"
  by (induction xs) auto

lemma sorted_snoc_last: "sorted xs \<Longrightarrow> (xs \<noteq> [] \<Longrightarrow> last xs \<le> x) \<Longrightarrow> sorted (xs @ [x])"
  by (cases "xs = []") (auto simp: sorted_append dest: sorted_le_last)

end
