(* ===== verification/EdgeMachine.thy ===== *)
theory EdgeMachine
  imports Prelude
begin

text \<open>
  Two interfaces that several components share.

  \<^item> \<open>edge_machine\<close>: a component that fires and recovers (an alert rule, an incident tracker, the
    whole engine seen through one rule key). Its clients read the edges; what they rely on is
    that a fire only leaves the quiet state and a recovery only leaves the firing one.
    \<open>cooled_machine\<close> adds the clock and the cooldown between two fires, \<open>timed_machine\<close> that the
    condition of the input decides which edge is possible.
  \<^item> \<open>sliding_window\<close>: a time-stamped buffer pruned at its front.
\<close>

datatype edge = E_None | E_Fire | E_Recover

section \<open>Runs\<close>

fun run_edges :: "('s \<Rightarrow> 'i \<Rightarrow> 's \<times> edge) \<Rightarrow> 's \<Rightarrow> 'i list \<Rightarrow> 's \<times> edge list" where
  "run_edges step s [] = (s, [])"
| "run_edges step s (i # is) =
    (let (s1, e) = step s i; (s2, es) = run_edges step s1 is in (s2, e # es))"

fun alternates :: "bool \<Rightarrow> edge list \<Rightarrow> bool" where
  "alternates b [] = True"
| "alternates b (E_None # es) = alternates b es"
| "alternates b (E_Fire # es) = (\<not> b \<and> alternates True es)"
| "alternates b (E_Recover # es) = (b \<and> alternates False es)"

text \<open>The times of the fires of a run.\<close>

fun fire_times :: "('i \<Rightarrow> i64) \<Rightarrow> 'i list \<Rightarrow> edge list \<Rightarrow> i64 list" where
  "fire_times time (i # is) (e # es) =
    (if e = E_Fire then time i # fire_times time is es else fire_times time is es)"
| "fire_times time _ _ = []"

fun spaced :: "i64 \<Rightarrow> i64 list \<Rightarrow> bool" where
  "spaced gap (t # u # ts) = (gap \<le> u - t \<and> spaced gap (u # ts))"
| "spaced gap _ = True"

lemma run_edges_append:
  "run_edges step s (xs @ ys) =
    (let (s1, es) = run_edges step s xs; (s2, fs) = run_edges step s1 ys in (s2, es @ fs))"
  by (induction xs arbitrary: s) (auto split: prod.splits simp: Let_def)

lemma length_run_edges [simp]: "length (snd (run_edges step s is)) = length is"
  by (induction "is" arbitrary: s) (simp_all add: case_prod_beta Let_def)

lemma alternates_counts:
  "alternates b es \<Longrightarrow>
   count_list es E_Recover \<le> count_list es E_Fire + (if b then 1 else 0) \<and>
   count_list es E_Fire \<le> count_list es E_Recover + (if b then 0 else 1)"
  by (induction b es rule: alternates.induct) (auto split: if_splits)

lemma alternates_prefix: "alternates b (es @ fs) \<Longrightarrow> alternates b es"
  by (induction b es rule: alternates.induct) auto

section \<open>The interface of a firing component\<close>

locale edge_machine =
  fixes step :: "'s \<Rightarrow> 'i \<Rightarrow> 's \<times> edge"
    and firing :: "'s \<Rightarrow> bool"
  assumes fire: "step s i = (t, E_Fire) \<Longrightarrow> \<not> firing s \<and> firing t"
    and recover: "step s i = (t, E_Recover) \<Longrightarrow> firing s \<and> \<not> firing t"
    and quiet: "step s i = (t, E_None) \<Longrightarrow> firing t = firing s"
begin

lemma run_alternates: "alternates (firing s) (snd (run_edges step s is))"
proof (induction "is" arbitrary: s)
  case (Cons i "is")
  obtain t e where st: "step s i = (t, e)" by fastforce
  obtain u es where run: "run_edges step t is = (u, es)" by fastforce
  from Cons.IH [of t] run have ih: "alternates (firing t) es" by simp
  show ?case
  proof (cases e)
    case E_None
    then show ?thesis using st run ih quiet [of s i t] by simp
  next
    case E_Fire
    then show ?thesis using st run ih fire [of s i t] by simp
  next
    case E_Recover
    then show ?thesis using st run ih recover [of s i t] by simp
  qed
qed simp

lemma run_firing:
  assumes "run_edges step s is = (t, es)"
  shows "firing t \<longleftrightarrow>
    (int (count_list es E_Fire) - int (count_list es E_Recover) + (if firing s then 1 else 0) = 1)"
  using assms
proof (induction "is" arbitrary: s es)
  case (Cons i "is")
  obtain u e where st: "step s i = (u, e)" by fastforce
  obtain fs where run: "run_edges step u is = (t, fs)" and es: "es = e # fs"
    using Cons.prems st by (auto split: prod.splits)
  note ih = Cons.IH [OF run]
  show ?case
  proof (cases e)
    case E_None
    then show ?thesis using ih es quiet [of s i u] st by simp
  next
    case E_Fire
    then show ?thesis using ih es fire [of s i u] st by simp
  next
    case E_Recover
    then show ?thesis using ih es recover [of s i u] st by simp
  qed
qed (auto split: if_splits)

text \<open>No recovery is announced that no fire announced before it.\<close>

lemma recoveries_bounded:
  "\<not> firing s \<Longrightarrow>
   count_list (snd (run_edges step s is)) E_Recover \<le> count_list (snd (run_edges step s is)) E_Fire"
  using alternates_counts [OF run_alternates [of s "is"]] by auto

end

locale cooled_machine = edge_machine step firing
  for step :: "'s \<Rightarrow> 'i \<Rightarrow> 's \<times> edge" and firing :: "'s \<Rightarrow> bool" +
  fixes time :: "'i \<Rightarrow> i64"
    and last_fire :: "'s \<Rightarrow> i64 option"
    and cooldown :: i64
  assumes fire_sets: "step s i = (t, E_Fire) \<Longrightarrow> last_fire t = Some (time i)"
    and other_keeps: "step s i = (t, e) \<Longrightarrow> e \<noteq> E_Fire \<Longrightarrow> last_fire t = last_fire s"
    and fire_cooled: "step s i = (t, E_Fire) \<Longrightarrow> last_fire s = Some u \<Longrightarrow> cooldown \<le> time i - u"
begin

lemma run_spaced:
  "spaced cooldown
     ((case last_fire s of None \<Rightarrow> [] | Some u \<Rightarrow> [u]) @ fire_times time is (snd (run_edges step s is)))"
proof (induction "is" arbitrary: s)
  case Nil
  then show ?case by (simp split: option.splits)
next
  case (Cons i "is")
  obtain t e where st: "step s i = (t, e)" by fastforce
  show ?case
  proof (cases "e = E_Fire")
    case True
    then show ?thesis
      using st fire_sets [of s i t] fire_cooled [of s i t] Cons.IH [of t]
      by (auto split: option.splits prod.splits)
  next
    case False
    then show ?thesis
      using st other_keeps [of s i t e] Cons.IH [of t] by (auto split: prod.splits)
  qed
qed

end

locale timed_machine = cooled_machine step firing time last_fire cooldown
  for step :: "'s \<Rightarrow> 'i \<Rightarrow> 's \<times> edge" and firing :: "'s \<Rightarrow> bool"
    and time :: "'i \<Rightarrow> i64" and last_fire :: "'s \<Rightarrow> i64 option" and cooldown :: i64 +
  fixes cond :: "'i \<Rightarrow> bool"
  assumes fire_cond: "step s i = (t, E_Fire) \<Longrightarrow> cond i"
    and recover_iff: "snd (step s i) = E_Recover \<longleftrightarrow> firing s \<and> \<not> cond i"
begin

text \<open>As long as the condition holds nothing recovers, and once it is gone nothing fires.\<close>

lemma run_cond_holds: "\<forall>i \<in> set is. cond i \<Longrightarrow> E_Recover \<notin> set (snd (run_edges step s is))"
proof (induction "is" arbitrary: s)
  case (Cons i "is")
  then have "snd (step s i) \<noteq> E_Recover" using recover_iff [of s i] by simp
  then show ?case using Cons.IH [of "fst (step s i)"] Cons.prems by (auto split: prod.splits)
qed simp

lemma run_cond_gone: "\<forall>i \<in> set is. \<not> cond i \<Longrightarrow> E_Fire \<notin> set (snd (run_edges step s is))"
proof (induction "is" arbitrary: s)
  case (Cons i "is")
  then have "snd (step s i) \<noteq> E_Fire"
    using fire_cond [of s i "fst (step s i)"] by (metis list.set_intros(1) prod.collapse)
  then show ?case using Cons.IH [of "fst (step s i)"] Cons.prems by (auto split: prod.splits)
qed simp

end

section \<open>The interface of a pruned buffer\<close>

text \<open>\<open>while points.len() > 1 && points[1].0 <= c: pop_front\<close>.\<close>

fun prune_window :: "i64 \<Rightarrow> (i64 \<times> u64) list \<Rightarrow> (i64 \<times> u64) list" where
  "prune_window c (p # q # ps) = (if fst q \<le> c then prune_window c (q # ps) else p # q # ps)"
| "prune_window c ps = ps"

lemma prune_window_subset: "set (prune_window c ps) \<subseteq> set ps"
  by (induction c ps rule: prune_window.induct) auto

lemma prune_window_last: "ps \<noteq> [] \<Longrightarrow> prune_window c ps \<noteq> [] \<and> last (prune_window c ps) = last ps"
  by (induction c ps rule: prune_window.induct) auto

lemma prune_window_suffix: "\<exists>qs. ps = qs @ prune_window c ps"
proof (induction c ps rule: prune_window.induct)
  case (1 c p q ps)
  show ?case
  proof (cases "fst q \<le> c")
    case True
    then obtain qs where "q # ps = qs @ prune_window c (q # ps)" using 1 by auto
    then have "p # q # ps = (p # qs) @ prune_window c (p # q # ps)" using True by simp
    then show ?thesis by blast
  qed simp
qed auto

lemma prune_window_sorted: "sorted_wrt R ps \<Longrightarrow> sorted_wrt R (prune_window c ps)"
  using prune_window_suffix [of ps c] by (metis sorted_wrt_append)

lemma prune_window_sorted_map:
  "sorted_wrt R (map f ps) \<Longrightarrow> sorted_wrt R (map f (prune_window c ps))"
  unfolding sorted_wrt_map by (rule prune_window_sorted)

lemma prune_window_fresh:
  "sorted_wrt (<) (map fst ps) \<Longrightarrow> \<forall>p \<in> set (tl (prune_window c ps)). c < fst p"
proof (induction c ps rule: prune_window.induct)
  case (1 c p q ps)
  then show ?case by (cases "fst q \<le> c") (auto intro: less_trans)
qed auto

locale sliding_window =
  fixes push :: "'w \<Rightarrow> i64 \<Rightarrow> u64 \<Rightarrow> 'w"
    and points :: "'w \<Rightarrow> (i64 \<times> u64) list"
    and window :: i64
  assumes push_last: "points (push w now v) \<noteq> [] \<and> last (points (push w now v)) = (now, v)"
    and push_keeps: "set (points (push w now v)) \<subseteq> insert (now, v) (set (points w))"
    and push_sorted: "sorted_wrt (<) (map fst (points w)) \<Longrightarrow> \<forall>p \<in> set (points w). fst p < now \<Longrightarrow>
      sorted_wrt (<) (map fst (points (push w now v)))"
    and push_fresh: "sorted_wrt (<) (map fst (points w)) \<Longrightarrow> \<forall>p \<in> set (points w). fst p < now \<Longrightarrow>
      \<forall>p \<in> set (tl (points (push w now v))). now - window < fst p"
begin

lemma push_bounded:
  assumes "sorted_wrt (<) (map fst (points w))" "\<forall>p \<in> set (points w). fst p < now" "0 \<le> window"
  shows "length (points (push w now v)) \<le> nat window + 1"
proof -
  let ?ps = "points (push w now v)"
  have s: "sorted_wrt (<) (map fst ?ps)" using push_sorted assms by blast
  then have d: "distinct (map fst (tl ?ps))"
    by (cases ?ps) (auto simp: strict_sorted_iff)
  have "set (map fst (tl ?ps)) \<subseteq> {now - window <.. now}"
  proof
    fix x
    assume "x \<in> set (map fst (tl ?ps))"
    then obtain p where p: "p \<in> set (tl ?ps)" "x = fst p" by auto
    then have "p \<in> set ?ps" by (meson list.set_sel(2) tl_Nil list.distinct(1) push_last)
    then have "fst p \<le> now" using push_keeps [of w now v] assms(2) by fastforce
    then show "x \<in> {now - window <.. now}" using p push_fresh [OF assms(1,2)] by auto
  qed
  then have "card (set (map fst (tl ?ps))) \<le> card {now - window <.. now}"
    by (intro card_mono) auto
  then have "length (tl ?ps) \<le> nat window" using d distinct_card [OF d] by simp
  then show ?thesis using push_last [of w now v] by (cases ?ps) auto
qed

text \<open>A buffer fed at strictly increasing times never outgrows its window.\<close>

lemma feed_bounded:
  assumes "sorted_wrt (<) (map fst (points w) @ map fst rs)" "rs \<noteq> []" "0 \<le> window"
  shows "length (points (foldl (\<lambda>w (t, v). push w t v) w rs)) \<le> nat window + 1"
  using assms
proof (induction rs arbitrary: w)
  case (Cons r rs)
  obtain t v where r: "r = (t, v)" by fastforce
  have old: "sorted_wrt (<) (map fst (points w))" "\<forall>p \<in> set (points w). fst p < t"
    and new: "\<forall>q \<in> set rs. t < fst q" "sorted_wrt (<) (map fst rs)"
    using Cons.prems(1) r by (auto simp: sorted_wrt_append)
  show ?case
  proof (cases "rs = []")
    case True
    then show ?thesis using push_bounded [OF old Cons.prems(3)] r by simp
  next
    case False
    have "sorted_wrt (<) (map fst (points (push w t v)))" using push_sorted [OF old] .
    moreover have "\<forall>p \<in> set (points (push w t v)). fst p \<le> t"
      using push_keeps [of w t v] old(2) by fastforce
    ultimately have "sorted_wrt (<) (map fst (points (push w t v)) @ map fst rs)"
      using new by (fastforce simp: sorted_wrt_append)
    then show ?thesis using Cons.IH [of "push w t v"] False Cons.prems(3) r by simp
  qed
qed simp

end

end
