(* ===== verification/Sustained.thy ===== *)
theory Sustained
  imports EdgeMachine
begin

text \<open>
  The building blocks of the alert engine in \<open>crates/lss-core/src/rules.rs\<close>: the sustained
  rule (hold time, cooldown, recovery), the two sliding windows and the flap tracker.
  \<open>Edge\<close> of the source is \<open>edge\<close> of theory \<open>EdgeMachine\<close>.
\<close>

section \<open>The sustained rule\<close>

record Sustained =
  since :: "i64 option"
  announced :: bool
  last_sent :: "i64 option"

definition sustained_default :: Sustained where
  "sustained_default = \<lparr>since = None, announced = False, last_sent = None\<rparr>"

definition cooled :: "Sustained \<Rightarrow> i64 \<Rightarrow> i64 \<Rightarrow> bool" where
  "cooled s now cooldown = (case last_sent s of None \<Rightarrow> True | Some t \<Rightarrow> cooldown \<le> now - t)"

definition held_for :: "Sustained \<Rightarrow> i64 \<Rightarrow> i64" where
  "held_for s now = (case since s of None \<Rightarrow> 0 | Some t \<Rightarrow> now - t)"

definition sus_step :: "Sustained \<Rightarrow> i64 \<Rightarrow> bool \<Rightarrow> i64 \<Rightarrow> i64 \<Rightarrow> Sustained \<times> edge" where
  "sus_step s now cond hold cooldown =
    (if \<not> cond then
       (s\<lparr>announced := False, since := None\<rparr>, if announced s then E_Recover else E_None)
     else
       let t0 = (case since s of None \<Rightarrow> now | Some t \<Rightarrow> t);
           s1 = s\<lparr>since := Some t0\<rparr>
       in if hold \<le> now - t0 \<and> \<not> announced s1 \<and> cooled s1 now cooldown
          then (s1\<lparr>announced := True, last_sent := Some now\<rparr>, E_Fire)
          else (s1, E_None))"

section \<open>The sliding windows\<close>

record GrowthWindow =
  gw_points :: "(i64 \<times> u64) list"
  gw_rule :: Sustained

definition growth_default :: GrowthWindow where
  "growth_default = \<lparr>gw_points = [], gw_rule = sustained_default\<rparr>"

definition growth_push :: "GrowthWindow \<Rightarrow> i64 \<Rightarrow> u64 \<Rightarrow> i64 \<Rightarrow> GrowthWindow \<times> u64" where
  "growth_push w now v window =
    (let ps = (if gw_points w \<noteq> [] \<and> v < snd (last (gw_points w)) then [] else gw_points w);
         ps = prune_window (now - window) (ps @ [(now, v)])
     in (w\<lparr>gw_points := ps\<rparr>, v - (case ps of [] \<Rightarrow> v | p # _ \<Rightarrow> snd p)))"

record DiskGrowth =
  dg_points :: "(i64 \<times> u64) list"
  dg_rule :: Sustained

definition disk_growth_default :: DiskGrowth where
  "disk_growth_default = \<lparr>dg_points = [], dg_rule = sustained_default\<rparr>"

definition disk_growth_push :: "DiskGrowth \<Rightarrow> i64 \<Rightarrow> u64 \<Rightarrow> i64 \<Rightarrow> DiskGrowth \<times> u64" where
  "disk_growth_push w now avail window =
    (let ps = prune_window (now - window) (dg_points w @ [(now, avail)])
     in (w\<lparr>dg_points := ps\<rparr>, max_or0 (map (\<lambda>(_, v). v - avail) ps)))"

section \<open>The flap tracker\<close>

record FlapTracker =
  flaps :: "i64 list"
  muted_announced :: bool

definition flap_default :: FlapTracker where
  "flap_default = \<lparr>flaps = [], muted_announced = False\<rparr>"

definition FLAP_MUTE_WINDOW_SECS :: i64 where "FLAP_MUTE_WINDOW_SECS = 7200"
definition FLAP_MUTE_THRESHOLD :: usize where "FLAP_MUTE_THRESHOLD = 3"
definition FLAP_LABEL_WINDOW_SECS :: i64 where "FLAP_LABEL_WINDOW_SECS = 86400"

definition flap_prune :: "FlapTracker \<Rightarrow> i64 \<Rightarrow> FlapTracker" where
  "flap_prune f now = f\<lparr>flaps := dropWhile (\<lambda>t. t \<le> now - FLAP_LABEL_WINDOW_SECS) (flaps f)\<rparr>"

definition note_flap :: "FlapTracker \<Rightarrow> i64 \<Rightarrow> FlapTracker" where
  "note_flap f now = flap_prune (f\<lparr>flaps := flaps f @ [now]\<rparr>) now"

definition count_since :: "FlapTracker \<Rightarrow> i64 \<Rightarrow> i64 \<Rightarrow> usize" where
  "count_since f now window = length (filter (\<lambda>t. now - window < t) (flaps f))"

definition muted :: "FlapTracker \<Rightarrow> i64 \<Rightarrow> bool" where
  "muted f now \<longleftrightarrow> FLAP_MUTE_THRESHOLD \<le> count_since f now FLAP_MUTE_WINDOW_SECS"

section \<open>The sustained rule as a firing component\<close>

lemma sus_step_cases:
  assumes "sus_step s now c hold cd = (t, e)"
  obtains
    (off) "\<not> c" "t = s\<lparr>announced := False, since := None\<rparr>"
      "e = (if announced s then E_Recover else E_None)"
  | (fire) t0 where "c" "t0 = (case since s of None \<Rightarrow> now | Some u \<Rightarrow> u)" "hold \<le> now - t0"
      "\<not> announced s" "cooled s now cd" "e = E_Fire"
      "t = s\<lparr>since := Some t0, announced := True, last_sent := Some now\<rparr>"
  | (wait) t0 where "c" "t0 = (case since s of None \<Rightarrow> now | Some u \<Rightarrow> u)"
      "\<not> (hold \<le> now - t0 \<and> \<not> announced s \<and> cooled s now cd)" "e = E_None"
      "t = s\<lparr>since := Some t0\<rparr>"
proof (cases c)
  case False
  then show ?thesis using assms off by (simp add: sus_step_def)
next
  case True
  define t0 where "t0 = (case since s of None \<Rightarrow> now | Some u \<Rightarrow> u)"
  have "cooled (s\<lparr>since := Some t0\<rparr>) now cd = cooled s now cd" by (simp add: cooled_def)
  then show ?thesis using assms True fire [of t0] wait [of t0]
    by (auto simp: sus_step_def Let_def simp flip: t0_def split: if_splits)
qed

text \<open>The inputs of a sustained rule are the clock and the condition.\<close>

abbreviation sus_input :: "i64 \<Rightarrow> i64 \<Rightarrow> Sustained \<Rightarrow> i64 \<times> bool \<Rightarrow> Sustained \<times> edge" where
  "sus_input hold cd \<equiv> \<lambda>s (now, c). sus_step s now c hold cd"

interpretation sus: timed_machine "sus_input hold cd" announced fst last_sent cd snd
  for hold cd :: i64
proof unfold_locales
  fix s t :: Sustained and i :: "i64 \<times> bool" and e :: edge and u :: i64
  obtain now c where i: "i = (now, c)" by fastforce
  show "sus_input hold cd s i = (t, E_Fire) \<Longrightarrow> \<not> announced s \<and> announced t"
    by (auto simp: i elim: sus_step_cases split: if_splits)
  show "sus_input hold cd s i = (t, E_Recover) \<Longrightarrow> announced s \<and> \<not> announced t"
    by (auto simp: i elim: sus_step_cases split: if_splits)
  show "sus_input hold cd s i = (t, E_None) \<Longrightarrow> announced t = announced s"
    by (auto simp: i elim: sus_step_cases split: if_splits)
  show "sus_input hold cd s i = (t, E_Fire) \<Longrightarrow> last_sent t = Some (fst i)"
    by (auto simp: i elim: sus_step_cases split: if_splits)
  show "sus_input hold cd s i = (t, e) \<Longrightarrow> e \<noteq> E_Fire \<Longrightarrow> last_sent t = last_sent s"
    by (auto simp: i elim: sus_step_cases)
  show "sus_input hold cd s i = (t, E_Fire) \<Longrightarrow> last_sent s = Some u \<Longrightarrow> cd \<le> fst i - u"
    by (auto simp: i cooled_def elim!: sus_step_cases split: if_splits)
  show "sus_input hold cd s i = (t, E_Fire) \<Longrightarrow> snd i"
    by (auto simp: i elim: sus_step_cases split: if_splits)
  show "snd (sus_input hold cd s i) = E_Recover \<longleftrightarrow> announced s \<and> \<not> snd i"
    by (auto simp: i sus_step_def Let_def)
qed

section \<open>The hold time, over a history\<close>

text \<open>The specification of \<open>since\<close>: the time of the first input of the unbroken run of true
  conditions the history ends in.\<close>

definition streak :: "(i64 \<times> bool) list \<Rightarrow> (i64 \<times> bool) list" where
  "streak hist = rev (takeWhile snd (rev hist))"

definition streak_start :: "(i64 \<times> bool) list \<Rightarrow> i64 option" where
  "streak_start hist = (case streak hist of [] \<Rightarrow> None | i # _ \<Rightarrow> Some (fst i))"

lemma streak_snoc: "streak (hist @ [(now, c)]) = (if c then streak hist @ [(now, c)] else [])"
  by (simp add: streak_def)

lemma streak_start_snoc:
  "streak_start (hist @ [(now, c)]) =
    (if c then (case streak_start hist of None \<Rightarrow> Some now | Some t \<Rightarrow> Some t) else None)"
  by (auto simp: streak_start_def streak_snoc split: list.splits)

lemma sus_step_since:
  "since (fst (sus_step s now c hold cd)) =
    (if c then (case since s of None \<Rightarrow> Some now | Some t \<Rightarrow> Some t) else None)"
  by (auto simp: sus_step_def Let_def split: option.splits)

text \<open>The implementation refines it: after any run from the default, \<open>since\<close> is the start of
  the streak.\<close>

lemma run_since:
  "since (fst (run_edges (sus_input hold cd) sustained_default hist)) = streak_start hist"
proof (induction hist rule: rev_induct)
  case Nil
  then show ?case by (simp add: sustained_default_def streak_start_def streak_def)
next
  case (snoc i hist)
  obtain now c where i: "i = (now, c)" by fastforce
  show ?case
    using snoc
    by (simp add: i run_edges_append case_prod_beta Let_def sus_step_since streak_start_snoc)
qed

lemma sus_fire_held:
  assumes "snd (sus_step s now c hold cd) = E_Fire"
  shows "c \<and> hold \<le> now - (case since s of None \<Rightarrow> now | Some t \<Rightarrow> t)"
  using assms by (auto simp: sus_step_def Let_def split: if_splits)

text \<open>A fire at the end of a history: the condition held, without a break, for the hold time.\<close>

lemma fire_after_hold:
  assumes "snd (sus_step (fst (run_edges (sus_input hold cd) sustained_default hist)) now c hold cd) = E_Fire"
  shows "c \<and> (\<exists>t0. streak_start (hist @ [(now, c)]) = Some t0 \<and> hold \<le> now - t0)"
  using sus_fire_held [OF assms]
  by (auto simp: run_since streak_start_snoc split: option.splits)

section \<open>The state invariant of a sustained rule\<close>

definition sus_ok :: "Sustained \<Rightarrow> bool" where
  "sus_ok s \<longleftrightarrow> (announced s \<longrightarrow> since s \<noteq> None \<and> last_sent s \<noteq> None)"

lemma sus_ok_default [inv_intros]: "sus_ok sustained_default"
  by (simp add: sus_ok_def sustained_default_def)

lemma sus_ok_step [inv_intros]: "sus_ok s \<Longrightarrow> sus_ok (fst (sus_step s now c hold cd))"
  by (auto simp: sus_ok_def sus_step_def Let_def)

section \<open>The windows\<close>

interpretation growth: sliding_window
  "\<lambda>w now v. fst (growth_push w now v win)" gw_points win
  for win :: i64
proof unfold_locales
  fix w :: GrowthWindow and now :: i64 and v :: u64
  define ps where "ps = (if gw_points w \<noteq> [] \<and> v < snd (last (gw_points w)) then [] else gw_points w)"
  have pts: "gw_points (fst (growth_push w now v win)) = prune_window (now - win) (ps @ [(now, v)])"
    by (simp add: growth_push_def Let_def ps_def)
  have sub: "set ps \<subseteq> set (gw_points w)" by (simp add: ps_def)
  let ?new = "gw_points (fst (growth_push w now v win))"
  show "?new \<noteq> [] \<and> last ?new = (now, v)"
    using prune_window_last [of "ps @ [(now, v)]"] by (simp add: pts)
  show "set ?new \<subseteq> insert (now, v) (set (gw_points w))"
    using prune_window_subset [of "now - win" "ps @ [(now, v)]"] sub by (auto simp: pts)
  assume "sorted_wrt (<) (map fst (gw_points w))" "\<forall>p \<in> set (gw_points w). fst p < now"
  then have s: "sorted_wrt (<) (map fst (ps @ [(now, v)]))"
    by (auto simp: ps_def sorted_wrt_append)
  then show "sorted_wrt (<) (map fst ?new)"
    unfolding pts by (rule prune_window_sorted_map)
  show "\<forall>p \<in> set (tl ?new). now - win < fst p"
    using prune_window_fresh [OF s] by (simp add: pts)
qed

interpretation disk_growth: sliding_window
  "\<lambda>w now v. fst (disk_growth_push w now v win)" dg_points win
  for win :: i64
proof unfold_locales
  fix w :: DiskGrowth and now :: i64 and v :: u64
  let ?all = "dg_points w @ [(now, v)]"
  have pts: "dg_points (fst (disk_growth_push w now v win)) = prune_window (now - win) ?all"
    by (simp add: disk_growth_push_def Let_def)
  let ?new = "dg_points (fst (disk_growth_push w now v win))"
  show "?new \<noteq> [] \<and> last ?new = (now, v)"
    using prune_window_last [of ?all] by (simp add: pts)
  show "set ?new \<subseteq> insert (now, v) (set (dg_points w))"
    using prune_window_subset [of "now - win" ?all] by (auto simp: pts)
  assume "sorted_wrt (<) (map fst (dg_points w))" "\<forall>p \<in> set (dg_points w). fst p < now"
  then have s: "sorted_wrt (<) (map fst ?all)" by (auto simp: sorted_wrt_append)
  then show "sorted_wrt (<) (map fst ?new)"
    unfolding pts by (rule prune_window_sorted_map)
  show "\<forall>p \<in> set (tl ?new). now - win < fst p"
    using prune_window_fresh [OF s] by (simp add: pts)
qed

text \<open>The counter window holds non-decreasing values, so the subtraction of \<open>growth_push\<close> on
  \<open>u64\<close> never underflows and its result is the growth over the kept points.\<close>

definition growth_ok :: "GrowthWindow \<Rightarrow> bool" where
  "growth_ok w \<longleftrightarrow> sorted (map snd (gw_points w)) \<and> sus_ok (gw_rule w)"

lemma growth_ok_default [inv_intros]: "growth_ok growth_default"
  by (simp add: growth_ok_def growth_default_def inv_intros)

lemma growth_push_rule [simp]: "gw_rule (fst (growth_push w now v win)) = gw_rule w"
  by (simp add: growth_push_def Let_def)

lemma growth_push_points_sorted:
  assumes "sorted (map snd (gw_points w))"
  shows "sorted (map snd (gw_points (fst (growth_push w now v win))))"
proof -
  define ps where "ps = (if gw_points w \<noteq> [] \<and> v < snd (last (gw_points w)) then [] else gw_points w)"
  have pts: "gw_points (fst (growth_push w now v win)) = prune_window (now - win) (ps @ [(now, v)])"
    by (simp add: growth_push_def Let_def ps_def)
  have "sorted (map snd ps @ [v])"
    by (rule sorted_snoc_last) (use assms in \<open>auto simp: ps_def last_map split: if_splits\<close>)
  then have "sorted (map snd (ps @ [(now, v)]))" by simp
  then show ?thesis unfolding pts by (rule prune_window_sorted_map)
qed

lemma growth_push_ok [inv_intros]:
  "growth_ok w \<Longrightarrow> growth_ok (fst (growth_push w now v win))"
  using growth_push_points_sorted by (auto simp: growth_ok_def)

lemma growth_push_exact:
  assumes "sorted (map snd (gw_points w))"
  shows "\<exists>p ps. gw_points (fst (growth_push w now v win)) = p # ps \<and> snd p \<le> v \<and>
    snd (growth_push w now v win) + snd p = v"
proof -
  let ?new = "gw_points (fst (growth_push w now v win))"
  from growth.push_last [of w now v win] obtain p ps where new: "?new = p # ps"
    by (cases ?new) auto
  have "last (map snd ?new) = v" using growth.push_last [of w now v win] by (simp add: last_map)
  then have "snd p \<le> v"
    using growth_push_points_sorted [OF assms, of now v win] new
    by (cases "ps = []") (auto simp: last_map)
  then show ?thesis using new by (auto simp: growth_push_def Let_def split: list.splits)
qed

lemma growth_push_none:
  "growth_push w now v win = (w', g) \<Longrightarrow> gw_points w = [] \<Longrightarrow> g = 0"
  by (auto simp: growth_push_def Let_def)

text \<open>The disk window reports the largest drop from a kept reading to the present one.\<close>

lemma disk_growth_push_drop:
  assumes "disk_growth_push w now avail win = (w', d)"
  shows "(\<forall>(t, v) \<in> set (dg_points w'). v \<le> avail + d) \<and>
    (d = 0 \<or> (\<exists>t. (t, avail + d) \<in> set (dg_points w')))"
proof -
  let ?ps = "prune_window (now - win) (dg_points w @ [(now, avail)])"
  let ?ds = "map (\<lambda>(_, v). v - avail) ?ps"
  have w': "dg_points w' = ?ps" and d: "d = max_or0 ?ds"
    using assms by (auto simp: disk_growth_push_def Let_def)
  have "\<forall>(t, v) \<in> set ?ps. v \<le> avail + d"
  proof clarify
    fix t v
    assume "(t, v) \<in> set ?ps"
    then have "v - avail \<in> set ?ds" by force
    then have "v - avail \<le> d" unfolding d by (rule max_or0_ge)
    then show "v \<le> avail + d" by linarith
  qed
  moreover have "d = 0 \<or> (\<exists>t. (t, avail + d) \<in> set ?ps)"
  proof (cases "d = 0")
    case False
    have "?ps \<noteq> []" using prune_window_last [of "dg_points w @ [(now, avail)]"] by blast
    then have "max_or0 ?ds \<in> set ?ds" by (intro max_or0_in) simp
    then obtain t v where "(t, v) \<in> set ?ps" "d = v - avail" unfolding d by auto
    then show ?thesis using False by auto
  qed simp
  ultimately show ?thesis by (simp add: w')
qed

section \<open>The flap tracker keeps exactly the flaps of its label window\<close>

lemma note_flap_exact:
  assumes "sorted (flaps f)" "\<forall>t \<in> set (flaps f). t \<le> now"
  shows "flaps (note_flap f now) = filter (\<lambda>t. now - FLAP_LABEL_WINDOW_SECS < t) (flaps f) @ [now]"
proof -
  have "sorted (map id (flaps f @ [now]))" using assms by (simp add: sorted_append)
  from dropWhile_sorted_filter [OF this] show ?thesis
    by (simp add: note_flap_def flap_prune_def FLAP_LABEL_WINDOW_SECS_def)
qed

definition flap_ok :: "FlapTracker \<Rightarrow> bool" where
  "flap_ok f \<longleftrightarrow> sorted (flaps f)"

lemma note_flap_ok:
  "flap_ok f \<Longrightarrow> \<forall>t \<in> set (flaps f). t \<le> now \<Longrightarrow> flap_ok (note_flap f now)"
  by (auto simp: flap_ok_def note_flap_exact sorted_append intro: sorted_filter [of id, simplified])

end
