(* ===== verification/BTree.thy ===== *)
theory BTree
  imports Prelude "HOL-Library.Char_ord" "HOL-Library.List_Lexorder"
begin

text \<open>
  The \<open>BTreeMap\<close> of Rust's library: an ordered map, as the interface \<open>ordered_map\<close> the
  components use and the sorted association list that provides it. Strings are ordered by
  bytes, as \<open>str\<close> is (\<open>Char_ord\<close> and \<open>List_Lexorder\<close>).
\<close>

type_synonym ('k, 'v) btree = "('k \<times> 'v) list"

abbreviation (input) bt_empty :: "('k, 'v) btree" where "bt_empty \<equiv> []"

definition bt_get :: "'k \<Rightarrow> ('k, 'v) btree \<Rightarrow> 'v option" where
  "bt_get k m = map_of m k"

fun bt_insert :: "'k::linorder \<Rightarrow> 'v \<Rightarrow> ('k, 'v) btree \<Rightarrow> ('k, 'v) btree" where
  "bt_insert k v [] = [(k, v)]"
| "bt_insert k v ((l, w) # m) =
    (if k < l then (k, v) # (l, w) # m
     else if k = l then (k, v) # m
     else (l, w) # bt_insert k v m)"

definition bt_remove :: "'k \<Rightarrow> ('k, 'v) btree \<Rightarrow> ('k, 'v) btree" where
  "bt_remove k m = filter (\<lambda>(l, w). l \<noteq> k) m"

definition bt_keys :: "('k, 'v) btree \<Rightarrow> 'k list" where
  "bt_keys m = map fst m"

text \<open>\<open>entry(k).or_default()\<close>: the stored value, or the default.\<close>

definition bt_get_or :: "'v \<Rightarrow> 'k \<Rightarrow> ('k, 'v) btree \<Rightarrow> 'v" where
  "bt_get_or d k m = (case bt_get k m of None \<Rightarrow> d | Some v \<Rightarrow> v)"

definition bt_invar :: "('k::linorder, 'v) btree \<Rightarrow> bool" where
  "bt_invar m \<longleftrightarrow> sorted_wrt (<) (map fst m)"

lemma map_of_bt_insert: "bt_invar m \<Longrightarrow> map_of (bt_insert k v m) = (map_of m)(k \<mapsto> v)"
proof (induction k v m rule: bt_insert.induct)
  case (2 k v l w m)
  then show ?case
    by (auto simp: bt_invar_def fun_eq_iff dest!: map_of_SomeD)
qed (auto simp: fun_eq_iff)

lemma map_of_bt_remove: "map_of (bt_remove k m) = (map_of m)(k := None)"
  by (induction m) (auto simp: bt_remove_def fun_eq_iff)

lemma keys_bt_insert: "set (map fst (bt_insert k v m)) = insert k (set (map fst m))"
  by (induction k v m rule: bt_insert.induct) auto

lemma bt_invar_insert: "bt_invar m \<Longrightarrow> bt_invar (bt_insert k v m)"
proof (induction k v m rule: bt_insert.induct)
  case (2 k v l w m)
  then show ?case
    using keys_bt_insert [of k v m] by (auto simp: bt_invar_def)
qed (simp add: bt_invar_def)

lemma bt_invar_remove: "bt_invar m \<Longrightarrow> bt_invar (bt_remove k m)"
  by (induction m) (auto simp: bt_invar_def bt_remove_def)

section \<open>The interface\<close>

locale ordered_map =
  fixes empty :: "'m"
    and lookup :: "'k::linorder \<Rightarrow> 'm \<Rightarrow> 'v option"
    and put :: "'k \<Rightarrow> 'v \<Rightarrow> 'm \<Rightarrow> 'm"
    and drop_key :: "'k \<Rightarrow> 'm \<Rightarrow> 'm"
    and key_list :: "'m \<Rightarrow> 'k list"
    and invar :: "'m \<Rightarrow> bool"
  assumes lookup_empty: "lookup k empty = None"
    and lookup_put: "invar m \<Longrightarrow> lookup k (put l v m) = (if k = l then Some v else lookup k m)"
    and lookup_drop: "invar m \<Longrightarrow> lookup k (drop_key l m) = (if k = l then None else lookup k m)"
    and key_list_lookup: "invar m \<Longrightarrow> k \<in> set (key_list m) \<longleftrightarrow> lookup k m \<noteq> None"
    and key_list_sorted: "invar m \<Longrightarrow> sorted_wrt (<) (key_list m)"
    and invar_empty: "invar empty"
    and invar_put: "invar m \<Longrightarrow> invar (put k v m)"
    and invar_drop: "invar m \<Longrightarrow> invar (drop_key k m)"
begin

lemma key_list_distinct: "invar m \<Longrightarrow> distinct (key_list m)"
  using key_list_sorted strict_sorted_iff by blast

lemma key_list_put: "invar m \<Longrightarrow> set (key_list (put k v m)) = insert k (set (key_list m))"
  using key_list_lookup invar_put lookup_put by (auto split: if_splits)

lemma put_put: "invar m \<Longrightarrow> lookup k (put l v (put l w m)) = lookup k (put l v m)"
  by (simp add: lookup_put invar_put)

lemma drop_put: "invar m \<Longrightarrow> lookup k (drop_key l (put l v m)) = lookup k (drop_key l m)"
  by (simp add: lookup_put lookup_drop invar_put)

text \<open>A fold of insertions keeps the invariant and the last value written wins.\<close>

lemma invar_fold_put: "invar m \<Longrightarrow> invar (foldl (\<lambda>m x. put (f x) (g x) m) m xs)"
  by (induction xs arbitrary: m) (auto simp: invar_put)

lemma lookup_fold_put_notin:
  "invar m \<Longrightarrow> k \<notin> f ` set xs \<Longrightarrow> lookup k (foldl (\<lambda>m x. put (f x) (g x) m) m xs) = lookup k m"
  by (induction xs arbitrary: m) (auto simp: invar_put lookup_put)

end

interpretation bt: ordered_map bt_empty bt_get bt_insert bt_remove bt_keys bt_invar
proof unfold_locales
  fix m :: "('a, 'b) btree" and k l :: 'a and v :: 'b
  show "bt_get k bt_empty = None" by (simp add: bt_get_def)
  show "bt_invar bt_empty" by (simp add: bt_invar_def)
  show "bt_get k (bt_remove l m) = (if k = l then None else bt_get k m)"
    by (simp add: bt_get_def map_of_bt_remove)
  assume i: "bt_invar m"
  then show "bt_get k (bt_insert l v m) = (if k = l then Some v else bt_get k m)"
    by (simp add: bt_get_def map_of_bt_insert)
  show "(k \<in> set (bt_keys m)) = (bt_get k m \<noteq> None)"
    by (auto simp: bt_get_def bt_keys_def map_of_eq_None_iff dest: map_of_SomeD)
  show "sorted_wrt (<) (bt_keys m)" using i by (simp add: bt_invar_def bt_keys_def)
  show "bt_invar (bt_insert k v m)" using i by (rule bt_invar_insert)
  show "bt_invar (bt_remove k m)" using i by (rule bt_invar_remove)
qed

lemmas bt_simps = bt.lookup_empty bt.lookup_put bt.lookup_drop bt.invar_put bt.invar_drop bt.invar_empty

declare bt.invar_put [inv_intros] bt.invar_drop [inv_intros] bt.invar_empty [inv_intros]

lemma bt_get_or_insert:
  "bt_invar m \<Longrightarrow> bt_get_or d k (bt_insert l v m) = (if k = l then v else bt_get_or d k m)"
  by (simp add: bt_get_or_def bt.lookup_put)

text \<open>
  Updates through \<open>entry(k).or_default()\<close> and the weights of maps: what a map of counts sums to, after
  an update and after a merge. The counting components (\<open>gatelog.rs\<close>, \<open>series.rs\<close>) share them.
\<close>

definition bt_upd :: "'v \<Rightarrow> 'k::linorder \<Rightarrow> ('v \<Rightarrow> 'v) \<Rightarrow> ('k, 'v) btree \<Rightarrow> ('k, 'v) btree" where
  "bt_upd d k f m = bt_insert k (f (bt_get_or d k m)) m"

definition bt_bump :: "'k::linorder \<Rightarrow> nat \<Rightarrow> ('k, nat) btree \<Rightarrow> ('k, nat) btree" where
  "bt_bump k n m = bt_upd 0 k (\<lambda>v. v + n) m"

text \<open>\<open>for (k, v) in theirs { mine.entry(k).or_default().merge(v) }\<close>.\<close>

definition bt_merge :: "'v \<Rightarrow> ('v \<Rightarrow> 'v \<Rightarrow> 'v) \<Rightarrow> ('k::linorder, 'v) btree \<Rightarrow> ('k, 'v) btree \<Rightarrow> ('k, 'v) btree" where
  "bt_merge d mrg mine theirs = foldl (\<lambda>m (k, v). bt_upd d k (\<lambda>x. mrg x v) m) mine theirs"

definition bt_weight :: "('v \<Rightarrow> nat) \<Rightarrow> ('k, 'v) btree \<Rightarrow> nat" where
  "bt_weight w m = sum_list (map (\<lambda>(k, v). w v) m)"

lemma bt_upd_invar [inv_intros]: "bt_invar m \<Longrightarrow> bt_invar (bt_upd d k f m)"
  by (simp add: bt_upd_def bt.invar_put)

lemma bt_get_upd:
  "bt_invar m \<Longrightarrow> bt_get_or d l (bt_upd d k f m) = (if l = k then f (bt_get_or d k m) else bt_get_or d l m)"
  by (simp add: bt_upd_def bt_get_or_insert)

lemma bt_get_bump:
  "bt_invar m \<Longrightarrow> bt_get_or 0 l (bt_bump k n m) = bt_get_or 0 l m + (if l = k then n else 0)"
  by (simp add: bt_bump_def bt_get_upd)

lemma bt_merge_simps [simp]:
  "bt_merge d mrg mine [] = mine"
  "bt_merge d mrg mine ((k, v) # theirs) = bt_merge d mrg (bt_upd d k (\<lambda>x. mrg x v) mine) theirs"
  by (simp_all add: bt_merge_def)

lemma bt_weight_simps [simp]: "bt_weight w [] = 0" "bt_weight w ((k, v) # m) = w v + bt_weight w m"
  by (simp_all add: bt_weight_def)

lemma bt_merge_invar [inv_intros]: "bt_invar m \<Longrightarrow> bt_invar (bt_merge d mrg m theirs)"
  by (induction theirs arbitrary: m) (auto simp: inv_intros)

lemma bt_weight_insert:
  "bt_invar m \<Longrightarrow> w d = 0 \<Longrightarrow> bt_weight w (bt_insert k v m) + w (bt_get_or d k m) = bt_weight w m + w v"
proof (induction k v m rule: bt_insert.induct)
  case (2 k v l u m)
  have "k < l \<Longrightarrow> bt_get k m = None"
    using 2(2) by (fastforce simp: bt_get_def bt_invar_def map_of_eq_None_iff)
  then show ?case using 2 by (auto simp: bt_weight_def bt_get_or_def bt_get_def bt_invar_def)
qed (simp add: bt_weight_def bt_get_or_def bt_get_def)

lemma bt_weight_upd:
  "bt_invar m \<Longrightarrow> w d = 0 \<Longrightarrow> w (f (bt_get_or d k m)) = w (bt_get_or d k m) + n \<Longrightarrow>
   bt_weight w (bt_upd d k f m) = bt_weight w m + n"
  using bt_weight_insert [of m w d k "f (bt_get_or d k m)"] by (simp add: bt_upd_def)

lemma bt_weight_bump: "bt_invar m \<Longrightarrow> bt_weight id (bt_bump k n m) = bt_weight id m + n"
  unfolding bt_bump_def by (rule bt_weight_upd) auto

text \<open>The values of a map, for invariants of the values.\<close>

definition bt_all :: "('v \<Rightarrow> bool) \<Rightarrow> ('k, 'v) btree \<Rightarrow> bool" where
  "bt_all P m = list_all (\<lambda>(k, v). P v) m"

lemma bt_all_get_or: "bt_all P m \<Longrightarrow> P d \<Longrightarrow> P (bt_get_or d k m)"
  by (auto simp: bt_all_def bt_get_or_def bt_get_def list_all_iff split: option.split dest: map_of_SomeD)

lemma bt_all_insert: "bt_all P m \<Longrightarrow> P v \<Longrightarrow> bt_all P (bt_insert k v m)"
  by (induction k v m rule: bt_insert.induct) (auto simp: bt_all_def)

lemma bt_all_upd [inv_intros]: "bt_all P m \<Longrightarrow> P d \<Longrightarrow> (\<And>v. P v \<Longrightarrow> P (f v)) \<Longrightarrow> bt_all P (bt_upd d k f m)"
  unfolding bt_upd_def by (intro bt_all_insert) (auto intro: bt_all_get_or)

lemma bt_all_simps [simp]: "bt_all P []" "bt_all P ((k, v) # m) \<longleftrightarrow> P v \<and> bt_all P m"
  by (simp_all add: bt_all_def)

lemma bt_all_merge:
  assumes "bt_all P mine" "bt_all Q theirs" "P d" "\<And>x y. P x \<Longrightarrow> Q y \<Longrightarrow> P (mrg x y)"
  shows "bt_all P (bt_merge d mrg mine theirs)"
  using assms(1,2)
proof (induction theirs arbitrary: mine)
  case (Cons kv theirs)
  obtain k v where kv: "kv = (k, v)" by fastforce
  have "bt_all P (bt_upd d k (\<lambda>x. mrg x v) mine)"
    using Cons.prems kv assms(3,4) by (intro bt_all_upd) auto
  then show ?case using Cons kv by simp
qed simp

lemma bt_weight_merge:
  assumes "bt_invar mine" "bt_all P mine" "bt_all Q theirs" "P d" "w d = 0"
    and "\<And>x y. P x \<Longrightarrow> Q y \<Longrightarrow> P (mrg x y) \<and> w (mrg x y) = w x + w y"
  shows "bt_weight w (bt_merge d mrg mine theirs) = bt_weight w mine + bt_weight w theirs"
  using assms(1-3)
proof (induction theirs arbitrary: mine)
  case (Cons kv theirs)
  obtain k v where kv: "kv = (k, v)" by fastforce
  have q: "Q v" "bt_all Q theirs" using Cons.prems(3) kv by auto
  have old: "P (bt_get_or d k mine)" using Cons.prems(2) assms(4) by (rule bt_all_get_or)
  let ?m = "bt_upd d k (\<lambda>x. mrg x v) mine"
  have "bt_weight w ?m = bt_weight w mine + w v"
    using Cons.prems(1) assms(5) assms(6) [OF old q(1)] by (intro bt_weight_upd) auto
  moreover have "bt_invar ?m" using Cons.prems(1) by (rule bt_upd_invar)
  moreover have "bt_all P ?m" using Cons.prems(2) assms(4,6) q(1) by (intro bt_all_upd) auto
  ultimately show ?case using Cons.IH [of ?m] q(2) kv by simp
qed simp

definition add_counts :: "('k::linorder, nat) btree \<Rightarrow> ('k, nat) btree \<Rightarrow> ('k, nat) btree" where
  "add_counts mine theirs = bt_merge 0 (+) mine theirs"

lemma bt_weight_add_counts:
  "bt_invar mine \<Longrightarrow> bt_weight id (add_counts mine theirs) = bt_weight id mine + bt_weight id theirs"
  unfolding add_counts_def
  by (rule bt_weight_merge [where P = "\<lambda>_. True" and Q = "\<lambda>_. True"]) (auto simp: bt_all_def list_all_iff)

section \<open>Tallies\<close>

text \<open>A tally counts what it is fed and merges with another one. What it counts of a sequence is the
  sum over the sequence, however the sequence was cut into parts that were merged later.\<close>

locale tally =
  fixes empty :: "'s"
    and add :: "'s \<Rightarrow> 'a \<Rightarrow> 's"
    and merge :: "'s \<Rightarrow> 's \<Rightarrow> 's"
    and ok :: "'s \<Rightarrow> bool"
    and tells :: "'s \<Rightarrow> nat"
    and worth :: "'a \<Rightarrow> nat"
  assumes ok_empty: "ok empty"
    and ok_add: "ok s \<Longrightarrow> ok (add s x)"
    and ok_merge: "ok s \<Longrightarrow> ok t \<Longrightarrow> ok (merge s t)"
    and tells_empty: "tells empty = 0"
    and tells_add: "ok s \<Longrightarrow> tells (add s x) = tells s + worth x"
    and tells_merge: "ok s \<Longrightarrow> ok t \<Longrightarrow> tells (merge s t) = tells s + tells t"
begin

definition fed :: "'a list \<Rightarrow> 's" where
  "fed xs = foldl add empty xs"

lemma fed_ok: "ok (fed xs)"
  by (induction xs rule: rev_induct) (auto simp: fed_def ok_empty ok_add)

lemma fed_tells: "tells (fed xs) = sum_list (map worth xs)"
proof (induction xs rule: rev_induct)
  case (snoc x xs)
  then show ?case using tells_add [OF fed_ok [of xs], of x] by (simp add: fed_def)
qed (simp add: fed_def tells_empty)

lemma parts_ok: "ok (foldl merge (fed xs) (map fed xss))"
  by (induction xss rule: rev_induct) (auto simp: fed_ok ok_merge)

lemma parts_tell: "tells (foldl merge (fed xs) (map fed xss)) = tells (fed (xs @ concat xss))"
proof (induction xss rule: rev_induct)
  case (snoc ys xss)
  have "tells (merge (foldl merge (fed xs) (map fed xss)) (fed ys)) =
      tells (foldl merge (fed xs) (map fed xss)) + tells (fed ys)"
    using parts_ok fed_ok by (rule tells_merge)
  then show ?case using snoc by (simp add: fed_tells)
qed simp

lemma parts_sum:
  "tells (foldl merge (foldl add empty xs) (map (foldl add empty) xss)) = sum_list (map worth (xs @ concat xss))"
  using parts_tell [of xs xss] unfolding fed_tells by (simp only: fed_def [abs_def])

end

lemma worth_length: "sum_list (map (\<lambda>x. if P x then 1 else 0) xs) = length (filter P xs)"
  by (induction xs) auto

end
