(* ===== verification/F64.thy ===== *)
theory F64
  imports Prelude Complex_Main "HOL-Library.Log_Nat"
begin

text \<open>
  Rust's \<open>f64\<close>: IEEE 754 binary64 with round-to-nearest-even, as exact rationals plus
  infinities, NaN and the negative zero. Every arithmetic operation of the source is the exact
  rational result followed by \<open>rnd\<close>. The sign and payload of a NaN are not modelled.
\<close>

section \<open>Values and comparisons\<close>

datatype f64 = F_NaN | F_Inf bool | F_NegZero | F_Fin rat

fun rat_of :: "f64 \<Rightarrow> rat" where
  "rat_of (F_Fin r) = r"
| "rat_of _ = 0"

fun is_nan :: "f64 \<Rightarrow> bool" where
  "is_nan F_NaN = True"
| "is_nan _ = False"

fun is_finite :: "f64 \<Rightarrow> bool" where
  "is_finite F_NaN = False"
| "is_finite (F_Inf _) = False"
| "is_finite _ = True"

text \<open>The position on the extended line: infinities carry the classes \<open>-1\<close> and \<open>1\<close>.\<close>

fun f_class :: "f64 \<Rightarrow> int" where
  "f_class (F_Inf True) = - 1"
| "f_class (F_Inf False) = 1"
| "f_class _ = 0"

definition f_lt :: "f64 \<Rightarrow> f64 \<Rightarrow> bool" where
  "f_lt a b \<longleftrightarrow> \<not> is_nan a \<and> \<not> is_nan b \<and>
     (f_class a < f_class b \<or> f_class a = f_class b \<and> rat_of a < rat_of b)"

definition f_le :: "f64 \<Rightarrow> f64 \<Rightarrow> bool" where
  "f_le a b \<longleftrightarrow> \<not> is_nan a \<and> \<not> is_nan b \<and>
     (f_class a < f_class b \<or> f_class a = f_class b \<and> rat_of a \<le> rat_of b)"

definition f_eq :: "f64 \<Rightarrow> f64 \<Rightarrow> bool" where
  "f_eq a b \<longleftrightarrow> f_le a b \<and> f_le b a"

abbreviation f_ge :: "f64 \<Rightarrow> f64 \<Rightarrow> bool" where "f_ge a b \<equiv> f_le b a"
abbreviation f_gt :: "f64 \<Rightarrow> f64 \<Rightarrow> bool" where "f_gt a b \<equiv> f_lt b a"

text \<open>\<open>f64::total_cmp\<close> as "less or equal": negative zero before zero, NaN last.\<close>

fun total_rank :: "f64 \<Rightarrow> int" where
  "total_rank F_NaN = 2"
| "total_rank x = f_class x"

definition total_le :: "f64 \<Rightarrow> f64 \<Rightarrow> bool" where
  "total_le a b \<longleftrightarrow>
     total_rank a < total_rank b \<or>
     total_rank a = total_rank b \<and>
       (rat_of a < rat_of b \<or> rat_of a = rat_of b \<and> (b = F_NegZero \<longrightarrow> a = F_NegZero))"

section \<open>Rounding\<close>

text \<open>Round half to even, on rationals.\<close>

definition rhe :: "rat \<Rightarrow> int" where
  "rhe x = (let f = \<lfloor>x\<rfloor>; d = x - of_int f in
     if d < 1 / 2 then f else if d > 1 / 2 then f + 1 else if even f then f else f + 1)"

text \<open>The binary exponent of a positive rational.\<close>

definition flog2 :: "rat \<Rightarrow> int" where
  "flog2 r = (let (p, q) = quotient_of r; k = bitlen p - bitlen q in
     if 2 powi k \<le> r then k else k - 1)"

definition ulp_exp :: "rat \<Rightarrow> int" where
  "ulp_exp r = max (- 1074) (flog2 r - 52)"

definition rnd_mag :: "rat \<Rightarrow> rat" where
  "rnd_mag r = of_int (rhe (r / 2 powi ulp_exp r)) * 2 powi ulp_exp r"

definition rnd :: "rat \<Rightarrow> f64" where
  "rnd r = (if r = 0 then F_Fin 0
     else let m = rnd_mag \<bar>r\<bar> in
       if m = 0 then (if r < 0 then F_NegZero else F_Fin 0)
       else if 1024 \<le> flog2 m then F_Inf (r < 0)
       else F_Fin (if r < 0 then - m else m))"

section \<open>Arithmetic\<close>

fun f_neg :: "f64 \<Rightarrow> f64" where
  "f_neg F_NaN = F_NaN"
| "f_neg (F_Inf s) = F_Inf (\<not> s)"
| "f_neg F_NegZero = F_Fin 0"
| "f_neg (F_Fin r) = (if r = 0 then F_NegZero else F_Fin (- r))"

fun f_is_neg :: "f64 \<Rightarrow> bool" where
  "f_is_neg (F_Inf s) = s"
| "f_is_neg F_NegZero = True"
| "f_is_neg (F_Fin r) = (r < 0)"
| "f_is_neg F_NaN = False"

text \<open>A zero of the given sign.\<close>

definition f_zero :: "bool \<Rightarrow> f64" where
  "f_zero s = (if s then F_NegZero else F_Fin 0)"

definition f_add :: "f64 \<Rightarrow> f64 \<Rightarrow> f64" where
  "f_add a b =
    (if is_nan a \<or> is_nan b then F_NaN
     else if is_finite a \<and> is_finite b then
       (if a = F_NegZero \<and> b = F_NegZero then F_NegZero else rnd (rat_of a + rat_of b))
     else if is_finite a then b
     else if is_finite b then a
     else if a = b then a else F_NaN)"

definition f_sub :: "f64 \<Rightarrow> f64 \<Rightarrow> f64" where
  "f_sub a b = f_add a (f_neg b)"

definition f_mul :: "f64 \<Rightarrow> f64 \<Rightarrow> f64" where
  "f_mul a b =
    (let s = (f_is_neg a \<noteq> f_is_neg b) in
     if is_nan a \<or> is_nan b then F_NaN
     else if is_finite a \<and> is_finite b then
       (if rat_of a = 0 \<or> rat_of b = 0 then f_zero s else rnd (rat_of a * rat_of b))
     else if is_finite a \<and> rat_of a = 0 \<or> is_finite b \<and> rat_of b = 0 then F_NaN
     else F_Inf s)"

definition f_div :: "f64 \<Rightarrow> f64 \<Rightarrow> f64" where
  "f_div a b =
    (let s = (f_is_neg a \<noteq> f_is_neg b) in
     if is_nan a \<or> is_nan b then F_NaN
     else if is_finite a \<and> is_finite b then
       (if rat_of b = 0 then (if rat_of a = 0 then F_NaN else F_Inf s)
        else if rat_of a = 0 then f_zero s
        else rnd (rat_of a / rat_of b))
     else if is_finite a then f_zero s
     else if is_finite b then F_Inf s
     else F_NaN)"

text \<open>\<open>f64::max\<close>, \<open>min\<close>, \<open>clamp\<close> and \<open>round\<close> (half away from zero).\<close>

definition f_max :: "f64 \<Rightarrow> f64 \<Rightarrow> f64" where
  "f_max a b = (if is_nan a then b else if is_nan b then a else if f_lt a b then b else a)"

definition f_min :: "f64 \<Rightarrow> f64 \<Rightarrow> f64" where
  "f_min a b = (if is_nan a then b else if is_nan b then a else if f_lt b a then b else a)"

definition f_clamp :: "f64 \<Rightarrow> f64 \<Rightarrow> f64 \<Rightarrow> f64" where
  "f_clamp x lo hi = (if f_lt x lo then lo else if f_gt x hi then hi else x)"

definition f_round :: "f64 \<Rightarrow> f64" where
  "f_round x = (if \<not> is_finite x then x
     else let n = \<lfloor>\<bar>rat_of x\<bar> + 1 / 2\<rfloor> in
       if n = 0 then f_zero (f_is_neg x) else F_Fin (if f_is_neg x then - of_int n else of_int n))"

text \<open>\<open>f64::abs\<close>, \<open>floor\<close>, \<open>ceil\<close>, and the saturating cast \<open>as u64\<close> (\<open>as u32\<close>), of \<open>b\<close> bits.\<close>

definition f_abs :: "f64 \<Rightarrow> f64" where
  "f_abs x = (if f_is_neg x then f_neg x else x)"

definition f_floor :: "f64 \<Rightarrow> f64" where
  "f_floor x = (case x of F_Fin r \<Rightarrow> F_Fin (of_int \<lfloor>r\<rfloor>) | _ \<Rightarrow> x)"

definition f_ceil :: "f64 \<Rightarrow> f64" where
  "f_ceil x = (case x of F_Fin r \<Rightarrow> if - 1 < r \<and> r < 0 then F_NegZero else F_Fin (of_int \<lceil>r\<rceil>) | _ \<Rightarrow> x)"

definition f_to_uint :: "nat \<Rightarrow> f64 \<Rightarrow> nat" where
  "f_to_uint b x = (case x of F_Fin r \<Rightarrow> min (nat \<lfloor>r\<rfloor>) (2 ^ b - 1)
     | F_Inf s \<Rightarrow> if s then 0 else 2 ^ b - 1 | _ \<Rightarrow> 0)"

text \<open>Conversions (\<open>as f64\<close>) and literals.\<close>

definition f_of_nat :: "nat \<Rightarrow> f64" where
  "f_of_nat n = rnd (of_nat n)"

definition f_lit :: "rat \<Rightarrow> f64" where
  "f_lit r = rnd r"

text \<open>\<open>iter().sum::<f64>()\<close>: the neutral element of Rust's float sum is \<open>-0.0\<close>.\<close>

definition f_sum :: "f64 list \<Rightarrow> f64" where
  "f_sum xs = foldl f_add F_NegZero xs"

section \<open>The rounding function\<close>

lemma rhe_of_int [simp]: "rhe (of_int n) = n"
  by (simp add: rhe_def)

lemma rhe_bounds: "\<lfloor>x\<rfloor> \<le> rhe x" "rhe x \<le> \<lfloor>x\<rfloor> + 1"
  by (auto simp: rhe_def Let_def)

lemma rhe_mono: "x \<le> y \<Longrightarrow> rhe x \<le> rhe y"
proof (cases "\<lfloor>x\<rfloor> = \<lfloor>y\<rfloor>")
  case True
  assume "x \<le> y"
  then show ?thesis using True by (auto simp: rhe_def Let_def)
next
  case False
  assume "x \<le> y"
  with False have "\<lfloor>x\<rfloor> + 1 \<le> \<lfloor>y\<rfloor>" using floor_mono [of x y] by linarith
  then show ?thesis using rhe_bounds [of x] rhe_bounds [of y] by linarith
qed

lemma rhe_nonneg: "0 \<le> x \<Longrightarrow> 0 \<le> rhe x"
  using rhe_mono [of 0 x] rhe_of_int [of 0] by simp


text \<open>Powers of two with integer exponents.\<close>

lemma pow2_pos [simp]: "0 < (2::rat) powi e"
  by (rule zero_less_power_int) simp

lemma pow2_ne0 [simp]: "(2::rat) powi e \<noteq> 0"
  using pow2_pos [of e] by linarith

lemma pow2_add: "(2::rat) powi (a + b) = 2 powi a * 2 powi b"
  by (rule power_int_add) simp

lemma pow2_le: "a \<le> b \<Longrightarrow> (2::rat) powi a \<le> 2 powi b"
  by (rule power_int_increasing) auto

lemma pow2_less_iff: "(2::rat) powi a < 2 powi b \<longleftrightarrow> a < b"
  using power_int_strict_increasing [of a b "2::rat"] pow2_le [of b a]
  by (meson linorder_not_le one_less_numeral_iff semiring_norm(76))

lemma pow2_nonneg_int: "0 \<le> k \<Longrightarrow> (2::rat) powi k = of_int (2 ^ nat k)"
  by (simp add: power_int_def)

lemma pow2_split:
  "e \<le> k \<Longrightarrow> (2::rat) powi k = of_int (2 ^ nat (k - e)) * 2 powi e"
  using pow2_nonneg_int [of "k - e"] pow2_add [of "k - e" e] by simp

lemma bitlen_pow2_bounds:
  assumes "0 < n"
  shows "(2::rat) powi (bitlen n - 1) \<le> of_int n" "of_int n < (2::rat) powi bitlen n"
proof -
  have b: "2 ^ nat (bitlen n - 1) \<le> n" "n < 2 ^ nat (bitlen n)"
    using bitlen_bounds [OF assms] by auto
  have pos: "0 < bitlen n" using assms bitlen_eq_zero_iff [of n] bitlen_nonneg [of n] by linarith
  have "of_int (2 ^ nat (bitlen n - 1)) \<le> (of_int n :: rat)" using b(1) by (simp only: of_int_le_iff)
  then show "(2::rat) powi (bitlen n - 1) \<le> of_int n" using pos by (simp add: pow2_nonneg_int)
  have "(of_int n :: rat) < of_int (2 ^ nat (bitlen n))" using b(2) by (simp only: of_int_less_iff)
  then show "of_int n < (2::rat) powi bitlen n" using pos by (simp add: pow2_nonneg_int)
qed

lemma flog2_bounds:
  assumes "0 < r"
  shows "2 powi flog2 r \<le> r" "r < 2 powi (flog2 r + 1)"
proof -
  obtain p q where pq: "quotient_of r = (p, q)" by fastforce
  define k where "k = bitlen p - bitlen q"
  have q: "0 < q" using quotient_of_denom_pos [OF pq] .
  have r: "r = of_int p / of_int q" using quotient_of_div [OF pq] .
  have p: "0 < p" using assms q r by (simp add: zero_less_divide_iff)
  note P = bitlen_pow2_bounds [OF p] and Q = bitlen_pow2_bounds [OF q]
  have q0: "(0::rat) < of_int q" and p0: "(0::rat) < of_int p" using q p by simp_all
  have "2 powi (k - 1) * of_int q < (2::rat) powi (k - 1) * 2 powi bitlen q"
    using Q(2) by (intro mult_strict_left_mono) auto
  also have "\<dots> = 2 powi (bitlen p - 1)" by (simp add: k_def flip: pow2_add)
  finally have lo: "2 powi (k - 1) < r" using P(1) q0 by (simp add: r less_divide_eq)
  have "of_int p < (2::rat) powi (k + 1) * 2 powi (bitlen q - 1)"
    using P(2) by (simp add: k_def flip: pow2_add)
  also have "\<dots> \<le> 2 powi (k + 1) * of_int q" using Q(1) by simp
  finally have hi: "r < 2 powi (k + 1)" using q0 by (simp add: r divide_less_eq)
  have f: "flog2 r = (if 2 powi k \<le> r then k else k - 1)"
    by (simp add: flog2_def pq k_def)
  show "2 powi flog2 r \<le> r" using lo f by auto
  show "r < 2 powi (flog2 r + 1)" using hi f by auto
qed

lemma flog2_ge: "0 < r \<Longrightarrow> 2 powi k \<le> r \<Longrightarrow> k \<le> flog2 r"
  using flog2_bounds(2) [of r] pow2_less_iff [of k "flog2 r + 1"] by force

lemma flog2_less: "0 < r \<Longrightarrow> r < 2 powi k \<Longrightarrow> flog2 r < k"
  using flog2_bounds(1) [of r] pow2_less_iff [of "flog2 r" k] by force

lemma flog2_mono: "0 < r \<Longrightarrow> r \<le> s \<Longrightarrow> flog2 r \<le> flog2 s"
  using flog2_ge [of s "flog2 r"] flog2_bounds(1) [of r] by force

text \<open>A rational on the grid of its own ulp is a fixed point of the rounding.\<close>

lemma rnd_mag_grid:
  assumes "r = of_int n * 2 powi e" "ulp_exp r \<le> e"
  shows "rnd_mag r = r"
proof -
  define u where "u = ulp_exp r"
  have eq: "r = of_int (n * 2 ^ nat (e - u)) * 2 powi u"
    using assms pow2_split [of u e] by (simp add: u_def mult.assoc)
  then have "r / 2 powi u = of_int (n * 2 ^ nat (e - u))" by (simp add: divide_eq_eq)
  then have rh: "rhe (r / 2 powi u) = n * 2 ^ nat (e - u)" by (simp only: rhe_of_int)
  show ?thesis unfolding rnd_mag_def u_def [symmetric] rh by (rule eq [symmetric])
qed

lemma rnd_mag_same_exp:
  assumes "ulp_exp r = ulp_exp s" "r \<le> s"
  shows "rnd_mag r \<le> rnd_mag s"
proof -
  have "rhe (r / 2 powi ulp_exp s) \<le> rhe (s / 2 powi ulp_exp s)"
    using assms(2) by (intro rhe_mono divide_right_mono) (auto intro: less_imp_le)
  then show ?thesis by (simp add: rnd_mag_def assms(1))
qed

lemma rnd_mag_le_pow2:
  assumes "0 < r" "r \<le> 2 powi k" "ulp_exp r \<le> k"
  shows "rnd_mag r \<le> 2 powi k"
proof -
  let ?e = "ulp_exp r"
  have split: "(2::rat) powi k = of_int (2 ^ nat (k - ?e)) * 2 powi ?e"
    using assms(3) by (rule pow2_split)
  have "r / 2 powi ?e \<le> of_int (2 ^ nat (k - ?e))"
    using assms(2) unfolding split by (simp add: divide_le_eq)
  then have "rhe (r / 2 powi ?e) \<le> 2 ^ nat (k - ?e)"
    using rhe_mono rhe_of_int by metis
  then have "(of_int (rhe (r / 2 powi ?e)) :: rat) \<le> of_int (2 ^ nat (k - ?e))"
    by (simp only: of_int_le_iff)
  then show ?thesis unfolding split rnd_mag_def by (rule mult_right_mono) (auto intro: less_imp_le)
qed

lemma rnd_mag_ge_pow2:
  assumes "0 < r" "2 powi k \<le> r" "ulp_exp r \<le> k"
  shows "2 powi k \<le> rnd_mag r"
proof -
  let ?e = "ulp_exp r"
  have split: "(2::rat) powi k = of_int (2 ^ nat (k - ?e)) * 2 powi ?e"
    using assms(3) by (rule pow2_split)
  have "of_int (2 ^ nat (k - ?e)) \<le> r / 2 powi ?e"
    using assms(2) unfolding split by (simp add: le_divide_eq)
  then have "2 ^ nat (k - ?e) \<le> rhe (r / 2 powi ?e)"
    using rhe_mono rhe_of_int by metis
  then have "(of_int (2 ^ nat (k - ?e)) :: rat) \<le> of_int (rhe (r / 2 powi ?e))"
    by (simp only: of_int_le_iff)
  then show ?thesis unfolding split rnd_mag_def by (rule mult_right_mono) (auto intro: less_imp_le)
qed

lemma rnd_mag_mono:
  assumes "0 < r" "r \<le> s"
  shows "rnd_mag r \<le> rnd_mag s"
proof (cases "ulp_exp r = ulp_exp s")
  case True
  then show ?thesis using assms rnd_mag_same_exp by blast
next
  case False
  have m: "flog2 r \<le> flog2 s" using flog2_mono assms by blast
  with False have lt: "flog2 r < flog2 s" and big: "- 1074 \<le> flog2 s - 52"
    by (auto simp: ulp_exp_def)
  let ?k = "flog2 s"
  have "r \<le> 2 powi ?k"
    using flog2_bounds(2) [OF assms(1)] pow2_le [of "flog2 r + 1" ?k] lt by force
  moreover have "ulp_exp r \<le> ?k" using lt big by (auto simp: ulp_exp_def)
  ultimately have 1: "rnd_mag r \<le> 2 powi ?k" using rnd_mag_le_pow2 assms(1) by blast
  have "ulp_exp s \<le> ?k" using big by (auto simp: ulp_exp_def)
  then have "2 powi ?k \<le> rnd_mag s"
    using rnd_mag_ge_pow2 [of s ?k] flog2_bounds(1) [of s] assms by linarith
  then show ?thesis using 1 by linarith
qed

lemma rnd_mag_nonneg: "0 \<le> r \<Longrightarrow> 0 \<le> rnd_mag r"
  unfolding rnd_mag_def
  by (intro mult_nonneg_nonneg) (simp_all add: rhe_nonneg less_imp_le)


section \<open>Order\<close>

lemma f_le_refl [simp]: "f_le a a \<longleftrightarrow> \<not> is_nan a"
  by (auto simp: f_le_def)

lemma f_le_trans [trans]: "f_le a b \<Longrightarrow> f_le b c \<Longrightarrow> f_le a c"
  by (auto simp: f_le_def)

lemma f_lt_le: "f_lt a b \<Longrightarrow> f_le a b"
  by (auto simp: f_lt_def f_le_def)

lemma f_le_total: "\<not> is_nan a \<Longrightarrow> \<not> is_nan b \<Longrightarrow> f_le a b \<or> f_le b a"
  by (auto simp: f_le_def)

lemma f_not_lt: "\<not> is_nan a \<Longrightarrow> \<not> is_nan b \<Longrightarrow> \<not> f_lt a b \<longleftrightarrow> f_le b a"
  by (auto simp: f_lt_def f_le_def)

lemma f_lt_imp_not_ge: "f_lt a b \<Longrightarrow> \<not> f_le b a"
  by (auto simp: f_lt_def f_le_def)

lemma f_le_lt_trans: "f_le a b \<Longrightarrow> f_lt b c \<Longrightarrow> f_lt a c"
  by (auto simp: f_lt_def f_le_def)

lemma f_lt_le_trans: "f_lt a b \<Longrightarrow> f_le b c \<Longrightarrow> f_lt a c"
  by (auto simp: f_lt_def f_le_def)

lemma f_lt_irrefl [simp]: "\<not> f_lt a a"
  by (auto simp: f_lt_def)

lemma f_le_Fin [simp]: "f_le (F_Fin a) (F_Fin b) \<longleftrightarrow> a \<le> b"
  by (simp add: f_le_def)

lemma f_lt_Fin [simp]: "f_lt (F_Fin a) (F_Fin b) \<longleftrightarrow> a < b"
  by (simp add: f_lt_def)

lemma f_not_nan_le: "f_le a b \<Longrightarrow> \<not> is_nan a \<and> \<not> is_nan b"
  by (auto simp: f_le_def)

lemma f_class_neg [simp]: "f_class (f_neg a) = - f_class a"
  by (cases a rule: f_class.cases) auto

lemma rat_of_neg [simp]: "rat_of (f_neg a) = - rat_of a"
  by (cases a) auto

lemma is_nan_neg [simp]: "is_nan (f_neg a) = is_nan a"
  by (cases a) auto

lemma f_le_neg [simp]: "f_le (f_neg a) (f_neg b) \<longleftrightarrow> f_le b a"
  by (auto simp: f_le_def)

section \<open>Rounding is monotone and exact on representable numbers\<close>

lemma rnd_0 [simp]: "rnd 0 = F_Fin 0"
  by (simp add: rnd_def)

lemma flog2_ge_iff: "0 < r \<Longrightarrow> k \<le> flog2 r \<longleftrightarrow> 2 powi k \<le> r"
  using flog2_ge flog2_less not_le by metis

lemma pow2_1024: "(2::rat) powi 1024 = 2 ^ 1024"
  by (simp only: power_int_numeral)

lemma rnd_pos:
  assumes "0 < r"
  shows "rnd r = (if 2 ^ 1024 \<le> rnd_mag r then F_Inf False else F_Fin (rnd_mag r))"
proof (cases "rnd_mag r = 0")
  case True
  have "\<not> (2::rat) ^ 1024 \<le> 0" by (simp only: not_le zero_less_power zero_less_numeral)
  then show ?thesis using assms True by (simp add: rnd_def Let_def del: power_le_zero_eq)
next
  case False
  then have "0 < rnd_mag r" using assms rnd_mag_nonneg [of r] by simp
  then have "1024 \<le> flog2 (rnd_mag r) \<longleftrightarrow> 2 ^ 1024 \<le> rnd_mag r"
    by (simp only: flog2_ge_iff pow2_1024)
  then show ?thesis using assms False by (simp add: rnd_def Let_def)
qed

lemma rnd_minus: "r \<noteq> 0 \<Longrightarrow> rnd (- r) = f_neg (rnd r)"
  by (auto simp: rnd_def Let_def)

lemma rnd_not_nan [simp]: "\<not> is_nan (rnd r)"
  by (auto simp: rnd_def Let_def)

lemma rnd_nonneg: "0 \<le> r \<Longrightarrow> f_le (F_Fin 0) (rnd r)"
  by (cases "r = 0") (auto simp: rnd_pos rnd_mag_nonneg f_le_def)

lemma rnd_nonpos: "r \<le> 0 \<Longrightarrow> f_le (rnd r) (F_Fin 0)"
proof (cases "r = 0")
  case False
  assume "r \<le> 0"
  then have "f_le (F_Fin 0) (rnd (- r))" by (intro rnd_nonneg) simp
  then have "f_le (f_neg (rnd (- r))) (f_neg (F_Fin 0))" by (simp only: f_le_neg)
  then show ?thesis using rnd_minus [of r] False by (auto simp: f_le_def)
qed simp

lemma rnd_mono_pos: "0 < r \<Longrightarrow> r \<le> s \<Longrightarrow> f_le (rnd r) (rnd s)"
  using rnd_mag_mono [of r s] by (auto simp: rnd_pos f_le_def)

lemma rnd_mono:
  assumes "r \<le> s"
  shows "f_le (rnd r) (rnd s)"
proof -
  consider "0 < r" | "r \<le> 0" "0 \<le> s" | "s < 0" using assms by linarith
  then show ?thesis
  proof cases
    case 1
    then show ?thesis using assms by (rule rnd_mono_pos)
  next
    case 2
    then show ?thesis using rnd_nonpos rnd_nonneg f_le_trans by blast
  next
    case 3
    then have "f_le (f_neg (rnd r)) (f_neg (rnd s)) \<longleftrightarrow> f_le (rnd (- r)) (rnd (- s))"
      using assms by (simp add: rnd_minus)
    moreover have "f_le (rnd (- s)) (rnd (- r))" using 3 assms by (intro rnd_mono_pos) auto
    ultimately show ?thesis using 3 assms rnd_minus [of r] rnd_minus [of s] by simp
  qed
qed

lemma rnd_grid_pos:
  assumes "r = of_int n * 2 powi e" "0 < n" "n < 2 ^ 53" "- 1074 \<le> e" "r < 2 ^ 1024"
  shows "rnd r = F_Fin r"
proof -
  have pos: "0 < r" using assms(1,2) by simp
  have "(of_int n :: rat) < of_int (2 ^ 53)" using assms(3) by (simp only: of_int_less_iff)
  then have "r < 2 powi 53 * 2 powi e" unfolding assms(1) by (intro mult_strict_right_mono) auto
  then have "r < 2 powi (e + 53)" by (simp add: pow2_add mult.commute)
  then have "flog2 r < e + 53" using flog2_less pos by blast
  then have "ulp_exp r \<le> e" using assms(4) by (simp add: ulp_exp_def)
  then have "rnd_mag r = r" using rnd_mag_grid assms(1) by blast
  then show ?thesis using pos assms(5) by (simp add: rnd_pos)
qed

lemma rnd_of_nat:
  assumes "n < 2 ^ 53"
  shows "rnd (of_nat n) = F_Fin (of_nat n)"
proof (cases "n = 0")
  case False
  have "(of_nat n :: rat) < of_nat (2 ^ 53)" using assms by (simp only: of_nat_less_iff)
  then have "(of_nat n :: rat) < 2 ^ 1024" by (rule less_trans) simp_all
  then show ?thesis
    using False assms by (intro rnd_grid_pos [where n = "int n" and e = 0]) auto
qed simp

lemma rnd_numeral:
  assumes "numeral n < (2 ^ 53 :: nat)"
  shows "rnd (numeral n) = F_Fin (numeral n)"
  using rnd_of_nat [OF assms] by simp

lemma rnd_1 [simp]: "rnd 1 = F_Fin 1"
  using rnd_of_nat [of 1] by simp

lemma f_of_nat_exact: "n < 2 ^ 53 \<Longrightarrow> f_of_nat n = F_Fin (of_nat n)"
  by (simp add: f_of_nat_def rnd_of_nat)

lemma f_of_nat_mono: "m \<le> n \<Longrightarrow> f_le (f_of_nat m) (f_of_nat n)"
  by (auto simp: f_of_nat_def intro: rnd_mono)

lemma f_of_nat_nonneg: "f_le (F_Fin 0) (f_of_nat n)"
  by (simp add: f_of_nat_def rnd_nonneg)

section \<open>Arithmetic facts\<close>

lemma f_max_ge2: "\<not> is_nan b \<Longrightarrow> f_le b (f_max a b)"
  by (auto simp: f_max_def f_not_lt f_lt_le)

lemma f_max_ge1: "\<not> is_nan a \<Longrightarrow> f_le a (f_max a b)"
  by (auto simp: f_max_def f_lt_le)

lemma f_max_nonneg: "f_le (F_Fin 0) (f_max a (F_Fin 0))"
  by (rule f_max_ge2) simp

lemma f_clamp_bounds:
  assumes "\<not> is_nan x" "f_le lo hi"
  shows "f_le lo (f_clamp x lo hi)" "f_le (f_clamp x lo hi) hi"
  using assms f_not_nan_le [OF assms(2)] f_not_lt [of x lo] f_not_lt [of hi x]
  by (auto simp: f_clamp_def)

lemma is_nan_add: "is_finite a \<Longrightarrow> is_finite b \<Longrightarrow> \<not> is_nan (f_add a b)"
  by (cases a; cases b) (auto simp: f_add_def)

lemma f_add_Fin: "f_add (F_Fin a) (F_Fin b) = rnd (a + b)"
  by (simp add: f_add_def)

lemma f_sub_Fin: "f_sub (F_Fin a) (F_Fin b) = rnd (a - b)"
  by (auto simp: f_sub_def f_add_def)

lemma f_mul_Fin_pos: "0 < a \<Longrightarrow> 0 < b \<Longrightarrow> f_mul (F_Fin a) (F_Fin b) = rnd (a * b)"
  by (simp add: f_mul_def)

lemma f_div_Fin_pos: "0 < a \<Longrightarrow> 0 < b \<Longrightarrow> f_div (F_Fin a) (F_Fin b) = rnd (a / b)"
  by (simp add: f_div_def)

text \<open>Values in a representable range stay finite, non-negative and below its end.\<close>

lemma rnd_between_Fin:
  assumes "0 \<le> r" "r \<le> b" "rnd b = F_Fin b"
  shows "\<exists>s. rnd r = F_Fin s \<and> 0 \<le> s \<and> s \<le> b"
proof (cases "r = 0")
  case False
  then have pos: "0 < r" using assms(1) by simp
  have le: "f_le (rnd r) (F_Fin b)" using rnd_mono [OF assms(2)] assms(3) by simp
  have "rnd r \<noteq> F_Inf False" using le by (auto simp: f_le_def)
  then have "rnd r = F_Fin (rnd_mag r)" using rnd_pos [OF pos] by (simp split: if_splits)
  then show ?thesis using le rnd_mag_nonneg [of r] pos by simp
qed (use assms in simp)

lemma rnd_between:
  assumes "0 \<le> r" "r \<le> of_nat n" "n < 2 ^ 53"
  shows "\<exists>s. rnd r = F_Fin s \<and> 0 \<le> s \<and> s \<le> of_nat n"
  using rnd_between_Fin [OF assms(1,2) rnd_of_nat [OF assms(3)]] .

lemma f_of_nat_u64:
  assumes "n < 2 ^ 64"
  shows "\<exists>r. f_of_nat n = F_Fin r \<and> 0 \<le> r \<and> (0 < n \<longrightarrow> 1 \<le> r)"
proof -
  have "(2::rat) ^ 64 < 2 ^ 1024" by (rule power_strict_increasing) simp_all
  then have top: "rnd (2 ^ 64) = F_Fin (2 ^ 64)"
    by (intro rnd_grid_pos [where n = 1 and e = 64]) (simp_all only: power_int_numeral of_int_1, simp_all)
  have "(of_nat n :: rat) \<le> of_nat (2 ^ 64)" using assms by (simp only: of_nat_le_iff)
  then have "(of_nat n :: rat) \<le> 2 ^ 64" by (simp only: of_nat_power of_nat_numeral)
  from rnd_between_Fin [OF _ this top] obtain r where r: "f_of_nat n = F_Fin r" "0 \<le> r"
    by (auto simp: f_of_nat_def)
  have "1 \<le> r" if "0 < n"
    using f_of_nat_mono [of 1 n] that r by (simp add: f_of_nat_exact)
  then show ?thesis using r by blast
qed

lemma f_div_share:
  assumes "a \<le> b" "0 < b" "b < 2 ^ 64"
  shows "\<exists>r. f_div (f_of_nat a) (f_of_nat b) = F_Fin r \<and> 0 \<le> r \<and> r \<le> 1"
proof -
  obtain ra where ra: "f_of_nat a = F_Fin ra" "0 \<le> ra" using f_of_nat_u64 [of a] assms by auto
  obtain rb where rb: "f_of_nat b = F_Fin rb" "1 \<le> rb" using f_of_nat_u64 [of b] assms by auto
  have "ra \<le> rb" using f_of_nat_mono [OF assms(1)] ra rb by simp
  show ?thesis
  proof (cases "ra = 0")
    case True
    then show ?thesis using ra rb by (simp add: f_div_def f_zero_def)
  next
    case False
    then have "f_div (F_Fin ra) (F_Fin rb) = rnd (ra / rb)" using ra rb by (intro f_div_Fin_pos) auto
    moreover have "0 \<le> ra / rb" "ra / rb \<le> of_nat 1" using ra rb \<open>ra \<le> rb\<close> by (auto simp: divide_le_eq)
    ultimately show ?thesis using rnd_between [of "ra / rb" 1] ra rb by auto
  qed
qed

end
