(* ===== verification/RustText.thy ===== *)
theory RustText
  imports F64
begin

text \<open>
  The parts of Rust's string library the program uses, on UTF-8 byte lists (\<open>string\<close>):
  number printing and parsing, trimming, splitting, searching. Whitespace is the ASCII
  whitespace of \<open>char::is_whitespace\<close>; the multi-byte Unicode spaces are not modelled.
\<close>

section \<open>Printing\<close>

definition digit_char :: "nat \<Rightarrow> char" where
  "digit_char d = char_of (48 + d)"

fun show_nat :: "nat \<Rightarrow> string" where
  "show_nat n = (if n < 10 then [digit_char n] else show_nat (n div 10) @ [digit_char (n mod 10)])"

declare show_nat.simps [simp del]

definition show_int :: "int \<Rightarrow> string" where
  "show_int i = (if i < 0 then ''-'' @ show_nat (nat (- i)) else show_nat (nat i))"

text \<open>\<open>{:0w}\<close> of a non-negative number.\<close>

definition pad0 :: "nat \<Rightarrow> string \<Rightarrow> string" where
  "pad0 w s = replicate (w - length s) CHR ''0'' @ s"

definition show_bool :: "bool \<Rightarrow> string" where
  "show_bool b = (if b then ''true'' else ''false'')"

text \<open>\<open>{:.p}\<close> of an \<open>f64\<close>: the exact value rounded half to even at \<open>p\<close> decimals.\<close>

definition fixed_digits :: "nat \<Rightarrow> nat \<Rightarrow> string" where
  "fixed_digits p n =
    (if p = 0 then show_nat n
     else show_nat (n div 10 ^ p) @ ''.'' @ pad0 p (show_nat (n mod 10 ^ p)))"

fun fmt_fixed :: "nat \<Rightarrow> f64 \<Rightarrow> string" where
  "fmt_fixed p F_NaN = ''NaN''"
| "fmt_fixed p (F_Inf s) = (if s then ''-inf'' else ''inf'')"
| "fmt_fixed p x = (if f_is_neg x then ''-'' else '''') @ fixed_digits p (nat (rhe (\<bar>rat_of x\<bar> * 10 ^ p)))"

text \<open>\<open>{}\<close> of an \<open>f64\<close>: the shortest decimal that reads back as the same value, the nearest one of
  that length, never in exponent form. \<open>dec_exp r\<close> is the \<open>k\<close> with \<open>10^(k-1) \<le> r < 10^k\<close> (330
  decimal places are enough for every binary64 value); 17 digits are always enough.\<close>

fun dec_exp_small :: "nat \<Rightarrow> rat \<Rightarrow> int" where
  "dec_exp_small 0 r = 0"
| "dec_exp_small (Suc fuel) r = (if 1 \<le> r * 10 then 0 else dec_exp_small fuel (r * 10) - 1)"

definition dec_exp :: "rat \<Rightarrow> int" where
  "dec_exp r = (if 1 \<le> r then int (length (show_nat (nat \<lfloor>r\<rfloor>))) else dec_exp_small 330 r)"

definition digits_of_length :: "rat \<Rightarrow> nat \<Rightarrow> (int \<times> int) option" where
  "digits_of_length r n =
    (let e = dec_exp r - int n; q = r / 10 powi e; lo = \<lfloor>q\<rfloor>; hi = lo + 1;
         ok = (\<lambda>c. rnd (of_int c * 10 powi e) = F_Fin r)
     in if ok lo \<and> (\<not> ok hi \<or> q - of_int lo \<le> of_int hi - q) then Some (lo, e)
        else if ok hi then Some (hi, e) else None)"

fun shortest_from :: "rat \<Rightarrow> nat \<Rightarrow> nat \<Rightarrow> int \<times> int" where
  "shortest_from r n 0 = (\<lfloor>r\<rfloor>, 0)"
| "shortest_from r n (Suc fuel) =
    (case digits_of_length r n of Some ce \<Rightarrow> ce | None \<Rightarrow> shortest_from r (Suc n) fuel)"

definition strip_zeros :: "string \<Rightarrow> string" where
  "strip_zeros s = rev (let t = dropWhile (\<lambda>c. c = CHR ''0'') (rev s) in
     if t \<noteq> [] \<and> hd t = CHR ''.'' then tl t else t)"

fun show_f64 :: "f64 \<Rightarrow> string" where
  "show_f64 F_NaN = ''NaN''"
| "show_f64 (F_Inf s) = (if s then ''-inf'' else ''inf'')"
| "show_f64 F_NegZero = ''-0''"
| "show_f64 (F_Fin r) =
    (if r = 0 then ''0''
     else let (c, e) = shortest_from \<bar>r\<bar> 1 17 in
       (if r < 0 then ''-'' else []) @
       (if 0 \<le> e then show_nat (nat c * 10 ^ nat e)
        else strip_zeros (fixed_digits (nat (- e)) (nat c))))"

text \<open>\<open>Vec<String>::join\<close>.\<close>

fun join :: "string \<Rightarrow> string list \<Rightarrow> string" where
  "join sep [] = []"
| "join sep [x] = x"
| "join sep (x # y # ys) = x @ sep @ join sep (y # ys)"

section \<open>Characters and trimming\<close>

definition is_ws :: "char \<Rightarrow> bool" where
  "is_ws c \<longleftrightarrow> c = CHR '' '' \<or> 9 \<le> (of_char c :: nat) \<and> (of_char c :: nat) \<le> 13"

definition is_digit :: "char \<Rightarrow> bool" where
  "is_digit c \<longleftrightarrow> 48 \<le> (of_char c :: nat) \<and> (of_char c :: nat) \<le> 57"

definition is_alnum :: "char \<Rightarrow> bool" where
  "is_alnum c \<longleftrightarrow> is_digit c \<or> 65 \<le> (of_char c :: nat) \<and> (of_char c :: nat) \<le> 90
     \<or> 97 \<le> (of_char c :: nat) \<and> (of_char c :: nat) \<le> 122"

definition to_lower :: "char \<Rightarrow> char" where
  "to_lower c = (let n = of_char c :: nat in if 65 \<le> n \<and> n \<le> 90 then char_of (n + 32) else c)"

definition to_ascii_lowercase :: "string \<Rightarrow> string" where
  "to_ascii_lowercase s = map to_lower s"

definition trim_start_by :: "(char \<Rightarrow> bool) \<Rightarrow> string \<Rightarrow> string" where
  "trim_start_by P s = dropWhile P s"

definition trim_end_by :: "(char \<Rightarrow> bool) \<Rightarrow> string \<Rightarrow> string" where
  "trim_end_by P s = rev (dropWhile P (rev s))"

definition trim :: "string \<Rightarrow> string" where
  "trim s = trim_end_by is_ws (trim_start_by is_ws s)"

section \<open>Splitting and searching\<close>

fun starts_with :: "string \<Rightarrow> string \<Rightarrow> bool" where
  "starts_with s [] = True"
| "starts_with [] (p # ps) = False"
| "starts_with (c # s) (p # ps) = (c = p \<and> starts_with s ps)"

definition strip_prefix :: "string \<Rightarrow> string \<Rightarrow> string option" where
  "strip_prefix s p = (if starts_with s p then Some (drop (length p) s) else None)"

text \<open>\<open>str::split_once\<close>: the parts before and after the first occurrence.\<close>

fun split_once :: "string \<Rightarrow> string \<Rightarrow> (string \<times> string) option" where
  "split_once pat [] = (if pat = [] then Some ([], []) else None)"
| "split_once pat (c # s) =
    (if starts_with (c # s) pat then Some ([], drop (length pat) (c # s))
     else (case split_once pat s of None \<Rightarrow> None | Some (a, b) \<Rightarrow> Some (c # a, b)))"

text \<open>\<open>str::contains\<close>, \<open>ends_with\<close> and \<open>rsplit_once\<close> with a character.\<close>

fun contains :: "string \<Rightarrow> string \<Rightarrow> bool" where
  "contains [] p \<longleftrightarrow> p = []"
| "contains (c # s) p \<longleftrightarrow> starts_with (c # s) p \<or> contains s p"

definition ends_with :: "string \<Rightarrow> string \<Rightarrow> bool" where
  "ends_with s p \<longleftrightarrow> starts_with (rev s) (rev p)"

definition rsplit_at :: "char \<Rightarrow> string \<Rightarrow> (string \<times> string) option" where
  "rsplit_at c s =
    (if c \<notin> set s then None
     else let back = takeWhile (\<lambda>d. d \<noteq> c) (rev s) in Some (rev (drop (Suc (length back)) (rev s)), rev back))"

text \<open>\<open>str::split(char)\<close>: never empty.\<close>

fun split_on :: "char \<Rightarrow> string \<Rightarrow> string list" where
  "split_on d [] = [[]]"
| "split_on d (c # s) =
    (if c = d then [] # split_on d s
     else (case split_on d s of [] \<Rightarrow> [[c]] | w # ws \<Rightarrow> (c # w) # ws))"

text \<open>\<open>str::lines\<close>: the pieces before each line feed, less one carriage return at their end, and the
  rest after the last line feed when there is any.\<close>

definition strip_cr :: "string \<Rightarrow> string" where
  "strip_cr s = (if s \<noteq> [] \<and> last s = CHR 0x0D then butlast s else s)"

definition str_lines :: "string \<Rightarrow> string list" where
  "str_lines s = (let ps = split_on CHR 0x0A s in
     map strip_cr (butlast ps) @ (if last ps = [] then [] else [last ps]))"

text \<open>\<open>split_whitespace\<close>: the maximal runs of non-whitespace.\<close>

fun words_acc :: "string \<Rightarrow> string \<Rightarrow> string list" where
  "words_acc w [] = (if w = [] then [] else [w])"
| "words_acc w (c # s) =
    (if is_ws c then (if w = [] then words_acc [] s else w # words_acc [] s)
     else words_acc (w @ [c]) s)"

definition split_whitespace :: "string \<Rightarrow> string list" where
  "split_whitespace s = words_acc [] s"

section \<open>Parsing numbers\<close>

definition digit_val :: "char \<Rightarrow> nat" where
  "digit_val c = of_char c - 48"

definition digits_val :: "string \<Rightarrow> nat" where
  "digits_val s = foldl (\<lambda>n c. 10 * n + digit_val c) 0 s"

text \<open>\<open>uN::from_str\<close>: an optional plus, at least one digit, no overflow.\<close>

definition strip_plus :: "string \<Rightarrow> string" where
  "strip_plus s = (case s of c # t \<Rightarrow> if c = CHR ''+'' \<and> t \<noteq> [] then t else s | [] \<Rightarrow> s)"

definition parse_uint :: "nat \<Rightarrow> string \<Rightarrow> nat option" where
  "parse_uint bits s = (let d = strip_plus s in
     if d \<noteq> [] \<and> list_all is_digit d \<and> digits_val d < 2 ^ bits then Some (digits_val d) else None)"

text \<open>\<open>uN::from_str_radix(_, 16)\<close>.\<close>

definition hex_val :: "char \<Rightarrow> nat option" where
  "hex_val c = (let n = of_char c in
     if is_digit c then Some (n - 48)
     else if 65 \<le> n \<and> n \<le> 70 then Some (n - 55)
     else if 97 \<le> n \<and> n \<le> 102 then Some (n - 87) else None)"

definition parse_hex :: "nat \<Rightarrow> string \<Rightarrow> nat option" where
  "parse_hex bits s = (let d = strip_plus s; v = foldl (\<lambda>n c. 16 * n + the (hex_val c)) 0 d in
     if d \<noteq> [] \<and> list_all (\<lambda>c. hex_val c \<noteq> None) d \<and> v < 2 ^ bits then Some v else None)"

text \<open>\<open>f64::from_str\<close>: sign, then \<open>inf\<close>, \<open>infinity\<close>, \<open>nan\<close> in any case, or digits with an
  optional fraction (one digit at least in all) and an optional exponent.\<close>

definition parse_exp :: "string \<Rightarrow> int option" where
  "parse_exp s =
    (case s of [] \<Rightarrow> Some 0
     | c # t \<Rightarrow>
        if c = CHR ''e'' \<or> c = CHR ''E'' then
          (let neg = (t \<noteq> [] \<and> hd t = CHR ''-'');
               u = (if t \<noteq> [] \<and> (hd t = CHR ''-'' \<or> hd t = CHR ''+'') then tl t else t)
           in if u \<noteq> [] \<and> list_all is_digit u
              then Some (if neg then - int (digits_val u) else int (digits_val u)) else None)
        else None)"

definition parse_decimal :: "string \<Rightarrow> rat option" where
  "parse_decimal s =
    (let ip = takeWhile is_digit s; r = dropWhile is_digit s;
         has_dot = (r \<noteq> [] \<and> hd r = CHR ''.'');
         fp = (if has_dot then takeWhile is_digit (tl r) else []);
         r2 = (if has_dot then dropWhile is_digit (tl r) else r)
     in if ip = [] \<and> fp = [] then None
        else map_option (\<lambda>e. of_nat (digits_val (ip @ fp)) * 10 powi (e - int (length fp))) (parse_exp r2))"

definition parse_unsigned_f64 :: "string \<Rightarrow> f64 option" where
  "parse_unsigned_f64 s =
    (let l = to_ascii_lowercase s in
     if l = ''inf'' \<or> l = ''infinity'' then Some (F_Inf False)
     else if l = ''nan'' then Some F_NaN
     else map_option rnd (parse_decimal s))"

definition parse_f64 :: "string \<Rightarrow> f64 option" where
  "parse_f64 s =
    (case s of
       c # t \<Rightarrow> if c = CHR ''-'' then map_option f_neg (parse_unsigned_f64 t)
                else if c = CHR ''+'' then parse_unsigned_f64 t
                else parse_unsigned_f64 s
     | [] \<Rightarrow> None)"

section \<open>Facts\<close>

lemma of_char_digit: "d < 10 \<Longrightarrow> (of_char (digit_char d) :: nat) = 48 + d"
  by (simp add: digit_char_def)

lemma is_digit_digit_char [simp]: "d < 10 \<Longrightarrow> is_digit (digit_char d)"
  by (simp add: is_digit_def of_char_digit)

lemma digit_val_digit_char [simp]: "d < 10 \<Longrightarrow> digit_val (digit_char d) = d"
  by (simp add: digit_val_def of_char_digit)

lemma show_nat_ne [simp]: "show_nat n \<noteq> []"
  by (subst show_nat.simps) simp

lemma show_nat_digits: "list_all is_digit (show_nat n)"
proof (induction n rule: show_nat.induct)
  case (1 n)
  then show ?case by (subst show_nat.simps) auto
qed

lemma digits_val_snoc [simp]: "digits_val (s @ [c]) = 10 * digits_val s + digit_val c"
  by (simp add: digits_val_def)

lemma digits_val_single [simp]: "digits_val [c] = digit_val c"
  by (simp add: digits_val_def)

lemma digits_val_show_nat [simp]: "digits_val (show_nat n) = n"
proof (induction n rule: show_nat.induct)
  case (1 n)
  then show ?case by (subst show_nat.simps) auto
qed

lemma is_digit_not: "is_digit c \<Longrightarrow> c \<noteq> CHR ''+'' \<and> c \<noteq> CHR ''-'' \<and> c \<noteq> CHR '':'' \<and> c \<noteq> CHR '','' \<and> c \<noteq> CHR '' ''"
  by (auto simp: is_digit_def)

lemma is_digit_not_ws: "is_digit c \<Longrightarrow> \<not> is_ws c"
  by (auto simp: is_digit_def is_ws_def)

lemma strip_plus_digits: "list_all is_digit s \<Longrightarrow> strip_plus s = s"
  by (auto simp: strip_plus_def dest: is_digit_not split: list.splits)

lemma parse_uint_show: "n < 2 ^ b \<Longrightarrow> parse_uint b (show_nat n) = Some n"
  by (simp add: parse_uint_def strip_plus_digits show_nat_digits Let_def)

lemma parse_uint_bound: "parse_uint b s = Some n \<Longrightarrow> n < 2 ^ b"
  by (auto simp: parse_uint_def Let_def split: if_splits)

lemma split_on_ne [simp]: "split_on d s \<noteq> []"
  by (cases s) (auto split: list.splits)

lemma split_on_no: "d \<notin> set s \<Longrightarrow> split_on d s = [s]"
  by (induction s) auto

lemma split_on_append: "d \<notin> set s \<Longrightarrow> split_on d (s @ d # t) = s # split_on d t"
  by (induction s) auto

lemma split_on_app: "split_on d (s @ d # t) = split_on d s @ split_on d t"
  by (induction s) (auto split: list.splits)

lemma str_lines_app:
  "str_lines (s @ CHR 0x0A # t) = str_lines (s @ [CHR 0x0A]) @ str_lines t"
  using split_on_app [of "CHR 0x0A" s t] split_on_app [of "CHR 0x0A" s "[]"]
  by (simp add: str_lines_def Let_def butlast_append)

lemma split_on_join:
  "list_all (\<lambda>p. d \<notin> set p) (p # ps) \<Longrightarrow> split_on d (join [d] (p # ps)) = p # ps"
  by (induction ps arbitrary: p) (auto simp: split_on_no split_on_append)

lemma starts_with_append [simp]: "starts_with (p @ s) p"
  by (induction p) auto

lemma starts_with_iff: "starts_with s p \<longleftrightarrow> (\<exists>t. s = p @ t)"
  by (induction s p rule: starts_with.induct) auto

lemma strip_prefix_Some: "strip_prefix s p = Some t \<longleftrightarrow> s = p @ t"
  by (auto simp: strip_prefix_def starts_with_iff)

lemma split_once_Some: "split_once pat s = Some (a, b) \<Longrightarrow> s = a @ pat @ b"
proof (induction s arbitrary: a)
  case (Cons c s)
  then show ?case by (auto simp: starts_with_iff split: if_splits option.splits)
qed (auto split: if_splits)

lemma trim_start_id: "s = [] \<or> \<not> is_ws (hd s) \<Longrightarrow> trim_start_by is_ws s = s"
  by (cases s) (auto simp: trim_start_by_def)

lemma trim_end_id: "s = [] \<or> \<not> is_ws (last s) \<Longrightarrow> trim_end_by is_ws s = s"
  by (cases s rule: rev_cases) (auto simp: trim_end_by_def)

lemma trim_end_append:
  "a \<noteq> [] \<Longrightarrow> \<not> P (last a) \<Longrightarrow> trim_end_by P (a @ b) = a @ trim_end_by P b"
  by (cases a rule: rev_cases) (auto simp: trim_end_by_def dropWhile_append)

lemma trim_id: "s = [] \<or> \<not> is_ws (hd s) \<and> \<not> is_ws (last s) \<Longrightarrow> trim s = s"
  by (auto simp: trim_def trim_start_id trim_end_id)

end
