(* ===== verification/Gate.thy ===== *)
theory Gate
  imports RustText BTree
begin

text \<open>
  \<open>crates/lss-core/src/gate.rs\<close>: what the gateway's \<open>GET /gate/health\<close> says. The JSON reader
  (\<open>serde_json\<close>) is outside the model: \<open>parse_gate_health\<close> starts from the deserialised
  \<open>RawHealth\<close>, with the upstreams in the document's order.
\<close>

record LaneAdmission =
  la_admitted :: u64
  la_rejected_413 :: u64
  la_rejected_429 :: u64
  la_client_closed :: u64
  la_upstream_down :: u64
  la_max_duration :: u64
  la_inflight_tokens :: u64
  la_waiters :: u64
  la_budget_tokens :: "u64 option"
  la_max_prompt_tokens :: "u64 option"

definition lane_default :: LaneAdmission where
  "lane_default = \<lparr>la_admitted = 0, la_rejected_413 = 0, la_rejected_429 = 0, la_client_closed = 0,
     la_upstream_down = 0, la_max_duration = 0, la_inflight_tokens = 0, la_waiters = 0,
     la_budget_tokens = None, la_max_prompt_tokens = None\<rparr>"

record GateShadow =
  sh_enabled :: bool
  sh_scrapes_ok :: u64
  sh_scrapes_failed :: u64
  sh_healthy :: bool
  sh_cache_warm :: "bool option"
  sh_cold_since_age_s :: "f64 option"
  sh_charge_errors :: u64
  sh_recent_admissions :: u64
  sh_recent_discounted :: u64
  sh_seconds_to_drain_charged :: "f64 option"

definition discount_inert :: "GateShadow \<Rightarrow> u64 \<Rightarrow> bool" where
  "discount_inert sh min_n \<longleftrightarrow>
     sh_enabled sh \<and> sh_healthy sh \<and> sh_cache_warm sh = Some True \<and>
     min_n \<le> sh_recent_admissions sh \<and> sh_recent_discounted sh = 0"

record UpstreamLoad =
  ul_inflight :: u64
  ul_requests_24h :: u64
  ul_peak_inflight_10m :: u64
  ul_peak_inflight_24h :: u64

record GateUser =
  gu_lane :: string
  gu_user :: string
  gu_inflight :: u64
  gu_peak_inflight_10m :: u64
  gu_peak_inflight_24h :: u64
  gu_conc_limit :: "u64 option"
  gu_rpm_limit :: "u64 option"
  gu_rpm_now :: u64
  gu_requests_1h :: u64
  gu_requests_24h :: u64
  gu_ok_24h :: u64
  gu_rejected_24h :: u64
  gu_errors_24h :: u64
  gu_client_closed_24h :: u64
  gu_prompt_tokens_est_24h :: u64
  gu_completion_tokens_24h :: u64
  gu_completion_tokens_exact :: bool
  gu_inflight_prompt_tokens_est :: u64
  gu_first_seen :: f64
  gu_last_seen :: f64
  gu_last_status :: "nat option"
  gu_by_upstream :: "(string, UpstreamLoad) btree"

record GateTotals =
  gt_inflight :: u64
  gt_inflight_by_upstream :: "(string, u64) btree option"
  gt_users_active_10m :: u64
  gt_users_24h :: u64
  gt_unauthenticated_24h :: u64

record GateHealth =
  gah_version :: string
  gah_upstream_ok :: bool
  gah_trusted :: LaneAdmission
  gah_public :: LaneAdmission
  gah_shadow :: "GateShadow option"
  gah_users :: "GateUser list option"
  gah_totals :: "GateTotals option"
  gah_attributed_upstreams :: "string list option"
  gah_upstream_loaded :: "(string, string list) btree"

text \<open>The characters of a UTF-8 string, each as its first byte: \<open>chars()\<close> seen through an
  ASCII test.\<close>

definition lead_bytes :: "string \<Rightarrow> string" where
  "lead_bytes s = filter (\<lambda>c. (of_char c :: nat) div 64 \<noteq> 2) s"

definition id_char :: "char \<Rightarrow> char" where
  "id_char c = (if is_alnum c \<or> c = CHR ''.'' \<or> c = CHR ''_'' \<or> c = CHR ''-'' then c else CHR ''_'')"

definition upstream_series_id :: "string \<Rightarrow> string" where
  "upstream_series_id upstream = take 40 (map id_char (lead_bytes upstream))"

definition series_id :: "string \<Rightarrow> string \<Rightarrow> string" where
  "series_id lane user =
    (let clean = take 40 (map id_char (lead_bytes user)) in
     (if lane = ''trusted'' then ''t'' else ''p'') @ ''.'' @ clean)"

text \<open>\<open>[one] = hits.as_slice()\<close> singles out an upstream only when exactly one serves the model.\<close>

definition this_upstream :: "GateHealth \<Rightarrow> string option \<Rightarrow> string option" where
  "this_upstream g engine_model =
    (case gah_attributed_upstreams g of None \<Rightarrow> None
     | Some ups \<Rightarrow>
        let first = (case ups of [] \<Rightarrow> None | u # _ \<Rightarrow> Some u) in
        case engine_model of None \<Rightarrow> first
        | Some m \<Rightarrow> if m = [] then first
           else case filter (\<lambda>u. case bt_get u (gah_upstream_loaded g) of
                  None \<Rightarrow> False | Some l \<Rightarrow> m \<in> set l) ups of
                [one] \<Rightarrow> Some one
              | _ \<Rightarrow> first)"

definition gate_rejected_413 :: "GateHealth \<Rightarrow> u64" where
  "gate_rejected_413 g = u64_add (la_rejected_413 (gah_trusted g)) (la_rejected_413 (gah_public g))"

definition gate_rejected_429 :: "GateHealth \<Rightarrow> u64" where
  "gate_rejected_429 g = u64_add (la_rejected_429 (gah_trusted g)) (la_rejected_429 (gah_public g))"

record RawUpstream =
  ru_ok :: bool
  ru_loaded :: "string list"

record RawHealth =
  rh_version :: string
  rh_upstreams :: "(string \<times> RawUpstream) list"
  rh_admission :: "(string, LaneAdmission) btree"
  rh_users :: "GateUser list option"
  rh_totals :: "GateTotals option"
  rh_shadow :: "GateShadow option"

text \<open>\<open>parse_gate_health\<close> after deserialisation; \<open>collect\<close> into a \<open>BTreeMap\<close> inserts in order.\<close>

definition gate_health_of_raw :: "RawHealth \<Rightarrow> GateHealth" where
  "gate_health_of_raw raw =
    (let attributed = (case rh_totals raw of None \<Rightarrow> False | Some t \<Rightarrow> gt_inflight_by_upstream t \<noteq> None) in
     \<lparr>gah_version = rh_version raw,
      gah_upstream_ok = (rh_upstreams raw \<noteq> [] \<and> list_all (\<lambda>(_, u). ru_ok u) (rh_upstreams raw)),
      gah_trusted = bt_get_or lane_default ''trusted'' (rh_admission raw),
      gah_public = bt_get_or lane_default ''public'' (rh_admission raw),
      gah_shadow = rh_shadow raw,
      gah_users = rh_users raw,
      gah_totals = rh_totals raw,
      gah_attributed_upstreams = (if attributed then Some (map fst (rh_upstreams raw)) else None),
      gah_upstream_loaded = foldl (\<lambda>m x. bt_insert (fst x) (ru_loaded (snd x)) m) bt_empty (rh_upstreams raw)\<rparr>)"

definition parse_gate_health :: "(string \<Rightarrow> RawHealth option) \<Rightarrow> string \<Rightarrow> GateHealth option" where
  "parse_gate_health from_json json = map_option gate_health_of_raw (from_json json)"

section \<open>Facts\<close>

lemma id_char_safe: "id_char c \<noteq> CHR '','' \<and> id_char c \<noteq> CHR '':'' \<and> id_char c \<noteq> CHR '' ''"
  by (auto simp: id_char_def is_alnum_def is_digit_def)

lemma series_id_safe:
  "set (series_id lane user) \<inter> {CHR '','', CHR '':'', CHR '' ''} = {} \<and>
   length (series_id lane user) \<le> 42"
proof -
  have "\<forall>x \<in> set (take 40 (map id_char (lead_bytes user))). x \<noteq> CHR '','' \<and> x \<noteq> CHR '':'' \<and> x \<noteq> CHR '' ''"
    using id_char_safe by (fastforce dest: in_set_takeD)
  then show ?thesis by (auto simp: series_id_def Let_def)
qed

text \<open>The chosen upstream is one of the gate's own.\<close>

lemma this_upstream_configured:
  assumes "this_upstream g m = Some u"
  shows "\<exists>ups. gah_attributed_upstreams g = Some ups \<and> u \<in> set ups"
proof -
  obtain ups where ups: "gah_attributed_upstreams g = Some ups"
    using assms by (auto simp: this_upstream_def split: option.splits)
  have first: "(case ups of [] \<Rightarrow> None | x # _ \<Rightarrow> Some x) = Some u \<Longrightarrow> u \<in> set ups"
    by (auto split: list.splits)
  have filt: "filter P ups = [u] \<Longrightarrow> u \<in> set ups" for P
    by (metis filter_is_subset list.set_intros(1) subsetD)
  show ?thesis
    using assms first filt
    by (auto simp: this_upstream_def ups Let_def split: option.splits if_splits list.splits)
qed

end
