(* ===== verification/TimeUtil.thy ===== *)
theory TimeUtil
  imports RustText
begin

text \<open>
  \<open>crates/lss-core/src/timeutil.rs\<close>: duration text and the timestamp parsers. The parsers of
  the \<open>chrono\<close> crate are parameters: \<open>rfc\<close> for \<open>DateTime::parse_from_rfc3339\<close> and \<open>isoz\<close>
  for \<open>DateTime::parse_from_str(_, "%Y-%m-%dT%H:%M:%S%z")\<close>, both as unix seconds.
\<close>

definition parse_rfc3339 :: "(string \<Rightarrow> i64 option) \<Rightarrow> string \<Rightarrow> i64 option" where
  "parse_rfc3339 rfc s = rfc (trim s)"

definition parse_iso_loose ::
  "(string \<Rightarrow> i64 option) \<Rightarrow> (string \<Rightarrow> i64 option) \<Rightarrow> string \<Rightarrow> i64 option" where
  "parse_iso_loose rfc isoz s =
    (let s = trim s in
     case parse_rfc3339 rfc s of Some t \<Rightarrow> Some t | None \<Rightarrow> isoz s)"

definition fmt_duration :: "i64 \<Rightarrow> string" where
  "fmt_duration secs =
    (let s = nat (max secs 0) in
     if 86400 \<le> s then show_nat (s div 86400) @ ''d'' @ pad0 2 (show_nat (s mod 86400 div 3600)) @ ''h''
     else if 3600 \<le> s then show_nat (s div 3600) @ ''h'' @ pad0 2 (show_nat (s mod 3600 div 60)) @ ''m''
     else if 60 \<le> s then show_nat (s div 60) @ ''m'' @ pad0 2 (show_nat (s mod 60)) @ ''s''
     else show_nat s @ ''s'')"

section \<open>Reading a duration back\<close>

text \<open>The seconds of one unit letter, and the reader of \<open><number><unit>[<number><unit>]\<close>.\<close>

definition unit_secs :: "char \<Rightarrow> nat" where
  "unit_secs c = (if c = CHR ''d'' then 86400 else if c = CHR ''h'' then 3600
     else if c = CHR ''m'' then 60 else 1)"

fun read_duration :: "nat \<Rightarrow> string \<Rightarrow> nat" where
  "read_duration acc [] = 0"
| "read_duration acc (c # s) =
    (if is_digit c then read_duration (10 * acc + digit_val c) s
     else acc * unit_secs c + read_duration 0 s)"

text \<open>What the text keeps of a duration: whole hours above a day, whole minutes above an hour.\<close>

definition duration_grain :: "nat \<Rightarrow> nat" where
  "duration_grain s = (if 86400 \<le> s then 3600 else if 3600 \<le> s then 60 else 1)"

lemma read_duration_number:
  "list_all is_digit d \<Longrightarrow> \<not> is_digit c \<Longrightarrow>
   read_duration acc (d @ c # s) =
     foldl (\<lambda>n c. 10 * n + digit_val c) acc d * unit_secs c + read_duration 0 s"
  by (induction d arbitrary: acc) auto

lemma read_duration_show:
  "\<not> is_digit c \<Longrightarrow> read_duration 0 (show_nat n @ c # s) = n * unit_secs c + read_duration 0 s"
  using read_duration_number [OF show_nat_digits, of c 0 n s] digits_val_show_nat [of n]
  by (simp add: digits_val_def)

lemma read_duration_zeros:
  "read_duration 0 (replicate k CHR ''0'' @ s) = read_duration 0 s"
  by (induction k) (auto simp: is_digit_def digit_val_def)

lemma read_duration_pad:
  "\<not> is_digit c \<Longrightarrow> read_duration 0 (pad0 w (show_nat n) @ c # s) = n * unit_secs c + read_duration 0 s"
  by (simp add: pad0_def read_duration_zeros read_duration_show)

lemma fmt_duration_nat:
  "fmt_duration (int s) =
    (if 86400 \<le> s then show_nat (s div 86400) @ ''d'' @ pad0 2 (show_nat (s mod 86400 div 3600)) @ ''h''
     else if 3600 \<le> s then show_nat (s div 3600) @ ''h'' @ pad0 2 (show_nat (s mod 3600 div 60)) @ ''m''
     else if 60 \<le> s then show_nat (s div 60) @ ''m'' @ pad0 2 (show_nat (s mod 60)) @ ''s''
     else show_nat s @ ''s'')"
  unfolding fmt_duration_def Let_def by simp

lemma read_two:
  "\<not> is_digit c \<Longrightarrow> \<not> is_digit d \<Longrightarrow>
   read_duration 0 (show_nat a @ [c] @ pad0 w (show_nat b) @ [d]) = a * unit_secs c + b * unit_secs d"
  by (simp add: read_duration_show read_duration_pad)

lemma duration_units:
  "\<not> is_digit CHR ''d''" "\<not> is_digit CHR ''h''" "\<not> is_digit CHR ''m''" "\<not> is_digit CHR ''s''"
  "unit_secs CHR ''d'' = 86400" "unit_secs CHR ''h'' = 3600" "unit_secs CHR ''m'' = 60"
  "unit_secs CHR ''s'' = 1"
  by (simp_all add: is_digit_def unit_secs_def)

lemma two_units:
  fixes s a b :: nat
  assumes "b dvd a"
  shows "s div a * a + s mod a div b * b = s - s mod b"
proof -
  have "s mod a mod b = s mod b" using assms by (rule mod_mod_cancel)
  then have "s mod a div b * b = s mod a - s mod b"
    using minus_mod_eq_div_mult [of "s mod a" b] by simp
  moreover have "s mod b \<le> s mod a" using \<open>s mod a mod b = s mod b\<close> by (metis mod_less_eq_dividend)
  moreover have "s div a * a + s mod a = s" by simp
  ultimately show ?thesis by linarith
qed

lemma read_fmt_duration_nat:
  "read_duration 0 (fmt_duration (int s)) = s - s mod duration_grain s"
proof -
  have h: "s div 86400 * 86400 + s mod 86400 div 3600 * 3600 = s - s mod 3600"
    by (rule two_units) simp
  have m: "s div 3600 * 3600 + s mod 3600 div 60 * 60 = s - s mod 60"
    by (rule two_units) simp
  consider "86400 \<le> s" | "3600 \<le> s" "s < 86400" | "60 \<le> s" "s < 3600" | "s < 60" by linarith
  then show ?thesis
  proof cases
    case 1
    then have "fmt_duration (int s) =
        show_nat (s div 86400) @ ''d'' @ pad0 2 (show_nat (s mod 86400 div 3600)) @ ''h''"
      by (simp only: fmt_duration_nat if_True)
    then show ?thesis using 1 h by (simp only: read_two duration_units duration_grain_def if_True not_False_eq_True)
  next
    case 2
    then have "fmt_duration (int s) =
        show_nat (s div 3600) @ ''h'' @ pad0 2 (show_nat (s mod 3600 div 60)) @ ''m''"
      by (simp add: fmt_duration_nat)
    moreover have "duration_grain s = 60" using 2 by (simp add: duration_grain_def)
    ultimately show ?thesis using m by (simp only: read_two duration_units not_False_eq_True)
  next
    case 3
    then have "fmt_duration (int s) =
        show_nat (s div 60) @ ''m'' @ pad0 2 (show_nat (s mod 60)) @ ''s''"
      by (simp add: fmt_duration_nat)
    moreover have "duration_grain s = 1" using 3 by (simp add: duration_grain_def)
    ultimately show ?thesis by (simp only: read_two duration_units not_False_eq_True) simp
  next
    case 4
    then have "fmt_duration (int s) = show_nat s @ [CHR ''s'']" by (simp add: fmt_duration_nat)
    moreover have "duration_grain s = 1" using 4 by (simp add: duration_grain_def)
    ultimately show ?thesis
      by (simp only: read_duration_show duration_units not_False_eq_True) simp
  qed
qed

end
