(* ===== verification/Gpu.thy ===== *)
theory Gpu
  imports RustText "HOL-Library.Word"
begin

unbundle bit_operations_syntax

text \<open>
  \<open>crates/lss-core/src/gpu.rs\<close>: the \<open>nvidia-smi\<close> CSV readers, the throttle bitmask, PCI
  addresses and the health problems. The JSON readers of the AMD tools are left out: they walk
  a \<open>serde_json\<close> document.
\<close>

type_synonym mask64 = "64 word"

definition THROTTLE_SW_POWER_CAP :: mask64 where "THROTTLE_SW_POWER_CAP = 0x4"
definition THROTTLE_HW_SLOWDOWN :: mask64 where "THROTTLE_HW_SLOWDOWN = 0x8"
definition THROTTLE_SW_THERMAL :: mask64 where "THROTTLE_SW_THERMAL = 0x20"
definition THROTTLE_HW_THERMAL :: mask64 where "THROTTLE_HW_THERMAL = 0x40"
definition THROTTLE_HW_POWER_BRAKE :: mask64 where "THROTTLE_HW_POWER_BRAKE = 0x80"

definition THROTTLE_THERMAL_MASK :: mask64 where
  "THROTTLE_THERMAL_MASK = THROTTLE_SW_THERMAL OR THROTTLE_HW_THERMAL"

record GpuSample =
  gs_index :: u32
  gs_temp_c :: "f64 option"
  gs_power_w :: "f64 option"
  gs_power_limit_w :: "f64 option"
  gs_clock_mhz :: "f64 option"
  gs_util_pct :: "f64 option"
  gs_mem_used_mib :: "f64 option"
  gs_mem_total_mib :: "f64 option"
  gs_fan_pct :: "f64 option"
  gs_throttle_mask :: mask64
  gs_mem_util_pct :: "f64 option"
  gs_mem_temp_c :: "f64 option"

record GpuHealth =
  gh_index :: u32
  gh_clock_max_mhz :: "f64 option"
  gh_pstate :: "string option"
  gh_pcie_gen :: "f64 option"
  gh_pcie_gen_max :: "f64 option"
  gh_pcie_width :: "f64 option"
  gh_pcie_width_max :: "f64 option"
  gh_ecc_corrected :: "f64 option"
  gh_ecc_uncorrected :: "f64 option"
  gh_remap_correctable :: "f64 option"
  gh_remap_uncorrectable :: "f64 option"
  gh_remap_pending :: "bool option"
  gh_remap_failure :: "bool option"
  gh_retired_sbe :: "f64 option"
  gh_retired_dbe :: "f64 option"
  gh_retired_pending :: "bool option"
  gh_power_max_limit_w :: "f64 option"
  gh_power_enforced_w :: "f64 option"
  gh_ts :: i64

fun pcie_width_degraded :: "GpuHealth \<Rightarrow> bool" where
  "pcie_width_degraded h =
    (case (gh_pcie_width h, gh_pcie_width_max h) of (Some c, Some m) \<Rightarrow> f_lt c m | _ \<Rightarrow> False)"

text \<open>\<open>pos\<close> and \<open>unwrap_or(0.0)\<close> of \<open>problems\<close>.\<close>

definition f_pos :: "f64 option \<Rightarrow> bool" where
  "f_pos v = (case v of None \<Rightarrow> False | Some x \<Rightarrow> f_gt x (F_Fin 0))"

definition f_or0 :: "f64 option \<Rightarrow> f64" where
  "f_or0 v = (case v of None \<Rightarrow> F_Fin 0 | Some x \<Rightarrow> x)"

definition problems :: "GpuHealth \<Rightarrow> string list" where
  "problems h =
    (if f_pos (gh_ecc_uncorrected h)
     then [''ECC uncorrected '' @ fmt_fixed 0 (f_or0 (gh_ecc_uncorrected h))] else []) @
    (if f_pos (gh_remap_uncorrectable h)
     then [''remapped uncorrectable '' @ fmt_fixed 0 (f_or0 (gh_remap_uncorrectable h))] else []) @
    (if gh_remap_failure h = Some True then [''row remap FAILURE''] else []) @
    (if gh_remap_pending h = Some True then [''row remap pending''] else []) @
    (if f_pos (gh_retired_dbe h)
     then [''retired pages (double bit) '' @ fmt_fixed 0 (f_or0 (gh_retired_dbe h))] else []) @
    (if gh_retired_pending h = Some True then [''page retirement pending''] else []) @
    (if pcie_width_degraded h
     then [''PCIe x'' @ fmt_fixed 0 (f_or0 (gh_pcie_width h)) @ '' of x'' @
           fmt_fixed 0 (f_or0 (gh_pcie_width_max h))] else [])"

definition thermal_throttled :: "GpuSample \<Rightarrow> bool" where
  "thermal_throttled g \<longleftrightarrow> gs_throttle_mask g AND THROTTLE_THERMAL_MASK \<noteq> 0"

definition throttle_flags :: "mask64 \<Rightarrow> string list" where
  "throttle_flags m =
    map snd (filter (\<lambda>(bit, name). m AND bit \<noteq> 0)
      [(THROTTLE_HW_THERMAL, ''hw_thermal''),
       (THROTTLE_SW_THERMAL, ''sw_thermal''),
       (THROTTLE_HW_SLOWDOWN, ''hw_slowdown''),
       (THROTTLE_HW_POWER_BRAKE, ''hw_power_brake''),
       (THROTTLE_SW_POWER_CAP, ''sw_power_cap'')])"

definition gpu_num :: "string \<Rightarrow> f64 option" where
  "gpu_num field = (case parse_f64 (trim field) of
     None \<Rightarrow> None | Some v \<Rightarrow> if is_finite v then Some v else None)"

definition hex_mask :: "string \<Rightarrow> mask64" where
  "hex_mask field =
    (let f = trim field;
         f = (case strip_prefix f ''0x'' of Some r \<Rightarrow> r
              | None \<Rightarrow> (case strip_prefix f ''0X'' of Some r \<Rightarrow> r | None \<Rightarrow> f))
     in case parse_hex 64 f of Some n \<Rightarrow> of_nat n | None \<Rightarrow> 0)"

definition get_field :: "string list \<Rightarrow> nat \<Rightarrow> string option" where
  "get_field f i = (if i < length f then Some (f ! i) else None)"

text \<open>The body of the closure \<open>parse_gpu_csv\<close> maps over the lines.\<close>

definition parse_gpu_line :: "string \<Rightarrow> GpuSample option" where
  "parse_gpu_line line =
    (let f = split_on CHR '','' line in
     if length f < 10 then None
     else case parse_uint 32 (trim (f ! 0)) of
       None \<Rightarrow> None
     | Some index \<Rightarrow> Some \<lparr>
         gs_index = index,
         gs_temp_c = gpu_num (f ! 1),
         gs_power_w = gpu_num (f ! 2),
         gs_power_limit_w = gpu_num (f ! 3),
         gs_clock_mhz = gpu_num (f ! 4),
         gs_util_pct = gpu_num (f ! 5),
         gs_mem_used_mib = gpu_num (f ! 6),
         gs_mem_total_mib = gpu_num (f ! 7),
         gs_fan_pct = gpu_num (f ! 8),
         gs_throttle_mask = hex_mask (f ! 9),
         gs_mem_util_pct = Option.bind (get_field f 10) gpu_num,
         gs_mem_temp_c = Option.bind (get_field f 11) gpu_num \<rparr>)"

definition parse_gpu_csv :: "string \<Rightarrow> GpuSample list" where
  "parse_gpu_csv text = List.map_filter parse_gpu_line (str_lines text)"

definition yes_no :: "string \<Rightarrow> bool option" where
  "yes_no field =
    (let t = to_ascii_lowercase (trim field) in
     if t = ''yes'' then Some True else if t = ''no'' then Some False else None)"

definition parse_gpu_health_line :: "i64 \<Rightarrow> string \<Rightarrow> GpuHealth option" where
  "parse_gpu_health_line ts line =
    (let f = split_on CHR '','' line in
     if length f < 18 then None
     else let pstate = trim (f ! 2) in
       case parse_uint 32 (trim (f ! 0)) of
         None \<Rightarrow> None
       | Some index \<Rightarrow> Some \<lparr>
           gh_index = index,
           gh_clock_max_mhz = gpu_num (f ! 1),
           gh_pstate = (if starts_with pstate ''P'' \<and> length pstate \<le> 3 then Some pstate else None),
           gh_pcie_gen = gpu_num (f ! 3),
           gh_pcie_gen_max = gpu_num (f ! 4),
           gh_pcie_width = gpu_num (f ! 5),
           gh_pcie_width_max = gpu_num (f ! 6),
           gh_ecc_corrected = gpu_num (f ! 7),
           gh_ecc_uncorrected = gpu_num (f ! 8),
           gh_remap_correctable = gpu_num (f ! 9),
           gh_remap_uncorrectable = gpu_num (f ! 10),
           gh_remap_pending = yes_no (f ! 11),
           gh_remap_failure = yes_no (f ! 12),
           gh_retired_sbe = gpu_num (f ! 13),
           gh_retired_dbe = gpu_num (f ! 14),
           gh_retired_pending = yes_no (f ! 15),
           gh_power_max_limit_w = gpu_num (f ! 16),
           gh_power_enforced_w = gpu_num (f ! 17),
           gh_ts = ts \<rparr>)"

definition parse_gpu_health_csv :: "string \<Rightarrow> i64 \<Rightarrow> GpuHealth list" where
  "parse_gpu_health_csv text ts = List.map_filter (parse_gpu_health_line ts) (str_lines text)"

type_synonym PciKey = "u32 \<times> u32 \<times> u32"

text \<open>\<open>trim_start_matches("PCI:")\<close> strips the prefix as often as it occurs.\<close>

function trim_start_pci :: "string \<Rightarrow> string" where
  "trim_start_pci s =
    (case strip_prefix s ''PCI:'' of Some r \<Rightarrow> trim_start_pci r | None \<Rightarrow> s)"
  by pat_completeness auto
termination
  by (relation "measure length") (auto simp: strip_prefix_Some)

declare trim_start_pci.simps [simp del]

definition parse_pci :: "string \<Rightarrow> PciKey option" where
  "parse_pci addr =
    (let parts = split_on CHR '':'' (trim_start_pci (trim addr)) in
     if length parts < 3 then None
     else case parse_hex 32 (parts ! 0) of None \<Rightarrow> None
       | Some domain \<Rightarrow> (case parse_hex 32 (parts ! 1) of None \<Rightarrow> None
         | Some bus \<Rightarrow> (case parse_hex 32 (hd (split_on CHR ''.'' (parts ! 2))) of None \<Rightarrow> None
           | Some dev \<Rightarrow> Some (domain, bus, dev))))"

definition parse_pci_map_line :: "string \<Rightarrow> (PciKey \<times> u32) option" where
  "parse_pci_map_line line =
    (case split_once '','' line of None \<Rightarrow> None
     | Some (idx, addr) \<Rightarrow> (case parse_pci addr of None \<Rightarrow> None
       | Some k \<Rightarrow> (case parse_uint 32 (trim idx) of None \<Rightarrow> None | Some i \<Rightarrow> Some (k, i))))"

definition parse_pci_map :: "string \<Rightarrow> (PciKey \<times> u32) list" where
  "parse_pci_map text = List.map_filter parse_pci_map_line (str_lines text)"

datatype GpuSource = Nvidia | Amd | Apple | NoGpuTool

fun gpu_source_name :: "GpuSource \<Rightarrow> string" where
  "gpu_source_name Nvidia = ''nvidia''"
| "gpu_source_name Amd = ''amd''"
| "gpu_source_name Apple = ''apple''"
| "gpu_source_name NoGpuTool = ''none''"

definition gpu_source_parse :: "string \<Rightarrow> GpuSource" where
  "gpu_source_parse text =
    (if text = ''amd'' then Amd else if text = ''apple'' then Apple
     else if text = ''none'' then NoGpuTool else Nvidia)"

section \<open>Facts\<close>

lemma gpu_source_parse_name: "gpu_source_parse (gpu_source_name s) = s"
  by (cases s) (auto simp: gpu_source_parse_def)

lemma gpu_num_finite: "gpu_num s = Some v \<Longrightarrow> is_finite v"
  by (auto simp: gpu_num_def split: option.splits if_splits)

lemma word_and_or_0:
  "(m::'a::len word) AND (a OR b) = 0 \<longleftrightarrow> m AND a = 0 \<and> m AND b = 0"
  by (simp add: bit.conj_disj_distrib or_eq_0_iff)

text \<open>The thermal mask is non-zero exactly when one of the two thermal flags is printed.\<close>

lemma throttle_flags_thermal:
  "m AND THROTTLE_THERMAL_MASK \<noteq> 0 \<longleftrightarrow>
   ''hw_thermal'' \<in> set (throttle_flags m) \<or> ''sw_thermal'' \<in> set (throttle_flags m)"
  by (auto simp: THROTTLE_THERMAL_MASK_def word_and_or_0 throttle_flags_def)

lemma throttle_flags_distinct: "distinct (throttle_flags m)"
  by (simp add: throttle_flags_def)

end
