(* ===== verification/HostText.thy ===== *)
theory HostText
  imports TimeUtil RustText Gpu
begin

text \<open>What the collector reads from its own host, one section per file: the container states of \<open>docker inspect\<close>,
  the default model of a shared configuration, the kernel's Xid lines, and the file of the maintenance window.\<close>

text \<open>\<open>crates/lss-core/src/docker.rs\<close>: the pipe-separated \<open>docker inspect\<close> lines.\<close>

record ContainerState =
  cs_name :: string
  cs_status :: string
  cs_restart_count :: u64
  cs_started_at :: i64

definition container_running :: "ContainerState \<Rightarrow> bool" where
  "container_running c \<longleftrightarrow> cs_status c = ''running''"

definition parse_inspect_line :: "(string \<Rightarrow> i64 option) \<Rightarrow> string \<Rightarrow> ContainerState option" where
  "parse_inspect_line rfc line =
    (let f = split_on CHR ''|'' (trim line) in
     if length f \<noteq> 4 then None
     else case parse_uint 64 (f ! 2) of None \<Rightarrow> None
       | Some n \<Rightarrow> Some \<lparr>
           cs_name = trim_start_by (\<lambda>c. c = CHR ''/'') (f ! 0),
           cs_status = f ! 1,
           cs_restart_count = n,
           cs_started_at = max (case parse_rfc3339 rfc (f ! 3) of None \<Rightarrow> 0 | Some t \<Rightarrow> t) 0\<rparr>)"

definition parse_inspect :: "(string \<Rightarrow> i64 option) \<Rightarrow> string \<Rightarrow> ContainerState list" where
  "parse_inspect rfc text = List.map_filter (parse_inspect_line rfc) (str_lines text)"

text \<open>\<open>crates/lss-core/src/omp.rs\<close>: the default model named by a shared config, and whether it
  is the one served.\<close>

fun default_model_loop :: "bool \<Rightarrow> string list \<Rightarrow> string option" where
  "default_model_loop in_roles [] = None"
| "default_model_loop in_roles (line # ls) =
    (if starts_with line ''modelRoles:'' then default_model_loop True ls
     else if in_roles then
       (case strip_prefix line ''  default:'' of
          Some rest \<Rightarrow> (let v = trim rest in if v \<noteq> [] then Some v else None)
        | None \<Rightarrow>
            if \<not> starts_with line '' '' \<and> trim line \<noteq> [] then None
            else default_model_loop in_roles ls)
     else default_model_loop in_roles ls)"

definition parse_default_model :: "string \<Rightarrow> string option" where
  "parse_default_model yaml_text = default_model_loop False (str_lines yaml_text)"

definition omp_mismatch :: "string option \<Rightarrow> string option \<Rightarrow> (string \<times> string) option" where
  "omp_mismatch configured served =
    (case configured of None \<Rightarrow> None
     | Some c \<Rightarrow> (case served of None \<Rightarrow> None
       | Some s \<Rightarrow> if last (split_on CHR ''/'' c) \<noteq> s then Some (c, s) else None))"

lemma default_model_nonempty: "default_model_loop b ls = Some v \<Longrightarrow> v \<noteq> []"
  by (induction b ls rule: default_model_loop.induct) (auto simp: Let_def split: if_splits option.splits)

lemma last_split_on: "CHR ''/'' \<notin> set m \<Longrightarrow> last (split_on CHR ''/'' (p @ CHR ''/'' # m)) = m"
  by (simp add: split_on_app split_on_no)

text \<open>\<open>crates/lss-core/src/xid.rs\<close>: the kernel's NVRM Xid lines.\<close>

record XidEvent =
  xe_ts :: i64
  xe_pci :: string
  xe_xid :: u32
  xe_gpu :: "u32 option"
  xe_detail :: string

definition gpu_label :: "XidEvent \<Rightarrow> string" where
  "gpu_label x = (case xe_gpu x of Some i \<Rightarrow> ''GPU'' @ show_nat i | None \<Rightarrow> ''PCI '' @ xe_pci x)"

definition xid_mark :: string where "xid_mark = ''NVRM: Xid (PCI:''"

definition parse_xid_line ::
  "(string \<Rightarrow> i64 option) \<Rightarrow> (string \<Rightarrow> i64 option) \<Rightarrow> string \<Rightarrow> (PciKey \<times> u32) list \<Rightarrow> XidEvent option" where
  "parse_xid_line rfc isoz line pci_map =
    (case split_once xid_mark line of None \<Rightarrow> None | Some (_, after) \<Rightarrow>
     (case split_whitespace line of [] \<Rightarrow> None | w # _ \<Rightarrow>
     (case parse_iso_loose rfc isoz w of None \<Rightarrow> None | Some ts \<Rightarrow>
     (case split_once '')'' after of None \<Rightarrow> None | Some (p, tail) \<Rightarrow>
       let pci = trim p;
           rest = trim (trim_start_by (\<lambda>c. c = CHR '':'') tail);
           digits = takeWhile is_digit rest
       in case parse_uint 32 digits of None \<Rightarrow> None
        | Some xid \<Rightarrow>
           let detail = trim (trim_start_by (\<lambda>c. c = CHR '','') (drop (length digits) rest));
               gpu = (case parse_pci pci of None \<Rightarrow> None
                 | Some k \<Rightarrow> map_option snd (find (\<lambda>(q, _). q = k) pci_map))
           in Some \<lparr>xe_ts = ts, xe_pci = pci, xe_xid = xid, xe_gpu = gpu, xe_detail = detail\<rparr>))))"

definition xid_hint :: "u32 \<Rightarrow> string" where
  "xid_hint xid =
    (if xid = 8 then ''GPU stopped processing (hang / watchdog)''
     else if xid = 13 then ''graphics engine exception''
     else if xid = 31 then ''GPU memory page fault''
     else if xid = 43 then ''GPU stopped processing''
     else if xid = 45 then ''preemptive cleanup, channel torn down''
     else if xid = 48 then ''double-bit ECC error''
     else if xid = 61 \<or> xid = 62 then ''internal micro-controller halt''
     else if xid = 63 \<or> xid = 64 then ''ECC page retirement / row remap''
     else if xid = 74 then ''NVLink error''
     else if xid = 79 then ''GPU has fallen off the bus''
     else if xid = 94 \<or> xid = 95 then ''contained / uncontained ECC error''
     else if xid = 119 \<or> xid = 120 then ''GSP RPC timeout / GSP error''
     else if xid = 154 then ''GPU recovery action changed (reset / reboot required)''
     else ''see NVIDIA Xid catalogue'')"

lemma parse_xid_line_u32:
  "parse_xid_line rfc isoz line m = Some x \<Longrightarrow> xe_xid x < 2 ^ 32"
  by (auto simp: parse_xid_line_def Let_def dest!: parse_uint_bound split: option.splits list.splits)

text \<open>\<open>crates/lss-core/src/maintenance.rs\<close>: the planned-maintenance window.\<close>

definition DEFAULT_MINUTES :: u32 where "DEFAULT_MINUTES = 60"
definition MAX_MINUTES :: u32 where "MAX_MINUTES = 240"

record MaintenanceReply =
  mr_ok :: bool
  mr_message :: string
  mr_expires_at :: i64

record MaintenanceState =
  ms_active :: bool
  ms_reason :: string
  ms_started_at :: i64
  ms_expires_at :: i64

definition maintenance_default :: MaintenanceState where
  "maintenance_default = \<lparr>ms_active = False, ms_reason = [], ms_started_at = 0, ms_expires_at = 0\<rparr>"

definition clamp_minutes :: "u32 \<Rightarrow> u32" where
  "clamp_minutes minutes = (if minutes = 0 then DEFAULT_MINUTES else max 1 (min minutes MAX_MINUTES))"

definition maintenance_start ::
  "MaintenanceState \<Rightarrow> i64 \<Rightarrow> string \<Rightarrow> u32 \<Rightarrow> MaintenanceState \<times> MaintenanceReply" where
  "maintenance_start state now reason minutes =
    (let reason = trim reason in
     if reason = [] then
       (state, \<lparr>mr_ok = False,
          mr_message = ''a reason is required: lss maintenance start '' @ [CHR 0x22] @ ''reason'' @ [CHR 0x22],
          mr_expires_at = 0\<rparr>)
     else
       let mins = clamp_minutes minutes; expires_at = now + int mins * 60 in
       (\<lparr>ms_active = True, ms_reason = reason, ms_started_at = now, ms_expires_at = expires_at\<rparr>,
        \<lparr>mr_ok = True,
         mr_message = ''maintenance window open: '' @ reason @ '' (auto-expires in '' @ show_nat mins @
           ''m unless stopped first)'',
         mr_expires_at = expires_at\<rparr>))"

definition maintenance_stop ::
  "MaintenanceState \<Rightarrow> i64 \<Rightarrow> MaintenanceState \<times> MaintenanceReply option" where
  "maintenance_stop state now =
    (if \<not> ms_active state then (state, None)
     else let reason = ms_reason state; lasted = now - ms_started_at state in
       (maintenance_default,
        Some \<lparr>mr_ok = True,
          mr_message = ''maintenance window closed after '' @ fmt_duration lasted @ '': '' @ reason,
          mr_expires_at = 0\<rparr>))"

definition maintenance_expired :: "MaintenanceState \<Rightarrow> i64 \<Rightarrow> bool" where
  "maintenance_expired state now \<longleftrightarrow> ms_active state \<and> ms_expires_at state \<le> now"

section \<open>The window as a state machine\<close>

text \<open>The operations the HTTP thread and the poll loop apply: start, stop, and the expiry check
  (which closes an expired window as \<open>stop\<close> does).\<close>

inductive maint_step :: "MaintenanceState \<Rightarrow> MaintenanceState \<Rightarrow> bool" where
  start: "maint_step s (fst (maintenance_start s now reason minutes))"
| stop: "maint_step s (fst (maintenance_stop s now))"
| expire: "maintenance_expired s now \<Longrightarrow> maint_step s (fst (maintenance_stop s now))"

inductive_cases maint_stepE: "maint_step s t"

inductive maint_reachable :: "MaintenanceState \<Rightarrow> bool" where
  init: "maint_reachable maintenance_default"
| step: "maint_reachable s \<Longrightarrow> maint_step s t \<Longrightarrow> maint_reachable t"

definition maint_ok :: "MaintenanceState \<Rightarrow> bool" where
  "maint_ok s \<longleftrightarrow> (ms_active s \<longrightarrow>
     ms_reason s \<noteq> [] \<and> ms_started_at s + 60 \<le> ms_expires_at s \<and>
     ms_expires_at s \<le> ms_started_at s + 14400)"

lemma clamp_minutes_range: "1 \<le> clamp_minutes m \<and> clamp_minutes m \<le> MAX_MINUTES"
  by (auto simp: clamp_minutes_def DEFAULT_MINUTES_def MAX_MINUTES_def)

lemma maint_ok_start [inv_intros]: "maint_ok s \<Longrightarrow> maint_ok (fst (maintenance_start s now r m))"
  using clamp_minutes_range [of m] by (auto simp: maint_ok_def maintenance_start_def Let_def MAX_MINUTES_def)

lemma maint_ok_stop [inv_intros]: "maint_ok s \<Longrightarrow> maint_ok (fst (maintenance_stop s now))"
  by (auto simp: maint_ok_def maintenance_stop_def Let_def maintenance_default_def)

lemma maint_reachable_ok: "maint_reachable s \<Longrightarrow> maint_ok s"
proof (induction rule: maint_reachable.induct)
  case init
  show ?case by (simp add: maint_ok_def maintenance_default_def)
next
  case (step s t)
  then show ?case by (auto elim!: maint_stepE intro: inv_intros)
qed

end
