(* ===== verification/Units.thy ===== *)
theory Units
  imports RustText
begin

text \<open>
  \<open>crates/lss-core/src/units.rs\<close>: temperatures in both units. The process-wide \<open>UNITS\<close> atomic,
  set once at start-up, is the explicit argument \<open>u\<close> of the printers.
\<close>

datatype TempUnits = U_Both | U_C | U_F

definition temp_units_parse :: "string \<Rightarrow> TempUnits" where
  "temp_units_parse text =
    (let t = to_ascii_lowercase (trim text) in
     if t = ''c'' \<or> t = ''celsius'' then U_C
     else if t = ''f'' \<or> t = ''fahrenheit'' then U_F
     else U_Both)"

fun temp_units_name :: "TempUnits \<Rightarrow> string" where
  "temp_units_name U_Both = ''both''"
| "temp_units_name U_C = ''c''"
| "temp_units_name U_F = ''f''"

text \<open>The atomic byte behind \<open>set_temp_units\<close> and \<open>temp_units\<close>.\<close>

fun set_temp_units :: "TempUnits \<Rightarrow> nat" where
  "set_temp_units U_Both = 0"
| "set_temp_units U_C = 1"
| "set_temp_units U_F = 2"

definition temp_units :: "nat \<Rightarrow> TempUnits" where
  "temp_units byte = (if byte = 1 then U_C else if byte = 2 then U_F else U_Both)"

definition c_to_f :: "f64 \<Rightarrow> f64" where
  "c_to_f c = f_add (f_div (f_mul c (F_Fin 9)) (F_Fin 5)) (F_Fin 32)"

definition c_to_f_round :: "f64 \<Rightarrow> f64" where
  "c_to_f_round c = f_div (f_round (f_mul (c_to_f c) (F_Fin 10))) (F_Fin 10)"

datatype TempStyle = Full | Compact | Bare

definition degree_sign :: string where
  "degree_sign = [CHR 0xC2, CHR 0xB0]"

fun fmt_temp_parts :: "string \<Rightarrow> string \<Rightarrow> TempUnits \<Rightarrow> TempStyle \<Rightarrow> string" where
  "fmt_temp_parts c f U_Both Full = c @ degree_sign @ ''C / '' @ f @ degree_sign @ ''F''"
| "fmt_temp_parts c f U_Both Compact = c @ ''C/'' @ f @ ''F''"
| "fmt_temp_parts c f U_Both Bare = c @ ''/'' @ f"
| "fmt_temp_parts c f U_C Full = c @ degree_sign @ ''C''"
| "fmt_temp_parts c f U_C Compact = c @ ''C''"
| "fmt_temp_parts c f U_C Bare = c"
| "fmt_temp_parts c f U_F Full = f @ degree_sign @ ''F''"
| "fmt_temp_parts c f U_F Compact = f @ ''F''"
| "fmt_temp_parts c f U_F Bare = f"

definition fmt_temp_with :: "f64 \<Rightarrow> TempUnits \<Rightarrow> TempStyle \<Rightarrow> string" where
  "fmt_temp_with c u style = fmt_temp_parts (fmt_fixed 0 c) (fmt_fixed 0 (c_to_f c)) u style"

definition temp :: "TempUnits \<Rightarrow> f64 \<Rightarrow> string" where
  "temp u c = fmt_temp_with c u Full"

definition temp_compact :: "TempUnits \<Rightarrow> f64 \<Rightarrow> string" where
  "temp_compact u c = fmt_temp_with c u Compact"

definition temp_opt :: "TempUnits \<Rightarrow> f64 option \<Rightarrow> TempStyle \<Rightarrow> string" where
  "temp_opt u c style = (case c of None \<Rightarrow> ''-'' | Some c \<Rightarrow> fmt_temp_with c u style)"

text \<open>\<open>chars().count()\<close> of UTF-8 bytes: the bytes that are not continuation bytes.\<close>

definition char_count :: "string \<Rightarrow> nat" where
  "char_count s = length (filter (\<lambda>c. (of_char c :: nat) div 64 \<noteq> 2) s)"

definition temp_fit :: "TempUnits \<Rightarrow> f64 option \<Rightarrow> nat \<Rightarrow> string" where
  "temp_fit u c width =
    (case c of None \<Rightarrow> ''-''
     | Some c \<Rightarrow>
        let a = fmt_temp_with c u Full; b = fmt_temp_with c u Compact in
        if char_count a \<le> width then a
        else if char_count b \<le> width then b
        else fmt_temp_with c u Bare)"

fun unit_caption :: "TempUnits \<Rightarrow> string" where
  "unit_caption U_Both = ''C/F''"
| "unit_caption U_C = ''C''"
| "unit_caption U_F = ''F''"

section \<open>Facts\<close>

lemma temp_units_set [simp]: "temp_units (set_temp_units u) = u"
  by (cases u) (auto simp: temp_units_def)

lemma temp_units_parse_name: "temp_units_parse (temp_units_name u) = u"
proof (cases u)
  case U_Both
  show ?thesis unfolding U_Both by code_simp
next
  case U_C
  show ?thesis unfolding U_C by code_simp
next
  case U_F
  show ?thesis unfolding U_F by code_simp
qed

text \<open>Each style is at most as wide as the one before it, so the search takes the widest form
  that fits.\<close>

lemma fmt_temp_parts_widths:
  "char_count (fmt_temp_parts c f u Bare) \<le> char_count (fmt_temp_parts c f u Compact)
   \<and> char_count (fmt_temp_parts c f u Compact) \<le> char_count (fmt_temp_parts c f u Full)"
  by (cases u) (simp_all add: char_count_def degree_sign_def)

lemma temp_style_widths:
  "char_count (fmt_temp_with c u Bare) \<le> char_count (fmt_temp_with c u Compact)"
  "char_count (fmt_temp_with c u Compact) \<le> char_count (fmt_temp_with c u Full)"
  using fmt_temp_parts_widths by (auto simp: fmt_temp_with_def)

lemma temp_fit_widest:
  assumes "char_count (fmt_temp_with c u style) \<le> width"
  shows "char_count (temp_fit u (Some c) width) \<le> width
    \<and> char_count (fmt_temp_with c u style) \<le> char_count (temp_fit u (Some c) width)"
  using assms temp_style_widths [of c u]
  by (cases style) (simp_all add: temp_fit_def Let_def del: fmt_temp_parts.simps)

end
