(* ===== verification/RuleTypes.thy ===== *)
theory RuleTypes
  imports Sustained BTree Gate HostText Units "HOL-Library.Multiset"
begin

text \<open>
  The data of the alert engine: \<open>RulesConfig\<close> of \<open>config.rs\<close> and the types of \<open>rules.rs\<close>
  (severities, alerts, the observation of one poll, the engine's state). The text of an alert
  is built by the handlers in theory \<open>RuleEval\<close>.
\<close>

section \<open>The configuration\<close>

record RulesConfig =
  cfg_cooldown_secs :: i64
  cfg_serve_down_secs :: i64
  cfg_serve_down_page_secs :: i64
  cfg_gate_down_secs :: i64
  cfg_queue_reqs :: f64
  cfg_queue_secs :: i64
  cfg_waiters_secs :: i64
  cfg_thermal_temp_c :: f64
  cfg_thermal_secs :: i64
  cfg_thermal_exclude :: "u32 list"
  cfg_gpu_missing_secs :: i64
  cfg_c1_ratio :: f64
  cfg_c1_consecutive :: u32
  cfg_c1_baseline_tok_s :: "f64 option"
  cfg_c1_baseline_probes :: usize
  cfg_c1_max_ttft_s :: f64
  cfg_c1_stale_probe_intervals :: u32
  cfg_reject_growth :: u64
  cfg_reject_window_secs :: i64
  cfg_restart_stable_secs :: i64
  cfg_omp_config_path :: string
  cfg_omp_mismatch_hold_secs :: i64
  cfg_charge_errors_secs :: i64
  cfg_discount_inert_secs :: i64
  cfg_discount_min_admissions :: u64
  cfg_cold_budget_secs :: i64
  cfg_cold_budget_inflight :: u64
  cfg_cold_budget_hit_rate :: f64
  cfg_disk_path :: string
  cfg_disk_warn_pct :: f64
  cfg_disk_page_pct :: f64
  cfg_disk_secs :: i64
  cfg_disk_recover_margin_pct :: f64
  cfg_disk_growth_gb :: f64
  cfg_disk_growth_secs :: i64

definition rules_config_default :: RulesConfig where
  "rules_config_default = \<lparr>
     cfg_cooldown_secs = 1800,
     cfg_serve_down_secs = 120,
     cfg_serve_down_page_secs = 900,
     cfg_gate_down_secs = 120,
     cfg_queue_reqs = F_Fin 24,
     cfg_queue_secs = 120,
     cfg_waiters_secs = 300,
     cfg_thermal_temp_c = F_Fin 90,
     cfg_thermal_secs = 600,
     cfg_thermal_exclude = [],
     cfg_gpu_missing_secs = 60,
     cfg_c1_ratio = f_lit (8 / 10),
     cfg_c1_consecutive = 3,
     cfg_c1_baseline_tok_s = None,
     cfg_c1_baseline_probes = 12,
     cfg_c1_max_ttft_s = F_Fin 3,
     cfg_c1_stale_probe_intervals = 6,
     cfg_reject_growth = 20,
     cfg_reject_window_secs = 600,
     cfg_restart_stable_secs = 120,
     cfg_omp_config_path = [],
     cfg_omp_mismatch_hold_secs = 600,
     cfg_charge_errors_secs = 60,
     cfg_discount_inert_secs = 600,
     cfg_discount_min_admissions = 50,
     cfg_cold_budget_secs = 120,
     cfg_cold_budget_inflight = 1000000,
     cfg_cold_budget_hit_rate = f_lit (9 / 10),
     cfg_disk_path = ''/'',
     cfg_disk_warn_pct = F_Fin 90,
     cfg_disk_page_pct = F_Fin 97,
     cfg_disk_secs = 60,
     cfg_disk_recover_margin_pct = F_Fin 2,
     cfg_disk_growth_gb = F_Fin 100,
     cfg_disk_growth_secs = 600\<rparr>"

section \<open>Alerts and observations\<close>

datatype Severity = Info | Warn | Page | Hardware

fun severity_str :: "Severity \<Rightarrow> string" where
  "severity_str Info = ''info''"
| "severity_str Warn = ''warn''"
| "severity_str Page = ''page''"
| "severity_str Hardware = ''hardware''"

record AlertEvent =
  ae_ts :: i64
  ae_rule :: string
  ae_severity :: Severity
  ae_message :: string
  ae_recovered :: bool

record GpuObs =
  go_index :: u32
  go_temp_c :: "f64 option"
  go_throttle_mask :: mask64

record RestartObs =
  ro_role :: string
  ro_detail :: string

record DiskObs =
  do_path :: string
  do_total_bytes :: u64
  do_avail_bytes :: u64

definition used_pct :: "DiskObs \<Rightarrow> f64" where
  "used_pct d =
    (if do_total_bytes d = 0 then F_Fin 0
     else f_mul (F_Fin 100)
       (f_sub (F_Fin 1) (f_div (f_of_nat (do_avail_bytes d)) (f_of_nat (do_total_bytes d)))))"

definition gb :: "u64 \<Rightarrow> string" where
  "gb bytes =
    (let mb = u64_add bytes 500000 div 1000000;
         tenths = u64_add bytes 50000000 div 100000000
     in if mb < 1000 then show_nat mb @ '' MB''
        else if tenths < 100 then show_nat (tenths div 10) @ ''.'' @ show_nat (tenths mod 10) @ '' GB''
        else show_nat (u64_add bytes 500000000 div 1000000000) @ '' GB'')"

definition disk_describe :: "DiskObs \<Rightarrow> string" where
  "disk_describe d = fmt_fixed 1 (used_pct d) @ ''% used ('' @ gb (do_avail_bytes d) @ '' free of '' @
     gb (do_total_bytes d) @ '')''"

record Observation =
  o_now :: i64
  o_serve_up :: bool
  o_gate_up :: bool
  o_queue :: "f64 option"
  o_trusted_waiters :: "u64 option"
  o_trusted_inflight_tokens :: "u64 option"
  o_trusted_budget_tokens :: "u64 option"
  o_cache_hit_rate :: "f64 option"
  o_rejected_413 :: "u64 option"
  o_rejected_429 :: "u64 option"
  o_gpus :: "GpuObs list option"
  o_xids :: "XidEvent list"
  o_restarts :: "RestartObs list"
  o_running_roles :: "string list"
  o_probe_tok_s :: "f64 option"
  o_probe_ts :: "i64 option"
  o_test_alerts :: "string list"
  o_bench_active :: bool
  o_probe_interval_secs :: i64
  o_maintenance_active :: bool
  o_gate_shadow :: "GateShadow option"
  o_omp_mismatch :: "(string \<times> string) option"
  o_disk :: "DiskObs option"

text \<open>\<open>Observation::default()\<close>.\<close>

definition observation_default :: Observation where
  "observation_default = \<lparr>o_now = 0, o_serve_up = False, o_gate_up = False, o_queue = None,
     o_trusted_waiters = None, o_trusted_inflight_tokens = None, o_trusted_budget_tokens = None,
     o_cache_hit_rate = None, o_rejected_413 = None, o_rejected_429 = None, o_gpus = None,
     o_xids = [], o_restarts = [], o_running_roles = [], o_probe_tok_s = None, o_probe_ts = None,
     o_test_alerts = [], o_bench_active = False, o_probe_interval_secs = 0,
     o_maintenance_active = False, o_gate_shadow = None, o_omp_mismatch = None, o_disk = None\<rparr>"

section \<open>The engine's state\<close>

record C1State =
  c1_baseline_samples :: "f64 list"
  c1_learned_baseline :: "f64 option"
  c1_low_probes :: "(i64 \<times> f64) list"
  c1_announced :: bool
  c1_last_sent :: "i64 option"
  c1_validated :: bool
  c1_last_valid_ts :: "i64 option"
  c1_stale :: Sustained
  c1_stale_flaps :: FlapTracker

definition c1_default :: C1State where
  "c1_default = \<lparr>c1_baseline_samples = [], c1_learned_baseline = None, c1_low_probes = [],
     c1_announced = False, c1_last_sent = None, c1_validated = False, c1_last_valid_ts = None,
     c1_stale = sustained_default, c1_stale_flaps = flap_default\<rparr>"

record DigestGpu =
  dig_max_temp_c :: f64
  dig_hot_secs :: i64
  dig_throttled_secs :: i64

definition digest_gpu_default :: DigestGpu where
  "digest_gpu_default = \<lparr>dig_max_temp_c = F_Fin 0, dig_hot_secs = 0, dig_throttled_secs = 0\<rparr>"

record Digest =
  dig_window_start :: "i64 option"
  dig_last_eval :: "i64 option"
  dig_gpus :: "(u32, DigestGpu) btree"

definition digest_default :: Digest where
  "digest_default = \<lparr>dig_window_start = None, dig_last_eval = None, dig_gpus = bt_empty\<rparr>"

definition DIGEST_PERIOD_SECS :: i64 where "DIGEST_PERIOD_SECS = 86400"
definition RULE_TEST_ALERT :: string where "RULE_TEST_ALERT = ''test_alert''"

record LastSeen =
  l_serve_up :: bool
  l_gate_up :: bool
  l_queue :: "f64 option"
  l_waiters :: "u64 option"
  l_gpus :: "GpuObs list option"
  l_growth_413 :: "u64 option"
  l_growth_429 :: "u64 option"
  l_c1_tok_s :: "f64 option"
  l_omp_mismatch :: "(string \<times> string) option"
  l_gate_shadow :: "GateShadow option"
  l_disk :: "DiskObs option"

definition last_seen_default :: LastSeen where
  "last_seen_default = \<lparr>l_serve_up = False, l_gate_up = False, l_queue = None, l_waiters = None,
     l_gpus = None, l_growth_413 = None, l_growth_429 = None, l_c1_tok_s = None,
     l_omp_mismatch = None, l_gate_shadow = None, l_disk = None\<rparr>"

record Engine =
  e_serve_down :: Sustained
  e_serve_down_page :: Sustained
  e_gate_down :: Sustained
  e_queue :: Sustained
  e_waiters :: Sustained
  e_thermal_temp :: "(u32, Sustained) btree"
  e_thermal_throttle :: "(u32, Sustained) btree"
  e_gpu_missing :: Sustained
  e_gpu_count_seen :: usize
  e_rejects_413 :: GrowthWindow
  e_rejects_429 :: GrowthWindow
  e_event_last_sent :: "(string, i64) btree"
  e_restart_pending :: "(string, i64) btree"
  e_restart_planned :: "(string, bool) btree"
  e_c1 :: C1State
  e_omp_default :: Sustained
  e_charge_errors :: Sustained
  e_discount_inert :: Sustained
  e_cold_budget :: Sustained
  e_disk_full :: Sustained
  e_disk_full_page :: Sustained
  e_disk_growth :: DiskGrowth
  e_digest :: Digest
  e_last :: LastSeen

definition engine_default :: Engine where
  "engine_default = \<lparr>e_serve_down = sustained_default, e_serve_down_page = sustained_default,
     e_gate_down = sustained_default, e_queue = sustained_default, e_waiters = sustained_default,
     e_thermal_temp = bt_empty, e_thermal_throttle = bt_empty, e_gpu_missing = sustained_default,
     e_gpu_count_seen = 0, e_rejects_413 = growth_default, e_rejects_429 = growth_default,
     e_event_last_sent = bt_empty, e_restart_pending = bt_empty, e_restart_planned = bt_empty,
     e_c1 = c1_default, e_omp_default = sustained_default, e_charge_errors = sustained_default,
     e_discount_inert = sustained_default, e_cold_budget = sustained_default,
     e_disk_full = sustained_default, e_disk_full_page = sustained_default,
     e_disk_growth = disk_growth_default, e_digest = digest_default, e_last = last_seen_default\<rparr>"

section \<open>The median\<close>

fun insort_f64 :: "f64 \<Rightarrow> f64 list \<Rightarrow> f64 list" where
  "insort_f64 x [] = [x]"
| "insort_f64 x (y # ys) = (if total_le x y then x # y # ys else y # insort_f64 x ys)"

definition sort_total :: "f64 list \<Rightarrow> f64 list" where
  "sort_total xs = foldr insort_f64 xs []"

definition median :: "f64 list \<Rightarrow> f64" where
  "median values =
    (let v = sort_total (filter is_finite values) in
     if v = [] then F_Fin 0
     else let mid = length v div 2 in
       if length v mod 2 = 1 then v ! mid
       else f_div (f_add (v ! (mid - 1)) (v ! mid)) (F_Fin 2))"

section \<open>Facts\<close>

text \<open>The share of a disk in use is a percentage: rounding is monotone, so it never leaves
  \<open>0..100\<close>.\<close>

lemma used_pct_range:
  assumes "do_avail_bytes d \<le> do_total_bytes d" "do_total_bytes d < 2 ^ 64"
  shows "\<exists>r. used_pct d = F_Fin r \<and> 0 \<le> r \<and> r \<le> 100"
proof (cases "do_total_bytes d = 0")
  case False
  then obtain s where s: "f_div (f_of_nat (do_avail_bytes d)) (f_of_nat (do_total_bytes d)) = F_Fin s"
      "0 \<le> s" "s \<le> 1"
    using f_div_share [OF assms(1) _ assms(2)] by auto
  have "f_sub (F_Fin 1) (F_Fin s) = rnd (1 - s)" by (rule f_sub_Fin)
  moreover obtain t where t: "rnd (1 - s) = F_Fin t" "0 \<le> t" "t \<le> 1"
    using rnd_between [of "1 - s" 1] s by auto
  ultimately have sub: "f_sub (F_Fin 1) (F_Fin s) = F_Fin t" by simp
  show ?thesis
  proof (cases "t = 0")
    case True
    then show ?thesis using False s sub by (simp add: used_pct_def f_mul_def f_zero_def)
  next
    case False
    then have "f_mul (F_Fin 100) (F_Fin t) = rnd (100 * t)" using t by (intro f_mul_Fin_pos) auto
    then show ?thesis
      using \<open>do_total_bytes d \<noteq> 0\<close> s sub t rnd_between [of "100 * t" 100]
      by (auto simp: used_pct_def)
  qed
qed (simp add: used_pct_def)

text \<open>The unit choice of \<open>gb\<close> (no wrap-around below \<open>2^63\<close> bytes).\<close>

lemma gb_cases:
  assumes "bytes < 2 ^ 63"
  shows "gb bytes =
    (if bytes < 999500000 then show_nat ((bytes + 500000) div 1000000) @ '' MB''
     else if bytes < 9950000000
       then show_nat ((bytes + 50000000) div 100000000 div 10) @ ''.'' @
            show_nat ((bytes + 50000000) div 100000000 mod 10) @ '' GB''
     else show_nat ((bytes + 500000000) div 1000000000) @ '' GB'')"
proof -
  have e: "u64_add bytes 500000 = bytes + 500000" "u64_add bytes 50000000 = bytes + 50000000"
    "u64_add bytes 500000000 = bytes + 500000000"
    using assms by (simp_all add: u64_add_exact)
  have "(bytes + 500000) div 1000000 < 1000 \<longleftrightarrow> bytes < 999500000"
    "(bytes + 50000000) div 100000000 < 100 \<longleftrightarrow> bytes < 9950000000"
    by (auto simp: div_less_iff_less_mult)
  then show ?thesis by (simp add: gb_def e Let_def)
qed

text \<open>The median.\<close>

lemma total_le_refl [simp]: "total_le x x"
  by (simp add: total_le_def)

lemma total_le_trans: "total_le x y \<Longrightarrow> total_le y z \<Longrightarrow> total_le x z"
  by (auto simp: total_le_def)

lemma total_le_linear: "total_le x y \<or> total_le y x"
  by (cases x; cases y) (auto simp: total_le_def)

lemma mset_insort_f64: "mset (insort_f64 x ys) = add_mset x (mset ys)"
  by (induction x ys rule: insort_f64.induct) auto

lemma mset_sort_total: "mset (sort_total xs) = mset xs"
  by (induction xs) (auto simp: sort_total_def mset_insort_f64)

lemma set_insort_f64: "set (insort_f64 x ys) = insert x (set ys)"
  using mset_insort_f64 [of x ys] by (metis set_mset_add_mset_insert set_mset_mset)

lemma set_sort_total: "set (sort_total xs) = set xs"
  using mset_sort_total [of xs] by (metis set_mset_mset)

lemma length_sort_total: "length (sort_total xs) = length xs"
  using mset_sort_total [of xs] by (metis size_mset)

lemma sorted_insort_f64: "sorted_wrt total_le ys \<Longrightarrow> sorted_wrt total_le (insort_f64 x ys)"
proof (induction x ys rule: insort_f64.induct)
  case (2 x y ys)
  then show ?case
    using total_le_linear total_le_trans by (auto simp: set_insort_f64)
qed simp

lemma sorted_sort_total: "sorted_wrt total_le (sort_total xs)"
  by (induction xs) (auto simp: sort_total_def sorted_insort_f64)

text \<open>With an odd number of finite values the median is one of them, with as many values on
  each side.\<close>

lemma median_odd:
  assumes "odd (length (filter is_finite xs))"
  shows "\<exists>lo hi. mset (filter is_finite xs) = mset lo + {#median xs#} + mset hi \<and>
    length lo = length hi \<and> (\<forall>x \<in> set lo. total_le x (median xs)) \<and> (\<forall>x \<in> set hi. total_le (median xs) x)"
proof -
  let ?v = "sort_total (filter is_finite xs)"
  let ?m = "length ?v div 2"
  have odd: "odd (length ?v)" using assms by (simp add: length_sort_total)
  then have pos: "0 < length ?v" by (rule odd_pos)
  then have lt: "?m < length ?v" and ne: "?v \<noteq> []" by auto
  have med: "median xs = ?v ! ?m" using odd ne by (simp add: median_def Let_def odd_iff_mod_2_eq_one)
  have split: "?v = take ?m ?v @ ?v ! ?m # drop (Suc ?m) ?v" using lt by (simp add: id_take_nth_drop)
  have s: "sorted_wrt total_le (take ?m ?v @ ?v ! ?m # drop (Suc ?m) ?v)"
    using sorted_sort_total split by metis
  let ?lo = "take ?m ?v" and ?hi = "drop (Suc ?m) ?v"
  have "mset ?v = mset ?lo + {#?v ! ?m#} + mset ?hi" by (subst split) simp
  then have 1: "mset (filter is_finite xs) = mset ?lo + {#median xs#} + mset ?hi"
    by (simp only: med mset_sort_total)
  have 2: "length ?lo = length ?hi" using odd by (auto elim!: oddE)
  have 3: "\<forall>x \<in> set ?lo. total_le x (median xs)" and 4: "\<forall>x \<in> set ?hi. total_le (median xs) x"
    using s unfolding med by (simp_all only: sorted_wrt_append) auto
  from 1 2 3 4 show ?thesis by blast
qed

end
