(* ===== verification/RuleEval.thy ===== *)
theory RuleEval
  imports RuleTypes
begin

text \<open>
  The handlers of the alert engine (\<open>Engine::evaluate\<close> and the \<open>eval_*\<close> functions of
  \<open>crates/lss-core/src/rules.rs\<close>). A handler takes the configuration, the observation and the
  engine and returns the engine with the alerts it pushes, in order; \<open>evaluate\<close> runs them in
  the order of the source. Two arguments stand for state outside the engine: \<open>u\<close>, the process-wide
  temperature unit, and \<open>utc\<close>, \<open>timeutil::fmt_utc(_, "%H:%M:%SZ")\<close> (the \<open>chrono\<close> crate).
\<close>

section \<open>Alerts\<close>

definition alert :: "i64 \<Rightarrow> string \<Rightarrow> Severity \<Rightarrow> bool \<Rightarrow> string \<Rightarrow> AlertEvent" where
  "alert ts rule severity recovered message =
    \<lparr>ae_ts = ts, ae_rule = rule, ae_severity = severity,
     ae_message = (if recovered then ''RECOVERED: '' @ message else message),
     ae_recovered = recovered\<rparr>"

fun push_edge :: "edge \<Rightarrow> i64 \<Rightarrow> string \<Rightarrow> Severity \<Rightarrow> string \<Rightarrow> string \<Rightarrow> AlertEvent list" where
  "push_edge E_Fire now rule sev fire recover = [alert now rule sev False fire]"
| "push_edge E_Recover now rule sev fire recover = [alert now rule sev True recover]"
| "push_edge E_None now rule sev fire recover = []"

section \<open>The serve and the gateway\<close>

definition eval_serve_down :: "RulesConfig \<Rightarrow> Observation \<Rightarrow> Engine \<Rightarrow> Engine \<times> AlertEvent list" where
  "eval_serve_down cfg o1 e =
    (let now = o_now o1; down = (\<not> o_serve_up o1);
         down_for = (if down then held_for (e_serve_down e) now else 0);
         was_down_for = held_for (e_serve_down e) now;
         w = sus_step (e_serve_down e) now down (cfg_serve_down_secs cfg) (cfg_cooldown_secs cfg);
         p = sus_step (e_serve_down_page e) now down (cfg_serve_down_page_secs cfg) (cfg_cooldown_secs cfg)
     in (e\<lparr>e_serve_down := fst w, e_serve_down_page := fst p\<rparr>,
         (if snd w = E_Fire then [alert now ''serve_down'' Warn False
            (''serve DOWN for '' @ fmt_duration down_for @ '' (/v1/models not answering)'')] else []) @
         (if snd p = E_Fire then [alert now ''serve_down_page'' Page False
            (''serve STILL DOWN after '' @ fmt_duration down_for @ '' - needs a human'')] else []) @
         (if snd w = E_Recover \<or> snd p = E_Recover then
            [alert now ''serve_down'' (if snd p = E_Recover then Page else Warn) True
              (''serve recovered after '' @ fmt_duration was_down_for @ '' down'')] else [])))"

definition eval_gate_down :: "RulesConfig \<Rightarrow> Observation \<Rightarrow> Engine \<Rightarrow> Engine \<times> AlertEvent list" where
  "eval_gate_down cfg o1 e =
    (let now = o_now o1; was = held_for (e_gate_down e) now;
         r = sus_step (e_gate_down e) now (\<not> o_gate_up o1) (cfg_gate_down_secs cfg) (cfg_cooldown_secs cfg)
     in (e\<lparr>e_gate_down := fst r\<rparr>,
         push_edge (snd r) now ''gate_down'' Warn
           (''the gateway DOWN for '' @ fmt_duration was @ '' (/gate/health not answering) - public endpoint is dark'')
           (''the gateway recovered after '' @ fmt_duration was @ '' down'')))"

section \<open>The gateway's charging\<close>

definition eval_charging :: "RulesConfig \<Rightarrow> Observation \<Rightarrow> Engine \<Rightarrow> Engine \<times> AlertEvent list" where
  "eval_charging cfg o1 e =
    (case o_gate_shadow o1 of None \<Rightarrow> (e, [])
     | Some sh \<Rightarrow>
        let now = o_now o1; errors = sh_charge_errors sh;
            c = sus_step (e_charge_errors e) now (0 < errors) (cfg_charge_errors_secs cfg) (cfg_cooldown_secs cfg);
            inert = discount_inert sh (cfg_discount_min_admissions cfg);
            d = sus_step (e_discount_inert e) now inert (cfg_discount_inert_secs cfg) (cfg_cooldown_secs cfg)
        in (e\<lparr>e_charge_errors := fst c, e_discount_inert := fst d\<rparr>,
            push_edge (snd c) now ''gate_charge_errors'' Warn
              (''the gateway charge path FAILING ('' @ show_nat errors @
               '' errors): every trusted request is charging GROSS prompt tokens, so the budget refuses our own agents at ~10x the real cost. /gate/health shadow.charge_errors, and the gate log's charge_failed_gross line names the exception'')
              ''the gateway charge path recovered: effective-token charging is working again'' @
            push_edge (snd d) now ''gate_discount_inert'' Warn
              (''the gateway discount INERT: warm cache, engine visible, '' @ show_nat (sh_recent_admissions sh) @
               '' recent admissions and NOT ONE discounted. Nothing raised - this is the shape card #68 hid in for 2,809 requests. Check /gate/health shadow and the shadow log's charged_tokens vs est_tokens'')
              ''the gateway discount is engaging again''))"

definition eval_cold_budget :: "RulesConfig \<Rightarrow> Observation \<Rightarrow> Engine \<Rightarrow> Engine \<times> AlertEvent list" where
  "eval_cold_budget cfg o1 e =
    (if o_bench_active o1 then (e, [])
     else case (o_trusted_inflight_tokens o1, o_cache_hit_rate o1) of
       (Some inflight, Some hit) \<Rightarrow>
         (case o_trusted_budget_tokens o1 of None \<Rightarrow> (e, [])
          | Some capacity \<Rightarrow>
             if \<not> 0 < capacity then (e, [])
             else
               let now = o_now o1;
                   full = f_ge (f_of_nat inflight) (f_mul (f_lit (9 / 10)) (f_of_nat capacity));
                   breach = (full \<and> f_lt hit (cfg_cold_budget_hit_rate cfg));
                   r = sus_step (e_cold_budget e) now breach (cfg_cold_budget_secs cfg) (cfg_cooldown_secs cfg)
               in (e\<lparr>e_cold_budget := fst r\<rparr>,
                   push_edge (snd r) now ''gate_cold_budget'' Warn
                     (''COLD-CACHE HEAVY BUDGET: '' @ show_nat inflight @ '' of '' @ show_nat capacity @
                      '' tokens in flight (>=90% full) with cache hit below '' @
                      show_f64 (f_mul (cfg_cold_budget_hit_rate cfg) (F_Fin 100)) @ '' for '' @
                      fmt_duration (cfg_cold_budget_secs cfg) @
                      '' - the budget's tokens are now REAL prefill; this is the state that preceded both Xid-8 hangs. Reduce the budget or shed load before the engine wedges'')
                     ''cold-cache heavy budget recovered: in-flight back under the ceiling or the cache warmed up''))
     | _ \<Rightarrow> (e, []))"

section \<open>Events: restarts and Xids\<close>

definition event_cooled :: "Engine \<Rightarrow> string \<Rightarrow> i64 \<Rightarrow> i64 \<Rightarrow> bool" where
  "event_cooled e key now cooldown =
    (case bt_get key (e_event_last_sent e) of None \<Rightarrow> True | Some t \<Rightarrow> cooldown \<le> now - t)"

definition restart_key :: "string \<Rightarrow> string" where
  "restart_key role = ''container_restart:'' @ role"

definition restart_label :: "bool \<Rightarrow> string" where
  "restart_label planned = (if planned then ''planned - '' else [])"

definition restart_severity :: "bool \<Rightarrow> Severity" where
  "restart_severity planned = (if planned then Info else Warn)"

definition restart_one :: "RulesConfig \<Rightarrow> Observation \<Rightarrow> Engine \<Rightarrow> RestartObs \<Rightarrow> Engine \<times> AlertEvent list" where
  "restart_one cfg o1 e r =
    (let now = o_now o1; role = ro_role r; key = restart_key role;
         owed = (bt_get role (e_restart_pending e) \<noteq> None);
         planned = o_maintenance_active o1
     in if event_cooled e key now (cfg_cooldown_secs cfg) then
          (e\<lparr>e_event_last_sent := bt_insert key now (e_event_last_sent e),
             e_restart_pending := bt_insert role now (e_restart_pending e),
             e_restart_planned := bt_insert role planned (e_restart_planned e)\<rparr>,
           [alert now key (restart_severity planned) False
             (restart_label planned @ role @ '' container restarted: '' @ ro_detail r)])
        else if owed then (e\<lparr>e_restart_pending := bt_insert role now (e_restart_pending e)\<rparr>, [])
        else (e, []))"

fun restarts_loop :: "RulesConfig \<Rightarrow> Observation \<Rightarrow> Engine \<Rightarrow> RestartObs list \<Rightarrow> Engine \<times> AlertEvent list" where
  "restarts_loop cfg o1 e [] = (e, [])"
| "restarts_loop cfg o1 e (r # rs) =
    (let (e1, a1) = restart_one cfg o1 e r; (e2, a2) = restarts_loop cfg o1 e1 rs in (e2, a1 @ a2))"

definition stable_roles :: "RulesConfig \<Rightarrow> Observation \<Rightarrow> Engine \<Rightarrow> string list" where
  "stable_roles cfg o1 e =
    map fst (filter (\<lambda>(role, since).
        role \<in> set (o_running_roles o1) \<and>
        (if role = ''serve'' then o_serve_up o1 else o_gate_up o1) \<and>
        cfg_restart_stable_secs cfg \<le> o_now o1 - since)
      (e_restart_pending e))"

definition stable_one :: "i64 \<Rightarrow> Engine \<Rightarrow> string \<Rightarrow> Engine \<times> AlertEvent" where
  "stable_one now e role =
    (let since = (case bt_get role (e_restart_pending e) of None \<Rightarrow> now | Some t \<Rightarrow> t);
         planned = (case bt_get role (e_restart_planned e) of None \<Rightarrow> False | Some b \<Rightarrow> b)
     in (e\<lparr>e_restart_pending := bt_remove role (e_restart_pending e),
            e_restart_planned := bt_remove role (e_restart_planned e)\<rparr>,
         alert now (restart_key role) (restart_severity planned) True
           (restart_label planned @ role @ '' container recovered: running and answering '' @
            fmt_duration (now - since) @ '' after the restart'')))"

fun stable_loop :: "i64 \<Rightarrow> Engine \<Rightarrow> string list \<Rightarrow> Engine \<times> AlertEvent list" where
  "stable_loop now e [] = (e, [])"
| "stable_loop now e (r # rs) =
    (let (e1, a) = stable_one now e r; (e2, as) = stable_loop now e1 rs in (e2, a # as))"

definition eval_restarts :: "RulesConfig \<Rightarrow> Observation \<Rightarrow> Engine \<Rightarrow> Engine \<times> AlertEvent list" where
  "eval_restarts cfg o1 e =
    (let (e1, a1) = restarts_loop cfg o1 e (o_restarts o1);
         (e2, a2) = stable_loop (o_now o1) e1 (stable_roles cfg o1 e1)
     in (e2, a1 @ a2))"

definition xid_rule_key :: "XidEvent \<Rightarrow> string" where
  "xid_rule_key x = (case xe_gpu x of Some i \<Rightarrow> ''xid:gpu'' @ show_nat i | None \<Rightarrow> ''xid:'' @ xe_pci x)"

definition xid_one :: "RulesConfig \<Rightarrow> Observation \<Rightarrow> Engine \<Rightarrow> XidEvent \<Rightarrow> Engine \<times> AlertEvent list" where
  "xid_one cfg o1 e x =
    (let now = o_now o1; key = xid_rule_key x in
     if event_cooled e key now (cfg_cooldown_secs cfg) then
       (e\<lparr>e_event_last_sent := bt_insert key now (e_event_last_sent e)\<rparr>,
        [alert now key Hardware False
          (gpu_label x @ '' Xid '' @ show_nat (xe_xid x) @ '' - '' @ xid_hint (xe_xid x) @ '' ['' @
           xe_detail x @ '']'')])
     else (e, []))"

fun xids_loop :: "RulesConfig \<Rightarrow> Observation \<Rightarrow> Engine \<Rightarrow> XidEvent list \<Rightarrow> Engine \<times> AlertEvent list" where
  "xids_loop cfg o1 e [] = (e, [])"
| "xids_loop cfg o1 e (x # xs) =
    (let (e1, a1) = xid_one cfg o1 e x; (e2, a2) = xids_loop cfg o1 e1 xs in (e2, a1 @ a2))"

definition eval_xids :: "RulesConfig \<Rightarrow> Observation \<Rightarrow> Engine \<Rightarrow> Engine \<times> AlertEvent list" where
  "eval_xids cfg o1 e = xids_loop cfg o1 e (o_xids o1)"

section \<open>The shared default model\<close>

definition eval_omp_default :: "RulesConfig \<Rightarrow> Observation \<Rightarrow> Engine \<Rightarrow> Engine \<times> AlertEvent list" where
  "eval_omp_default cfg o1 e =
    (let now = o_now o1; mismatched = (o_omp_mismatch o1 \<noteq> None);
         r = sus_step (e_omp_default e) now mismatched (cfg_omp_mismatch_hold_secs cfg) (cfg_cooldown_secs cfg);
         (configured, served) = (case o_omp_mismatch o1 of None \<Rightarrow> ([], []) | Some cs \<Rightarrow> cs)
     in (e\<lparr>e_omp_default := fst r\<rparr>,
         push_edge (snd r) now ''omp_default_mismatch'' Warn
           (''omp's default model ('' @ configured @ '') is not what is served ('' @ served @
            '') - agent sessions may silently fall back to an outside provider: re-point omp's default at the served id'')
           ''omp's default model matches what is served again''))"

section \<open>The disk\<close>

text \<open>One round of the loop over the two level rules.\<close>

definition disk_rule ::
  "RulesConfig \<Rightarrow> i64 \<Rightarrow> DiskObs \<Rightarrow> f64 \<Rightarrow> string \<Rightarrow> Severity \<Rightarrow> Sustained \<Rightarrow> Sustained \<times> AlertEvent list" where
  "disk_rule cfg now d line rule sev s =
    (let pct = used_pct d;
         over = (if announced s then f_ge pct (f_sub line (cfg_disk_recover_margin_pct cfg))
                 else f_ge pct line);
         r = sus_step s now over (cfg_disk_secs cfg) (cfg_cooldown_secs cfg)
     in (fst r,
         push_edge (snd r) now rule sev
           (''disk '' @ do_path d @ '' on this box is '' @ disk_describe d @ '' - >= '' @ fmt_fixed 0 line @
            ''% for '' @ fmt_duration (cfg_disk_secs cfg))
           (''disk '' @ do_path d @ '' back to '' @ disk_describe d)))"

definition disk_growth_rule ::
  "RulesConfig \<Rightarrow> i64 \<Rightarrow> DiskObs \<Rightarrow> DiskGrowth \<Rightarrow> DiskGrowth \<times> AlertEvent list" where
  "disk_growth_rule cfg now d g =
    (let line = f_mul (cfg_disk_growth_gb cfg) (F_Fin 1000000000);
         (g1, dropped) = disk_growth_push g now (do_avail_bytes d) (cfg_disk_growth_secs cfg);
         r = sus_step (dg_rule g1) now (f_ge (f_of_nat dropped) line) (cfg_disk_secs cfg) (cfg_cooldown_secs cfg);
         fill = ''lost '' @ fmt_fixed 1 (f_div (f_of_nat dropped) (F_Fin 1000000000)) @ '' GB free of '' @
           do_path d @ '' in '' @ fmt_duration (cfg_disk_growth_secs cfg) @ '' (now '' @ disk_describe d @ '')''
     in (g1\<lparr>dg_rule := fst r\<rparr>,
         push_edge (snd r) now ''disk_growth'' Warn
           (''disk '' @ do_path d @ '' is filling fast: '' @ fill)
           (''disk '' @ do_path d @ '' is no longer filling fast: '' @ fill)))"

definition eval_disk :: "RulesConfig \<Rightarrow> Observation \<Rightarrow> Engine \<Rightarrow> Engine \<times> AlertEvent list" where
  "eval_disk cfg o1 e =
    (case o_disk o1 of None \<Rightarrow> (e, [])
     | Some d \<Rightarrow>
        let now = o_now o1;
            w = disk_rule cfg now d (cfg_disk_warn_pct cfg) ''disk_full'' Warn (e_disk_full e);
            p = disk_rule cfg now d (cfg_disk_page_pct cfg) ''disk_full_page'' Page (e_disk_full_page e);
            g = disk_growth_rule cfg now d (e_disk_growth e)
        in (e\<lparr>e_disk_full := fst w, e_disk_full_page := fst p, e_disk_growth := fst g\<rparr>,
            snd w @ snd p @ snd g))"

section \<open>Queue pressure\<close>

definition eval_queue :: "RulesConfig \<Rightarrow> Observation \<Rightarrow> Engine \<Rightarrow> Engine \<times> AlertEvent list" where
  "eval_queue cfg o1 e =
    (let now = o_now o1;
         q = (if o_bench_active o1 then F_Fin 0
              else case o_queue o1 of None \<Rightarrow> F_Fin 0 | Some q \<Rightarrow> q);
         r = sus_step (e_queue e) now (f_ge q (cfg_queue_reqs cfg)) (cfg_queue_secs cfg) (cfg_cooldown_secs cfg);
         w = (if o_bench_active o1 then 0
              else case o_trusted_waiters o1 of None \<Rightarrow> 0 | Some w \<Rightarrow> w);
         s = sus_step (e_waiters e) now (0 < w) (cfg_waiters_secs cfg) (cfg_cooldown_secs cfg)
     in (e\<lparr>e_queue := fst r, e_waiters := fst s\<rparr>,
         push_edge (snd r) now ''queue_pressure'' Warn
           (''queue pressure: '' @ fmt_fixed 0 q @ '' requests queued (>= '' @ fmt_fixed 0 (cfg_queue_reqs cfg) @
            '') for '' @ fmt_duration (cfg_queue_secs cfg))
           (''queue pressure recovered: '' @ fmt_fixed 0 q @ '' queued'') @
         push_edge (snd s) now ''gate_waiters'' Warn
           (''queue pressure: '' @ show_nat w @ '' trusted request(s) waiting at the gate for token budget for '' @
            fmt_duration (cfg_waiters_secs cfg))
           ''gate waiters recovered: nobody waiting for token budget''))"

section \<open>The GPUs\<close>

definition gpu_count :: "Observation \<Rightarrow> usize" where
  "gpu_count o1 = (case o_gpus o1 of None \<Rightarrow> 0 | Some gs \<Rightarrow> length gs)"

definition eval_gpu_missing :: "RulesConfig \<Rightarrow> Observation \<Rightarrow> Engine \<Rightarrow> Engine \<times> AlertEvent list" where
  "eval_gpu_missing cfg o1 e =
    (let now = o_now o1; count = gpu_count o1; seen = max (e_gpu_count_seen e) count;
         missing = (count < seen);
         r = sus_step (e_gpu_missing e) now missing (cfg_gpu_missing_secs cfg) (cfg_cooldown_secs cfg)
     in (e\<lparr>e_gpu_count_seen := seen, e_gpu_missing := fst r\<rparr>,
         push_edge (snd r) now ''gpu_missing'' Hardware
           (''nvidia-smi reports '' @ show_nat count @ '' GPU(s), expected '' @ show_nat seen @
            '' - a GPU may have fallen off the bus'')
           (''all '' @ show_nat count @ '' GPUs visible again'')))"

definition thermal_temp_key :: "u32 \<Rightarrow> string" where
  "thermal_temp_key i = ''thermal_temp:gpu'' @ show_nat i"

definition thermal_throttle_key :: "u32 \<Rightarrow> string" where
  "thermal_throttle_key i = ''thermal_throttle:gpu'' @ show_nat i"

definition gpu_hot :: "RulesConfig \<Rightarrow> GpuObs \<Rightarrow> bool" where
  "gpu_hot cfg g = (case go_temp_c g of None \<Rightarrow> False | Some t \<Rightarrow> f_ge t (cfg_thermal_temp_c cfg))"

definition gpu_throttled :: "GpuObs \<Rightarrow> bool" where
  "gpu_throttled g \<longleftrightarrow> go_throttle_mask g AND THROTTLE_THERMAL_MASK \<noteq> 0"

text \<open>An excluded GPU only feeds the daily digest.\<close>

definition gpu_digest_one :: "RulesConfig \<Rightarrow> i64 \<Rightarrow> Engine \<Rightarrow> GpuObs \<Rightarrow> Engine" where
  "gpu_digest_one cfg dt e g =
    (let dig = e_digest e;
         d = bt_get_or digest_gpu_default (go_index g) (dig_gpus dig);
         d1 = d\<lparr>dig_max_temp_c := f_max (dig_max_temp_c d) (f_or0 (go_temp_c g)),
                dig_hot_secs := dig_hot_secs d + (if gpu_hot cfg g then dt else 0),
                dig_throttled_secs := dig_throttled_secs d + (if gpu_throttled g then dt else 0)\<rparr>
     in e\<lparr>e_digest := dig\<lparr>dig_gpus := bt_insert (go_index g) d1 (dig_gpus dig)\<rparr>\<rparr>)"

definition gpu_thermal_one :: "TempUnits \<Rightarrow> RulesConfig \<Rightarrow> i64 \<Rightarrow> Engine \<Rightarrow> GpuObs \<Rightarrow> Engine \<times> AlertEvent list" where
  "gpu_thermal_one u cfg now e g =
    (let i = go_index g; tc = f_or0 (go_temp_c g);
         t = sus_step (bt_get_or sustained_default i (e_thermal_temp e)) now (gpu_hot cfg g)
               (cfg_thermal_secs cfg) (cfg_cooldown_secs cfg);
         s = sus_step (bt_get_or sustained_default i (e_thermal_throttle e)) now (gpu_throttled g)
               (cfg_thermal_secs cfg) (cfg_cooldown_secs cfg)
     in (e\<lparr>e_thermal_temp := bt_insert i (fst t) (e_thermal_temp e),
            e_thermal_throttle := bt_insert i (fst s) (e_thermal_throttle e)\<rparr>,
         push_edge (snd t) now (thermal_temp_key i) Warn
           (''GPU'' @ show_nat i @ '' at '' @ temp u tc @ '', >= '' @ temp u (cfg_thermal_temp_c cfg) @
            '' for '' @ fmt_duration (cfg_thermal_secs cfg))
           (''GPU'' @ show_nat i @ '' thermal recovered: '' @ temp u tc) @
         push_edge (snd s) now (thermal_throttle_key i) Warn
           (''GPU'' @ show_nat i @ '' thermal slowdown active ('' @ join ''+'' (throttle_flags (go_throttle_mask g)) @
            '') for '' @ fmt_duration (cfg_thermal_secs cfg) @ '', '' @ temp u tc)
           (''GPU'' @ show_nat i @ '' thermal slowdown cleared'')))"

fun gpus_loop :: "TempUnits \<Rightarrow> RulesConfig \<Rightarrow> i64 \<Rightarrow> i64 \<Rightarrow> Engine \<Rightarrow> GpuObs list \<Rightarrow> Engine \<times> AlertEvent list" where
  "gpus_loop u cfg now dt e [] = (e, [])"
| "gpus_loop u cfg now dt e (g # gs) =
    (if go_index g \<in> set (cfg_thermal_exclude cfg)
     then gpus_loop u cfg now dt (gpu_digest_one cfg dt e g) gs
     else let (e1, a1) = gpu_thermal_one u cfg now e g; (e2, a2) = gpus_loop u cfg now dt e1 gs
       in (e2, a1 @ a2))"

definition digest_line :: "TempUnits \<Rightarrow> RulesConfig \<Rightarrow> u32 \<times> DigestGpu \<Rightarrow> string" where
  "digest_line u cfg x =
    (let (i, d) = x in
     ''GPU'' @ show_nat i @ '' max '' @ temp u (dig_max_temp_c d) @ '', '' @ fmt_duration (dig_hot_secs d) @
     '' at >= '' @ temp u (cfg_thermal_temp_c cfg) @ '', '' @ fmt_duration (dig_throttled_secs d) @
     '' thermally throttled'')"

definition digest_flush :: "TempUnits \<Rightarrow> RulesConfig \<Rightarrow> i64 \<Rightarrow> Engine \<Rightarrow> Engine \<times> AlertEvent list" where
  "digest_flush u cfg now e =
    (if (case dig_window_start (e_digest e) of None \<Rightarrow> False | Some s \<Rightarrow> DIGEST_PERIOD_SECS \<le> now - s) then
       (let lines = map (digest_line u cfg)
              (filter (\<lambda>(i, d). 0 < dig_hot_secs d \<or> 0 < dig_throttled_secs d) (dig_gpus (e_digest e)))
        in (e\<lparr>e_digest := (e_digest e)\<lparr>dig_gpus := bt_empty, dig_window_start := Some now\<rparr>\<rparr>,
            if lines = [] then []
            else [alert now ''thermal_digest'' Info False
              (''daily thermal digest (excluded from alerts): '' @ join ''; '' lines)]))
     else (e, []))"

definition eval_gpus :: "TempUnits \<Rightarrow> RulesConfig \<Rightarrow> Observation \<Rightarrow> Engine \<Rightarrow> Engine \<times> AlertEvent list" where
  "eval_gpus u cfg o1 e =
    (let now = o_now o1; (e1, a1) = eval_gpu_missing cfg o1 e in
     case o_gpus o1 of
       None \<Rightarrow> (e1\<lparr>e_digest := (e_digest e1)\<lparr>dig_last_eval := Some now\<rparr>\<rparr>, a1)
     | Some gpus \<Rightarrow>
        let dig = e_digest e1;
            dt = (case dig_last_eval dig of None \<Rightarrow> 0 | Some t \<Rightarrow> max 0 (min (now - t) 60));
            start = (case dig_window_start dig of None \<Rightarrow> now | Some t \<Rightarrow> t);
            e2 = e1\<lparr>e_digest := dig\<lparr>dig_last_eval := Some now, dig_window_start := Some start\<rparr>\<rparr>;
            (e3, a3) = gpus_loop u cfg now dt e2 gpus;
            (e4, a4) = digest_flush u cfg now e3
        in (e4, a1 @ a3 @ a4))"

section \<open>The idle decode probe\<close>

definition c1_baseline :: "Engine \<Rightarrow> RulesConfig \<Rightarrow> f64 option" where
  "c1_baseline e cfg =
    (case cfg_c1_baseline_tok_s cfg of Some b \<Rightarrow> Some b | None \<Rightarrow> c1_learned_baseline (e_c1 e))"

definition c1_low_message ::
  "(i64 \<Rightarrow> string) \<Rightarrow> RulesConfig \<Rightarrow> f64 \<Rightarrow> f64 \<Rightarrow> f64 \<Rightarrow> (i64 \<times> f64) list \<Rightarrow> string" where
  "c1_low_message utc cfg v floor1 baseline probes =
    ''C1 decode '' @ fmt_fixed 1 v @ '' tok/s, below '' @ fmt_fixed 1 floor1 @ '' ('' @
    fmt_fixed 0 (f_mul (cfg_c1_ratio cfg) (F_Fin 100)) @ ''% of baseline '' @ fmt_fixed 1 baseline @ '') on '' @
    show_nat (length probes) @ '' consecutive valid idle probes (probes '' @
    join '', '' (map (\<lambda>(t, w). utc t @ '' '' @ fmt_fixed 1 w) probes) @ '')''"

text \<open>A valid reading \<open>v\<close> judged against the baseline in force.\<close>

definition c1_judge ::
  "(i64 \<Rightarrow> string) \<Rightarrow> RulesConfig \<Rightarrow> Observation \<Rightarrow> C1State \<Rightarrow> f64 \<Rightarrow> f64 \<Rightarrow> C1State \<times> AlertEvent list" where
  "c1_judge utc cfg o1 c v baseline =
    (let now = o_now o1; floor1 = f_mul (cfg_c1_ratio cfg) baseline in
     if f_lt v floor1 then
       (let ts = (case o_probe_ts o1 of None \<Rightarrow> now | Some t \<Rightarrow> t);
            probes = (if ts \<in> fst ` set (c1_low_probes c) then c1_low_probes c
                      else c1_low_probes c @ [(ts, v)]);
            c1 = c\<lparr>c1_low_probes := probes\<rparr>;
            cooled1 = (case c1_last_sent c of None \<Rightarrow> True | Some t \<Rightarrow> cfg_cooldown_secs cfg \<le> now - t)
        in if cfg_c1_consecutive cfg \<le> length probes \<and> \<not> c1_announced c \<and> cooled1
           then (c1\<lparr>c1_announced := True, c1_last_sent := Some now\<rparr>,
                 [alert now ''c1_decode'' Warn False (c1_low_message utc cfg v floor1 baseline probes)])
           else (c1, []))
     else
       (c\<lparr>c1_low_probes := [], c1_announced := False\<rparr>,
        if c1_announced c then [alert now ''c1_decode'' Warn True
          (''C1 decode recovered: '' @ fmt_fixed 1 v @ '' tok/s (baseline '' @ fmt_fixed 1 baseline @ '')'')]
        else []))"

text \<open>Still learning: the first probes define normal and are not judged.\<close>

definition c1_learn :: "RulesConfig \<Rightarrow> C1State \<Rightarrow> f64 \<Rightarrow> C1State" where
  "c1_learn cfg c v =
    (let samples = c1_baseline_samples c @ [v] in
     c\<lparr>c1_baseline_samples := samples,
       c1_learned_baseline :=
         (if max (cfg_c1_baseline_probes cfg) 1 \<le> length samples then Some (median samples)
          else c1_learned_baseline c)\<rparr>)"

definition C1_STALE_FIRE_HOLD_SECS :: i64 where "C1_STALE_FIRE_HOLD_SECS = 300"

definition eval_c1_stale :: "RulesConfig \<Rightarrow> Observation \<Rightarrow> Engine \<Rightarrow> Engine \<times> AlertEvent list" where
  "eval_c1_stale cfg o1 e =
    (let now = o_now o1; c = e_c1 e;
         lst = (case c1_last_valid_ts c of None \<Rightarrow> now | Some t \<Rightarrow> t);
         threshold = max (o_probe_interval_secs o1) 1 * int (max (cfg_c1_stale_probe_intervals cfg) 1);
         stale_for = now - lst;
         was_stale_for = held_for (c1_stale c) now;
         (s1, edge) = sus_step (c1_stale c) now (threshold \<le> stale_for) C1_STALE_FIRE_HOLD_SECS (cfg_cooldown_secs cfg);
         fl = (if edge = E_Recover then note_flap (c1_stale_flaps c) now else c1_stale_flaps c);
         m = muted fl now;
         a1 = (if m then [] else push_edge edge now ''c1_stale'' Info
            (''C1 has not been able to measure for '' @ fmt_duration stale_for @ '' - the server has been busy'')
            (''C1 is measuring again after '' @ fmt_duration was_stale_for @ '' unable to get a valid reading''));
         a2 = (if m \<and> \<not> muted_announced fl then [alert now ''c1_stale'' Info False
            (''c1_stale has flapped '' @ show_nat (count_since fl now FLAP_MUTE_WINDOW_SECS) @ '' times in '' @
             fmt_duration FLAP_MUTE_WINDOW_SECS @
             '' - the MEASUREMENT is unreliable, not the server; going quiet on individual fire/recover pairs, the row stays visible and counted'')]
            else []);
         c1 = c\<lparr>c1_last_valid_ts := Some lst, c1_stale := s1, c1_stale_flaps := fl\<lparr>muted_announced := m\<rparr>\<rparr>
     in (e\<lparr>e_c1 := c1\<rparr>, a1 @ a2))"

definition eval_c1 :: "(i64 \<Rightarrow> string) \<Rightarrow> RulesConfig \<Rightarrow> Observation \<Rightarrow> Engine \<Rightarrow> Engine \<times> AlertEvent list" where
  "eval_c1 utc cfg o1 e =
    (if o_bench_active o1 then (e, [])
     else
       let (e1, a1) =
         (case o_probe_tok_s o1 of None \<Rightarrow> (e, [])
          | Some v \<Rightarrow>
             let c = (e_c1 e)\<lparr>c1_validated := True, c1_last_valid_ts := Some (o_now o1)\<rparr> in
             case c1_baseline e cfg of
               Some baseline \<Rightarrow>
                 let (c1, a) = c1_judge utc cfg o1 c v baseline in (e\<lparr>e_c1 := c1\<rparr>, a)
             | None \<Rightarrow> (e\<lparr>e_c1 := c1_learn cfg c v\<rparr>, []));
         (e2, a2) = eval_c1_stale cfg o1 e1
       in (e2, a1 @ a2))"

section \<open>The rejects\<close>

definition rejects_one ::
  "RulesConfig \<Rightarrow> i64 \<Rightarrow> nat \<Rightarrow> u64 \<Rightarrow> GrowthWindow \<Rightarrow> GrowthWindow \<times> u64 \<times> AlertEvent list" where
  "rejects_one cfg now code v win =
    (let (w1, growth) = growth_push win now v (cfg_reject_window_secs cfg);
         r = sus_step (gw_rule w1) now (cfg_reject_growth cfg < growth) 0 (cfg_cooldown_secs cfg)
     in (w1\<lparr>gw_rule := fst r\<rparr>, growth,
         push_edge (snd r) now (''rejects_'' @ show_nat code) Info
           (''gate rejected_'' @ show_nat code @ '' grew by '' @ show_nat growth @ '' in '' @
            fmt_duration (cfg_reject_window_secs cfg) @ '' (> '' @ show_nat (cfg_reject_growth cfg) @ '')'')
           (''gate rejected_'' @ show_nat code @ '' growth back to normal ('' @ show_nat growth @ '' in '' @
            fmt_duration (cfg_reject_window_secs cfg) @ '')'')))"

definition eval_rejects_413 :: "RulesConfig \<Rightarrow> Observation \<Rightarrow> Engine \<Rightarrow> Engine \<times> AlertEvent list" where
  "eval_rejects_413 cfg o1 e =
    (case o_rejected_413 o1 of None \<Rightarrow> (e, [])
     | Some v \<Rightarrow>
        let (w, growth, a) = rejects_one cfg (o_now o1) 413 v (e_rejects_413 e)
        in (e\<lparr>e_rejects_413 := w, e_last := (e_last e)\<lparr>l_growth_413 := Some growth\<rparr>\<rparr>, a))"

definition eval_rejects_429 :: "RulesConfig \<Rightarrow> Observation \<Rightarrow> Engine \<Rightarrow> Engine \<times> AlertEvent list" where
  "eval_rejects_429 cfg o1 e =
    (case o_rejected_429 o1 of None \<Rightarrow> (e, [])
     | Some v \<Rightarrow>
        let (w, growth, a) = rejects_one cfg (o_now o1) 429 v (e_rejects_429 e)
        in (e\<lparr>e_rejects_429 := w, e_last := (e_last e)\<lparr>l_growth_429 := Some growth\<rparr>\<rparr>, a))"

definition eval_rejects :: "RulesConfig \<Rightarrow> Observation \<Rightarrow> Engine \<Rightarrow> Engine \<times> AlertEvent list" where
  "eval_rejects cfg o1 e =
    (let (e1, a1) = eval_rejects_413 cfg o1 e; (e2, a2) = eval_rejects_429 cfg o1 e1 in (e2, a1 @ a2))"

section \<open>One evaluation\<close>

definition see_last :: "Observation \<Rightarrow> LastSeen \<Rightarrow> LastSeen" where
  "see_last o1 l = \<lparr>l_serve_up = o_serve_up o1, l_gate_up = o_gate_up o1, l_queue = o_queue o1,
     l_waiters = o_trusted_waiters o1,
     l_gpus = (case o_gpus o1 of Some g \<Rightarrow> Some g | None \<Rightarrow> l_gpus l),
     l_growth_413 = l_growth_413 l, l_growth_429 = l_growth_429 l,
     l_c1_tok_s = (case o_probe_tok_s o1 of Some v \<Rightarrow> Some v | None \<Rightarrow> l_c1_tok_s l),
     l_omp_mismatch = o_omp_mismatch o1,
     l_gate_shadow = (case o_gate_shadow o1 of Some s \<Rightarrow> Some s | None \<Rightarrow> l_gate_shadow l),
     l_disk = (case o_disk o1 of Some d \<Rightarrow> Some d | None \<Rightarrow> l_disk l)\<rparr>"

text \<open>The handlers in their order, each a function of the engine alone.\<close>

definition handlers ::
  "(i64 \<Rightarrow> string) \<Rightarrow> TempUnits \<Rightarrow> RulesConfig \<Rightarrow> Observation \<Rightarrow> (Engine \<Rightarrow> Engine \<times> AlertEvent list) list" where
  "handlers utc u cfg o1 =
    [eval_serve_down cfg o1, eval_gate_down cfg o1, eval_restarts cfg o1, eval_xids cfg o1,
     eval_queue cfg o1, eval_gpus u cfg o1, eval_c1 utc cfg o1, eval_rejects cfg o1,
     eval_omp_default cfg o1, eval_charging cfg o1, eval_cold_budget cfg o1, eval_disk cfg o1]"

fun run_handlers :: "(Engine \<Rightarrow> Engine \<times> AlertEvent list) list \<Rightarrow> Engine \<Rightarrow> Engine \<times> AlertEvent list" where
  "run_handlers [] e = (e, [])"
| "run_handlers (h # hs) e =
    (let (e1, a1) = h e; (e2, a2) = run_handlers hs e1 in (e2, a1 @ a2))"

definition evaluate ::
  "(i64 \<Rightarrow> string) \<Rightarrow> TempUnits \<Rightarrow> RulesConfig \<Rightarrow> Engine \<Rightarrow> Observation \<Rightarrow> Engine \<times> AlertEvent list" where
  "evaluate utc u cfg e o1 =
    (let (e1, out) = run_handlers (handlers utc u cfg o1) (e\<lparr>e_last := see_last o1 (e_last e)\<rparr>)
     in (e1, out @ map (\<lambda>msg. alert (o_now o1) RULE_TEST_ALERT Info False (''[TEST] '' @ msg))
                     (o_test_alerts o1)))"

section \<open>The streak and the baseline, maintained from outside\<close>

definition c1_baseline_progress :: "Engine \<Rightarrow> usize" where
  "c1_baseline_progress e = length (c1_baseline_samples (e_c1 e))"

definition c1_streak_probes :: "Engine \<Rightarrow> i64 list" where
  "c1_streak_probes e = map fst (c1_low_probes (e_c1 e))"

definition retain_c1_streak :: "Engine \<Rightarrow> (i64 \<Rightarrow> bool) \<Rightarrow> Engine \<times> i64 list" where
  "retain_c1_streak e still_valid =
    (let ps = c1_low_probes (e_c1 e) in
     (e\<lparr>e_c1 := (e_c1 e)\<lparr>c1_low_probes := filter (\<lambda>(ts, _). still_valid ts) ps\<rparr>\<rparr>,
      map fst (filter (\<lambda>(ts, _). \<not> still_valid ts) ps)))"

definition c1_needs_revalidation :: "Engine \<Rightarrow> bool" where
  "c1_needs_revalidation e \<longleftrightarrow> \<not> c1_validated (e_c1 e)"

definition relearn_c1_baseline :: "Engine \<Rightarrow> RulesConfig \<Rightarrow> f64 list \<Rightarrow> Engine" where
  "relearn_c1_baseline e cfg valid_values =
    (let want = max (cfg_c1_baseline_probes cfg) 1;
         recent = drop (length valid_values - want) valid_values
     in e\<lparr>e_c1 := c1_default\<lparr>c1_baseline_samples := recent,
            c1_learned_baseline := (if want \<le> length recent then Some (median recent) else None),
            c1_last_sent := c1_last_sent (e_c1 e),
            c1_validated := True\<rparr>\<rparr>)"

end
