(* ===== verification/RuleKeys.thy ===== *)
theory RuleKeys
  imports RuleEval
begin

text \<open>
  What the handlers of the alert engine share: each one owns some rule keys and some fields of
  the engine, stamps its alerts with the time of the poll and leaves the rest alone. The
  contract is the locale \<open>handler\<close>, interpreted on every handler; \<open>run_handlers\<close> keeps it.
\<close>

section \<open>The alerts of one key\<close>

definition edges_for :: "string \<Rightarrow> AlertEvent list \<Rightarrow> edge list" where
  "edges_for k as = map (\<lambda>a. if ae_recovered a then E_Recover else E_Fire) (filter (\<lambda>a. ae_rule a = k) as)"

text \<open>The edge a list with at most one alert of the key stands for.\<close>

fun the_edge :: "edge list \<Rightarrow> edge" where
  "the_edge [] = E_None"
| "the_edge (x # xs) = x"

definition edge_list :: "edge \<Rightarrow> edge list" where
  "edge_list x = (if x = E_None then [] else [x])"

lemma edges_for_simps [simp]:
  "edges_for k [] = []"
  "edges_for k (a # as) =
    (if ae_rule a = k then [if ae_recovered a then E_Recover else E_Fire] else []) @ edges_for k as"
  "edges_for k (as @ bs) = edges_for k as @ edges_for k bs"
  by (simp_all add: edges_for_def)

lemma edges_for_none: "k \<notin> ae_rule ` set as \<Longrightarrow> edges_for k as = []"
  by (auto simp: edges_for_def filter_empty_conv)

lemma the_edge_list [simp]: "the_edge (edge_list x) = x"
  by (cases x) (auto simp: edge_list_def)

lemma alert_simps [simp]:
  "ae_rule (alert ts k s r m) = k" "ae_ts (alert ts k s r m) = ts"
  "ae_recovered (alert ts k s r m) = r" "ae_severity (alert ts k s r m) = s"
  by (simp_all add: alert_def)

lemma edges_for_push [simp]:
  "edges_for k (push_edge x now k s f r) = edge_list x"
  "k \<noteq> l \<Longrightarrow> edges_for k (push_edge x now l s f r) = []"
  by (cases x; simp add: edge_list_def)+

lemma push_edge_set: "a \<in> set (push_edge x now k s f r) \<Longrightarrow> ae_ts a = now \<and> ae_rule a = k \<and> ae_severity a = s"
  by (cases x) auto

section \<open>The contract of a handler\<close>

text \<open>A handler alerts only on keys it owns, at the time of the poll, and changes only the fields
  of the engine that \<open>erase\<close> overwrites.\<close>

locale handler =
  fixes h :: "Engine \<Rightarrow> Engine \<times> AlertEvent list"
    and now :: i64
    and owns :: "string \<Rightarrow> bool"
    and erase :: "Engine \<Rightarrow> Engine"
  assumes stamped: "a \<in> set (snd (h e)) \<Longrightarrow> ae_ts a = now"
    and keyed: "a \<in> set (snd (h e)) \<Longrightarrow> owns (ae_rule a)"
    and frame: "erase (fst (h e)) = erase e"
begin

lemma silent: "\<not> owns k \<Longrightarrow> edges_for k (snd (h e)) = []"
  using keyed by (intro edges_for_none) blast

lemma kept: "(\<And>e. f (erase e) = f e) \<Longrightarrow> f (fst (h e)) = f e"
  using frame by metis

end

definition erase_serve_down :: "Engine \<Rightarrow> Engine" where
  "erase_serve_down e = e\<lparr>e_serve_down := sustained_default, e_serve_down_page := sustained_default\<rparr>"

definition erase_gate_down :: "Engine \<Rightarrow> Engine" where
  "erase_gate_down e = e\<lparr>e_gate_down := sustained_default\<rparr>"

definition erase_restarts :: "Engine \<Rightarrow> Engine" where
  "erase_restarts e = e\<lparr>e_event_last_sent := bt_empty, e_restart_pending := bt_empty, e_restart_planned := bt_empty\<rparr>"

definition erase_xids :: "Engine \<Rightarrow> Engine" where
  "erase_xids e = e\<lparr>e_event_last_sent := bt_empty\<rparr>"

definition erase_queue :: "Engine \<Rightarrow> Engine" where
  "erase_queue e = e\<lparr>e_queue := sustained_default, e_waiters := sustained_default\<rparr>"

definition erase_gpus :: "Engine \<Rightarrow> Engine" where
  "erase_gpus e = e\<lparr>e_gpu_missing := sustained_default, e_gpu_count_seen := 0, e_thermal_temp := bt_empty, e_thermal_throttle := bt_empty, e_digest := digest_default\<rparr>"

definition erase_c1 :: "Engine \<Rightarrow> Engine" where
  "erase_c1 e = e\<lparr>e_c1 := c1_default\<rparr>"

definition erase_rejects :: "Engine \<Rightarrow> Engine" where
  "erase_rejects e = e\<lparr>e_rejects_413 := growth_default, e_rejects_429 := growth_default, e_last := last_seen_default\<rparr>"

definition erase_omp :: "Engine \<Rightarrow> Engine" where
  "erase_omp e = e\<lparr>e_omp_default := sustained_default\<rparr>"

definition erase_charging :: "Engine \<Rightarrow> Engine" where
  "erase_charging e = e\<lparr>e_charge_errors := sustained_default, e_discount_inert := sustained_default\<rparr>"

definition erase_cold :: "Engine \<Rightarrow> Engine" where
  "erase_cold e = e\<lparr>e_cold_budget := sustained_default\<rparr>"

definition erase_disk :: "Engine \<Rightarrow> Engine" where
  "erase_disk e = e\<lparr>e_disk_full := sustained_default, e_disk_full_page := sustained_default, e_disk_growth := disk_growth_default\<rparr>"

named_theorems frame_simps "the fields a handler leaves alone"

section \<open>The loops\<close>

lemma restarts_loop_contract:
  "(\<forall>a \<in> set (snd (restarts_loop cfg o1 e rs)). ae_ts a = o_now o1 \<and> (\<exists>r. ae_rule a = restart_key r)) \<and>
   erase_restarts (fst (restarts_loop cfg o1 e rs)) = erase_restarts e"
proof (induction rs arbitrary: e)
  case (Cons r rs)
  have "(\<forall>a \<in> set (snd (restart_one cfg o1 e r)). ae_ts a = o_now o1 \<and> ae_rule a = restart_key (ro_role r)) \<and>
     erase_restarts (fst (restart_one cfg o1 e r)) = erase_restarts e"
    by (simp add: restart_one_def Let_def erase_restarts_def)
  then show ?case using Cons.IH [of "fst (restart_one cfg o1 e r)"]
    by (auto simp: case_prod_beta Let_def)
qed simp

lemma stable_loop_contract:
  "(\<forall>a \<in> set (snd (stable_loop now e rs)). ae_ts a = now \<and> (\<exists>r. ae_rule a = restart_key r)) \<and>
   erase_restarts (fst (stable_loop now e rs)) = erase_restarts e"
proof (induction rs arbitrary: e)
  case (Cons r rs)
  have "ae_ts (snd (stable_one now e r)) = now \<and> ae_rule (snd (stable_one now e r)) = restart_key r \<and>
     erase_restarts (fst (stable_one now e r)) = erase_restarts e"
    by (simp add: stable_one_def Let_def erase_restarts_def)
  then show ?case using Cons.IH [of "fst (stable_one now e r)"]
    by (auto simp: case_prod_beta Let_def)
qed simp

lemma xids_loop_contract:
  "(\<forall>a \<in> set (snd (xids_loop cfg o1 e xs)). ae_ts a = o_now o1 \<and> (\<exists>x. ae_rule a = xid_rule_key x)) \<and>
   erase_xids (fst (xids_loop cfg o1 e xs)) = erase_xids e"
proof (induction xs arbitrary: e)
  case (Cons x xs)
  have "(\<forall>a \<in> set (snd (xid_one cfg o1 e x)). ae_ts a = o_now o1 \<and> ae_rule a = xid_rule_key x) \<and>
     erase_xids (fst (xid_one cfg o1 e x)) = erase_xids e"
    by (simp add: xid_one_def Let_def erase_xids_def)
  then show ?case using Cons.IH [of "fst (xid_one cfg o1 e x)"]
    by (auto simp: case_prod_beta Let_def)
qed simp

definition gpu_key :: "string \<Rightarrow> bool" where
  "gpu_key k \<longleftrightarrow> k = ''gpu_missing'' \<or> k = ''thermal_digest'' \<or>
     (\<exists>i. k = thermal_temp_key i \<or> k = thermal_throttle_key i)"

lemma gpus_loop_contract:
  "(\<forall>a \<in> set (snd (gpus_loop u cfg now dt e gs)). ae_ts a = now \<and> gpu_key (ae_rule a)) \<and>
   erase_gpus (fst (gpus_loop u cfg now dt e gs)) = erase_gpus e \<and>
   e_gpu_missing (fst (gpus_loop u cfg now dt e gs)) = e_gpu_missing e \<and>
   e_gpu_count_seen (fst (gpus_loop u cfg now dt e gs)) = e_gpu_count_seen e \<and>
   (\<forall>a \<in> set (snd (gpus_loop u cfg now dt e gs)). ae_rule a \<noteq> ''gpu_missing'')"
proof (induction gs arbitrary: e)
  case (Cons g gs)
  let ?d = "gpu_digest_one cfg dt e g" and ?t = "gpu_thermal_one u cfg now e g"
  have d: "erase_gpus ?d = erase_gpus e" "e_gpu_missing ?d = e_gpu_missing e"
    "e_gpu_count_seen ?d = e_gpu_count_seen e"
    by (simp_all add: gpu_digest_one_def Let_def erase_gpus_def)
  have t: "erase_gpus (fst ?t) = erase_gpus e" "e_gpu_missing (fst ?t) = e_gpu_missing e"
    "e_gpu_count_seen (fst ?t) = e_gpu_count_seen e"
    by (simp_all add: gpu_thermal_one_def Let_def erase_gpus_def)
  have a: "ae_ts a = now \<and> (ae_rule a = thermal_temp_key (go_index g) \<or> ae_rule a = thermal_throttle_key (go_index g))"
    if "a \<in> set (snd ?t)" for a
    using that by (auto simp: gpu_thermal_one_def Let_def dest!: push_edge_set)
  then have a': "ae_ts a = now \<and> gpu_key (ae_rule a) \<and> ae_rule a \<noteq> ''gpu_missing''" if "a \<in> set (snd ?t)" for a
    using that by (force simp: gpu_key_def thermal_temp_key_def thermal_throttle_key_def)
  show ?case
  proof (cases "go_index g \<in> set (cfg_thermal_exclude cfg)")
    case True
    then show ?thesis using d Cons.IH [of ?d] by simp
  next
    case False
    then show ?thesis using t a' Cons.IH [of "fst ?t"] by (auto simp: case_prod_beta Let_def)
  qed
qed simp

section \<open>The handlers keep the contract\<close>

interpretation h_serve_down: handler "eval_serve_down cfg o1" "o_now o1"
    "\<lambda>k. k \<in> {''serve_down'', ''serve_down_page''}" erase_serve_down for cfg o1
  by unfold_locales (auto simp: eval_serve_down_def Let_def erase_serve_down_def split: if_splits)

interpretation h_gate_down: handler "eval_gate_down cfg o1" "o_now o1"
    "\<lambda>k. k = ''gate_down''" erase_gate_down for cfg o1
  by unfold_locales (auto simp: eval_gate_down_def Let_def erase_gate_down_def dest!: push_edge_set)

interpretation h_restarts: handler "eval_restarts cfg o1" "o_now o1"
    "\<lambda>k. \<exists>r. k = restart_key r" erase_restarts for cfg o1
proof unfold_locales
  fix e a
  let ?e = "fst (restarts_loop cfg o1 e (o_restarts o1))"
  note c = restarts_loop_contract [of cfg o1 e "o_restarts o1"]
    stable_loop_contract [of "o_now o1" ?e "stable_roles cfg o1 ?e"]
  show "erase_restarts (fst (eval_restarts cfg o1 e)) = erase_restarts e"
    using c by (simp add: eval_restarts_def case_prod_beta Let_def)
  assume "a \<in> set (snd (eval_restarts cfg o1 e))"
  then show "ae_ts a = o_now o1" "\<exists>r. ae_rule a = restart_key r"
    using c by (auto simp: eval_restarts_def case_prod_beta Let_def)
qed

interpretation h_xids: handler "eval_xids cfg o1" "o_now o1"
    "\<lambda>k. \<exists>x. k = xid_rule_key x" erase_xids for cfg o1
  by unfold_locales (use xids_loop_contract in \<open>auto simp: eval_xids_def\<close>)

interpretation h_queue: handler "eval_queue cfg o1" "o_now o1"
    "\<lambda>k. k \<in> {''queue_pressure'', ''gate_waiters''}" erase_queue for cfg o1
  by unfold_locales (auto simp: eval_queue_def Let_def erase_queue_def dest!: push_edge_set)

interpretation h_gpus: handler "eval_gpus u cfg o1" "o_now o1" gpu_key erase_gpus for u cfg o1
proof unfold_locales
  fix e a
  define e1 where "e1 = fst (eval_gpu_missing cfg o1 e)"
  have m: "erase_gpus e1 = erase_gpus e"
    by (simp add: e1_def eval_gpu_missing_def Let_def erase_gpus_def)
  have am: "ae_ts a = o_now o1 \<and> gpu_key (ae_rule a)" if "a \<in> set (snd (eval_gpu_missing cfg o1 e))" for a
    using that by (auto simp: eval_gpu_missing_def Let_def gpu_key_def dest!: push_edge_set)
  have f: "erase_gpus (fst (digest_flush u cfg now e2)) = erase_gpus e2" for now e2
    by (simp add: digest_flush_def Let_def erase_gpus_def)
  have af: "ae_ts a = now \<and> gpu_key (ae_rule a)" if "a \<in> set (snd (digest_flush u cfg now e2))" for a now e2
    using that by (auto simp: digest_flush_def Let_def gpu_key_def split: if_splits)
  have er: "erase_gpus (e1\<lparr>e_digest := d\<rparr>) = erase_gpus e1" for d by (simp add: erase_gpus_def)
  note c = gpus_loop_contract [of u cfg "o_now o1"]
  show "erase_gpus (fst (eval_gpus u cfg o1 e)) = erase_gpus e"
    using m f er c by (simp add: eval_gpus_def case_prod_beta Let_def flip: e1_def split: option.split)
  assume "a \<in> set (snd (eval_gpus u cfg o1 e))"
  then show "ae_ts a = o_now o1" "gpu_key (ae_rule a)"
    using am af c
    by (auto simp add: eval_gpus_def case_prod_beta Let_def simp flip: e1_def split: option.splits)
qed

lemma eval_c1_stale_contract:
  "fst (eval_c1_stale cfg o1 e) = e\<lparr>e_c1 := e_c1 (fst (eval_c1_stale cfg o1 e))\<rparr>"
  "a \<in> set (snd (eval_c1_stale cfg o1 e)) \<Longrightarrow> ae_ts a = o_now o1 \<and> ae_rule a = ''c1_stale''"
  by (auto simp: eval_c1_stale_def case_prod_beta Let_def dest!: push_edge_set split: if_splits)

lemma c1_judge_alerts:
  "a \<in> set (snd (c1_judge utc cfg o1 c v b)) \<Longrightarrow> ae_ts a = o_now o1 \<and> ae_rule a = ''c1_decode''"
  by (auto simp: c1_judge_def Let_def split: if_splits)

interpretation h_c1: handler "eval_c1 utc cfg o1" "o_now o1"
    "\<lambda>k. k \<in> {''c1_decode'', ''c1_stale''}" erase_c1 for utc cfg o1
proof unfold_locales
  fix e a
  have f: "erase_c1 (fst (eval_c1_stale cfg o1 e1)) = erase_c1 e1" for e1
    by (subst eval_c1_stale_contract(1)) (simp add: erase_c1_def)
  have er: "erase_c1 (e1\<lparr>e_c1 := c\<rparr>) = erase_c1 e1" for e1 c by (simp add: erase_c1_def)
  show "erase_c1 (fst (eval_c1 utc cfg o1 e)) = erase_c1 e"
    by (simp add: eval_c1_def case_prod_beta Let_def f er split: option.split)
  assume "a \<in> set (snd (eval_c1 utc cfg o1 e))"
  then show "ae_ts a = o_now o1" "ae_rule a \<in> {''c1_decode'', ''c1_stale''}"
    by (auto simp: eval_c1_def case_prod_beta Let_def split: if_splits option.splits
        dest: eval_c1_stale_contract(2) c1_judge_alerts)
qed

lemma rejects_one_alerts:
  "a \<in> set (snd (snd (rejects_one cfg now code v w))) \<Longrightarrow> ae_ts a = now \<and> ae_rule a = ''rejects_'' @ show_nat code"
  by (auto simp: rejects_one_def case_prod_beta Let_def dest!: push_edge_set)

lemma reject_codes: "show_nat 413 = ''413''" "show_nat 429 = ''429''"
  by code_simp+

lemma reject_keys: "''rejects_'' @ show_nat 413 = ''rejects_413''" "''rejects_'' @ show_nat 429 = ''rejects_429''"
  by (simp_all add: reject_codes)

lemma rejects_each_contract:
  "erase_rejects (fst (eval_rejects_413 cfg o1 e)) = erase_rejects e"
  "erase_rejects (fst (eval_rejects_429 cfg o1 e)) = erase_rejects e"
  "a \<in> set (snd (eval_rejects_413 cfg o1 e)) \<Longrightarrow> ae_ts a = o_now o1 \<and> ae_rule a = ''rejects_413''"
  "a \<in> set (snd (eval_rejects_429 cfg o1 e)) \<Longrightarrow> ae_ts a = o_now o1 \<and> ae_rule a = ''rejects_429''"
  unfolding eval_rejects_413_def eval_rejects_429_def erase_rejects_def Let_def
  by (auto simp: case_prod_beta split: option.splits dest!: rejects_one_alerts simp: reject_codes)

interpretation h_rejects: handler "eval_rejects cfg o1" "o_now o1"
    "\<lambda>k. k \<in> {''rejects_413'', ''rejects_429''}" erase_rejects for cfg o1
  by unfold_locales (auto simp: eval_rejects_def case_prod_beta Let_def rejects_each_contract
      dest: rejects_each_contract(3,4))

interpretation h_omp: handler "eval_omp_default cfg o1" "o_now o1"
    "\<lambda>k. k = ''omp_default_mismatch''" erase_omp for cfg o1
  by unfold_locales (auto simp: eval_omp_default_def case_prod_beta Let_def erase_omp_def dest!: push_edge_set)

text \<open>The messages are long texts: the alerts are read off without touching them.\<close>

lemmas read_alerts = Let_def option.case prod.case snd_conv if_True if_False not_True_eq_False simp_thms
  set_append Un_iff list.set(1) empty_iff

lemma charging_alerts:
  "a \<in> set (snd (eval_charging cfg o1 e)) \<Longrightarrow>
   ae_ts a = o_now o1 \<and> (ae_rule a = ''gate_charge_errors'' \<or> ae_rule a = ''gate_discount_inert'')"
  by (cases "o_gate_shadow o1") (simp_all only: eval_charging_def read_alerts, blast dest: push_edge_set)

lemma charging_erases: "erase_charging (fst (eval_charging cfg o1 e)) = erase_charging e"
  by (cases "o_gate_shadow o1") (simp_all only: eval_charging_def Let_def option.case fst_conv, simp add: erase_charging_def)

interpretation h_charging: handler "eval_charging cfg o1" "o_now o1"
    "\<lambda>k. k \<in> {''gate_charge_errors'', ''gate_discount_inert''}" erase_charging for cfg o1
  by unfold_locales (use charging_alerts charging_erases in blast)+

lemma cold_alerts:
  "a \<in> set (snd (eval_cold_budget cfg o1 e)) \<Longrightarrow> ae_ts a = o_now o1 \<and> ae_rule a = ''gate_cold_budget''"
  by (cases "o_bench_active o1"; cases "o_trusted_inflight_tokens o1"; cases "o_cache_hit_rate o1";
      cases "o_trusted_budget_tokens o1"; cases "0 < the (o_trusted_budget_tokens o1)";
      simp only: eval_cold_budget_def read_alerts option.sel; blast dest: push_edge_set)

lemma cold_erases: "erase_cold (fst (eval_cold_budget cfg o1 e)) = erase_cold e"
  by (cases "o_bench_active o1"; cases "o_trusted_inflight_tokens o1"; cases "o_cache_hit_rate o1";
      cases "o_trusted_budget_tokens o1"; cases "0 < the (o_trusted_budget_tokens o1)";
      simp only: eval_cold_budget_def Let_def option.case prod.case fst_conv simp_thms if_True if_False option.sel;
      simp add: erase_cold_def)

interpretation h_cold: handler "eval_cold_budget cfg o1" "o_now o1"
    "\<lambda>k. k = ''gate_cold_budget''" erase_cold for cfg o1
  by unfold_locales (use cold_alerts cold_erases in blast)+

lemma disk_alerts:
  "a \<in> set (snd (eval_disk cfg o1 e)) \<Longrightarrow>
   ae_ts a = o_now o1 \<and> (ae_rule a = ''disk_full'' \<or> ae_rule a = ''disk_full_page'' \<or> ae_rule a = ''disk_growth'')"
  by (cases "o_disk o1")
    (simp_all only: eval_disk_def disk_rule_def disk_growth_rule_def case_prod_beta read_alerts, blast dest: push_edge_set)

lemma disk_erases: "erase_disk (fst (eval_disk cfg o1 e)) = erase_disk e"
  by (cases "o_disk o1") (simp_all only: eval_disk_def Let_def option.case fst_conv, simp add: erase_disk_def)

interpretation h_disk: handler "eval_disk cfg o1" "o_now o1"
    "\<lambda>k. k \<in> {''disk_full'', ''disk_full_page'', ''disk_growth''}" erase_disk for cfg o1
  by unfold_locales (use disk_alerts disk_erases in blast)+

section \<open>What each handler leaves alone\<close>

declare erase_serve_down_def [simp]
  erase_gate_down_def [simp]
  erase_restarts_def [simp]
  erase_xids_def [simp]
  erase_queue_def [simp]
  erase_gpus_def [simp]
  erase_c1_def [simp]
  erase_rejects_def [simp]
  erase_omp_def [simp]
  erase_charging_def [simp]
  erase_cold_def [simp]
  erase_disk_def [simp]

lemmas serve_down_frame [frame_simps] =
  h_serve_down.kept [where f = e_gate_down, simplified]
  h_serve_down.kept [where f = e_queue, simplified]
  h_serve_down.kept [where f = e_waiters, simplified]
  h_serve_down.kept [where f = e_thermal_temp, simplified]
  h_serve_down.kept [where f = e_thermal_throttle, simplified]
  h_serve_down.kept [where f = e_gpu_missing, simplified]
  h_serve_down.kept [where f = e_gpu_count_seen, simplified]
  h_serve_down.kept [where f = e_rejects_413, simplified]
  h_serve_down.kept [where f = e_rejects_429, simplified]
  h_serve_down.kept [where f = e_event_last_sent, simplified]
  h_serve_down.kept [where f = e_restart_pending, simplified]
  h_serve_down.kept [where f = e_restart_planned, simplified]
  h_serve_down.kept [where f = e_c1, simplified]
  h_serve_down.kept [where f = e_omp_default, simplified]
  h_serve_down.kept [where f = e_charge_errors, simplified]
  h_serve_down.kept [where f = e_discount_inert, simplified]
  h_serve_down.kept [where f = e_cold_budget, simplified]
  h_serve_down.kept [where f = e_disk_full, simplified]
  h_serve_down.kept [where f = e_disk_full_page, simplified]
  h_serve_down.kept [where f = e_disk_growth, simplified]
  h_serve_down.kept [where f = e_digest, simplified]
  h_serve_down.kept [where f = e_last, simplified]

lemmas gate_down_frame [frame_simps] =
  h_gate_down.kept [where f = e_serve_down, simplified]
  h_gate_down.kept [where f = e_serve_down_page, simplified]
  h_gate_down.kept [where f = e_queue, simplified]
  h_gate_down.kept [where f = e_waiters, simplified]
  h_gate_down.kept [where f = e_thermal_temp, simplified]
  h_gate_down.kept [where f = e_thermal_throttle, simplified]
  h_gate_down.kept [where f = e_gpu_missing, simplified]
  h_gate_down.kept [where f = e_gpu_count_seen, simplified]
  h_gate_down.kept [where f = e_rejects_413, simplified]
  h_gate_down.kept [where f = e_rejects_429, simplified]
  h_gate_down.kept [where f = e_event_last_sent, simplified]
  h_gate_down.kept [where f = e_restart_pending, simplified]
  h_gate_down.kept [where f = e_restart_planned, simplified]
  h_gate_down.kept [where f = e_c1, simplified]
  h_gate_down.kept [where f = e_omp_default, simplified]
  h_gate_down.kept [where f = e_charge_errors, simplified]
  h_gate_down.kept [where f = e_discount_inert, simplified]
  h_gate_down.kept [where f = e_cold_budget, simplified]
  h_gate_down.kept [where f = e_disk_full, simplified]
  h_gate_down.kept [where f = e_disk_full_page, simplified]
  h_gate_down.kept [where f = e_disk_growth, simplified]
  h_gate_down.kept [where f = e_digest, simplified]
  h_gate_down.kept [where f = e_last, simplified]

lemmas restarts_frame [frame_simps] =
  h_restarts.kept [where f = e_serve_down, simplified]
  h_restarts.kept [where f = e_serve_down_page, simplified]
  h_restarts.kept [where f = e_gate_down, simplified]
  h_restarts.kept [where f = e_queue, simplified]
  h_restarts.kept [where f = e_waiters, simplified]
  h_restarts.kept [where f = e_thermal_temp, simplified]
  h_restarts.kept [where f = e_thermal_throttle, simplified]
  h_restarts.kept [where f = e_gpu_missing, simplified]
  h_restarts.kept [where f = e_gpu_count_seen, simplified]
  h_restarts.kept [where f = e_rejects_413, simplified]
  h_restarts.kept [where f = e_rejects_429, simplified]
  h_restarts.kept [where f = e_c1, simplified]
  h_restarts.kept [where f = e_omp_default, simplified]
  h_restarts.kept [where f = e_charge_errors, simplified]
  h_restarts.kept [where f = e_discount_inert, simplified]
  h_restarts.kept [where f = e_cold_budget, simplified]
  h_restarts.kept [where f = e_disk_full, simplified]
  h_restarts.kept [where f = e_disk_full_page, simplified]
  h_restarts.kept [where f = e_disk_growth, simplified]
  h_restarts.kept [where f = e_digest, simplified]
  h_restarts.kept [where f = e_last, simplified]

lemmas xids_frame [frame_simps] =
  h_xids.kept [where f = e_serve_down, simplified]
  h_xids.kept [where f = e_serve_down_page, simplified]
  h_xids.kept [where f = e_gate_down, simplified]
  h_xids.kept [where f = e_queue, simplified]
  h_xids.kept [where f = e_waiters, simplified]
  h_xids.kept [where f = e_thermal_temp, simplified]
  h_xids.kept [where f = e_thermal_throttle, simplified]
  h_xids.kept [where f = e_gpu_missing, simplified]
  h_xids.kept [where f = e_gpu_count_seen, simplified]
  h_xids.kept [where f = e_rejects_413, simplified]
  h_xids.kept [where f = e_rejects_429, simplified]
  h_xids.kept [where f = e_restart_pending, simplified]
  h_xids.kept [where f = e_restart_planned, simplified]
  h_xids.kept [where f = e_c1, simplified]
  h_xids.kept [where f = e_omp_default, simplified]
  h_xids.kept [where f = e_charge_errors, simplified]
  h_xids.kept [where f = e_discount_inert, simplified]
  h_xids.kept [where f = e_cold_budget, simplified]
  h_xids.kept [where f = e_disk_full, simplified]
  h_xids.kept [where f = e_disk_full_page, simplified]
  h_xids.kept [where f = e_disk_growth, simplified]
  h_xids.kept [where f = e_digest, simplified]
  h_xids.kept [where f = e_last, simplified]

lemmas queue_frame [frame_simps] =
  h_queue.kept [where f = e_serve_down, simplified]
  h_queue.kept [where f = e_serve_down_page, simplified]
  h_queue.kept [where f = e_gate_down, simplified]
  h_queue.kept [where f = e_thermal_temp, simplified]
  h_queue.kept [where f = e_thermal_throttle, simplified]
  h_queue.kept [where f = e_gpu_missing, simplified]
  h_queue.kept [where f = e_gpu_count_seen, simplified]
  h_queue.kept [where f = e_rejects_413, simplified]
  h_queue.kept [where f = e_rejects_429, simplified]
  h_queue.kept [where f = e_event_last_sent, simplified]
  h_queue.kept [where f = e_restart_pending, simplified]
  h_queue.kept [where f = e_restart_planned, simplified]
  h_queue.kept [where f = e_c1, simplified]
  h_queue.kept [where f = e_omp_default, simplified]
  h_queue.kept [where f = e_charge_errors, simplified]
  h_queue.kept [where f = e_discount_inert, simplified]
  h_queue.kept [where f = e_cold_budget, simplified]
  h_queue.kept [where f = e_disk_full, simplified]
  h_queue.kept [where f = e_disk_full_page, simplified]
  h_queue.kept [where f = e_disk_growth, simplified]
  h_queue.kept [where f = e_digest, simplified]
  h_queue.kept [where f = e_last, simplified]

lemmas gpus_frame [frame_simps] =
  h_gpus.kept [where f = e_serve_down, simplified]
  h_gpus.kept [where f = e_serve_down_page, simplified]
  h_gpus.kept [where f = e_gate_down, simplified]
  h_gpus.kept [where f = e_queue, simplified]
  h_gpus.kept [where f = e_waiters, simplified]
  h_gpus.kept [where f = e_rejects_413, simplified]
  h_gpus.kept [where f = e_rejects_429, simplified]
  h_gpus.kept [where f = e_event_last_sent, simplified]
  h_gpus.kept [where f = e_restart_pending, simplified]
  h_gpus.kept [where f = e_restart_planned, simplified]
  h_gpus.kept [where f = e_c1, simplified]
  h_gpus.kept [where f = e_omp_default, simplified]
  h_gpus.kept [where f = e_charge_errors, simplified]
  h_gpus.kept [where f = e_discount_inert, simplified]
  h_gpus.kept [where f = e_cold_budget, simplified]
  h_gpus.kept [where f = e_disk_full, simplified]
  h_gpus.kept [where f = e_disk_full_page, simplified]
  h_gpus.kept [where f = e_disk_growth, simplified]
  h_gpus.kept [where f = e_last, simplified]

lemmas c1_frame [frame_simps] =
  h_c1.kept [where f = e_serve_down, simplified]
  h_c1.kept [where f = e_serve_down_page, simplified]
  h_c1.kept [where f = e_gate_down, simplified]
  h_c1.kept [where f = e_queue, simplified]
  h_c1.kept [where f = e_waiters, simplified]
  h_c1.kept [where f = e_thermal_temp, simplified]
  h_c1.kept [where f = e_thermal_throttle, simplified]
  h_c1.kept [where f = e_gpu_missing, simplified]
  h_c1.kept [where f = e_gpu_count_seen, simplified]
  h_c1.kept [where f = e_rejects_413, simplified]
  h_c1.kept [where f = e_rejects_429, simplified]
  h_c1.kept [where f = e_event_last_sent, simplified]
  h_c1.kept [where f = e_restart_pending, simplified]
  h_c1.kept [where f = e_restart_planned, simplified]
  h_c1.kept [where f = e_omp_default, simplified]
  h_c1.kept [where f = e_charge_errors, simplified]
  h_c1.kept [where f = e_discount_inert, simplified]
  h_c1.kept [where f = e_cold_budget, simplified]
  h_c1.kept [where f = e_disk_full, simplified]
  h_c1.kept [where f = e_disk_full_page, simplified]
  h_c1.kept [where f = e_disk_growth, simplified]
  h_c1.kept [where f = e_digest, simplified]
  h_c1.kept [where f = e_last, simplified]

lemmas rejects_frame [frame_simps] =
  h_rejects.kept [where f = e_serve_down, simplified]
  h_rejects.kept [where f = e_serve_down_page, simplified]
  h_rejects.kept [where f = e_gate_down, simplified]
  h_rejects.kept [where f = e_queue, simplified]
  h_rejects.kept [where f = e_waiters, simplified]
  h_rejects.kept [where f = e_thermal_temp, simplified]
  h_rejects.kept [where f = e_thermal_throttle, simplified]
  h_rejects.kept [where f = e_gpu_missing, simplified]
  h_rejects.kept [where f = e_gpu_count_seen, simplified]
  h_rejects.kept [where f = e_event_last_sent, simplified]
  h_rejects.kept [where f = e_restart_pending, simplified]
  h_rejects.kept [where f = e_restart_planned, simplified]
  h_rejects.kept [where f = e_c1, simplified]
  h_rejects.kept [where f = e_omp_default, simplified]
  h_rejects.kept [where f = e_charge_errors, simplified]
  h_rejects.kept [where f = e_discount_inert, simplified]
  h_rejects.kept [where f = e_cold_budget, simplified]
  h_rejects.kept [where f = e_disk_full, simplified]
  h_rejects.kept [where f = e_disk_full_page, simplified]
  h_rejects.kept [where f = e_disk_growth, simplified]
  h_rejects.kept [where f = e_digest, simplified]

lemmas omp_frame [frame_simps] =
  h_omp.kept [where f = e_serve_down, simplified]
  h_omp.kept [where f = e_serve_down_page, simplified]
  h_omp.kept [where f = e_gate_down, simplified]
  h_omp.kept [where f = e_queue, simplified]
  h_omp.kept [where f = e_waiters, simplified]
  h_omp.kept [where f = e_thermal_temp, simplified]
  h_omp.kept [where f = e_thermal_throttle, simplified]
  h_omp.kept [where f = e_gpu_missing, simplified]
  h_omp.kept [where f = e_gpu_count_seen, simplified]
  h_omp.kept [where f = e_rejects_413, simplified]
  h_omp.kept [where f = e_rejects_429, simplified]
  h_omp.kept [where f = e_event_last_sent, simplified]
  h_omp.kept [where f = e_restart_pending, simplified]
  h_omp.kept [where f = e_restart_planned, simplified]
  h_omp.kept [where f = e_c1, simplified]
  h_omp.kept [where f = e_charge_errors, simplified]
  h_omp.kept [where f = e_discount_inert, simplified]
  h_omp.kept [where f = e_cold_budget, simplified]
  h_omp.kept [where f = e_disk_full, simplified]
  h_omp.kept [where f = e_disk_full_page, simplified]
  h_omp.kept [where f = e_disk_growth, simplified]
  h_omp.kept [where f = e_digest, simplified]
  h_omp.kept [where f = e_last, simplified]

lemmas charging_frame [frame_simps] =
  h_charging.kept [where f = e_serve_down, simplified]
  h_charging.kept [where f = e_serve_down_page, simplified]
  h_charging.kept [where f = e_gate_down, simplified]
  h_charging.kept [where f = e_queue, simplified]
  h_charging.kept [where f = e_waiters, simplified]
  h_charging.kept [where f = e_thermal_temp, simplified]
  h_charging.kept [where f = e_thermal_throttle, simplified]
  h_charging.kept [where f = e_gpu_missing, simplified]
  h_charging.kept [where f = e_gpu_count_seen, simplified]
  h_charging.kept [where f = e_rejects_413, simplified]
  h_charging.kept [where f = e_rejects_429, simplified]
  h_charging.kept [where f = e_event_last_sent, simplified]
  h_charging.kept [where f = e_restart_pending, simplified]
  h_charging.kept [where f = e_restart_planned, simplified]
  h_charging.kept [where f = e_c1, simplified]
  h_charging.kept [where f = e_omp_default, simplified]
  h_charging.kept [where f = e_cold_budget, simplified]
  h_charging.kept [where f = e_disk_full, simplified]
  h_charging.kept [where f = e_disk_full_page, simplified]
  h_charging.kept [where f = e_disk_growth, simplified]
  h_charging.kept [where f = e_digest, simplified]
  h_charging.kept [where f = e_last, simplified]

lemmas cold_frame [frame_simps] =
  h_cold.kept [where f = e_serve_down, simplified]
  h_cold.kept [where f = e_serve_down_page, simplified]
  h_cold.kept [where f = e_gate_down, simplified]
  h_cold.kept [where f = e_queue, simplified]
  h_cold.kept [where f = e_waiters, simplified]
  h_cold.kept [where f = e_thermal_temp, simplified]
  h_cold.kept [where f = e_thermal_throttle, simplified]
  h_cold.kept [where f = e_gpu_missing, simplified]
  h_cold.kept [where f = e_gpu_count_seen, simplified]
  h_cold.kept [where f = e_rejects_413, simplified]
  h_cold.kept [where f = e_rejects_429, simplified]
  h_cold.kept [where f = e_event_last_sent, simplified]
  h_cold.kept [where f = e_restart_pending, simplified]
  h_cold.kept [where f = e_restart_planned, simplified]
  h_cold.kept [where f = e_c1, simplified]
  h_cold.kept [where f = e_omp_default, simplified]
  h_cold.kept [where f = e_charge_errors, simplified]
  h_cold.kept [where f = e_discount_inert, simplified]
  h_cold.kept [where f = e_disk_full, simplified]
  h_cold.kept [where f = e_disk_full_page, simplified]
  h_cold.kept [where f = e_disk_growth, simplified]
  h_cold.kept [where f = e_digest, simplified]
  h_cold.kept [where f = e_last, simplified]

lemmas disk_frame [frame_simps] =
  h_disk.kept [where f = e_serve_down, simplified]
  h_disk.kept [where f = e_serve_down_page, simplified]
  h_disk.kept [where f = e_gate_down, simplified]
  h_disk.kept [where f = e_queue, simplified]
  h_disk.kept [where f = e_waiters, simplified]
  h_disk.kept [where f = e_thermal_temp, simplified]
  h_disk.kept [where f = e_thermal_throttle, simplified]
  h_disk.kept [where f = e_gpu_missing, simplified]
  h_disk.kept [where f = e_gpu_count_seen, simplified]
  h_disk.kept [where f = e_rejects_413, simplified]
  h_disk.kept [where f = e_rejects_429, simplified]
  h_disk.kept [where f = e_event_last_sent, simplified]
  h_disk.kept [where f = e_restart_pending, simplified]
  h_disk.kept [where f = e_restart_planned, simplified]
  h_disk.kept [where f = e_c1, simplified]
  h_disk.kept [where f = e_omp_default, simplified]
  h_disk.kept [where f = e_charge_errors, simplified]
  h_disk.kept [where f = e_discount_inert, simplified]
  h_disk.kept [where f = e_cold_budget, simplified]
  h_disk.kept [where f = e_digest, simplified]
  h_disk.kept [where f = e_last, simplified]

end
