(* ===== verification/RuleFixed.thy ===== *)
theory RuleFixed
  imports RuleKeys
begin

text \<open>
  The abstract specification of the alert engine: each of its thirteen fixed rules is one
  sustained rule, driven by a condition on the observation, untouched by the other rules.
  \<open>evaluate\<close> refines it: the engine, seen through one rule key, is exactly that machine.
\<close>

section \<open>The specification\<close>

datatype FixedRule = R_GateDown | R_ChargeErrors | R_DiscountInert | R_ColdBudget | R_Queue
  | R_Waiters | R_GpuMissing | R_DiskFull | R_DiskFullPage | R_DiskGrowth | R_Rejects413
  | R_Rejects429 | R_OmpDefault

fun rule_key :: "FixedRule \<Rightarrow> string" where
  "rule_key R_GateDown = ''gate_down''"
| "rule_key R_ChargeErrors = ''gate_charge_errors''"
| "rule_key R_DiscountInert = ''gate_discount_inert''"
| "rule_key R_ColdBudget = ''gate_cold_budget''"
| "rule_key R_Queue = ''queue_pressure''"
| "rule_key R_Waiters = ''gate_waiters''"
| "rule_key R_GpuMissing = ''gpu_missing''"
| "rule_key R_DiskFull = ''disk_full''"
| "rule_key R_DiskFullPage = ''disk_full_page''"
| "rule_key R_DiskGrowth = ''disk_growth''"
| "rule_key R_Rejects413 = ''rejects_413''"
| "rule_key R_Rejects429 = ''rejects_429''"
| "rule_key R_OmpDefault = ''omp_default_mismatch''"

fun rule_state :: "FixedRule \<Rightarrow> Engine \<Rightarrow> Sustained" where
  "rule_state R_GateDown e = e_gate_down e"
| "rule_state R_ChargeErrors e = e_charge_errors e"
| "rule_state R_DiscountInert e = e_discount_inert e"
| "rule_state R_ColdBudget e = e_cold_budget e"
| "rule_state R_Queue e = e_queue e"
| "rule_state R_Waiters e = e_waiters e"
| "rule_state R_GpuMissing e = e_gpu_missing e"
| "rule_state R_DiskFull e = e_disk_full e"
| "rule_state R_DiskFullPage e = e_disk_full_page e"
| "rule_state R_DiskGrowth e = dg_rule (e_disk_growth e)"
| "rule_state R_Rejects413 e = gw_rule (e_rejects_413 e)"
| "rule_state R_Rejects429 e = gw_rule (e_rejects_429 e)"
| "rule_state R_OmpDefault e = e_omp_default e"

fun rule_hold :: "FixedRule \<Rightarrow> RulesConfig \<Rightarrow> i64" where
  "rule_hold R_GateDown cfg = cfg_gate_down_secs cfg"
| "rule_hold R_ChargeErrors cfg = cfg_charge_errors_secs cfg"
| "rule_hold R_DiscountInert cfg = cfg_discount_inert_secs cfg"
| "rule_hold R_ColdBudget cfg = cfg_cold_budget_secs cfg"
| "rule_hold R_Queue cfg = cfg_queue_secs cfg"
| "rule_hold R_Waiters cfg = cfg_waiters_secs cfg"
| "rule_hold R_GpuMissing cfg = cfg_gpu_missing_secs cfg"
| "rule_hold R_DiskFull cfg = cfg_disk_secs cfg"
| "rule_hold R_DiskFullPage cfg = cfg_disk_secs cfg"
| "rule_hold R_DiskGrowth cfg = cfg_disk_secs cfg"
| "rule_hold R_Rejects413 cfg = 0"
| "rule_hold R_Rejects429 cfg = 0"
| "rule_hold R_OmpDefault cfg = cfg_omp_mismatch_hold_secs cfg"

text \<open>A level of the disk is held to a lower line once announced.\<close>

definition disk_over :: "RulesConfig \<Rightarrow> f64 \<Rightarrow> Sustained \<Rightarrow> DiskObs \<Rightarrow> bool" where
  "disk_over cfg line s d \<longleftrightarrow>
    (if announced s then f_ge (used_pct d) (f_sub line (cfg_disk_recover_margin_pct cfg))
     else f_ge (used_pct d) line)"

text \<open>The condition a poll drives a rule with; \<open>None\<close>: the rule stands still.\<close>

fun rule_drive :: "FixedRule \<Rightarrow> RulesConfig \<Rightarrow> Observation \<Rightarrow> Engine \<Rightarrow> bool option" where
  "rule_drive R_GateDown cfg o1 e = Some (\<not> o_gate_up o1)"
| "rule_drive R_ChargeErrors cfg o1 e = map_option (\<lambda>sh. 0 < sh_charge_errors sh) (o_gate_shadow o1)"
| "rule_drive R_DiscountInert cfg o1 e =
     map_option (\<lambda>sh. discount_inert sh (cfg_discount_min_admissions cfg)) (o_gate_shadow o1)"
| "rule_drive R_ColdBudget cfg o1 e =
     (if o_bench_active o1 then None
      else case (o_trusted_inflight_tokens o1, o_cache_hit_rate o1, o_trusted_budget_tokens o1) of
        (Some inflight, Some hit, Some capacity) \<Rightarrow>
          (if 0 < capacity then
             Some (f_ge (f_of_nat inflight) (f_mul (f_lit (9 / 10)) (f_of_nat capacity)) \<and>
                   f_lt hit (cfg_cold_budget_hit_rate cfg))
           else None)
      | _ \<Rightarrow> None)"
| "rule_drive R_Queue cfg o1 e =
     Some (f_ge (if o_bench_active o1 then F_Fin 0
                 else case o_queue o1 of None \<Rightarrow> F_Fin 0 | Some q \<Rightarrow> q) (cfg_queue_reqs cfg))"
| "rule_drive R_Waiters cfg o1 e =
     Some (0 < (if o_bench_active o1 then 0
                else case o_trusted_waiters o1 of None \<Rightarrow> 0 | Some w \<Rightarrow> w))"
| "rule_drive R_GpuMissing cfg o1 e = Some (gpu_count o1 < max (e_gpu_count_seen e) (gpu_count o1))"
| "rule_drive R_DiskFull cfg o1 e = map_option (disk_over cfg (cfg_disk_warn_pct cfg) (e_disk_full e)) (o_disk o1)"
| "rule_drive R_DiskFullPage cfg o1 e =
     map_option (disk_over cfg (cfg_disk_page_pct cfg) (e_disk_full_page e)) (o_disk o1)"
| "rule_drive R_DiskGrowth cfg o1 e =
     map_option (\<lambda>d. f_ge (f_of_nat (snd (disk_growth_push (e_disk_growth e) (o_now o1) (do_avail_bytes d)
         (cfg_disk_growth_secs cfg)))) (f_mul (cfg_disk_growth_gb cfg) (F_Fin 1000000000))) (o_disk o1)"
| "rule_drive R_Rejects413 cfg o1 e =
     map_option (\<lambda>v. cfg_reject_growth cfg <
         snd (growth_push (e_rejects_413 e) (o_now o1) v (cfg_reject_window_secs cfg))) (o_rejected_413 o1)"
| "rule_drive R_Rejects429 cfg o1 e =
     map_option (\<lambda>v. cfg_reject_growth cfg <
         snd (growth_push (e_rejects_429 e) (o_now o1) v (cfg_reject_window_secs cfg))) (o_rejected_429 o1)"
| "rule_drive R_OmpDefault cfg o1 e = Some (o_omp_mismatch o1 \<noteq> None)"

definition rule_spec :: "FixedRule \<Rightarrow> RulesConfig \<Rightarrow> Observation \<Rightarrow> Engine \<Rightarrow> Sustained \<times> edge" where
  "rule_spec r cfg o1 e =
    (case rule_drive r cfg o1 e of None \<Rightarrow> (rule_state r e, E_None)
     | Some c \<Rightarrow> sus_step (rule_state r e) (o_now o1) c (rule_hold r cfg) (cfg_cooldown_secs cfg))"

section \<open>The handlers by name\<close>

datatype Handler = H_ServeDown | H_GateDown | H_Restarts | H_Xids | H_Queue | H_Gpus | H_C1
  | H_Rejects | H_Omp | H_Charging | H_Cold | H_Disk

fun handler_of ::
  "(i64 \<Rightarrow> string) \<Rightarrow> TempUnits \<Rightarrow> RulesConfig \<Rightarrow> Observation \<Rightarrow> Handler \<Rightarrow> Engine \<Rightarrow> Engine \<times> AlertEvent list" where
  "handler_of utc u cfg o1 H_ServeDown = eval_serve_down cfg o1"
| "handler_of utc u cfg o1 H_GateDown = eval_gate_down cfg o1"
| "handler_of utc u cfg o1 H_Restarts = eval_restarts cfg o1"
| "handler_of utc u cfg o1 H_Xids = eval_xids cfg o1"
| "handler_of utc u cfg o1 H_Queue = eval_queue cfg o1"
| "handler_of utc u cfg o1 H_Gpus = eval_gpus u cfg o1"
| "handler_of utc u cfg o1 H_C1 = eval_c1 utc cfg o1"
| "handler_of utc u cfg o1 H_Rejects = eval_rejects cfg o1"
| "handler_of utc u cfg o1 H_Omp = eval_omp_default cfg o1"
| "handler_of utc u cfg o1 H_Charging = eval_charging cfg o1"
| "handler_of utc u cfg o1 H_Cold = eval_cold_budget cfg o1"
| "handler_of utc u cfg o1 H_Disk = eval_disk cfg o1"

definition all_handlers :: "Handler list" where
  "all_handlers = [H_ServeDown, H_GateDown, H_Restarts, H_Xids, H_Queue, H_Gpus, H_C1, H_Rejects,
     H_Omp, H_Charging, H_Cold, H_Disk]"

lemma handlers_by_name: "handlers utc u cfg o1 = map (handler_of utc u cfg o1) all_handlers"
  by (simp add: handlers_def all_handlers_def)

lemma all_handlers_set: "H \<in> set all_handlers"
  by (cases H) (simp_all add: all_handlers_def)

lemma all_handlers_distinct: "distinct all_handlers"
  by (simp add: all_handlers_def)

fun rule_owner :: "FixedRule \<Rightarrow> Handler" where
  "rule_owner R_GateDown = H_GateDown"
| "rule_owner R_ChargeErrors = H_Charging"
| "rule_owner R_DiscountInert = H_Charging"
| "rule_owner R_ColdBudget = H_Cold"
| "rule_owner R_Queue = H_Queue"
| "rule_owner R_Waiters = H_Queue"
| "rule_owner R_GpuMissing = H_Gpus"
| "rule_owner R_DiskFull = H_Disk"
| "rule_owner R_DiskFullPage = H_Disk"
| "rule_owner R_DiskGrowth = H_Disk"
| "rule_owner R_Rejects413 = H_Rejects"
| "rule_owner R_Rejects429 = H_Rejects"
| "rule_owner R_OmpDefault = H_Omp"

section \<open>Only the owner moves a rule\<close>

lemma not_restart_key: "rule_key r \<noteq> restart_key role"
  by (cases r) (simp_all add: restart_key_def)

lemma not_xid_key: "rule_key r \<noteq> xid_rule_key x"
  by (cases r) (simp_all add: xid_rule_key_def split: option.split)

lemma gpu_key_rule: "gpu_key (rule_key r) \<longleftrightarrow> r = R_GpuMissing"
  by (cases r) (simp_all add: gpu_key_def thermal_temp_key_def thermal_throttle_key_def)

lemma others_silent:
  "H \<noteq> rule_owner r \<Longrightarrow> edges_for (rule_key r) (snd (handler_of utc u cfg o1 H e)) = []"
proof (cases H)
  case H_Restarts
  then show ?thesis using h_restarts.silent not_restart_key by simp
next
  case H_Xids
  then show ?thesis using h_xids.silent not_xid_key by simp
next
  case H_Gpus
  moreover assume "H \<noteq> rule_owner r"
  ultimately show ?thesis using h_gpus.silent gpu_key_rule [of r] by (cases r) simp_all
qed (cases r; simp add: h_serve_down.silent h_gate_down.silent h_queue.silent h_c1.silent
      h_rejects.silent h_omp.silent h_charging.silent h_cold.silent h_disk.silent)+

lemma others_state:
  "H \<noteq> rule_owner r \<Longrightarrow> rule_state r (fst (handler_of utc u cfg o1 H e)) = rule_state r e"
  by (cases H; cases r) (simp_all add: frame_simps)

lemma others_drive:
  "H \<noteq> rule_owner r \<Longrightarrow> rule_drive r cfg o1 (fst (handler_of utc u cfg o1 H e)) = rule_drive r cfg o1 e"
  by (cases H; cases r) (simp_all add: frame_simps)

lemma others_spec:
  "H \<noteq> rule_owner r \<Longrightarrow> rule_spec r cfg o1 (fst (handler_of utc u cfg o1 H e)) = rule_spec r cfg o1 e"
  by (simp add: rule_spec_def others_state others_drive split: option.split)

section \<open>The owner moves it as specified\<close>

definition moves_as :: "FixedRule \<Rightarrow> Sustained \<times> edge \<Rightarrow> Engine \<times> AlertEvent list \<Rightarrow> bool" where
  "moves_as r spec res \<longleftrightarrow>
    rule_state r (fst res) = fst spec \<and> edges_for (rule_key r) (snd res) = edge_list (snd spec)"

lemma edge_list_None [simp]: "edge_list E_None = []"
  by (simp add: edge_list_def)

lemma own_gate_down: "moves_as R_GateDown (rule_spec R_GateDown cfg o1 e) (eval_gate_down cfg o1 e)"
  by (simp add: moves_as_def rule_spec_def eval_gate_down_def Let_def)

lemma own_charging:
  "moves_as R_ChargeErrors (rule_spec R_ChargeErrors cfg o1 e) (eval_charging cfg o1 e)"
  "moves_as R_DiscountInert (rule_spec R_DiscountInert cfg o1 e) (eval_charging cfg o1 e)"
  by (cases "o_gate_shadow o1"; simp add: moves_as_def rule_spec_def eval_charging_def Let_def)+

lemma own_cold: "moves_as R_ColdBudget (rule_spec R_ColdBudget cfg o1 e) (eval_cold_budget cfg o1 e)"
  by (auto simp: moves_as_def rule_spec_def eval_cold_budget_def Let_def split: option.split)

lemma own_queue:
  "moves_as R_Queue (rule_spec R_Queue cfg o1 e) (eval_queue cfg o1 e)"
  "moves_as R_Waiters (rule_spec R_Waiters cfg o1 e) (eval_queue cfg o1 e)"
  by (simp_all add: moves_as_def rule_spec_def eval_queue_def Let_def)

lemma own_gpu_missing: "moves_as R_GpuMissing (rule_spec R_GpuMissing cfg o1 e) (eval_gpu_missing cfg o1 e)"
  by (simp add: moves_as_def rule_spec_def eval_gpu_missing_def Let_def)

lemma digest_flush_quiet:
  "e_gpu_missing (fst (digest_flush u cfg now e)) = e_gpu_missing e"
  "edges_for ''gpu_missing'' (snd (digest_flush u cfg now e)) = []"
  by (simp_all add: digest_flush_def Let_def)

lemma gpus_loop_quiet:
  "e_gpu_missing (fst (gpus_loop u cfg now dt e gs)) = e_gpu_missing e"
  "edges_for ''gpu_missing'' (snd (gpus_loop u cfg now dt e gs)) = []"
  using gpus_loop_contract [of u cfg now dt e gs] by (auto intro!: edges_for_none)

lemma own_gpus: "moves_as R_GpuMissing (rule_spec R_GpuMissing cfg o1 e) (eval_gpus u cfg o1 e)"
proof -
  have "rule_state R_GpuMissing (fst (eval_gpus u cfg o1 e)) = rule_state R_GpuMissing (fst (eval_gpu_missing cfg o1 e))"
    "edges_for ''gpu_missing'' (snd (eval_gpus u cfg o1 e)) = edges_for ''gpu_missing'' (snd (eval_gpu_missing cfg o1 e))"
    unfolding eval_gpus_def case_prod_beta Let_def
    by (simp_all add: digest_flush_quiet gpus_loop_quiet split: option.split)
  then show ?thesis using own_gpu_missing [of cfg o1 e] by (simp add: moves_as_def)
qed

lemma own_rejects:
  "moves_as R_Rejects413 (rule_spec R_Rejects413 cfg o1 e) (eval_rejects cfg o1 e)"
  "moves_as R_Rejects429 (rule_spec R_Rejects429 cfg o1 e) (eval_rejects cfg o1 e)"
proof -
  have w: "gw_rule (fst (growth_push w now v win)) = gw_rule w" for w now v win
    by (simp add: growth_push_def Let_def)
  have 1: "e_rejects_429 (fst (eval_rejects_413 cfg o1 e)) = e_rejects_429 e"
    "e_rejects_413 (fst (eval_rejects_429 cfg o1 e2)) = e_rejects_413 e2" for e2
    by (simp_all add: eval_rejects_413_def eval_rejects_429_def case_prod_beta Let_def split: option.split)
  have 2: "edges_for ''rejects_413'' (snd (eval_rejects_429 cfg o1 e2)) = []"
    "edges_for ''rejects_429'' (snd (eval_rejects_413 cfg o1 e2)) = []" for e2
    by (rule edges_for_none, auto dest: rejects_each_contract(3,4))+
  have 3: "moves_as R_Rejects413 (rule_spec R_Rejects413 cfg o1 e) (eval_rejects_413 cfg o1 e)"
    by (cases "o_rejected_413 o1")
      (simp_all add: moves_as_def rule_spec_def eval_rejects_413_def rejects_one_def case_prod_beta Let_def
        w reject_codes)
  have 4: "moves_as R_Rejects429 (rule_spec R_Rejects429 cfg o1 e2) (eval_rejects_429 cfg o1 e2)" for e2
    by (cases "o_rejected_429 o1")
      (simp_all add: moves_as_def rule_spec_def eval_rejects_429_def rejects_one_def case_prod_beta Let_def
        w reject_codes)
  have 5: "rule_spec R_Rejects429 cfg o1 (fst (eval_rejects_413 cfg o1 e)) = rule_spec R_Rejects429 cfg o1 e"
    by (cases "o_rejected_429 o1") (simp_all add: rule_spec_def 1(1))
  show "moves_as R_Rejects413 (rule_spec R_Rejects413 cfg o1 e) (eval_rejects cfg o1 e)"
    using 1 2 3 by (simp add: moves_as_def eval_rejects_def case_prod_beta Let_def)
  show "moves_as R_Rejects429 (rule_spec R_Rejects429 cfg o1 e) (eval_rejects cfg o1 e)"
    using 1 2 4 [of "fst (eval_rejects_413 cfg o1 e)"] 5
    by (simp add: moves_as_def eval_rejects_def case_prod_beta Let_def)
qed

lemma own_omp: "moves_as R_OmpDefault (rule_spec R_OmpDefault cfg o1 e) (eval_omp_default cfg o1 e)"
  by (simp add: moves_as_def rule_spec_def eval_omp_default_def case_prod_beta Let_def)

lemma disk_rule_spec:
  "fst (disk_rule cfg now d line k sev s) =
     fst (sus_step s now (disk_over cfg line s d) (cfg_disk_secs cfg) (cfg_cooldown_secs cfg))"
  "edges_for k (snd (disk_rule cfg now d line k sev s)) =
     edge_list (snd (sus_step s now (disk_over cfg line s d) (cfg_disk_secs cfg) (cfg_cooldown_secs cfg)))"
  "l \<noteq> k \<Longrightarrow> edges_for l (snd (disk_rule cfg now d line k sev s)) = []"
  by (simp_all add: disk_rule_def disk_over_def Let_def)

lemma disk_growth_rule_spec:
  "dg_rule (fst (disk_growth_rule cfg now d g)) =
     fst (sus_step (dg_rule g) now (f_ge (f_of_nat (snd (disk_growth_push g now (do_avail_bytes d)
       (cfg_disk_growth_secs cfg)))) (f_mul (cfg_disk_growth_gb cfg) (F_Fin 1000000000)))
       (cfg_disk_secs cfg) (cfg_cooldown_secs cfg))"
  "edges_for ''disk_growth'' (snd (disk_growth_rule cfg now d g)) =
     edge_list (snd (sus_step (dg_rule g) now (f_ge (f_of_nat (snd (disk_growth_push g now (do_avail_bytes d)
       (cfg_disk_growth_secs cfg)))) (f_mul (cfg_disk_growth_gb cfg) (F_Fin 1000000000)))
       (cfg_disk_secs cfg) (cfg_cooldown_secs cfg)))"
  "l \<noteq> ''disk_growth'' \<Longrightarrow> edges_for l (snd (disk_growth_rule cfg now d g)) = []"
proof -
  have w: "dg_rule (fst (disk_growth_push g now a win)) = dg_rule g" for a win
    by (simp add: disk_growth_push_def Let_def)
  show "dg_rule (fst (disk_growth_rule cfg now d g)) =
     fst (sus_step (dg_rule g) now (f_ge (f_of_nat (snd (disk_growth_push g now (do_avail_bytes d)
       (cfg_disk_growth_secs cfg)))) (f_mul (cfg_disk_growth_gb cfg) (F_Fin 1000000000)))
       (cfg_disk_secs cfg) (cfg_cooldown_secs cfg))"
    by (simp add: disk_growth_rule_def case_prod_beta Let_def w)
  show "edges_for ''disk_growth'' (snd (disk_growth_rule cfg now d g)) =
     edge_list (snd (sus_step (dg_rule g) now (f_ge (f_of_nat (snd (disk_growth_push g now (do_avail_bytes d)
       (cfg_disk_growth_secs cfg)))) (f_mul (cfg_disk_growth_gb cfg) (F_Fin 1000000000)))
       (cfg_disk_secs cfg) (cfg_cooldown_secs cfg)))"
    by (simp add: disk_growth_rule_def case_prod_beta Let_def w)
  assume "l \<noteq> ''disk_growth''"
  then show "edges_for l (snd (disk_growth_rule cfg now d g)) = []"
    by (simp add: disk_growth_rule_def case_prod_beta Let_def)
qed

lemma own_disk:
  "moves_as R_DiskFull (rule_spec R_DiskFull cfg o1 e) (eval_disk cfg o1 e)"
  "moves_as R_DiskFullPage (rule_spec R_DiskFullPage cfg o1 e) (eval_disk cfg o1 e)"
  "moves_as R_DiskGrowth (rule_spec R_DiskGrowth cfg o1 e) (eval_disk cfg o1 e)"
  by (cases "o_disk o1"; simp add: moves_as_def rule_spec_def eval_disk_def Let_def
      disk_rule_spec disk_growth_rule_spec)+

lemma owner_moves: "moves_as r (rule_spec r cfg o1 e) (handler_of utc u cfg o1 (rule_owner r) e)"
  by (cases r) (simp_all add: own_gate_down own_charging own_cold own_queue own_gpus own_rejects own_omp own_disk)

section \<open>The whole evaluation\<close>

lemma run_handlers_spec:
  "distinct Hs \<Longrightarrow>
   moves_as r (if rule_owner r \<in> set Hs then rule_spec r cfg o1 e else (rule_state r e, E_None))
     (run_handlers (map (handler_of utc u cfg o1) Hs) e)"
proof (induction Hs arbitrary: e)
  case (Cons H Hs)
  let ?e = "fst (handler_of utc u cfg o1 H e)"
  show ?case
  proof (cases "H = rule_owner r")
    case True
    then show ?thesis
      using Cons.prems Cons.IH [of ?e] owner_moves [of r cfg o1 e utc u]
      by (simp add: moves_as_def case_prod_beta Let_def)
  next
    case False
    then show ?thesis
      using Cons.prems Cons.IH [of ?e] others_silent [OF False, of utc u cfg o1 e]
        others_state [OF False, of utc u cfg o1 e] others_spec [OF False, of cfg o1 utc u e]
      by (auto simp: moves_as_def case_prod_beta Let_def)
  qed
qed (simp add: moves_as_def)

lemma spec_see_last: "rule_spec r cfg o1 (e\<lparr>e_last := l\<rparr>) = rule_spec r cfg o1 e"
proof -
  have "rule_state r (e\<lparr>e_last := l\<rparr>) = rule_state r e" by (cases r) simp_all
  moreover have "rule_drive r cfg o1 (e\<lparr>e_last := l\<rparr>) = rule_drive r cfg o1 e" by (cases r) simp_all
  ultimately show ?thesis by (simp add: rule_spec_def split: option.split)
qed

lemma no_test_key: "edges_for (rule_key r) (map (\<lambda>m. alert now RULE_TEST_ALERT sev False (f m)) ms) = []"
  by (rule edges_for_none) (cases r; auto simp: RULE_TEST_ALERT_def)

lemma evaluate_moves: "moves_as r (rule_spec r cfg o1 e) (evaluate utc u cfg e o1)"
  using run_handlers_spec [OF all_handlers_distinct, of r cfg o1 "e\<lparr>e_last := see_last o1 (e_last e)\<rparr>" utc u]
  by (simp add: moves_as_def evaluate_def case_prod_beta Let_def handlers_by_name all_handlers_set
      spec_see_last no_test_key)

section \<open>The engine through one key, as a firing component\<close>

text \<open>What a reader of the alerts of one key sees of an evaluation.\<close>

definition key_step ::
  "(i64 \<Rightarrow> string) \<Rightarrow> TempUnits \<Rightarrow> RulesConfig \<Rightarrow> FixedRule \<Rightarrow> Engine \<Rightarrow> Observation \<Rightarrow> Engine \<times> edge" where
  "key_step utc u cfg r e o1 =
    (let (e1, as) = evaluate utc u cfg e o1 in (e1, the_edge (edges_for (rule_key r) as)))"

lemma key_step_spec:
  "rule_state r (fst (key_step utc u cfg r e o1)) = fst (rule_spec r cfg o1 e)"
  "snd (key_step utc u cfg r e o1) = snd (rule_spec r cfg o1 e)"
  using evaluate_moves [of r cfg o1 e utc u]
  by (simp_all add: key_step_def case_prod_beta Let_def moves_as_def)

lemma key_step_cases:
  assumes "key_step utc u cfg r e o1 = (e1, x)"
  obtains (still) "rule_drive r cfg o1 e = None" "x = E_None" "rule_state r e1 = rule_state r e"
  | (step) c where "rule_drive r cfg o1 e = Some c"
      "sus_input (rule_hold r cfg) (cfg_cooldown_secs cfg) (rule_state r e) (o_now o1, c) = (rule_state r e1, x)"
  using assms key_step_spec(1) [of r utc u cfg e o1] key_step_spec(2) [of utc u cfg r e o1]
  by (cases "rule_drive r cfg o1 e") (auto simp: rule_spec_def)

interpretation key: cooled_machine "key_step utc u cfg r" "\<lambda>e. announced (rule_state r e)" o_now
    "\<lambda>e. last_sent (rule_state r e)" "cfg_cooldown_secs cfg"
  for utc u cfg r
proof unfold_locales
  fix e e1 :: Engine and o1 :: Observation and x :: edge and t :: i64
  show "key_step utc u cfg r e o1 = (e1, E_Fire) \<Longrightarrow> \<not> announced (rule_state r e) \<and> announced (rule_state r e1)"
    by (elim key_step_cases) (use sus.fire in auto)
  show "key_step utc u cfg r e o1 = (e1, E_Recover) \<Longrightarrow> announced (rule_state r e) \<and> \<not> announced (rule_state r e1)"
    by (elim key_step_cases) (use sus.recover in auto)
  show "key_step utc u cfg r e o1 = (e1, E_None) \<Longrightarrow> announced (rule_state r e1) = announced (rule_state r e)"
    by (elim key_step_cases) (use sus.quiet in auto)
  show "key_step utc u cfg r e o1 = (e1, E_Fire) \<Longrightarrow> last_sent (rule_state r e1) = Some (o_now o1)"
    by (elim key_step_cases) (use sus.fire_sets in fastforce)+
  show "key_step utc u cfg r e o1 = (e1, x) \<Longrightarrow> x \<noteq> E_Fire \<Longrightarrow> last_sent (rule_state r e1) = last_sent (rule_state r e)"
    by (elim key_step_cases) (use sus.other_keeps in auto)
  show "key_step utc u cfg r e o1 = (e1, E_Fire) \<Longrightarrow> last_sent (rule_state r e) = Some t \<Longrightarrow>
      cfg_cooldown_secs cfg \<le> o_now o1 - t"
    by (elim key_step_cases) (use sus.fire_cooled in fastforce)+
qed

text \<open>The inputs a run of the engine feeds to one of its rules.\<close>

fun rule_inputs ::
  "(i64 \<Rightarrow> string) \<Rightarrow> TempUnits \<Rightarrow> RulesConfig \<Rightarrow> FixedRule \<Rightarrow> Engine \<Rightarrow> Observation list \<Rightarrow> (i64 \<times> bool) list" where
  "rule_inputs utc u cfg r e [] = []"
| "rule_inputs utc u cfg r e (o1 # os) =
    (case rule_drive r cfg o1 e of None \<Rightarrow> [] | Some c \<Rightarrow> [(o_now o1, c)]) @
    rule_inputs utc u cfg r (fst (evaluate utc u cfg e o1)) os"

fun run_engine ::
  "(i64 \<Rightarrow> string) \<Rightarrow> TempUnits \<Rightarrow> RulesConfig \<Rightarrow> Engine \<Rightarrow> Observation list \<Rightarrow> Engine" where
  "run_engine utc u cfg e [] = e"
| "run_engine utc u cfg e (o1 # os) = run_engine utc u cfg (fst (evaluate utc u cfg e o1)) os"

lemma rule_state_default: "rule_state r engine_default = sustained_default"
  by (cases r) (simp_all add: engine_default_def growth_default_def disk_growth_default_def)

lemma run_engine_rule:
  "rule_state r (run_engine utc u cfg e os) =
    fst (run_edges (sus_input (rule_hold r cfg) (cfg_cooldown_secs cfg)) (rule_state r e)
      (rule_inputs utc u cfg r e os))"
proof (induction os arbitrary: e)
  case (Cons o1 os)
  have "rule_state r (fst (evaluate utc u cfg e o1)) = fst (rule_spec r cfg o1 e)"
    using evaluate_moves [of r cfg o1 e utc u] by (simp add: moves_as_def)
  then show ?case
    using Cons.IH [of "fst (evaluate utc u cfg e o1)"]
    by (auto simp: rule_spec_def case_prod_beta Let_def split: option.splits)
qed simp

lemma fire_needs_hold:
  assumes "E_Fire \<in> set (edges_for (rule_key r)
      (snd (evaluate utc u cfg (run_engine utc u cfg engine_default os) o1)))"
  shows "\<exists>t0. streak_start (rule_inputs utc u cfg r engine_default os @ [(o_now o1, True)]) = Some t0 \<and>
    rule_hold r cfg \<le> o_now o1 - t0"
proof -
  let ?e = "run_engine utc u cfg engine_default os"
  have "snd (rule_spec r cfg o1 ?e) = E_Fire"
    using assms evaluate_moves [of r cfg o1 ?e utc u]
    by (auto simp: moves_as_def edge_list_def split: if_splits)
  then obtain c where "snd (sus_step (rule_state r ?e) (o_now o1) c (rule_hold r cfg) (cfg_cooldown_secs cfg)) = E_Fire"
    by (auto simp: rule_spec_def split: option.splits)
  from fire_after_hold [OF this [unfolded run_engine_rule rule_state_default]]
  show ?thesis by auto
qed

end
