(* ===== verification/RuleInv.thy ===== *)
theory RuleInv
  imports RuleFixed
begin

text \<open>
  The state invariant of the alert engine, kept by every evaluation and by the two operations
  that maintain the idle-decode streak and baseline from outside.
\<close>

section \<open>The parts\<close>

definition all_rules :: "FixedRule list" where
  "all_rules = [R_GateDown, R_ChargeErrors, R_DiscountInert, R_ColdBudget, R_Queue, R_Waiters,
     R_GpuMissing, R_DiskFull, R_DiskFullPage, R_DiskGrowth, R_Rejects413, R_Rejects429, R_OmpDefault]"

lemma all_rules_set: "r \<in> set all_rules"
  by (cases r) (simp_all add: all_rules_def)

definition serve_ok :: "Engine \<Rightarrow> bool" where
  "serve_ok e \<longleftrightarrow> sus_ok (e_serve_down e) \<and> sus_ok (e_serve_down_page e)"

definition windows_ok :: "Engine \<Rightarrow> bool" where
  "windows_ok e \<longleftrightarrow> growth_ok (e_rejects_413 e) \<and> growth_ok (e_rejects_429 e)"

definition thermal_ok :: "Engine \<Rightarrow> bool" where
  "thermal_ok e \<longleftrightarrow> bt_invar (e_thermal_temp e) \<and> bt_invar (e_thermal_throttle e) \<and>
     (\<forall>(i, s) \<in> set (e_thermal_temp e). sus_ok s) \<and> (\<forall>(i, s) \<in> set (e_thermal_throttle e). sus_ok s)"

definition digest_ok :: "Engine \<Rightarrow> bool" where
  "digest_ok e \<longleftrightarrow> bt_invar (dig_gpus (e_digest e)) \<and>
     (\<forall>(i, d) \<in> set (dig_gpus (e_digest e)). 0 \<le> dig_hot_secs d \<and> 0 \<le> dig_throttled_secs d)"

text \<open>A restart in flight has its planned label, and only such a restart has one.\<close>

definition restarts_ok :: "Engine \<Rightarrow> bool" where
  "restarts_ok e \<longleftrightarrow> bt_invar (e_restart_pending e) \<and> bt_invar (e_restart_planned e) \<and>
     bt_keys (e_restart_planned e) = bt_keys (e_restart_pending e)"

definition events_ok :: "Engine \<Rightarrow> bool" where
  "events_ok e \<longleftrightarrow> bt_invar (e_event_last_sent e)"

definition c1_ok :: "C1State \<Rightarrow> bool" where
  "c1_ok c \<longleftrightarrow> sus_ok (c1_stale c) \<and> (c1_announced c \<longrightarrow> c1_last_sent c \<noteq> None) \<and>
     distinct (map fst (c1_low_probes c))"

definition engine_ok :: "Engine \<Rightarrow> bool" where
  "engine_ok e \<longleftrightarrow> (\<forall>r \<in> set all_rules. sus_ok (rule_state r e)) \<and> serve_ok e \<and> windows_ok e \<and>
     thermal_ok e \<and> digest_ok e \<and> restarts_ok e \<and> events_ok e \<and> c1_ok (e_c1 e)"

section \<open>The empty engine\<close>

lemma engine_ok_default: "engine_ok engine_default"
proof -
  have "sus_ok (rule_state r engine_default)" for r by (simp add: rule_state_default sus_ok_default)
  then show ?thesis
    by (simp add: engine_ok_def engine_default_def serve_ok_def windows_ok_def thermal_ok_def digest_ok_def
        restarts_ok_def events_ok_def c1_ok_def sus_ok_default growth_ok_def growth_default_def bt.invar_empty
        digest_default_def c1_default_def bt_keys_def)
qed

section \<open>A property each handler keeps is kept by an evaluation\<close>

locale kept_by_handlers =
  fixes P :: "Engine \<Rightarrow> bool"
  assumes handler_keeps: "P e \<Longrightarrow> P (fst (handler_of utc u cfg o1 H e))"
    and last_keeps: "P e \<Longrightarrow> P (e\<lparr>e_last := l\<rparr>)"
begin

lemma run_keeps: "P e \<Longrightarrow> P (fst (run_handlers (map (handler_of utc u cfg o1) Hs) e))"
  by (induction Hs arbitrary: e) (simp_all add: case_prod_beta Let_def handler_keeps)

lemma evaluate_keeps: "P e \<Longrightarrow> P (fst (evaluate utc u cfg e o1))"
  by (simp add: evaluate_def case_prod_beta Let_def handlers_by_name run_keeps last_keeps)

lemma run_engine_keeps: "P e \<Longrightarrow> P (run_engine utc u cfg e os)"
  by (induction os arbitrary: e) (simp_all add: evaluate_keeps)

end

lemma set_bt_insert: "set (bt_insert k v m) \<subseteq> insert (k, v) (set m)"
  by (induction k v m rule: bt_insert.induct) auto

lemma all_bt_insert: "\<forall>x \<in> set m. P x \<Longrightarrow> P (k, v) \<Longrightarrow> \<forall>x \<in> set (bt_insert k v m). P x"
  using set_bt_insert [of k v m] by blast

lemma all_bt_get_or: "\<forall>(i, v) \<in> set m. P v \<Longrightarrow> P d \<Longrightarrow> P (bt_get_or d k m)"
  by (auto simp: bt_get_or_def bt_get_def split: option.split dest: map_of_SomeD)

section \<open>The serve, the windows\<close>

interpretation serve_kept: kept_by_handlers serve_ok
proof unfold_locales
  fix e utc u cfg o1 H l
  show "serve_ok e \<Longrightarrow> serve_ok (fst (handler_of utc u cfg o1 H e))"
    by (cases H) (simp_all add: serve_ok_def frame_simps eval_serve_down_def Let_def sus_ok_step)
qed (simp add: serve_ok_def)

lemma growth_ok_rule: "growth_ok w \<Longrightarrow> sus_ok s \<Longrightarrow> growth_ok (w\<lparr>gw_rule := s\<rparr>)"
  by (simp add: growth_ok_def)

lemma rejects_one_ok: "growth_ok w \<Longrightarrow> growth_ok (fst (rejects_one cfg now code v w))"
proof -
  assume w: "growth_ok w"
  then have p: "growth_ok (fst (growth_push w now v (cfg_reject_window_secs cfg)))" by (rule growth_push_ok)
  then have "sus_ok (gw_rule (fst (growth_push w now v (cfg_reject_window_secs cfg))))" by (simp add: growth_ok_def)
  with p show ?thesis by (simp add: rejects_one_def case_prod_beta Let_def growth_ok_rule sus_ok_step)
qed

lemma windows_ok_413: "windows_ok e \<Longrightarrow> windows_ok (fst (eval_rejects_413 cfg o1 e))"
  by (auto simp: windows_ok_def eval_rejects_413_def case_prod_beta Let_def rejects_one_ok split: option.split)

lemma windows_ok_429: "windows_ok e \<Longrightarrow> windows_ok (fst (eval_rejects_429 cfg o1 e))"
  by (auto simp: windows_ok_def eval_rejects_429_def case_prod_beta Let_def rejects_one_ok split: option.split)

interpretation windows_kept: kept_by_handlers windows_ok
proof unfold_locales
  fix e utc u cfg o1 H l
  assume w: "windows_ok e"
  show "windows_ok (fst (handler_of utc u cfg o1 H e))"
  proof (cases H)
    case H_Rejects
    then show ?thesis using w
      by (simp add: eval_rejects_def case_prod_beta Let_def windows_ok_413 windows_ok_429)
  qed (use w in \<open>simp_all add: windows_ok_def frame_simps\<close>)
qed (simp add: windows_ok_def)

section \<open>The GPUs\<close>

lemma thermal_ok_one: "thermal_ok e \<Longrightarrow> thermal_ok (fst (gpu_thermal_one u cfg now e g))"
proof -
  assume t: "thermal_ok e"
  have "sus_ok (bt_get_or sustained_default i (e_thermal_temp e))"
    "sus_ok (bt_get_or sustained_default i (e_thermal_throttle e))" for i
    using t by (auto simp: thermal_ok_def sus_ok_default intro!: all_bt_get_or [where P = sus_ok])
  then show ?thesis using t
    by (auto simp: thermal_ok_def gpu_thermal_one_def Let_def bt_simps sus_ok_step
        dest!: set_mp [OF set_bt_insert])
qed

lemma thermal_ok_digest: "thermal_ok (e\<lparr>e_digest := d\<rparr>) = thermal_ok e"
  by (simp add: thermal_ok_def)

lemma thermal_ok_loop: "thermal_ok e \<Longrightarrow> thermal_ok (fst (gpus_loop u cfg now dt e gs))"
proof (induction gs arbitrary: e)
  case (Cons g gs)
  then show ?case
    by (simp add: case_prod_beta Let_def thermal_ok_one gpu_digest_one_def thermal_ok_digest)
qed simp

lemma digest_ok_one:
  assumes "digest_ok e" "0 \<le> dt"
  shows "digest_ok (gpu_digest_one cfg dt e g)"
proof -
  let ?d = "bt_get_or digest_gpu_default (go_index g) (dig_gpus (e_digest e))"
  have "0 \<le> dig_hot_secs ?d \<and> 0 \<le> dig_throttled_secs ?d"
    using assms(1)
    by (intro all_bt_get_or [where P = "\<lambda>d. 0 \<le> dig_hot_secs d \<and> 0 \<le> dig_throttled_secs d"]) (auto simp: digest_ok_def digest_gpu_default_def)
  then show ?thesis using assms
    by (auto simp: digest_ok_def gpu_digest_one_def Let_def bt_simps dest!: set_mp [OF set_bt_insert])
qed

lemma digest_ok_thermal: "digest_ok (fst (gpu_thermal_one u cfg now e g)) = digest_ok e"
  by (simp add: digest_ok_def gpu_thermal_one_def Let_def)

lemma digest_ok_loop: "digest_ok e \<Longrightarrow> 0 \<le> dt \<Longrightarrow> digest_ok (fst (gpus_loop u cfg now dt e gs))"
  by (induction gs arbitrary: e) (simp_all add: case_prod_beta Let_def digest_ok_one digest_ok_thermal)

lemma digest_ok_flush: "digest_ok e \<Longrightarrow> digest_ok (fst (digest_flush u cfg now e))"
  by (simp add: digest_ok_def digest_flush_def Let_def bt.invar_empty)

lemma gpu_missing_ok:
  "thermal_ok (fst (eval_gpu_missing cfg o1 e)) = thermal_ok e"
  "digest_ok (fst (eval_gpu_missing cfg o1 e)) = digest_ok e"
  by (simp_all add: thermal_ok_def digest_ok_def eval_gpu_missing_def Let_def)

lemma digest_ok_times:
  "digest_ok (e\<lparr>e_digest := d\<lparr>dig_last_eval := x\<rparr>\<rparr>) = digest_ok (e\<lparr>e_digest := d\<rparr>)"
  "digest_ok (e\<lparr>e_digest := d\<lparr>dig_last_eval := x, dig_window_start := y\<rparr>\<rparr>) = digest_ok (e\<lparr>e_digest := d\<rparr>)"
  by (simp_all add: digest_ok_def)

lemma thermal_ok_gpus: "thermal_ok e \<Longrightarrow> thermal_ok (fst (eval_gpus u cfg o1 e))"
  by (auto simp: eval_gpus_def case_prod_beta Let_def digest_flush_def thermal_ok_digest thermal_ok_loop
      gpu_missing_ok split: option.split)

lemma digest_ok_gpus: "digest_ok e \<Longrightarrow> digest_ok (fst (eval_gpus u cfg o1 e))"
proof -
  assume d: "digest_ok e"
  let ?e = "fst (eval_gpu_missing cfg o1 e)"
  have e1: "digest_ok (?e\<lparr>e_digest := e_digest ?e\<rparr>)" using d by (simp add: gpu_missing_ok)
  show ?thesis
    using e1 by (auto simp add: eval_gpus_def case_prod_beta Let_def digest_ok_times
        intro!: digest_ok_flush digest_ok_loop split: option.split)
qed

interpretation thermal_kept: kept_by_handlers thermal_ok
proof unfold_locales
  fix e utc u cfg o1 H l
  show "thermal_ok e \<Longrightarrow> thermal_ok (fst (handler_of utc u cfg o1 H e))"
  proof (cases H)
    case H_Gpus
    then show "thermal_ok e \<Longrightarrow> ?thesis" by (simp add: thermal_ok_gpus)
  qed (simp_all add: thermal_ok_def frame_simps)
qed (simp add: thermal_ok_def)

interpretation digest_kept: kept_by_handlers digest_ok
proof unfold_locales
  fix e utc u cfg o1 H l
  show "digest_ok e \<Longrightarrow> digest_ok (fst (handler_of utc u cfg o1 H e))"
  proof (cases H)
    case H_Gpus
    then show "digest_ok e \<Longrightarrow> ?thesis" by (simp add: digest_ok_gpus)
  qed (simp_all add: digest_ok_def frame_simps)
qed (simp add: digest_ok_def)

section \<open>The events\<close>

lemma strict_keys_eq:
  assumes "bt_invar m" "bt_invar n" "set (bt_keys m) = set (bt_keys n)"
  shows "bt_keys m = bt_keys n"
  using assms by (intro strict_sorted_equal) (auto simp: bt.key_list_sorted)

lemma keys_insert_eq:
  assumes "bt_invar m" "bt_invar n" "bt_keys m = bt_keys n"
  shows "bt_keys (bt_insert k v m) = bt_keys (bt_insert k w n)"
  using assms by (intro strict_keys_eq) (simp_all add: bt_simps bt.key_list_put)

lemma keys_insert_same:
  assumes "bt_invar m" "bt_get k m \<noteq> None"
  shows "bt_keys (bt_insert k v m) = bt_keys m"
  using assms by (intro strict_keys_eq) (auto simp: bt_simps bt.key_list_put bt.key_list_lookup)

lemma keys_remove: "bt_keys (bt_remove k m) = filter (\<lambda>l. l \<noteq> k) (bt_keys m)"
  by (induction m) (auto simp: bt_keys_def bt_remove_def)

lemma restart_one_ok: "restarts_ok e \<and> events_ok e \<Longrightarrow>
    restarts_ok (fst (restart_one cfg o1 e r)) \<and> events_ok (fst (restart_one cfg o1 e r))"
  using keys_insert_eq [of "e_restart_planned e" "e_restart_pending e"]
    keys_insert_same [of "e_restart_pending e"]
  by (simp add: restarts_ok_def events_ok_def restart_one_def Let_def bt_simps)

lemma restarts_loop_ok: "restarts_ok e \<and> events_ok e \<Longrightarrow>
    restarts_ok (fst (restarts_loop cfg o1 e rs)) \<and> events_ok (fst (restarts_loop cfg o1 e rs))"
  by (induction rs arbitrary: e) (simp_all add: case_prod_beta Let_def restart_one_ok)

lemma stable_one_ok: "restarts_ok e \<and> events_ok e \<Longrightarrow>
    restarts_ok (fst (stable_one now e r)) \<and> events_ok (fst (stable_one now e r))"
  by (simp add: restarts_ok_def events_ok_def stable_one_def Let_def bt_simps keys_remove)

lemma stable_loop_ok: "restarts_ok e \<and> events_ok e \<Longrightarrow>
    restarts_ok (fst (stable_loop now e rs)) \<and> events_ok (fst (stable_loop now e rs))"
  by (induction rs arbitrary: e) (simp_all add: case_prod_beta Let_def stable_one_ok)

lemma xids_loop_ok: "restarts_ok e \<and> events_ok e \<Longrightarrow>
    restarts_ok (fst (xids_loop cfg o1 e xs)) \<and> events_ok (fst (xids_loop cfg o1 e xs))"
proof (induction xs arbitrary: e)
  case (Cons x xs)
  moreover have "restarts_ok (fst (xid_one cfg o1 e x)) \<and> events_ok (fst (xid_one cfg o1 e x))"
    using Cons.prems by (simp add: xid_one_def Let_def restarts_ok_def events_ok_def bt_simps)
  ultimately show ?case by (simp add: case_prod_beta Let_def)
qed simp

interpretation events_kept: kept_by_handlers "\<lambda>e. restarts_ok e \<and> events_ok e"
proof unfold_locales
  fix e utc u cfg o1 H l
  assume ok: "restarts_ok e \<and> events_ok e"
  show "restarts_ok (fst (handler_of utc u cfg o1 H e)) \<and> events_ok (fst (handler_of utc u cfg o1 H e))"
  proof (cases H)
    case H_Restarts
    then show ?thesis using ok
      by (simp add: eval_restarts_def case_prod_beta Let_def restarts_loop_ok stable_loop_ok)
  next
    case H_Xids
    then show ?thesis using ok xids_loop_ok by (simp add: eval_xids_def)
  qed (use ok in \<open>simp_all add: restarts_ok_def events_ok_def frame_simps\<close>)
qed (simp add: restarts_ok_def events_ok_def)

section \<open>The idle decode probe\<close>

lemma c1_judge_ok: "c1_ok c \<Longrightarrow> c1_ok (fst (c1_judge utc cfg o1 c v b))"
  by (auto simp: c1_ok_def c1_judge_def Let_def)

lemma c1_learn_ok: "c1_ok c \<Longrightarrow> c1_ok (c1_learn cfg c v)"
  by (simp add: c1_ok_def c1_learn_def Let_def)

lemma c1_stale_ok: "c1_ok (e_c1 e) \<Longrightarrow> c1_ok (e_c1 (fst (eval_c1_stale cfg o1 e)))"
  by (simp add: c1_ok_def eval_c1_stale_def case_prod_beta Let_def sus_ok_step)

lemma c1_valid_ok: "c1_ok (c\<lparr>c1_validated := True, c1_last_valid_ts := t\<rparr>) = c1_ok c"
  by (simp add: c1_ok_def)

lemma eval_c1_ok: "c1_ok (e_c1 e) \<Longrightarrow> c1_ok (e_c1 (fst (eval_c1 utc cfg o1 e)))"
  by (auto simp add: eval_c1_def case_prod_beta Let_def intro!: c1_stale_ok c1_judge_ok c1_learn_ok
      simp: c1_valid_ok split: option.split)

interpretation c1_kept: kept_by_handlers "\<lambda>e. c1_ok (e_c1 e)"
proof unfold_locales
  fix e utc u cfg o1 H l
  show "c1_ok (e_c1 e) \<Longrightarrow> c1_ok (e_c1 (fst (handler_of utc u cfg o1 H e)))"
    by (cases H) (simp_all add: frame_simps eval_c1_ok)
qed simp

section \<open>The engine\<close>

lemma rules_ok_evaluate:
  "sus_ok (rule_state r e) \<Longrightarrow> sus_ok (rule_state r (fst (evaluate utc u cfg e o1)))"
  using evaluate_moves [of r cfg o1 e utc u]
  by (auto simp: moves_as_def rule_spec_def sus_ok_step split: option.splits)

lemma engine_ok_evaluate: "engine_ok e \<Longrightarrow> engine_ok (fst (evaluate utc u cfg e o1))"
  using events_kept.evaluate_keeps [of e utc u cfg o1]
  by (simp add: engine_ok_def rules_ok_evaluate serve_kept.evaluate_keeps windows_kept.evaluate_keeps
      thermal_kept.evaluate_keeps digest_kept.evaluate_keeps c1_kept.evaluate_keeps)

lemma engine_ok_retain: "engine_ok e \<Longrightarrow> engine_ok (fst (retain_c1_streak e p))"
proof -
  assume ok: "engine_ok e"
  have r: "rule_state r (e\<lparr>e_c1 := c\<rparr>) = rule_state r e" for r c by (cases r) simp_all
  have "distinct (map fst (filter (\<lambda>(ts, _). p ts) (c1_low_probes (e_c1 e))))"
    using ok by (simp add: engine_ok_def c1_ok_def distinct_map_filter)
  then show ?thesis using ok
    by (simp add: engine_ok_def r retain_c1_streak_def Let_def serve_ok_def windows_ok_def thermal_ok_def
        digest_ok_def restarts_ok_def events_ok_def c1_ok_def)
qed

lemma engine_ok_relearn: "engine_ok e \<Longrightarrow> engine_ok (relearn_c1_baseline e cfg vs)"
proof -
  assume ok: "engine_ok e"
  have r: "rule_state r (e\<lparr>e_c1 := c\<rparr>) = rule_state r e" for r c by (cases r) simp_all
  show ?thesis using ok
    by (simp add: engine_ok_def r relearn_c1_baseline_def Let_def serve_ok_def windows_ok_def thermal_ok_def
        digest_ok_def restarts_ok_def events_ok_def c1_ok_def c1_default_def sus_ok_default)
qed

text \<open>The operations of the engine, and the states it can reach.\<close>

inductive engine_reach :: "RulesConfig \<Rightarrow> Engine \<Rightarrow> bool" for cfg where
  start: "engine_reach cfg engine_default"
| evaluated: "engine_reach cfg e \<Longrightarrow> engine_reach cfg (fst (evaluate utc u cfg e o1))"
| retained: "engine_reach cfg e \<Longrightarrow> engine_reach cfg (fst (retain_c1_streak e p))"
| relearned: "engine_reach cfg e \<Longrightarrow> engine_reach cfg (relearn_c1_baseline e cfg vs)"

lemma engine_reach_ok: "engine_reach cfg e \<Longrightarrow> engine_ok e"
  by (induction rule: engine_reach.induct)
    (auto intro: engine_ok_default engine_ok_evaluate engine_ok_retain engine_ok_relearn)

section \<open>The alerts of an evaluation\<close>

lemma run_handlers_stamped:
  "a \<in> set (snd (run_handlers (map (handler_of utc u cfg o1) Hs) e)) \<Longrightarrow> ae_ts a = o_now o1"
proof (induction Hs arbitrary: e)
  case (Cons H Hs)
  have "ae_ts b = o_now o1" if "b \<in> set (snd (handler_of utc u cfg o1 H e))" for b
    using that h_serve_down.stamped h_gate_down.stamped h_restarts.stamped h_xids.stamped h_queue.stamped
      h_gpus.stamped h_c1.stamped h_rejects.stamped h_omp.stamped h_charging.stamped h_cold.stamped
      h_disk.stamped by (cases H) auto
  then show ?case using Cons by (auto simp: case_prod_beta Let_def)
qed simp

end
