(* ===== verification/RuleStates.thy ===== *)
theory RuleStates
  imports RuleKeys
begin

text \<open>
  The two read-only views of the alert engine in \<open>rules.rs\<close>: \<open>Engine::firing\<close> (the keys the
  header turns red for) and \<open>Engine::rule_states\<close> (the rows of \<open>GET /rules\<close>).
\<close>

record RuleState =
  rs_rule :: string
  rs_severity :: string
  rs_state :: string
  rs_threshold :: string
  rs_value :: string
  rs_pending_since :: "i64 option"
  rs_last_fired :: "i64 option"
  rs_cooldown_remaining_s :: i64

section \<open>The firing keys\<close>

text \<open>The sustained rules \<open>firing\<close> asks by name, in its order.\<close>

definition firing_fixed :: "Engine \<Rightarrow> (string \<times> Sustained) list" where
  "firing_fixed e =
    [(''serve_down'', e_serve_down e),
     (''serve_down_page'', e_serve_down_page e),
     (''gate_down'', e_gate_down e),
     (''gate_charge_errors'', e_charge_errors e),
     (''gate_discount_inert'', e_discount_inert e),
     (''gate_cold_budget'', e_cold_budget e),
     (''queue_pressure'', e_queue e),
     (''gate_waiters'', e_waiters e),
     (''gpu_missing'', e_gpu_missing e),
     (''disk_full'', e_disk_full e),
     (''disk_full_page'', e_disk_full_page e),
     (''disk_growth'', dg_rule (e_disk_growth e)),
     (''rejects_413'', gw_rule (e_rejects_413 e)),
     (''rejects_429'', gw_rule (e_rejects_429 e))]"

definition engine_firing :: "Engine \<Rightarrow> i64 \<Rightarrow> string list" where
  "engine_firing e now =
    map fst (filter (\<lambda>(_, s). announced s)
      (firing_fixed e @
       map (\<lambda>(i, s). (thermal_temp_key i, s)) (e_thermal_temp e) @
       map (\<lambda>(i, s). (thermal_throttle_key i, s)) (e_thermal_throttle e))) @
    (if c1_announced (e_c1 e) then [''c1_decode''] else []) @
    (if announced (c1_stale (e_c1 e)) \<and> \<not> muted (c1_stale_flaps (e_c1 e)) now then [''c1_stale''] else [])"

section \<open>The rows\<close>

definition cooldown_left :: "RulesConfig \<Rightarrow> i64 \<Rightarrow> i64 option \<Rightarrow> i64" where
  "cooldown_left cfg now lst = (case lst of None \<Rightarrow> 0 | Some t \<Rightarrow> max (t + cfg_cooldown_secs cfg - now) 0)"

definition sustained_row ::
  "RulesConfig \<Rightarrow> i64 \<Rightarrow> string \<Rightarrow> Severity \<Rightarrow> Sustained \<Rightarrow> string \<Rightarrow> string \<Rightarrow> RuleState" where
  "sustained_row cfg now rule sev s threshold value =
    \<lparr>rs_rule = rule, rs_severity = severity_str sev,
     rs_state = (if announced s then ''firing'' else if since s \<noteq> None then ''pending'' else ''ok''),
     rs_threshold = threshold, rs_value = value,
     rs_pending_since = since s, rs_last_fired = last_sent s,
     rs_cooldown_remaining_s = cooldown_left cfg now (last_sent s)\<rparr>"

definition updown :: "i64 \<Rightarrow> bool \<Rightarrow> Sustained \<Rightarrow> string" where
  "updown now up s = (if up then ''up'' else ''down '' @ fmt_duration (held_for s now))"

definition opt_f0 :: "f64 option \<Rightarrow> string" where
  "opt_f0 v = (case v of None \<Rightarrow> ''-'' | Some x \<Rightarrow> fmt_fixed 0 x)"

text \<open>The rows of the literal vector \<open>out\<close>.\<close>

definition base_rows :: "RulesConfig \<Rightarrow> Engine \<Rightarrow> i64 \<Rightarrow> RuleState list" where
  "base_rows cfg e now =
    (let l = e_last e; row = sustained_row cfg now in
     [row ''serve_down'' Warn (e_serve_down e)
        (''serve down >= '' @ fmt_duration (cfg_serve_down_secs cfg)) (updown now (l_serve_up l) (e_serve_down e)),
      row ''serve_down_page'' Page (e_serve_down_page e)
        (''serve down >= '' @ fmt_duration (cfg_serve_down_page_secs cfg))
        (updown now (l_serve_up l) (e_serve_down_page e)),
      row ''gate_down'' Warn (e_gate_down e)
        (''gate down >= '' @ fmt_duration (cfg_gate_down_secs cfg)) (updown now (l_gate_up l) (e_gate_down e)),
      row ''gate_charge_errors'' Warn (e_charge_errors e)
        (''gate charge_errors > 0 for >= '' @ fmt_duration (cfg_charge_errors_secs cfg))
        (case l_gate_shadow l of None \<Rightarrow> ''no reading''
         | Some sh \<Rightarrow> show_nat (sh_charge_errors sh) @ '' errors''),
      row ''gate_discount_inert'' Warn (e_discount_inert e)
        (''warm cache + >= '' @ show_nat (cfg_discount_min_admissions cfg) @
         '' admissions + 0 discounted for >= '' @ fmt_duration (cfg_discount_inert_secs cfg))
        (case l_gate_shadow l of None \<Rightarrow> ''no reading''
         | Some sh \<Rightarrow> show_nat (sh_recent_discounted sh) @ ''/'' @ show_nat (sh_recent_admissions sh) @
             '' discounted, warm '' @ (case sh_cache_warm sh of None \<Rightarrow> ''?'' | Some w \<Rightarrow> show_bool w)),
      row ''queue_pressure'' Warn (e_queue e)
        (''queue >= '' @ fmt_fixed 0 (cfg_queue_reqs cfg) @ '' for '' @ fmt_duration (cfg_queue_secs cfg))
        (''queue '' @ opt_f0 (l_queue l)),
      row ''gate_waiters'' Warn (e_waiters e)
        (''trusted waiters > 0 for '' @ fmt_duration (cfg_waiters_secs cfg))
        (''waiters '' @ (case l_waiters l of None \<Rightarrow> ''-'' | Some w \<Rightarrow> show_nat w)),
      row ''gpu_missing'' Hardware (e_gpu_missing e)
        (''GPUs < '' @ show_nat (e_gpu_count_seen e) @ '' for '' @ fmt_duration (cfg_gpu_missing_secs cfg))
        (show_nat (case l_gpus l of None \<Rightarrow> 0 | Some gs \<Rightarrow> length gs) @ '' of '' @ show_nat (e_gpu_count_seen e)),
      row ''omp_default_mismatch'' Warn (e_omp_default e)
        (''omp default != served for '' @ fmt_duration (cfg_omp_mismatch_hold_secs cfg))
        (case l_omp_mismatch l of None \<Rightarrow> ''in sync'' | Some (c, s) \<Rightarrow> c @ '' != '' @ s)])"

definition disk_value :: "Engine \<Rightarrow> string" where
  "disk_value e = (case l_disk (e_last e) of None \<Rightarrow> ''no reading''
     | Some d \<Rightarrow> do_path d @ '' '' @ disk_describe d)"

definition disk_level_row :: "RulesConfig \<Rightarrow> Engine \<Rightarrow> i64 \<Rightarrow> string \<Rightarrow> Severity \<Rightarrow> Sustained \<Rightarrow> f64 \<Rightarrow> RuleState" where
  "disk_level_row cfg e now rule sev s pct =
    sustained_row cfg now rule sev s
      (cfg_disk_path cfg @ '' >= '' @ fmt_fixed 0 pct @ ''% used for '' @ fmt_duration (cfg_disk_secs cfg) @
       '' (recovers below '' @ fmt_fixed 0 (f_sub pct (cfg_disk_recover_margin_pct cfg)) @ ''%)'')
      (disk_value e)"

definition disk_rows :: "RulesConfig \<Rightarrow> Engine \<Rightarrow> i64 \<Rightarrow> RuleState list" where
  "disk_rows cfg e now =
    [disk_level_row cfg e now ''disk_full'' Warn (e_disk_full e) (cfg_disk_warn_pct cfg),
     disk_level_row cfg e now ''disk_full_page'' Page (e_disk_full_page e) (cfg_disk_page_pct cfg),
     sustained_row cfg now ''disk_growth'' Warn (dg_rule (e_disk_growth e))
       (cfg_disk_path cfg @ '' loses >= '' @ fmt_fixed 0 (cfg_disk_growth_gb cfg) @ '' GB free within '' @
        fmt_duration (cfg_disk_growth_secs cfg) @
        '' (recovers when the drop over the window falls back under)'')
       (disk_value e)]"

text \<open>\<open>sort_unstable\<close> and \<open>dedup\<close> of the GPU indices.\<close>

definition thermal_indices :: "Engine \<Rightarrow> u32 list" where
  "thermal_indices e =
    remdups_adj (sort (bt_keys (e_thermal_temp e) @ bt_keys (e_thermal_throttle e) @
      (case l_gpus (e_last e) of None \<Rightarrow> [] | Some gs \<Rightarrow> map go_index gs)))"

definition thermal_rows_one :: "TempUnits \<Rightarrow> RulesConfig \<Rightarrow> Engine \<Rightarrow> i64 \<Rightarrow> u32 \<Rightarrow> RuleState list" where
  "thermal_rows_one u cfg e now i =
    (let g = (case l_gpus (e_last e) of None \<Rightarrow> None | Some gs \<Rightarrow> find (\<lambda>g. go_index g = i) gs);
         note = (if i \<in> set (cfg_thermal_exclude cfg) then '' (excluded: daily digest only)'' else []);
         flags = (case g of None \<Rightarrow> [] | Some g \<Rightarrow> throttle_flags (go_throttle_mask g AND THROTTLE_THERMAL_MASK))
     in [sustained_row cfg now (thermal_temp_key i) Warn (bt_get_or sustained_default i (e_thermal_temp e))
           (''>= '' @ temp_compact u (cfg_thermal_temp_c cfg) @ '' for '' @ fmt_duration (cfg_thermal_secs cfg) @ note)
           (temp_opt u (case g of None \<Rightarrow> None | Some g \<Rightarrow> go_temp_c g) Compact),
         sustained_row cfg now (thermal_throttle_key i) Warn (bt_get_or sustained_default i (e_thermal_throttle e))
           (''thermal slowdown for '' @ fmt_duration (cfg_thermal_secs cfg) @ note)
           (if flags = [] then ''none'' else join ''+'' flags)])"

definition thermal_rows :: "TempUnits \<Rightarrow> RulesConfig \<Rightarrow> Engine \<Rightarrow> i64 \<Rightarrow> RuleState list" where
  "thermal_rows u cfg e now = concat (map (thermal_rows_one u cfg e now) (thermal_indices e))"

definition c1_decode_row :: "RulesConfig \<Rightarrow> Engine \<Rightarrow> i64 \<Rightarrow> RuleState" where
  "c1_decode_row cfg e now =
    (let c = e_c1 e; floor1 = map_option (\<lambda>b. f_mul b (cfg_c1_ratio cfg)) (c1_baseline e cfg) in
     \<lparr>rs_rule = ''c1_decode'', rs_severity = severity_str Warn,
      rs_state = (if c1_announced c then ''firing'' else if c1_low_probes c \<noteq> [] then ''pending'' else ''ok''),
      rs_threshold = (case floor1 of
          Some f \<Rightarrow> ''valid idle probe < '' @ fmt_fixed 1 f @ '' tok/s, '' @ show_nat (cfg_c1_consecutive cfg) @ '' in a row''
        | None \<Rightarrow> ''learning the baseline ('' @ show_nat (length (c1_baseline_samples c)) @ ''/'' @
            show_nat (cfg_c1_baseline_probes cfg) @ '')''),
      rs_value = (case l_c1_tok_s (e_last e) of None \<Rightarrow> ''-'' | Some v \<Rightarrow> fmt_fixed 1 v) @ '' tok/s, '' @
        show_nat (length (c1_low_probes c)) @ '' low in a row'',
      rs_pending_since = None, rs_last_fired = c1_last_sent c,
      rs_cooldown_remaining_s = cooldown_left cfg now (c1_last_sent c)\<rparr>)"

definition c1_stale_row :: "RulesConfig \<Rightarrow> Engine \<Rightarrow> i64 \<Rightarrow> RuleState" where
  "c1_stale_row cfg e now =
    (let c = e_c1 e in
     if muted (c1_stale_flaps c) now then
       \<lparr>rs_rule = ''c1_stale'', rs_severity = severity_str Info, rs_state = ''muted'',
        rs_threshold = ''>= '' @ show_nat FLAP_MUTE_THRESHOLD @ '' flaps within '' @
          fmt_duration FLAP_MUTE_WINDOW_SECS @ '' mutes the row'',
        rs_value = ''c1_stale unreliable - '' @
          show_nat (count_since (c1_stale_flaps c) now FLAP_LABEL_WINDOW_SECS) @ '' flaps/24h, muted'',
        rs_pending_since = since (c1_stale c), rs_last_fired = last_sent (c1_stale c),
        rs_cooldown_remaining_s = cooldown_left cfg now (last_sent (c1_stale c))\<rparr>
     else sustained_row cfg now ''c1_stale'' Info (c1_stale c)
       (''no VALID idle reading for '' @ show_nat (cfg_c1_stale_probe_intervals cfg) @ '' probe intervals'')
       (case c1_last_valid_ts c of None \<Rightarrow> ''never measured yet''
        | Some t \<Rightarrow> ''last valid '' @ fmt_duration (now - t) @ '' ago''))"

definition rejects_row :: "RulesConfig \<Rightarrow> i64 \<Rightarrow> nat \<Rightarrow> GrowthWindow \<Rightarrow> u64 option \<Rightarrow> RuleState" where
  "rejects_row cfg now code win growth =
    sustained_row cfg now (''rejects_'' @ show_nat code) Info (gw_rule win)
      (''rejected_'' @ show_nat code @ '' grows > '' @ show_nat (cfg_reject_growth cfg) @ '' in '' @
       fmt_duration (cfg_reject_window_secs cfg))
      (''+'' @ show_nat (case growth of None \<Rightarrow> 0 | Some g \<Rightarrow> g))"

definition event_row ::
  "RulesConfig \<Rightarrow> i64 \<Rightarrow> string \<Rightarrow> Severity \<Rightarrow> string \<Rightarrow> i64 option \<Rightarrow> i64 option \<Rightarrow> RuleState" where
  "event_row cfg now rule sev threshold pending lst =
    \<lparr>rs_rule = rule, rs_severity = severity_str sev,
     rs_state = (if pending \<noteq> None then ''pending'' else ''ok''),
     rs_threshold = threshold,
     rs_value = (if pending \<noteq> None then ''waiting for it to stay up'' else ''-''),
     rs_pending_since = pending, rs_last_fired = lst,
     rs_cooldown_remaining_s = cooldown_left cfg now lst\<rparr>"

definition restart_row :: "RulesConfig \<Rightarrow> Engine \<Rightarrow> i64 \<Rightarrow> string \<Rightarrow> RuleState" where
  "restart_row cfg e now role =
    event_row cfg now (restart_key role) Warn ''any container restart''
      (bt_get role (e_restart_pending e)) (bt_get (restart_key role) (e_event_last_sent e))"

definition xid_rows :: "RulesConfig \<Rightarrow> Engine \<Rightarrow> i64 \<Rightarrow> RuleState list" where
  "xid_rows cfg e now =
    (let ks = sort (filter (\<lambda>k. starts_with k ''xid:'') (bt_keys (e_event_last_sent e)));
         what = ''any NVRM Xid in the kernel log''
     in (if ks = [] then [event_row cfg now ''xid:*'' Hardware what None None] else []) @
        map (\<lambda>k. event_row cfg now k Hardware what None (bt_get k (e_event_last_sent e))) ks)"

definition rule_states :: "TempUnits \<Rightarrow> Engine \<Rightarrow> RulesConfig \<Rightarrow> i64 \<Rightarrow> RuleState list" where
  "rule_states u e cfg now =
    base_rows cfg e now @ disk_rows cfg e now @ thermal_rows u cfg e now @
    [c1_decode_row cfg e now, c1_stale_row cfg e now] @
    [rejects_row cfg now 413 (e_rejects_413 e) (l_growth_413 (e_last e)),
     rejects_row cfg now 429 (e_rejects_429 e) (l_growth_429 (e_last e))] @
    map (restart_row cfg e now) [''serve'', ''gate''] @
    xid_rows cfg e now @
    [event_row cfg now ''thermal_digest'' Info ''daily summary of the excluded GPUs'' None None]"

section \<open>The two views agree\<close>

definition shown_firing :: "RuleState list \<Rightarrow> string set" where
  "shown_firing rows = rs_rule ` {r \<in> set rows. rs_state r = ''firing''}"

definition key_if :: "string \<Rightarrow> bool \<Rightarrow> string set" where
  "key_if k b = (if b then {k} else {})"

lemma shown_firing_simps:
  "shown_firing [] = {}"
  "shown_firing (r # rows) = key_if (rs_rule r) (rs_state r = ''firing'') \<union> shown_firing rows"
  "shown_firing (xs @ ys) = shown_firing xs \<union> shown_firing ys"
  by (auto simp: shown_firing_def key_if_def)

lemma sustained_row_rule: "rs_rule (sustained_row cfg now k sev s a b) = k"
  by (simp add: sustained_row_def)

lemma sustained_row_firing:
  "(rs_state (sustained_row cfg now k sev s a b) = ''firing'') = announced s"
  by (simp add: sustained_row_def)

lemmas row_simps = shown_firing_simps sustained_row_rule sustained_row_firing Let_def

lemma shown_firing_concat: "shown_firing (concat (map f xs)) = (\<Union>x \<in> set xs. shown_firing (f x))"
  by (auto simp: shown_firing_def)

lemma shown_firing_none: "\<forall>r \<in> set rows. rs_state r \<noteq> ''firing'' \<Longrightarrow> shown_firing rows = {}"
  by (auto simp: shown_firing_def)

lemma base_rows_shown:
  "shown_firing (base_rows cfg e now) =
    key_if ''serve_down'' (announced (e_serve_down e)) \<union>
    (key_if ''serve_down_page'' (announced (e_serve_down_page e)) \<union>
    (key_if ''gate_down'' (announced (e_gate_down e)) \<union>
    (key_if ''gate_charge_errors'' (announced (e_charge_errors e)) \<union>
    (key_if ''gate_discount_inert'' (announced (e_discount_inert e)) \<union>
    (key_if ''queue_pressure'' (announced (e_queue e)) \<union>
    (key_if ''gate_waiters'' (announced (e_waiters e)) \<union>
    (key_if ''gpu_missing'' (announced (e_gpu_missing e)) \<union>
    (key_if ''omp_default_mismatch'' (announced (e_omp_default e)) \<union> {}))))))))"
  unfolding base_rows_def by (simp only: row_simps)

lemma disk_rows_shown:
  "shown_firing (disk_rows cfg e now) =
    key_if ''disk_full'' (announced (e_disk_full e)) \<union>
    (key_if ''disk_full_page'' (announced (e_disk_full_page e)) \<union>
    (key_if ''disk_growth'' (announced (dg_rule (e_disk_growth e))) \<union> {}))"
  unfolding disk_rows_def disk_level_row_def by (simp only: row_simps)

lemma rejects_rows_shown:
  "shown_firing [rejects_row cfg now 413 (e_rejects_413 e) g, rejects_row cfg now 429 (e_rejects_429 e) h] =
    key_if ''rejects_413'' (announced (gw_rule (e_rejects_413 e))) \<union>
    (key_if ''rejects_429'' (announced (gw_rule (e_rejects_429 e))) \<union> {})"
  unfolding rejects_row_def by (simp only: row_simps reject_keys)

lemma c1_rows_shown:
  "shown_firing [c1_decode_row cfg e now, c1_stale_row cfg e now] =
    key_if ''c1_decode'' (c1_announced (e_c1 e)) \<union>
    (key_if ''c1_stale'' (announced (c1_stale (e_c1 e)) \<and> \<not> muted (c1_stale_flaps (e_c1 e)) now) \<union> {})"
proof -
  have 1: "rs_rule (c1_decode_row cfg e now) = ''c1_decode''"
    "(rs_state (c1_decode_row cfg e now) = ''firing'') = c1_announced (e_c1 e)"
    by (simp_all add: c1_decode_row_def Let_def)
  have 2: "rs_rule (c1_stale_row cfg e now) = ''c1_stale''"
    "(rs_state (c1_stale_row cfg e now) = ''firing'') =
      (announced (c1_stale (e_c1 e)) \<and> \<not> muted (c1_stale_flaps (e_c1 e)) now)"
    by (simp_all add: c1_stale_row_def Let_def sustained_row_rule sustained_row_firing)
  show ?thesis by (simp only: row_simps 1 2)
qed

lemma event_row_not_firing: "rs_state (event_row cfg now k sev th p l) \<noteq> ''firing''"
  by (simp add: event_row_def)

lemma event_rows_shown:
  "shown_firing (map (restart_row cfg e now) roles) = {}"
  "shown_firing (xid_rows cfg e now) = {}"
  "shown_firing [event_row cfg now k sev th p l] = {}"
proof -
  show "shown_firing (map (restart_row cfg e now) roles) = {}"
    by (rule shown_firing_none) (auto simp: restart_row_def event_row_not_firing)
  show "shown_firing (xid_rows cfg e now) = {}"
    by (rule shown_firing_none) (auto simp: xid_rows_def Let_def event_row_not_firing)
  show "shown_firing [event_row cfg now k sev th p l] = {}"
    by (rule shown_firing_none) (auto simp: event_row_not_firing)
qed

lemma thermal_rows_one_shown:
  "shown_firing (thermal_rows_one u cfg e now i) =
    key_if (thermal_temp_key i) (announced (bt_get_or sustained_default i (e_thermal_temp e))) \<union>
    (key_if (thermal_throttle_key i) (announced (bt_get_or sustained_default i (e_thermal_throttle e))) \<union> {})"
  unfolding thermal_rows_one_def by (simp only: row_simps)

lemma announced_get_or:
  assumes "bt_invar m"
  shows "announced (bt_get_or sustained_default i m) \<longleftrightarrow> (\<exists>s. (i, s) \<in> set m \<and> announced s)"
proof (cases "map_of m i")
  case None
  then show ?thesis
    by (force simp: bt_get_or_def bt_get_def sustained_default_def dest: weak_map_of_SomeI)
next
  case (Some s)
  have "distinct (map fst m)" using assms by (simp add: bt_invar_def strict_sorted_iff)
  then have "map_of m i = Some t \<longleftrightarrow> (i, t) \<in> set m" for t by (rule map_of_eq_Some_iff)
  then have "(i, t) \<in> set m \<longleftrightarrow> s = t" for t unfolding Some by simp
  then show ?thesis using Some by (simp add: bt_get_or_def bt_get_def)
qed

lemma thermal_rows_shown:
  assumes "bt_invar (e_thermal_temp e)" "bt_invar (e_thermal_throttle e)"
  shows "shown_firing (thermal_rows u cfg e now) =
    {thermal_temp_key i | i s. (i, s) \<in> set (e_thermal_temp e) \<and> announced s} \<union>
    {thermal_throttle_key i | i s. (i, s) \<in> set (e_thermal_throttle e) \<and> announced s}"
proof -
  have idx: "i \<in> set (thermal_indices e)" if "(i, s) \<in> set (e_thermal_temp e) \<union> set (e_thermal_throttle e)" for i s
    using that by (force simp: thermal_indices_def bt_keys_def)
  show ?thesis
    (is "_ = ?t \<union> ?s")
  proof (intro equalityI subsetI)
    fix k
    assume "k \<in> shown_firing (thermal_rows u cfg e now)"
    then show "k \<in> ?t \<union> ?s"
      unfolding thermal_rows_def shown_firing_concat thermal_rows_one_shown announced_get_or [OF assms(1)]
        announced_get_or [OF assms(2)] key_if_def
      by (auto split: if_splits)
  next
    fix k
    assume "k \<in> ?t \<union> ?s"
    then obtain i s where i: "announced s" "(i, s) \<in> set (e_thermal_temp e) \<and> k = thermal_temp_key i \<or>
        (i, s) \<in> set (e_thermal_throttle e) \<and> k = thermal_throttle_key i" by blast
    then have "k \<in> shown_firing (thermal_rows_one u cfg e now i)"
      unfolding thermal_rows_one_shown announced_get_or [OF assms(1)] announced_get_or [OF assms(2)] key_if_def
      by auto
    then show "k \<in> shown_firing (thermal_rows u cfg e now)"
      unfolding thermal_rows_def shown_firing_concat using i idx by blast
  qed
qed

lemma rule_states_shown:
  assumes "bt_invar (e_thermal_temp e)" "bt_invar (e_thermal_throttle e)"
  shows "shown_firing (rule_states u e cfg now) =
    shown_firing (base_rows cfg e now) \<union> shown_firing (disk_rows cfg e now) \<union>
    shown_firing (thermal_rows u cfg e now) \<union>
    key_if ''c1_decode'' (c1_announced (e_c1 e)) \<union>
    key_if ''c1_stale'' (announced (c1_stale (e_c1 e)) \<and> \<not> muted (c1_stale_flaps (e_c1 e)) now) \<union>
    key_if ''rejects_413'' (announced (gw_rule (e_rejects_413 e))) \<union>
    key_if ''rejects_429'' (announced (gw_rule (e_rejects_429 e)))"
  unfolding rule_states_def shown_firing_simps(3) c1_rows_shown rejects_rows_shown event_rows_shown
  by blast

definition fixed_keys :: "(string \<times> Sustained) list \<Rightarrow> string set" where
  "fixed_keys xs = fst ` {x \<in> set xs. announced (snd x)}"

lemma fixed_keys_simps:
  "fixed_keys [] = {}"
  "fixed_keys ((k, s) # xs) = key_if k (announced s) \<union> fixed_keys xs"
  by (force simp: fixed_keys_def key_if_def)+

lemma firing_segments:
  "fst ` {x \<in> set (xs @ map (\<lambda>(i, s). (f i, s)) m @ map (\<lambda>(i, s). (g i, s)) n). case x of (_, s) \<Rightarrow> announced s} =
    fixed_keys xs \<union> {f i | i s. (i, s) \<in> set m \<and> announced s} \<union> {g i | i s. (i, s) \<in> set n \<and> announced s}"
  (is "?l = ?r")
proof
  show "?l \<subseteq> ?r" by (auto simp: fixed_keys_def)
  show "?r \<subseteq> ?l" by (force simp: fixed_keys_def)
qed

lemma engine_firing_set:
  "set (engine_firing e now) = fixed_keys (firing_fixed e) \<union>
    {thermal_temp_key i | i s. (i, s) \<in> set (e_thermal_temp e) \<and> announced s} \<union>
    {thermal_throttle_key i | i s. (i, s) \<in> set (e_thermal_throttle e) \<and> announced s} \<union>
    key_if ''c1_decode'' (c1_announced (e_c1 e)) \<union>
    key_if ''c1_stale'' (announced (c1_stale (e_c1 e)) \<and> \<not> muted (c1_stale_flaps (e_c1 e)) now)"
proof -
  have "set (engine_firing e now) =
    fst ` {x \<in> set (firing_fixed e @ map (\<lambda>(i, s). (thermal_temp_key i, s)) (e_thermal_temp e) @
        map (\<lambda>(i, s). (thermal_throttle_key i, s)) (e_thermal_throttle e)). case x of (_, s) \<Rightarrow> announced s} \<union>
    (key_if ''c1_decode'' (c1_announced (e_c1 e)) \<union>
     key_if ''c1_stale'' (announced (c1_stale (e_c1 e)) \<and> \<not> muted (c1_stale_flaps (e_c1 e)) now))"
    unfolding engine_firing_def key_if_def if_distrib [where f = set] list.set set_append [of "map fst _"]
      set_append [of "if _ then _ else _"] set_map [of fst] set_filter ..
  then show ?thesis unfolding firing_segments by (simp only: Un_assoc)
qed

lemma firing_rows_match:
  assumes "bt_invar (e_thermal_temp e)" "bt_invar (e_thermal_throttle e)"
  shows "set (engine_firing e now) \<union> key_if ''omp_default_mismatch'' (announced (e_omp_default e)) =
    shown_firing (rule_states u e cfg now) \<union> key_if ''gate_cold_budget'' (announced (e_cold_budget e))"
  unfolding engine_firing_set rule_states_shown [OF assms] thermal_rows_shown [OF assms]
    base_rows_shown disk_rows_shown firing_fixed_def fixed_keys_simps
  by (simp only: Un_ac Un_empty_right Un_empty_left)

end
