(* ===== verification/RuleClaims.thy ===== *)
theory RuleClaims
  imports RuleInv RuleStates
begin

text \<open>
  The properties of the alert engine (\<open>rules.rs\<close>), each over \<open>Engine::evaluate\<close> as the
  collector calls it, with the concrete runs that exercise them.
\<close>

section \<open>Concrete polls\<close>

text \<open>A poll at which the serve answers and the gateway does not.\<close>

definition gate_out :: "i64 \<Rightarrow> Observation" where
  "gate_out now = observation_default\<lparr>o_now := now, o_serve_up := True\<rparr>"

definition no_clock :: "i64 \<Rightarrow> string" where
  "no_clock t = []"

lemma gate_out_simps:
  "o_now (gate_out t) = t" "o_gate_up (gate_out t) = False" "o_serve_up (gate_out t) = True"
  by (simp_all add: gate_out_def observation_default_def)

lemma default_holds:
  "cfg_gate_down_secs rules_config_default = 120" "cfg_cooldown_secs rules_config_default = 1800"
  by (simp_all add: rules_config_default_def)

section \<open>The fixed rules\<close>

text \<open>C1. Each of the thirteen fixed rules of the alert engine is one sustained rule: an evaluation moves
  it exactly as \<open>sus_step\<close> moves it under the rule's own condition (or not at all when the poll
  carries no reading for it), and the alerts it sends under the rule's key are exactly that
  step's edge, at most one. No handler moves or silences another one's rule.\<close>

theorem evaluate_refines_rules:
  "(rule_state r (fst (evaluate utc u cfg e o1)), edges_for (rule_key r) (snd (evaluate utc u cfg e o1))) =
   (fst (rule_spec r cfg o1 e), edge_list (snd (rule_spec r cfg o1 e)))"
  using evaluate_moves [of r cfg o1 e utc u] by (simp add: moves_as_def)

text \<open>C2. A rule fires only after its condition has held, without a break, for the rule's hold time:
  the polls that drove it end in a run of true conditions that started at least that long ago.\<close>

theorem fires_only_after_hold:
  assumes "E_Fire \<in> set (edges_for (rule_key r)
      (snd (evaluate utc u cfg (run_engine utc u cfg engine_default os) o1)))"
  shows "\<exists>t0. streak_start (rule_inputs utc u cfg r engine_default os @ [(o_now o1, True)]) = Some t0 \<and>
    rule_hold r cfg \<le> o_now o1 - t0"
  using assms by (rule fire_needs_hold)

lemma gate_out_fires:
  "E_Fire \<in> set (edges_for (rule_key R_GateDown) (snd (evaluate no_clock U_C rules_config_default
     (run_engine no_clock U_C rules_config_default engine_default [gate_out 0]) (gate_out 120))))"
proof -
  let ?e = "run_engine no_clock U_C rules_config_default engine_default [gate_out 0]"
  have s: "rule_state R_GateDown ?e = \<lparr>since = Some 0, announced = False, last_sent = None\<rparr>"
    unfolding run_engine_rule rule_state_default
    by (simp add: sus_step_def sustained_default_def gate_out_simps default_holds)
  have "snd (rule_spec R_GateDown rules_config_default (gate_out 120) ?e) = E_Fire"
    unfolding rule_spec_def using s
    by (simp add: sus_step_def cooled_def gate_out_simps default_holds)
  then show ?thesis using evaluate_moves [of R_GateDown rules_config_default "gate_out 120" ?e no_clock U_C]
    by (simp add: moves_as_def edge_list_def del: rule_key.simps)
qed

theorem fires_only_after_hold_witness:
  "\<exists>t0. streak_start (rule_inputs no_clock U_C rules_config_default R_GateDown engine_default [gate_out 0] @
      [(120, True)]) = Some t0 \<and> 120 \<le> 120 - t0"
  using fires_only_after_hold [OF gate_out_fires] by (simp add: gate_out_simps default_holds)

text \<open>C3. Over any run of the collector from an empty engine, the alerts of a fixed rule alternate:
  it never fires twice without a recovery in between, never recovers what it did not announce,
  and two of its fires are at least the cooldown apart.\<close>

theorem alerts_alternate_and_cool_down:
  "alternates False (snd (run_edges (key_step utc u cfg r) engine_default os)) \<and>
   spaced (cfg_cooldown_secs cfg)
     (fire_times o_now os (snd (run_edges (key_step utc u cfg r) engine_default os)))"
  using key.run_alternates [of r engine_default utc u cfg os]
    key.run_spaced [of cfg r engine_default os utc u]
  by (simp add: rule_state_default sustained_default_def)

section \<open>The state\<close>

text \<open>C4. Whatever the collector polls and however it maintains the idle-decode streak and baseline, the
  engine's state stays well formed: an announced rule has a start and a send time, the counter
  windows are monotone, the maps are ordered, a pending restart and only it has a planned label,
  the digest's times are not negative, no probe is counted twice.\<close>

theorem engine_state_invariant: "engine_reach cfg e \<Longrightarrow> engine_ok e"
  by (rule engine_reach_ok)

theorem engine_state_invariant_witness:
  "engine_ok (fst (evaluate no_clock U_C rules_config_default engine_default (gate_out 0)))"
  by (rule engine_state_invariant [OF engine_reach.evaluated [OF engine_reach.start]])

text \<open>C5. The two views of what is firing agree, up to two rules: the header list (\<open>firing\<close>) omits
  \<open>omp_default_mismatch\<close>, and the rule table (\<open>rule_states\<close>) has no row for \<open>gate_cold_budget\<close>.
  Every other key is in one exactly when it is in the other.\<close>

theorem firing_and_rows_agree:
  assumes "engine_reach cfg0 e"
  shows "set (engine_firing e now) \<union> key_if ''omp_default_mismatch'' (announced (e_omp_default e)) =
    shown_firing (rule_states u e cfg now) \<union> key_if ''gate_cold_budget'' (announced (e_cold_budget e))"
  using engine_reach_ok [OF assms] by (intro firing_rows_match) (auto simp: engine_ok_def thermal_ok_def)

theorem firing_and_rows_agree_witness:
  "set (engine_firing (fst (evaluate no_clock U_C rules_config_default engine_default (gate_out 0))) 0) \<union>
     key_if ''omp_default_mismatch''
       (announced (e_omp_default (fst (evaluate no_clock U_C rules_config_default engine_default (gate_out 0))))) =
   shown_firing (rule_states U_C (fst (evaluate no_clock U_C rules_config_default engine_default (gate_out 0)))
       rules_config_default 0) \<union>
     key_if ''gate_cold_budget''
       (announced (e_cold_budget (fst (evaluate no_clock U_C rules_config_default engine_default (gate_out 0)))))"
  by (rule firing_and_rows_agree [OF engine_reach.evaluated [OF engine_reach.start]])

end
