(* ===== verification/Prom.thy ===== *)
theory Prom
  imports RustText
begin

text \<open>
  \<open>crates/lss-core/src/prom.rs\<close>: the Prometheus text format and the extraction of the engine's
  metrics. A parser returns what is left of its input instead of an index into it. Strings are
  bytes; as in the source, an escaped byte of a multi-byte character ends the parse of the line.
\<close>

section \<open>The text format\<close>

record Series =
  sr_name :: string
  sr_labels :: "(string \<times> string) list"
  sr_value :: f64

definition sr_label :: "Series \<Rightarrow> string \<Rightarrow> string option" where
  "sr_label s key = map_option snd (find (\<lambda>(k, v). k = key) (sr_labels s))"

abbreviation (input) BSLASH :: char where "BSLASH \<equiv> CHR 0x5C"
abbreviation (input) QUOTE :: char where "QUOTE \<equiv> CHR 0x22"
abbreviation (input) NEWLINE :: char where "NEWLINE \<equiv> CHR 0x0A"

definition unescape :: "char \<Rightarrow> string" where
  "unescape c = (if c = CHR ''n'' then [NEWLINE] else if c = QUOTE then [QUOTE]
     else if c = BSLASH then [BSLASH] else [BSLASH, c])"

text \<open>The inner loop of \<open>parse_labels\<close>: the value up to its closing quote.\<close>

fun label_value :: "string \<Rightarrow> (string \<times> string) option" where
  "label_value [] = None"
| "label_value (c # s) =
    (if c = BSLASH then
       (case s of [] \<Rightarrow> None
        | d # t \<Rightarrow> if 128 \<le> (of_char d :: nat) then None
                   else map_option (\<lambda>(v, r). (unescape d @ v, r)) (label_value t))
     else if c = QUOTE then Some ([], s)
     else map_option (\<lambda>(v, r). (c # v, r)) (label_value s))"

lemma label_value_length: "label_value s = Some (v, r) \<Longrightarrow> length r < length s"
  by (induction s arbitrary: v r rule: label_value.induct)
    (fastforce split: if_splits list.splits)+

definition label_sep :: "char \<Rightarrow> bool" where
  "label_sep c \<longleftrightarrow> c = CHR '','' \<or> c = CHR '' ''"

text \<open>One label: its key, up to the equals sign, and its value.\<close>

definition label_pair :: "string \<Rightarrow> ((string \<times> string) \<times> string) option" where
  "label_pair s =
    (case dropWhile (\<lambda>c. c \<noteq> CHR ''='') s of
       eq # q # r \<Rightarrow>
         if q \<noteq> QUOTE then None
         else map_option (\<lambda>(v, r). ((trim (takeWhile (\<lambda>c. c \<noteq> CHR ''='') s), v), r)) (label_value r)
     | _ \<Rightarrow> None)"

lemma label_pair_length:
  assumes "label_pair s = Some (kv, r)"
  shows "length r < length s"
proof -
  obtain eq t where d: "dropWhile (\<lambda>c. c \<noteq> CHR ''='') s = eq # QUOTE # t"
    and v: "\<exists>v. label_value t = Some (v, r)"
    using assms by (auto simp: label_pair_def split: list.splits if_splits)
  have "length (eq # QUOTE # t) \<le> length s" using d length_dropWhile_le by metis
  then show ?thesis using v label_value_length by fastforce
qed

function parse_labels :: "string \<Rightarrow> ((string \<times> string) list \<times> string) option" where
  "parse_labels s =
    (case dropWhile label_sep s of
       [] \<Rightarrow> None
     | c # t \<Rightarrow>
        if c = CHR ''}'' then Some ([], t)
        else (case label_pair (c # t) of None \<Rightarrow> None
              | Some (kv, r) \<Rightarrow> map_option (\<lambda>(ls, r). (kv # ls, r)) (parse_labels r)))"
  by pat_completeness auto

termination
proof (relation "measure length")
  fix s c t x kv r
  assume "dropWhile label_sep s = c # t" "c \<noteq> CHR ''}''" "label_pair (c # t) = Some x" "(kv, r) = x"
  then show "(r, s) \<in> measure length"
    using label_pair_length [of "c # t" kv r] length_dropWhile_le [of label_sep s] by auto
qed simp

declare parse_labels.simps [simp del]

definition parse_value :: "string \<Rightarrow> f64 option" where
  "parse_value v =
    (if v = ''NaN'' then Some F_NaN
     else if v = ''+Inf'' \<or> v = ''Inf'' then Some (F_Inf False)
     else if v = ''-Inf'' then Some (F_Inf True)
     else parse_f64 v)"

definition name_end :: "char \<Rightarrow> bool" where
  "name_end c \<longleftrightarrow> c = CHR ''{'' \<or> c = CHR '' ''"

definition parse_line :: "string \<Rightarrow> Series option" where
  "parse_line line0 =
    (let line = trim line0; name = takeWhile (\<lambda>c. \<not> name_end c) line;
         rest = dropWhile (\<lambda>c. \<not> name_end c) line
     in if line = [] \<or> hd line = CHR ''#'' then None
        else if rest = [] \<or> name = [] then None
        else case (if hd rest = CHR ''{'' then parse_labels (tl rest) else Some ([], rest)) of
          None \<Rightarrow> None
        | Some (labels, value_part) \<Rightarrow>
            (case split_whitespace value_part of [] \<Rightarrow> None
             | v # _ \<Rightarrow> map_option (\<lambda>x. \<lparr>sr_name = name, sr_labels = labels, sr_value = x\<rparr>) (parse_value v)))"

definition prom_parse :: "string \<Rightarrow> Series list" where
  "prom_parse text = List.map_filter parse_line (str_lines text)"

section \<open>The extraction\<close>

record ServeMetrics =
  sm_running :: f64
  sm_queue :: f64
  sm_running_public :: f64
  sm_running_trusted :: f64
  sm_queue_public :: f64
  sm_queue_trusted :: f64
  sm_gen_throughput :: f64
  sm_token_usage :: f64
  sm_full_token_usage :: f64
  sm_kv_used_tokens :: f64
  sm_max_total_tokens :: f64
  sm_cache_hit_rate :: f64
  sm_spec_accept_length :: f64
  sm_spec_accept_rate :: f64
  sm_retracted :: f64
  sm_prompt_tokens_total :: f64
  sm_generation_tokens_total :: f64
  sm_requests_total :: f64
  sm_ttft_sum :: f64
  sm_ttft_count :: f64
  sm_itl_sum :: f64
  sm_itl_count :: f64
  sm_queue_time_sum :: f64
  sm_queue_time_count :: f64
  sm_cached_tokens_total :: f64
  sm_context_len :: f64
  sm_prefill_compute_tokens_total :: f64
  sm_evicted_tokens_total :: f64
  sm_spec_verify_calls_total :: f64
  sm_e2e_sum :: f64
  sm_prefill_forward_sum :: f64
  sm_decode_sum_seq_lens :: f64
  sm_prefill_inflight_reqs :: f64
  sm_startup_time_s :: f64
  sm_counters_v :: u32

definition COUNTERS_V :: u32 where "COUNTERS_V = 2"

definition comparable :: "ServeMetrics \<Rightarrow> ServeMetrics \<Rightarrow> bool" where
  "comparable m before \<longleftrightarrow> sm_counters_v m = sm_counters_v before"

definition grown :: "f64 \<Rightarrow> f64 \<Rightarrow> f64" where
  "grown now was = (if f_ge now was then f_sub now was else F_Fin 0)"

definition computed_prompt_tokens_since :: "ServeMetrics \<Rightarrow> ServeMetrics \<Rightarrow> f64" where
  "computed_prompt_tokens_since m before =
    (if \<not> comparable m before then F_Fin 0
     else if f_gt (sm_prefill_compute_tokens_total m) (F_Fin 0) \<or>
             f_gt (sm_prefill_compute_tokens_total before) (F_Fin 0)
       then grown (sm_prefill_compute_tokens_total m) (sm_prefill_compute_tokens_total before)
     else if f_gt (sm_cached_tokens_total m) (F_Fin 0) \<or> f_gt (sm_cached_tokens_total before) (F_Fin 0)
       then f_max (f_sub (grown (sm_prompt_tokens_total m) (sm_prompt_tokens_total before))
                         (grown (sm_cached_tokens_total m) (sm_cached_tokens_total before))) (F_Fin 0)
     else F_Fin 0)"

definition kv_usage :: "ServeMetrics \<Rightarrow> f64" where
  "kv_usage m =
    (let reported = f_max (sm_token_usage m) (sm_full_token_usage m) in
     if f_gt reported (F_Fin 0) \<or> f_le (sm_max_total_tokens m) (F_Fin 0) then reported
     else f_clamp (f_div (sm_kv_used_tokens m) (sm_max_total_tokens m)) (F_Fin 0) (F_Fin 1))"

text \<open>\<open>Extractor\<close>: rank 0 (or no rank) and finite values only; \<open>x_sum\<close> is the common tail of the
  three readers, \<open>+ 0.0\<close> included.\<close>

definition rank0 :: "Series \<Rightarrow> bool" where
  "rank0 s \<longleftrightarrow> (case sr_label s ''tp_rank'' of None \<Rightarrow> True | Some r \<Rightarrow> r = ''0'')"

definition matching :: "Series list \<Rightarrow> string \<Rightarrow> Series list" where
  "matching series name =
    filter (\<lambda>s. sr_name s = ''sglang:'' @ name \<and> rank0 s \<and> is_finite (sr_value s)) series"

definition total_row :: "Series \<Rightarrow> bool" where
  "total_row s \<longleftrightarrow> sr_label s ''priority'' = Some []"

definition keep_total :: "Series list \<Rightarrow> Series list" where
  "keep_total rows = (if \<exists>s \<in> set rows. total_row s then filter total_row rows else rows)"

definition x_sum :: "Series list \<Rightarrow> f64" where
  "x_sum rows = f_add (f_sum (map sr_value rows)) (F_Fin 0)"

definition x_total :: "Series list \<Rightarrow> string \<Rightarrow> f64" where
  "x_total series name = x_sum (keep_total (matching series name))"

definition x_labelled :: "Series list \<Rightarrow> string \<Rightarrow> string \<Rightarrow> string \<Rightarrow> f64" where
  "x_labelled series name label value =
    x_sum (keep_total (filter (\<lambda>s. sr_label s label = Some value) (matching series name)))"

definition x_lane :: "Series list \<Rightarrow> string \<Rightarrow> string \<Rightarrow> f64" where
  "x_lane series name prio = x_sum (filter (\<lambda>s. sr_label s ''priority'' = Some prio) (matching series name))"

definition extract_serve_metrics_from :: "Series list \<Rightarrow> string \<Rightarrow> string \<Rightarrow> ServeMetrics" where
  "extract_serve_metrics_from x public_priority trusted_priority =
    \<lparr>sm_running = x_total x ''num_running_reqs'',
     sm_queue = x_total x ''num_queue_reqs'',
     sm_running_public = x_lane x ''num_running_reqs'' public_priority,
     sm_running_trusted = x_lane x ''num_running_reqs'' trusted_priority,
     sm_queue_public = x_lane x ''num_queue_reqs'' public_priority,
     sm_queue_trusted = x_lane x ''num_queue_reqs'' trusted_priority,
     sm_gen_throughput = x_total x ''gen_throughput'',
     sm_token_usage = x_total x ''token_usage'',
     sm_full_token_usage = x_total x ''full_token_usage'',
     sm_kv_used_tokens = x_total x ''kv_used_tokens'',
     sm_max_total_tokens = x_total x ''max_total_num_tokens'',
     sm_cache_hit_rate = x_total x ''cache_hit_rate'',
     sm_spec_accept_length = x_total x ''spec_accept_length'',
     sm_spec_accept_rate = x_total x ''spec_accept_rate'',
     sm_retracted = x_total x ''num_retracted_reqs'',
     sm_prompt_tokens_total = x_total x ''prompt_tokens_total'',
     sm_generation_tokens_total = x_total x ''generation_tokens_total'',
     sm_requests_total = x_total x ''num_requests_total'',
     sm_ttft_sum = x_total x ''time_to_first_token_seconds_sum'',
     sm_ttft_count = x_total x ''time_to_first_token_seconds_count'',
     sm_itl_sum = x_total x ''inter_token_latency_seconds_sum'',
     sm_itl_count = x_total x ''inter_token_latency_seconds_count'',
     sm_queue_time_sum = x_total x ''queue_time_seconds_sum'',
     sm_queue_time_count = x_total x ''queue_time_seconds_count'',
     sm_cached_tokens_total = x_total x ''cached_tokens_total'',
     sm_context_len = x_total x ''context_len'',
     sm_prefill_compute_tokens_total = x_labelled x ''realtime_tokens_total'' ''mode'' ''prefill_compute'',
     sm_evicted_tokens_total = x_total x ''evicted_tokens_total'',
     sm_spec_verify_calls_total = x_total x ''spec_verify_calls_total'',
     sm_e2e_sum = x_total x ''e2e_request_latency_seconds_sum'',
     sm_prefill_forward_sum = x_labelled x ''per_stage_req_latency_seconds_sum'' ''stage'' ''prefill_forward'',
     sm_decode_sum_seq_lens = x_total x ''decode_sum_seq_lens'',
     sm_prefill_inflight_reqs = x_total x ''num_prefill_inflight_queue_reqs'',
     sm_startup_time_s = x_total x ''startup_time_seconds'',
     sm_counters_v = COUNTERS_V\<rparr>"

definition extract_serve_metrics :: "string \<Rightarrow> string \<Rightarrow> string \<Rightarrow> ServeMetrics" where
  "extract_serve_metrics text public_priority trusted_priority =
    extract_serve_metrics_from (prom_parse text) public_priority trusted_priority"

section \<open>The writer's side of the text format\<close>

definition escape_char :: "char \<Rightarrow> string" where
  "escape_char c = (if c = NEWLINE then [BSLASH, CHR ''n''] else if c = QUOTE then [BSLASH, QUOTE]
     else if c = BSLASH then [BSLASH, BSLASH] else [c])"

definition escape :: "string \<Rightarrow> string" where
  "escape v = concat (map escape_char v)"

definition word_char :: "char \<Rightarrow> bool" where
  "word_char c \<longleftrightarrow> is_alnum c \<or> c = CHR ''_'' \<or> c = CHR '':''"

definition word_ok :: "string \<Rightarrow> bool" where
  "word_ok w \<longleftrightarrow> w \<noteq> [] \<and> list_all word_char w"

fun render_labels :: "(string \<times> string) list \<Rightarrow> string" where
  "render_labels [] = [CHR ''}'']"
| "render_labels ((k, v) # ls) = k @ [CHR ''='', QUOTE] @ escape v @ [QUOTE] @
     (if ls = [] then [] else [CHR '','']) @ render_labels ls"

definition render_line :: "string \<times> (string \<times> string) list \<times> nat \<Rightarrow> string" where
  "render_line m = (case m of (name, ls, n) \<Rightarrow> name @ [CHR ''{''] @ render_labels ls @ [CHR '' ''] @ show_nat n)"

definition line_ok :: "string \<times> (string \<times> string) list \<times> nat \<Rightarrow> bool" where
  "line_ok m = (case m of (name, ls, n) \<Rightarrow> word_ok name \<and> list_all (\<lambda>(k, v). word_ok k) ls)"

definition series_of :: "string \<times> (string \<times> string) list \<times> nat \<Rightarrow> Series" where
  "series_of m = (case m of (name, ls, n) \<Rightarrow> \<lparr>sr_name = name, sr_labels = ls, sr_value = f_of_nat n\<rparr>)"

lemma word_char_not:
  "word_char c \<Longrightarrow> c \<noteq> CHR ''='' \<and> \<not> is_ws c \<and> c \<noteq> CHR ''{'' \<and> c \<noteq> CHR ''}'' \<and> c \<noteq> CHR '','' \<and>
    c \<noteq> CHR '' '' \<and> c \<noteq> CHR ''#'' \<and> c \<noteq> NEWLINE"
  by (auto simp: word_char_def is_alnum_def is_digit_def is_ws_def)

lemma label_value_escape: "label_value (escape v @ QUOTE # r) = Some (v, r)"
  by (induction v) (auto simp: escape_def escape_char_def unescape_def)

lemma word_ok_not:
  "word_ok w \<Longrightarrow> c \<in> set w \<Longrightarrow> c \<noteq> CHR ''='' \<and> \<not> is_ws c \<and> c \<noteq> CHR ''{'' \<and> c \<noteq> CHR ''}'' \<and> c \<noteq> CHR '','' \<and>
    c \<noteq> CHR '' '' \<and> c \<noteq> CHR ''#'' \<and> c \<noteq> NEWLINE"
  by (rule word_char_not) (simp add: word_ok_def list_all_iff)

lemma takeWhile_stop:
  assumes "\<forall>c \<in> set k. P c" "\<not> P d"
  shows "takeWhile P (k @ d # r) = k" "dropWhile P (k @ d # r) = d # r"
  using assms by (induction k) auto

lemma trim_word: "word_ok k \<Longrightarrow> trim k = k"
proof (rule trim_id)
  assume k: "word_ok k"
  then have "k \<noteq> []" by (simp add: word_ok_def)
  then show "k = [] \<or> \<not> is_ws (hd k) \<and> \<not> is_ws (last k)" using word_ok_not [OF k] by simp
qed

lemma label_pair_render:
  assumes k: "word_ok k"
  shows "label_pair (k @ CHR ''='' # QUOTE # escape v @ QUOTE # r) = Some ((k, v), r)"
proof -
  have "\<forall>c \<in> set k. c \<noteq> CHR ''=''" using word_ok_not [OF k] by blast
  note t = takeWhile_stop [OF this]
  show ?thesis unfolding label_pair_def by (simp add: t label_value_escape trim_word [OF k])
qed

lemma parse_labels_pair:
  assumes "c \<noteq> CHR '',''" "c \<noteq> CHR '' ''" "c \<noteq> CHR ''}''" "label_pair (c # s) = Some (kv, r)"
  shows "parse_labels (c # s) = map_option (\<lambda>(ls, r). (kv # ls, r)) (parse_labels r)"
  using assms by (subst parse_labels.simps) (simp add: label_sep_def)

lemma parse_labels_comma: "parse_labels (CHR '','' # s) = parse_labels s"
  by (simp add: parse_labels.simps [of "CHR '','' # s"] parse_labels.simps [of s] label_sep_def)

lemma parse_labels_render:
  "list_all (\<lambda>(k, v). word_ok k) ls \<Longrightarrow> parse_labels (render_labels ls @ r) = Some (ls, r)"
proof (induction ls)
  case Nil
  then show ?case by (simp add: parse_labels.simps label_sep_def)
next
  case (Cons kv ls)
  obtain k v where kv: "kv = (k, v)" by fastforce
  let ?t = "(if ls = [] then [] else [CHR '','']) @ render_labels ls @ r"
  let ?s = "CHR ''='' # QUOTE # escape v @ QUOTE # ?t"
  have k: "word_ok k" and ls: "list_all (\<lambda>(k, v). word_ok k) ls" using Cons.prems kv by auto
  have "parse_labels ?t = parse_labels (render_labels ls @ r)"
    by (simp add: parse_labels_comma)
  then have t: "parse_labels ?t = Some (ls, r)" using Cons.IH [OF ls] by simp
  obtain c u where cu: "k = c # u" using k by (cases k) (auto simp: word_ok_def)
  then have c: "c \<noteq> CHR '',''" "c \<noteq> CHR '' ''" "c \<noteq> CHR ''}''" using word_ok_not [OF k, of c] by simp_all
  have "label_pair (c # u @ ?s) = Some ((k, v), ?t)" using label_pair_render [OF k, of v ?t] by (simp add: cu)
  from parse_labels_pair [OF c this] t have "parse_labels (k @ ?s) = Some ((k, v) # ls, r)"
    by (simp add: cu)
  then show ?case by (simp add: kv)
qed

section \<open>Numbers\<close>

lemma takeWhile_digits: "list_all is_digit s \<Longrightarrow> takeWhile is_digit s = s \<and> dropWhile is_digit s = []"
  by (induction s) auto

lemma to_lower_digit: "is_digit c \<Longrightarrow> to_lower c = c"
  by (auto simp: to_lower_def is_digit_def Let_def)

lemma lowercase_digits: "list_all is_digit s \<Longrightarrow> to_ascii_lowercase s = s"
  by (induction s) (auto simp: to_ascii_lowercase_def to_lower_digit)

lemma parse_f64_show_nat: "parse_f64 (show_nat n) = Some (f_of_nat n)"
proof -
  obtain c t where ct: "show_nat n = c # t" by (cases "show_nat n") auto
  have d: "list_all is_digit (show_nat n)" by (rule show_nat_digits)
  have "\<not> is_digit CHR ''i''" "\<not> is_digit CHR ''n''" by (simp_all add: is_digit_def)
  then have ne: "show_nat n \<noteq> ''inf''" "show_nat n \<noteq> ''infinity''" "show_nat n \<noteq> ''nan''"
    using d by (auto simp: list_all_iff)
  have "parse_decimal (show_nat n) = Some (of_nat n)"
  proof -
    note t = conjunct1 [OF takeWhile_digits [OF d]] conjunct2 [OF takeWhile_digits [OF d]]
    show ?thesis unfolding parse_decimal_def t by (simp add: parse_exp_def)
  qed
  then have "parse_unsigned_f64 (show_nat n) = Some (f_of_nat n)"
    using ne by (simp add: parse_unsigned_f64_def lowercase_digits d f_of_nat_def Let_def)
  moreover have "c \<noteq> CHR ''-''" "c \<noteq> CHR ''+''" using d ct is_digit_not by auto
  ultimately show ?thesis by (simp add: parse_f64_def ct)
qed

lemma parse_value_show_nat: "parse_value (show_nat n) = Some (f_of_nat n)"
proof -
  have d: "list_all is_digit (show_nat n)" by (rule show_nat_digits)
  have "\<not> is_digit CHR ''N''" "\<not> is_digit CHR ''+''" "\<not> is_digit CHR ''-''" "\<not> is_digit CHR ''I''"
    by (simp_all add: is_digit_def)
  then have "show_nat n \<noteq> ''NaN''" "show_nat n \<noteq> ''+Inf''" "show_nat n \<noteq> ''Inf''" "show_nat n \<noteq> ''-Inf''"
    using d by (auto simp: list_all_iff)
  then show ?thesis by (simp add: parse_value_def parse_f64_show_nat)
qed

lemma words_acc_plain: "list_all (\<lambda>c. \<not> is_ws c) s \<Longrightarrow> words_acc w s = (if w @ s = [] then [] else [w @ s])"
  by (induction s arbitrary: w) auto

lemma split_whitespace_word:
  "list_all (\<lambda>c. \<not> is_ws c) s \<Longrightarrow> s \<noteq> [] \<Longrightarrow> split_whitespace (CHR '' '' # s) = [s]"
  by (simp add: split_whitespace_def words_acc_plain is_ws_def)

section \<open>The round trip\<close>

lemma parse_line_value:
  assumes name: "word_ok name" and ls: "list_all (\<lambda>(k, v). word_ok k) ls"
    and t: "list_all (\<lambda>c. \<not> is_ws c) t" "t \<noteq> []" "parse_value t = Some x"
  shows "parse_line (name @ CHR ''{'' # render_labels ls @ CHR '' '' # t) =
    Some \<lparr>sr_name = name, sr_labels = ls, sr_value = x\<rparr>"
proof -
  have last: "\<not> is_ws (last t)" using t(1,2) by (auto simp: list_all_iff)
  let ?line = "name @ CHR ''{'' # render_labels ls @ CHR '' '' # t"
  have hd: "name \<noteq> []" "\<not> is_ws (hd name)" "hd name \<noteq> CHR ''#''"
    using word_ok_not [OF name, of "hd name"] name by (auto simp: word_ok_def)
  have trim: "trim ?line = ?line" using hd(1,2) last t(2) by (intro trim_id) simp
  have split: "takeWhile (\<lambda>c. \<not> name_end c) ?line = name"
    "dropWhile (\<lambda>c. \<not> name_end c) ?line = CHR ''{'' # render_labels ls @ CHR '' '' # t"
  proof -
    have "\<forall>c \<in> set name. \<not> name_end c" using word_ok_not [OF name] by (auto simp: name_end_def)
    note w = takeWhile_stop [OF this]
    show "takeWhile (\<lambda>c. \<not> name_end c) ?line = name"
      "dropWhile (\<lambda>c. \<not> name_end c) ?line = CHR ''{'' # render_labels ls @ CHR '' '' # t"
      by (rule w, simp add: name_end_def)+
  qed
  show ?thesis
    using hd by (simp add: parse_line_def Let_def trim split parse_labels_render [OF ls]
        split_whitespace_word [OF t(1,2)] t(3))
qed

lemma parse_line_render:
  assumes "line_ok m"
  shows "parse_line (render_line m) = Some (series_of m)"
proof -
  obtain name ls n where m: "m = (name, ls, n)" by (cases m)
  have name: "word_ok name" and ls: "list_all (\<lambda>(k, v). word_ok k) ls" using assms by (auto simp: m line_ok_def)
  have "list_all (\<lambda>c. \<not> is_ws c) (show_nat n)"
    using show_nat_digits [of n] is_digit_not_ws by (auto simp: list_all_iff)
  from parse_line_value [OF name ls this _ parse_value_show_nat] show ?thesis
    by (simp add: m render_line_def series_of_def)
qed

lemma render_labels_no_newline:
  "list_all (\<lambda>(k, v). word_ok k) ls \<Longrightarrow> NEWLINE \<notin> set (render_labels ls)"
proof (induction ls rule: render_labels.induct)
  case (2 k v ls)
  have "NEWLINE \<notin> set (escape v)" by (auto simp: escape_def escape_char_def split: if_splits)
  moreover have "NEWLINE \<notin> set k" using 2 word_ok_not [of k NEWLINE] by auto
  ultimately show ?case using 2 by auto
qed simp

lemma render_line_no_newline: "line_ok m \<Longrightarrow> NEWLINE \<notin> set (render_line m)"
proof -
  assume ok: "line_ok m"
  have "NEWLINE \<notin> set (show_nat n)" for n
  proof
    assume "NEWLINE \<in> set (show_nat n)"
    then have "is_digit NEWLINE" using show_nat_digits [of n] by (auto simp: list_all_iff)
    then show False by (simp add: is_digit_def)
  qed
  moreover have "NEWLINE \<notin> set w" if "word_ok w" for w using word_ok_not [OF that] by blast
  ultimately show ?thesis using ok render_labels_no_newline
    by (auto simp: render_line_def line_ok_def split: prod.splits)
qed

lemma render_line_no_cr: "strip_cr (render_line m) = render_line m"
proof -
  have "last (show_nat n) \<noteq> CHR 0x0D" for n
  proof
    assume "last (show_nat n) = CHR 0x0D"
    then have "is_digit CHR 0x0D" using show_nat_digits [of n] last_in_set [of "show_nat n"] by (simp add: list_all_iff)
    then show False by (simp add: is_digit_def)
  qed
  then show ?thesis by (simp add: strip_cr_def render_line_def split: prod.split)
qed

lemma str_lines_render:
  "list_all (\<lambda>l. NEWLINE \<notin> set l \<and> strip_cr l = l) ls \<Longrightarrow> str_lines (concat (map (\<lambda>l. l @ [NEWLINE]) ls)) = ls"
proof -
  assume ok: "list_all (\<lambda>l. NEWLINE \<notin> set l \<and> strip_cr l = l) ls"
  then have "split_on NEWLINE (concat (map (\<lambda>l. l @ [NEWLINE]) ls)) = ls @ [[]]"
    by (induction ls) (auto simp: split_on_append)
  then show ?thesis using ok by (simp add: str_lines_def Let_def map_idI list_all_iff)
qed

lemma prom_parse_render:
  assumes "list_all line_ok ms"
  shows "prom_parse (concat (map (\<lambda>m. render_line m @ [NEWLINE]) ms)) = map series_of ms"
proof -
  have "str_lines (concat (map (\<lambda>l. l @ [NEWLINE]) (map render_line ms))) = map render_line ms"
    using assms by (intro str_lines_render) (auto simp: list_all_iff render_line_no_newline render_line_no_cr)
  then have "prom_parse (concat (map (\<lambda>m. render_line m @ [NEWLINE]) ms)) = List.map_filter parse_line (map render_line ms)"
    by (simp add: prom_parse_def comp_def)
  also have "\<dots> = map series_of ms"
    using assms by (induction ms) (auto simp: List.map_filter_simps parse_line_render)
  finally show ?thesis .
qed

section \<open>The sums\<close>

abbreviation f_nat :: "nat \<Rightarrow> f64" where "f_nat n \<equiv> F_Fin (of_nat n)"

lemma f_add_nats: "a + b < 2 ^ 53 \<Longrightarrow> f_add (f_nat a) (f_nat b) = f_nat (a + b)"
  using rnd_of_nat [of "a + b"] by (simp add: f_add_Fin)

lemma f_sub_nats: "b \<le> a \<Longrightarrow> a < 2 ^ 53 \<Longrightarrow> f_sub (f_nat a) (f_nat b) = f_nat (a - b)"
  using rnd_of_nat [of "a - b"] by (simp add: f_sub_Fin of_nat_diff)

lemma foldl_add_nats: "a + sum_list ns < 2 ^ 53 \<Longrightarrow> foldl f_add (f_nat a) (map f_nat ns) = f_nat (a + sum_list ns)"
proof (induction ns arbitrary: a)
  case (Cons n ns)
  then show ?case using f_add_nats [of a n] Cons.IH [of "a + n"] by (simp add: add.assoc)
qed simp

lemma f_sum_nats:
  assumes "sum_list ns < 2 ^ 53" "ns \<noteq> []"
  shows "f_sum (map f_nat ns) = f_nat (sum_list ns)"
proof -
  obtain n ms where ns: "ns = n # ms" using assms(2) by (cases ns) auto
  have "f_add F_NegZero (f_nat n) = f_nat n"
    using rnd_of_nat [of n] assms(1) by (simp add: ns f_add_def)
  then show ?thesis using foldl_add_nats [of n ms] assms(1) by (simp add: ns f_sum_def)
qed

lemma x_sum_nats:
  assumes "map sr_value rows = map f_nat ns" "sum_list ns < 2 ^ 53"
  shows "x_sum rows = f_nat (sum_list ns)"
proof (cases "ns = []")
  case True
  then show ?thesis using assms(1) by (simp add: x_sum_def f_sum_def f_add_def)
next
  case False
  then show ?thesis
    using assms f_sum_nats [OF assms(2) False] f_add_nats [of "sum_list ns" 0] by (simp add: x_sum_def)
qed

lemma matching_rank0: "matching (filter (\<lambda>s. rank0 s) x) name = matching x name"
  by (auto simp: matching_def intro!: filter_cong)

section \<open>The derived readings\<close>

lemma kv_usage_fallback:
  assumes "\<not> f_gt (f_max (sm_token_usage m) (sm_full_token_usage m)) (F_Fin 0)"
    "f_gt (sm_max_total_tokens m) (F_Fin 0)" "is_finite (sm_max_total_tokens m)" "\<not> is_nan (sm_kv_used_tokens m)"
  shows "f_le (F_Fin 0) (kv_usage m) \<and> f_le (kv_usage m) (F_Fin 1)"
proof -
  have n: "\<not> is_nan (f_div (sm_kv_used_tokens m) (sm_max_total_tokens m))"
    using assms(2-4) by (cases "sm_kv_used_tokens m"; cases "sm_max_total_tokens m")
      (auto simp: f_div_def f_lt_def f_zero_def)
  have "\<not> f_le (sm_max_total_tokens m) (F_Fin 0)" using assms(2) f_lt_imp_not_ge by blast
  then show ?thesis
    using assms(1) f_clamp_bounds [OF n, of "F_Fin 0" "F_Fin 1"] by (simp add: kv_usage_def Let_def)
qed

lemma f_sub_nonneg:
  assumes "f_le b a" "is_finite a \<or> is_finite b"
  shows "f_le (F_Fin 0) (f_sub a b)"
proof (cases "is_finite a \<and> is_finite b")
  case True
  then have "f_class a = 0" "f_class b = 0" by (cases a; cases b; simp)+
  then have "rat_of b \<le> rat_of a" using assms(1) by (auto simp: f_le_def)
  then have r: "f_le (F_Fin 0) (rnd (rat_of a - rat_of b))" by (intro rnd_nonneg) simp
  have "f_sub a b = rnd (rat_of a - rat_of b) \<or> f_sub a b = F_NegZero"
    using True by (cases a; cases b) (auto simp: f_sub_def f_add_def)
  then show ?thesis using r by (auto simp: f_le_def)
next
  case False
  have inf: "f_class (F_Inf s) = (if s then - 1 else 1)" for s by (cases s) simp_all
  show ?thesis
    using False assms by (cases a; cases b) (auto simp: f_sub_def f_add_def f_le_def inf split: if_splits)
qed

lemma grown_nonneg: "is_finite now \<or> is_finite was \<Longrightarrow> f_le (F_Fin 0) (grown now was)"
  by (simp add: grown_def f_sub_nonneg)

end
