(* ===== verification/Hist.thy ===== *)
theory Hist
  imports Prom RuleTypes
begin

text \<open>
  \<open>crates/lss-core/src/hist.rs\<close>: histograms of the engine, their deltas between two scrapes, the
  quantiles of a window and the tracker that cuts scrapes into 1- and 10-minute windows. The
  arrays of six histograms are lists of length \<open>N_HIST\<close>.
\<close>

section \<open>The histograms\<close>

definition LATENCY_METRICS :: "(string \<times> string) list" where
  "LATENCY_METRICS = [(''ttft'', ''time_to_first_token_seconds''), (''e2e'', ''e2e_request_latency_seconds''),
     (''itl'', ''inter_token_latency_seconds''), (''queue_time'', ''queue_time_seconds'')]"

definition HIST_METRICS :: "(string \<times> string) list" where
  "HIST_METRICS = [(''ttft'', ''time_to_first_token_seconds''), (''e2e'', ''e2e_request_latency_seconds''),
     (''itl'', ''inter_token_latency_seconds''), (''queue_time'', ''queue_time_seconds''),
     (''prompt_tokens'', ''prompt_tokens_histogram''), (''gen_tokens'', ''generation_tokens_histogram'')]"

definition N_HIST :: nat where "N_HIST = 6"

fun name_index :: "string \<Rightarrow> (string \<times> string) list \<Rightarrow> nat \<Rightarrow> nat option" where
  "name_index k [] i = None"
| "name_index k ((s, b) # ms) i = (if s = k then Some i else name_index k ms (Suc i))"

definition latency_index :: "string \<Rightarrow> nat option" where
  "latency_index k = name_index k LATENCY_METRICS 0"

definition hist_index :: "string \<Rightarrow> nat option" where
  "hist_index k = name_index k HIST_METRICS 0"

definition hist_unit :: "string \<Rightarrow> string" where
  "hist_unit k = (if latency_index k \<noteq> None then ''s'' else ''tokens'')"

record HistSnapshot =
  hs_le :: "f64 list"
  hs_cum :: "f64 list"
  hs_sum :: f64
  hs_count :: f64

type_synonym HistSet = "HistSnapshot option list"

section \<open>Extraction from a scrape\<close>

text \<open>\<open>bounds.iter_mut().find\<close>, then add or push.\<close>

fun add_bound :: "f64 \<Rightarrow> f64 \<Rightarrow> (f64 \<times> f64) list \<Rightarrow> (f64 \<times> f64) list" where
  "add_bound le v [] = [(le, v)]"
| "add_bound le v ((b, c) # bs) = (if f_eq b le then (b, f_add c v) # bs else (b, c) # add_bound le v bs)"

definition parse_bound :: "string \<Rightarrow> f64 option" where
  "parse_bound v = (if v = ''+Inf'' \<or> v = ''Inf'' then Some (F_Inf False) else parse_f64 v)"

fun collect_bounds :: "Series list \<Rightarrow> (f64 \<times> f64) list \<Rightarrow> (f64 \<times> f64) list option" where
  "collect_bounds [] bs = Some bs"
| "collect_bounds (s # rows) bs =
    (case sr_label s ''le'' of None \<Rightarrow> None
     | Some v \<Rightarrow> (case parse_bound v of None \<Rightarrow> None
                  | Some le \<Rightarrow> collect_bounds rows (add_bound le (sr_value s) bs)))"

text \<open>The stable \<open>sort_by(total_cmp)\<close>.\<close>

fun insort_bound :: "f64 \<times> f64 \<Rightarrow> (f64 \<times> f64) list \<Rightarrow> (f64 \<times> f64) list" where
  "insort_bound x [] = [x]"
| "insort_bound x (y # ys) = (if total_le (fst x) (fst y) then x # y # ys else y # insort_bound x ys)"

definition sort_bounds :: "(f64 \<times> f64) list \<Rightarrow> (f64 \<times> f64) list" where
  "sort_bounds bs = foldr insort_bound bs []"

definition close_bounds :: "(f64 \<times> f64) list \<Rightarrow> (f64 \<times> f64) list" where
  "close_bounds bs =
    (if bs = [] then [(F_Inf False, F_Fin 0)]
     else if is_finite (fst (last bs)) then bs @ [(F_Inf False, snd (last bs))] else bs)"

definition usable :: "Series \<Rightarrow> bool" where
  "usable s \<longleftrightarrow> rank0 s \<and> is_finite (sr_value s)"

definition extract_histogram_where ::
  "Series list \<Rightarrow> string \<Rightarrow> (string \<times> string) option \<Rightarrow> HistSnapshot option" where
  "extract_histogram_where series0 family only1 =
    (let series = (case only1 of Some (k, v) \<Rightarrow> filter (\<lambda>s. sr_label s k = Some v) series0 | None \<Rightarrow> series0);
         rows = filter usable (filter (\<lambda>s. sr_name s = family @ ''_bucket'') series);
         explicit_total = (\<exists>s \<in> set rows. total_row s);
         keep = (\<lambda>s. \<not> explicit_total \<or> total_row s);
         scalar = (\<lambda>suffix. f_sum (map sr_value (filter keep (filter usable
            (filter (\<lambda>s. sr_name s = family @ ''_'' @ suffix) series)))))
     in if rows = [] then None
        else case collect_bounds (filter keep rows) [] of None \<Rightarrow> None
        | Some bs0 \<Rightarrow>
            (let bs = close_bounds (sort_bounds bs0) in
             Some \<lparr>hs_le = map fst (filter (\<lambda>b. is_finite (fst b)) bs), hs_cum = map snd bs,
                   hs_sum = scalar ''sum'', hs_count = scalar ''count''\<rparr>))"

definition extract_histogram_named :: "Series list \<Rightarrow> string \<Rightarrow> HistSnapshot option" where
  "extract_histogram_named series family = extract_histogram_where series family None"

definition extract_histogram :: "Series list \<Rightarrow> string \<Rightarrow> HistSnapshot option" where
  "extract_histogram series base = extract_histogram_named series (''sglang:'' @ base)"

definition extract_latency :: "Series list \<Rightarrow> HistSet" where
  "extract_latency series = map (\<lambda>(s, base). extract_histogram series base) HIST_METRICS"

section \<open>Deltas\<close>

record HistAccum =
  ha_le :: "f64 list"
  ha_counts :: "f64 list"
  ha_sum :: f64
  ha_count :: f64

definition accum_default :: HistAccum where
  "accum_default = \<lparr>ha_le = [], ha_counts = [], ha_sum = F_Fin 0, ha_count = F_Fin 0\<rparr>"

fun per_bucket_from :: "f64 \<Rightarrow> f64 list \<Rightarrow> f64 list" where
  "per_bucket_from prev [] = []"
| "per_bucket_from prev (c # cs) = f_max (f_sub c prev) (F_Fin 0) # per_bucket_from (f_max prev c) cs"

definition per_bucket :: "f64 list \<Rightarrow> f64 list" where
  "per_bucket cum = per_bucket_from (F_Fin 0) cum"

text \<open>\<open>Vec<f64>\<close> equality.\<close>

definition vec_eq :: "f64 list \<Rightarrow> f64 list \<Rightarrow> bool" where
  "vec_eq = list_all2 f_eq"

definition hist_reset :: "HistSnapshot \<Rightarrow> HistSnapshot \<Rightarrow> bool" where
  "hist_reset prev cur \<longleftrightarrow> \<not> vec_eq (hs_le prev) (hs_le cur) \<or> f_lt (hs_count cur) (hs_count prev) \<or>
     (\<exists>(c, p) \<in> set (zip (hs_cum cur) (hs_cum prev)). f_lt c p)"

definition hist_delta :: "HistSnapshot \<Rightarrow> HistSnapshot \<Rightarrow> HistAccum" where
  "hist_delta prev cur =
    (if hist_reset prev cur then
       \<lparr>ha_le = hs_le cur, ha_counts = per_bucket (hs_cum cur),
        ha_sum = f_max (hs_sum cur) (F_Fin 0), ha_count = f_max (hs_count cur) (F_Fin 0)\<rparr>
     else
       \<lparr>ha_le = hs_le cur, ha_counts = per_bucket (map (\<lambda>(c, p). f_sub c p) (zip (hs_cum cur) (hs_cum prev))),
        ha_sum = f_max (f_sub (hs_sum cur) (hs_sum prev)) (F_Fin 0),
        ha_count = f_max (f_sub (hs_count cur) (hs_count prev)) (F_Fin 0)\<rparr>)"

section \<open>The accumulator\<close>

definition ha_total :: "HistAccum \<Rightarrow> f64" where
  "ha_total a = f_sum (ha_counts a)"

definition ha_is_empty :: "HistAccum \<Rightarrow> bool" where
  "ha_is_empty a \<longleftrightarrow> f_le (ha_total a) (F_Fin 0)"

definition ha_add :: "HistAccum \<Rightarrow> HistAccum \<Rightarrow> HistAccum" where
  "ha_add a d =
    (if ha_counts d = [] then a
     else if \<not> vec_eq (ha_le a) (ha_le d) \<or> length (ha_counts a) \<noteq> length (ha_counts d) then d
     else a\<lparr>ha_counts := map (\<lambda>(x, y). f_add x y) (zip (ha_counts a) (ha_counts d)),
            ha_sum := f_add (ha_sum a) (ha_sum d), ha_count := f_add (ha_count a) (ha_count d)\<rparr>)"

definition last_opt :: "'a list \<Rightarrow> 'a option" where
  "last_opt xs = (if xs = [] then None else Some (last xs))"

definition bucket_lower :: "f64 list \<Rightarrow> nat \<Rightarrow> f64" where
  "bucket_lower le i = (if i = 0 then f_min (F_Fin 0) (le ! 0) else le ! (i - 1))"

fun quantile_loop :: "f64 list \<Rightarrow> f64 \<Rightarrow> nat \<Rightarrow> f64 \<Rightarrow> f64 list \<Rightarrow> f64 option" where
  "quantile_loop le rank i seen [] = last_opt le"
| "quantile_loop le rank i seen (c # cs) =
    (if f_le c (F_Fin 0) then quantile_loop le rank (Suc i) seen cs
     else if f_ge (f_add seen c) rank then
       (if i < length le then
          (let upper = le ! i; lower = bucket_lower le i in
           Some (f_add lower (f_mul (f_sub upper lower)
             (f_clamp (f_div (f_sub rank seen) c) (F_Fin 0) (F_Fin 1)))))
        else last_opt le)
     else quantile_loop le rank (Suc i) (f_add seen c) cs)"

definition quantile :: "HistAccum \<Rightarrow> f64 \<Rightarrow> f64 option" where
  "quantile a q =
    (let total = ha_total a in
     if f_le total (F_Fin 0) \<or> ha_le a = [] then None
     else quantile_loop (ha_le a) (f_mul (f_clamp q (F_Fin 0) (F_Fin 1)) total) 0 (F_Fin 0) (ha_counts a))"

fun fraction_loop :: "f64 list \<Rightarrow> f64 \<Rightarrow> nat \<Rightarrow> f64 \<Rightarrow> f64 list \<Rightarrow> f64" where
  "fraction_loop le x i seen [] = seen"
| "fraction_loop le x i seen (c # cs) =
    (if \<not> i < length le then seen
     else let upper = le ! i; lower = bucket_lower le i in
       if f_ge x upper then fraction_loop le x (Suc i) (f_add seen c) cs
       else if f_gt x lower then
         f_add seen (f_mul c (f_clamp (f_div (f_sub x lower) (f_sub upper lower)) (F_Fin 0) (F_Fin 1)))
       else seen)"

definition fraction_le :: "HistAccum \<Rightarrow> f64 \<Rightarrow> f64 option" where
  "fraction_le a x =
    (let total = ha_total a in
     if f_le total (F_Fin 0) \<or> ha_le a = [] \<or> \<not> is_finite x then None
     else Some (f_clamp (f_div (fraction_loop (ha_le a) x 0 (F_Fin 0) (ha_counts a)) total) (F_Fin 0) (F_Fin 1)))"

definition round3 :: "f64 \<Rightarrow> f64" where
  "round3 v = f_div (f_round (f_mul v (F_Fin 1000))) (F_Fin 1000)"

record HistSummary =
  p50_ms :: f64
  p90_ms :: f64
  p99_ms :: f64
  avg_ms :: f64
  hsum_count :: f64

record RawSummary =
  rw_p50 :: f64
  rw_p90 :: f64
  rw_p99 :: f64
  rw_avg :: f64
  rw_count :: f64

definition ha_n :: "HistAccum \<Rightarrow> f64" where
  "ha_n a = (if f_gt (ha_count a) (F_Fin 0) then ha_count a else ha_total a)"

definition summary :: "HistAccum \<Rightarrow> HistSummary option" where
  "summary a =
    (let ms = (\<lambda>q. map_option (\<lambda>s. round3 (f_mul s (F_Fin 1000))) (quantile a q)) in
     case (ms (f_lit (5 / 10)), ms (f_lit (9 / 10)), ms (f_lit (99 / 100))) of
       (Some p50, Some p90, Some p99) \<Rightarrow>
         Some \<lparr>p50_ms = p50, p90_ms = p90, p99_ms = p99,
               avg_ms = round3 (f_mul (f_div (ha_sum a) (ha_n a)) (F_Fin 1000)), hsum_count = ha_total a\<rparr>
     | _ \<Rightarrow> None)"

definition summary_raw :: "HistAccum \<Rightarrow> RawSummary option" where
  "summary_raw a =
    (case (quantile a (f_lit (5 / 10)), quantile a (f_lit (9 / 10)), quantile a (f_lit (99 / 100))) of
       (Some p50, Some p90, Some p99) \<Rightarrow>
         Some \<lparr>rw_p50 = round3 p50, rw_p90 = round3 p90, rw_p99 = round3 p99,
               rw_avg = round3 (f_div (ha_sum a) (ha_n a)), rw_count = ha_total a\<rparr>
     | _ \<Rightarrow> None)"

section \<open>The storage form\<close>

fun encode_from :: "nat \<Rightarrow> f64 list \<Rightarrow> string list" where
  "encode_from i [] = []"
| "encode_from i (c # cs) =
    (if f_gt c (F_Fin 0) then [show_nat i @ '':'' @ fmt_fixed 0 c] else []) @ encode_from (Suc i) cs"

definition encode_counts :: "HistAccum \<Rightarrow> string" where
  "encode_counts a = join '','' (encode_from 0 (ha_counts a))"

definition decode_part :: "f64 list \<Rightarrow> string \<Rightarrow> f64 list" where
  "decode_part out part =
    (case split_once '':'' part of None \<Rightarrow> out
     | Some (i, c) \<Rightarrow>
        (case (parse_uint 64 i, parse_f64 c) of
           (Some i, Some c) \<Rightarrow> if i < length out then out[i := f_add (out ! i) c] else out
         | _ \<Rightarrow> out))"

definition decode_counts :: "string \<Rightarrow> usize \<Rightarrow> f64 list" where
  "decode_counts text buckets = foldl decode_part (replicate buckets (F_Fin 0)) (split_on CHR '','' text)"

definition encode_bounds :: "f64 list \<Rightarrow> string" where
  "encode_bounds le = join '','' (map show_f64 le)"

definition decode_bounds :: "string \<Rightarrow> f64 list" where
  "decode_bounds text = List.map_filter parse_f64 (split_on CHR '','' text)"

section \<open>The windows\<close>

record ClosedWindow =
  cw_res :: i64
  cw_ts :: i64
  cw_accs :: "HistAccum list"

definition cw_points :: "ClosedWindow \<Rightarrow> (string \<times> f64 \<times> f64) list" where
  "cw_points w = concat (map (\<lambda>((short, b), acc).
     case summary acc of None \<Rightarrow> []
     | Some s \<Rightarrow> map (\<lambda>(suffix, v). (short @ ''_'' @ suffix, v, hsum_count s))
         [(''p50_ms'', p50_ms s), (''p90_ms'', p90_ms s), (''p99_ms'', p99_ms s), (''avg_ms'', avg_ms s)])
     (zip LATENCY_METRICS (cw_accs w)))"

record LatencyNow =
  ln_window_s :: i64
  ln_ttft :: "HistSummary option"
  ln_e2e :: "HistSummary option"
  ln_itl :: "HistSummary option"
  ln_queue_time :: "HistSummary option"

definition RECENT_MINUTES :: nat where "RECENT_MINUTES = 10"

type_synonym window = "i64 \<times> HistAccum list"

record LatencyTracker =
  lt_prev :: "HistSet option"
  lt_minute :: "window option"
  lt_ten :: "window option"
  lt_recent :: "window list"

definition tracker0 :: LatencyTracker where
  "tracker0 = \<lparr>lt_prev = None, lt_minute = None, lt_ten = None, lt_recent = []\<rparr>"

definition window_start :: "i64 \<Rightarrow> i64 \<Rightarrow> i64" where
  "window_start res ts = ts - ts mod res"

definition fresh_accs :: "HistAccum list" where
  "fresh_accs = replicate N_HIST accum_default"

text \<open>A slot is closed when its start is not the present one, and opened when it is empty.\<close>

definition tick_slot :: "i64 \<Rightarrow> i64 \<Rightarrow> window option \<Rightarrow> window \<times> window option" where
  "tick_slot res ts slot =
    (case slot of None \<Rightarrow> ((window_start res ts, fresh_accs), None)
     | Some (t, accs) \<Rightarrow>
        if t \<noteq> window_start res ts then ((window_start res ts, fresh_accs), Some (t, accs))
        else ((t, accs), None))"

definition closed_of :: "i64 \<Rightarrow> window option \<Rightarrow> ClosedWindow list" where
  "closed_of res done =
    (case done of None \<Rightarrow> []
     | Some (t, accs) \<Rightarrow>
        if \<exists>a \<in> set accs. \<not> ha_is_empty a then [\<lparr>cw_res = res, cw_ts = t, cw_accs = accs\<rparr>] else [])"

definition push_recent :: "window list \<Rightarrow> window option \<Rightarrow> window list" where
  "push_recent recent done =
    (case done of None \<Rightarrow> recent
     | Some w \<Rightarrow> let r = recent @ [w] in drop (length r - RECENT_MINUTES) r)"

text \<open>The loop over the six histograms: what grew since the last good scrape is added.\<close>

definition add_growth :: "HistSet \<Rightarrow> HistSet \<Rightarrow> HistAccum list \<Rightarrow> HistAccum list" where
  "add_growth prev set1 accs =
    map (\<lambda>((p, c), acc).
        case (p, c) of
          (Some p, Some c) \<Rightarrow> let d = hist_delta p c in if ha_is_empty d then acc else ha_add acc d
        | _ \<Rightarrow> acc)
      (zip (zip prev set1) accs)"

definition tracker_observe ::
  "LatencyTracker \<Rightarrow> i64 \<Rightarrow> HistSet option \<Rightarrow> LatencyTracker \<times> ClosedWindow list" where
  "tracker_observe t ts set1 =
    (let (minute, done60) = tick_slot 60 ts (lt_minute t);
         recent = push_recent (lt_recent t) done60;
         (ten, done600) = tick_slot 600 ts (lt_ten t);
         closed = closed_of 60 done60 @ closed_of 600 done600;
         t1 = t\<lparr>lt_minute := Some minute, lt_ten := Some ten, lt_recent := recent\<rparr>
     in case set1 of None \<Rightarrow> (t1, closed)
     | Some cur \<Rightarrow>
        let grow = (\<lambda>(s, accs). (s, case lt_prev t of None \<Rightarrow> accs | Some prev \<Rightarrow> add_growth prev cur accs))
        in (t1\<lparr>lt_prev := Some cur, lt_minute := Some (grow minute), lt_ten := Some (grow ten),
               lt_recent := filter (\<lambda>(s, a). ts - (int RECENT_MINUTES + 1) * 60 < s) recent\<rparr>, closed))"

definition merged :: "LatencyTracker \<Rightarrow> nat \<Rightarrow> HistSummary option" where
  "merged t i = summary (foldl (\<lambda>acc (s, accs). ha_add acc (accs ! i)) accum_default
     (lt_recent t @ (case lt_minute t of None \<Rightarrow> [] | Some w \<Rightarrow> [w])))"

definition latency_now :: "LatencyTracker \<Rightarrow> LatencyNow" where
  "latency_now t = \<lparr>ln_window_s = int RECENT_MINUTES * 60, ln_ttft = merged t 0, ln_e2e = merged t 1,
     ln_itl = merged t 2, ln_queue_time = merged t 3\<rparr>"

end
