(* ===== verification/HistFacts.thy ===== *)
theory HistFacts
  imports Hist
begin

text \<open>
  The facts of \<open>hist.rs\<close>: bucket deltas are exact and never negative, the storage form reads
  back, a quantile lies in the bucket of its rank, shares are shares, the windows are aligned
  and bounded. Counts are the integers the engine publishes (below \<open>2^53\<close>, exact in \<open>f64\<close>).
\<close>

section \<open>Bucket deltas\<close>

lemma per_bucket_from_nonneg: "c \<in> set (per_bucket_from p cs) \<Longrightarrow> f_le (F_Fin 0) c"
  by (induction cs arbitrary: p) (auto simp: f_max_nonneg)

lemma length_per_bucket: "length (per_bucket_from p cs) = length cs"
  by (induction cs arbitrary: p) auto

lemma hist_delta_nonneg_lemma:
  "c \<in> set (ha_counts (hist_delta prev cur)) \<Longrightarrow> f_le (F_Fin 0) c"
  by (auto simp: hist_delta_def per_bucket_def intro: per_bucket_from_nonneg split: if_splits)

fun psums_from :: "nat \<Rightarrow> nat list \<Rightarrow> nat list" where
  "psums_from a [] = []"
| "psums_from a (n # ns) = (a + n) # psums_from (a + n) ns"

text \<open>A scrape of a histogram whose buckets hold \<open>ns\<close> observations.\<close>

definition snapshot_of :: "f64 list \<Rightarrow> nat list \<Rightarrow> f64 \<Rightarrow> HistSnapshot" where
  "snapshot_of le ns total_sum =
    \<lparr>hs_le = le, hs_cum = map f_nat (psums_from 0 ns), hs_sum = total_sum, hs_count = f_nat (sum_list ns)\<rparr>"

lemma f_max_nats [simp]: "f_max (f_nat a) (f_nat b) = f_nat (max a b)"
  by (simp add: f_max_def max_def)

lemma f_max_nat0 [simp]: "f_max (f_nat a) (F_Fin 0) = f_nat a"
  using f_max_nats [of a 0] by simp

lemma per_bucket_from_psums:
  "a + sum_list ns < 2 ^ 53 \<Longrightarrow> per_bucket_from (f_nat a) (map f_nat (psums_from a ns)) = map f_nat ns"
proof (induction ns arbitrary: a)
  case (Cons n ns)
  have "f_sub (f_nat (a + n)) (f_nat a) = f_nat n"
    using f_sub_nats [of a "a + n"] Cons.prems by simp
  moreover have "f_max (f_nat a) (f_nat (a + n)) = f_nat (a + n)" by (simp only: f_max_nats) simp
  ultimately show ?case
    using Cons.IH [of "a + n"] Cons.prems by (simp add: add.assoc del: of_nat_add f_max_nats)
qed simp

lemma per_bucket_psums:
  "sum_list ns < 2 ^ 53 \<Longrightarrow> per_bucket (map f_nat (psums_from 0 ns)) = map f_nat ns"
  using per_bucket_from_psums [of 0 ns] by (simp add: per_bucket_def)

lemma psums_bound: "x \<in> set (psums_from a ns) \<Longrightarrow> x \<le> a + sum_list ns"
  by (induction ns arbitrary: a) fastforce+

lemma psums_le:
  "list_all2 (\<le>) ps cs \<Longrightarrow> a \<le> b \<Longrightarrow> (c, p) \<in> set (zip (psums_from b cs) (psums_from a ps)) \<Longrightarrow> p \<le> c"
proof (induction ps cs arbitrary: a b rule: list_all2_induct)
  case (Cons p0 ps c0 cs)
  then show ?case using Cons.IH [of "a + p0" "b + c0"] by auto
qed simp

lemma psums_diff:
  assumes "list_all2 (\<le>) ps cs" "a \<le> b" "b + sum_list cs < 2 ^ 53"
  shows "map (\<lambda>(c, p). f_sub c p) (zip (map f_nat (psums_from b cs)) (map f_nat (psums_from a ps))) =
    map f_nat (psums_from (b - a) (map2 (-) cs ps))"
  using assms
proof (induction ps cs arbitrary: a b rule: list_all2_induct)
  case (Cons p ps c cs)
  have eq: "b + c - (a + p) = b - a + (c - p)" using Cons.hyps(1) Cons.prems(1) by linarith
  have b: "b + c < 2 ^ 53" "b + c + sum_list cs < 2 ^ 53" "a + p \<le> b + c"
    using Cons.hyps(1) Cons.prems by auto
  have hd: "f_sub (f_nat (b + c)) (f_nat (a + p)) = f_nat (b - a + (c - p))"
    using f_sub_nats [OF b(3,1)] by (simp only: eq)
  have tl: "map (\<lambda>(c, p). f_sub c p) (zip (map f_nat (psums_from (b + c) cs)) (map f_nat (psums_from (a + p) ps))) =
    map f_nat (psums_from (b - a + (c - p)) (map2 (-) cs ps))"
    using Cons.IH [OF b(3,2)] by (simp only: eq)
  show ?case by (simp only: psums_from.simps list.map zip_Cons_Cons prod.case hd tl)
qed simp

lemma sum_list_map2_diff:
  "list_all2 (\<le>) ps cs \<Longrightarrow> sum_list (map2 (-) cs ps) + sum_list ps = sum_list (cs :: nat list)"
  by (induction rule: list_all2_induct) auto

lemma vec_eq_refl: "list_all (\<lambda>b. \<not> is_nan b) le \<Longrightarrow> vec_eq le le"
  by (induction le) (auto simp: vec_eq_def f_eq_def)

lemma sum_list_le: "list_all2 (\<le>) ps cs \<Longrightarrow> sum_list ps \<le> sum_list (cs :: nat list)"
  using sum_list_map2_diff by fastforce

text \<open>Between two scrapes of one engine the delta is exactly what each bucket gained.\<close>

lemma hist_delta_exact_lemma:
  assumes "list_all (\<lambda>b. \<not> is_nan b) le" "list_all2 (\<le>) ps cs" "sum_list cs < 2 ^ 53"
  shows "ha_counts (hist_delta (snapshot_of le ps s1) (snapshot_of le cs s2)) = map f_nat (map2 (-) cs ps)"
proof -
  have le: "sum_list ps \<le> sum_list cs" using assms(2) by (rule sum_list_le)
  have "\<not> f_lt c p" if "(c, p) \<in> set (zip (map f_nat (psums_from 0 cs)) (map f_nat (psums_from 0 ps)))" for c p
  proof -
    obtain a b where "(a, b) \<in> set (zip (psums_from 0 cs) (psums_from 0 ps))" "c = f_nat a" "p = f_nat b"
      using \<open>(c, p) \<in> _\<close> by (auto simp: zip_map_map)
    then show ?thesis using psums_le [OF assms(2), of 0 0 a b] by simp
  qed
  then have "\<not> hist_reset (snapshot_of le ps s1) (snapshot_of le cs s2)"
    using vec_eq_refl [OF assms(1)] le by (auto simp: hist_reset_def snapshot_of_def not_less)
  moreover have "sum_list (map2 (-) cs ps) < 2 ^ 53"
    using sum_list_map2_diff [OF assms(2)] assms(3) by linarith
  ultimately show ?thesis
    using psums_diff [OF assms(2), of 0 0] assms(3) per_bucket_psums
    by (simp add: hist_delta_def snapshot_of_def)
qed

text \<open>After a restart everything the engine shows is new.\<close>

lemma hist_delta_reset_lemma:
  assumes "sum_list cs < sum_list ps" "sum_list cs < 2 ^ 53"
  shows "ha_counts (hist_delta (snapshot_of le ps s1) (snapshot_of le cs s2)) = map f_nat cs"
proof -
  have "(of_nat (sum_list cs) :: rat) < of_nat (sum_list ps)" using assms(1) by (simp only: of_nat_less_iff)
  then have "hist_reset (snapshot_of le ps s1) (snapshot_of le cs s2)"
    by (simp add: hist_reset_def snapshot_of_def)
  then show ?thesis using per_bucket_psums [OF assms(2)] by (simp add: hist_delta_def snapshot_of_def)
qed

section \<open>The storage form\<close>

lemma fixed_digits_nat [simp]: "fixed_digits 0 (nat (rhe (of_nat n))) = show_nat n"
  using rhe_of_int [of "int n"] by (simp add: fixed_digits_def)

lemma fmt_fixed_nat: "fmt_fixed 0 (f_nat n) = show_nat n"
  by simp

lemma no_char_digits: "list_all is_digit s \<Longrightarrow> \<not> is_digit d \<Longrightarrow> d \<notin> set s"
  by (auto simp: list_all_iff)

lemma split_once_char: "d \<notin> set a \<Longrightarrow> split_once [d] (a @ d # b) = Some (a, b)"
  by (induction a) auto

definition count_part :: "nat \<Rightarrow> nat \<Rightarrow> string" where
  "count_part i n = show_nat i @ '':'' @ show_nat n"

lemma decode_count_part:
  assumes "i < length out" "length out < 2 ^ 64" "n < 2 ^ 53" "out ! i = F_Fin 0"
  shows "decode_part out (count_part i n) = out[i := f_nat n]"
proof -
  have "CHR '':'' \<notin> set (show_nat i)"
    by (rule no_char_digits [OF show_nat_digits]) (simp add: is_digit_def)
  then have "split_once '':'' (count_part i n) = Some (show_nat i, show_nat n)"
    by (simp add: count_part_def split_once_char)
  moreover have "f_add (F_Fin 0) (f_nat n) = f_nat n" using rnd_of_nat [OF assms(3)] by (simp add: f_add_Fin)
  ultimately show ?thesis using assms
    by (simp add: decode_part_def parse_uint_show parse_f64_show_nat f_of_nat_exact)
qed

lemma encode_from_nats:
  "encode_from i (map f_nat ns) = map (\<lambda>(j, n). count_part j n) (filter (\<lambda>(j, n). 0 < n) (zip [i ..< i + length ns] ns))"
proof (induction ns arbitrary: i)
  case (Cons n ns)
  have "[i ..< i + length (n # ns)] = i # [Suc i ..< Suc i + length ns]" by (simp add: upt_rec)
  then show ?case using Cons.IH [of "Suc i"] by (simp add: count_part_def fmt_fixed_nat del: upt_Suc)
qed simp

lemma decode_encoded:
  assumes "list_all (\<lambda>n. n < 2 ^ 53) ns" "length pre + length ns < 2 ^ 64"
  shows "foldl decode_part (pre @ replicate (length ns) (F_Fin 0)) (encode_from (length pre) (map f_nat ns)) =
    pre @ map f_nat ns"
  using assms
proof (induction ns arbitrary: pre)
  case (Cons n ns)
  let ?out = "pre @ replicate (length (n # ns)) (F_Fin 0)"
  have step: "decode_part ?out (count_part (length pre) n) = (pre @ [f_nat n]) @ replicate (length ns) (F_Fin 0)"
    using Cons.prems by (subst decode_count_part) (simp_all add: nth_append list_update_append)
  show ?case
  proof (cases "0 < n")
    case True
    have "foldl decode_part ?out (encode_from (length pre) (map f_nat (n # ns))) =
      foldl decode_part ((pre @ [f_nat n]) @ replicate (length ns) (F_Fin 0))
        (encode_from (length (pre @ [f_nat n])) (map f_nat ns))"
      using True step by (simp add: fmt_fixed_nat count_part_def)
    also have "\<dots> = (pre @ [f_nat n]) @ map f_nat ns" using Cons.prems by (intro Cons.IH) auto
    finally show ?thesis by simp
  next
    case False
    then have "foldl decode_part ?out (encode_from (length pre) (map f_nat (n # ns))) =
      foldl decode_part ((pre @ [f_nat n]) @ replicate (length ns) (F_Fin 0))
        (encode_from (length (pre @ [f_nat n])) (map f_nat ns))"
      by simp
    also have "\<dots> = (pre @ [f_nat n]) @ map f_nat ns" using Cons.prems by (intro Cons.IH) auto
    finally show ?thesis by simp
  qed
qed simp

lemma join_split_comma:
  assumes "ps \<noteq> []" "list_all (\<lambda>p. CHR '','' \<notin> set p) ps"
  shows "split_on CHR '','' (join '','' ps) = ps"
  using assms split_on_join by (cases ps) auto

lemma decode_empty: "decode_part out [] = out"
  by (simp add: decode_part_def)

lemma decode_encode_counts:
  assumes "ha_counts a = map f_nat ns" "list_all (\<lambda>n. n < 2 ^ 53) ns" "length ns < 2 ^ 64"
  shows "decode_counts (encode_counts a) (length ns) = ha_counts a"
proof -
  let ?ps = "encode_from 0 (map f_nat ns)"
  have nc: "list_all (\<lambda>p. CHR '','' \<notin> set p) ?ps"
    using no_char_digits [OF show_nat_digits, of "CHR '',''"]
    by (auto simp: encode_from_nats list_all_iff count_part_def is_digit_def)
  have fold: "foldl decode_part (replicate (length ns) (F_Fin 0)) ?ps = map f_nat ns"
    using decode_encoded [of ns "[]"] assms(2,3) by simp
  show ?thesis
  proof (cases "?ps = []")
    case True
    then show ?thesis using fold by (simp add: decode_counts_def encode_counts_def assms(1) decode_empty)
  next
    case False
    then show ?thesis
      using fold join_split_comma [OF False nc] by (simp add: decode_counts_def encode_counts_def assms(1))
  qed
qed

section \<open>The windows\<close>

lemma window_start_le: "0 < res \<Longrightarrow> window_start res ts \<le> ts \<and> ts < window_start res ts + res"
  by (simp add: window_start_def)

lemma window_start_aligned: "window_start res ts mod res = 0"
  by (simp add: window_start_def mod_diff_left_eq [symmetric])

text \<open>What holds between two observations, \<open>now\<close> the time of the last one.\<close>

definition slot_ok :: "i64 \<Rightarrow> i64 \<Rightarrow> window option \<Rightarrow> bool" where
  "slot_ok res now slot \<longleftrightarrow>
    (case slot of None \<Rightarrow> False | Some (t, accs) \<Rightarrow> t = window_start res now \<and> length accs = N_HIST)"

definition lt_ok :: "i64 \<Rightarrow> LatencyTracker \<Rightarrow> bool" where
  "lt_ok now t \<longleftrightarrow> slot_ok 60 now (lt_minute t) \<and> slot_ok 600 now (lt_ten t) \<and>
     length (lt_recent t) \<le> RECENT_MINUTES \<and> list_all (\<lambda>(s, a). length a = N_HIST) (lt_recent t)"

definition slot_shape :: "window option \<Rightarrow> bool" where
  "slot_shape slot \<longleftrightarrow> (case slot of None \<Rightarrow> True | Some (t, accs) \<Rightarrow> length accs = N_HIST)"

lemma tick_slot_ok:
  assumes "slot_shape slot"
  shows "slot_ok res ts (Some (fst (tick_slot res ts slot))) \<and> slot_shape (snd (tick_slot res ts slot))"
  using assms by (auto simp: slot_shape_def slot_ok_def tick_slot_def fresh_accs_def split: option.splits)

lemma length_add_growth:
  "length prev = length accs \<Longrightarrow> length cur = length accs \<Longrightarrow> length (add_growth prev cur accs) = length accs"
  by (simp add: add_growth_def)

definition tracker_shape :: "LatencyTracker \<Rightarrow> bool" where
  "tracker_shape t \<longleftrightarrow> slot_shape (lt_minute t) \<and> slot_shape (lt_ten t) \<and>
     (case lt_prev t of None \<Rightarrow> True | Some p \<Rightarrow> length p = N_HIST) \<and>
     length (lt_recent t) \<le> RECENT_MINUTES \<and> list_all (\<lambda>(s, a). length a = N_HIST) (lt_recent t)"

lemma tracker_shape_default: "tracker_shape tracker0"
  by (simp add: tracker_shape_def tracker0_def slot_shape_def)

lemma push_recent_ok:
  assumes "length recent \<le> RECENT_MINUTES" "list_all (\<lambda>(s, a). length a = N_HIST) recent" "slot_shape done1"
  shows "length (push_recent recent done1) \<le> RECENT_MINUTES \<and>
    list_all (\<lambda>(s, a). length a = N_HIST) (push_recent recent done1)"
  using assms
  by (auto simp: push_recent_def slot_shape_def Let_def list_all_iff dest: in_set_dropD split: option.splits)

lemma tracker_observe_ok:
  assumes "tracker_shape t" "\<And>s. set1 = Some s \<Longrightarrow> length s = N_HIST"
  shows "tracker_shape (fst (tracker_observe t ts set1)) \<and> lt_ok ts (fst (tracker_observe t ts set1))"
proof -
  obtain m dm where m: "tick_slot 60 ts (lt_minute t) = (m, dm)" by fastforce
  obtain n dn where n: "tick_slot 600 ts (lt_ten t) = (n, dn)" by fastforce
  have mok: "slot_ok 60 ts (Some m)" "slot_shape dm" and nok: "slot_ok 600 ts (Some n)"
    using tick_slot_ok [of "lt_minute t" 60 ts] tick_slot_ok [of "lt_ten t" 600 ts] m n assms(1)
    by (auto simp: tracker_shape_def)
  have r: "length (push_recent (lt_recent t) dm) \<le> RECENT_MINUTES"
    "list_all (\<lambda>(s, a). length a = N_HIST) (push_recent (lt_recent t) dm)"
    using push_recent_ok [OF _ _ mok(2)] assms(1) by (auto simp: tracker_shape_def)
  have f: "length (filter P (push_recent (lt_recent t) dm)) \<le> RECENT_MINUTES" for P
    using r(1) length_filter_le order_trans by blast
  have g: "list_all (\<lambda>(s, a). length a = N_HIST) (filter P (push_recent (lt_recent t) dm))" for P
    using r(2) by (auto simp: list_all_iff)
  have ms: "slot_shape (Some m)" "slot_shape (Some n)" using mok(1) nok by (auto simp: slot_ok_def slot_shape_def split: prod.splits)
  show ?thesis
  proof (cases set1)
    case None
    then show ?thesis using assms(1) mok nok ms r
      by (simp add: tracker_observe_def m n tracker_shape_def lt_ok_def)
  next
    case (Some cur)
    define grow where "grow = (\<lambda>w :: window. (fst w, case lt_prev t of None \<Rightarrow> snd w | Some prev \<Rightarrow> add_growth prev cur (snd w)))"
    have cur: "length cur = N_HIST" using assms(2) Some by blast
    have "slot_ok res ts (Some (grow w))" if "slot_ok res ts (Some w)" for res w
      using that assms(1) cur
      by (auto simp: grow_def slot_ok_def tracker_shape_def length_add_growth split: option.splits prod.splits)
    then have gm: "slot_ok 60 ts (Some (grow m))" "slot_ok 600 ts (Some (grow n))" using mok(1) nok by auto
    have gs: "slot_shape (Some (grow m))" "slot_shape (Some (grow n))"
      using gm by (auto simp: slot_ok_def slot_shape_def split: prod.splits)
    have t1: "fst (tracker_observe t ts set1) =
      t\<lparr>lt_prev := Some cur, lt_minute := Some (grow m), lt_ten := Some (grow n),
        lt_recent := filter (\<lambda>(s, a). ts - (int RECENT_MINUTES + 1) * 60 < s) (push_recent (lt_recent t) dm)\<rparr>"
      unfolding tracker_observe_def m n Some grow_def
      by (cases "lt_prev t") (simp_all add: case_prod_beta Let_def)
    show ?thesis unfolding t1 using gm gs cur f g by (simp add: tracker_shape_def lt_ok_def)
  qed
qed

text \<open>A closed window is one the clock has left: aligned, over, and not empty.\<close>

lemma tick_slot_closed:
  assumes "snd (tick_slot res ts slot) = Some (t, accs)"
  shows "slot = Some (t, accs) \<and> t \<noteq> window_start res ts"
  using assms by (auto simp: tick_slot_def split: option.splits if_splits)

lemma closed_window:
  assumes "w \<in> set (snd (tracker_observe t ts set1))"
  shows "(cw_res w = 60 \<and> lt_minute t = Some (cw_ts w, cw_accs w) \<or>
          cw_res w = 600 \<and> lt_ten t = Some (cw_ts w, cw_accs w)) \<and>
    cw_ts w \<noteq> window_start (cw_res w) ts \<and> (\<exists>a \<in> set (cw_accs w). \<not> ha_is_empty a)"
proof -
  obtain m dm where m: "tick_slot 60 ts (lt_minute t) = (m, dm)" by fastforce
  obtain n dn where n: "tick_slot 600 ts (lt_ten t) = (n, dn)" by fastforce
  have "w \<in> set (closed_of 60 dm) \<or> w \<in> set (closed_of 600 dn)"
    using assms by (auto simp: tracker_observe_def m n Let_def split: option.splits)
  then show ?thesis
    using tick_slot_closed [of 60 ts "lt_minute t"] tick_slot_closed [of 600 ts "lt_ten t"]
    by (auto simp: closed_of_def m n split: option.splits if_splits)
qed

section \<open>Quantiles and shares\<close>

text \<open>The bounds of a histogram: positive, representable numbers.\<close>

definition bound_ok :: "f64 \<Rightarrow> bool" where
  "bound_ok b \<longleftrightarrow> (\<exists>r. b = F_Fin r \<and> 0 < r \<and> rnd r = F_Fin r)"

lemma bound_okE:
  assumes "bound_ok b"
  obtains r where "b = F_Fin r" "0 < r" "rnd r = F_Fin r"
  using assms by (auto simp: bound_ok_def)

text \<open>The smallest positive number.\<close>

definition tiny :: rat where
  "tiny = 2 powi (- 1074)"

lemma tiny_pos: "0 < tiny"
  unfolding tiny_def by (rule pow2_pos)

lemma rnd_tiny: "rnd tiny = F_Fin tiny"
proof -
  have "(2::rat) powi (- 1074) < 2 powi 1024" by (simp only: pow2_less_iff)
  then have "tiny < 2 ^ 1024" by (simp only: tiny_def pow2_1024)
  moreover have "tiny = of_int 1 * 2 powi (- 1074)" by (simp only: tiny_def of_int_1 mult_1)
  ultimately show ?thesis by (intro rnd_grid_pos [of tiny 1 "- 1074"]) simp_all
qed

lemma ulp_grid: "\<exists>k. rnd_mag r = of_int k * tiny"
proof -
  have le: "- 1074 \<le> ulp_exp r" by (simp add: ulp_exp_def)
  show ?thesis unfolding rnd_mag_def pow2_split [OF le] tiny_def [symmetric]
    by (metis mult.assoc of_int_mult)
qed

lemma representable_grid:
  assumes "0 < r" "rnd r = F_Fin r"
  shows "\<exists>k. r = of_int k * tiny"
  using assms ulp_grid [of r] by (auto simp: rnd_pos split: if_splits)

text \<open>The difference of two different representable numbers does not round to zero.\<close>

lemma rnd_diff_pos:
  assumes "bound_ok (F_Fin u) \<or> u = 0" "bound_ok (F_Fin l) \<or> l = 0" "l < u"
  shows "\<exists>d. rnd (u - l) = F_Fin d \<and> 0 < d \<and> d \<le> u"
proof -
  have g: "\<exists>k. x = of_int k * tiny" if "bound_ok (F_Fin x) \<or> x = 0" for x
  proof (cases "x = 0")
    case True
    then show ?thesis by (intro exI [of _ 0]) simp
  next
    case False
    then show ?thesis using that representable_grid [of x] by (simp add: bound_ok_def)
  qed
  obtain k m where k: "u = of_int k * tiny" and m: "l = of_int m * tiny" using g assms by blast
  have "of_int m < (of_int k :: rat)" using assms(3) tiny_pos unfolding k m by simp
  then have "1 \<le> k - m" by simp
  have l0: "0 \<le> l" using assms(2) by (auto simp: bound_ok_def)
  have u: "0 < u" using l0 assms(3) by linarith
  then have ru: "rnd u = F_Fin u" using assms(1) by (auto simp: bound_ok_def)
  obtain d where d: "rnd (u - l) = F_Fin d" "0 \<le> d" "d \<le> u"
    using rnd_between_Fin [of "u - l" u] ru l0 assms(3) by auto
  have "1 * tiny \<le> of_int (k - m) * tiny"
    using \<open>1 \<le> k - m\<close> tiny_pos by (intro mult_right_mono) (simp_all only: of_int_1_le_iff less_imp_le)
  moreover have "u - l = of_int (k - m) * tiny" by (simp only: k m left_diff_distrib of_int_diff)
  ultimately have "tiny \<le> u - l" by simp
  from rnd_mono [OF this] have "tiny \<le> d" by (simp add: rnd_tiny d(1))
  then have "0 < d" using tiny_pos by linarith
  then show ?thesis using d by blast
qed

lemma f_sub_bounds:
  assumes "bound_ok (F_Fin u)" "bound_ok (F_Fin l) \<or> l = 0" "l < u"
  shows "\<exists>d. f_sub (F_Fin u) (F_Fin l) = F_Fin d \<and> 0 < d \<and> d \<le> u"
  using rnd_diff_pos [of u l] assms by (simp add: f_sub_Fin)

lemma bucket_lower_ok:
  assumes "list_all bound_ok le" "i < length le"
  shows "\<exists>l. bucket_lower le i = F_Fin l \<and> (bound_ok (F_Fin l) \<or> l = 0)"
proof (cases i)
  case 0
  have "bound_ok (le ! 0)" using assms 0 by (simp add: list_all_length)
  then show ?thesis using 0 by (auto simp: bucket_lower_def f_min_def elim!: bound_okE)
next
  case (Suc j)
  have b: "bound_ok (le ! j)" using assms Suc by (simp add: list_all_length)
  then obtain r where "le ! j = F_Fin r" by (rule bound_okE)
  then show ?thesis using b Suc by (simp add: bucket_lower_def)
qed

text \<open>A share \<open>0..1\<close> of a count.\<close>

lemma clamp01: "\<not> is_nan x \<Longrightarrow> f_clamp x (F_Fin 0) (F_Fin 1) = F_NegZero \<or>
    (\<exists>s. f_clamp x (F_Fin 0) (F_Fin 1) = F_Fin s \<and> 0 \<le> s \<and> s \<le> 1)"
proof -
  have "f_class (F_Inf s) = (if s then - 1 else 1)" for s by (cases s) simp_all
  then show "\<not> is_nan x \<Longrightarrow> ?thesis" by (cases x) (auto simp: f_clamp_def f_lt_def)
qed

lemma mul_share:
  assumes "\<not> is_nan x" "0 \<le> r" "rnd r = F_Fin r"
  shows "f_mul (F_Fin r) (f_clamp x (F_Fin 0) (F_Fin 1)) = F_NegZero \<or>
    (\<exists>s. f_mul (F_Fin r) (f_clamp x (F_Fin 0) (F_Fin 1)) = F_Fin s \<and> 0 \<le> s \<and> s \<le> r)"
proof -
  consider "f_clamp x (F_Fin 0) (F_Fin 1) = F_NegZero"
    | s where "f_clamp x (F_Fin 0) (F_Fin 1) = F_Fin s" "0 \<le> s" "s \<le> 1" using clamp01 [OF assms(1)] by blast
  then show ?thesis
  proof cases
    case 1
    then show ?thesis by (simp add: f_mul_def f_zero_def assms(2))
  next
    case (2 s)
    have "r * s \<le> r" using 2(3) assms(2) mult_left_le by blast
    then obtain p where "rnd (r * s) = F_Fin p" "0 \<le> p" "p \<le> r"
      using rnd_between_Fin [of "r * s" r] 2(2) assms(2,3) by auto
    then show ?thesis using 2 assms(2) by (auto simp: f_mul_def f_zero_def)
  qed
qed

lemma f_add_small:
  assumes "a + n < 2 ^ 53" "x = F_NegZero \<or> (\<exists>s. x = F_Fin s \<and> 0 \<le> s \<and> s \<le> of_nat n)"
  shows "\<exists>t. f_add (f_nat a) x = F_Fin t \<and> 0 \<le> t \<and> t \<le> of_nat (a + n)"
proof -
  have "0 \<le> rat_of x" "rat_of x \<le> of_nat n" "is_finite x" using assms(2) by auto
  moreover have "f_add (f_nat a) x = rnd (of_nat a + rat_of x)"
    using \<open>is_finite x\<close> by (cases x) (simp_all add: f_add_def)
  moreover have "0 \<le> of_nat a + rat_of x" "of_nat a + rat_of x \<le> of_nat (a + n)"
    using calculation(1,2) by auto
  ultimately show ?thesis using rnd_between [of "of_nat a + rat_of x" "a + n"] assms(1) by auto
qed

lemma fraction_loop_range:
  assumes "list_all bound_ok le" "is_finite x" "s + sum_list ns < 2 ^ 53"
  shows "\<exists>t. fraction_loop le x i (f_nat s) (map f_nat ns) = F_Fin t \<and> 0 \<le> t \<and> t \<le> of_nat (s + sum_list ns)"
  using assms(3)
proof (induction ns arbitrary: i s)
  case (Cons n ns)
  show ?case
  proof (cases "i < length le")
    case i: True
    obtain u where u: "le ! i = F_Fin u" "bound_ok (F_Fin u)"
      using assms(1) i by (metis bound_ok_def list_all_length)
    obtain l where l: "bucket_lower le i = F_Fin l" "bound_ok (F_Fin l) \<or> l = 0"
      using bucket_lower_ok [OF assms(1) i] by blast
    show ?thesis
    proof (cases "f_ge x (F_Fin u)")
      case True
      have "f_add (f_nat s) (f_nat n) = f_nat (s + n)" using Cons.prems by (intro f_add_nats) simp
      then show ?thesis using True i u(1) Cons.IH [of "s + n" "Suc i"] Cons.prems by (simp add: add.assoc)
    next
      case F: False
      show ?thesis
      proof (cases "f_gt x (F_Fin l)")
        case G: True
        obtain y where y: "l < y" "y < u" "f_sub x (F_Fin l) = rnd (y - l)"
          using F G assms(2) by (cases x) (auto simp: f_sub_def f_add_def f_lt_def f_le_def)
        obtain d where d: "f_sub (F_Fin u) (F_Fin l) = F_Fin d" "0 < d"
          using f_sub_bounds [OF u(2) l(2)] y by auto
        have "f_le (rnd (y - l)) (rnd (u - l))" using y by (intro rnd_mono) simp
        then obtain e where e: "rnd (y - l) = F_Fin e" "0 \<le> e"
          using rnd_between_Fin [of "y - l" "u"] y u(2) l(2) by (auto simp: bound_ok_def)
        have "\<not> is_nan (f_div (F_Fin e) (F_Fin d))" using d e by (simp add: f_div_def f_zero_def)
        from mul_share [OF this, of "of_nat n"] rnd_of_nat [of n] Cons.prems
        have "f_mul (f_nat n) (f_clamp (f_div (F_Fin e) (F_Fin d)) (F_Fin 0) (F_Fin 1)) = F_NegZero \<or>
          (\<exists>s. f_mul (f_nat n) (f_clamp (f_div (F_Fin e) (F_Fin d)) (F_Fin 0) (F_Fin 1)) = F_Fin s \<and> 0 \<le> s \<and> s \<le> of_nat n)"
          by simp
        from f_add_small [OF _ this, of s] Cons.prems
        obtain t where "f_add (f_nat s) (f_mul (f_nat n) (f_clamp (f_div (F_Fin e) (F_Fin d)) (F_Fin 0) (F_Fin 1))) = F_Fin t"
          "0 \<le> t" "t \<le> of_nat (s + n)" by auto
        then show ?thesis using F G i u(1) l(1) y(3) d e by (simp add: Let_def add.assoc [symmetric] add_increasing2)
      next
        case False
        then show ?thesis using F i u(1) l(1) by (simp add: Let_def)
      qed
    qed
  qed simp
qed simp

lemma fraction_le_range:
  assumes "ha_counts a = map f_nat ns" "sum_list ns < 2 ^ 53" "list_all bound_ok (ha_le a)"
    "fraction_le a x = Some p"
  shows "f_le (F_Fin 0) p \<and> f_le p (F_Fin 1)"
proof -
  have ne: "ns \<noteq> []" "is_finite x" "\<not> f_le (ha_total a) (F_Fin 0)"
    using assms(1,4) by (auto simp: fraction_le_def ha_total_def f_sum_def f_le_def Let_def split: if_splits)
  have tot: "ha_total a = f_nat (sum_list ns)" using f_sum_nats [OF assms(2) ne(1)] by (simp add: ha_total_def assms(1))
  then have pos: "0 < sum_list ns" using ne(3) by (cases "sum_list ns") auto
  obtain t where t: "fraction_loop (ha_le a) x 0 (f_nat 0) (map f_nat ns) = F_Fin t" "0 \<le> t"
    using fraction_loop_range [OF assms(3) ne(2), of 0 ns 0] assms(2) by auto
  have "\<not> is_nan (f_div (F_Fin t) (f_nat m))" if "0 < m" for m
    using that by (simp add: f_div_def f_zero_def Let_def)
  from this [OF pos] have "\<not> is_nan (f_div (F_Fin t) (f_nat (sum_list ns)))" .
  from f_clamp_bounds [OF this, of "F_Fin 0" "F_Fin 1"] show ?thesis
    using assms(1,4) t(1) tot by (auto simp: fraction_le_def Let_def split: if_splits)
qed

text \<open>A quantile is read from the bucket \<open>k\<close> that holds its rank: the buckets before it hold less.\<close>

definition rank_bucket :: "f64 \<Rightarrow> nat \<Rightarrow> nat list \<Rightarrow> nat \<Rightarrow> bool" where
  "rank_bucket rank s ns k \<longleftrightarrow> k < length ns \<and> 0 < ns ! k \<and>
     f_le rank (f_nat (s + sum_list (take (Suc k) ns))) \<and>
     (sum_list (take k ns) = 0 \<or> f_lt (f_nat (s + sum_list (take k ns))) rank)"

lemma lower_lt_upper:
  assumes "list_all bound_ok le" "sorted_wrt f_lt le" "i < length le"
  obtains l u where "bucket_lower le i = F_Fin l" "le ! i = F_Fin u" "l < u"
    "bound_ok (F_Fin u)" "bound_ok (F_Fin l) \<or> l = 0"
proof -
  obtain l where l: "bucket_lower le i = F_Fin l" "bound_ok (F_Fin l) \<or> l = 0"
    using bucket_lower_ok [OF assms(1,3)] by blast
  obtain u where u: "le ! i = F_Fin u" "bound_ok (F_Fin u)"
    using assms(1,3) by (metis bound_ok_def list_all_length)
  have "f_lt (F_Fin l) (F_Fin u)"
  proof (cases i)
    case 0
    then show ?thesis using l u by (auto simp: bucket_lower_def f_min_def bound_ok_def)
  next
    case (Suc j)
    then show ?thesis using l u assms(2,3) sorted_wrt_nth_less [OF assms(2), of j i] by (auto simp: bucket_lower_def)
  qed
  then show ?thesis using that l u by simp
qed

lemma add_share_ge:
  assumes "\<not> is_nan x" "0 \<le> d" "rnd d = F_Fin d" "bound_ok (F_Fin l) \<or> l = 0"
  shows "f_le (F_Fin l) (f_add (F_Fin l) (f_mul (F_Fin d) (f_clamp x (F_Fin 0) (F_Fin 1))))"
proof -
  obtain y where y: "f_mul (F_Fin d) (f_clamp x (F_Fin 0) (F_Fin 1)) = y" "0 \<le> rat_of y" "is_finite y"
    using mul_share [OF assms(1-3)] by auto
  have "rnd l = F_Fin l" using assms(4) by (auto simp: bound_ok_def)
  moreover have "f_le (rnd l) (rnd (l + rat_of y))" using y by (intro rnd_mono) simp
  moreover have "f_add (F_Fin l) y = rnd (l + rat_of y)" using y(3) by (cases y) (simp_all add: f_add_def)
  ultimately show ?thesis by (simp add: y(1))
qed

lemma rnd_idem:
  assumes "rnd r = F_Fin d" "0 < r" "0 < d"
  shows "rnd d = F_Fin d"
proof -
  let ?e = "ulp_exp r" and ?n = "rhe (r / 2 powi ulp_exp r)"
  have d: "d = of_int ?n * 2 powi ?e" and lim: "d < 2 ^ 1024"
    using assms by (auto simp: rnd_pos rnd_mag_def split: if_splits)
  have e: "- 1074 \<le> ?e" "flog2 r + 1 \<le> 53 + ?e" by (simp_all add: ulp_exp_def)
  have "r < 2 powi (53 + ?e)" using flog2_bounds(2) [OF assms(2)] pow2_le [OF e(2)] by (rule less_le_trans)
  then have "r / 2 powi ?e \<le> of_int (2 ^ 53)" by (simp add: pow2_add divide_le_eq)
  then have n: "?n \<le> 2 ^ 53" using rhe_mono [of "r / 2 powi ?e" "of_int (2 ^ 53)"] by (simp only: rhe_of_int)
  have "\<not> (2::rat) powi ?e < 0" using pow2_pos [of ?e] by linarith
  then have n0: "0 < ?n" using assms(3) unfolding d zero_less_mult_iff by simp
  show ?thesis
  proof (cases "?n = 2 ^ 53")
    case True
    have "d = of_int 1 * 2 powi (53 + ?e)" by (simp add: d True pow2_add)
    then show ?thesis by (rule rnd_grid_pos) (use e lim in auto)
  next
    case False
    then show ?thesis using n n0 e lim by (intro rnd_grid_pos [OF d]) auto
  qed
qed

lemma quantile_loop_bucket:
  assumes "list_all bound_ok le" "sorted_wrt f_lt le" "is_finite rank"
    "s + sum_list ns < 2 ^ 53" "0 < sum_list ns" "f_le rank (f_nat (s + sum_list ns))"
  shows "\<exists>k v. quantile_loop le rank i (f_nat s) (map f_nat ns) = (if i + k < length le then Some v else last_opt le) \<and>
    rank_bucket rank s ns k \<and> (i + k < length le \<longrightarrow> f_le (bucket_lower le (i + k)) v)"
  using assms(4-)
proof (induction ns arbitrary: i s)
  case (Cons n ns)
  show ?case
  proof (cases "n = 0")
    case True
    then obtain k v where "quantile_loop le rank (Suc i) (f_nat s) (map f_nat ns) = (if Suc i + k < length le then Some v else last_opt le)"
      "rank_bucket rank s ns k" "Suc i + k < length le \<longrightarrow> f_le (bucket_lower le (Suc i + k)) v"
      using Cons.IH [of s "Suc i"] Cons.prems by auto
    then show ?thesis using True by (intro exI [of _ "Suc k"] exI [of _ v]) (simp add: rank_bucket_def)
  next
    case n: False
    have add: "f_add (f_nat s) (f_nat n) = f_nat (s + n)" using Cons.prems(1) by (intro f_add_nats) simp
    show ?thesis
    proof (cases "f_ge (f_nat (s + n)) rank")
      case here: True
      show ?thesis
      proof (cases "i < length le")
        case i: True
        obtain l u where lu: "bucket_lower le i = F_Fin l" "le ! i = F_Fin u" "l < u"
            "bound_ok (F_Fin u)" "bound_ok (F_Fin l) \<or> l = 0"
          using lower_lt_upper [OF assms(1,2) i] .
        obtain d where d: "f_sub (F_Fin u) (F_Fin l) = F_Fin d" "0 < d" using f_sub_bounds [OF lu(4,5,3)] by auto
        then have "rnd d = F_Fin d" using lu(3) by (intro rnd_idem [of "u - l"]) (auto simp: f_sub_Fin)
        moreover have "\<not> is_nan (f_div (f_sub rank (f_nat s)) (f_nat n))"
        proof -
          have "\<not> is_nan (f_sub rank (f_nat s))" using assms(3) by (simp add: f_sub_def is_nan_add)
          then show ?thesis using n by (cases "f_sub rank (f_nat s)") (auto simp: f_div_def f_zero_def Let_def)
        qed
        ultimately have "f_le (F_Fin l) (f_add (F_Fin l) (f_mul (F_Fin d)
            (f_clamp (f_div (f_sub rank (f_nat s)) (f_nat n)) (F_Fin 0) (F_Fin 1))))"
          using d(2) lu(5) by (intro add_share_ge) auto
        then show ?thesis using n here i lu d(1) add
          by (intro exI [of _ 0] exI) (auto simp: rank_bucket_def Let_def simp del: of_nat_add)
      next
        case False
        then show ?thesis using n here add by (intro exI [of _ 0] exI) (auto simp: rank_bucket_def simp del: of_nat_add)
      qed
    next
      case later: False
      then have lt: "f_lt (f_nat (s + n)) rank" using assms(3) by (cases rank) (auto simp: f_lt_def f_le_def)
      have "0 < sum_list ns" using later Cons.prems(3) by (cases "sum_list ns") auto
      then obtain k v where "quantile_loop le rank (Suc i) (f_nat (s + n)) (map f_nat ns) = (if Suc i + k < length le then Some v else last_opt le)"
        "rank_bucket rank (s + n) ns k" "Suc i + k < length le \<longrightarrow> f_le (bucket_lower le (Suc i + k)) v"
        using Cons.IH [of "s + n" "Suc i"] Cons.prems by (auto simp: add.assoc)
      moreover have "f_lt (f_nat (s + (n + sum_list (take k ns)))) rank" if z: "sum_list (take k ns) = 0"
        unfolding z using lt by simp
      ultimately show ?thesis using n later add
        by (intro exI [of _ "Suc k"] exI [of _ v]) (auto simp: rank_bucket_def add.assoc simp del: of_nat_add)
    qed
  qed
qed simp

lemma quantile_rank:
  assumes "is_finite q" "0 < n" "n < 2 ^ 53"
  shows "is_finite (f_mul (f_clamp q (F_Fin 0) (F_Fin 1)) (f_nat n)) \<and>
    f_le (f_mul (f_clamp q (F_Fin 0) (F_Fin 1)) (f_nat n)) (f_nat n)"
proof -
  have "f_mul (f_clamp q (F_Fin 0) (F_Fin 1)) (f_nat n) = f_mul (f_nat n) (f_clamp q (F_Fin 0) (F_Fin 1))"
    by (auto simp: f_mul_def mult.commute Let_def)
  moreover have "\<not> is_nan q" using assms(1) by (cases q) auto
  ultimately show ?thesis using mul_share [of q "of_nat n"] rnd_of_nat [OF assms(3)] by (auto simp: f_le_def)
qed

lemma quantile_bucket:
  assumes "ha_counts a = map f_nat ns" "0 < sum_list ns" "sum_list ns < 2 ^ 53"
    "ha_le a \<noteq> []" "list_all bound_ok (ha_le a)" "sorted_wrt f_lt (ha_le a)" "is_finite q"
  shows "\<exists>k v. quantile a q = Some v \<and>
    rank_bucket (f_mul (f_clamp q (F_Fin 0) (F_Fin 1)) (ha_total a)) 0 ns k \<and>
    (if k < length (ha_le a) then f_le (bucket_lower (ha_le a) k) v else v = last (ha_le a))"
proof -
  let ?rank = "f_mul (f_clamp q (F_Fin 0) (F_Fin 1)) (ha_total a)"
  have "ns \<noteq> []" using assms(2) by auto
  then have tot: "ha_total a = f_nat (sum_list ns)"
    using f_sum_nats [OF assms(3)] by (simp add: ha_total_def assms(1))
  have r: "is_finite ?rank" "f_le ?rank (f_nat (0 + sum_list ns))"
    using quantile_rank [OF assms(7,2,3)] by (simp_all add: tot)
  have s: "0 + sum_list ns < 2 ^ 53" using assms(3) by simp
  obtain k v where kv: "quantile_loop (ha_le a) ?rank 0 (f_nat 0) (map f_nat ns) = (if 0 + k < length (ha_le a) then Some v else last_opt (ha_le a))"
    "rank_bucket ?rank 0 ns k" "0 + k < length (ha_le a) \<longrightarrow> f_le (bucket_lower (ha_le a) (0 + k)) v"
    using quantile_loop_bucket [OF assms(5,6) r(1) s assms(2) r(2), of 0] by blast
  have "\<not> f_le (ha_total a) (F_Fin 0)" using assms(2) tot by (cases "sum_list ns") auto
  then have q: "quantile a q = (if k < length (ha_le a) then Some v else Some (last (ha_le a)))"
    using kv(1) assms(1,4) by (simp add: quantile_def last_opt_def Let_def)
  show ?thesis
  proof (cases "k < length (ha_le a)")
    case True
    then show ?thesis using q kv by (intro exI [of _ k] exI [of _ v]) simp
  next
    case False
    then show ?thesis using q kv by (intro exI [of _ k] exI [of _ "last (ha_le a)"]) simp
  qed
qed

end
