(* ===== verification/Tokens.thy ===== *)
theory Tokens
  imports Hist
begin

text \<open>
  \<open>crates/lss-core/src/tokens.rs\<close>: totals that survive restarts of the engine, the ledger of a
  sample stream with its peaks per day, and the rows of the token windows.
\<close>

section \<open>A counter that can reset\<close>

record CounterTotal =
  ct_total :: f64
  ct_last :: "f64 option"

definition counter_default :: CounterTotal where
  "counter_default = \<lparr>ct_total = F_Fin 0, ct_last = None\<rparr>"

definition counter_observe :: "CounterTotal \<Rightarrow> f64 \<Rightarrow> bool \<Rightarrow> CounterTotal \<times> f64" where
  "counter_observe c v reset =
    (if \<not> is_finite v \<or> f_lt v (F_Fin 0) then (c, F_Fin 0)
     else let added = (case ct_last c of None \<Rightarrow> F_Fin 0
                | Some l \<Rightarrow> if reset \<or> f_lt v l then v else f_sub v l)
       in (c\<lparr>ct_last := Some v, ct_total := f_add (ct_total c) added\<rparr>, added))"

section \<open>The ledger\<close>

record Peak =
  pk_tok_s :: f64
  pk_ts :: i64

definition peak_default :: Peak where
  "peak_default = \<lparr>pk_tok_s = F_Fin 0, pk_ts = 0\<rparr>"

definition PEAK_DAYS :: usize where "PEAK_DAYS = 60"

record AllTime =
  at_since :: i64
  at_generated :: CounterTotal
  at_prompt :: CounterTotal
  at_cached :: CounterTotal
  at_requests :: CounterTotal
  at_epoch :: i64
  at_peak :: Peak
  at_day_peaks :: "(string, Peak) btree"

definition alltime_default :: AllTime where
  "alltime_default = \<lparr>at_since = 0, at_generated = counter_default, at_prompt = counter_default,
     at_cached = counter_default, at_requests = counter_default, at_epoch = 0, at_peak = peak_default,
     at_day_peaks = bt_empty\<rparr>"

lemma length_bt_remove_hd: "m \<noteq> [] \<Longrightarrow> length (bt_remove (fst (hd m)) m) < length m"
  by (cases m) (auto simp: bt_remove_def le_imp_less_Suc split: prod.splits)

text \<open>\<open>while day_peaks.len() > PEAK_DAYS\<close>: the oldest day goes.\<close>

function trim_days :: "(string, Peak) btree \<Rightarrow> (string, Peak) btree" where
  "trim_days m = (if PEAK_DAYS < length m then trim_days (bt_remove (fst (hd m)) m) else m)"
  by pat_completeness auto

termination
  by (relation "measure length") (auto intro: length_bt_remove_hd)

declare trim_days.simps [simp del]

definition observe_peak :: "AllTime \<Rightarrow> i64 \<Rightarrow> string \<Rightarrow> f64 \<Rightarrow> AllTime" where
  "observe_peak a ts day tok_s =
    (if is_finite tok_s \<and> f_gt tok_s (F_Fin 0) then
       let pk = (if f_gt tok_s (pk_tok_s (at_peak a)) then \<lparr>pk_tok_s = tok_s, pk_ts = ts\<rparr> else at_peak a);
           d = bt_get_or peak_default day (at_day_peaks a);
           d1 = (if f_gt tok_s (pk_tok_s d) then \<lparr>pk_tok_s = tok_s, pk_ts = ts\<rparr> else d)
       in a\<lparr>at_peak := pk, at_day_peaks := trim_days (bt_insert day d1 (at_day_peaks a))\<rparr>
     else a)"

definition alltime_observe :: "AllTime \<Rightarrow> i64 \<Rightarrow> string \<Rightarrow> i64 \<Rightarrow> ServeMetrics \<Rightarrow> AllTime" where
  "alltime_observe a ts day epoch m =
    (let reset = (epoch \<noteq> 0 \<and> at_epoch a \<noteq> 0 \<and> epoch \<noteq> at_epoch a);
         a1 = a\<lparr>at_since := (if at_since a = 0 then ts else at_since a),
                at_epoch := (if epoch \<noteq> 0 then epoch else at_epoch a),
                at_generated := fst (counter_observe (at_generated a) (sm_generation_tokens_total m) reset),
                at_prompt := fst (counter_observe (at_prompt a) (sm_prompt_tokens_total m) reset),
                at_cached := fst (counter_observe (at_cached a) (sm_cached_tokens_total m) reset),
                at_requests := fst (counter_observe (at_requests a) (sm_requests_total m) reset)\<rparr>
     in observe_peak a1 ts day (sm_gen_throughput m))"

section \<open>The rows\<close>

record TokenWindow =
  tw_name :: string
  tw_secs :: i64
  tw_generated :: f64
  tw_prompt :: f64
  tw_cached :: f64
  tw_cache_share :: "f64 option"
  tw_requests :: f64
  tw_requests_since :: "i64 option"

definition round4 :: "f64 \<Rightarrow> f64" where
  "round4 v = f_div (f_round (f_mul v (F_Fin 10000))) (F_Fin 10000)"

definition token_window_new :: "string \<Rightarrow> i64 \<Rightarrow> f64 \<Rightarrow> f64 \<Rightarrow> f64 \<Rightarrow> f64 \<Rightarrow> TokenWindow" where
  "token_window_new name secs generated prompt cached requests =
    \<lparr>tw_name = name, tw_secs = secs, tw_generated = generated, tw_prompt = prompt, tw_cached = cached,
     tw_cache_share = (if f_gt prompt (F_Fin 0) then Some (round4 (f_min (f_div cached prompt) (F_Fin 1))) else None),
     tw_requests = requests, tw_requests_since = None\<rparr>"

record DayPeak =
  dp_day :: string
  dp_tok_s :: f64
  dp_ts :: i64

definition peak_by_day :: "AllTime \<Rightarrow> usize \<Rightarrow> DayPeak list" where
  "peak_by_day a days =
    map (\<lambda>(day, p). \<lparr>dp_day = day,
        dp_tok_s = f_div (f_round (f_mul (pk_tok_s p) (F_Fin 10))) (F_Fin 10), dp_ts = pk_ts p\<rparr>)
      (take days (rev (at_day_peaks a)))"

section \<open>The total is the growth of the counter\<close>

text \<open>What a counter gained along its readings, restarts (a smaller reading) included.\<close>

fun growth_of :: "nat \<Rightarrow> nat list \<Rightarrow> nat" where
  "growth_of l [] = 0"
| "growth_of l (v # vs) = (if v < l then v else v - l) + growth_of v vs"

definition observe_all :: "CounterTotal \<Rightarrow> nat list \<Rightarrow> CounterTotal" where
  "observe_all c vs = foldl (\<lambda>c v. fst (counter_observe c (f_nat v) False)) c vs"

lemma counter_step_exact:
  assumes "t + (if v < l then v else v - l) < 2 ^ 53" "v < 2 ^ 53"
  shows "fst (counter_observe \<lparr>ct_total = f_nat t, ct_last = Some (f_nat l)\<rparr> (f_nat v) False) =
    \<lparr>ct_total = f_nat (t + (if v < l then v else v - l)), ct_last = Some (f_nat v)\<rparr>"
proof (cases "v < l")
  case True
  then show ?thesis using assms f_add_nats [of t v] by (simp add: counter_observe_def Let_def)
next
  case False
  then show ?thesis using assms f_add_nats [of t "v - l"] f_sub_nats [of l v]
    by (simp add: counter_observe_def Let_def)
qed

lemma observe_all_exact:
  assumes "t + growth_of l vs < 2 ^ 53" "list_all (\<lambda>v. v < 2 ^ 53) vs"
  shows "ct_total (observe_all \<lparr>ct_total = f_nat t, ct_last = Some (f_nat l)\<rparr> vs) = f_nat (t + growth_of l vs)"
  using assms
proof (induction vs arbitrary: t l)
  case (Cons v vs)
  let ?t = "t + (if v < l then v else v - l)"
  have s: "fst (counter_observe \<lparr>ct_total = f_nat t, ct_last = Some (f_nat l)\<rparr> (f_nat v) False) =
    \<lparr>ct_total = f_nat ?t, ct_last = Some (f_nat v)\<rparr>"
    by (rule counter_step_exact) (use Cons.prems in auto)
  have "ct_total (observe_all \<lparr>ct_total = f_nat ?t, ct_last = Some (f_nat v)\<rparr> vs) = f_nat (?t + growth_of v vs)"
    using Cons.prems by (intro Cons.IH) auto
  then show ?case unfolding observe_all_def list.map foldl_Cons s by (simp add: add.assoc)
qed (simp add: observe_all_def)

section \<open>The ledger invariant\<close>

definition alltime_ok :: "AllTime \<Rightarrow> bool" where
  "alltime_ok a \<longleftrightarrow> bt_invar (at_day_peaks a) \<and> length (at_day_peaks a) \<le> PEAK_DAYS \<and>
     \<not> is_nan (pk_tok_s (at_peak a)) \<and>
     (\<forall>(d, p) \<in> set (at_day_peaks a). f_le (pk_tok_s p) (pk_tok_s (at_peak a)))"

lemma trim_days_ok:
  "bt_invar m \<Longrightarrow> bt_invar (trim_days m) \<and> length (trim_days m) \<le> PEAK_DAYS \<and> set (trim_days m) \<subseteq> set m"
proof (induction m rule: trim_days.induct)
  case (1 m)
  have "set (bt_remove (fst (hd m)) m) \<subseteq> set m" by (auto simp: bt_remove_def)
  then show ?case using 1 bt.invar_drop [of m "fst (hd m)"] by (subst (1 2 3) trim_days.simps) auto
qed

lemma f_le_pick: "\<not> is_nan x \<Longrightarrow> \<not> is_nan p \<Longrightarrow> f_le p (if f_lt p x then x else p) \<and> f_le x (if f_lt p x then x else p)"
  by (auto simp: f_lt_le f_not_lt)

lemma alltime_ok_upd:
  "bt_invar m \<Longrightarrow> length m \<le> PEAK_DAYS \<Longrightarrow> \<not> is_nan (pk_tok_s pk) \<Longrightarrow>
   \<forall>(d, p) \<in> set m. f_le (pk_tok_s p) (pk_tok_s pk) \<Longrightarrow> alltime_ok (a\<lparr>at_peak := pk, at_day_peaks := m\<rparr>)"
  by (simp add: alltime_ok_def)

lemma observe_peak_ok:
  assumes "alltime_ok a"
  shows "alltime_ok (observe_peak a ts day x)"
proof (cases "is_finite x \<and> f_gt x (F_Fin 0)")
  case True
  then have x: "\<not> is_nan x" by (cases x) auto
  let ?p = "pk_tok_s (at_peak a)" and ?d = "bt_get_or peak_default day (at_day_peaks a)"
  let ?pk = "if f_gt x ?p then \<lparr>pk_tok_s = x, pk_ts = ts\<rparr> else at_peak a"
  let ?d1 = "if f_gt x (pk_tok_s ?d) then \<lparr>pk_tok_s = x, pk_ts = ts\<rparr> else ?d"
  have pk: "f_le ?p (pk_tok_s ?pk)" "f_le x (pk_tok_s ?pk)"
    using f_le_pick [OF x, of ?p] assms by (auto simp: alltime_ok_def)
  have d: "f_le (pk_tok_s ?d) (pk_tok_s ?pk)"
  proof (cases "bt_get day (at_day_peaks a)")
    case None
    have "f_le (F_Fin 0) x" using True f_lt_le by blast
    then show ?thesis using None pk(2) by (auto simp: bt_get_or_def peak_default_def intro: f_le_trans)
  next
    case (Some p)
    then have "(day, p) \<in> set (at_day_peaks a)" by (simp add: bt_get_def map_of_SomeD)
    then have "f_le (pk_tok_s p) ?p" using assms by (auto simp: alltime_ok_def)
    then show ?thesis using Some pk(1) by (auto simp: bt_get_or_def intro: f_le_trans)
  qed
  have d1: "f_le (pk_tok_s ?d1) (pk_tok_s ?pk)"
    using d pk(2) by (cases "f_gt x (pk_tok_s ?d)") (simp_all only: if_True if_False Peak.simps)
  let ?m = "bt_insert day ?d1 (at_day_peaks a)"
  have m: "bt_invar ?m" using assms by (simp add: alltime_ok_def bt.invar_put)
  have all: "\<forall>(k, p) \<in> set ?m. f_le (pk_tok_s p) (pk_tok_s ?pk)"
  proof clarify
    fix k p
    assume "(k, p) \<in> set ?m"
    then have "bt_get k ?m = Some p" using m by (simp add: bt_get_def bt_invar_def strict_sorted_iff map_of_eq_Some_iff)
    then have "k = day \<and> p = ?d1 \<or> bt_get k (at_day_peaks a) = Some p"
      using assms by (auto simp: alltime_ok_def bt.lookup_put split: if_splits)
    then show "f_le (pk_tok_s p) (pk_tok_s ?pk)"
    proof
      assume "bt_get k (at_day_peaks a) = Some p"
      then have "(k, p) \<in> set (at_day_peaks a)" by (simp add: bt_get_def map_of_SomeD)
      then have "f_le (pk_tok_s p) ?p" using assms by (auto simp: alltime_ok_def)
      then show ?thesis using pk(1) by (rule f_le_trans)
    qed (use d1 in simp)
  qed
  have nn: "\<not> is_nan (pk_tok_s ?pk)" using pk(2) f_not_nan_le by blast
  have tr: "\<forall>(k, p) \<in> set (trim_days ?m). f_le (pk_tok_s p) (pk_tok_s ?pk)"
    using trim_days_ok [OF m] all by blast
  have "observe_peak a ts day x = a\<lparr>at_peak := ?pk, at_day_peaks := trim_days ?m\<rparr>"
    using True by (simp add: observe_peak_def Let_def)
  moreover have "alltime_ok (a\<lparr>at_peak := ?pk, at_day_peaks := trim_days ?m\<rparr>)"
    by (rule alltime_ok_upd) (use trim_days_ok [OF m] tr nn in blast)+
  ultimately show ?thesis by (simp only:)
next
  case False
  then have "observe_peak a ts day x = a" unfolding observe_peak_def by (rule if_not_P)
  then show ?thesis using assms by simp
qed

lemma alltime_observe_ok: "alltime_ok a \<Longrightarrow> alltime_ok (alltime_observe a ts day epoch m)"
  unfolding alltime_observe_def Let_def by (rule observe_peak_ok) (simp add: alltime_ok_def)

lemma alltime_ok_default: "alltime_ok alltime_default"
  by (simp add: alltime_ok_def alltime_default_def bt.invar_empty peak_default_def)

end
