(* ===== verification/MetricClaims.thy ===== *)
theory MetricClaims
  imports Prom HistFacts Tokens
begin

text \<open>
  The properties of the metrics pipeline: the exposition text (\<open>prom.rs\<close>), the latency histograms
  (\<open>hist.rs\<close>) and the token totals (\<open>tokens.rs\<close>).
\<close>

section \<open>The exposition text\<close>

text \<open>Parsing a rendered exposition gives back every series: name, labels with escaped values, and
  the number.\<close>

theorem prometheus_round_trip:
  assumes "list_all line_ok ms"
  shows "prom_parse (concat (map (\<lambda>m. render_line m @ [NEWLINE]) ms)) = map series_of ms"
  using assms by (rule prom_parse_render)

theorem prometheus_round_trip_witness:
  "prom_parse (concat (map (\<lambda>m. render_line m @ [NEWLINE])
     [(''up'', [(''job'', [QUOTE, BSLASH, NEWLINE])], 7), (''sglang:x'', [], 0)])) =
   map series_of [(''up'', [(''job'', [QUOTE, BSLASH, NEWLINE])], 7), (''sglang:x'', [], 0)]"
  by (rule prometheus_round_trip) code_simp

text \<open>The total of a counter is the exact sum of its rank 0 rows, or of the rows that carry the
  empty priority when the server publishes such a row; the rows of other ranks are not counted.\<close>

theorem total_is_exact:
  assumes "map sr_value (keep_total (matching series name)) = map f_nat ns" "sum_list ns < 2 ^ 53"
  shows "x_total series name = f_nat (sum_list ns) \<and>
    x_total (filter (\<lambda>s. rank0 s) series) name = f_nat (sum_list ns)"
  using x_sum_nats [OF assms] by (simp add: x_total_def matching_rank0)

definition two_ranks :: "Series list" where
  "two_ranks = [\<lparr>sr_name = ''sglang:n'', sr_labels = [(''tp_rank'', ''0'')], sr_value = F_Fin 3\<rparr>,
     \<lparr>sr_name = ''sglang:n'', sr_labels = [(''tp_rank'', ''1'')], sr_value = F_Fin 3\<rparr>,
     \<lparr>sr_name = ''sglang:n'', sr_labels = [], sr_value = F_Fin 4\<rparr>]"

theorem total_is_exact_witness: "x_total two_ranks ''n'' = F_Fin 7"
proof -
  have "map sr_value (keep_total (matching two_ranks ''n'')) = map f_nat [3, 4]"
    by (simp add: two_ranks_def matching_def keep_total_def total_row_def rank0_def sr_label_def)
  from total_is_exact [OF this] show ?thesis by simp
qed

text \<open>When the server reports no usage, the one computed from the used and the total tokens is a
  share between 0 and 1, whatever the two counters say.\<close>

theorem kv_usage_is_a_share:
  assumes "\<not> f_gt (f_max (sm_token_usage m) (sm_full_token_usage m)) (F_Fin 0)"
    "f_gt (sm_max_total_tokens m) (F_Fin 0)" "is_finite (sm_max_total_tokens m)"
    "\<not> is_nan (sm_kv_used_tokens m)"
  shows "f_le (F_Fin 0) (kv_usage m) \<and> f_le (kv_usage m) (F_Fin 1)"
  using assms by (rule kv_usage_fallback)

definition overfull :: ServeMetrics where
  "overfull = (extract_serve_metrics_from [] [] [])\<lparr>sm_max_total_tokens := F_Fin 10,
     sm_kv_used_tokens := F_Fin 30, sm_token_usage := F_Fin 0, sm_full_token_usage := F_Fin 0\<rparr>"

theorem kv_usage_is_a_share_witness: "f_le (F_Fin 0) (kv_usage overfull) \<and> f_le (kv_usage overfull) (F_Fin 1)"
  by (rule kv_usage_is_a_share) (simp_all add: overfull_def f_max_def)

text \<open>The prompt tokens computed between two scrapes are never negative, whichever counter they
  come from and whether or not the counters restarted.\<close>

theorem computed_tokens_nonneg:
  assumes "is_finite (sm_prefill_compute_tokens_total m)"
  shows "f_le (F_Fin 0) (computed_prompt_tokens_since m before)"
  using assms grown_nonneg f_max_nonneg by (simp add: computed_prompt_tokens_since_def)

theorem computed_tokens_nonneg_witness:
  "f_le (F_Fin 0) (computed_prompt_tokens_since (overfull\<lparr>sm_prefill_compute_tokens_total := F_Fin 2\<rparr>)
     (overfull\<lparr>sm_prefill_compute_tokens_total := F_Fin 9\<rparr>))"
  by (rule computed_tokens_nonneg) simp

section \<open>The histograms\<close>

text \<open>C26. The growth between two scrapes of one histogram is, bucket by bucket, the number of
  observations made in between.\<close>

theorem hist_delta_exact:
  assumes "list_all (\<lambda>b. \<not> is_nan b) le" "list_all2 (\<le>) ps cs" "sum_list cs < 2 ^ 53"
  shows "ha_counts (hist_delta (snapshot_of le ps s1) (snapshot_of le cs s2)) = map f_nat (map2 (-) cs ps)"
  using assms by (rule hist_delta_exact_lemma)

theorem hist_delta_exact_witness:
  "ha_counts (hist_delta (snapshot_of [F_Fin 1, F_Fin 2] [1, 0, 2] (F_Fin 5))
     (snapshot_of [F_Fin 1, F_Fin 2] [4, 0, 3] (F_Fin 9))) = map f_nat [3, 0, 1]"
  using hist_delta_exact [of "[F_Fin 1, F_Fin 2]" "[1, 0, 2]" "[4, 0, 3]" "F_Fin 5" "F_Fin 9"] by simp

text \<open>A server restart between two scrapes does not lose or invent observations: the growth is what
  the new process counted.\<close>

theorem hist_delta_restart:
  assumes "sum_list cs < sum_list ps" "sum_list cs < 2 ^ 53"
  shows "ha_counts (hist_delta (snapshot_of le ps s1) (snapshot_of le cs s2)) = map f_nat cs"
  using assms by (rule hist_delta_reset_lemma)

theorem hist_delta_restart_witness:
  "ha_counts (hist_delta (snapshot_of [F_Fin 1] [5, 6] (F_Fin 5)) (snapshot_of [F_Fin 1] [2, 0] (F_Fin 1))) =
   map f_nat [2, 0]"
  by (rule hist_delta_restart) simp_all

text \<open>No bucket of the growth is ever negative, even for scrapes whose cumulative counts are not
  monotone.\<close>

theorem hist_delta_nonneg: "list_all (\<lambda>c. f_le (F_Fin 0) c) (ha_counts (hist_delta prev cur))"
  using hist_delta_nonneg_lemma [of _ prev cur] by (simp add: list_all_iff)

text \<open>The counts written to the database are read back unchanged.\<close>

theorem counts_round_trip:
  assumes "ha_counts a = map f_nat ns" "list_all (\<lambda>n. n < 2 ^ 53) ns" "length ns < 2 ^ 64"
  shows "decode_counts (encode_counts a) (length ns) = ha_counts a"
  using assms by (rule decode_encode_counts)

theorem counts_round_trip_witness:
  "decode_counts (encode_counts \<lparr>ha_le = [F_Fin 1, F_Fin 2], ha_counts = map f_nat [0, 12, 3], ha_sum = F_Fin 9, ha_count = F_Fin 15\<rparr>) 3 =
   map f_nat [0, 12, 3]"
  using counts_round_trip [of "\<lparr>ha_le = [F_Fin 1, F_Fin 2], ha_counts = map f_nat [0, 12, 3], ha_sum = F_Fin 9, ha_count = F_Fin 15\<rparr>"
      "[0, 12, 3]"] by (simp add: numeral_3_eq_3)

text \<open>A quantile is read from the bucket that holds its rank: the buckets before it hold less than the
  rank, with it they reach it; the value is not below that bucket's lower bound, and the open last
  bucket is reported as the last finite bound.\<close>

theorem quantile_in_its_bucket:
  assumes "ha_counts a = map f_nat ns" "0 < sum_list ns" "sum_list ns < 2 ^ 53"
    "ha_le a \<noteq> []" "list_all bound_ok (ha_le a)" "sorted_wrt f_lt (ha_le a)" "is_finite q"
  shows "\<exists>k v. quantile a q = Some v \<and>
    rank_bucket (f_mul (f_clamp q (F_Fin 0) (F_Fin 1)) (ha_total a)) 0 ns k \<and>
    (if k < length (ha_le a) then f_le (bucket_lower (ha_le a) k) v else v = last (ha_le a))"
  using assms by (rule quantile_bucket)

definition small_hist :: HistAccum where
  "small_hist = \<lparr>ha_le = [F_Fin 1, F_Fin 2], ha_counts = map f_nat [1, 2, 1], ha_sum = F_Fin 6, ha_count = F_Fin 4\<rparr>"

lemma small_hist_ok:
  "ha_counts small_hist = map f_nat [1, 2, 1]" "list_all bound_ok (ha_le small_hist)"
  "sorted_wrt f_lt (ha_le small_hist)" "ha_le small_hist \<noteq> []"
  using rnd_of_nat [of 2] by (simp_all add: small_hist_def bound_ok_def)

theorem quantile_in_its_bucket_witness:
  "\<exists>k v. quantile small_hist (F_Fin 1) = Some v \<and>
    rank_bucket (f_mul (f_clamp (F_Fin 1) (F_Fin 0) (F_Fin 1)) (ha_total small_hist)) 0 [1, 2, 1] k \<and>
    (if k < length (ha_le small_hist) then f_le (bucket_lower (ha_le small_hist) k) v
     else v = last (ha_le small_hist))"
  by (rule quantile_in_its_bucket) (simp_all add: small_hist_ok)

text \<open>The share of the observations at or below a limit is between 0 and 1.\<close>

theorem fraction_is_a_share:
  assumes "ha_counts a = map f_nat ns" "sum_list ns < 2 ^ 53" "list_all bound_ok (ha_le a)"
    "fraction_le a x = Some p"
  shows "f_le (F_Fin 0) p \<and> f_le p (F_Fin 1)"
  using assms by (rule fraction_le_range)

theorem fraction_is_a_share_witness:
  "\<exists>p. fraction_le small_hist (F_Fin 1) = Some p \<and> f_le (F_Fin 0) p \<and> f_le p (F_Fin 1)"
proof -
  have t: "ha_total small_hist = F_Fin 4"
    using f_sum_nats [of "[1, 2, 1]"] by (simp add: ha_total_def small_hist_ok)
  obtain p where p: "fraction_le small_hist (F_Fin 1) = Some p"
    using t by (simp add: fraction_le_def Let_def small_hist_ok(4))
  with fraction_is_a_share [OF small_hist_ok(1) _ small_hist_ok(2) p] show ?thesis by simp
qed

section \<open>The window tracker\<close>

definition observe_sets :: "LatencyTracker \<Rightarrow> (i64 \<times> HistSet option) list \<Rightarrow> LatencyTracker" where
  "observe_sets t xs = foldl (\<lambda>t (ts, s). fst (tracker_observe t ts s)) t xs"

lemma observe_sets_shape:
  "list_all (\<lambda>(ts, s). s = None \<or> length (the s) = N_HIST) xs \<Longrightarrow> tracker_shape (observe_sets tracker0 xs)"
proof (induction xs rule: rev_induct)
  case Nil
  then show ?case by (simp add: observe_sets_def tracker_shape_default)
next
  case (snoc x xs)
  obtain ts s where x: "x = (ts, s)" by fastforce
  have "tracker_shape (observe_sets tracker0 xs)" using snoc by simp
  then have "tracker_shape (fst (tracker_observe (observe_sets tracker0 xs) ts s))"
    using snoc.prems x by (intro tracker_observe_ok [THEN conjunct1]) auto
  then show ?case by (simp add: observe_sets_def x)
qed

text \<open>After any scrapes and one more, the open minute and the open ten minutes are the ones the
  last scrape falls in, one accumulator per histogram, and at most ten closed minutes are kept.\<close>

theorem tracker_windows_current:
  assumes "list_all (\<lambda>(ts, s). s = None \<or> length (the s) = N_HIST) (xs @ [(ts, s)])"
  shows "lt_ok ts (observe_sets tracker0 (xs @ [(ts, s)]))"
proof -
  have "tracker_shape (observe_sets tracker0 xs)" using assms by (simp add: observe_sets_shape)
  then have "lt_ok ts (fst (tracker_observe (observe_sets tracker0 xs) ts s))"
    using assms by (intro tracker_observe_ok [THEN conjunct2]) auto
  then show ?thesis by (simp add: observe_sets_def)
qed

theorem tracker_windows_current_witness:
  "lt_ok 61 (observe_sets tracker0 ([(0, None)] @ [(61, Some (replicate N_HIST None))]))"
  by (rule tracker_windows_current) simp

text \<open>A window is reported when the clock leaves it, with exactly what it had accumulated, and
  never when it is empty.\<close>

theorem windows_close_once:
  assumes "w \<in> set (snd (tracker_observe t ts s))"
  shows "(cw_res w = 60 \<and> lt_minute t = Some (cw_ts w, cw_accs w) \<or>
          cw_res w = 600 \<and> lt_ten t = Some (cw_ts w, cw_accs w)) \<and>
    cw_ts w \<noteq> window_start (cw_res w) ts \<and> (\<exists>a \<in> set (cw_accs w). \<not> ha_is_empty a)"
  using assms by (rule closed_window)

definition one_minute :: LatencyTracker where
  "one_minute = tracker0\<lparr>lt_minute := Some (0, [small_hist])\<rparr>"

theorem windows_close_once_witness:
  "\<exists>w. w \<in> set (snd (tracker_observe one_minute 75 None)) \<and> cw_ts w = 0 \<and> cw_ts w \<noteq> window_start (cw_res w) 75"
proof -
  have t: "\<not> ha_is_empty small_hist"
    using f_sum_nats [of "[1, 2, 1]"] by (simp add: ha_is_empty_def ha_total_def small_hist_ok)
  have w: "\<lparr>cw_res = 60, cw_ts = 0, cw_accs = [small_hist]\<rparr> \<in> set (snd (tracker_observe one_minute 75 None))"
    using t by (simp add: tracker_observe_def Let_def one_minute_def tick_slot_def window_start_def closed_of_def
        tracker0_def)
  from windows_close_once [OF this] w show ?thesis by force
qed

section \<open>The token totals\<close>

text \<open>The running total of a counter is exactly the tokens it gained over its readings, counting a
  reading below its predecessor as a restart from zero.\<close>

theorem counter_total_exact:
  assumes "t + growth_of l vs < 2 ^ 53" "list_all (\<lambda>v. v < 2 ^ 53) vs"
  shows "ct_total (observe_all \<lparr>ct_total = f_nat t, ct_last = Some (f_nat l)\<rparr> vs) = f_nat (t + growth_of l vs)"
  using assms by (rule observe_all_exact)

theorem counter_total_exact_witness:
  "ct_total (observe_all \<lparr>ct_total = f_nat 100, ct_last = Some (f_nat 5)\<rparr> [8, 8, 2, 6]) = f_nat 109"
  using counter_total_exact [of 100 5 "[8, 8, 2, 6]"] by simp

text \<open>Over any samples, NaN and infinite readings included, the all-time ledger keeps its days in
  order and at most sixty of them, and no day's peak is above the all-time peak.\<close>

theorem ledger_invariant:
  "alltime_ok (foldl (\<lambda>a (ts, day, epoch, m). alltime_observe a ts day epoch m) alltime_default samples)"
  by (induction samples rule: rev_induct) (auto simp: alltime_ok_default alltime_observe_ok)

end
