(* ===== verification/Incidents.thy ===== *)
theory Incidents
  imports Sustained BTree HostText
begin

text \<open>
  \<open>crates/lss-core/src/incidents.rs\<close>: successive observations become open, close and
  point-in-time operations on incidents.
\<close>

definition KIND_SERVE_DOWN :: string where "KIND_SERVE_DOWN = ''serve_down''"
definition KIND_GATE_DOWN :: string where "KIND_GATE_DOWN = ''gate_down''"
definition KIND_CONTAINER_RESTART :: string where "KIND_CONTAINER_RESTART = ''container_restart''"
definition KIND_XID :: string where "KIND_XID = ''xid''"

definition MISSES_TO_OPEN :: u32 where "MISSES_TO_OPEN = 2"

datatype IncidentOp =
    Open (op_kind: string) (op_start: i64) (op_detail: string)
  | Close (op_kind: string) (op_end: i64) (op_duration_secs: i64)
  | Event (op_kind: string) (op_ts: i64) (op_subject: string) (op_detail: string) (op_key: "string option")

definition xid_key :: "string \<Rightarrow> u32 \<Rightarrow> i64 \<Rightarrow> string" where
  "xid_key label xid ts = ''xid|'' @ label @ ''|'' @ show_nat xid @ ''|'' @ show_int ts"

definition xid_key_from_detail :: "string \<Rightarrow> i64 \<Rightarrow> string option" where
  "xid_key_from_detail detail start =
    (case split_once '' Xid '' detail of None \<Rightarrow> None
     | Some (label, rest) \<Rightarrow>
        (case parse_uint 32 (takeWhile is_digit rest) of None \<Rightarrow> None
         | Some xid \<Rightarrow> if label = [] then None else Some (xid_key (trim label) xid start)))"

record DownTracker =
  dt_misses :: u32
  dt_first_miss :: "i64 option"
  dt_open_since :: "i64 option"

definition down_default :: DownTracker where
  "down_default = \<lparr>dt_misses = 0, dt_first_miss = None, dt_open_since = None\<rparr>"

definition down_step ::
  "DownTracker \<Rightarrow> string \<Rightarrow> i64 \<Rightarrow> bool \<Rightarrow> string \<Rightarrow> DownTracker \<times> IncidentOp list" where
  "down_step d kind now up detail =
    (if up then
       (d\<lparr>dt_open_since := None, dt_misses := 0, dt_first_miss := None\<rparr>,
        case dt_open_since d of Some start \<Rightarrow> [Close kind now (now - start)] | None \<Rightarrow> [])
     else
       let misses = min (dt_misses d + 1) (2 ^ 32 - 1);
           first = (case dt_first_miss d of None \<Rightarrow> now | Some t \<Rightarrow> t);
           d1 = d\<lparr>dt_misses := misses, dt_first_miss := Some first\<rparr>
       in if dt_open_since d1 = None \<and> MISSES_TO_OPEN \<le> misses
          then (d1\<lparr>dt_open_since := Some first\<rparr>, [Open kind first detail])
          else (d1, []))"

record IncidentTracker =
  it_serve :: DownTracker
  it_gate :: DownTracker
  it_containers :: "(string, ContainerState) btree"

definition tracker_default :: IncidentTracker where
  "tracker_default = \<lparr>it_serve = down_default, it_gate = down_default, it_containers = bt_empty\<rparr>"

record IncidentInput =
  ii_now :: i64
  ii_serve_up :: bool
  ii_serve_detail :: string
  ii_gate_up :: bool
  ii_gate_detail :: string
  ii_containers :: "(string \<times> ContainerState) list"
  ii_xids :: "XidEvent list"

definition serve_down_since :: "IncidentTracker \<Rightarrow> i64 option" where
  "serve_down_since t = dt_open_since (it_serve t)"

definition gate_down_since :: "IncidentTracker \<Rightarrow> i64 option" where
  "gate_down_since t = dt_open_since (it_gate t)"

definition restart_detail :: "ContainerState \<Rightarrow> ContainerState \<Rightarrow> string option" where
  "restart_detail prev cur =
    (if cs_name cur \<noteq> cs_name prev then Some (cs_name prev @ '' replaced by '' @ cs_name cur)
     else if cs_restart_count cur \<noteq> cs_restart_count prev then
       Some (cs_name cur @ '' RestartCount '' @ show_nat (cs_restart_count prev) @ '' -> '' @
         show_nat (cs_restart_count cur))
     else if cs_started_at cur \<noteq> cs_started_at prev \<and> cs_started_at cur \<noteq> 0 then
       (let up_for = (if 0 < cs_started_at prev \<and> cs_started_at prev < cs_started_at cur
          then '' (previous run lasted '' @ fmt_duration (cs_started_at cur - cs_started_at prev) @ '')''
          else [])
        in Some (cs_name cur @ '' new StartedAt'' @ up_for))
     else None)"

text \<open>The loop over the containers, then the loop over the Xids.\<close>

definition container_event :: "i64 \<Rightarrow> (string, ContainerState) btree \<Rightarrow> string \<Rightarrow> ContainerState \<Rightarrow> IncidentOp list" where
  "container_event now m role cur =
    (case bt_get role m of None \<Rightarrow> []
     | Some prev \<Rightarrow> (case restart_detail prev cur of None \<Rightarrow> []
       | Some detail \<Rightarrow>
          [Event KIND_CONTAINER_RESTART
            (if cs_started_at prev < cs_started_at cur then cs_started_at cur else now)
            role detail None]))"

fun containers_loop ::
  "i64 \<Rightarrow> (string, ContainerState) btree \<Rightarrow> (string \<times> ContainerState) list \<Rightarrow>
   (string, ContainerState) btree \<times> IncidentOp list" where
  "containers_loop now m [] = (m, [])"
| "containers_loop now m ((role, cur) # cs) =
    (let ev = container_event now m role cur;
         (m', ops) = containers_loop now (bt_insert role cur m) cs
     in (m', ev @ ops))"

definition xid_event :: "XidEvent \<Rightarrow> IncidentOp" where
  "xid_event x =
    (let detail = gpu_label x @ '' Xid '' @ show_nat (xe_xid x) @ '' ('' @ xid_hint (xe_xid x) @ '') '' @ xe_detail x
     in Event KIND_XID (xe_ts x) (gpu_label x) (trim detail)
          (Some (xid_key (gpu_label x) (xe_xid x) (xe_ts x))))"

definition tracker_step :: "IncidentTracker \<Rightarrow> IncidentInput \<Rightarrow> IncidentTracker \<times> IncidentOp list" where
  "tracker_step t i =
    (let (serve, ops1) = down_step (it_serve t) KIND_SERVE_DOWN (ii_now i) (ii_serve_up i) (ii_serve_detail i);
         (gate, ops2) = down_step (it_gate t) KIND_GATE_DOWN (ii_now i) (ii_gate_up i) (ii_gate_detail i);
         (cs, ops3) = containers_loop (ii_now i) (it_containers t) (ii_containers i)
     in (\<lparr>it_serve = serve, it_gate = gate, it_containers = cs\<rparr>,
         ops1 @ ops2 @ ops3 @ map xid_event (ii_xids i)))"

section \<open>The down tracker as a firing component\<close>

fun edge_of_ops :: "IncidentOp list \<Rightarrow> edge" where
  "edge_of_ops (Open _ _ _ # _) = E_Fire"
| "edge_of_ops (Close _ _ _ # _) = E_Recover"
| "edge_of_ops _ = E_None"

text \<open>Inputs: the clock and "down".\<close>

definition down_input :: "DownTracker \<Rightarrow> i64 \<times> bool \<Rightarrow> DownTracker \<times> edge" where
  "down_input d i = (let (d', ops) = down_step d KIND_SERVE_DOWN (fst i) (\<not> snd i) [] in (d', edge_of_ops ops))"

interpretation down: edge_machine down_input "\<lambda>d. dt_open_since d \<noteq> None"
  by unfold_locales (auto simp: down_input_def down_step_def Let_def split: if_splits option.splits)

text \<open>The specification: the tracker is a function of the run of misses the history ends in.\<close>

definition down_spec :: "(i64 \<times> bool) list \<Rightarrow> DownTracker" where
  "down_spec hist = \<lparr>dt_misses = min (length (streak hist)) (2 ^ 32 - 1), dt_first_miss = streak_start hist,
     dt_open_since = (if MISSES_TO_OPEN \<le> length (streak hist) then streak_start hist else None)\<rparr>"

lemma streak_start_None: "streak_start hist = None \<longleftrightarrow> streak hist = []"
  by (simp add: streak_start_def split: list.splits)

lemma down_spec_step:
  "fst (down_input (down_spec hist) (now, c)) = down_spec (hist @ [(now, c)])"
proof (cases c)
  case False
  then show ?thesis
    by (simp add: down_input_def down_step_def down_spec_def streak_snoc streak_start_snoc
        case_prod_beta Let_def MISSES_TO_OPEN_def)
next
  case True
  show ?thesis
  proof (cases "streak hist")
    case Nil
    then have "streak_start hist = None" by (simp add: streak_start_None)
    with Nil True show ?thesis
      by (simp add: down_input_def down_step_def down_spec_def streak_snoc streak_start_snoc
          case_prod_beta Let_def MISSES_TO_OPEN_def)
  next
    case (Cons i ys)
    then have "streak_start hist = Some (fst i)" by (simp add: streak_start_def)
    with Cons True show ?thesis
      by (auto simp: down_input_def down_step_def down_spec_def streak_snoc streak_start_snoc
          case_prod_beta Let_def MISSES_TO_OPEN_def min_def)
  qed
qed

lemma down_run_spec: "fst (run_edges down_input down_default hist) = down_spec hist"
proof (induction hist rule: rev_induct)
  case Nil
  then show ?case
    by (simp add: down_default_def down_spec_def streak_def streak_start_def MISSES_TO_OPEN_def)
next
  case (snoc i hist)
  then show ?case
    using down_spec_step [of hist "fst i" "snd i"]
    by (simp add: run_edges_append case_prod_beta Let_def)
qed

section \<open>The Xid key\<close>

lemma split_once_first:
  "p \<notin> set a \<Longrightarrow> split_once (p # pat) (a @ (p # pat) @ b) = Some (a, b)"
proof (induction a)
  case Nil
  have "split_once (p # pat) ((p # pat) @ b) = Some ([], drop (length (p # pat)) ((p # pat) @ b))"
    using starts_with_append [of "p # pat" b] by simp
  then show ?case by simp
next
  case (Cons c a)
  then show ?case by auto
qed

lemma takeWhile_show: "\<not> is_digit c \<Longrightarrow> takeWhile is_digit (show_nat n @ c # s) = show_nat n"
  using show_nat_digits [of n] by (simp add: takeWhile_append list_all_iff)

lemma xid_key_of_detail:
  assumes "split_once '' Xid '' (label @ '' Xid '' @ show_nat xid @ c # s) = Some (label, show_nat xid @ c # s)"
    and "\<not> is_digit c" "label \<noteq> []" "trim label = label" "xid < 2 ^ 32"
  shows "xid_key_from_detail (label @ '' Xid '' @ show_nat xid @ c # s) ts = Some (xid_key label xid ts)"
  using assms by (simp add: xid_key_from_detail_def takeWhile_show parse_uint_show)

text \<open>Labels the split finds again: a GPU index, or a PCI address without blanks and without the
  letter X.\<close>

definition pci_plain :: "string \<Rightarrow> bool" where
  "pci_plain p \<longleftrightarrow> p \<noteq> [] \<and> list_all (\<lambda>c. \<not> is_ws c \<and> c \<noteq> CHR ''X'') p"

lemma split_gpu_label:
  "split_once '' Xid '' ((''GPU'' @ show_nat i) @ '' Xid '' @ s) = Some (''GPU'' @ show_nat i, s)"
proof -
  have "CHR '' '' \<notin> set (''GPU'' @ show_nat i)"
    using show_nat_digits [of i] is_digit_not by (auto simp: list_all_iff)
  from split_once_first [OF this, of "''Xid ''" s] show ?thesis by simp
qed

lemma split_pci_label:
  assumes "pci_plain p"
  shows "split_once '' Xid '' ((''PCI '' @ p) @ '' Xid '' @ s) = Some (''PCI '' @ p, s)"
proof -
  have sp: "CHR '' '' \<notin> set p" using assms by (auto simp: pci_plain_def list_all_iff is_ws_def)
  obtain c q where p: "p = c # q" "c \<noteq> CHR ''X''"
    using assms by (cases p) (auto simp: pci_plain_def)
  from split_once_first [OF sp, of "''Xid ''" s]
  have "split_once '' Xid '' (p @ '' Xid '' @ s) = Some (p, s)" by simp
  then show ?thesis using p by simp
qed

lemma trim_label:
  assumes "xe_gpu x \<noteq> None \<or> pci_plain (xe_pci x)"
  shows "gpu_label x \<noteq> [] \<and> \<not> is_ws (hd (gpu_label x)) \<and> \<not> is_ws (last (gpu_label x))"
proof (cases "xe_gpu x")
  case (Some i)
  have "is_digit (last (show_nat i))"
    using show_nat_digits [of i] show_nat_ne [of i] last_in_set by (force simp: list_all_iff)
  with Some show ?thesis by (simp add: gpu_label_def is_digit_not_ws) (simp add: is_ws_def)
next
  case None
  then have p: "pci_plain (xe_pci x)" using assms by simp
  then have "xe_pci x \<noteq> []" "\<not> is_ws (last (xe_pci x))"
    by (auto simp: pci_plain_def list_all_iff)
  with None show ?thesis by (simp add: gpu_label_def) (simp add: is_ws_def)
qed

lemma split_label:
  assumes "xe_gpu x \<noteq> None \<or> pci_plain (xe_pci x)"
  shows "split_once '' Xid '' (gpu_label x @ '' Xid '' @ s) = Some (gpu_label x, s)"
proof (cases "xe_gpu x")
  case (Some i)
  then have "gpu_label x = ''GPU'' @ show_nat i" by (simp add: gpu_label_def)
  then show ?thesis by (simp only: split_gpu_label)
next
  case None
  then have "gpu_label x = ''PCI '' @ xe_pci x" "pci_plain (xe_pci x)"
    using assms by (simp_all add: gpu_label_def)
  then show ?thesis by (simp only: split_pci_label)
qed

lemma xid_event_detail:
  assumes "xe_gpu x \<noteq> None \<or> pci_plain (xe_pci x)"
  shows "\<exists>r. op_detail (xid_event x) = gpu_label x @ '' Xid '' @ show_nat (xe_xid x) @ CHR '' '' # r"
proof -
  let ?front = "gpu_label x @ '' Xid '' @ show_nat (xe_xid x) @ '' ('' @ xid_hint (xe_xid x) @ '')''"
  have "hd ?front = hd (gpu_label x)" "?front \<noteq> []" "\<not> is_ws (last ?front)"
    using trim_label [OF assms] by (simp_all add: is_ws_def)
  then have "trim (?front @ '' '' @ xe_detail x) = ?front @ trim_end_by is_ws ('' '' @ xe_detail x)"
    using trim_label [OF assms] trim_start_id [of "?front @ '' '' @ xe_detail x"]
      trim_end_append [of ?front is_ws "'' '' @ xe_detail x"]
    by (simp only: trim_def hd_append2 append_is_Nil_conv) simp
  then show ?thesis by (simp add: xid_event_def Let_def)
qed

end
