(* ===== verification/PartClaims.thy ===== *)
theory PartClaims
  imports Sustained TimeUtil Units Gpu Gate HostText Incidents
begin

text \<open>
  The properties of the smaller parts: the sliding windows of the alert engine, the incident tracker,
  the maintenance window, the gate's series names and upstreams, the GPU masks, and the texts.
\<close>

section \<open>The sliding windows\<close>

definition feed_growth :: "i64 \<Rightarrow> (i64 \<times> u64) list \<Rightarrow> GrowthWindow" where
  "feed_growth win rs = foldl (\<lambda>w (t, v). fst (growth_push w t v win)) growth_default rs"

definition feed_disk :: "i64 \<Rightarrow> (i64 \<times> u64) list \<Rightarrow> DiskGrowth" where
  "feed_disk win rs = foldl (\<lambda>w (t, v). fst (disk_growth_push w t v win)) disk_growth_default rs"

lemma feed_growth_sorted: "sorted (map snd (gw_points (feed_growth win rs)))"
  by (induction rs rule: rev_induct)
    (auto simp: feed_growth_def growth_default_def intro: growth_push_points_sorted)

text \<open>The growth a counter window reports is exact: it is the new value less the oldest kept one,
  and the subtraction never underflows, whatever values (restarts included) were pushed before.\<close>

theorem growth_is_exact:
  "\<exists>p ps. gw_points (fst (growth_push (feed_growth win rs) now v win)) = p # ps \<and> snd p \<le> v \<and>
    snd (growth_push (feed_growth win rs) now v win) + snd p = v"
  using feed_growth_sorted by (rule growth_push_exact)

text \<open>A counter window fed at increasing times holds at most one point per second of its window, and
  one more, so its memory is bounded whatever the number of polls.\<close>

theorem growth_window_bounded:
  assumes "sorted_wrt (<) (map fst rs)" "rs \<noteq> []" "0 \<le> win"
  shows "length (gw_points (feed_growth win rs)) \<le> nat win + 1"
  unfolding feed_growth_def
  by (rule growth.feed_bounded) (use assms in \<open>simp_all add: growth_default_def\<close>)

theorem growth_window_bounded_witness: "length (gw_points (feed_growth 2 [(1, 5), (2, 7), (9, 3)])) \<le> 3"
  using growth_window_bounded [of "[(1, 5), (2, 7), (9, 3)]" 2] by simp

text \<open>The drop the disk window reports is the largest fall from a reading it keeps to the present
  one: no kept reading is above it, and it is attained unless it is zero.\<close>

theorem disk_drop_is_largest:
  "(\<forall>(t, v) \<in> set (dg_points (fst (disk_growth_push w now avail win))).
      v \<le> avail + snd (disk_growth_push w now avail win)) \<and>
   (snd (disk_growth_push w now avail win) = 0 \<or>
     (\<exists>t. (t, avail + snd (disk_growth_push w now avail win)) \<in>
       set (dg_points (fst (disk_growth_push w now avail win)))))"
  by (rule disk_growth_push_drop) simp

theorem disk_drop_is_largest_witness:
  "200 \<le> 150 + snd (disk_growth_push (feed_disk 600 [(0, 200)]) 10 150 600)"
  using disk_drop_is_largest [of "feed_disk 600 [(0, 200)]" 10 150 600]
  by (simp add: feed_disk_def disk_growth_push_def disk_growth_default_def Let_def)

section \<open>The incident tracker\<close>

definition run_tracker :: "IncidentInput list \<Rightarrow> IncidentTracker" where
  "run_tracker is = foldl (\<lambda>t i. fst (tracker_step t i)) tracker_default is"

lemma down_step_input:
  "fst (down_step d kind (ii_now i) up detail) = fst (down_input d (ii_now i, \<not> up))"
  by (simp add: down_input_def down_step_def Let_def case_prod_beta)

lemma tracker_step_downs:
  "it_serve (fst (tracker_step t i)) = fst (down_input (it_serve t) (ii_now i, \<not> ii_serve_up i))"
  "it_gate (fst (tracker_step t i)) = fst (down_input (it_gate t) (ii_now i, \<not> ii_gate_up i))"
  by (simp_all add: tracker_step_def case_prod_beta Let_def down_step_input)

text \<open>C21. After any polls both down trackers are what the history says: an outage is open exactly when
  the last two polls or more missed, it starts at the first miss of the run, and the misses are
  counted.\<close>

theorem tracker_refines_history:
  "it_serve (run_tracker is) = down_spec (map (\<lambda>i. (ii_now i, \<not> ii_serve_up i)) is) \<and>
   it_gate (run_tracker is) = down_spec (map (\<lambda>i. (ii_now i, \<not> ii_gate_up i)) is)"
proof (induction "is" rule: rev_induct)
  case Nil
  then show ?case using down_run_spec [of "[]"] by (simp add: run_tracker_def tracker_default_def)
next
  case (snoc i xs)
  then show ?case by (simp add: run_tracker_def tracker_step_downs down_spec_step)
qed

text \<open>The key of a recorded Xid is recovered from its recorded text, for every GPU index and for
  every plain PCI address.\<close>

theorem xid_key_round_trip:
  assumes "xe_gpu x \<noteq> None \<or> pci_plain (xe_pci x)" "xe_xid x < 2 ^ 32"
  shows "xid_key_from_detail (op_detail (xid_event x)) (xe_ts x) = op_key (xid_event x)"
proof -
  obtain r where d: "op_detail (xid_event x) = gpu_label x @ '' Xid '' @ show_nat (xe_xid x) @ CHR '' '' # r"
    using xid_event_detail [OF assms(1)] by blast
  have "xid_key_from_detail (gpu_label x @ '' Xid '' @ show_nat (xe_xid x) @ CHR '' '' # r) (xe_ts x) =
    Some (xid_key (gpu_label x) (xe_xid x) (xe_ts x))"
    by (rule xid_key_of_detail [OF split_label [OF assms(1)]])
      (use trim_label [OF assms(1)] assms(2) in \<open>auto simp: is_digit_def intro: trim_id\<close>)
  then show ?thesis unfolding d by (simp add: xid_event_def Let_def)
qed

definition fallen_gpu :: XidEvent where
  "fallen_gpu = \<lparr>xe_ts = 1700000000, xe_pci = ''0000:21:00'', xe_xid = 79,
     xe_gpu = Some 3, xe_detail = ''GPU has fallen off the bus.''\<rparr>"

theorem xid_key_round_trip_witness:
  "xid_key_from_detail (op_detail (xid_event fallen_gpu)) 1700000000 = op_key (xid_event fallen_gpu)"
  using xid_key_round_trip [of fallen_gpu] by (simp add: fallen_gpu_def)

section \<open>The maintenance window\<close>

text \<open>However it is started, extended, stopped or left to expire, an active maintenance window has a
  reason and lasts between one minute and four hours from its start.\<close>

theorem maintenance_is_bounded:
  assumes "maint_reachable s" "ms_active s"
  shows "ms_reason s \<noteq> [] \<and> ms_started_at s + 60 \<le> ms_expires_at s \<and> ms_expires_at s \<le> ms_started_at s + 14400"
  using maint_reachable_ok [OF assms(1)] assms(2) by (simp add: maint_ok_def)

theorem maintenance_is_bounded_witness:
  "ms_expires_at (fst (maintenance_start maintenance_default 1000 ''swap'' 9999)) \<le> 15400"
proof -
  have "trim ''swap'' \<noteq> []" by code_simp
  then have s: "ms_active (fst (maintenance_start maintenance_default 1000 ''swap'' 9999)) \<and>
    ms_started_at (fst (maintenance_start maintenance_default 1000 ''swap'' 9999)) = 1000"
    by (simp add: maintenance_start_def Let_def)
  have "maint_reachable (fst (maintenance_start maintenance_default 1000 ''swap'' 9999))"
    by (rule maint_reachable.step [OF maint_reachable.init maint_step.start])
  from maintenance_is_bounded [OF this] s show ?thesis by simp
qed

section \<open>The gate\<close>

text \<open>A series id made from any user name is safe to put in a query: at most forty-two characters,
  none of them a separator.\<close>

theorem series_id_is_safe:
  "set (series_id lane user) \<inter> {CHR '','', CHR '':'', CHR '' ''} = {} \<and> length (series_id lane user) \<le> 42"
  by (rule series_id_safe)

text \<open>The upstream named for an engine is one the gate attributes, and it is the one that has the
  engine's model loaded whenever exactly one has.\<close>

theorem this_upstream_is_attributed:
  assumes "this_upstream g m = Some u"
  shows "\<exists>ups. gah_attributed_upstreams g = Some ups \<and> u \<in> set ups \<and>
    (\<forall>model one. m = Some model \<and> model \<noteq> [] \<and>
       filter (\<lambda>u. case bt_get u (gah_upstream_loaded g) of None \<Rightarrow> False | Some l \<Rightarrow> model \<in> set l) ups = [one] \<longrightarrow> u = one)"
  using this_upstream_configured [OF assms] assms
  by (auto simp: this_upstream_def Let_def split: option.splits list.splits if_splits)

definition two_engines :: GateHealth where
  "two_engines = \<lparr>gah_version = [], gah_upstream_ok = True, gah_trusted = lane_default, gah_public = lane_default,
     gah_shadow = None, gah_users = None, gah_totals = None, gah_attributed_upstreams = Some [''a'', ''b''],
     gah_upstream_loaded = [(''a'', [''m'']), (''b'', [''n''])]\<rparr>"

theorem this_upstream_is_attributed_witness: "this_upstream two_engines (Some ''n'') = Some ''b''"
proof -
  have "this_upstream two_engines (Some ''n'') = Some ''b''"
    by (simp add: this_upstream_def two_engines_def bt_get_def)
  from this_upstream_is_attributed [OF this] this show ?thesis by blast
qed

section \<open>Texts and masks\<close>

text \<open>A printed duration reads back as the duration cut to the grain the text shows: whole seconds
  below an hour, minutes below a day, hours above.\<close>

theorem duration_round_trip: "read_duration 0 (fmt_duration (int s)) = s - s mod duration_grain s"
  by (rule read_fmt_duration_nat)

text \<open>A temperature is printed in the widest style that fits its column: it fits whenever some style
  does, and no style that fits is wider.\<close>

theorem temperature_fits_widest:
  assumes "char_count (fmt_temp_with c u style) \<le> width"
  shows "char_count (temp_fit u (Some c) width) \<le> width \<and>
    char_count (fmt_temp_with c u style) \<le> char_count (temp_fit u (Some c) width)"
  using assms by (rule temp_fit_widest)

theorem temperature_fits_widest_witness:
  "char_count (fmt_temp_with (F_Fin 60) U_C Compact) \<le> char_count (temp_fit U_C (Some (F_Fin 60))
     (char_count (fmt_temp_with (F_Fin 60) U_C Compact)))"
  using temperature_fits_widest [OF order_refl] by blast

text \<open>A GPU counts as thermally throttled exactly when one of the two thermal flags is listed for it,
  and no flag is listed twice.\<close>

theorem throttle_flags_faithful:
  "(thermal_throttled g \<longleftrightarrow>
     ''hw_thermal'' \<in> set (throttle_flags (gs_throttle_mask g)) \<or>
     ''sw_thermal'' \<in> set (throttle_flags (gs_throttle_mask g))) \<and>
   distinct (throttle_flags (gs_throttle_mask g))"
  using throttle_flags_thermal throttle_flags_distinct by (simp add: thermal_throttled_def)

end
