(* ===== verification/Probe.thy ===== *)
theory Probe
  imports RustText
begin

text \<open>
  \<open>crates/lss-core/src/probe.rs\<close>: when the C1 decode probe may run, what a finished probe proves, and
  the arithmetic of its stream. The event-stream reader \<open>parse_sse_line\<close> indexes a JSON document of
  \<open>serde_json\<close> and is outside the model.
\<close>

section \<open>May it run now\<close>

datatype ProbeDecision = P_Run | P_NotDue | P_InFlight | P_SkipBusy | P_SkipDown

record ProbeGate =
  pg_now :: i64
  pg_last_attempt :: "i64 option"
  pg_interval_secs :: i64
  pg_in_flight :: bool
  pg_serve_up :: bool
  pg_running :: f64
  pg_queue :: f64

definition probe_decide :: "ProbeGate \<Rightarrow> ProbeDecision" where
  "probe_decide g =
    (if pg_in_flight g then P_InFlight
     else if (case pg_last_attempt g of None \<Rightarrow> False | Some t \<Rightarrow> pg_now g - t < pg_interval_secs g) then P_NotDue
     else if \<not> pg_serve_up g then P_SkipDown
     else if f_gt (pg_running g) (F_Fin 0) \<or> f_gt (pg_queue g) (F_Fin 0) then P_SkipBusy
     else P_Run)"

section \<open>The record of a probe\<close>

record ProbeRecord =
  pr_ts :: i64
  pr_status :: string
  pr_ttft_ms :: "f64 option"
  pr_decode_tok_s :: "f64 option"
  pr_tokens :: "u32 option"
  pr_detail :: string
  pr_http_status :: "nat option"
  pr_valid :: bool
  pr_invalid_reason :: "string option"
  pr_unverified :: bool

definition INVALID_BUSY_BEFORE :: string where "INVALID_BUSY_BEFORE = ''busy_before''"
definition INVALID_SLOW_TTFT :: string where "INVALID_SLOW_TTFT = ''slow_ttft''"
definition INVALID_CONTENDED :: string where "INVALID_CONTENDED = ''contended''"
definition INVALID_BURST :: string where "INVALID_BURST = ''burst''"

definition skipped_busy :: "i64 \<Rightarrow> f64 \<Rightarrow> f64 \<Rightarrow> ProbeRecord" where
  "skipped_busy ts running queue =
    \<lparr>pr_ts = ts, pr_status = ''skipped_busy'', pr_ttft_ms = None, pr_decode_tok_s = None, pr_tokens = None,
     pr_detail = ''running='' @ show_f64 running @ '' queue='' @ show_f64 queue, pr_http_status = None,
     pr_valid = False, pr_invalid_reason = Some INVALID_BUSY_BEFORE, pr_unverified = False\<rparr>"

definition probe_is_ok :: "ProbeRecord \<Rightarrow> bool" where
  "probe_is_ok p \<longleftrightarrow> pr_status p = ''ok''"

definition is_reading :: "ProbeRecord \<Rightarrow> bool" where
  "is_reading p \<longleftrightarrow> probe_is_ok p \<and> pr_valid p"

definition invalidate :: "ProbeRecord \<Rightarrow> string \<Rightarrow> string \<Rightarrow> ProbeRecord" where
  "invalidate p reason detail =
    p\<lparr>pr_valid := False, pr_invalid_reason := Some reason, pr_detail := detail\<rparr>"

definition gate_logged_status :: "ProbeRecord \<Rightarrow> nat option" where
  "gate_logged_status p =
    (case pr_http_status p of Some code \<Rightarrow> Some code
     | None \<Rightarrow>
        if pr_status p = ''ok'' then Some 200
        else if pr_status p = ''timeout'' then Some 499
        else if pr_status p = ''error'' then
          (case strip_prefix (pr_detail p) ''HTTP '' of
             Some code \<Rightarrow> parse_uint 16 (trim code)
           | None \<Rightarrow> if starts_with (pr_detail p) ''stream'' then Some 200 else None)
        else None)"

definition was_admitted :: "ProbeRecord \<Rightarrow> bool" where
  "was_admitted p \<longleftrightarrow>
    (case gate_logged_status p of None \<Rightarrow> False | Some c \<Rightarrow> \<not> (400 \<le> c \<and> c < 499))"

text \<open>\<open>c1_reading\<close>: the newest valid probe of a batch.\<close>

definition c1_reading :: "ProbeRecord list \<Rightarrow> f64 option" where
  "c1_reading results =
    (case find is_reading (rev results) of None \<Rightarrow> None | Some p \<Rightarrow> pr_decode_tok_s p)"

section \<open>The timing of a stream\<close>

record ProbeTiming =
  pt_ttft_ms :: f64
  pt_decode_tok_s :: f64
  pt_tokens :: u32
  pt_chunks :: u32
  pt_span_ms :: f64

text \<open>\<open>chunk_ms.len() as u32\<close> wraps.\<close>

definition probe_timing :: "f64 list \<Rightarrow> u32 option \<Rightarrow> ProbeTiming option" where
  "probe_timing chunk_ms usage_tokens =
    (if chunk_ms = [] then None
     else
       let chunks = length chunk_ms mod 2 ^ 32;
           tokens = max (case usage_tokens of None \<Rightarrow> chunks | Some n \<Rightarrow> n) chunks;
           span_ms = f_sub (last chunk_ms) (hd chunk_ms);
           span_s = f_div span_ms (F_Fin 1000)
       in if tokens < 2 \<or> f_le span_s (F_Fin 0) then None
          else Some \<lparr>pt_ttft_ms = hd chunk_ms, pt_decode_tok_s = f_div (f_of_nat (tokens - 1)) span_s,
                     pt_tokens = tokens, pt_chunks = chunks, pt_span_ms = span_ms\<rparr>)"

definition MIN_MS_PER_TOKEN :: f64 where "MIN_MS_PER_TOKEN = F_Fin (50 / 16)"
definition BUFFERED_TOKENS_PER_CHUNK :: f64 where "BUFFERED_TOKENS_PER_CHUNK = F_Fin 4"
definition BURST_OVER_BASELINE :: f64 where "BURST_OVER_BASELINE = F_Fin 2"

definition burst_reason :: "ProbeTiming \<Rightarrow> f64 option \<Rightarrow> string option" where
  "burst_reason t baseline =
    (let tokens = f_of_nat (pt_tokens t);
         per_chunk = f_div tokens (f_of_nat (max (pt_chunks t) 1))
     in if f_ge per_chunk BUFFERED_TOKENS_PER_CHUNK \<and> f_lt (pt_span_ms t) (f_mul tokens MIN_MS_PER_TOKEN) then
          Some (''the answer arrived in one burst, not as a stream: '' @ show_nat (pt_tokens t) @ '' tokens in '' @
            show_nat (pt_chunks t) @ '' chunk(s) over '' @ fmt_fixed 0 (pt_span_ms t) @
            '' ms - too short to measure a speed'')
        else
          (case baseline of None \<Rightarrow> None
           | Some b \<Rightarrow>
              if f_gt b (F_Fin 0) \<and> f_gt (pt_decode_tok_s t) (f_mul b BURST_OVER_BASELINE) then
                Some (fmt_fixed 0 (pt_decode_tok_s t) @ '' tok/s is more than '' @ fmt_fixed 0 BURST_OVER_BASELINE @
                  ''x the usual '' @ fmt_fixed 0 b @ '' tok/s: the answer was buffered, not streamed'')
              else None))"

section \<open>What was seen around a probe\<close>

record ProbeEvidence =
  ev_running_before :: f64
  ev_queue_before :: f64
  ev_ttft_ms :: f64
  ev_running_after :: "f64 option"
  ev_queue_after :: "f64 option"
  ev_admitted_before :: "u64 option"
  ev_admitted_after :: "u64 option"
  ev_probe_admitted :: bool
  ev_gateway :: bool
  ev_engine_reports_load :: bool
  ev_gen_tokens_before :: "f64 option"
  ev_gen_tokens_after :: "f64 option"
  ev_probe_tokens :: f64
  ev_ttft_baseline_ms :: "f64 option"
  ev_requests_before :: "f64 option"
  ev_requests_after :: "f64 option"
  ev_prompt_tokens_before :: "f64 option"
  ev_prompt_tokens_after :: "f64 option"

definition PROBE_PROMPT_MARGIN_TOKENS :: f64 where "PROBE_PROMPT_MARGIN_TOKENS = F_Fin 4096"
definition C1_TTFT_CONTENDED_RATIO :: f64 where "C1_TTFT_CONTENDED_RATIO = F_Fin (3 / 2)"
definition COUNTER_MARGIN_TOKENS :: f64 where "COUNTER_MARGIN_TOKENS = F_Fin 8"

datatype Confidence = RanAlone | CouldNotRuleOut string

type_synonym refusal = "string \<times> string"

text \<open>The growth of an engine counter between the two reads, \<open>(after - before).max(0.0)\<close>.\<close>

definition counter_growth :: "f64 \<Rightarrow> f64 \<Rightarrow> f64" where
  "counter_growth before after = f_max (f_sub after before) (F_Fin 0)"

text \<open>The checks of \<open>validate\<close>, in its order; each returns the refusal it makes, if any.\<close>

definition busy_check :: "ProbeEvidence \<Rightarrow> refusal option" where
  "busy_check e =
    (if f_gt (ev_running_before e) (F_Fin 0) \<or> f_gt (ev_queue_before e) (F_Fin 0) then
       Some (INVALID_BUSY_BEFORE, ''running='' @ show_f64 (ev_running_before e) @ '' queue='' @
         show_f64 (ev_queue_before e) @ '' before the probe'')
     else None)"

definition slow_check :: "ProbeEvidence \<Rightarrow> f64 \<Rightarrow> refusal option" where
  "slow_check e max_ttft_s =
    (if f_gt (ev_ttft_ms e) (f_mul max_ttft_s (F_Fin 1000)) then
       Some (INVALID_SLOW_TTFT, ''TTFT '' @ fmt_fixed 1 (f_div (ev_ttft_ms e) (F_Fin 1000)) @ '' s > '' @
         show_f64 max_ttft_s @ '' s: the engine was prefilling someone else'')
     else None)"

definition idle_ttft_check :: "ProbeEvidence \<Rightarrow> refusal option" where
  "idle_ttft_check e =
    (case ev_ttft_baseline_ms e of None \<Rightarrow> None
     | Some idle \<Rightarrow>
        if f_gt idle (F_Fin 0) \<and> f_gt (ev_ttft_ms e) (f_mul C1_TTFT_CONTENDED_RATIO idle) then
          Some (INVALID_CONTENDED, ''TTFT '' @ fmt_fixed 1 (ev_ttft_ms e) @ '' ms is '' @
            fmt_fixed 1 (f_div (ev_ttft_ms e) idle) @ ''x the idle median '' @ fmt_fixed 1 idle @ '' ms (limit '' @
            show_f64 C1_TTFT_CONTENDED_RATIO @ ''x): the engine was busy with someone else's request'')
        else None)"

definition requests_check :: "ProbeEvidence \<Rightarrow> refusal option" where
  "requests_check e =
    (case (ev_requests_before e, ev_requests_after e) of
       (Some before, Some after) \<Rightarrow>
         (let others = f_sub (counter_growth before after) (F_Fin 1) in
          if f_ge others (F_Fin 1) then
            Some (INVALID_CONTENDED, ''requests_total grew by '' @ fmt_fixed 0 (f_sub after before) @ '': '' @
              fmt_fixed 0 others @ '' other request(s) finished on this engine while the probe was out'')
          else None)
     | _ \<Rightarrow> None)"

definition prompt_check :: "ProbeEvidence \<Rightarrow> refusal option" where
  "prompt_check e =
    (case (ev_prompt_tokens_before e, ev_prompt_tokens_after e) of
       (Some before, Some after) \<Rightarrow>
         (let grown = counter_growth before after in
          if f_gt grown PROBE_PROMPT_MARGIN_TOKENS then
            Some (INVALID_CONTENDED, ''prompt_tokens_total grew by '' @ fmt_fixed 0 grown @
              '' - the probe's own prompt is a sentence: someone else's prompt was processed during the probe'')
          else None)
     | _ \<Rightarrow> None)"

definition generation_check :: "ProbeEvidence \<Rightarrow> refusal option" where
  "generation_check e =
    (case (ev_gen_tokens_before e, ev_gen_tokens_after e) of
       (Some before, Some after) \<Rightarrow>
         (let grown = counter_growth before after; own = ev_probe_tokens e;
              own_not_yet = f_le grown COUNTER_MARGIN_TOKENS;
              own_only = f_le (f_abs (f_sub grown own)) COUNTER_MARGIN_TOKENS;
              why = (if f_gt grown own then
                  fmt_fixed 0 (f_sub grown own) @ '' more than the probe's own '' @ fmt_fixed 0 own @ '' tokens''
                else ''neither 0 nor the probe's own '' @ fmt_fixed 0 own @ '' tokens'')
          in if \<not> own_not_yet \<and> \<not> own_only then
               Some (INVALID_CONTENDED, ''generation_tokens_total grew by '' @ fmt_fixed 0 grown @ '', '' @ why @
                 '': something else generated on this engine during the probe'')
             else None)
     | _ \<Rightarrow> None)"

text \<open>The engine's load right after: refused, or accepted with a caveat when it reports none.\<close>

definition load_caveat :: "ProbeEvidence \<Rightarrow> refusal + string option" where
  "load_caveat e =
    (case (ev_running_after e, ev_queue_after e) of
       (Some running, Some queue) \<Rightarrow>
         if f_gt running (F_Fin 1) \<or> f_gt queue (F_Fin 0) then
           Inl (INVALID_CONTENDED, ''running='' @ show_f64 running @ '' queue='' @ show_f64 queue @
             '' right after the probe'')
         else Inr None
     | _ \<Rightarrow>
         if \<not> ev_engine_reports_load e then Inr (Some ''the engine does not report how many requests are running'')
         else Inl (INVALID_CONTENDED, ''engine metrics unreadable after the probe: cannot show it ran alone''))"

definition confidence_of :: "string option \<Rightarrow> Confidence" where
  "confidence_of caveat = (case caveat of Some why \<Rightarrow> CouldNotRuleOut why | None \<Rightarrow> RanAlone)"

text \<open>The gateway's admissions during the probe, the probe's own one discounted.\<close>

definition admitted_others :: "ProbeEvidence \<Rightarrow> u64 \<Rightarrow> u64 \<Rightarrow> u64 option" where
  "admitted_others e before after =
    (if after < before then None else Some (after - before - (if ev_probe_admitted e then 1 else 0)))"

definition gate_check :: "ProbeEvidence \<Rightarrow> string option \<Rightarrow> refusal + Confidence" where
  "gate_check e caveat =
    (case (ev_admitted_before e, ev_admitted_after e) of
       (Some before, Some after) \<Rightarrow>
         (case admitted_others e before after of
            Some n \<Rightarrow>
              if n = 0 then Inr (confidence_of caveat)
              else Inl (INVALID_CONTENDED, ''the gate admitted '' @ show_nat n @ '' other request(s) during the probe'')
          | None \<Rightarrow> Inl (INVALID_CONTENDED, ''the gate restarted during the probe''))
     | _ \<Rightarrow> Inl (INVALID_CONTENDED, ''gate admitted counters unreadable: cannot show it ran alone''))"

fun first_refusal :: "refusal option list \<Rightarrow> refusal option" where
  "first_refusal [] = None"
| "first_refusal (Some r # rs) = Some r"
| "first_refusal (None # rs) = first_refusal rs"

definition validate_probe :: "ProbeEvidence \<Rightarrow> f64 \<Rightarrow> refusal + Confidence" where
  "validate_probe e max_ttft_s =
    (case first_refusal [busy_check e, slow_check e max_ttft_s, idle_ttft_check e, requests_check e,
        prompt_check e, generation_check e] of
       Some r \<Rightarrow> Inl r
     | None \<Rightarrow>
        (case load_caveat e of Inl r \<Rightarrow> Inl r
         | Inr caveat \<Rightarrow>
            if \<not> ev_gateway e then Inr (confidence_of caveat) else gate_check e caveat))"

section \<open>What an accepted probe proves\<close>

text \<open>The declarative reading of the evidence: nothing was running, the first word came in time, no
  counter shows another request, and the gateway (when there is one) admitted nobody else.\<close>

definition quiet_before :: "ProbeEvidence \<Rightarrow> bool" where
  "quiet_before e \<longleftrightarrow> \<not> f_gt (ev_running_before e) (F_Fin 0) \<and> \<not> f_gt (ev_queue_before e) (F_Fin 0)"

definition prompt_first_word :: "ProbeEvidence \<Rightarrow> f64 \<Rightarrow> bool" where
  "prompt_first_word e max_ttft_s \<longleftrightarrow>
    \<not> f_gt (ev_ttft_ms e) (f_mul max_ttft_s (F_Fin 1000)) \<and>
    (\<forall>idle. ev_ttft_baseline_ms e = Some idle \<and> f_gt idle (F_Fin 0) \<longrightarrow>
       \<not> f_gt (ev_ttft_ms e) (f_mul (F_Fin (3 / 2)) idle))"

definition counters_own :: "ProbeEvidence \<Rightarrow> bool" where
  "counters_own e \<longleftrightarrow>
    (\<forall>b a. ev_requests_before e = Some b \<and> ev_requests_after e = Some a \<longrightarrow>
       \<not> f_ge (f_sub (counter_growth b a) (F_Fin 1)) (F_Fin 1)) \<and>
    (\<forall>b a. ev_prompt_tokens_before e = Some b \<and> ev_prompt_tokens_after e = Some a \<longrightarrow>
       \<not> f_gt (counter_growth b a) (F_Fin 4096)) \<and>
    (\<forall>b a. ev_gen_tokens_before e = Some b \<and> ev_gen_tokens_after e = Some a \<longrightarrow>
       f_le (counter_growth b a) (F_Fin 8) \<or> f_le (f_abs (f_sub (counter_growth b a) (ev_probe_tokens e))) (F_Fin 8))"

definition load_seen :: "ProbeEvidence \<Rightarrow> bool" where
  "load_seen e \<longleftrightarrow> ev_running_after e \<noteq> None \<and> ev_queue_after e \<noteq> None"

definition quiet_after :: "ProbeEvidence \<Rightarrow> bool" where
  "quiet_after e \<longleftrightarrow>
    (if load_seen e then
       \<not> f_gt (the (ev_running_after e)) (F_Fin 1) \<and> \<not> f_gt (the (ev_queue_after e)) (F_Fin 0)
     else \<not> ev_engine_reports_load e)"

definition gate_alone :: "ProbeEvidence \<Rightarrow> bool" where
  "gate_alone e \<longleftrightarrow>
    (ev_gateway e \<longrightarrow> (\<exists>b a. ev_admitted_before e = Some b \<and> ev_admitted_after e = Some a \<and>
       b \<le> a \<and> a - b \<le> (if ev_probe_admitted e then 1 else 0)))"

lemma first_refusal_none: "first_refusal rs = None \<longleftrightarrow> set rs \<subseteq> {None}"
  by (induction rs rule: first_refusal.induct) auto

lemma counter_checks:
  "requests_check e = None \<and> prompt_check e = None \<and> generation_check e = None \<longleftrightarrow> counters_own e"
  by (auto simp: requests_check_def prompt_check_def generation_check_def counters_own_def Let_def
      PROBE_PROMPT_MARGIN_TOKENS_def COUNTER_MARGIN_TOKENS_def split: option.splits if_splits)

lemma entry_checks:
  "busy_check e = None \<and> slow_check e m = None \<and> idle_ttft_check e = None \<longleftrightarrow>
   quiet_before e \<and> prompt_first_word e m"
  by (auto simp: busy_check_def slow_check_def idle_ttft_check_def quiet_before_def prompt_first_word_def
      C1_TTFT_CONTENDED_RATIO_def split: option.splits if_splits)

lemma load_caveat_iff:
  "load_caveat e = Inr c \<longleftrightarrow> quiet_after e \<and>
    c = (if load_seen e then None else Some ''the engine does not report how many requests are running'')"
  by (auto simp: load_caveat_def quiet_after_def load_seen_def split: option.splits)

lemma gate_check_iff:
  assumes "ev_gateway e"
  shows "gate_check e c = Inr k \<longleftrightarrow> gate_alone e \<and> k = confidence_of c"
  using assms by (auto simp: gate_check_def admitted_others_def gate_alone_def split: option.splits if_splits)

lemma validate_iff:
  "validate_probe e m = Inr k \<longleftrightarrow>
    quiet_before e \<and> prompt_first_word e m \<and> counters_own e \<and> quiet_after e \<and> gate_alone e \<and>
    k = (if load_seen e then RanAlone
         else CouldNotRuleOut ''the engine does not report how many requests are running'')"
proof -
  have "first_refusal [busy_check e, slow_check e m, idle_ttft_check e, requests_check e, prompt_check e,
      generation_check e] = None \<longleftrightarrow> quiet_before e \<and> prompt_first_word e m \<and> counters_own e"
    unfolding first_refusal_none using entry_checks [of e m] counter_checks [of e] by auto
  then show ?thesis
    using load_caveat_iff [of e] gate_check_iff [of e]
    by (cases "load_caveat e")
      (auto simp: validate_probe_def gate_alone_def confidence_of_def split: option.splits)
qed

text \<open>An invalid probe is no observation.\<close>

lemma c1_reading_skips: "\<not> is_reading p \<Longrightarrow> c1_reading (ps @ [p]) = c1_reading ps"
  by (simp add: c1_reading_def)

lemma find_split: "find P xs = Some x \<Longrightarrow> \<exists>us vs. xs = us @ x # vs \<and> P x \<and> list_all (\<lambda>y. \<not> P y) us"
proof (induction xs)
  case (Cons y ys)
  show ?case
  proof (cases "P y")
    case True
    then have "x = y" using Cons.prems by simp
    then have "y # ys = [] @ x # ys \<and> P x \<and> list_all (\<lambda>y. \<not> P y) []" using True by simp
    then show ?thesis by blast
  next
    case False
    then obtain us vs where "ys = us @ x # vs \<and> P x \<and> list_all (\<lambda>y. \<not> P y) us" using Cons by auto
    then have "y # ys = (y # us) @ x # vs \<and> P x \<and> list_all (\<lambda>y. \<not> P y) (y # us)" using False by simp
    then show ?thesis by blast
  qed
qed simp

lemma c1_reading_newest:
  assumes "c1_reading ps = Some v"
  shows "\<exists>us p vs. ps = us @ p # vs \<and> is_reading p \<and> pr_decode_tok_s p = Some v \<and>
    list_all (\<lambda>q. \<not> is_reading q) vs"
proof -
  obtain p where p: "find is_reading (rev ps) = Some p" "pr_decode_tok_s p = Some v"
    using assms by (auto simp: c1_reading_def split: option.splits)
  obtain us vs where "rev ps = us @ p # vs" "is_reading p" "list_all (\<lambda>y. \<not> is_reading y) us"
    using find_split [OF p(1)] by blast
  then have "ps = rev vs @ p # rev us \<and> is_reading p \<and> pr_decode_tok_s p = Some v \<and>
      list_all (\<lambda>q. \<not> is_reading q) (rev us)"
    using p(2) by (simp add: rev_swap)
  then show ?thesis by blast
qed

end
