(* ===== verification/Curve.thy ===== *)
theory Curve
  imports RustText
begin

text \<open>
  The concurrency curve of \<open>crates/lss-core/src/loadout.rs\<close>: decode speed by the number of
  requests running at once, and the level from which more users stop adding speed. The identity of a
  loadout is \<open>Loadout\<close>, its ledger \<open>Ledger\<close> and its scorecard \<open>LoadoutRow\<close>.
\<close>

section \<open>The curve\<close>

definition CURVE_MAX_LEVELS :: usize where "CURVE_MAX_LEVELS = 64"
definition NOISE :: f64 where "NOISE = f_lit (3 / 100)"
definition MIN_LEVEL_SAMPLES :: u64 where "MIN_LEVEL_SAMPLES = 6"
definition MIN_SATURATION_SAMPLES :: u64 where "MIN_SATURATION_SAMPLES = 120"
definition MIN_SATURATION_SHARE :: f64 where "MIN_SATURATION_SHARE = f_lit (5 / 100)"

record CurveCell =
  cc_samples :: u64
  cc_tok_s_sum :: f64
  cc_ttft_sum_s :: f64
  cc_ttft_n :: f64
  cc_spec_len_sum :: f64
  cc_spec_n :: u64

definition cell_default :: CurveCell where
  "cell_default = \<lparr>cc_samples = 0, cc_tok_s_sum = F_Fin 0, cc_ttft_sum_s = F_Fin 0, cc_ttft_n = F_Fin 0,
     cc_spec_len_sum = F_Fin 0, cc_spec_n = 0\<rparr>"

type_synonym Curve = "CurveCell list"

text \<open>\<open>Curve::cell\<close>: the level a sample belongs to, and the cells grown to hold it.\<close>

definition curve_level :: "f64 \<Rightarrow> usize option" where
  "curve_level running =
    (if \<not> is_finite running \<or> f_lt running (F_Fin (1 / 2)) then None
     else Some (max 1 (min (f_to_uint 64 (f_round running)) CURVE_MAX_LEVELS)))"

definition grow_cells :: "usize \<Rightarrow> Curve \<Rightarrow> Curve" where
  "grow_cells level cells = cells @ replicate (level - length cells) cell_default"

definition upd_cell :: "f64 \<Rightarrow> (CurveCell \<Rightarrow> CurveCell) \<Rightarrow> Curve \<Rightarrow> Curve" where
  "upd_cell running f cells =
    (case curve_level running of None \<Rightarrow> cells
     | Some level \<Rightarrow>
        let cs = grow_cells level cells in cs[level - 1 := f (cs ! (level - 1))])"

definition curve_observe :: "Curve \<Rightarrow> f64 \<Rightarrow> f64 \<Rightarrow> Curve" where
  "curve_observe cells running tok_s =
    (if \<not> is_finite tok_s then cells
     else upd_cell running (\<lambda>c. c\<lparr>cc_samples := cc_samples c + 1,
        cc_tok_s_sum := f_add (cc_tok_s_sum c) (f_max tok_s (F_Fin 0))\<rparr>) cells)"

definition observe_extra_cell :: "f64 \<Rightarrow> f64 \<Rightarrow> f64 \<Rightarrow> CurveCell \<Rightarrow> CurveCell" where
  "observe_extra_cell ttft_sum_s ttft_n spec_len c =
    (let c1 = (if f_gt ttft_n (F_Fin 0) \<and> is_finite ttft_sum_s \<and> f_ge ttft_sum_s (F_Fin 0)
               then c\<lparr>cc_ttft_sum_s := f_add (cc_ttft_sum_s c) ttft_sum_s, cc_ttft_n := f_add (cc_ttft_n c) ttft_n\<rparr>
               else c)
     in if is_finite spec_len \<and> f_gt spec_len (F_Fin 0)
        then c1\<lparr>cc_spec_len_sum := f_add (cc_spec_len_sum c1) spec_len, cc_spec_n := cc_spec_n c1 + 1\<rparr>
        else c1)"

definition curve_observe_extra :: "Curve \<Rightarrow> f64 \<Rightarrow> f64 \<Rightarrow> f64 \<Rightarrow> f64 \<Rightarrow> Curve" where
  "curve_observe_extra cells running ttft_sum_s ttft_n spec_len =
    upd_cell running (observe_extra_cell ttft_sum_s ttft_n spec_len) cells"

record CurveRow =
  cr_running :: u64
  cr_samples :: u64
  cr_tok_s :: "f64 option"
  cr_per_request_tok_s :: "f64 option"
  cr_ttft_ms :: "f64 option"
  cr_spec_accept_length :: "f64 option"
  cr_source :: string

definition round1 :: "f64 \<Rightarrow> f64" where
  "round1 v = f_div (f_round (f_mul v (F_Fin 10))) (F_Fin 10)"

definition curve_row :: "Curve \<Rightarrow> usize \<Rightarrow> CurveRow" where
  "curve_row cells n =
    (let c = (if n - 1 < length cells then cells ! (n - 1) else cell_default);
         tok_s = (if 0 < cc_samples c then Some (round1 (f_div (cc_tok_s_sum c) (f_of_nat (cc_samples c)))) else None)
     in \<lparr>cr_running = n, cr_samples = cc_samples c, cr_tok_s = tok_s,
         cr_per_request_tok_s = map_option (\<lambda>t. round1 (f_div t (f_of_nat n))) tok_s,
         cr_ttft_ms = (if f_gt (cc_ttft_n c) (F_Fin 0)
           then Some (round1 (f_mul (f_div (cc_ttft_sum_s c) (cc_ttft_n c)) (F_Fin 1000))) else None),
         cr_spec_accept_length = (if 0 < cc_spec_n c
           then Some (f_div (f_round (f_mul (f_div (cc_spec_len_sum c) (f_of_nat (cc_spec_n c))) (F_Fin 100))) (F_Fin 100))
           else None),
         cr_source = ''live''\<rparr>)"

text \<open>\<open>rposition(|c| c.samples > 0).map_or(0, |i| i + 1)\<close>.\<close>

definition seen_levels :: "Curve \<Rightarrow> usize" where
  "seen_levels cells = length (dropWhile (\<lambda>c. cc_samples c = 0) (rev cells))"

definition curve_rows :: "Curve \<Rightarrow> usize \<Rightarrow> CurveRow list" where
  "curve_rows cells slots =
    (let top = max 1 (min (max slots (seen_levels cells)) CURVE_MAX_LEVELS)
     in map (curve_row cells) [1 ..< top + 1])"

section \<open>Where total speed stops growing\<close>

datatype Saturation = NotEnough | SatAfter u64 f64 bool | StillGrowing u64 f64

fun saturation_sentence :: "Saturation \<Rightarrow> string" where
  "saturation_sentence NotEnough =
     ''not enough traffic at different concurrency levels yet to say where total speed stops growing''"
| "saturation_sentence (SatAfter users tot from_bench) =
     ''total speed stops growing after '' @ show_nat users @ '' user'' @ (if users = 1 then [] else ''s'') @
     '' (about '' @ fmt_fixed 0 tot @ '' tok/s in total)'' @
     (if from_bench then [] else '', in the traffic of the last day'')"
| "saturation_sentence (StillGrowing users tot) =
     ''total speed was still growing at '' @ show_nat users @ '' users, the most measured ('' @
     fmt_fixed 0 tot @ '' tok/s in total)''"

definition live_samples :: "CurveRow list \<Rightarrow> u64" where
  "live_samples rows = sum_list (map cr_samples rows)"

definition qualifies :: "CurveRow \<Rightarrow> u64 \<Rightarrow> bool" where
  "qualifies r live \<longleftrightarrow> cr_source r = ''bench'' \<or>
     MIN_SATURATION_SAMPLES \<le> cr_samples r \<and>
     f_ge (f_of_nat (cr_samples r)) (f_mul (f_of_nat live) MIN_SATURATION_SHARE)"

definition curve_points :: "CurveRow list \<Rightarrow> (u64 \<times> f64) list" where
  "curve_points rows =
    List.map_filter (\<lambda>r. map_option (\<lambda>t. (cr_running r, t)) (cr_tok_s r))
      (filter (\<lambda>r. qualifies r (live_samples rows)) rows)"

definition curve_evidence :: "CurveRow list \<Rightarrow> u64 \<times> bool" where
  "curve_evidence rows =
    (let good = filter (\<lambda>r. qualifies r (live_samples rows) \<and> cr_tok_s r \<noteq> None) rows
     in (length good, \<exists>r \<in> set good. cr_source r = ''bench''))"

text \<open>\<open>sort_by_key\<close> (stable) and \<open>dedup_by_key\<close> (the first of a run of equal keys stays).\<close>

fun dedup_keys :: "(u64 \<times> f64) list \<Rightarrow> (u64 \<times> f64) list" where
  "dedup_keys (p # q # ps) = (if fst p = fst q then dedup_keys (p # ps) else p # dedup_keys (q # ps))"
| "dedup_keys ps = ps"

definition noise_ceiling :: "f64 \<Rightarrow> f64" where
  "noise_ceiling tot = f_mul tot (f_add (F_Fin 1) NOISE)"

text \<open>The first level that no later one beats by more than the noise.\<close>

fun first_unbeaten :: "(u64 \<times> f64) list \<Rightarrow> Saturation" where
  "first_unbeaten [] = NotEnough"
| "first_unbeaten [(n, tot)] = StillGrowing n (round1 tot)"
| "first_unbeaten ((n, tot) # p # ps) =
    (if \<forall>q \<in> set (p # ps). f_le (snd q) (noise_ceiling tot) then SatAfter n (round1 tot) False
     else first_unbeaten (p # ps))"

definition sat_points :: "(u64 \<times> f64) list \<Rightarrow> (u64 \<times> f64) list" where
  "sat_points rows =
    dedup_keys (sort_key fst (filter (\<lambda>(n, t). 0 < n \<and> is_finite t \<and> f_gt t (F_Fin 0)) rows))"

definition saturation :: "(u64 \<times> f64) list \<Rightarrow> Saturation" where
  "saturation rows = (let pts = sat_points rows in if length pts < 2 then NotEnough else first_unbeaten pts)"

definition saturation_of :: "CurveRow list \<Rightarrow> f64 option \<Rightarrow> Saturation" where
  "saturation_of curve peak_tok_s =
    (case saturation (curve_points curve) of
       SatAfter users total_tok_s _ \<Rightarrow>
         let ceiling = noise_ceiling total_tok_s;
             beaten_by_a_level = (\<exists>r \<in> set curve. users < cr_running r \<and>
               (case cr_tok_s r of None \<Rightarrow> False | Some t \<Rightarrow> f_gt t ceiling));
             beaten_by_peak = (case peak_tok_s of None \<Rightarrow> False | Some p \<Rightarrow> f_gt p ceiling)
         in if beaten_by_a_level \<or> beaten_by_peak then NotEnough
            else SatAfter users total_tok_s (snd (curve_evidence curve))
     | claim \<Rightarrow> claim)"

section \<open>The curve keeps every sample\<close>

lemma curve_level_bounds: "curve_level r = Some l \<Longrightarrow> 1 \<le> l \<and> l \<le> CURVE_MAX_LEVELS"
  by (auto simp: curve_level_def CURVE_MAX_LEVELS_def split: if_splits)

lemma length_upd_cell:
  "length cells \<le> CURVE_MAX_LEVELS \<Longrightarrow> length (upd_cell r f cells) \<le> CURVE_MAX_LEVELS"
  using curve_level_bounds [of r] by (auto simp: upd_cell_def grow_cells_def Let_def split: option.split)

definition curve_total :: "Curve \<Rightarrow> u64" where
  "curve_total cells = sum_list (map cc_samples cells)"

lemma sum_list_upd_one:
  "i < length xs \<Longrightarrow> sum_list (map f (xs[i := y])) + f (xs ! i) = sum_list (map f xs) + (f y :: nat)"
  by (induction xs arbitrary: i) (auto split: nat.splits)

lemma curve_total_upd:
  assumes "curve_level r = Some l" "cc_samples (f (grow_cells l cells ! (l - 1))) = cc_samples (grow_cells l cells ! (l - 1)) + k"
  shows "curve_total (upd_cell r f cells) = curve_total cells + k"
proof -
  let ?cs = "grow_cells l cells"
  have len: "l - 1 < length ?cs" using curve_level_bounds [OF assms(1)] by (auto simp: grow_cells_def)
  have "curve_total ?cs = curve_total cells"
    by (simp add: curve_total_def grow_cells_def cell_default_def sum_list_replicate)
  then show ?thesis
    using sum_list_upd_one [OF len, of cc_samples "f (?cs ! (l - 1))"] assms
    by (simp add: upd_cell_def Let_def curve_total_def)
qed

section \<open>The saturation point\<close>

lemma first_unbeaten_after:
  assumes "first_unbeaten ps = SatAfter n t b"
  shows "\<exists>us tot vs. ps = us @ (n, tot) # vs \<and> vs \<noteq> [] \<and> t = round1 tot \<and> \<not> b \<and>
    (\<forall>q \<in> set vs. f_le (snd q) (noise_ceiling tot)) \<and>
    list_all (\<lambda>u. \<exists>q \<in> set ps. \<not> f_le (snd q) (noise_ceiling (snd u))) us"
  using assms
proof (induction ps rule: first_unbeaten.induct)
  case (3 m tot p ps)
  show ?case
  proof (cases "\<forall>q \<in> set (p # ps). f_le (snd q) (noise_ceiling tot)")
    case True
    then have "(m, tot) # p # ps = [] @ (n, tot) # (p # ps) \<and> t = round1 tot \<and> \<not> b"
      using 3(2) by auto
    then show ?thesis using True by (intro exI [of _ "[]"] exI [of _ tot] exI [of _ "p # ps"]) auto
  next
    case False
    then have "first_unbeaten (p # ps) = SatAfter n t b" using 3(2) by (simp only: first_unbeaten.simps False if_False)
    then obtain us tt vs where ih: "p # ps = us @ (n, tt) # vs" "vs \<noteq> []" "t = round1 tt" "\<not> b"
      "\<forall>q \<in> set vs. f_le (snd q) (noise_ceiling tt)"
      "list_all (\<lambda>u. \<exists>q \<in> set (p # ps). \<not> f_le (snd q) (noise_ceiling (snd u))) us"
      using 3(1) [OF False] by blast
    have "(m, tot) # p # ps = ((m, tot) # us) @ (n, tt) # vs" using ih(1) by simp
    moreover have "list_all (\<lambda>u. \<exists>q \<in> set ((m, tot) # p # ps). \<not> f_le (snd q) (noise_ceiling (snd u)))
        ((m, tot) # us)"
      using False ih(6) by (auto simp: list_all_iff)
    ultimately show ?thesis using ih by blast
  qed
qed auto

lemma saturation_of_sound:
  assumes "saturation_of curve peak = SatAfter users tot b"
  shows "(\<forall>r \<in> set curve. \<forall>t. users < cr_running r \<and> cr_tok_s r = Some t \<longrightarrow> \<not> f_gt t (noise_ceiling tot)) \<and>
    (\<forall>p. peak = Some p \<longrightarrow> \<not> f_gt p (noise_ceiling tot)) \<and>
    b = (\<exists>r \<in> set curve. qualifies r (live_samples curve) \<and> cr_tok_s r \<noteq> None \<and> cr_source r = ''bench'')"
proof -
  obtain c where "saturation (curve_points curve) = SatAfter users tot c"
    using assms by (auto simp: saturation_of_def Let_def split: Saturation.splits if_splits)
  then show ?thesis
    using assms by (auto simp: saturation_of_def Let_def curve_evidence_def split: if_splits option.splits)
qed

lemma curve_points_set:
  "(n, t) \<in> set (curve_points rows) \<longleftrightarrow>
    (\<exists>r \<in> set rows. qualifies r (live_samples rows) \<and> cr_running r = n \<and> cr_tok_s r = Some t)"
  by (force simp: curve_points_def List.map_filter_def image_iff)

lemma dedup_keys_subset: "set (dedup_keys ps) \<subseteq> set ps"
  by (induction ps rule: dedup_keys.induct) auto

lemma sat_points_subset:
  "p \<in> set (sat_points rows) \<Longrightarrow> p \<in> set rows \<and> 0 < fst p \<and> is_finite (snd p) \<and> f_gt (snd p) (F_Fin 0)"
  using dedup_keys_subset unfolding sat_points_def by fastforce

lemma saturation_level_measured:
  assumes "saturation_of curve peak = SatAfter users tot b"
  shows "\<exists>r \<in> set curve. \<exists>t. qualifies r (live_samples curve) \<and> cr_running r = users \<and> cr_tok_s r = Some t \<and>
    tot = round1 t"
proof -
  obtain c where "saturation (curve_points curve) = SatAfter users tot c"
    using assms by (auto simp: saturation_of_def Let_def split: Saturation.splits if_splits)
  then have "first_unbeaten (sat_points (curve_points curve)) = SatAfter users tot c"
    by (auto simp: saturation_def Let_def split: if_splits)
  from first_unbeaten_after [OF this] obtain us t vs where
    "sat_points (curve_points curve) = us @ (users, t) # vs" "tot = round1 t" by blast
  then have "(users, t) \<in> set (sat_points (curve_points curve))" "tot = round1 t" by simp_all
  then show ?thesis using sat_points_subset curve_points_set by blast
qed

end
