(* ===== verification/Targets.thy ===== *)
theory Targets
  imports Hist Curve
begin

text \<open>
  \<open>crates/lss-core/src/targets.rs\<close>: the service levels the owner asked for and the share of the
  traffic that met each one.
\<close>

record TargetsConfig =
  tc_ttft_p95_s :: f64
  tc_min_tok_s_per_user :: f64
  tc_max_queue_wait_s :: f64
  tc_uptime_pct :: f64

definition targets_config_default :: TargetsConfig where
  "targets_config_default = \<lparr>tc_ttft_p95_s = F_Fin 5, tc_min_tok_s_per_user = F_Fin 30,
     tc_max_queue_wait_s = F_Fin 2, tc_uptime_pct = F_Fin 99\<rparr>"

definition MIN_SHORT_REQUESTS :: u64 where "MIN_SHORT_REQUESTS = 20"
definition SHORT_BASIS :: string where "SHORT_BASIS = ''requests under 8k tokens''"
definition REQUEST_SHARE_GOAL_PCT :: f64 where "REQUEST_SHARE_GOAL_PCT = F_Fin 95"

record TargetRow =
  tr_key :: string
  tr_label :: string
  tr_short :: string
  tr_met_pct :: "f64 option"
  tr_goal_pct :: f64
  tr_basis :: string
  tr_ok :: "bool option"

record TargetsStatus =
  ts_window :: string
  ts_rows :: "TargetRow list"

record TargetInputs =
  ti_ttft :: HistAccum
  ti_itl :: HistAccum
  ti_queue_time :: HistAccum
  ti_ttft_short :: "(u64 \<times> u64) option"
  ti_uptime_pct :: "f64 option"

definition first_word_note :: "TargetRow \<Rightarrow> string option" where
  "first_word_note row =
    (if tr_key row = ''ttft'' then
       Some (if tr_basis row = SHORT_BASIS
         then ''first word is judged on prompts under 8k tokens: a long prompt that is not cached waits for its own reading, whatever the server does''
         else ''first word counts EVERY prompt here: a long prompt that is not cached misses it by design (a gateway that logs prompt sizes lets lss judge short prompts only)'')
     else None)"

definition targets_missed :: "TargetsStatus \<Rightarrow> TargetRow list" where
  "targets_missed s = filter (\<lambda>r. tr_ok r = Some False) (ts_rows s)"

definition targets_measured :: "TargetsStatus \<Rightarrow> bool" where
  "targets_measured s \<longleftrightarrow> (\<exists>r \<in> set (ts_rows s). tr_met_pct r \<noteq> None)"

definition target_secs :: "f64 \<Rightarrow> string" where
  "target_secs v =
    (if f_lt (f_abs (f_sub v (f_round v))) (f_lit (1 / 10 ^ 9)) then fmt_fixed 0 v @ '' s'' else fmt_fixed 1 v @ '' s'')"

definition target_row :: "string \<Rightarrow> string \<Rightarrow> string \<Rightarrow> f64 option \<Rightarrow> f64 \<Rightarrow> string \<Rightarrow> TargetRow" where
  "target_row key label short met goal basis =
    \<lparr>tr_key = key, tr_label = label, tr_short = short, tr_met_pct = met, tr_goal_pct = goal, tr_basis = basis,
     tr_ok = map_option (\<lambda>m. f_ge (f_add m (f_lit (1 / 10 ^ 9))) goal) met\<rparr>"

definition target_share :: "HistAccum \<Rightarrow> f64 \<Rightarrow> f64 option" where
  "target_share h x = map_option (\<lambda>f. round1 (f_mul f (F_Fin 100))) (fraction_le h x)"

definition ttft_row :: "TargetsConfig \<Rightarrow> TargetInputs \<Rightarrow> TargetRow" where
  "ttft_row cfg i =
    (let all_requests = target_row ''ttft'' (''first word within '' @ target_secs (tc_ttft_p95_s cfg)) ''first word''
           (target_share (ti_ttft i) (tc_ttft_p95_s cfg)) REQUEST_SHARE_GOAL_PCT ''requests''
     in case ti_ttft_short i of
          Some (n, inside) \<Rightarrow>
            if MIN_SHORT_REQUESTS \<le> n then
              target_row ''ttft'' (''first word within '' @ target_secs (tc_ttft_p95_s cfg) @ '', short prompts'') ''first word''
                (Some (round1 (f_mul (f_div (f_of_nat inside) (f_of_nat n)) (F_Fin 100)))) REQUEST_SHARE_GOAL_PCT SHORT_BASIS
            else all_requests
        | None \<Rightarrow> all_requests)"

definition targets_evaluate :: "TargetsConfig \<Rightarrow> string \<Rightarrow> TargetInputs \<Rightarrow> TargetsStatus" where
  "targets_evaluate cfg window i =
    \<lparr>ts_window = window,
     ts_rows =
       (if f_gt (tc_ttft_p95_s cfg) (F_Fin 0) then [ttft_row cfg i] else []) @
       (if f_gt (tc_min_tok_s_per_user cfg) (F_Fin 0) then
          [target_row ''speed'' (''written at '' @ fmt_fixed 0 (tc_min_tok_s_per_user cfg) @ '' tok/s or faster'') ''speed''
            (target_share (ti_itl i) (f_div (F_Fin 1) (tc_min_tok_s_per_user cfg))) (F_Fin 90) ''tokens'']
        else []) @
       (if f_gt (tc_max_queue_wait_s cfg) (F_Fin 0) then
          [target_row ''queue'' (''waited under '' @ target_secs (tc_max_queue_wait_s cfg) @ '' for a slot'') ''no wait''
            (target_share (ti_queue_time i) (tc_max_queue_wait_s cfg)) REQUEST_SHARE_GOAL_PCT ''requests'']
        else []) @
       (if f_gt (tc_uptime_pct cfg) (F_Fin 0) then
          [target_row ''uptime'' ''server up'' ''up''
            (map_option (\<lambda>u. f_div (f_round (f_mul u (F_Fin 100))) (F_Fin 100)) (ti_uptime_pct i))
            (tc_uptime_pct cfg) ''time'']
        else [])\<rparr>"

text \<open>Every row is judged exactly on its own share: unmeasured rows are neither met nor missed.\<close>

lemma target_row_ok: "tr_ok (target_row key label short met goal basis) = None \<longleftrightarrow> met = None"
  by (simp add: target_row_def)

lemma rows_judged:
  "r \<in> set (ts_rows (targets_evaluate cfg window i)) \<Longrightarrow>
   tr_ok r = map_option (\<lambda>m. f_ge (f_add m (f_lit (1 / 10 ^ 9))) (tr_goal_pct r)) (tr_met_pct r)"
  unfolding targets_evaluate_def TargetsStatus.simps ttft_row_def Let_def
  by (auto simp: target_row_def simp del: power_divide split: if_splits option.splits prod.splits)

lemma rows_distinct: "distinct (map tr_key (ts_rows (targets_evaluate cfg window i)))"
proof -
  have "tr_key (ttft_row cfg i) = ''ttft''"
    by (auto simp: ttft_row_def target_row_def Let_def split: option.split)
  then show ?thesis unfolding targets_evaluate_def TargetsStatus.simps by (simp add: target_row_def)
qed

end
