(* ===== verification/Headroom.thy ===== *)
theory Headroom
  imports Curve
begin

text \<open>
  \<open>crates/lss-core/src/headroom.rs\<close>: how many extra simultaneous users fit before waits start, as the
  lowest of three ceilings (slots, memory, speed) less what runs when the server is busy.
\<close>

record Ceiling =
  ce_kind :: string
  ce_users :: "u64 option"
  ce_why :: string

record Headroom =
  hr_more_users :: "u64 option"
  hr_busy_users :: "u64 option"
  hr_limited_by :: string
  hr_sentence :: string
  hr_ceilings :: "Ceiling list"

record HeadroomInputs =
  hi_slots :: u64
  hi_curve :: "CurveRow list"
  hi_live :: "CurveRow list"
  hi_kv_peak :: f64
  hi_saturation :: "Saturation option"
  hi_min_tok_s_per_user :: f64

section \<open>When the server is busy\<close>

fun busy_loop :: "u64 \<Rightarrow> u64 \<Rightarrow> CurveRow list \<Rightarrow> u64 option" where
  "busy_loop whole seen [] = None"
| "busy_loop whole seen (r # rs) =
    (if f_ge (f_of_nat (seen + cr_samples r)) (f_mul (f_of_nat whole) (f_lit (95 / 100)))
     then Some (cr_running r) else busy_loop whole (seen + cr_samples r) rs)"

definition busy_level :: "CurveRow list \<Rightarrow> u64 option" where
  "busy_level live =
    (let whole = live_samples live in
     if whole < MIN_LEVEL_SAMPLES then None
     else case busy_loop whole 0 live of Some n \<Rightarrow> Some n
       | None \<Rightarrow> if live = [] then None else Some (cr_running (last live)))"

section \<open>The ceilings\<close>

definition max_opt :: "nat list \<Rightarrow> nat option" where
  "max_opt xs = (if xs = [] then None else Some (fold max xs 0))"

definition slots_ceiling :: "u64 \<Rightarrow> Ceiling" where
  "slots_ceiling slots =
    (if 0 < slots then
       \<lparr>ce_kind = ''slots'', ce_users = Some slots,
        ce_why = ''the engine runs at most '' @ show_nat slots @ '' requests at once; the next one waits''\<rparr>
     else \<lparr>ce_kind = ''slots'', ce_users = None, ce_why = ''the engine's slot count is not known''\<rparr>)"

definition peak_running :: "CurveRow list \<Rightarrow> u64 option" where
  "peak_running live = max_opt (map cr_running (filter (\<lambda>r. 0 < cr_samples r) live))"

definition memory_ceiling :: "f64 \<Rightarrow> u64 option \<Rightarrow> Ceiling" where
  "memory_ceiling kv_peak peak =
    (let unseen = \<lparr>ce_kind = ''memory'', ce_users = None,
           ce_why = ''memory (KV) use has not been seen under load yet''\<rparr>
     in case peak of None \<Rightarrow> unseen
      | Some peak \<Rightarrow>
          if f_gt kv_peak (f_lit (5 / 1000)) then
            (let per_user = f_div kv_peak (f_of_nat peak);
                 users = max (f_to_uint 64 (f_floor (f_div (f_lit (9 / 10)) per_user))) peak
             in \<lparr>ce_kind = ''memory'', ce_users = Some users,
                 ce_why = ''memory (KV) peaked at '' @ fmt_fixed 0 (f_mul kv_peak (F_Fin 100)) @ ''% with up to '' @
                   show_nat peak @ '' running: about '' @ fmt_fixed 0 (f_mul per_user (F_Fin 100)) @
                   ''% each, so about '' @ show_nat users @ '' fit before it is 90% full''\<rparr>)
          else unseen)"

definition by_target :: "CurveRow list \<Rightarrow> f64 \<Rightarrow> u64 option" where
  "by_target curve min_tok_s =
    (if f_gt min_tok_s (F_Fin 0) then
       max_opt (map cr_running (filter (\<lambda>r. qualifies r (live_samples curve) \<and>
         (case cr_per_request_tok_s r of None \<Rightarrow> False | Some t \<Rightarrow> f_ge t min_tok_s)) curve))
     else None)"

definition measured_top :: "CurveRow list \<Rightarrow> u64 option" where
  "measured_top curve =
    max_opt (map cr_running (filter (\<lambda>r. cr_tok_s r \<noteq> None \<and> qualifies r (live_samples curve)) curve))"

definition target_why :: "f64 \<Rightarrow> u64 \<Rightarrow> string" where
  "target_why min_tok_s cap =
    ''each user still gets '' @ fmt_fixed 0 min_tok_s @ '' tok/s or more up to '' @ show_nat cap @ '' at once (the target)''"

definition speed_ceiling :: "Saturation option \<Rightarrow> CurveRow list \<Rightarrow> f64 \<Rightarrow> Ceiling" where
  "speed_ceiling sat curve min_tok_s =
    (let target = by_target curve min_tok_s;
         (levels, from_bench) = curve_evidence curve;
         solid = (from_bench \<or> 3 \<le> levels);
         speed = (\<lambda>users why. \<lparr>ce_kind = ''speed'', ce_users = users, ce_why = why\<rparr>);
         too_little =
           (if \<not> solid \<and> 0 < levels then
              speed None (''only '' @ show_nat levels @ '' load level'' @ (if levels = 1 then [] else ''s'') @
                '' has enough traffic to judge: not enough to say where speed stops growing (`lss bench quick` measures it)'')
            else speed None ''too little traffic at different loads to see where speed stops growing (lss bench quick measures it)'')
     in if \<not> solid then too_little
        else case sat of
          Some (SatAfter users tot _) \<Rightarrow>
            (let cap = (case target of None \<Rightarrow> users | Some t \<Rightarrow> min t users);
                 slower = (case target of None \<Rightarrow> False | Some t \<Rightarrow> t < users)
             in speed (Some cap)
                  (if slower then target_why min_tok_s cap
                   else ''total speed stops growing after '' @ show_nat users @ '' at once (about '' @ fmt_fixed 0 tot @
                     '' tok/s): more users only slow each other down''))
        | Some (StillGrowing users _) \<Rightarrow>
            (let top = (case measured_top curve of None \<Rightarrow> users | Some t \<Rightarrow> t);
                 growing = speed None (''total speed was still growing at '' @ show_nat users @
                   '' at once, the most measured: no speed ceiling found yet'')
             in case target of None \<Rightarrow> growing
              | Some t \<Rightarrow> if t < top then speed (Some t) (target_why min_tok_s t) else growing)
        | _ \<Rightarrow> too_little)"

section \<open>The estimate\<close>

text \<open>\<open>min_by_key\<close>: the first of the lowest known ceilings.\<close>

fun lowest_ceiling :: "Ceiling list \<Rightarrow> (u64 \<times> string) option" where
  "lowest_ceiling [] = None"
| "lowest_ceiling (c # cs) =
    (case (ce_users c, lowest_ceiling cs) of
       (None, best) \<Rightarrow> best
     | (Some u, None) \<Rightarrow> Some (u, ce_kind c)
     | (Some u, Some (v, k)) \<Rightarrow> if u \<le> v then Some (u, ce_kind c) else Some (v, k))"

definition runs_out :: "string \<Rightarrow> string" where
  "runs_out kind = (if kind = ''slots'' then ''the slots run out''
     else if kind = ''memory'' then ''memory (KV) runs out'' else ''answers get slower for everyone'')"

definition headroom_answer :: "(u64 \<times> string) option \<Rightarrow> u64 option \<Rightarrow> u64 option \<times> string \<times> string" where
  "headroom_answer lowest busy =
    (case lowest of
       None \<Rightarrow> (None, [], ''not enough evidence yet for a headroom estimate'')
     | Some (cap, kind) \<Rightarrow>
        (case busy of
           None \<Rightarrow> (Some cap, kind, ''about '' @ show_nat cap @
             '' simultaneous users before waits start (hardly any traffic yet, so all of it is free)'')
         | Some b \<Rightarrow>
            (let more = cap - b in
             (Some more, kind,
              if more = 0 then ''no room for more simultaneous users: it is already at its limit - when busy it runs '' @
                show_nat b @ '' at once, and '' @ runs_out kind @ '' beyond '' @ show_nat cap
              else ''about '' @ show_nat more @ '' more simultaneous user'' @ (if more = 1 then [] else ''s'') @
                '' before waits start: when busy it runs '' @ show_nat b @ '' at once, and '' @ runs_out kind @
                '' at '' @ show_nat cap))))"

definition headroom_estimate :: "HeadroomInputs \<Rightarrow> Headroom" where
  "headroom_estimate i =
    (let busy = busy_level (hi_live i);
         ceilings = [slots_ceiling (hi_slots i), memory_ceiling (hi_kv_peak i) (peak_running (hi_live i)),
                     speed_ceiling (hi_saturation i) (hi_curve i) (hi_min_tok_s_per_user i)];
         (extra, limited_by, sentence) = headroom_answer (lowest_ceiling ceilings) busy
     in \<lparr>hr_more_users = extra, hr_busy_users = busy, hr_limited_by = limited_by, hr_sentence = sentence,
         hr_ceilings = ceilings\<rparr>)"

section \<open>The answer is the lowest ceiling\<close>

lemma lowest_ceiling_none: "lowest_ceiling cs = None \<longleftrightarrow> list_all (\<lambda>c. ce_users c = None) cs"
  by (induction cs) (auto split: option.splits)

lemma lowest_ceiling_some:
  "lowest_ceiling cs = Some (u, k) \<Longrightarrow>
   (\<exists>c \<in> set cs. ce_users c = Some u \<and> ce_kind c = k) \<and> list_all (\<lambda>c. \<forall>v. ce_users c = Some v \<longrightarrow> u \<le> v) cs"
  by (induction cs arbitrary: u k) (fastforce split: option.splits if_splits simp: lowest_ceiling_none list_all_iff)+

lemma headroom_answer_more:
  "fst (headroom_answer lowest busy) =
    (case lowest of None \<Rightarrow> None | Some (cap, k) \<Rightarrow> Some (cap - (case busy of None \<Rightarrow> 0 | Some b \<Rightarrow> b)))"
  "fst (snd (headroom_answer lowest busy)) = (case lowest of None \<Rightarrow> [] | Some (cap, k) \<Rightarrow> k)"
  by (simp_all add: headroom_answer_def Let_def split: option.split)

lemma estimate_fields:
  "hr_more_users (headroom_estimate i) =
    fst (headroom_answer (lowest_ceiling (hr_ceilings (headroom_estimate i))) (hr_busy_users (headroom_estimate i)))"
  "hr_limited_by (headroom_estimate i) =
    fst (snd (headroom_answer (lowest_ceiling (hr_ceilings (headroom_estimate i))) (hr_busy_users (headroom_estimate i))))"
  by (simp_all add: headroom_estimate_def Let_def case_prod_beta del: lowest_ceiling.simps)

lemma headroom_is_lowest:
  assumes "hr_more_users (headroom_estimate i) = Some extra"
  shows "\<exists>c \<in> set (hr_ceilings (headroom_estimate i)). \<exists>cap. ce_users c = Some cap \<and>
    ce_kind c = hr_limited_by (headroom_estimate i) \<and>
    extra = cap - (case hr_busy_users (headroom_estimate i) of None \<Rightarrow> 0 | Some b \<Rightarrow> b) \<and>
    list_all (\<lambda>d. \<forall>v. ce_users d = Some v \<longrightarrow> cap \<le> v) (hr_ceilings (headroom_estimate i))"
proof -
  obtain cap k where l: "lowest_ceiling (hr_ceilings (headroom_estimate i)) = Some (cap, k)"
    using assms unfolding estimate_fields headroom_answer_more by (auto split: option.splits)
  then have "extra = cap - (case hr_busy_users (headroom_estimate i) of None \<Rightarrow> 0 | Some b \<Rightarrow> b)"
    "hr_limited_by (headroom_estimate i) = k"
    using assms unfolding estimate_fields headroom_answer_more by simp_all
  then show ?thesis using lowest_ceiling_some [OF l] by blast
qed

lemma first_ceiling: "slots_ceiling (hi_slots i) \<in> set (hr_ceilings (headroom_estimate i))"
  by (simp add: headroom_estimate_def Let_def case_prod_beta del: lowest_ceiling.simps)

lemma headroom_within_slots:
  assumes "hr_more_users (headroom_estimate i) = Some extra" "0 < hi_slots i"
  shows "extra + (case hr_busy_users (headroom_estimate i) of None \<Rightarrow> 0 | Some b \<Rightarrow> b) \<le>
    max (hi_slots i) (case hr_busy_users (headroom_estimate i) of None \<Rightarrow> 0 | Some b \<Rightarrow> b)"
proof -
  obtain cap where c: "extra = cap - (case hr_busy_users (headroom_estimate i) of None \<Rightarrow> 0 | Some b \<Rightarrow> b)"
    "list_all (\<lambda>d. \<forall>v. ce_users d = Some v \<longrightarrow> cap \<le> v) (hr_ceilings (headroom_estimate i))"
    using headroom_is_lowest [OF assms(1)] by blast
  then have "cap \<le> hi_slots i"
    using first_ceiling [of i] assms(2) by (auto simp: list_all_iff slots_ceiling_def)
  then show ?thesis using c(1) by (auto simp: max_def split: option.splits)
qed

section \<open>Busy is the 95th percentile of the samples\<close>

lemma busy_loop_some:
  assumes "busy_loop whole seen rs = Some n"
  shows "\<exists>us r vs. rs = us @ r # vs \<and> cr_running r = n \<and>
    f_ge (f_of_nat (seen + sum_list (map cr_samples (us @ [r])))) (f_mul (f_of_nat whole) (f_lit (95 / 100)))"
  using assms
proof (induction rs arbitrary: seen)
  case (Cons r rs)
  show ?case
  proof (cases "f_ge (f_of_nat (seen + cr_samples r)) (f_mul (f_of_nat whole) (f_lit (95 / 100)))")
    case True
    then have "r # rs = [] @ r # rs \<and> cr_running r = n \<and>
      f_ge (f_of_nat (seen + sum_list (map cr_samples ([] @ [r])))) (f_mul (f_of_nat whole) (f_lit (95 / 100)))"
      using Cons.prems by simp
    then show ?thesis by blast
  next
    case False
    then obtain us s vs where "rs = us @ s # vs" "cr_running s = n"
      "f_ge (f_of_nat (seen + cr_samples r + sum_list (map cr_samples (us @ [s])))) (f_mul (f_of_nat whole) (f_lit (95 / 100)))"
      using Cons.IH [of "seen + cr_samples r"] Cons.prems by (auto simp only: busy_loop.simps if_False)
    then have "r # rs = (r # us) @ s # vs \<and> cr_running s = n \<and>
      f_ge (f_of_nat (seen + sum_list (map cr_samples ((r # us) @ [s])))) (f_mul (f_of_nat whole) (f_lit (95 / 100)))"
      by (simp add: add.assoc)
    then show ?thesis by blast
  qed
qed simp

lemma busy_level_running:
  assumes "busy_level live = Some n"
  shows "n \<in> cr_running ` set live \<and> MIN_LEVEL_SAMPLES \<le> live_samples live"
proof -
  have "busy_loop (live_samples live) 0 live = Some m \<Longrightarrow> m \<in> cr_running ` set live" for m
    using busy_loop_some by fastforce
  then show ?thesis using assms by (auto simp: busy_level_def Let_def split: if_splits option.splits)
qed

end
