(* ===== verification/GateLog.thy ===== *)
theory GateLog
  imports BTree RustText
begin

text \<open>
  \<open>crates/lss-core/src/gatelog.rs\<close>: the gateway's audit log, counted per lane, status, key, address
  and user. The JSON of one record is read by \<open>serde_json\<close>, an argument of \<open>parse_audit\<close>.
\<close>

record AuditRecord =
  ar_caller :: string
  ar_key :: "string option"
  ar_method :: string
  ar_path :: string
  ar_model :: "string option"
  ar_verdict :: string
  ar_status :: nat
  ar_ip :: "string option"
  ar_estimated_tokens :: "f64 option"
  ar_est_tokens :: "f64 option"
  ar_completion_tokens :: "f64 option"
  ar_completion_exact :: "bool option"
  ar_dur_ms :: "f64 option"
  ar_ttfb_ms :: "f64 option"
  ar_bench :: "bool option"

section \<open>Size classes and times\<close>

definition SIZE_BUCKETS :: "(string \<times> f64) list" where
  "SIZE_BUCKETS = [(''<1k'', F_Fin 1000), (''1-8k'', F_Fin 8000), (''8-32k'', F_Fin 32000),
     (''32-128k'', F_Fin 128000), (''128k+'', F_Inf False)]"

definition size_bucket :: "f64 \<Rightarrow> string" where
  "size_bucket prompt_tokens =
    (case find (\<lambda>(_, upper). f_lt prompt_tokens upper) SIZE_BUCKETS of None \<Rightarrow> ''128k+'' | Some (name, _) \<Rightarrow> name)"

definition TIME_EDGES_MS :: "f64 list" where
  "TIME_EDGES_MS = [F_Fin 1000, F_Fin 2000, F_Fin 3000, F_Fin 5000, F_Fin 10000, F_Fin 20000, F_Fin 30000, F_Fin 60000]"

record TimeAgg =
  ta_n :: u64
  ta_sum_ms :: f64
  ta_max_ms :: f64
  ta_le :: "u64 list"
  ta_le_n :: u64

definition time_agg_default :: TimeAgg where
  "time_agg_default = \<lparr>ta_n = 0, ta_sum_ms = F_Fin 0, ta_max_ms = F_Fin 0, ta_le = replicate 8 0, ta_le_n = 0\<rparr>"

text \<open>\<open>iter().position(|edge| v <= *edge)\<close>.\<close>

fun edge_index :: "f64 list \<Rightarrow> f64 \<Rightarrow> nat option" where
  "edge_index [] v = None"
| "edge_index (e # es) v = (if f_le v e then Some 0 else map_option Suc (edge_index es v))"

definition time_add :: "TimeAgg \<Rightarrow> f64 \<Rightarrow> TimeAgg" where
  "time_add a ms =
    a\<lparr>ta_n := ta_n a + 1, ta_sum_ms := f_add (ta_sum_ms a) ms, ta_max_ms := f_max (ta_max_ms a) ms,
      ta_le_n := ta_le_n a + 1,
      ta_le := (case edge_index TIME_EDGES_MS ms of None \<Rightarrow> ta_le a
        | Some i \<Rightarrow> (ta_le a)[i := ta_le a ! i + 1])\<rparr>"

definition time_merge :: "TimeAgg \<Rightarrow> TimeAgg \<Rightarrow> TimeAgg" where
  "time_merge a b =
    \<lparr>ta_n = ta_n a + ta_n b, ta_sum_ms = f_add (ta_sum_ms a) (ta_sum_ms b),
     ta_max_ms = f_max (ta_max_ms a) (ta_max_ms b), ta_le = map (\<lambda>(m, t). m + t) (zip (ta_le a) (ta_le b)),
     ta_le_n = ta_le_n a + ta_le_n b\<rparr>"

definition time_within :: "TimeAgg \<Rightarrow> f64 \<Rightarrow> u64 \<times> u64" where
  "time_within a ms =
    (ta_le_n a, sum_list (map snd (filter (\<lambda>(edge, _). f_le edge ms) (zip TIME_EDGES_MS (ta_le a)))))"

definition time_avg_ms :: "TimeAgg \<Rightarrow> f64 option" where
  "time_avg_ms a = (if 0 < ta_n a then Some (f_div (ta_sum_ms a) (f_of_nat (ta_n a))) else None)"

section \<open>What one user experienced\<close>

definition EXP_TTFB_MS :: "f64 list" where
  "EXP_TTFB_MS = map F_Fin [50, 100, 200, 400, 800, 1500, 3000, 6000, 12000, 30000, 60000]"
definition EXP_TOK_S :: "f64 list" where
  "EXP_TOK_S = map F_Fin [5, 10, 20, 30, 40, 60, 80, 100, 150, 200, 300]"
definition EXP_MIN_TOKENS :: f64 where "EXP_MIN_TOKENS = F_Fin 16"
definition EXP_MIN_WRITE_MS :: f64 where "EXP_MIN_WRITE_MS = F_Fin 200"
definition EXP_MAX_USERS :: nat where "EXP_MAX_USERS = 64"

record UserExp =
  ue_n :: u64
  ue_ttfb :: "u64 list"
  ue_speed_n :: u64
  ue_tokens :: f64
  ue_write_secs :: f64
  ue_speed :: "u64 list"

definition user_exp_default :: UserExp where
  "user_exp_default = \<lparr>ue_n = 0, ue_ttfb = [], ue_speed_n = 0, ue_tokens = F_Fin 0, ue_write_secs = F_Fin 0, ue_speed = []\<rparr>"

text \<open>\<open>Vec::resize(n, 0)\<close>.\<close>

definition resize0 :: "nat \<Rightarrow> nat list \<Rightarrow> nat list" where
  "resize0 n xs = take n xs @ replicate (n - length xs) 0"

definition bucket_add :: "nat list \<Rightarrow> f64 list \<Rightarrow> f64 \<Rightarrow> nat list" where
  "bucket_add counts edges v =
    (let cs = (if length counts \<noteq> length edges + 1 then resize0 (length edges + 1) counts else counts);
         i = (case edge_index edges v of None \<Rightarrow> length edges | Some i \<Rightarrow> i)
     in cs[i := cs ! i + 1])"

fun bucket_quantile_loop :: "f64 list \<Rightarrow> f64 \<Rightarrow> nat \<Rightarrow> f64 \<Rightarrow> nat list \<Rightarrow> f64 option" where
  "bucket_quantile_loop edges rank i seen [] = (if edges = [] then None else Some (last edges))"
| "bucket_quantile_loop edges rank i seen (c # cs) =
    (let x = f_of_nat c in
     if f_gt x (F_Fin 0) \<and> f_ge (f_add seen x) rank then
       (let lower = (if i = 0 then F_Fin 0 else edges ! (i - 1)) in
        if i < length edges then
          Some (f_add lower (f_mul (f_sub (edges ! i) lower)
            (f_clamp (f_div (f_sub rank seen) x) (F_Fin 0) (F_Fin 1))))
        else Some lower)
     else bucket_quantile_loop edges rank (Suc i) (f_add seen x) cs)"

definition bucket_quantile :: "nat list \<Rightarrow> f64 list \<Rightarrow> f64 \<Rightarrow> f64 option" where
  "bucket_quantile counts edges q =
    (if sum_list counts = 0 then None
     else bucket_quantile_loop edges (f_mul (f_clamp q (F_Fin 0) (F_Fin 1)) (f_of_nat (sum_list counts))) 0 (F_Fin 0) counts)"

definition user_exp_add :: "UserExp \<Rightarrow> f64 \<Rightarrow> f64 option \<Rightarrow> f64 option \<Rightarrow> UserExp" where
  "user_exp_add e ttfb_ms dur_ms completion_tokens =
    (let e1 = e\<lparr>ue_n := ue_n e + 1, ue_ttfb := bucket_add (ue_ttfb e) EXP_TTFB_MS ttfb_ms\<rparr> in
     case (dur_ms, completion_tokens) of
       (Some dur, Some tokens) \<Rightarrow>
         (let write_ms = f_sub dur ttfb_ms; secs = f_div write_ms (F_Fin 1000) in
          if f_ge tokens EXP_MIN_TOKENS \<and> f_ge write_ms EXP_MIN_WRITE_MS then
            e1\<lparr>ue_speed_n := ue_speed_n e1 + 1, ue_tokens := f_add (ue_tokens e1) tokens,
               ue_write_secs := f_add (ue_write_secs e1) secs,
               ue_speed := bucket_add (ue_speed e1) EXP_TOK_S (f_div tokens secs)\<rparr>
          else e1)
     | _ \<Rightarrow> e1)"

definition merge_counts :: "nat list \<Rightarrow> nat list \<Rightarrow> nat list" where
  "merge_counts mine theirs =
    (let ms = (if length mine < length theirs then resize0 (length theirs) mine else mine)
     in map (\<lambda>(m, t). m + t) (zip ms theirs) @ drop (length theirs) ms)"

definition user_exp_merge :: "UserExp \<Rightarrow> UserExp \<Rightarrow> UserExp" where
  "user_exp_merge a b =
    \<lparr>ue_n = ue_n a + ue_n b, ue_ttfb = merge_counts (ue_ttfb a) (ue_ttfb b), ue_speed_n = ue_speed_n a + ue_speed_n b,
     ue_tokens = f_add (ue_tokens a) (ue_tokens b), ue_write_secs = f_add (ue_write_secs a) (ue_write_secs b),
     ue_speed = merge_counts (ue_speed a) (ue_speed b)\<rparr>"

definition ttfb_quantile_ms :: "UserExp \<Rightarrow> f64 \<Rightarrow> f64 option" where
  "ttfb_quantile_ms e q = bucket_quantile (ue_ttfb e) EXP_TTFB_MS q"

definition speed_quantile :: "UserExp \<Rightarrow> f64 \<Rightarrow> f64 option" where
  "speed_quantile e q = bucket_quantile (ue_speed e) EXP_TOK_S q"

definition speed_avg :: "UserExp \<Rightarrow> f64 option" where
  "speed_avg e = (if f_gt (ue_write_secs e) (F_Fin 0) then Some (f_div (ue_tokens e) (ue_write_secs e)) else None)"

section \<open>Masked addresses\<close>

text \<open>The standard library's address parsers: four decimal octets without leading zeros; eight groups
  of one to four hexadecimal digits, at most one double colon standing for at least one group, and
  an IPv4 address in place of the last two.\<close>

definition ip4_octet :: "string \<Rightarrow> nat option" where
  "ip4_octet s =
    (if s \<noteq> [] \<and> length s \<le> 3 \<and> list_all is_digit s \<and> (length s = 1 \<or> hd s \<noteq> CHR ''0'') \<and> digits_val s < 256
     then Some (digits_val s) else None)"

definition parse_ip4 :: "string \<Rightarrow> nat list option" where
  "parse_ip4 s = (let os = map ip4_octet (split_on CHR ''.'' s) in
     if length os = 4 \<and> list_all (\<lambda>x. x \<noteq> None) os then Some (map the os) else None)"

definition ip6_group :: "string \<Rightarrow> nat option" where
  "ip6_group s =
    (if s \<noteq> [] \<and> length s \<le> 4 \<and> list_all (\<lambda>c. hex_val c \<noteq> None) s
     then Some (foldl (\<lambda>n c. 16 * n + the (hex_val c)) 0 s) else None)"

fun ip6_groups :: "bool \<Rightarrow> string list \<Rightarrow> nat list option" where
  "ip6_groups v4 [] = Some []"
| "ip6_groups v4 (g # gs) =
    (case ip6_group g of
       Some n \<Rightarrow> map_option (\<lambda>ns. n # ns) (ip6_groups v4 gs)
     | None \<Rightarrow>
        if v4 \<and> gs = [] then
          (case parse_ip4 g of Some [a, b, c, d] \<Rightarrow> Some [256 * a + b, 256 * c + d] | _ \<Rightarrow> None)
        else None)"

definition ip6_side :: "bool \<Rightarrow> string \<Rightarrow> nat list option" where
  "ip6_side v4 s = (if s = [] then Some [] else ip6_groups v4 (split_on CHR '':'' s))"

definition parse_ip6 :: "string \<Rightarrow> nat list option" where
  "parse_ip6 s =
    (case split_once ''::'' s of
       None \<Rightarrow> (case ip6_side True s of Some ns \<Rightarrow> if length ns = 8 then Some ns else None | None \<Rightarrow> None)
     | Some (h, t) \<Rightarrow>
        (case (ip6_side False h, ip6_side True t) of
           (Some hs, Some ts) \<Rightarrow>
             if length hs + length ts \<le> 7 then Some (hs @ replicate (8 - length hs - length ts) 0 @ ts) else None
         | _ \<Rightarrow> None))"

definition hex_char :: "nat \<Rightarrow> char" where
  "hex_char d = (if d < 10 then digit_char d else char_of (87 + d))"

fun show_hex :: "nat \<Rightarrow> string" where
  "show_hex n = (if n < 16 then [hex_char n] else show_hex (n div 16) @ [hex_char (n mod 16)])"

declare show_hex.simps [simp del]

definition mask_ip :: "string \<Rightarrow> string" where
  "mask_ip ip =
    (let s = trim ip in
     case parse_ip4 s of
       Some os \<Rightarrow> show_nat (os ! 0) @ ''.'' @ show_nat (os ! 1) @ ''.'' @ show_nat (os ! 2) @ ''.x''
     | None \<Rightarrow>
        (case parse_ip6 s of
           Some gs \<Rightarrow> show_hex (gs ! 0) @ '':'' @ show_hex (gs ! 1) @ '':'' @ show_hex (gs ! 2) @ ''::x''
         | None \<Rightarrow> ''(unknown)''))"

section \<open>Estimated tokens\<close>

record EstTokens =
  et_n :: u64
  et_sum :: f64
  et_max :: f64

definition est_default :: EstTokens where
  "est_default = \<lparr>et_n = 0, et_sum = F_Fin 0, et_max = F_Fin 0\<rparr>"

definition est_is_empty :: "EstTokens \<Rightarrow> bool" where
  "est_is_empty e \<longleftrightarrow> et_n e = 0"

definition est_add :: "EstTokens \<Rightarrow> f64 \<Rightarrow> EstTokens" where
  "est_add e v = \<lparr>et_n = et_n e + 1, et_sum = f_add (et_sum e) v, et_max = f_max (et_max e) v\<rparr>"

definition est_merge :: "EstTokens \<Rightarrow> EstTokens \<Rightarrow> EstTokens" where
  "est_merge a b = \<lparr>et_n = et_n a + et_n b, et_sum = f_add (et_sum a) (et_sum b), et_max = f_max (et_max a) (et_max b)\<rparr>"

definition est_avg :: "EstTokens \<Rightarrow> f64 option" where
  "est_avg e = (if 0 < et_n e then Some (f_div (et_sum e) (f_of_nat (et_n e))) else None)"

section \<open>The log of a lane\<close>

record LaneLog =
  ll_requests :: u64
  ll_other :: u64
  ll_by_status :: "(nat, u64) btree"
  ll_by_verdict :: "(string, u64) btree"
  ll_by_key :: "(string, u64) btree"
  ll_by_key_status :: "(string, (nat, u64) btree) btree"
  ll_est :: EstTokens
  ll_by_key_est :: "(string, EstTokens) btree"
  ll_by_ip :: "(string, u64) btree"
  ll_ttfb_by_size :: "(string, TimeAgg) btree"
  ll_completion_tokens :: f64
  ll_completion_estimated :: f64
  ll_prompt_max :: f64
  ll_by_user :: "(string, UserExp) btree"

definition lane_log_default :: LaneLog where
  "lane_log_default =
    \<lparr>ll_requests = 0, ll_other = 0, ll_by_status = [], ll_by_verdict = [], ll_by_key = [], ll_by_key_status = [],
     ll_est = est_default, ll_by_key_est = [], ll_by_ip = [], ll_ttfb_by_size = [], ll_completion_tokens = F_Fin 0,
     ll_completion_estimated = F_Fin 0, ll_prompt_max = F_Fin 0, ll_by_user = []\<rparr>"

definition lane_log_is_empty :: "LaneLog \<Rightarrow> bool" where
  "lane_log_is_empty l \<longleftrightarrow> ll_requests l = 0 \<and> ll_other l = 0"

definition lane_log_merge :: "LaneLog \<Rightarrow> LaneLog \<Rightarrow> LaneLog" where
  "lane_log_merge a b =
    \<lparr>ll_requests = ll_requests a + ll_requests b,
     ll_other = ll_other a + ll_other b,
     ll_by_status = add_counts (ll_by_status a) (ll_by_status b),
     ll_by_verdict = add_counts (ll_by_verdict a) (ll_by_verdict b),
     ll_by_key = add_counts (ll_by_key a) (ll_by_key b),
     ll_by_key_status = bt_merge [] add_counts (ll_by_key_status a) (ll_by_key_status b),
     ll_est = est_merge (ll_est a) (ll_est b),
     ll_by_key_est = bt_merge est_default est_merge (ll_by_key_est a) (ll_by_key_est b),
     ll_by_ip = add_counts (ll_by_ip a) (ll_by_ip b),
     ll_ttfb_by_size = bt_merge time_agg_default time_merge (ll_ttfb_by_size a) (ll_ttfb_by_size b),
     ll_completion_tokens = f_add (ll_completion_tokens a) (ll_completion_tokens b),
     ll_completion_estimated = f_add (ll_completion_estimated a) (ll_completion_estimated b),
     ll_prompt_max = f_max (ll_prompt_max a) (ll_prompt_max b),
     ll_by_user = bt_merge user_exp_default user_exp_merge (ll_by_user a) (ll_by_user b)\<rparr>"

definition status_count :: "LaneLog \<Rightarrow> nat \<Rightarrow> u64" where
  "status_count l code = bt_get_or 0 code (ll_by_status l)"

definition class_count :: "nat \<Rightarrow> (nat, u64) btree \<Rightarrow> u64" where
  "class_count c m = sum_list (map snd (filter (\<lambda>(status, _). status div 100 = c) m))"

definition status_classes :: "LaneLog \<Rightarrow> u64 \<times> u64 \<times> u64" where
  "status_classes l = (class_count 2 (ll_by_status l), class_count 4 (ll_by_status l), class_count 5 (ll_by_status l))"

section \<open>Adding a record\<close>

definition finite_nonneg :: "f64 option \<Rightarrow> f64 option" where
  "finite_nonneg x = (case x of None \<Rightarrow> None | Some v \<Rightarrow> if is_finite v \<and> f_ge v (F_Fin 0) then Some v else None)"

definition finite_only :: "f64 option \<Rightarrow> f64 option" where
  "finite_only x = (case x of None \<Rightarrow> None | Some v \<Rightarrow> if is_finite v then Some v else None)"

definition BENCH_USER :: string where "BENCH_USER = ''lss-bench''"

definition answered :: "AuditRecord \<Rightarrow> bool" where
  "answered r \<longleftrightarrow> 200 \<le> ar_status r \<and> ar_status r < 300"

definition record_user :: "AuditRecord \<Rightarrow> string option" where
  "record_user r =
    (let who = (if ar_bench r = Some True then Some BENCH_USER else if ar_key r \<noteq> None then ar_key r else ar_ip r)
     in case who of None \<Rightarrow> None | Some w \<Rightarrow> if w \<noteq> [] then Some w else None)"

text \<open>The counters every inference request moves.\<close>

definition lane_count :: "AuditRecord \<Rightarrow> LaneLog \<Rightarrow> LaneLog" where
  "lane_count r l =
    (let key = (case ar_key r of None \<Rightarrow> ''(no key)'' | Some k \<Rightarrow> k) in
     l\<lparr>ll_requests := ll_requests l + 1,
       ll_by_status := bt_bump (ar_status r) 1 (ll_by_status l),
       ll_by_verdict := bt_bump (ar_verdict r) 1 (ll_by_verdict l),
       ll_by_key := bt_bump key 1 (ll_by_key l),
       ll_by_key_status := bt_upd [] key (bt_bump (ar_status r) 1) (ll_by_key_status l)\<rparr>)"

definition lane_est :: "AuditRecord \<Rightarrow> LaneLog \<Rightarrow> LaneLog" where
  "lane_est r l =
    (case finite_nonneg (ar_estimated_tokens r) of None \<Rightarrow> l
     | Some est \<Rightarrow>
        l\<lparr>ll_est := est_add (ll_est l) est,
          ll_by_key_est := bt_upd est_default (case ar_key r of None \<Rightarrow> ''(no key)'' | Some k \<Rightarrow> k)
            (\<lambda>e. est_add e est) (ll_by_key_est l)\<rparr>)"

definition lane_ip :: "AuditRecord \<Rightarrow> LaneLog \<Rightarrow> LaneLog" where
  "lane_ip r l = (case ar_ip r of None \<Rightarrow> l | Some ip \<Rightarrow> l\<lparr>ll_by_ip := bt_bump (mask_ip ip) 1 (ll_by_ip l)\<rparr>)"

definition lane_prompt :: "AuditRecord \<Rightarrow> LaneLog \<Rightarrow> LaneLog" where
  "lane_prompt r l =
    (case (answered r, finite_nonneg (ar_est_tokens r)) of
       (True, Some prompt) \<Rightarrow>
         (let l1 = l\<lparr>ll_prompt_max := f_max (ll_prompt_max l) prompt\<rparr> in
          case finite_nonneg (ar_ttfb_ms r) of None \<Rightarrow> l1
          | Some ttfb \<Rightarrow>
              l1\<lparr>ll_ttfb_by_size := bt_upd time_agg_default (size_bucket prompt) (\<lambda>t. time_add t ttfb) (ll_ttfb_by_size l1)\<rparr>)
     | _ \<Rightarrow> l)"

definition lane_user :: "AuditRecord \<Rightarrow> LaneLog \<Rightarrow> LaneLog" where
  "lane_user r l =
    (case (answered r, finite_nonneg (ar_ttfb_ms r), record_user r) of
       (True, Some ttfb, Some who) \<Rightarrow>
         if length (ll_by_user l) < EXP_MAX_USERS \<or> bt_get who (ll_by_user l) \<noteq> None then
           l\<lparr>ll_by_user := bt_upd user_exp_default who
             (\<lambda>e. user_exp_add e ttfb (finite_only (ar_dur_ms r)) (finite_only (ar_completion_tokens r))) (ll_by_user l)\<rparr>
         else l
     | _ \<Rightarrow> l)"

definition lane_completion :: "AuditRecord \<Rightarrow> LaneLog \<Rightarrow> LaneLog" where
  "lane_completion r l =
    (case (answered r, finite_nonneg (ar_completion_tokens r)) of
       (True, Some out) \<Rightarrow>
         l\<lparr>ll_completion_tokens := f_add (ll_completion_tokens l) out,
           ll_completion_estimated :=
             (if ar_completion_exact r = Some False then f_add (ll_completion_estimated l) out
              else ll_completion_estimated l)\<rparr>
     | _ \<Rightarrow> l)"

definition lane_add :: "AuditRecord \<Rightarrow> LaneLog \<Rightarrow> LaneLog" where
  "lane_add r l =
    (if ar_method r \<noteq> ''POST'' then l\<lparr>ll_other := ll_other l + 1\<rparr>
     else lane_completion r (lane_user r (lane_prompt r (lane_ip r (lane_est r (lane_count r l))))))"

record LogDelta =
  ld_public :: LaneLog
  ld_trusted :: LaneLog

definition log_delta_default :: LogDelta where
  "log_delta_default = \<lparr>ld_public = lane_log_default, ld_trusted = lane_log_default\<rparr>"

definition log_delta_is_empty :: "LogDelta \<Rightarrow> bool" where
  "log_delta_is_empty d \<longleftrightarrow> lane_log_is_empty (ld_public d) \<and> lane_log_is_empty (ld_trusted d)"

definition log_delta_add :: "LogDelta \<Rightarrow> AuditRecord \<Rightarrow> LogDelta" where
  "log_delta_add d r =
    (if ar_caller r = ''public'' then d\<lparr>ld_public := lane_add r (ld_public d)\<rparr>
     else d\<lparr>ld_trusted := lane_add r (ld_trusted d)\<rparr>)"

definition log_delta_merge :: "LogDelta \<Rightarrow> LogDelta \<Rightarrow> LogDelta" where
  "log_delta_merge a b =
    \<lparr>ld_public = lane_log_merge (ld_public a) (ld_public b), ld_trusted = lane_log_merge (ld_trusted a) (ld_trusted b)\<rparr>"

section \<open>Reading the log\<close>

definition split_docker_ts :: "string \<Rightarrow> (string \<times> string) option" where
  "split_docker_ts line =
    (case split_once '' '' line of None \<Rightarrow> None
     | Some (ts, rest) \<Rightarrow>
        if 20 \<le> length ts \<and> ts ! 4 = CHR ''-'' \<and> ts ! 10 = CHR ''T'' \<and> last ts = CHR ''Z'' then Some (ts, rest) else None)"

definition parse_audit :: "(string \<Rightarrow> AuditRecord option) \<Rightarrow> string \<Rightarrow> AuditRecord option" where
  "parse_audit from_json rest = (let s = trim rest in if starts_with s ''{'' then from_json s else None)"

text \<open>One line of \<open>ingest\<close>: skipped at or before \<open>after\<close>; the newest stamp is carried along.\<close>

definition ingest_line ::
  "(string \<Rightarrow> AuditRecord option) \<Rightarrow> string option \<Rightarrow> LogDelta \<times> string option \<Rightarrow> string \<Rightarrow> LogDelta \<times> string option" where
  "ingest_line from_json after st line =
    (case split_docker_ts line of None \<Rightarrow> st
     | Some (ts, rest) \<Rightarrow>
        if (case after of None \<Rightarrow> False | Some a \<Rightarrow> ts \<le> a) then st
        else
          (let newest = (if (case snd st of None \<Rightarrow> True | Some n \<Rightarrow> n < ts) then Some ts else snd st)
           in (case parse_audit from_json rest of None \<Rightarrow> fst st | Some r \<Rightarrow> log_delta_add (fst st) r, newest)))"

definition ingest ::
  "(string \<Rightarrow> AuditRecord option) \<Rightarrow> string \<Rightarrow> string option \<Rightarrow> LogDelta \<times> string option" where
  "ingest from_json text after = foldl (ingest_line from_json after) (log_delta_default, after) (str_lines text)"

end
