(* ===== verification/GateLogFacts.thy ===== *)
theory GateLogFacts
  imports GateLog
begin

text \<open>
  What the gateway log's counting promises: every request lands in every breakdown once, merging adds,
  no log line is counted twice by repeated polls, the time shares never flatter, and a masked
  address does not depend on its host part.
\<close>

section \<open>The breakdowns agree\<close>

definition codes_of :: "nat \<Rightarrow> (string, (nat, u64) btree) btree \<Rightarrow> u64" where
  "codes_of code m = bt_weight (bt_get_or 0 code) m"

definition lane_ok :: "LaneLog \<Rightarrow> bool" where
  "lane_ok l \<longleftrightarrow> bt_invar (ll_by_status l) \<and> bt_invar (ll_by_verdict l) \<and> bt_invar (ll_by_key l) \<and>
     bt_invar (ll_by_key_status l) \<and> bt_all bt_invar (ll_by_key_status l) \<and>
     bt_weight id (ll_by_status l) = ll_requests l \<and> bt_weight id (ll_by_verdict l) = ll_requests l \<and>
     bt_weight id (ll_by_key l) = ll_requests l \<and>
     (\<forall>code. codes_of code (ll_by_key_status l) = bt_get_or 0 code (ll_by_status l))"

lemma lane_parts [simp]:
  "ll_requests (lane_est r l) = ll_requests l" "ll_requests (lane_ip r l) = ll_requests l"
  "ll_requests (lane_prompt r l) = ll_requests l" "ll_requests (lane_user r l) = ll_requests l"
  "ll_requests (lane_completion r l) = ll_requests l"
  "ll_other (lane_est r l) = ll_other l" "ll_other (lane_ip r l) = ll_other l"
  "ll_other (lane_prompt r l) = ll_other l" "ll_other (lane_user r l) = ll_other l"
  "ll_other (lane_completion r l) = ll_other l"
  "lane_ok (lane_est r l) = lane_ok l" "lane_ok (lane_ip r l) = lane_ok l"
  "lane_ok (lane_prompt r l) = lane_ok l" "lane_ok (lane_user r l) = lane_ok l"
  "lane_ok (lane_completion r l) = lane_ok l"
  by (auto simp: lane_est_def lane_ip_def lane_prompt_def lane_user_def lane_completion_def lane_ok_def Let_def
      split: option.split bool.split)

lemma codes_of_bump:
  assumes "bt_invar m" "bt_all bt_invar m"
  shows "codes_of code (bt_upd [] k (bt_bump s 1) m) = codes_of code m + (if code = s then 1 else 0)"
  unfolding codes_of_def
proof (rule bt_weight_upd)
  show "bt_get_or 0 code (bt_bump s 1 (bt_get_or [] k m)) = bt_get_or 0 code (bt_get_or [] k m) + (if code = s then 1 else 0)"
    using bt_all_get_or [OF assms(2), of "[]" k] by (simp add: bt_get_bump bt.invar_empty)
qed (use assms in \<open>simp_all add: bt_get_or_def bt_get_def\<close>)

lemma bt_invar_bump [inv_intros]: "bt_invar m \<Longrightarrow> bt_invar (bt_bump k n m)"
  by (simp add: bt_bump_def inv_intros)

lemma lane_ok_count: "lane_ok l \<Longrightarrow> lane_ok (lane_count r l)"
  by (auto simp: lane_ok_def lane_count_def Let_def bt_weight_bump codes_of_bump [unfolded One_nat_def]
      bt_get_bump intro!: bt_upd_invar bt_invar_bump bt_all_upd bt.invar_empty)

lemma lane_ok_add: "lane_ok l \<Longrightarrow> lane_ok (lane_add r l)"
  by (cases "ar_method r = ''POST''") (simp_all add: lane_add_def lane_ok_count, simp add: lane_ok_def)

lemma lane_ok_default: "lane_ok lane_log_default"
  by (simp add: lane_ok_def lane_log_default_def bt.invar_empty codes_of_def bt_get_or_def bt_get_def)

lemma lane_add_one: "ll_requests (lane_add r l) + ll_other (lane_add r l) = ll_requests l + ll_other l + 1"
  by (simp add: lane_add_def lane_count_def Let_def)

definition delta_ok :: "LogDelta \<Rightarrow> bool" where
  "delta_ok d \<longleftrightarrow> lane_ok (ld_public d) \<and> lane_ok (ld_trusted d)"

definition delta_records :: "LogDelta \<Rightarrow> nat" where
  "delta_records d = ll_requests (ld_public d) + ll_other (ld_public d) + ll_requests (ld_trusted d) + ll_other (ld_trusted d)"

lemma delta_ok_add: "delta_ok d \<Longrightarrow> delta_ok (log_delta_add d r)"
  by (simp add: delta_ok_def log_delta_add_def lane_ok_add)

lemma delta_records_add: "delta_records (log_delta_add d r) = delta_records d + 1"
  using lane_add_one [of r "ld_public d"] lane_add_one [of r "ld_trusted d"]
  by (simp add: delta_records_def log_delta_add_def)

lemma delta_all:
  "delta_ok (foldl log_delta_add log_delta_default rs) \<and>
   delta_records (foldl log_delta_add log_delta_default rs) = length rs"
proof (induction rs rule: rev_induct)
  case Nil
  show ?case using lane_ok_default
    by (simp add: delta_ok_def log_delta_default_def delta_records_def) (simp add: lane_log_default_def)
next
  case (snoc r rs)
  then show ?case by (simp add: delta_ok_add delta_records_add)
qed

section \<open>Merging adds\<close>

lemma bt_get_add_counts:
  "bt_invar mine \<Longrightarrow> bt_invar theirs \<Longrightarrow>
   bt_get_or 0 k (add_counts mine theirs) = bt_get_or 0 k mine + bt_get_or (0::nat) k theirs"
  unfolding add_counts_def
proof (induction theirs arbitrary: mine)
  case (Cons lv theirs)
  obtain l v where lv: "lv = (l, v)" by fastforce
  have t: "bt_invar theirs" "l \<notin> fst ` set theirs" using Cons.prems(2) lv by (auto simp: bt_invar_def)
  have "bt_get_or 0 l theirs = 0"
    using t(2) by (force simp: bt_get_or_def bt_get_def split: option.split dest: map_of_SomeD)
  moreover have "bt_invar (bt_upd 0 l (\<lambda>x. x + v) mine)" using Cons.prems(1) by (rule bt_upd_invar)
  moreover have "bt_get_or 0 k (lv # theirs) = (if k = l then v else bt_get_or 0 k theirs)"
    by (simp add: lv bt_get_or_def bt_get_def)
  ultimately show ?case using Cons.IH [of "bt_upd 0 l (\<lambda>x. x + v) mine"] Cons.prems(1) t(1) lv
    by (auto simp: bt_get_upd)
qed (simp add: bt_get_or_def bt_get_def)

lemma add_counts_invar [inv_intros]: "bt_invar mine \<Longrightarrow> bt_invar (add_counts mine theirs)"
  by (simp add: add_counts_def inv_intros)

lemma codes_of_merge:
  assumes "bt_invar a" "bt_all bt_invar a" "bt_all bt_invar b"
  shows "codes_of code (bt_merge [] add_counts a b) = codes_of code a + codes_of code b"
  unfolding codes_of_def
  by (rule bt_weight_merge [where P = bt_invar and Q = bt_invar])
    (use assms in \<open>auto simp: bt_get_add_counts bt.invar_empty bt_get_or_def [of _ _ "[]"] bt_get_def intro: inv_intros\<close>)

lemma lane_ok_merge:
  assumes "lane_ok a" "lane_ok b"
  shows "lane_ok (lane_log_merge a b)"
proof -
  have "bt_all bt_invar (bt_merge [] add_counts (ll_by_key_status a) (ll_by_key_status b))"
    using assms by (intro bt_all_merge [where Q = bt_invar]) (auto simp: lane_ok_def bt.invar_empty intro: inv_intros)
  then show ?thesis
    using assms by (auto simp: lane_ok_def lane_log_merge_def bt_weight_add_counts codes_of_merge bt_get_add_counts
        intro: inv_intros)
qed

lemma delta_merge_ok:
  "delta_ok a \<Longrightarrow> delta_ok b \<Longrightarrow>
   delta_ok (log_delta_merge a b) \<and> delta_records (log_delta_merge a b) = delta_records a + delta_records b"
  by (simp add: delta_ok_def log_delta_merge_def lane_ok_merge delta_records_def) (simp add: lane_log_merge_def)

section \<open>The tallies of the log\<close>

definition inference :: "bool \<Rightarrow> AuditRecord \<Rightarrow> bool" where
  "inference pub r \<longleftrightarrow> (ar_caller r = ''public'') = pub \<and> ar_method r = ''POST''"

definition lane_of :: "bool \<Rightarrow> LogDelta \<Rightarrow> LaneLog" where
  "lane_of pub d = (if pub then ld_public d else ld_trusted d)"

lemma lane_maps [simp]:
  "ll_by_status (lane_est r l) = ll_by_status l" "ll_by_status (lane_ip r l) = ll_by_status l"
  "ll_by_status (lane_prompt r l) = ll_by_status l" "ll_by_status (lane_user r l) = ll_by_status l"
  "ll_by_status (lane_completion r l) = ll_by_status l"
  "ll_by_key (lane_est r l) = ll_by_key l" "ll_by_key (lane_ip r l) = ll_by_key l"
  "ll_by_key (lane_prompt r l) = ll_by_key l" "ll_by_key (lane_user r l) = ll_by_key l"
  "ll_by_key (lane_completion r l) = ll_by_key l"
  by (auto simp: lane_est_def lane_ip_def lane_prompt_def lane_user_def lane_completion_def Let_def
      split: option.split bool.split)

lemma lane_of_add:
  "lane_of pub (log_delta_add d r) = (if (ar_caller r = ''public'') = pub then lane_add r (lane_of pub d) else lane_of pub d)"
  by (auto simp: lane_of_def log_delta_add_def)

lemma lane_of_merge: "lane_of pub (log_delta_merge a b) = lane_log_merge (lane_of pub a) (lane_of pub b)"
  by (simp add: lane_of_def log_delta_merge_def)

lemma lane_of_default [simp]: "lane_of pub log_delta_default = lane_log_default"
  by (simp add: lane_of_def log_delta_default_def)

lemma lane_of_ok: "delta_ok d \<Longrightarrow> lane_ok (lane_of pub d)"
  by (simp add: delta_ok_def lane_of_def)

lemma delta_ok_default: "delta_ok log_delta_default"
  by (simp add: delta_ok_def log_delta_default_def lane_ok_default)

lemma status_add:
  "lane_ok l \<Longrightarrow> status_count (lane_add r l) code =
     status_count l code + (if ar_method r = ''POST'' \<and> ar_status r = code then 1 else 0)"
  by (auto simp: status_count_def lane_add_def lane_count_def Let_def lane_ok_def bt_get_bump)

lemma key_add:
  "lane_ok l \<Longrightarrow> bt_get_or 0 key (ll_by_key (lane_add r l)) = bt_get_or 0 key (ll_by_key l) +
     (if ar_method r = ''POST'' \<and> (case ar_key r of None \<Rightarrow> ''(no key)'' | Some k \<Rightarrow> k) = key then 1 else 0)"
  by (auto simp: lane_add_def lane_count_def Let_def lane_ok_def bt_get_bump)

interpretation by_status: tally log_delta_default log_delta_add log_delta_merge delta_ok
  "\<lambda>d. status_count (lane_of pub d) code" "\<lambda>r. if inference pub r \<and> ar_status r = code then 1 else 0"
  for pub code
proof unfold_locales
  show "status_count (lane_of pub log_delta_default) code = 0"
    by (simp add: status_count_def lane_log_default_def bt_get_or_def bt_get_def)
  show "status_count (lane_of pub (log_delta_merge s t)) code =
      status_count (lane_of pub s) code + status_count (lane_of pub t) code" if "delta_ok s" "delta_ok t" for s t
    using that [THEN lane_of_ok, of pub]
    by (simp add: lane_of_merge status_count_def lane_log_merge_def bt_get_add_counts lane_ok_def)
qed (auto simp: delta_ok_default delta_ok_add delta_merge_ok lane_of_add status_add lane_of_ok inference_def)

interpretation by_key: tally log_delta_default log_delta_add log_delta_merge delta_ok
  "\<lambda>d. bt_get_or 0 key (ll_by_key (lane_of pub d))"
  "\<lambda>r. if inference pub r \<and> (case ar_key r of None \<Rightarrow> ''(no key)'' | Some k \<Rightarrow> k) = key then 1 else 0"
  for pub key
proof unfold_locales
  show "bt_get_or 0 key (ll_by_key (lane_of pub log_delta_default)) = 0"
    by (simp add: lane_log_default_def bt_get_or_def bt_get_def)
  show "bt_get_or 0 key (ll_by_key (lane_of pub (log_delta_merge s t))) =
      bt_get_or 0 key (ll_by_key (lane_of pub s)) + bt_get_or 0 key (ll_by_key (lane_of pub t))"
    if "delta_ok s" "delta_ok t" for s t
    using that [THEN lane_of_ok, of pub]
    by (simp add: lane_of_merge lane_log_merge_def bt_get_add_counts lane_ok_def)
qed (auto simp: delta_ok_default delta_ok_add delta_merge_ok lane_of_add key_add lane_of_ok inference_def)

interpretation by_record: tally log_delta_default log_delta_add log_delta_merge delta_ok delta_records "\<lambda>r. 1"
proof unfold_locales
  show "delta_records log_delta_default = 0"
    by (simp add: delta_records_def log_delta_default_def) (simp add: lane_log_default_def)
qed (auto simp: delta_ok_default delta_ok_add delta_merge_ok delta_records_add)

section \<open>Users are bounded\<close>

lemma length_bt_insert:
  "bt_invar m \<Longrightarrow> length (bt_insert k v m) = (if bt_get k m = None then length m + 1 else length m)"
proof (induction k v m rule: bt_insert.induct)
  case (2 k v l w m)
  have "k < l \<Longrightarrow> bt_get k m = None"
    using 2(2) by (fastforce simp: bt_get_def bt_invar_def map_of_eq_None_iff)
  then show ?case using 2 by (auto simp: bt_get_def bt_invar_def)
qed (simp add: bt_get_def)

definition users_ok :: "LaneLog \<Rightarrow> bool" where
  "users_ok l \<longleftrightarrow> bt_invar (ll_by_user l) \<and> length (ll_by_user l) \<le> EXP_MAX_USERS"

lemma users_parts [simp]:
  "users_ok (lane_count r l) = users_ok l" "users_ok (lane_est r l) = users_ok l" "users_ok (lane_ip r l) = users_ok l"
  "users_ok (lane_prompt r l) = users_ok l" "users_ok (lane_completion r l) = users_ok l"
  by (auto simp: lane_count_def lane_est_def lane_ip_def lane_prompt_def lane_completion_def users_ok_def Let_def
      split: option.split bool.split)

lemma users_ok_user: "users_ok l \<Longrightarrow> users_ok (lane_user r l)"
  by (auto simp: users_ok_def lane_user_def bt_upd_def length_bt_insert EXP_MAX_USERS_def
      split: option.split bool.split intro: inv_intros)

lemma users_ok_add: "users_ok l \<Longrightarrow> users_ok (lane_add r l)"
  by (cases "ar_method r = ''POST''") (simp_all add: lane_add_def users_ok_user, simp add: users_ok_def)

lemma delta_users:
  "users_ok (ld_public (foldl log_delta_add log_delta_default rs)) \<and>
   users_ok (ld_trusted (foldl log_delta_add log_delta_default rs))"
proof (induction rs rule: rev_induct)
  case Nil
  show ?case by (simp add: users_ok_def log_delta_default_def lane_log_default_def bt.invar_empty)
next
  case (snoc r rs)
  then show ?case by (simp add: log_delta_add_def users_ok_add)
qed

section \<open>No line is counted twice\<close>

definition stamped_by :: "string option \<Rightarrow> string \<Rightarrow> bool" where
  "stamped_by n line \<longleftrightarrow>
    (case split_docker_ts line of None \<Rightarrow> True | Some (ts, rest) \<Rightarrow> (case n of None \<Rightarrow> False | Some m \<Rightarrow> ts \<le> m))"

lemma ingest_line_newest:
  "snd (ingest_line fj a st line) = snd st \<or> (\<exists>ts. snd (ingest_line fj a st line) = Some ts \<and>
     (case snd st of None \<Rightarrow> True | Some n \<Rightarrow> n < ts))"
  by (auto simp: ingest_line_def Let_def split: option.splits)

lemma stamped_by_line:
  assumes "a = None \<or> (\<exists>m n. a = Some m \<and> snd st = Some n \<and> m \<le> n)"
  shows "stamped_by (snd (ingest_line fj a st line)) line \<and>
    (a = None \<or> (\<exists>m n. a = Some m \<and> snd (ingest_line fj a st line) = Some n \<and> m \<le> n))"
  using assms by (fastforce simp: stamped_by_def ingest_line_def Let_def split: option.splits)

lemma stamped_by_later: "stamped_by (snd st) l \<Longrightarrow> stamped_by (snd (ingest_line fj a st line)) l"
  using ingest_line_newest [of fj a st line] by (fastforce simp: stamped_by_def split: option.splits)

lemma ingest_all_stamped:
  "a = None \<or> (\<exists>m n. a = Some m \<and> snd st = Some n \<and> m \<le> n) \<Longrightarrow> list_all (stamped_by (snd st)) done1 \<Longrightarrow>
   list_all (stamped_by (snd (foldl (ingest_line fj a) st ls))) (done1 @ ls)"
proof (induction ls arbitrary: st done1)
  case (Cons l ls)
  let ?st = "ingest_line fj a st l"
  have "list_all (stamped_by (snd ?st)) (done1 @ [l])"
    using Cons.prems stamped_by_line [OF Cons.prems(1), of fj l] stamped_by_later [of st _ fj a l]
    by (auto simp: list_all_iff)
  then show ?case
    using Cons.IH [of ?st "done1 @ [l]"] stamped_by_line [OF Cons.prems(1), of fj l] by simp
qed simp

lemma ingest_skips:
  "list_all (stamped_by n) ls \<Longrightarrow> foldl (ingest_line fj n) st ls = st"
  by (induction ls) (auto simp: stamped_by_def ingest_line_def split: option.splits)

lemma ingest_resumes:
  assumes "n = snd (ingest fj (u @ [CHR 0x0A]) a)"
  shows "ingest fj (u @ CHR 0x0A # t) n = ingest fj t n"
proof -
  have "list_all (stamped_by n) (str_lines (u @ [CHR 0x0A]))"
    using ingest_all_stamped [of a "(log_delta_default, a)" "[]" fj "str_lines (u @ [CHR 0x0A])"] assms
    by (cases a) (auto simp: ingest_def)
  from ingest_skips [OF this] show ?thesis
    unfolding ingest_def str_lines_app [of u t] foldl_append by simp
qed

section \<open>Times\<close>

definition time_agg_of :: "f64 list \<Rightarrow> TimeAgg" where
  "time_agg_of xs = foldl time_add time_agg_default xs"

lemma edge_index_bound: "edge_index es v = Some i \<Longrightarrow> i < length es \<and> f_le v (es ! i)"
  by (induction es arbitrary: i) (auto split: if_splits)

lemma filtered_sum_upd:
  "length le = length es \<Longrightarrow> i < length es \<Longrightarrow>
   sum_list (map snd (filter (\<lambda>(e, _). P e) (zip es (le[i := le ! i + 1])))) =
   sum_list (map snd (filter (\<lambda>(e, _). P e) (zip es le))) + (if P (es ! i) then 1 else (0::nat))"
proof (induction le es arbitrary: i rule: list_induct2)
  case (Cons x xs y ys)
  then show ?case by (cases i) auto
qed simp

definition counted_in :: "f64 \<Rightarrow> f64 \<Rightarrow> bool" where
  "counted_in ms v \<longleftrightarrow>
    (case edge_index TIME_EDGES_MS v of None \<Rightarrow> False | Some i \<Rightarrow> f_le (TIME_EDGES_MS ! i) ms)"

lemma time_agg_shape: "length (ta_le (time_agg_of xs)) = length TIME_EDGES_MS"
proof (induction xs rule: rev_induct)
  case Nil
  show ?case by (simp add: time_agg_of_def time_agg_default_def TIME_EDGES_MS_def)
next
  case (snoc x xs)
  then show ?case by (simp add: time_agg_of_def time_add_def split: option.split)
qed

lemma time_within_counts:
  "time_within (time_agg_of xs) ms = (length xs, length (filter (counted_in ms) xs))"
proof (induction xs rule: rev_induct)
  case Nil
  have "sum_list (map snd (filter (\<lambda>(e, _). P e) (zip es (replicate n 0)))) = (0::nat)" for P n and es :: "f64 list"
    by (induction es arbitrary: n) (auto simp: zip_replicate2 Cons_replicate_eq split: nat.split)
  then show ?case by (simp add: time_within_def time_agg_of_def time_agg_default_def)
next
  case (snoc x xs)
  let ?a = "time_agg_of xs"
  have a: "time_agg_of (xs @ [x]) = time_add ?a x" by (simp add: time_agg_of_def)
  show ?case
  proof (cases "edge_index TIME_EDGES_MS x")
    case None
    then show ?thesis using snoc unfolding a by (simp add: time_within_def time_add_def counted_in_def)
  next
    case (Some i)
    then show ?thesis
      using snoc filtered_sum_upd [OF time_agg_shape [of xs], of i "\<lambda>e. f_le e ms"] edge_index_bound [OF Some]
      unfolding a by (simp add: time_within_def time_add_def counted_in_def)
  qed
qed

lemma counted_in_le: "counted_in ms v \<Longrightarrow> f_le v ms"
  using edge_index_bound f_le_trans by (fastforce simp: counted_in_def split: option.splits)

lemma edge_index_first:
  "sorted_wrt f_le es \<Longrightarrow> e \<in> set es \<Longrightarrow> f_le v e \<Longrightarrow> \<exists>i. edge_index es v = Some i \<and> f_le (es ! i) e"
proof (induction es)
  case (Cons y ys)
  show ?case
  proof (cases "f_le v y")
    case True
    have "f_le y e" using Cons.prems f_not_nan_le by (cases "e = y") auto
    then show ?thesis using True by simp
  next
    case False
    then have "e \<in> set ys" using Cons.prems by auto
    then obtain i where "edge_index ys v = Some i" "f_le (ys ! i) e" using Cons by auto
    then show ?thesis using False by simp
  qed
qed simp

lemma edges_sorted: "sorted_wrt f_le TIME_EDGES_MS"
  by (simp add: TIME_EDGES_MS_def)

lemma counted_in_edge: "ms \<in> set TIME_EDGES_MS \<Longrightarrow> f_le v ms \<Longrightarrow> counted_in ms v"
  using edge_index_first [OF edges_sorted] by (fastforce simp: counted_in_def)

section \<open>Masked addresses\<close>

definition dotted :: "nat \<Rightarrow> nat \<Rightarrow> nat \<Rightarrow> nat \<Rightarrow> string" where
  "dotted a b c d = show_nat a @ ''.'' @ show_nat b @ ''.'' @ show_nat c @ ''.'' @ show_nat d"

lemma show_nat_length: "n < 256 \<Longrightarrow> length (show_nat n) \<le> 3"
  by (subst show_nat.simps, subst show_nat.simps, subst show_nat.simps) auto

lemma show_nat_small: "n < 10 \<Longrightarrow> show_nat n = [digit_char n]"
  by (subst show_nat.simps) simp

lemma show_nat_big: "\<not> n < 10 \<Longrightarrow> show_nat n = show_nat (n div 10) @ [digit_char (n mod 10)]"
  by (subst show_nat.simps) simp

lemma show_nat_hd: "length (show_nat n) = 1 \<or> hd (show_nat n) \<noteq> CHR ''0''"
proof (induction n rule: less_induct)
  case (less n)
  show ?case
  proof (cases "n < 10")
    case True
    then show ?thesis by (simp add: show_nat_small)
  next
    case False
    have "hd (show_nat (n div 10)) \<noteq> CHR ''0''"
    proof (cases "n div 10 < 10")
      case True
      then have "digit_val (hd (show_nat (n div 10))) = n div 10" by (simp add: show_nat_small)
      then show ?thesis using False by (auto simp: digit_val_def)
    next
      case big: False
      then have "length (show_nat (n div 10)) \<noteq> 1" by (simp add: show_nat_big)
      then show ?thesis using less [of "n div 10"] False by auto
    qed
    then show ?thesis using False by (simp add: show_nat_big)
  qed
qed

lemma ip4_octet_show: "n < 256 \<Longrightarrow> ip4_octet (show_nat n) = Some n"
  using show_nat_length [of n] show_nat_hd [of n] show_nat_digits [of n]
  by (simp add: ip4_octet_def)

lemma no_dot: "CHR ''.'' \<notin> set (show_nat n)"
  using show_nat_digits [of n] by (auto simp: list_all_iff is_digit_def)

lemma parse_ip4_dotted:
  assumes "a < 256" "b < 256" "c < 256" "d < 256"
  shows "parse_ip4 (dotted a b c d) = Some [a, b, c, d]"
proof -
  have "split_on CHR ''.'' (dotted a b c d) = [show_nat a, show_nat b, show_nat c, show_nat d]"
    using no_dot by (simp add: dotted_def split_on_append split_on_no)
  then show ?thesis using assms by (simp add: parse_ip4_def ip4_octet_show)
qed

lemma trim_dotted: "trim (dotted a b c d) = dotted a b c d"
proof (rule trim_id)
  have "\<not> is_ws (hd (show_nat a))" "\<not> is_ws (last (show_nat d))"
    using show_nat_digits [of a] show_nat_digits [of d] show_nat_ne [of a] show_nat_ne [of d]
    by (auto simp: list_all_iff intro!: is_digit_not_ws)
  then show "dotted a b c d = [] \<or> \<not> is_ws (hd (dotted a b c d)) \<and> \<not> is_ws (last (dotted a b c d))"
    by (simp add: dotted_def)
qed

lemma mask_dotted:
  assumes "a < 256" "b < 256" "c < 256" "d < 256"
  shows "mask_ip (dotted a b c d) = show_nat a @ ''.'' @ show_nat b @ ''.'' @ show_nat c @ ''.x''"
  by (simp add: mask_ip_def Let_def trim_dotted parse_ip4_dotted [OF assms])

end
