(* ===== verification/Rates.thy ===== *)
theory Rates
  imports BTree RustText
begin

text \<open>
  \<open>crates/lss-core/src/rates.rs\<close>: time-of-use electricity prices, and the dollars of a series of watt
  readings, each interval priced at its own start. The host's local time (\<open>chrono::Local\<close>) is an
  argument, the calendar fields of a timestamp; reading the TOML file is not modelled.
\<close>

record Period =
  pd_name :: string
  pd_usd_per_kwh :: f64
  pd_season :: string
  pd_day_kind :: string
  pd_start_hour :: u32
  pd_end_hour :: u32

record DayContext =
  dc_hour :: u32
  dc_is_summer :: bool
  dc_is_weekend_or_holiday :: bool

definition period_matches :: "Period \<Rightarrow> DayContext \<Rightarrow> bool" where
  "period_matches p ctx \<longleftrightarrow>
    (if pd_season p = ''summer'' then dc_is_summer ctx
     else if pd_season p = ''winter'' then \<not> dc_is_summer ctx else True) \<and>
    (if pd_day_kind p = ''weekday'' then \<not> dc_is_weekend_or_holiday ctx
     else if pd_day_kind p = ''weekend_or_holiday'' then dc_is_weekend_or_holiday ctx else True) \<and>
    pd_start_hour p \<le> dc_hour ctx \<and> dc_hour ctx < pd_end_hour p"

datatype RatePlan =
    FlatRate f64
  | TimeOfUse (tou_summer_start: u32) (tou_summer_end: u32) (tou_holidays: "string list") (tou_periods: "Period list")

record RateTable =
  rt_name :: string
  rt_effective_date :: string
  rt_plan :: RatePlan
  rt_fixed_usd_per_day :: "f64 option"
  rt_unresolved_usd_per_kwh :: "f64 option"
  rt_source :: "string option"
  rt_holidays :: "(int \<times> u32 \<times> u32) list"

section \<open>Dates\<close>

text \<open>\<open>iN::from_str\<close>: an optional sign, digits, no overflow.\<close>

definition parse_int_bits :: "nat \<Rightarrow> string \<Rightarrow> int option" where
  "parse_int_bits bits s =
    (case s of
       c # t \<Rightarrow>
         if c = CHR ''-'' then
           (if t \<noteq> [] \<and> list_all is_digit t \<and> digits_val t \<le> 2 ^ (bits - 1) then Some (- int (digits_val t)) else None)
         else map_option int (case parse_uint (bits - 1) s of None \<Rightarrow> None | Some n \<Rightarrow> Some n)
     | [] \<Rightarrow> None)"

definition parse_ymd :: "string \<Rightarrow> (int \<times> u32 \<times> u32) option" where
  "parse_ymd s =
    (case split_once ''-'' (trim s) of None \<Rightarrow> None
     | Some (ys, rest) \<Rightarrow>
       (case parse_int_bits 32 ys of None \<Rightarrow> None
        | Some y \<Rightarrow>
          (case split_once ''-'' rest of None \<Rightarrow> None
           | Some (ms, ds) \<Rightarrow>
             (case (parse_uint 32 ms, parse_uint 32 ds) of
                (Some m, Some d) \<Rightarrow> if 1 \<le> m \<and> m \<le> 12 \<and> 1 \<le> d \<and> d \<le> 31 then Some (y, m, d) else None
              | _ \<Rightarrow> None))))"

definition rate_table_new :: "string \<Rightarrow> string \<Rightarrow> RatePlan \<Rightarrow> f64 option \<Rightarrow> f64 option \<Rightarrow> RateTable" where
  "rate_table_new name effective_date pl fixed unresolved =
    \<lparr>rt_name = name, rt_effective_date = effective_date, rt_plan = pl, rt_fixed_usd_per_day = fixed,
     rt_unresolved_usd_per_kwh = unresolved, rt_source = None,
     rt_holidays = (case pl of TimeOfUse _ _ holidays _ \<Rightarrow> List.map_filter parse_ymd holidays | FlatRate _ \<Rightarrow> [])\<rparr>"

definition with_source :: "RateTable \<Rightarrow> string option \<Rightarrow> RateTable" where
  "with_source t source =
    t\<lparr>rt_source := (case source of None \<Rightarrow> None | Some s \<Rightarrow> if trim s \<noteq> [] then Some (trim s) else None)\<rparr>"

definition is_flat :: "RateTable \<Rightarrow> bool" where
  "is_flat t = (case rt_plan t of FlatRate _ \<Rightarrow> True | _ \<Rightarrow> False)"

definition price_for :: "RateTable \<Rightarrow> DayContext \<Rightarrow> (f64 \<times> string) option" where
  "price_for t ctx =
    (case rt_plan t of
       FlatRate usd \<Rightarrow> Some (usd, ''flat'')
     | TimeOfUse _ _ _ periods \<Rightarrow>
         map_option (\<lambda>p. (pd_usd_per_kwh p, pd_name p)) (find (\<lambda>p. period_matches p ctx) periods))"

definition is_holiday :: "RateTable \<Rightarrow> int \<Rightarrow> u32 \<Rightarrow> u32 \<Rightarrow> bool" where
  "is_holiday t y m d \<longleftrightarrow> (y, m, d) \<in> set (rt_holidays t)"

text \<open>The calendar fields of a timestamp on the host.\<close>

record LocalTime =
  lt_year :: int
  lt_month :: u32
  lt_day :: u32
  lt_hour :: u32
  lt_weekend :: bool

definition day_context_at :: "(i64 \<Rightarrow> LocalTime option) \<Rightarrow> RateTable \<Rightarrow> i64 \<Rightarrow> DayContext option" where
  "day_context_at local t ts =
    (case local ts of None \<Rightarrow> None
     | Some dt \<Rightarrow>
        (let (s, e) = (case rt_plan t of TimeOfUse a b _ _ \<Rightarrow> (a, b) | FlatRate _ \<Rightarrow> (0, 0));
             month = lt_month dt
         in Some \<lparr>dc_hour = lt_hour dt, dc_is_summer = (if s < e then s \<le> month \<and> month < e else True),
                  dc_is_weekend_or_holiday = (lt_weekend dt \<or> is_holiday t (lt_year dt) month (lt_day dt))\<rparr>))"

definition usd_per_kwh_at :: "(i64 \<Rightarrow> LocalTime option) \<Rightarrow> RateTable \<Rightarrow> i64 \<Rightarrow> (f64 \<times> string) option" where
  "usd_per_kwh_at local t ts =
    (case day_context_at local t ts of None \<Rightarrow> None | Some ctx \<Rightarrow> price_for t ctx)"

section \<open>The dollars of a series\<close>

definition MAX_STEP_SECS :: i64 where "MAX_STEP_SECS = 30"

record CostBreakdown =
  cb_kwh :: f64
  cb_usd :: f64
  cb_by_period :: "(string, f64 \<times> f64) btree"
  cb_intervals_priced :: u64
  cb_intervals_skipped :: u64
  cb_earliest_ts :: "i64 option"

definition cost_default :: CostBreakdown where
  "cost_default = \<lparr>cb_kwh = F_Fin 0, cb_usd = F_Fin 0, cb_by_period = [], cb_intervals_priced = 0,
     cb_intervals_skipped = 0, cb_earliest_ts = None\<rparr>"

definition cost_skip :: "CostBreakdown \<Rightarrow> CostBreakdown" where
  "cost_skip c = c\<lparr>cb_intervals_skipped := cb_intervals_skipped c + 1\<rparr>"

text \<open>What a priced interval that starts at \<open>ts\<close> adds.\<close>

definition cost_add :: "CostBreakdown \<Rightarrow> i64 \<Rightarrow> f64 \<Rightarrow> f64 \<times> string \<Rightarrow> CostBreakdown" where
  "cost_add c ts kwh priced =
    (let usd = f_mul kwh (fst priced) in
     c\<lparr>cb_kwh := f_add (cb_kwh c) kwh, cb_usd := f_add (cb_usd c) usd,
       cb_by_period := bt_upd (F_Fin 0, F_Fin 0) (snd priced) (\<lambda>(k, u). (f_add k kwh, f_add u usd)) (cb_by_period c),
       cb_intervals_priced := cb_intervals_priced c + 1,
       cb_earliest_ts := (case cb_earliest_ts c of None \<Rightarrow> Some ts | Some t \<Rightarrow> Some t)\<rparr>)"

text \<open>One window of two consecutive samples; \<open>samples.windows(2)\<close>.\<close>

definition f_of_int :: "int \<Rightarrow> f64" where
  "f_of_int n = rnd (of_int n)"

definition cost_step ::
  "(i64 \<Rightarrow> LocalTime option) \<Rightarrow> RateTable \<Rightarrow> CostBreakdown \<Rightarrow> (i64 \<times> f64) \<times> (i64 \<times> f64) \<Rightarrow> CostBreakdown" where
  "cost_step local t c pair =
    (let ((t0, w0), (t1, w1)) = pair; dt = t1 - t0 in
     if dt \<le> 0 \<or> MAX_STEP_SECS < dt then cost_skip c
     else case usd_per_kwh_at local t t0 of None \<Rightarrow> cost_skip c
       | Some priced \<Rightarrow>
           cost_add c t0 (f_div (f_mul (f_div (f_add w0 w1) (F_Fin 2)) (f_of_int dt)) (F_Fin 3600000)) priced)"

fun windows2 :: "'a list \<Rightarrow> ('a \<times> 'a) list" where
  "windows2 (x # y # zs) = (x, y) # windows2 (y # zs)"
| "windows2 xs = []"

definition cost_accumulate :: "(i64 \<Rightarrow> LocalTime option) \<Rightarrow> RateTable \<Rightarrow> (i64 \<times> f64) list \<Rightarrow> CostBreakdown" where
  "cost_accumulate local t samples = foldl (cost_step local t) cost_default (windows2 samples)"

text \<open>\<open>accumulate_split\<close>: the same interval arithmetic, booked on the idle or the work side by the
  state of the interval's first sample.\<close>

definition drop_idle :: "i64 \<times> f64 \<times> bool \<Rightarrow> i64 \<times> f64" where
  "drop_idle s = (fst s, fst (snd s))"

definition split_step ::
  "(i64 \<Rightarrow> LocalTime option) \<Rightarrow> RateTable \<Rightarrow> CostBreakdown \<times> CostBreakdown \<Rightarrow>
   (i64 \<times> f64 \<times> bool) \<times> (i64 \<times> f64 \<times> bool) \<Rightarrow> CostBreakdown \<times> CostBreakdown" where
  "split_step local t wi pair =
    (let (work, idle) = wi; step = (drop_idle (fst pair), drop_idle (snd pair)) in
     if snd (snd (fst pair)) then (work, cost_step local t idle step) else (cost_step local t work step, idle))"

definition accumulate_split ::
  "(i64 \<Rightarrow> LocalTime option) \<Rightarrow> RateTable \<Rightarrow> (i64 \<times> f64 \<times> bool) list \<Rightarrow> CostBreakdown \<times> CostBreakdown" where
  "accumulate_split local t samples = foldl (split_step local t) (cost_default, cost_default) (windows2 samples)"

definition bucket_step ::
  "(i64 \<Rightarrow> LocalTime option) \<Rightarrow> RateTable \<Rightarrow> CostBreakdown \<Rightarrow> i64 \<times> f64 \<Rightarrow> CostBreakdown" where
  "bucket_step local t c b =
    (case usd_per_kwh_at local t (fst b) of None \<Rightarrow> cost_skip c
     | Some priced \<Rightarrow> cost_add c (fst b) (snd b) priced)"

definition accumulate_bucketed_kwh :: "(i64 \<Rightarrow> LocalTime option) \<Rightarrow> RateTable \<Rightarrow> (i64 \<times> f64) list \<Rightarrow> CostBreakdown" where
  "accumulate_bucketed_kwh local t buckets = foldl (bucket_step local t) cost_default buckets"

definition usd_per_million_tokens :: "f64 \<Rightarrow> f64 \<Rightarrow> f64 option" where
  "usd_per_million_tokens usd tokens =
    (if f_gt tokens (F_Fin 0) then Some (f_mul (f_div usd tokens) (F_Fin 1000000)) else None)"

section \<open>Nothing is lost in the split\<close>

definition idle_pair :: "(i64 \<times> f64 \<times> bool) \<times> (i64 \<times> f64 \<times> bool) \<Rightarrow> bool" where
  "idle_pair pair = snd (snd (fst pair))"

definition plain_pair :: "(i64 \<times> f64 \<times> bool) \<times> (i64 \<times> f64 \<times> bool) \<Rightarrow> (i64 \<times> f64) \<times> (i64 \<times> f64)" where
  "plain_pair pair = (drop_idle (fst pair), drop_idle (snd pair))"

lemma split_fold:
  "foldl (split_step local t) (w, i) ps =
    (foldl (cost_step local t) w (map plain_pair (filter (\<lambda>p. \<not> idle_pair p) ps)),
     foldl (cost_step local t) i (map plain_pair (filter idle_pair ps)))"
  by (induction ps arbitrary: w i) (auto simp: split_step_def idle_pair_def plain_pair_def)

lemma cost_counts_step:
  "cb_intervals_priced (cost_step local t c p) + cb_intervals_skipped (cost_step local t c p) =
   cb_intervals_priced c + cb_intervals_skipped c + 1"
  by (auto simp: cost_step_def cost_skip_def cost_add_def Let_def split: option.split prod.split)

lemma cost_counts:
  "cb_intervals_priced (foldl (cost_step local t) c ps) + cb_intervals_skipped (foldl (cost_step local t) c ps) =
   cb_intervals_priced c + cb_intervals_skipped c + length ps"
proof (induction ps arbitrary: c)
  case (Cons p ps)
  then show ?case using cost_counts_step [of local t c p] by simp
qed simp

text \<open>An interval is priced exactly when it is short, forward and its start has a price.\<close>

definition priced_pair :: "(i64 \<Rightarrow> LocalTime option) \<Rightarrow> RateTable \<Rightarrow> (i64 \<times> f64) \<times> (i64 \<times> f64) \<Rightarrow> bool" where
  "priced_pair local t p \<longleftrightarrow> fst (fst p) < fst (snd p) \<and> fst (snd p) - fst (fst p) \<le> MAX_STEP_SECS \<and>
     usd_per_kwh_at local t (fst (fst p)) \<noteq> None"

lemma cost_priced_step:
  "cb_intervals_priced (cost_step local t c p) = cb_intervals_priced c + (if priced_pair local t p then 1 else 0) \<and>
   cb_earliest_ts (cost_step local t c p) =
     (if priced_pair local t p \<and> cb_earliest_ts c = None then Some (fst (fst p)) else cb_earliest_ts c)"
  by (auto simp: cost_step_def cost_skip_def cost_add_def priced_pair_def Let_def split: option.split prod.split)

lemma cost_priced:
  "cb_intervals_priced (foldl (cost_step local t) c ps) =
     cb_intervals_priced c + length (filter (priced_pair local t) ps) \<and>
   cb_earliest_ts (foldl (cost_step local t) c ps) =
     (case cb_earliest_ts c of Some e \<Rightarrow> Some e
      | None \<Rightarrow> map_option (\<lambda>p. fst (fst p)) (find (priced_pair local t) ps))"
proof (induction ps arbitrary: c)
  case (Cons p ps)
  then show ?case using cost_priced_step [of local t c p] by (auto split: option.split)
qed (simp split: option.split)

lemma windows2_map: "windows2 (map f xs) = map (\<lambda>(a, b). (f a, f b)) (windows2 xs)"
  by (induction xs rule: windows2.induct) auto

lemma plain_windows: "map plain_pair (windows2 samples) = windows2 (map drop_idle samples)"
  by (simp add: windows2_map plain_pair_def case_prod_beta)

lemma length_windows2: "length (windows2 xs) = length xs - 1"
  by (induction xs rule: windows2.induct) auto

lemma filter_partition_length: "length (filter P (map f (filter (\<lambda>p. \<not> Q p) xs))) + length (filter P (map f (filter Q xs))) =
  length (filter P (map f xs))"
  by (induction xs) auto

lemma accumulate_split_partition:
  assumes "accumulate_split local t samples = (work, idle)"
  shows "cb_intervals_priced work + cb_intervals_priced idle =
      cb_intervals_priced (cost_accumulate local t (map drop_idle samples)) \<and>
    cb_intervals_skipped work + cb_intervals_skipped idle =
      cb_intervals_skipped (cost_accumulate local t (map drop_idle samples)) \<and>
    cb_intervals_priced work + cb_intervals_priced idle + cb_intervals_skipped work + cb_intervals_skipped idle =
      length samples - 1"
proof -
  let ?ps = "windows2 samples"
  let ?w = "map plain_pair (filter (\<lambda>p. \<not> idle_pair p) ?ps)" and ?i = "map plain_pair (filter idle_pair ?ps)"
  have wi: "work = foldl (cost_step local t) cost_default ?w" "idle = foldl (cost_step local t) cost_default ?i"
    using assms by (simp_all add: accumulate_split_def split_fold)
  have acc: "cost_accumulate local t (map drop_idle samples) =
      foldl (cost_step local t) cost_default (map plain_pair ?ps)"
    by (simp add: cost_accumulate_def plain_windows)
  have p: "cb_intervals_priced work + cb_intervals_priced idle =
      cb_intervals_priced (cost_accumulate local t (map drop_idle samples))"
    unfolding wi acc using cost_priced [of local t cost_default] filter_partition_length [of "priced_pair local t" plain_pair idle_pair ?ps]
    by (simp add: cost_default_def)
  have len: "length ?w + length ?i = length (map plain_pair ?ps)"
    using sum_length_filter_compl [of idle_pair ?ps] by simp
  have all: "cb_intervals_priced work + cb_intervals_skipped work = length ?w"
    "cb_intervals_priced idle + cb_intervals_skipped idle = length ?i"
    "cb_intervals_priced (cost_accumulate local t (map drop_idle samples)) +
      cb_intervals_skipped (cost_accumulate local t (map drop_idle samples)) = length (map plain_pair ?ps)"
    unfolding wi acc using cost_counts [of local t cost_default] by (simp_all add: cost_default_def)
  show ?thesis using p all len length_windows2 [of samples] by simp
qed

text \<open>
  \<open>crates/lss-core/src/rates.rs\<close>, spending over time: the days that could be priced, the windows
  summed from them and the projection of the month. The local midnights are arguments, as in the
  source.
\<close>

record DaySpend =
  ds_date :: string
  ds_ts :: i64
  ds_usd :: f64
  ds_kwh :: f64
  ds_covered_secs :: i64

record SpendWindow =
  sw_usd :: "f64 option"
  sw_kwh :: "f64 option"
  sw_covered_secs :: i64
  sw_nominal_secs :: i64

definition days_between :: "DaySpend list \<Rightarrow> i64 \<Rightarrow> i64 \<Rightarrow> DaySpend list" where
  "days_between days lo hi = filter (\<lambda>d. lo \<le> ds_ts d \<and> ds_ts d < hi) days"

definition spend_window_of :: "DaySpend list \<Rightarrow> i64 \<Rightarrow> i64 \<Rightarrow> i64 \<Rightarrow> SpendWindow" where
  "spend_window_of days lo hi nominal =
    (let (usd, kwh, covered, any) =
       foldl (\<lambda>(usd, kwh, covered, any) d.
           (f_add usd (ds_usd d), f_add kwh (ds_kwh d), covered + ds_covered_secs d, True))
         (F_Fin 0, F_Fin 0, 0, False) (days_between days lo hi)
     in \<lparr>sw_usd = (if any then Some usd else None), sw_kwh = (if any then Some kwh else None),
         sw_covered_secs = covered, sw_nominal_secs = nominal\<rparr>)"

definition is_well_covered :: "SpendWindow \<Rightarrow> f64 \<Rightarrow> bool" where
  "is_well_covered w part \<longleftrightarrow>
    0 < sw_nominal_secs w \<and> f_ge (f_of_int (sw_covered_secs w)) (f_mul (f_of_int (sw_nominal_secs w)) part)"

record SpendingStatus =
  sp_today :: SpendWindow
  sp_yesterday :: SpendWindow
  sp_this_week :: SpendWindow
  sp_last_7d :: SpendWindow
  sp_this_month :: SpendWindow
  sp_last_30d :: SpendWindow
  sp_this_year :: SpendWindow
  sp_year_first_day :: "string option"
  sp_daily :: "DaySpend list"
  sp_month_projection_usd :: "f64 option"
  sp_projection_note :: string

definition PROJECTION_MIN_DAYS :: i64 where "PROJECTION_MIN_DAYS = 7"
definition PROJECTION_MIN_COVERAGE :: f64 where "PROJECTION_MIN_COVERAGE = f_lit (8 / 10)"

definition fmt_days :: "i64 \<Rightarrow> string" where
  "fmt_days secs =
    (let d = f_div (f_of_int secs) (F_Fin 86400) in
     if f_lt d (F_Fin 1) then fmt_fixed 1 d @ '' days'' else fmt_fixed 0 d @ '' days'')"

text \<open>\<open>min()\<close> of \<open>(ts, date)\<close> pairs: the earliest day, and of two on one second the smaller date.\<close>

definition day_le :: "i64 \<times> string \<Rightarrow> i64 \<times> string \<Rightarrow> bool" where
  "day_le a b \<longleftrightarrow> fst a < fst b \<or> fst a = fst b \<and> snd a \<le> snd b"

fun first_day :: "(i64 \<times> string) list \<Rightarrow> (i64 \<times> string) option" where
  "first_day [] = None"
| "first_day (d # ds) =
    (case first_day ds of None \<Rightarrow> Some d | Some e \<Rightarrow> Some (if day_le d e then d else e))"

definition month_projection :: "SpendWindow \<Rightarrow> i64 \<Rightarrow> i64 \<Rightarrow> f64 option \<times> string" where
  "month_projection this_month elapsed days_in_month =
    (if elapsed < PROJECTION_MIN_DAYS then
       (None, ''too early to project: '' @ show_int elapsed @ '' of '' @ show_int days_in_month
          @ '' days into the month (needs '' @ show_int PROJECTION_MIN_DAYS @ '')'')
     else if \<not> is_well_covered this_month PROJECTION_MIN_COVERAGE then
       (None, ''not enough data to project: only '' @ fmt_days (sw_covered_secs this_month) @ '' of the ''
          @ show_int elapsed @ '' days so far were priced'')
     else
       (case sw_usd this_month of
          Some usd \<Rightarrow>
            if 0 < elapsed then
              (Some (f_mul (f_div usd (f_of_int elapsed)) (f_of_int days_in_month)),
               ''projected from '' @ show_int elapsed @ '' days at this rate'')
            else (None, ''nothing priced this month yet'')
        | None \<Rightarrow> (None, ''nothing priced this month yet'')))"

definition DAY :: i64 where "DAY = 86400"

text \<open>The local midnights (and lengths) the caller computes.\<close>

record DayStarts =
  st_today :: i64
  st_yesterday :: i64
  st_week :: i64
  st_month :: i64
  st_days_in_month :: i64
  st_elapsed_days :: i64
  st_year :: i64

definition spending :: "DaySpend list \<Rightarrow> i64 \<Rightarrow> DayStarts \<Rightarrow> SpendingStatus" where
  "spending days now st =
    (let this_month = spend_window_of days (st_month st) (now + DAY) (max 0 (now - st_month st));
         projected = month_projection this_month (st_elapsed_days st) (st_days_in_month st)
     in \<lparr>sp_today = spend_window_of days (st_today st) (st_today st + DAY) (max 0 (now - st_today st)),
         sp_yesterday = spend_window_of days (st_yesterday st) (st_today st) DAY,
         sp_this_week = spend_window_of days (st_week st) (now + DAY) (max 0 (now - st_week st)),
         sp_last_7d = spend_window_of days (st_today st - 6 * DAY) (now + DAY) (7 * DAY),
         sp_this_month = this_month,
         sp_last_30d = spend_window_of days (st_today st - 29 * DAY) (now + DAY) (30 * DAY),
         sp_this_year = spend_window_of days (st_year st) (now + DAY) (max 0 (now - st_year st)),
         sp_year_first_day = map_option snd (first_day
           (map (\<lambda>d. (ds_ts d, ds_date d)) (days_between days (st_year st) (now + DAY)))),
         sp_daily = days,
         sp_month_projection_usd = fst projected,
         sp_projection_note = snd projected\<rparr>)"

section \<open>Facts\<close>

lemma foldl_window:
  "foldl (\<lambda>(usd, kwh, covered, any) d.
      (f_add usd (ds_usd d), f_add kwh (ds_kwh d), covered + ds_covered_secs d, True)) (u, k, c, a) ds =
    (foldl (\<lambda>s d. f_add s (ds_usd d)) u ds, foldl (\<lambda>s d. f_add s (ds_kwh d)) k ds,
     c + sum_list (map ds_covered_secs ds), a \<or> ds \<noteq> [])"
  by (induction ds arbitrary: u k c a) auto

lemma spend_window_parts:
  "sw_usd (spend_window_of days lo hi n) =
     (if days_between days lo hi = [] then None
      else Some (foldl (\<lambda>s d. f_add s (ds_usd d)) (F_Fin 0) (days_between days lo hi)))"
  "sw_kwh (spend_window_of days lo hi n) =
     (if days_between days lo hi = [] then None
      else Some (foldl (\<lambda>s d. f_add s (ds_kwh d)) (F_Fin 0) (days_between days lo hi)))"
  "sw_covered_secs (spend_window_of days lo hi n) = sum_list (map ds_covered_secs (days_between days lo hi))"
  "sw_nominal_secs (spend_window_of days lo hi n) = n"
  by (auto simp: spend_window_of_def foldl_window)

lemma projection_some:
  "fst (month_projection w elapsed days) = Some p \<Longrightarrow>
     7 \<le> elapsed \<and> is_well_covered w PROJECTION_MIN_COVERAGE \<and>
     (\<exists>usd. sw_usd w = Some usd \<and> p = f_mul (f_div usd (f_of_int elapsed)) (f_of_int days))"
  by (auto simp: month_projection_def PROJECTION_MIN_DAYS_def split: if_splits option.splits)

lemma projection_noted: "snd (month_projection w elapsed days) \<noteq> []"
  by (auto simp: month_projection_def split: option.splits)

end
