(* ===== verification/TrafficClaims.thy ===== *)
theory TrafficClaims
  imports Probe Curve Targets Headroom GateLogFacts Rates
begin

text \<open>
  The properties of the parts that judge the traffic: the speed probe, the load curve and its
  saturation point, the headroom estimate, the targets, the gateway's audit log, and the prices.
\<close>

section \<open>The speed probe\<close>

text \<open>C7. A probe is accepted as a reading of the speed of one user exactly when the evidence
  says so: nothing ran or waited before it, its first word came in time, the counters of requests,
  prompt tokens and generated tokens leave no room for another request, nothing else ran after it, and
  the gateway (when there is one) admitted nobody else; the confidence says whether the engine's load
  was seen.\<close>

theorem probe_accepted_iff_alone:
  "validate_probe e m = Inr k \<longleftrightarrow>
    quiet_before e \<and> prompt_first_word e m \<and> counters_own e \<and> quiet_after e \<and> gate_alone e \<and>
    k = (if load_seen e then RanAlone
         else CouldNotRuleOut ''the engine does not report how many requests are running'')"
  by (rule validate_iff)

text \<open>The speed of one user that is shown is the newest probe that was a reading: every probe
  after it was skipped, failed or refused, and none of these changes the number.\<close>

theorem speed_is_newest_reading:
  "c1_reading ps = Some v \<Longrightarrow> \<exists>us p vs. ps = us @ p # vs \<and> is_reading p \<and> pr_decode_tok_s p = Some v \<and>
    list_all (\<lambda>q. \<not> is_reading q) vs"
  by (rule c1_reading_newest)

definition ok_probe :: "i64 \<Rightarrow> f64 \<Rightarrow> ProbeRecord" where
  "ok_probe t speed = (skipped_busy t (F_Fin 0) (F_Fin 0))\<lparr>pr_status := ''ok'', pr_valid := True, pr_decode_tok_s := Some speed\<rparr>"

theorem speed_is_newest_reading_witness:
  "\<exists>us p vs. [ok_probe 0 (F_Fin 40), skipped_busy 60 (F_Fin 3) (F_Fin 0)] = us @ p # vs \<and> is_reading p \<and>
    pr_decode_tok_s p = Some (F_Fin 40) \<and> list_all (\<lambda>q. \<not> is_reading q) vs"
  by (rule speed_is_newest_reading)
    (simp add: c1_reading_def is_reading_def probe_is_ok_def ok_probe_def skipped_busy_def)

section \<open>The gateway's log\<close>

text \<open>C8. The counts of the gateway's log are exact: after any records, read in any number of parts
  merged later, the count of a status code in a lane is the number of that lane's inference
  requests that ended with it, the count of a key is the number of its requests, and the lanes hold
  together every record read.\<close>

theorem gate_log_counts_exactly:
  "status_count (lane_of pub (foldl log_delta_merge (foldl log_delta_add log_delta_default rs)
      (map (foldl log_delta_add log_delta_default) rss))) code =
    length (filter (\<lambda>r. inference pub r \<and> ar_status r = code) (rs @ concat rss)) \<and>
   bt_get_or 0 key (ll_by_key (lane_of pub (foldl log_delta_merge (foldl log_delta_add log_delta_default rs)
      (map (foldl log_delta_add log_delta_default) rss)))) =
    length (filter (\<lambda>r. inference pub r \<and> (case ar_key r of None \<Rightarrow> ''(no key)'' | Some k \<Rightarrow> k) = key)
      (rs @ concat rss)) \<and>
   delta_records (foldl log_delta_merge (foldl log_delta_add log_delta_default rs)
      (map (foldl log_delta_add log_delta_default) rss)) = length (rs @ concat rss)"
  by (simp only: by_status.parts_sum by_key.parts_sum by_record.parts_sum worth_length) (simp add: sum_list_triv)

text \<open>The breakdowns of a lane agree with each other and its memory is bounded: after any
  records, the totals by status, by verdict and by key all equal the number of inference requests, the
  statuses summed over the keys are the statuses, and at most 64 users are kept.\<close>

theorem gate_log_breakdowns_agree:
  "lane_ok (lane_of pub (foldl log_delta_add log_delta_default rs)) \<and>
   length (ll_by_user (lane_of pub (foldl log_delta_add log_delta_default rs))) \<le> EXP_MAX_USERS"
  using delta_all [of rs] delta_users [of rs] by (cases pub) (simp_all add: lane_of_def delta_ok_def users_ok_def)

text \<open>C20. No line of the log is counted twice: reading the log again from the place remembered after an
  earlier read, with the lines already seen still in it, counts exactly what reading only the new
  lines counts.\<close>

theorem ingest_counts_once:
  "ingest fj (u @ CHR 0x0A # t) (snd (ingest fj (u @ [CHR 0x0A]) a)) =
   ingest fj t (snd (ingest fj (u @ [CHR 0x0A]) a))"
  by (rule ingest_resumes) (rule refl)

text \<open>A share of answers within a time is never flattering: the number counted within a limit is
  at most the number of times that really are within it, and it is exact when the limit is an edge of the
  buckets.\<close>

theorem share_within_never_flatters:
  "fst (time_within (foldl time_add time_agg_default xs) ms) = length xs \<and>
   snd (time_within (foldl time_add time_agg_default xs) ms) \<le> length (filter (\<lambda>v. f_le v ms) xs) \<and>
   (ms \<in> set TIME_EDGES_MS \<longrightarrow>
     snd (time_within (foldl time_add time_agg_default xs) ms) = length (filter (\<lambda>v. f_le v ms) xs))"
proof -
  have w: "time_within (foldl time_add time_agg_default xs) ms = (length xs, length (filter (counted_in ms) xs))"
    using time_within_counts by (simp add: time_agg_of_def)
  have "length (filter (counted_in ms) xs) \<le> length (filter (\<lambda>v. f_le v ms) xs)"
    by (induction xs) (auto dest: counted_in_le)
  moreover have "filter (counted_in ms) xs = filter (\<lambda>v. f_le v ms) xs" if "ms \<in> set TIME_EDGES_MS"
    using that by (intro filter_cong) (auto dest: counted_in_le counted_in_edge)
  ultimately show ?thesis using w by simp
qed

theorem share_within_never_flatters_witness:
  "snd (time_within (foldl time_add time_agg_default [F_Fin 900, F_Fin 2500, F_Fin 99000]) (F_Fin 3000)) = 2"
  using share_within_never_flatters [of "[F_Fin 900, F_Fin 2500, F_Fin 99000]" "F_Fin 3000"]
  by (simp add: TIME_EDGES_MS_def)

text \<open>A client's address never leaves the log whole: the last number of an IPv4 address is replaced,
  and the first three are kept as they are.\<close>

theorem address_is_masked:
  assumes "a < 256" "b < 256" "c < 256" "d < 256"
  shows "mask_ip (dotted a b c d) = show_nat a @ ''.'' @ show_nat b @ ''.'' @ show_nat c @ ''.x''"
  using assms by (rule mask_dotted)

theorem address_is_masked_witness: "mask_ip (dotted 203 0 113 47) = show_nat 203 @ ''.'' @ show_nat 0 @ ''.'' @ show_nat 113 @ ''.x''"
  by (rule address_is_masked) simp_all

section \<open>Capacity\<close>

text \<open>C39. When the curve says that speed stops growing after some number of users, that number was
  measured with enough samples, its speed is the one shown, and nothing measured contradicts it: no level
  with more users and no peak ever seen is faster by more than the noise; the answer is marked as a
  benchmark's exactly when one contributed.\<close>

theorem ceiling_never_contradicted:
  assumes "saturation_of curve peak = SatAfter users tot b"
  shows "(\<exists>r \<in> set curve. \<exists>t. qualifies r (live_samples curve) \<and> cr_running r = users \<and> cr_tok_s r = Some t \<and>
      tot = round1 t) \<and>
    (\<forall>r \<in> set curve. \<forall>t. users < cr_running r \<and> cr_tok_s r = Some t \<longrightarrow> \<not> f_gt t (noise_ceiling tot)) \<and>
    (\<forall>p. peak = Some p \<longrightarrow> \<not> f_gt p (noise_ceiling tot)) \<and>
    b = (\<exists>r \<in> set curve. qualifies r (live_samples curve) \<and> cr_tok_s r \<noteq> None \<and> cr_source r = ''bench'')"
  using saturation_of_sound [OF assms] saturation_level_measured [OF assms] by blast

definition bench_row :: "nat \<Rightarrow> f64 \<Rightarrow> CurveRow" where
  "bench_row n t = (curve_row [] n)\<lparr>cr_tok_s := Some t, cr_source := ''bench''\<rparr>"

lemma fifty:
  "round1 (F_Fin 50) = F_Fin 50" "f_le (F_Fin 50) (noise_ceiling (F_Fin 50))"
  by code_simp+

lemma two_levels: "saturation_of [bench_row 1 (F_Fin 50), bench_row 2 (F_Fin 50)] None = SatAfter 1 (F_Fin 50) True"
proof -
  have "\<not> f_gt (F_Fin 50) (noise_ceiling (F_Fin 50))" using f_lt_imp_not_ge fifty(2) by blast
  then show ?thesis
    using fifty by (simp add: saturation_of_def saturation_def sat_points_def Let_def curve_points_def
        curve_evidence_def qualifies_def bench_row_def curve_row_def List.map_filter_def)
qed

theorem ceiling_never_contradicted_witness:
  "\<exists>r \<in> set [bench_row 1 (F_Fin 50), bench_row 2 (F_Fin 50)]. cr_running r = 1"
  using ceiling_never_contradicted [OF two_levels] by blast

text \<open>The number of further users is the distance to the lowest ceiling: some ceiling of the estimate
  gives it, it is the one named as the limit, no other ceiling is lower, and with the users already
  busy it never passes the slots of the server.\<close>

theorem headroom_is_the_lowest_ceiling:
  assumes "hr_more_users (headroom_estimate i) = Some extra"
  shows "(\<exists>c \<in> set (hr_ceilings (headroom_estimate i)). \<exists>cap. ce_users c = Some cap \<and>
      ce_kind c = hr_limited_by (headroom_estimate i) \<and>
      extra = cap - (case hr_busy_users (headroom_estimate i) of None \<Rightarrow> 0 | Some b \<Rightarrow> b) \<and>
      list_all (\<lambda>d. \<forall>v. ce_users d = Some v \<longrightarrow> cap \<le> v) (hr_ceilings (headroom_estimate i))) \<and>
    (0 < hi_slots i \<longrightarrow> extra + (case hr_busy_users (headroom_estimate i) of None \<Rightarrow> 0 | Some b \<Rightarrow> b) \<le>
      max (hi_slots i) (case hr_busy_users (headroom_estimate i) of None \<Rightarrow> 0 | Some b \<Rightarrow> b))"
  using headroom_is_lowest [OF assms] headroom_within_slots [OF assms] by blast

definition four_slots :: HeadroomInputs where
  "four_slots = \<lparr>hi_slots = 4, hi_curve = [], hi_live = [], hi_kv_peak = F_Fin 0, hi_saturation = None,
     hi_min_tok_s_per_user = F_Fin 0\<rparr>"

lemma four_slots_more: "hr_more_users (headroom_estimate four_slots) = Some 4"
  by (simp add: headroom_estimate_def headroom_answer_def Let_def four_slots_def slots_ceiling_def
      memory_ceiling_def peak_running_def max_opt_def speed_ceiling_def curve_evidence_def busy_level_def
      live_samples_def MIN_LEVEL_SAMPLES_def)

theorem headroom_is_the_lowest_ceiling_witness:
  "\<exists>c \<in> set (hr_ceilings (headroom_estimate four_slots)). \<exists>cap. ce_users c = Some cap \<and>
     ce_kind c = hr_limited_by (headroom_estimate four_slots)"
  using headroom_is_the_lowest_ceiling [OF four_slots_more] by blast

section \<open>Prices\<close>

text \<open>Splitting the energy into idle and work loses no interval: the two sides price and skip together
  exactly the intervals that pricing them unsplit prices and skips, and these are all the intervals
  between two samples.\<close>

theorem idle_split_loses_nothing:
  "case accumulate_split local t samples of (work, idle) \<Rightarrow>
    cb_intervals_priced work + cb_intervals_priced idle =
      cb_intervals_priced (cost_accumulate local t (map drop_idle samples)) \<and>
    cb_intervals_skipped work + cb_intervals_skipped idle =
      cb_intervals_skipped (cost_accumulate local t (map drop_idle samples)) \<and>
    cb_intervals_priced work + cb_intervals_priced idle + cb_intervals_skipped work + cb_intervals_skipped idle =
      length samples - 1"
  using accumulate_split_partition [of local t samples] by (cases "accumulate_split local t samples") simp

end
