(* ===== verification/Rollup.thy ===== *)
theory Rollup
  imports Rates Hist "HOL-Library.Signed_Division"
begin

text \<open>
  \<open>crates/lss-core/src/series.rs\<close>, lines 16 to 570: the rollup tiers, the plan of a \<open>/series\<close> request,
  and the builder that folds the rows of a tier into the aligned arrays of one answer.
  Release builds wrap on overflow: the product of \<open>parse_range\<close> and the sums of \<open>plan\<close>, which a
  request can overflow, are written with \<open>i64_wrap\<close>.
\<close>

definition i64_wrap :: "int \<Rightarrow> i64" where
  "i64_wrap x = (x + 2 ^ 63) mod 2 ^ 64 - 2 ^ 63"

lemma i64_wrap_id: "- (2 ^ 63) \<le> x \<Longrightarrow> x < 2 ^ 63 \<Longrightarrow> i64_wrap x = x"
  by (simp add: i64_wrap_def)

definition RES_RAW :: i64 where "RES_RAW = 5"
definition RES_1M :: i64 where "RES_1M = 60"
definition RES_10M :: i64 where "RES_10M = 600"
definition MAX_POINTS :: int where "MAX_POINTS = 600"
definition RAW_MAX_RANGE :: i64 where "RAW_MAX_RANGE = 7200"

definition RANGES :: "string list" where
  "RANGES = [''15m'', ''1h'', ''6h'', ''24h'', ''7d'']"

section \<open>Ranges\<close>

definition range_unit :: "char \<Rightarrow> int option" where
  "range_unit c = (if c = CHR ''s'' then Some 1 else if c = CHR ''m'' then Some 60
     else if c = CHR ''h'' then Some 3600 else if c = CHR ''d'' then Some 86400 else None)"

definition parse_range :: "string \<Rightarrow> i64 option" where
  "parse_range text =
    (let t = trim text in
     if t = [] then None
     else
       (let (num, mult) = (case range_unit (last t) of Some m \<Rightarrow> (butlast t, m) | None \<Rightarrow> (t, 1))
        in case parse_int_bits 64 num of None \<Rightarrow> None
           | Some n \<Rightarrow> if 0 < n then Some (i64_wrap (n * mult)) else None))"

section \<open>Aggregates\<close>

datatype AggKind = Agg_Avg | Agg_Min | Agg_Max | Agg_Sum

definition agg_parse :: "string \<Rightarrow> AggKind option" where
  "agg_parse s =
    (if s = ''avg'' \<or> s = ''mean'' then Some Agg_Avg else if s = ''min'' then Some Agg_Min
     else if s = ''max'' then Some Agg_Max else if s = ''sum'' then Some Agg_Sum else None)"

definition SPIKY :: "string list" where
  "SPIKY = [''queue'', ''running'', ''waiters'', ''inflight'', ''budget_used'', ''users_active'', ''_temp_c'',
     ''kv_usage'', ''_thr_'', ''_p99_ms'', ''_p90_ms'', ''c1_invalid'']"

definition default_agg :: "string \<Rightarrow> AggKind" where
  "default_agg metric =
    (if starts_with metric ''tok_'' \<or> starts_with metric ''sum_'' \<or> metric = ''gate_requests'' then Agg_Sum
     else if \<exists>s \<in> set SPIKY. contains metric s then Agg_Max else Agg_Avg)"

definition is_minute_native :: "string \<Rightarrow> bool" where
  "is_minute_native metric \<longleftrightarrow>
    ends_with metric ''_ms'' \<and> (\<exists>(s, _) \<in> set LATENCY_METRICS. starts_with metric s)"

definition is_probe_metric :: "string \<Rightarrow> bool" where
  "is_probe_metric metric \<longleftrightarrow> starts_with metric ''c1_''"

record Agg =
  ag_sum :: f64
  ag_min :: f64
  ag_max :: f64
  ag_n :: f64

definition agg_one :: "f64 \<Rightarrow> Agg" where
  "agg_one v = \<lparr>ag_sum = v, ag_min = v, ag_max = v, ag_n = F_Fin 1\<rparr>"

definition agg_from_row :: "f64 \<Rightarrow> f64 \<Rightarrow> f64 \<Rightarrow> f64 \<Rightarrow> Agg" where
  "agg_from_row avg lo hi n =
    (let n1 = f_max n (F_Fin 1) in \<lparr>ag_sum = f_mul avg n1, ag_min = lo, ag_max = hi, ag_n = n1\<rparr>)"

definition agg_merge :: "Agg \<Rightarrow> Agg \<Rightarrow> Agg" where
  "agg_merge a b =
    \<lparr>ag_sum = f_add (ag_sum a) (ag_sum b), ag_min = f_min (ag_min a) (ag_min b),
     ag_max = f_max (ag_max a) (ag_max b), ag_n = f_add (ag_n a) (ag_n b)\<rparr>"

definition agg_avg :: "Agg \<Rightarrow> f64" where
  "agg_avg a = f_div (ag_sum a) (f_max (ag_n a) (F_Fin 1))"

fun agg_pick :: "Agg \<Rightarrow> AggKind \<Rightarrow> f64" where
  "agg_pick a Agg_Avg = agg_avg a"
| "agg_pick a Agg_Min = ag_min a"
| "agg_pick a Agg_Max = ag_max a"
| "agg_pick a Agg_Sum = ag_sum a"

section \<open>Rolling up\<close>

record RollupBatch =
  rb_res :: i64
  rb_ts :: i64
  rb_rows :: "(string \<times> Agg) list"

record Roller =
  ro_res :: i64
  ro_bucket :: "i64 option"
  ro_acc :: "(string, Agg) btree"

definition roller_new :: "i64 \<Rightarrow> Roller" where
  "roller_new res = \<lparr>ro_res = res, ro_bucket = None, ro_acc = []\<rparr>"

definition roller_flush :: "Roller \<Rightarrow> Roller \<times> RollupBatch option" where
  "roller_flush r =
    (case ro_bucket r of None \<Rightarrow> (r, None)
     | Some ts \<Rightarrow>
        (r\<lparr>ro_bucket := None, ro_acc := []\<rparr>,
         if ro_acc r \<noteq> [] then Some \<lparr>rb_res = ro_res r, rb_ts = ts, rb_rows = ro_acc r\<rparr> else None))"

definition put_point :: "(string, Agg) btree \<Rightarrow> string \<times> f64 \<Rightarrow> (string, Agg) btree" where
  "put_point acc p =
    (case bt_get (fst p) acc of
       Some a \<Rightarrow> bt_insert (fst p) (agg_merge a (agg_one (snd p))) acc
     | None \<Rightarrow> bt_insert (fst p) (agg_one (snd p)) acc)"

definition roller_add :: "Roller \<Rightarrow> i64 \<Rightarrow> (string \<times> f64) list \<Rightarrow> Roller \<times> RollupBatch option" where
  "roller_add r ts points =
    (let start = ts - ts mod ro_res r;
         (r1, batch) = (if (case ro_bucket r of None \<Rightarrow> False | Some b \<Rightarrow> b \<noteq> start) then roller_flush r else (r, None))
     in (r1\<lparr>ro_bucket := Some start, ro_acc := foldl put_point (ro_acc r1) points\<rparr>, batch))"

section \<open>The plan of a request\<close>

datatype Tier = T_Raw | T_M1 | T_M10

fun tier_name :: "Tier \<Rightarrow> string" where
  "tier_name T_Raw = ''raw''" | "tier_name T_M1 = ''1m''" | "tier_name T_M10 = ''10m''"

fun tier_res :: "Tier \<Rightarrow> i64" where
  "tier_res T_Raw = RES_RAW" | "tier_res T_M1 = RES_1M" | "tier_res T_M10 = RES_10M"

record Plan =
  pl_tier :: Tier
  pl_range_s :: i64
  pl_step_s :: i64
  pl_start_ts :: i64
  pl_points :: int

definition clamp :: "int \<Rightarrow> int \<Rightarrow> int \<Rightarrow> int" where
  "clamp x lo hi = (if x < lo then lo else if hi < x then hi else x)"

definition choose_tier :: "i64 \<Rightarrow> i64 \<Rightarrow> i64 \<times> i64 \<times> i64 \<Rightarrow> Tier" where
  "choose_tier want range_s retention =
    (if want < RES_1M \<and> range_s \<le> min RAW_MAX_RANGE (fst retention) then T_Raw
     else if want < RES_10M \<and> range_s \<le> fst (snd retention) then T_M1 else T_M10)"

text \<open>\<open>(range_s + step_s - 1) / step_s) as usize\<close>: a negative quotient becomes huge and is clamped.\<close>

definition plan_points :: "i64 \<Rightarrow> i64 \<Rightarrow> int" where
  "plan_points range_s step_s =
    (let q = i64_wrap (range_s + step_s - 1) sdiv step_s in clamp (if q < 0 then q + 2 ^ 64 else q) 1 MAX_POINTS)"

definition plan :: "i64 \<Rightarrow> i64 \<Rightarrow> i64 option \<Rightarrow> i64 \<times> i64 \<times> i64 \<Rightarrow> Plan" where
  "plan now range0 step retention =
    (let range_s = clamp range0 60 (max (snd (snd retention)) 60);
         floor1 = (range_s + MAX_POINTS - 1) div MAX_POINTS;
         want = max (max (case step of None \<Rightarrow> 1 | Some s \<Rightarrow> s) floor1) 1;
         tier = choose_tier want range_s retention;
         res = tier_res tier;
         step_s = (i64_wrap (want + res - 1) sdiv res) * res;
         finish = now - now mod \<bar>step_s\<bar> + step_s;
         points = plan_points range_s step_s
     in \<lparr>pl_tier = tier, pl_range_s = range_s, pl_step_s = step_s, pl_start_ts = i64_wrap (finish - points * step_s),
         pl_points = points\<rparr>)"

text \<open>\<open>token.rsplit_once(':')\<close>.\<close>

definition rsplit_colon :: "string \<Rightarrow> (string \<times> string) option" where
  "rsplit_colon s =
    (let t = takeWhile (\<lambda>c. c \<noteq> CHR '':'') (rev s)
     in if length t = length s then None else Some (take (length s - length t - 1) s, rev t))"

definition parse_metric_token :: "string \<Rightarrow> string \<times> AggKind" where
  "parse_metric_token token =
    (case rsplit_colon token of
       None \<Rightarrow> (token, default_agg token)
     | Some (name, agg) \<Rightarrow> (case agg_parse agg of Some k \<Rightarrow> (name, k) | None \<Rightarrow> (token, default_agg token)))"

section \<open>The answer\<close>

record SeriesDoc =
  sd_generated_at :: i64
  sd_range_s :: i64
  sd_step_s :: i64
  sd_start_ts :: i64
  sd_points :: int
  sd_tier :: string
  sd_series :: "(string, f64 option list) btree"
  sd_unknown :: "string list"

definition doc_get :: "SeriesDoc \<Rightarrow> string \<Rightarrow> f64 option list" where
  "doc_get d token = bt_get_or [] token (sd_series d)"

definition doc_last :: "SeriesDoc \<Rightarrow> string \<Rightarrow> f64 option" where
  "doc_last d token = (case filter (\<lambda>v. v \<noteq> None) (rev (doc_get d token)) of [] \<Rightarrow> None | v # _ \<Rightarrow> v)"

definition doc_ts_of :: "SeriesDoc \<Rightarrow> nat \<Rightarrow> i64" where
  "doc_ts_of d i = sd_start_ts d + int i * sd_step_s d"

record SeriesBuilder =
  sb_plan :: Plan
  sb_tokens :: "(string \<times> string \<times> AggKind) list"
  sb_cells :: "Agg option list list"
  sb_seen :: "bool list"

definition builder_new :: "Plan \<Rightarrow> string list \<Rightarrow> SeriesBuilder" where
  "builder_new p tokens =
    \<lparr>sb_plan = p, sb_tokens = map (\<lambda>t. (t, parse_metric_token t)) tokens,
     sb_cells = replicate (length tokens) (replicate (nat (pl_points p)) None), sb_seen = replicate (length tokens) False\<rparr>"

definition builder_names :: "SeriesBuilder \<Rightarrow> string list" where
  "builder_names b = remdups_adj (sort (map (\<lambda>(_, name, _). name) (sb_tokens b)))"

definition token_is :: "string \<Rightarrow> string \<times> string \<times> AggKind \<Rightarrow> bool" where
  "token_is metric t \<longleftrightarrow> fst (snd t) = metric"

definition mark_known :: "SeriesBuilder \<Rightarrow> string \<Rightarrow> SeriesBuilder" where
  "mark_known b metric = b\<lparr>sb_seen := map (\<lambda>(t, s). s \<or> token_is metric t) (zip (sb_tokens b) (sb_seen b))\<rparr>"

definition put_cell :: "Agg \<Rightarrow> Agg option \<Rightarrow> Agg option" where
  "put_cell agg c = (case c of Some a \<Rightarrow> Some (agg_merge a agg) | None \<Rightarrow> Some agg)"

definition builder_index :: "Plan \<Rightarrow> i64 \<Rightarrow> nat option" where
  "builder_index p ts =
    (if ts < pl_start_ts p then None
     else let i = (ts - pl_start_ts p) sdiv pl_step_s p in
       if i < 0 \<or> pl_points p \<le> i then None else Some (nat i))"

definition builder_add :: "SeriesBuilder \<Rightarrow> string \<Rightarrow> i64 \<Rightarrow> Agg \<Rightarrow> SeriesBuilder" where
  "builder_add b metric ts agg =
    (case builder_index (sb_plan b) ts of None \<Rightarrow> b
     | Some i \<Rightarrow>
        b\<lparr>sb_seen := map (\<lambda>(t, s). s \<or> token_is metric t) (zip (sb_tokens b) (sb_seen b)),
          sb_cells := map (\<lambda>(t, cs). if token_is metric t then cs[i := put_cell agg (cs ! i)] else cs)
            (zip (sb_tokens b) (sb_cells b))\<rparr>)"

definition round4s :: "f64 \<Rightarrow> f64" where
  "round4s v = f_div (f_round (f_mul v (F_Fin 10000))) (F_Fin 10000)"

definition finish_row :: "(string \<times> string \<times> AggKind) \<times> Agg option list \<Rightarrow> f64 option list" where
  "finish_row tc = map (map_option (\<lambda>a. round4s (agg_pick a (snd (snd (fst tc)))))) (snd tc)"

definition builder_finish :: "SeriesBuilder \<Rightarrow> i64 \<Rightarrow> SeriesDoc" where
  "builder_finish b now =
    \<lparr>sd_generated_at = now, sd_range_s = pl_range_s (sb_plan b), sd_step_s = pl_step_s (sb_plan b),
     sd_start_ts = pl_start_ts (sb_plan b), sd_points = pl_points (sb_plan b), sd_tier = tier_name (pl_tier (sb_plan b)),
     sd_series = foldl (\<lambda>m tc. bt_insert (fst (fst tc)) (finish_row tc) m) [] (zip (sb_tokens b) (sb_cells b)),
     sd_unknown = map (\<lambda>(t, _). fst t) (filter (\<lambda>(_, s). \<not> s) (zip (sb_tokens b) (sb_seen b)))\<rparr>"

definition HIST_COLUMNS :: int where "HIST_COLUMNS = 120"

definition hist_res :: "i64 \<Rightarrow> i64 \<Rightarrow> i64" where
  "hist_res range_s retention_1m = (if range_s \<le> min retention_1m 86400 then RES_1M else RES_10M)"

definition hist_step :: "i64 \<Rightarrow> i64 \<Rightarrow> i64" where
  "hist_step range_s res = (((range_s + HIST_COLUMNS - 1) sdiv HIST_COLUMNS) + res - 1) sdiv res * res"

text \<open>\<open>hist_plan\<close> divides by its step without a guard: a step of zero is a panic, \<open>None\<close>.\<close>

definition hist_plan :: "i64 \<Rightarrow> i64 \<Rightarrow> i64 \<Rightarrow> (i64 \<times> i64 \<times> i64 \<times> int) option" where
  "hist_plan now range_s retention_1m =
    (let res = hist_res range_s retention_1m;
         step = hist_step range_s res
     in if step = 0 then None
        else (let finish = now - now mod \<bar>step\<bar> + step; cols = max ((range_s + step - 1) sdiv step) 1
              in Some (res, step, finish - cols * step, cols)))"

end
