(* ===== verification/SortBy.thy ===== *)
theory SortBy
  imports Prelude "HOL-Library.Multiset"
begin

text \<open>
  \<open>slice::sort_by\<close>: a stable sort by a comparison. The comparator is an interface: a total preorder
  \<open>le a b\<close>, read as \<open>cmp(a, b) != Greater\<close>.
\<close>

fun insert_by :: "('a \<Rightarrow> 'a \<Rightarrow> bool) \<Rightarrow> 'a \<Rightarrow> 'a list \<Rightarrow> 'a list" where
  "insert_by le x [] = [x]"
| "insert_by le x (y # ys) = (if le x y then x # y # ys else y # insert_by le x ys)"

fun sort_by :: "('a \<Rightarrow> 'a \<Rightarrow> bool) \<Rightarrow> 'a list \<Rightarrow> 'a list" where
  "sort_by le [] = []"
| "sort_by le (x # xs) = insert_by le x (sort_by le xs)"

lemma mset_insert_by: "mset (insert_by le x ys) = add_mset x (mset ys)"
  by (induction ys) auto

lemma mset_sort_by [simp]: "mset (sort_by le xs) = mset xs"
  by (induction xs) (auto simp: mset_insert_by)

lemma set_sort_by [simp]: "set (sort_by le xs) = set xs"
  by (metis mset_sort_by set_mset_mset)

lemma length_sort_by [simp]: "length (sort_by le xs) = length xs"
  by (metis mset_sort_by size_mset)

locale comparator =
  fixes le :: "'a \<Rightarrow> 'a \<Rightarrow> bool"
  assumes le_total: "le a b \<or> le b a"
    and le_trans: "le a b \<Longrightarrow> le b c \<Longrightarrow> le a c"
begin

lemma set_insert_by: "set (insert_by le x ys) = insert x (set ys)"
  by (induction ys) auto

lemma sorted_insert_by: "sorted_wrt le ys \<Longrightarrow> sorted_wrt le (insert_by le x ys)"
proof (induction ys)
  case (Cons y ys)
  then show ?case using le_total [of x y] le_trans [of x y] by (auto simp: set_insert_by)
qed simp

lemma sorted_sort_by: "sorted_wrt le (sort_by le xs)"
  by (induction xs) (auto simp: sorted_insert_by)

lemma take_sorted: "sorted_wrt le (take n (sort_by le xs))"
  using sorted_sort_by [of xs] by (metis append_take_drop_id sorted_wrt_append)

text \<open>What is cut off is never ahead of what is kept.\<close>

lemma kept_first: "a \<in> set (take n (sort_by le xs)) \<Longrightarrow> b \<in> set (drop n (sort_by le xs)) \<Longrightarrow> le a b"
  using sorted_sort_by [of xs] by (metis append_take_drop_id sorted_wrt_append)

end

text \<open>\<open>a.cmp(b).then(..)\<close>: keys compared one after the other.\<close>

definition then_le :: "('a \<Rightarrow> 'k::linorder) \<Rightarrow> ('a \<Rightarrow> 'a \<Rightarrow> bool) \<Rightarrow> 'a \<Rightarrow> 'a \<Rightarrow> bool" where
  "then_le f le a b \<longleftrightarrow> f a < f b \<or> f a = f b \<and> le a b"

definition key_le :: "('a \<Rightarrow> 'k::linorder) \<Rightarrow> 'a \<Rightarrow> 'a \<Rightarrow> bool" where
  "key_le f a b \<longleftrightarrow> f a \<le> f b"

lemma key_le_comparator: "comparator (key_le f)"
  by unfold_locales (auto simp: key_le_def)

lemma then_le_comparator: "comparator le \<Longrightarrow> comparator (then_le f le)"
proof
  assume c: "comparator le"
  show "then_le f le a b \<or> then_le f le b a" for a b
    using comparator.le_total [OF c, of a b] by (auto simp: then_le_def)
  show "then_le f le a d" if "then_le f le a b" "then_le f le b d" for a b d
    using that comparator.le_trans [OF c, of a b d] by (auto simp: then_le_def)
qed

end
