(* ===== verification/Users.thy ===== *)
theory Users
  imports SortBy GateLog Gate
begin

text \<open>
  \<open>crates/lss-core/src/users.rs\<close>: who is on the server. The JSON of \<open>tailscale status\<close> is read by
  \<open>serde_json\<close> and left; the map it gives is an argument.
\<close>

record UserAlias =
  ua_ip :: string
  ua_name :: string

section \<open>Names\<close>

text \<open>\<open>IpAddr::from_str\<close>: four octets or eight groups, never equal to each other.\<close>

definition parse_ip :: "string \<Rightarrow> nat list option" where
  "parse_ip s = (case parse_ip4 s of Some os \<Rightarrow> Some os | None \<Rightarrow> parse_ip6 s)"

definition same_address :: "string \<Rightarrow> string \<Rightarrow> bool" where
  "same_address a user \<longleftrightarrow>
    (case (parse_ip (trim a), parse_ip (trim user)) of
       (Some x, Some y) \<Rightarrow> x = y
     | _ \<Rightarrow> trim a = trim user)"

definition alias_for :: "string \<Rightarrow> string \<Rightarrow> UserAlias list \<Rightarrow> (string, string) btree \<Rightarrow> string option" where
  "alias_for lane user aliases tailscale =
    (if lane \<noteq> ''trusted'' then None
     else case find (\<lambda>a. same_address (ua_ip a) user \<and> ua_name a \<noteq> []) aliases of
       Some a \<Rightarrow> Some (ua_name a)
     | None \<Rightarrow> map_option snd (find (\<lambda>(ip, _). same_address ip user) tailscale))"

section \<open>The users of a sample\<close>

record UserPoint =
  up_id :: string
  up_inflight :: u64
  up_rpm :: u64
  up_by_upstream :: "(string, u64) btree"

definition busy_user :: "GateUser \<Rightarrow> bool" where
  "busy_user u \<longleftrightarrow> 0 < gu_inflight u \<or> 0 < gu_rpm_now u"

definition point_le :: "GateUser \<Rightarrow> GateUser \<Rightarrow> bool" where
  "point_le = then_le (\<lambda>u. - int (gu_inflight u)) (then_le (\<lambda>u. - int (gu_rpm_now u)) (key_le gu_user))"

definition user_point :: "GateUser \<Rightarrow> UserPoint" where
  "user_point u =
    \<lparr>up_id = series_id (gu_lane u) (gu_user u), up_inflight = gu_inflight u, up_rpm = gu_rpm_now u,
     up_by_upstream = map (\<lambda>(up, l). (up, ul_inflight l)) (filter (\<lambda>(_, l). 0 < ul_inflight l) (gu_by_upstream u))\<rparr>"

definition user_points :: "GateHealth \<Rightarrow> UserPoint list" where
  "user_points gate =
    map user_point (take 16 (sort_by point_le
      (filter busy_user (case gah_users gate of None \<Rightarrow> [] | Some us \<Rightarrow> us))))"

section \<open>The table\<close>

record UserExperience =
  ux_requests :: u64
  ux_ttft_p50_ms :: "f64 option"
  ux_ttft_p95_ms :: "f64 option"
  ux_tok_s :: "f64 option"
  ux_tok_s_p50 :: "f64 option"

record UserRow =
  ur_name :: string
  ur_series_id :: string
  ur_experience :: "UserExperience option"
  ur_secs_since_last_request :: "i64 option"
  ur_gate :: GateUser

text \<open>\<open>f64::round() as i64\<close> of a number that is not negative.\<close>

definition f_to_i64_pos :: "f64 \<Rightarrow> i64" where
  "f_to_i64_pos x = int (f_to_uint 63 (f_round x))"

definition f_of_i64 :: "i64 \<Rightarrow> f64" where
  "f_of_i64 n = rnd (of_int n)"

definition secs_since :: "f64 \<Rightarrow> i64 \<Rightarrow> i64 option" where
  "secs_since stamp now =
    (if f_gt stamp (F_Fin 0) then Some (f_to_i64_pos (f_max (f_sub (f_of_i64 now) stamp) (F_Fin 0))) else None)"

definition round1u :: "f64 \<Rightarrow> f64" where
  "round1u v = f_div (f_round (f_mul v (F_Fin 10))) (F_Fin 10)"

definition experience_of :: "UserExp \<Rightarrow> UserExperience option" where
  "experience_of e =
    (if 0 < ue_n e then
       Some \<lparr>ux_requests = ue_n e, ux_ttft_p50_ms = map_option f_round (ttfb_quantile_ms e (f_lit (1 / 2))),
         ux_ttft_p95_ms = map_option f_round (ttfb_quantile_ms e (f_lit (95 / 100))),
         ux_tok_s = map_option round1u (speed_avg e), ux_tok_s_p50 = map_option round1u (speed_quantile e (f_lit (1 / 2)))\<rparr>
     else None)"

definition PROBE_USER :: string where "PROBE_USER = ''lss-probe''"

record UsersStatus =
  us_available :: bool
  us_active_now :: u64
  us_totals :: GateTotals
  us_rows :: "UserRow list"
  us_bench :: "UserRow option"
  us_probe :: "UserRow option"

definition totals_default :: GateTotals where
  "totals_default = \<lparr>gt_inflight = 0, gt_inflight_by_upstream = None, gt_users_active_10m = 0, gt_users_24h = 0,
     gt_unauthenticated_24h = 0\<rparr>"

definition users_status_default :: UsersStatus where
  "users_status_default = \<lparr>us_available = False, us_active_now = 0, us_totals = totals_default, us_rows = [],
     us_bench = None, us_probe = None\<rparr>"

definition find_experience :: "LogDelta \<Rightarrow> string option \<Rightarrow> string \<Rightarrow> string \<Rightarrow> UserExperience option" where
  "find_experience d probe_user lane user =
    (if lane = ''trusted'' \<and> probe_user = Some user then None
     else case bt_get user (ll_by_user (if lane = ''public'' then ld_public d else ld_trusted d)) of
       None \<Rightarrow> None | Some e \<Rightarrow> experience_of e)"

definition with_experience :: "LogDelta \<Rightarrow> string option \<Rightarrow> UserRow \<Rightarrow> UserRow" where
  "with_experience d probe_user r =
    r\<lparr>ur_experience := find_experience d probe_user (gu_lane (ur_gate r)) (gu_user (ur_gate r))\<rparr>"

definition attach_experience :: "UsersStatus \<Rightarrow> LogDelta \<Rightarrow> string option \<Rightarrow> UsersStatus" where
  "attach_experience users d probe_user =
    users\<lparr>us_rows := map (with_experience d probe_user) (us_rows users),
      us_bench := map_option (with_experience d probe_user) (us_bench users)\<rparr>"

record OwnTraffic =
  ow_probe_user :: "string option"
  ow_probes_1h :: u64
  ow_probes_24h :: u64

definition ACTIVE_WINDOW_SECS :: f64 where "ACTIVE_WINDOW_SECS = F_Fin 600"

definition recent_user :: "i64 \<Rightarrow> GateUser \<Rightarrow> bool" where
  "recent_user now u \<longleftrightarrow> f_le (f_sub (f_of_i64 now) (gu_last_seen u)) ACTIVE_WINDOW_SECS"

definition named_row :: "UserAlias list \<Rightarrow> (string, string) btree \<Rightarrow> i64 \<Rightarrow> GateUser \<Rightarrow> UserRow" where
  "named_row aliases tailscale now u =
    \<lparr>ur_name = (case alias_for (gu_lane u) (gu_user u) aliases tailscale of Some n \<Rightarrow> n | None \<Rightarrow> gu_user u),
     ur_series_id = series_id (gu_lane u) (gu_user u), ur_experience = None,
     ur_secs_since_last_request = secs_since (gu_last_seen u) now, ur_gate = u\<rparr>"

text \<open>One less user of the last 24 hours, and of the last ten minutes when it was seen then.\<close>

definition drop_user :: "i64 \<Rightarrow> GateUser \<Rightarrow> GateTotals \<Rightarrow> GateTotals" where
  "drop_user now u t =
    t\<lparr>gt_users_24h := gt_users_24h t - 1, gt_users_active_10m := gt_users_active_10m t - (if recent_user now u then 1 else 0)\<rparr>"

definition lower_upstream :: "(string, u64) btree \<Rightarrow> string \<times> UpstreamLoad \<Rightarrow> (string, u64) btree" where
  "lower_upstream split upl =
    (case bt_get (fst upl) split of None \<Rightarrow> split | Some n \<Rightarrow> bt_insert (fst upl) (n - ul_inflight (snd upl)) split)"

definition drop_bench :: "i64 \<Rightarrow> GateUser \<Rightarrow> GateTotals \<Rightarrow> GateTotals" where
  "drop_bench now u t =
    drop_user now u (t\<lparr>gt_inflight := gt_inflight t - gu_inflight u,
      gt_inflight_by_upstream := map_option (\<lambda>split. filter (\<lambda>(_, n). 0 < n)
        (foldl lower_upstream split (gu_by_upstream u))) (gt_inflight_by_upstream t)\<rparr>)"

definition own_24h :: "OwnTraffic \<Rightarrow> GateUser \<Rightarrow> u64" where
  "own_24h own u = min (ow_probes_24h own) (gu_requests_24h u)"

definition own_1h :: "OwnTraffic \<Rightarrow> GateUser \<Rightarrow> u64" where
  "own_1h own u = min (ow_probes_1h own) (gu_requests_1h u)"

definition probe_row :: "OwnTraffic \<Rightarrow> i64 \<Rightarrow> GateUser \<Rightarrow> UserRow" where
  "probe_row own now u =
    \<lparr>ur_name = PROBE_USER, ur_series_id = series_id (gu_lane u) PROBE_USER, ur_experience = None,
     ur_secs_since_last_request = secs_since (gu_last_seen u) now,
     ur_gate = \<lparr>gu_lane = gu_lane u, gu_user = PROBE_USER, gu_inflight = 0, gu_peak_inflight_10m = 0,
       gu_peak_inflight_24h = 0, gu_conc_limit = None, gu_rpm_limit = None, gu_rpm_now = 0,
       gu_requests_1h = own_1h own u, gu_requests_24h = own_24h own u, gu_ok_24h = min (own_24h own u) (gu_ok_24h u),
       gu_rejected_24h = 0, gu_errors_24h = 0, gu_client_closed_24h = 0, gu_prompt_tokens_est_24h = 0,
       gu_completion_tokens_24h = 0, gu_completion_tokens_exact = True, gu_inflight_prompt_tokens_est = 0,
       gu_first_seen = gu_first_seen u, gu_last_seen = gu_last_seen u, gu_last_status = gu_last_status u,
       gu_by_upstream = []\<rparr>\<rparr>"

definition rest_of :: "OwnTraffic \<Rightarrow> GateUser \<Rightarrow> GateUser" where
  "rest_of own u =
    u\<lparr>gu_requests_24h := gu_requests_24h u - own_24h own u, gu_requests_1h := gu_requests_1h u - own_1h own u,
      gu_ok_24h := gu_ok_24h u - own_24h own u\<rparr>"

definition is_bench_user :: "GateUser \<Rightarrow> bool" where
  "is_bench_user u \<longleftrightarrow> gu_lane u = ''trusted'' \<and> gu_user u = BENCH_USER"

definition is_probe_address :: "OwnTraffic \<Rightarrow> GateUser \<Rightarrow> bool" where
  "is_probe_address own u \<longleftrightarrow> gu_lane u = ''trusted'' \<and> ow_probe_user own = Some (gu_user u) \<and> 0 < ow_probes_24h own"

definition user_step ::
  "UserAlias list \<Rightarrow> (string, string) btree \<Rightarrow> OwnTraffic \<Rightarrow> i64 \<Rightarrow> UsersStatus \<Rightarrow> GateUser \<Rightarrow> UsersStatus" where
  "user_step aliases tailscale own now s u =
    (if is_bench_user u then
       s\<lparr>us_totals := drop_bench now u (us_totals s), us_bench := Some (named_row aliases tailscale now u)\<rparr>
     else if \<not> is_probe_address own u then s\<lparr>us_rows := us_rows s @ [named_row aliases tailscale now u]\<rparr>
     else
       (let rest = rest_of own u; s1 = s\<lparr>us_probe := Some (probe_row own now u)\<rparr> in
        if gu_requests_24h rest = 0 \<and> gu_inflight rest = 0 then s1\<lparr>us_totals := drop_user now u (us_totals s1)\<rparr>
        else s1\<lparr>us_rows := us_rows s1 @ [named_row aliases tailscale now rest]\<rparr>))"

definition row_le :: "UserRow \<Rightarrow> UserRow \<Rightarrow> bool" where
  "row_le = then_le (\<lambda>r. - int (gu_inflight (ur_gate r)))
     (then_le (\<lambda>r. - int (gu_requests_24h (ur_gate r))) (key_le ur_name))"

definition start_totals :: "GateHealth \<Rightarrow> GateUser list \<Rightarrow> GateTotals" where
  "start_totals g users =
    (case gah_totals g of Some t \<Rightarrow> t | None \<Rightarrow> totals_default\<lparr>gt_inflight := sum_list (map gu_inflight users)\<rparr>)"

definition build_users ::
  "GateHealth option \<Rightarrow> UserAlias list \<Rightarrow> (string, string) btree \<Rightarrow> OwnTraffic \<Rightarrow> i64 \<Rightarrow> UsersStatus" where
  "build_users gate aliases tailscale own now =
    (case gate of None \<Rightarrow> users_status_default
     | Some g \<Rightarrow>
        (case gah_users g of None \<Rightarrow> users_status_default
         | Some users \<Rightarrow>
            (let s = foldl (user_step aliases tailscale own now)
                   (users_status_default\<lparr>us_available := True, us_totals := start_totals g users\<rparr>) users;
                 rows = sort_by row_le (us_rows s)
             in s\<lparr>us_active_now := length (filter (\<lambda>r. 0 < gu_inflight (ur_gate r)) rows), us_rows := take 50 rows\<rparr>)))"

section \<open>The orders of the table\<close>

datatype UserSort = S_Busiest | S_Requests24h | S_OutputTokens | S_PromptTokens | S_LastSeen | S_Name

definition sorts_all :: "UserSort list" where
  "sorts_all = [S_Busiest, S_Requests24h, S_OutputTokens, S_PromptTokens, S_LastSeen, S_Name]"

fun sort_label :: "UserSort \<Rightarrow> string" where
  "sort_label S_Busiest = ''running now''"
| "sort_label S_Requests24h = ''requests 24h''"
| "sort_label S_OutputTokens = ''output tokens''"
| "sort_label S_PromptTokens = ''prompt tokens''"
| "sort_label S_LastSeen = ''last seen''"
| "sort_label S_Name = ''name''"

fun position :: "'a \<Rightarrow> 'a list \<Rightarrow> nat option" where
  "position x [] = None"
| "position x (y # ys) = (if y = x then Some 0 else map_option Suc (position x ys))"

definition sort_next :: "UserSort \<Rightarrow> UserSort" where
  "sort_next s = sorts_all ! (((case position s sorts_all of None \<Rightarrow> 0 | Some i \<Rightarrow> i) + 1) mod length sorts_all)"

text \<open>\<open>str::to_lowercase\<close> folds by the Unicode tables: it is an argument.\<close>

fun sort_le :: "(string \<Rightarrow> string) \<Rightarrow> UserSort \<Rightarrow> UserRow \<Rightarrow> UserRow \<Rightarrow> bool" where
  "sort_le lowercase S_Busiest = row_le"
| "sort_le lowercase S_Requests24h = then_le (\<lambda>r. - int (gu_requests_24h (ur_gate r))) (key_le ur_name)"
| "sort_le lowercase S_OutputTokens = then_le (\<lambda>r. - int (gu_completion_tokens_24h (ur_gate r))) (key_le ur_name)"
| "sort_le lowercase S_PromptTokens = then_le (\<lambda>r. - int (gu_prompt_tokens_est_24h (ur_gate r))) (key_le ur_name)"
| "sort_le lowercase S_LastSeen = (\<lambda>a b. let x = gu_last_seen (ur_gate a); y = gu_last_seen (ur_gate b) in
     total_le y x \<and> (total_le x y \<longrightarrow> ur_name a \<le> ur_name b))"
| "sort_le lowercase S_Name = key_le (\<lambda>r. lowercase (ur_name r))"

definition sort_apply :: "(string \<Rightarrow> string) \<Rightarrow> UserSort \<Rightarrow> UserRow list \<Rightarrow> UserRow list" where
  "sort_apply lowercase s rows = sort_by (sort_le lowercase s) rows"

section \<open>Who is in the table\<close>

interpretation point_order: comparator point_le
  unfolding point_le_def by (intro then_le_comparator key_le_comparator)

interpretation row_order: comparator row_le
  unfolding row_le_def by (intro then_le_comparator key_le_comparator)

definition rows_of :: "UserAlias list \<Rightarrow> (string, string) btree \<Rightarrow> OwnTraffic \<Rightarrow> i64 \<Rightarrow> GateUser \<Rightarrow> UserRow list" where
  "rows_of aliases tailscale own now u =
    (if is_bench_user u then []
     else if \<not> is_probe_address own u then [named_row aliases tailscale now u]
     else if gu_requests_24h (rest_of own u) = 0 \<and> gu_inflight u = 0 then []
     else [named_row aliases tailscale now (rest_of own u)])"

lemma rest_of_fields [simp]:
  "gu_inflight (rest_of own u) = gu_inflight u" "gu_lane (rest_of own u) = gu_lane u" "gu_user (rest_of own u) = gu_user u"
  "gu_requests_24h (rest_of own u) + own_24h own u = gu_requests_24h u"
  "gu_requests_1h (rest_of own u) + own_1h own u = gu_requests_1h u"
  by (simp_all add: rest_of_def own_24h_def own_1h_def)

lemma user_step_rows:
  "us_rows (user_step aliases tailscale own now s u) = us_rows s @ rows_of aliases tailscale own now u"
  by (simp add: user_step_def rows_of_def Let_def)

lemma user_steps_rows:
  "us_rows (foldl (user_step aliases tailscale own now) s users) =
   us_rows s @ concat (map (rows_of aliases tailscale own now) users)"
  by (induction users arbitrary: s) (simp_all add: user_step_rows)

lemma build_users_rows:
  assumes "gah_users g = Some users"
  shows "us_rows (build_users (Some g) aliases tailscale own now) =
      take 50 (sort_by row_le (concat (map (rows_of aliases tailscale own now) users)))"
    "us_active_now (build_users (Some g) aliases tailscale own now) =
      length (filter (\<lambda>r. 0 < gu_inflight (ur_gate r)) (concat (map (rows_of aliases tailscale own now) users)))"
proof -
  let ?rows = "concat (map (rows_of aliases tailscale own now) users)"
  have start: "us_rows (users_status_default\<lparr>us_available := True, us_totals := t\<rparr>) = []" for t
    by (simp add: users_status_default_def)
  show "us_rows (build_users (Some g) aliases tailscale own now) = take 50 (sort_by row_le ?rows)"
    by (simp add: build_users_def assms Let_def user_steps_rows start)
  have "length (filter P (sort_by row_le rows)) = length (filter P rows)" for P rows
    by (metis mset_filter mset_sort_by size_mset)
  then show "us_active_now (build_users (Some g) aliases tailscale own now) =
      length (filter (\<lambda>r. 0 < gu_inflight (ur_gate r)) ?rows)"
    by (simp add: build_users_def assms Let_def user_steps_rows start)
qed

lemma rows_of_busy:
  "length (filter (\<lambda>r. 0 < gu_inflight (ur_gate r)) (rows_of aliases tailscale own now u)) =
   (if \<not> is_bench_user u \<and> 0 < gu_inflight u then 1 else 0)"
  by (simp add: rows_of_def named_row_def)

lemma active_now_exact:
  assumes "gah_users g = Some users"
  shows "us_active_now (build_users (Some g) aliases tailscale own now) =
    length (filter (\<lambda>u. \<not> is_bench_user u \<and> 0 < gu_inflight u) users)"
  unfolding build_users_rows(2) [OF assms]
  by (induction users) (simp_all add: rows_of_busy)

lemma rows_are_users:
  assumes "gah_users g = Some users" "r \<in> set (us_rows (build_users (Some g) aliases tailscale own now))"
  shows "\<exists>u \<in> set users. \<not> is_bench_user u \<and>
    (if is_probe_address own u then ur_gate r = rest_of own u \<and> (0 < gu_requests_24h (ur_gate r) \<or> 0 < gu_inflight u)
     else ur_gate r = u)"
proof -
  have "r \<in> set (concat (map (rows_of aliases tailscale own now) users))"
    using assms(2) unfolding build_users_rows(1) [OF assms(1)] by (auto dest: in_set_takeD)
  then obtain u where "u \<in> set users" "r \<in> set (rows_of aliases tailscale own now u)" by auto
  then show ?thesis
    by (intro bexI [of _ u]) (auto simp: rows_of_def named_row_def split: if_splits)
qed

lemma rows_ordered:
  assumes "gah_users g = Some users"
  shows "sorted_wrt row_le (us_rows (build_users (Some g) aliases tailscale own now))"
    "length (us_rows (build_users (Some g) aliases tailscale own now)) \<le> 50"
  unfolding build_users_rows(1) [OF assms] by (rule row_order.take_sorted) simp

lemma points_busiest:
  "length (user_points g) \<le> 16 \<and>
   sorted_wrt (\<lambda>a b. up_inflight b \<le> up_inflight a) (user_points g)"
proof -
  let ?s = "take 16 (sort_by point_le (filter busy_user (case gah_users g of None \<Rightarrow> [] | Some us \<Rightarrow> us)))"
  have "sorted_wrt point_le ?s" by (rule point_order.take_sorted)
  then have "sorted_wrt (\<lambda>a b. up_inflight b \<le> up_inflight a) (map user_point ?s)"
    unfolding sorted_wrt_map
    by (rule sorted_wrt_mono_rel [rotated]) (auto simp: point_le_def then_le_def user_point_def)
  then show ?thesis by (simp add: user_points_def)
qed

end
