(* ===== verification/Samples.thy ===== *)
theory Samples
  imports Prom Gpu HostText Rollup Users
begin

text \<open>
  \<open>Sample\<close> (\<open>crates/lss-core/src/model.rs\<close>) and \<open>sample_points\<close> (\<open>series.rs\<close>): every number one
  5-second sample contributes to the series. The counters of the engine become rates against the sample
  before it; most series have a point only when the engine reports their number.
\<close>

record Sample =
  sp_ts :: i64
  sp_serve_up :: bool
  sp_model :: "string option"
  sp_metrics :: "ServeMetrics option"
  sp_gpus_ok :: bool
  sp_gpus :: "GpuSample list"
  sp_serve_ct :: "ContainerState option"
  sp_gate_ct :: "ContainerState option"
  sp_gate :: "GateHealth option"
  sp_log :: LogDelta
  sp_users :: "UserPoint list"
  sp_slots :: u32
  sp_engine :: string
  sp_not_reported :: "string list"
  sp_gate_absent :: bool
  sp_gpu_source :: string

type_synonym points = "(string \<times> f64) list"

text \<open>\<open>put\<close>: a point that is not finite is dropped.\<close>

definition pt :: "string \<Rightarrow> f64 \<Rightarrow> points" where
  "pt name v = (if is_finite v then [(name, v)] else [])"

definition pt_opt :: "string \<Rightarrow> f64 option \<Rightarrow> points" where
  "pt_opt name v = (case v of None \<Rightarrow> [] | Some x \<Rightarrow> pt name x)"

definition f_bool :: "bool \<Rightarrow> f64" where
  "f_bool b = (if b then F_Fin 1 else F_Fin 0)"

definition reported :: "Sample \<Rightarrow> string \<Rightarrow> bool" where
  "reported cur key \<longleftrightarrow> key \<notin> set (sp_not_reported cur)"

definition if_pts :: "bool \<Rightarrow> points \<Rightarrow> points" where
  "if_pts b ps = (if b then ps else [])"

section \<open>The engine\<close>

definition gauge_points :: "Sample \<Rightarrow> ServeMetrics \<Rightarrow> points" where
  "gauge_points cur m =
    if_pts (reported cur ''decode_tok_s'') (pt ''decode_tok_s'' (sm_gen_throughput m)) @
    if_pts (reported cur ''running'') (pt ''running'' (sm_running m) @ pt ''running_public'' (sm_running_public m) @
      pt ''running_trusted'' (sm_running_trusted m)) @
    if_pts (reported cur ''queued'') (pt ''queue'' (sm_queue m) @ pt ''queue_public'' (sm_queue_public m) @
      pt ''queue_trusted'' (sm_queue_trusted m) @ pt ''busy_wait'' (f_bool (f_gt (sm_queue m) (F_Fin 0)))) @
    if_pts (reported cur ''kv_usage'') (pt ''kv_usage'' (kv_usage m)) @
    if_pts (reported cur ''cache_hit'') (pt ''cache_hit_rate'' (sm_cache_hit_rate m)) @
    if_pts (reported cur ''spec'') (pt ''spec_accept_length'' (sm_spec_accept_length m) @
      pt ''spec_accept_rate'' (sm_spec_accept_rate m)) @
    if_pts (0 < sp_slots cur \<and> reported cur ''running'' \<and> reported cur ''slots'')
      (pt ''busy_slots'' (f_bool (f_ge (sm_running m) (f_of_nat (sp_slots cur))))) @
    pt ''kv_retracted'' (f_bool (f_gt (sm_retracted m) (F_Fin 0)))"

definition rate_of :: "f64 \<Rightarrow> f64 \<Rightarrow> f64 \<Rightarrow> f64 option" where
  "rate_of dt now before = (if f_ge now before then Some (f_div (f_sub now before) dt) else None)"

definition grown_of :: "bool \<Rightarrow> f64 \<Rightarrow> f64 \<Rightarrow> f64 option" where
  "grown_of same now before = (if same \<and> f_ge now before then Some (f_sub now before) else None)"

text \<open>The sum of the GPUs' power, when any reports it.\<close>

definition watts :: "Sample \<Rightarrow> f64 option" where
  "watts s = (let v = List.map_filter gs_power_w (sp_gpus s) in if v \<noteq> [] then Some (f_sum v) else None)"

definition prefill_points :: "f64 \<Rightarrow> ServeMetrics \<Rightarrow> ServeMetrics \<Rightarrow> points" where
  "prefill_points dt m pm =
    (let read = computed_prompt_tokens_since m pm in
     pt ''tok_prefill'' read @ if_pts (f_gt read (F_Fin 0)) (pt ''prefill_tok_s'' (f_div read dt)))"

definition split_points :: "Sample \<Rightarrow> bool \<Rightarrow> ServeMetrics \<Rightarrow> ServeMetrics \<Rightarrow> points" where
  "split_points cur same m pm =
    (case (grown_of same (sm_e2e_sum m) (sm_e2e_sum pm), grown_of same (sm_prefill_forward_sum m) (sm_prefill_forward_sum pm)) of
       (Some e2e, Some prefill) \<Rightarrow> if_pts (reported cur ''e2e'') (pt ''sum_e2e_s'' e2e @ pt ''sum_prefill_s'' prefill)
     | _ \<Rightarrow> [])"

definition energy_points :: "Sample \<Rightarrow> Sample \<Rightarrow> f64 \<Rightarrow> ServeMetrics \<Rightarrow> points" where
  "energy_points prev cur dt m =
    (case (watts prev, watts cur) of
       (Some a, Some b) \<Rightarrow>
         if_pts (f_le dt (F_Fin 30))
           (let joules = f_mul (f_div (f_add a b) (F_Fin 2)) dt in
            pt ''sum_energy_j'' joules @ if_pts (f_ge (sm_running m) (F_Fin 1)) (pt ''sum_energy_serving_j'' joules))
     | _ \<Rightarrow> [])"

definition delta_points :: "Sample \<Rightarrow> Sample \<Rightarrow> f64 \<Rightarrow> ServeMetrics \<Rightarrow> ServeMetrics \<Rightarrow> points" where
  "delta_points prev cur dt m pm =
    (let same = comparable m pm in
     if_pts (reported cur ''tokens'')
       (pt_opt ''prompt_tok_s'' (rate_of dt (sm_prompt_tokens_total m) (sm_prompt_tokens_total pm)) @
        pt_opt ''gen_tok_s'' (rate_of dt (sm_generation_tokens_total m) (sm_generation_tokens_total pm))) @
     if_pts (reported cur ''requests'')
       (pt_opt ''req_per_min'' (map_option (\<lambda>r. f_mul r (F_Fin 60))
          (rate_of dt (sm_requests_total m) (sm_requests_total pm)))) @
     if_pts (reported cur ''tokens'')
       (pt_opt ''tok_gen'' (grown_of same (sm_generation_tokens_total m) (sm_generation_tokens_total pm)) @
        pt_opt ''tok_prompt'' (grown_of same (sm_prompt_tokens_total m) (sm_prompt_tokens_total pm))) @
     if_pts (reported cur ''cache_hit'')
       (pt_opt ''tok_cached'' (grown_of same (sm_cached_tokens_total m) (sm_cached_tokens_total pm))) @
     if_pts (reported cur ''prefill_tok_s'') (prefill_points dt m pm) @
     pt_opt ''tok_evicted'' (grown_of same (sm_evicted_tokens_total m) (sm_evicted_tokens_total pm)) @
     if_pts (reported cur ''requests'')
       (pt_opt ''sum_requests'' (grown_of same (sm_requests_total m) (sm_requests_total pm))) @
     split_points cur same m pm @
     energy_points prev cur dt m)"

text \<open>A gap or a step backwards in time is not a rate.\<close>

definition engine_points :: "Sample option \<Rightarrow> Sample \<Rightarrow> points" where
  "engine_points prev cur =
    (case sp_metrics cur of None \<Rightarrow> []
     | Some m \<Rightarrow> gauge_points cur m @
        (case prev of None \<Rightarrow> []
         | Some p \<Rightarrow>
            (case sp_metrics p of None \<Rightarrow> []
             | Some pm \<Rightarrow>
                (let dt = f_of_int (sp_ts cur - sp_ts p) in
                 if_pts (f_gt dt (F_Fin 0) \<and> f_le dt (F_Fin 60)) (delta_points p cur dt m pm)))))"

section \<open>The gate and its users\<close>

definition lane_points :: "GateHealth \<Rightarrow> points" where
  "lane_points g =
    pt ''inflight_public'' (f_of_nat (la_inflight_tokens (gah_public g))) @
    pt ''inflight_trusted'' (f_of_nat (la_inflight_tokens (gah_trusted g))) @
    pt ''waiters_public'' (f_of_nat (la_waiters (gah_public g))) @
    pt ''waiters_trusted'' (f_of_nat (la_waiters (gah_trusted g))) @
    (case la_budget_tokens (gah_trusted g) of None \<Rightarrow> []
     | Some budget \<Rightarrow> if_pts (0 < budget) (pt ''budget_used_frac''
         (f_div (f_of_nat (la_inflight_tokens (gah_trusted g))) (f_of_nat budget))))"

text \<open>The benchmark's own traffic is not a user.\<close>

definition real_users :: "Sample \<Rightarrow> UserPoint list" where
  "real_users cur = filter (\<lambda>u. \<not> ends_with (up_id u) BENCH_USER) (sp_users cur)"

definition user_on :: "string \<Rightarrow> UserPoint \<Rightarrow> u64" where
  "user_on upstream u = bt_get_or 0 upstream (up_by_upstream u)"

definition upstream_points :: "Sample \<Rightarrow> string option \<Rightarrow> string \<Rightarrow> points" where
  "upstream_points cur here upstream =
    (let active = f_of_nat (length (filter (\<lambda>u. 0 < user_on upstream u) (real_users cur)));
         inflight = f_of_nat (sum_list (map (user_on upstream) (real_users cur)));
         uid = upstream_series_id upstream
     in pt (''users_active.'' @ uid) active @ pt (''users_inflight.'' @ uid) inflight @
        if_pts (here = Some upstream) (pt ''users_active_here'' active @ pt ''users_inflight_here'' inflight))"

definition gate_user_points :: "Sample \<Rightarrow> GateHealth \<Rightarrow> points" where
  "gate_user_points cur g =
    pt ''users_active'' (f_of_nat (length (filter (\<lambda>u. 0 < up_inflight u) (real_users cur)))) @
    pt ''users_inflight'' (f_of_nat (sum_list (map up_inflight (real_users cur)))) @
    concat (map (upstream_points cur (this_upstream g (sp_model cur)))
      (case gah_attributed_upstreams g of None \<Rightarrow> [] | Some ups \<Rightarrow> ups))"

definition per_user_points :: "UserPoint \<Rightarrow> points" where
  "per_user_points u = pt (''user_inflight.'' @ up_id u) (f_of_nat (up_inflight u)) @
     pt (''user_rpm.'' @ up_id u) (f_of_nat (up_rpm u))"

definition gate_points :: "Sample \<Rightarrow> points" where
  "gate_points cur =
    (case sp_gate cur of None \<Rightarrow> [] | Some g \<Rightarrow> lane_points g) @
    pt ''gate_up'' (f_bool (sp_gate cur \<noteq> None)) @
    (case sp_gate cur of None \<Rightarrow> [] | Some g \<Rightarrow> gate_user_points cur g) @
    concat (map per_user_points (sp_users cur)) @
    (let gate_reqs = ll_requests (ld_public (sp_log cur)) + ll_requests (ld_trusted (sp_log cur))
     in if_pts (0 < gate_reqs) (pt ''gate_requests'' (f_of_nat gate_reqs)))"

section \<open>The GPUs\<close>

definition gpu_points :: "GpuSample \<Rightarrow> points" where
  "gpu_points g =
    (let gput = (\<lambda>what v. pt_opt (''gpu'' @ show_nat (gs_index g) @ ''_'' @ what) v);
         bit = (\<lambda>mask. Some (f_bool (and (gs_throttle_mask g) mask \<noteq> 0)))
     in gput ''temp_c'' (gs_temp_c g) @ gput ''power_w'' (gs_power_w g) @ gput ''clock_mhz'' (gs_clock_mhz g) @
        gput ''util_pct'' (gs_util_pct g) @ gput ''mem_used_mib'' (gs_mem_used_mib g) @
        gput ''mem_util_pct'' (gs_mem_util_pct g) @ gput ''mem_temp_c'' (gs_mem_temp_c g) @
        gput ''thr_thermal'' (bit THROTTLE_THERMAL_MASK) @
        gput ''thr_hw'' (bit (or THROTTLE_HW_SLOWDOWN THROTTLE_HW_POWER_BRAKE)) @
        gput ''thr_power'' (bit THROTTLE_SW_POWER_CAP))"

definition power_points :: "GpuSample list \<Rightarrow> points" where
  "power_points gpus =
    (let v = List.map_filter gs_power_w gpus in if_pts (v \<noteq> []) (pt ''gpu_power_total_w'' (foldl f_add (F_Fin 0) v)))"

definition sample_points :: "Sample option \<Rightarrow> Sample \<Rightarrow> points" where
  "sample_points prev cur =
    pt ''serve_up'' (f_bool (sp_serve_up cur)) @ engine_points prev cur @ gate_points cur @
    concat (map gpu_points (sp_gpus cur)) @ power_points (sp_gpus cur)"

text \<open>
  What the points of a sample promise: every one is finite, and a number the engine does not report
  changes none of them, except in the two series that read one without asking.
\<close>

section \<open>Every point is finite\<close>

definition finite_points :: "points \<Rightarrow> bool" where
  "finite_points ps \<longleftrightarrow> (\<forall>p \<in> set ps. is_finite (snd p))"

lemma finite_points_simps [simp]:
  "finite_points []" "finite_points (ps @ qs) \<longleftrightarrow> finite_points ps \<and> finite_points qs"
  "finite_points (pt name v)" "finite_points (if_pts b ps) \<longleftrightarrow> \<not> b \<or> finite_points ps"
  "finite_points (concat pss) \<longleftrightarrow> (\<forall>ps \<in> set pss. finite_points ps)"
  by (auto simp: finite_points_def pt_def if_pts_def)

lemma finite_pt_opt [simp]: "finite_points (pt_opt name v)"
  by (simp add: pt_opt_def split: option.split)

lemma finite_engine: "finite_points (engine_points prev cur)"
proof -
  have g: "finite_points (gauge_points cur m)" for m by (simp add: gauge_points_def)
  have "finite_points (delta_points p cur dt m pm)" for p dt m pm
    by (simp add: delta_points_def prefill_points_def split_points_def energy_points_def Let_def split: option.split)
  then show ?thesis using g by (simp add: engine_points_def Let_def split: option.split)
qed

lemma finite_sample_points: "finite_points (sample_points prev cur)"
proof -
  have "finite_points (gate_points cur)"
    by (simp add: gate_points_def lane_points_def gate_user_points_def upstream_points_def per_user_points_def Let_def
        split: option.split)
  moreover have "finite_points (gpu_points g)" for g by (simp add: gpu_points_def Let_def)
  ultimately show ?thesis using finite_engine by (simp add: sample_points_def power_points_def Let_def)
qed

section \<open>What is not reported does not show\<close>

text \<open>
  The numbers of a sample that belong to a key of \<open>engine::METRIC_FIELDS\<close>, for the newer metrics \<open>m\<close> and
  those before, \<open>pm\<close>. The keys of the latency histograms have none here, and \<open>slots\<close> is in the sample.
\<close>

definition key_numbers :: "string \<Rightarrow> ServeMetrics \<Rightarrow> ServeMetrics \<Rightarrow> f64 list" where
  "key_numbers key m pm =
    (if key = ''running'' then [sm_running m, sm_running_public m, sm_running_trusted m]
     else if key = ''queued'' then [sm_queue m, sm_queue_public m, sm_queue_trusted m]
     else if key = ''kv_usage'' then [kv_usage m]
     else if key = ''decode_tok_s'' then [sm_gen_throughput m]
     else if key = ''prefill_tok_s'' then [computed_prompt_tokens_since m pm]
     else if key = ''tokens'' then [sm_prompt_tokens_total m, sm_prompt_tokens_total pm,
       sm_generation_tokens_total m, sm_generation_tokens_total pm]
     else if key = ''requests'' then [sm_requests_total m, sm_requests_total pm]
     else if key = ''cache_hit'' then [sm_cache_hit_rate m, sm_cached_tokens_total m, sm_cached_tokens_total pm]
     else if key = ''spec'' then [sm_spec_accept_length m, sm_spec_accept_rate m]
     else if key = ''e2e'' then [sm_e2e_sum m, sm_e2e_sum pm, sm_prefill_forward_sum m, sm_prefill_forward_sum pm]
     else if key = ''preemptions'' then [sm_retracted m]
     else [])"

text \<open>\<open>alike\<close>: two pairs of metrics that differ at most in numbers the sample's engine does not report.
  The version of the counters and the evicted tokens have no key.\<close>

definition alike ::
  "string list \<Rightarrow> Sample \<Rightarrow> ServeMetrics \<times> ServeMetrics \<Rightarrow> ServeMetrics \<times> ServeMetrics \<Rightarrow> bool" where
  "alike keys cur a b \<longleftrightarrow>
    list_all (\<lambda>k. reported cur k \<longrightarrow> key_numbers k (fst a) (snd a) = key_numbers k (fst b) (snd b)) keys \<and>
    comparable (fst a) (snd a) = comparable (fst b) (snd b) \<and>
    sm_evicted_tokens_total (fst a) = sm_evicted_tokens_total (fst b) \<and>
    sm_evicted_tokens_total (snd a) = sm_evicted_tokens_total (snd b)"

text \<open>The two series that read a number without asking whether its key is reported.\<close>

definition unguarded :: "Sample \<Rightarrow> string list" where
  "unguarded cur =
    (if reported cur ''preemptions'' then [] else [''kv_retracted'']) @
    (if reported cur ''running'' then [] else [''sum_energy_serving_j''])"

definition guarded_points :: "Sample \<Rightarrow> points \<Rightarrow> points" where
  "guarded_points cur = filter (\<lambda>p. fst p \<notin> set (unguarded cur))"

lemma guarded_simps [simp]:
  "guarded_points cur [] = []"
  "guarded_points cur (ps @ qs) = guarded_points cur ps @ guarded_points cur qs"
  "guarded_points cur (if_pts b ps) = if_pts b (guarded_points cur ps)"
  by (simp_all add: guarded_points_def if_pts_def)

lemma unguarded_iff:
  "n \<in> set (unguarded cur) \<longleftrightarrow>
    n = ''kv_retracted'' \<and> \<not> reported cur ''preemptions'' \<or> n = ''sum_energy_serving_j'' \<and> \<not> reported cur ''running''"
  by (auto simp: unguarded_def)

lemma if_pts_cong: "(b \<Longrightarrow> ps = qs) \<Longrightarrow> if_pts b ps = if_pts b qs"
  by (simp add: if_pts_def)

lemma if_pts_guard: "(b \<Longrightarrow> c = d) \<Longrightarrow> if_pts (b \<and> c) ps = if_pts (b \<and> d) ps"
  by (cases b) (simp_all add: if_pts_def)

lemma alikeD: "alike keys cur a b \<Longrightarrow> key \<in> set keys \<Longrightarrow> reported cur key \<Longrightarrow>
    key_numbers key (fst a) (snd a) = key_numbers key (fst b) (snd b)"
  by (simp add: alike_def list_all_iff)

text \<open>The keys a series reads.\<close>

definition SERIES_KEYS :: "string list" where
  "SERIES_KEYS = [''running'', ''queued'', ''kv_usage'', ''decode_tok_s'', ''prefill_tok_s'', ''tokens'', ''requests'',
     ''cache_hit'', ''spec'', ''e2e'', ''preemptions'']"

lemma alike_numbers:
  assumes "alike keys cur (m, pm) (n, pn)" "set SERIES_KEYS \<subseteq> set keys"
  shows
    "reported cur ''running'' \<Longrightarrow>
       sm_running m = sm_running n \<and> sm_running_public m = sm_running_public n \<and> sm_running_trusted m = sm_running_trusted n"
    "reported cur ''queued'' \<Longrightarrow> sm_queue m = sm_queue n \<and> sm_queue_public m = sm_queue_public n \<and>
       sm_queue_trusted m = sm_queue_trusted n"
    "reported cur ''kv_usage'' \<Longrightarrow> kv_usage m = kv_usage n"
    "reported cur ''decode_tok_s'' \<Longrightarrow> sm_gen_throughput m = sm_gen_throughput n"
    "reported cur ''prefill_tok_s'' \<Longrightarrow> computed_prompt_tokens_since m pm = computed_prompt_tokens_since n pn"
    "reported cur ''tokens'' \<Longrightarrow> sm_prompt_tokens_total m = sm_prompt_tokens_total n \<and>
       sm_prompt_tokens_total pm = sm_prompt_tokens_total pn \<and>
       sm_generation_tokens_total m = sm_generation_tokens_total n \<and>
       sm_generation_tokens_total pm = sm_generation_tokens_total pn"
    "reported cur ''requests'' \<Longrightarrow> sm_requests_total m = sm_requests_total n \<and> sm_requests_total pm = sm_requests_total pn"
    "reported cur ''cache_hit'' \<Longrightarrow> sm_cache_hit_rate m = sm_cache_hit_rate n \<and>
       sm_cached_tokens_total m = sm_cached_tokens_total n \<and> sm_cached_tokens_total pm = sm_cached_tokens_total pn"
    "reported cur ''spec'' \<Longrightarrow> sm_spec_accept_length m = sm_spec_accept_length n \<and>
       sm_spec_accept_rate m = sm_spec_accept_rate n"
    "reported cur ''e2e'' \<Longrightarrow> sm_e2e_sum m = sm_e2e_sum n \<and> sm_e2e_sum pm = sm_e2e_sum pn \<and>
       sm_prefill_forward_sum m = sm_prefill_forward_sum n \<and> sm_prefill_forward_sum pm = sm_prefill_forward_sum pn"
    "reported cur ''preemptions'' \<Longrightarrow> sm_retracted m = sm_retracted n"
proof -
  have same: "key \<in> set SERIES_KEYS \<Longrightarrow> reported cur key \<Longrightarrow> key_numbers key m pm = key_numbers key n pn" for key
    using alikeD [OF assms(1), of key] assms(2) by auto
  show "reported cur ''running'' \<Longrightarrow>
       sm_running m = sm_running n \<and> sm_running_public m = sm_running_public n \<and> sm_running_trusted m = sm_running_trusted n"
    using same [of "''running''"] by (simp add: key_numbers_def SERIES_KEYS_def)
  show "reported cur ''queued'' \<Longrightarrow> sm_queue m = sm_queue n \<and> sm_queue_public m = sm_queue_public n \<and>
       sm_queue_trusted m = sm_queue_trusted n"
    using same [of "''queued''"] by (simp add: key_numbers_def SERIES_KEYS_def)
  show "reported cur ''kv_usage'' \<Longrightarrow> kv_usage m = kv_usage n"
    using same [of "''kv_usage''"] by (simp add: key_numbers_def SERIES_KEYS_def)
  show "reported cur ''decode_tok_s'' \<Longrightarrow> sm_gen_throughput m = sm_gen_throughput n"
    using same [of "''decode_tok_s''"] by (simp add: key_numbers_def SERIES_KEYS_def)
  show "reported cur ''prefill_tok_s'' \<Longrightarrow> computed_prompt_tokens_since m pm = computed_prompt_tokens_since n pn"
    using same [of "''prefill_tok_s''"] by (simp add: key_numbers_def SERIES_KEYS_def)
  show "reported cur ''tokens'' \<Longrightarrow> sm_prompt_tokens_total m = sm_prompt_tokens_total n \<and>
       sm_prompt_tokens_total pm = sm_prompt_tokens_total pn \<and>
       sm_generation_tokens_total m = sm_generation_tokens_total n \<and>
       sm_generation_tokens_total pm = sm_generation_tokens_total pn"
    using same [of "''tokens''"] by (simp add: key_numbers_def SERIES_KEYS_def)
  show "reported cur ''requests'' \<Longrightarrow> sm_requests_total m = sm_requests_total n \<and> sm_requests_total pm = sm_requests_total pn"
    using same [of "''requests''"] by (simp add: key_numbers_def SERIES_KEYS_def)
  show "reported cur ''cache_hit'' \<Longrightarrow> sm_cache_hit_rate m = sm_cache_hit_rate n \<and>
       sm_cached_tokens_total m = sm_cached_tokens_total n \<and> sm_cached_tokens_total pm = sm_cached_tokens_total pn"
    using same [of "''cache_hit''"] by (simp add: key_numbers_def SERIES_KEYS_def)
  show "reported cur ''spec'' \<Longrightarrow> sm_spec_accept_length m = sm_spec_accept_length n \<and>
       sm_spec_accept_rate m = sm_spec_accept_rate n"
    using same [of "''spec''"] by (simp add: key_numbers_def SERIES_KEYS_def)
  show "reported cur ''e2e'' \<Longrightarrow> sm_e2e_sum m = sm_e2e_sum n \<and> sm_e2e_sum pm = sm_e2e_sum pn \<and>
       sm_prefill_forward_sum m = sm_prefill_forward_sum n \<and> sm_prefill_forward_sum pm = sm_prefill_forward_sum pn"
    using same [of "''e2e''"] by (simp add: key_numbers_def SERIES_KEYS_def)
  show "reported cur ''preemptions'' \<Longrightarrow> sm_retracted m = sm_retracted n"
    using same [of "''preemptions''"] by (simp add: key_numbers_def SERIES_KEYS_def)
qed

lemma guarded_gauge:
  assumes "alike keys cur (m, pm) (n, pn)" "set SERIES_KEYS \<subseteq> set keys"
  shows "guarded_points cur (gauge_points cur m) = guarded_points cur (gauge_points cur n)"
proof -
  note eq = alike_numbers [OF assms]
  have "guarded_points cur (pt ''kv_retracted'' (f_bool (f_gt (sm_retracted m) (F_Fin 0)))) =
      guarded_points cur (pt ''kv_retracted'' (f_bool (f_gt (sm_retracted n) (F_Fin 0))))"
    using eq(11) by (cases "reported cur ''preemptions''") (auto simp: guarded_points_def unguarded_iff pt_def)
  then show ?thesis
    by (auto simp: gauge_points_def eq if_pts_def)
qed

lemma guarded_energy:
  assumes "alike keys cur (m, pm) (n, pn)" "set SERIES_KEYS \<subseteq> set keys"
  shows "guarded_points cur (energy_points p cur dt m) = guarded_points cur (energy_points p cur dt n)"
  using alike_numbers(1) [OF assms]
  by (cases "reported cur ''running''")
    (auto simp: energy_points_def Let_def guarded_points_def unguarded_iff pt_def if_pts_def split: option.split)

lemma guarded_delta:
  assumes "alike keys cur (m, pm) (n, pn)" "set SERIES_KEYS \<subseteq> set keys"
  shows "guarded_points cur (delta_points p cur dt m pm) = guarded_points cur (delta_points p cur dt n pn)"
proof -
  note eq = alike_numbers [OF assms]
  have same: "comparable m pm = comparable n pn" "sm_evicted_tokens_total m = sm_evicted_tokens_total n"
    "sm_evicted_tokens_total pm = sm_evicted_tokens_total pn"
    using assms(1) by (simp_all add: alike_def)
  have split: "split_points cur same m pm = split_points cur same n pn" for same
    using eq(10) by (cases "reported cur ''e2e''") (auto simp: split_points_def if_pts_def split: option.split)
  have prefill: "if_pts (reported cur ''prefill_tok_s'') (prefill_points dt m pm) =
      if_pts (reported cur ''prefill_tok_s'') (prefill_points dt n pn)"
    using eq(5) by (auto intro!: if_pts_cong simp: prefill_points_def)
  show ?thesis
    unfolding delta_points_def Let_def same split prefill
    by (simp add: guarded_energy [OF assms] eq cong: if_pts_cong)
qed

lemma guarded_sample:
  assumes "alike keys cur (m, pm) (n, pn)" "set SERIES_KEYS \<subseteq> set keys"
  shows "guarded_points cur (sample_points (Some (p\<lparr>sp_metrics := Some pm\<rparr>)) (cur\<lparr>sp_metrics := Some m\<rparr>)) =
    guarded_points cur (sample_points (Some (p\<lparr>sp_metrics := Some pn\<rparr>)) (cur\<lparr>sp_metrics := Some n\<rparr>))"
proof -
  have r: "reported (cur\<lparr>sp_metrics := x\<rparr>) = reported cur" for x by (simp add: reported_def fun_eq_iff)
  have "gauge_points (cur\<lparr>sp_metrics := x\<rparr>) l = gauge_points cur l" for x l by (simp add: gauge_points_def r)
  moreover have "delta_points (p\<lparr>sp_metrics := y\<rparr>) (cur\<lparr>sp_metrics := x\<rparr>) dt l pl = delta_points p cur dt l pl" for x y dt l pl
  proof -
    have "split_points (cur\<lparr>sp_metrics := x\<rparr>) same l pl = split_points cur same l pl" for same
      by (simp add: split_points_def r split: option.split)
    moreover have "energy_points (p\<lparr>sp_metrics := y\<rparr>) (cur\<lparr>sp_metrics := x\<rparr>) dt l = energy_points p cur dt l"
      by (simp add: energy_points_def watts_def)
    ultimately show ?thesis by (simp add: delta_points_def r)
  qed
  moreover have "gate_points (cur\<lparr>sp_metrics := x\<rparr>) = gate_points cur" for x
  proof -
    have "gate_user_points (cur\<lparr>sp_metrics := x\<rparr>) g = gate_user_points cur g" for g
    proof -
      have "upstream_points (cur\<lparr>sp_metrics := x\<rparr>) = upstream_points cur"
        by (intro ext) (simp add: upstream_points_def real_users_def)
      then show ?thesis by (simp add: gate_user_points_def real_users_def)
    qed
    then show ?thesis by (cases "sp_gate cur") (simp_all add: gate_points_def)
  qed
  ultimately show ?thesis
    using guarded_gauge [OF assms] guarded_delta [OF assms] by (simp add: sample_points_def engine_points_def Let_def)
qed

text \<open>The point that says whether requests were pushed out is drawn for every engine with metrics.\<close>

lemma retracted_drawn:
  "sp_metrics cur = Some m \<Longrightarrow>
   (''kv_retracted'', f_bool (f_gt (sm_retracted m) (F_Fin 0))) \<in> set (sample_points prev cur)"
  by (simp add: sample_points_def engine_points_def gauge_points_def pt_def f_bool_def)

text \<open>So is the number of evicted tokens, which has no key: zero for an engine that has no such counter.\<close>

lemma dt_in_range:
  assumes "0 < d" "d \<le> 60"
  shows "f_gt (f_of_int d) (F_Fin 0)" "f_le (f_of_int d) (F_Fin 60)"
proof -
  obtain n where n: "d = int n" "0 < n" "n \<le> 60" using assms by (metis nat_le_iff of_nat_0_less_iff zero_less_imp_eq_int nat_int of_nat_numeral)
  have "f_of_int d = F_Fin (of_nat n)" using f_of_nat_exact [of n] n by (simp add: f_of_int_def f_of_nat_def)
  then show "f_gt (f_of_int d) (F_Fin 0)" "f_le (f_of_int d) (F_Fin 60)"
    using n by simp_all
qed

lemma evicted_drawn:
  assumes "sp_metrics cur = Some m" "sp_metrics p = Some pm" "comparable m pm"
    "sm_evicted_tokens_total m = F_Fin 0" "sm_evicted_tokens_total pm = F_Fin 0" "sp_ts p < sp_ts cur" "sp_ts cur \<le> sp_ts p + 60"
  shows "(''tok_evicted'', F_Fin 0) \<in> set (sample_points (Some p) cur)"
proof -
  have "grown_of True (F_Fin 0) (F_Fin 0) = Some (F_Fin 0)" by (simp add: grown_of_def f_sub_Fin)
  then have "(''tok_evicted'', F_Fin 0) \<in> set (delta_points p cur dt m pm)" for dt
    using assms(3-5) by (simp add: delta_points_def Let_def pt_opt_def pt_def)
  then show ?thesis
    using assms(1,2,6,7) dt_in_range [of "sp_ts cur - sp_ts p"]
    by (simp add: sample_points_def engine_points_def Let_def if_pts_def)
qed

end
