(* ===== verification/RollupFacts.thy ===== *)
theory RollupFacts
  imports Rollup
begin

text \<open>
  What the series promise: the plan of an answer covers its range within the point limit, the roller
  books every point in the batch of its bucket, the builder folds every row into the cell of
  its time; and what an overflowing range does to the histogram's plan.
\<close>

section \<open>The plan\<close>

lemma sdiv_pos: "0 \<le> a \<Longrightarrow> 0 < b \<Longrightarrow> a sdiv b = a div (b::int)"
  by (cases "a = 0") (simp_all add: signed_divide_int_def)

lemma ceil_div:
  fixes a b :: int
  assumes "0 < b" "0 \<le> a"
  shows "a \<le> (a + b - 1) div b * b" "(a + b - 1) div b * b < a + b"
proof -
  let ?x = "a + b - 1"
  have "?x = ?x div b * b + ?x mod b" by simp
  then show "a \<le> ?x div b * b" "?x div b * b < a + b"
    using pos_mod_bound [OF assms(1), of ?x] pos_mod_sign [OF assms(1), of ?x] by linarith+
qed

lemma ceil_div_le:
  fixes a b n :: int
  assumes "0 < b" "0 \<le> a" "a \<le> n * b"
  shows "(a + b - 1) div b \<le> n"
proof -
  have "(a + b - 1) div b * b < (n + 1) * b" using ceil_div(2) [OF assms(1,2)] assms(3) by (simp add: algebra_simps)
  then show ?thesis using assms(1) by simp
qed

lemma tier_res_bounds: "5 \<le> tier_res t" "tier_res t \<le> 600"
  by (cases t; simp add: RES_RAW_def RES_1M_def RES_10M_def)+

lemma plan_points_exact:
  assumes "0 < step_s" "0 < range_s" "range_s + step_s < 2 ^ 63" "(range_s + step_s - 1) div step_s \<le> MAX_POINTS"
  shows "plan_points range_s step_s = (range_s + step_s - 1) div step_s"
proof -
  have "1 \<le> (range_s + step_s - 1) div step_s"
    using assms by (simp add: int_one_le_iff_zero_less pos_imp_zdiv_pos_iff)
  then show ?thesis
    using assms by (simp add: plan_points_def Let_def i64_wrap_id sdiv_pos clamp_def)
qed

text \<open>The parts of a plan, named.\<close>

definition plan_range :: "i64 \<Rightarrow> i64 \<times> i64 \<times> i64 \<Rightarrow> i64" where
  "plan_range range0 retention = clamp range0 60 (max (snd (snd retention)) 60)"

definition plan_want :: "i64 \<Rightarrow> i64 option \<Rightarrow> i64 \<times> i64 \<times> i64 \<Rightarrow> i64" where
  "plan_want range0 step retention =
    max (max (case step of None \<Rightarrow> 1 | Some s \<Rightarrow> s) ((plan_range range0 retention + MAX_POINTS - 1) div MAX_POINTS)) 1"

lemma plan_fields:
  "pl_range_s (plan now range0 step retention) = plan_range range0 retention"
  "pl_tier (plan now range0 step retention) = choose_tier (plan_want range0 step retention) (plan_range range0 retention) retention"
  "pl_step_s (plan now range0 step retention) =
    (i64_wrap (plan_want range0 step retention + tier_res (pl_tier (plan now range0 step retention)) - 1)
      sdiv tier_res (pl_tier (plan now range0 step retention))) * tier_res (pl_tier (plan now range0 step retention))"
  "pl_points (plan now range0 step retention) =
    plan_points (plan_range range0 retention) (pl_step_s (plan now range0 step retention))"
  "pl_start_ts (plan now range0 step retention) = i64_wrap (now - now mod \<bar>pl_step_s (plan now range0 step retention)\<bar> +
    pl_step_s (plan now range0 step retention) -
    pl_points (plan now range0 step retention) * pl_step_s (plan now range0 step retention))"
  by (simp_all only: plan_def Let_def plan_range_def plan_want_def Plan.select_convs)

lemma plan_range_bounds: "60 \<le> plan_range range0 retention" "plan_range range0 retention \<le> max (snd (snd retention)) 60"
  by (auto simp: plan_range_def clamp_def)

definition sane_request :: "i64 \<Rightarrow> i64 option \<Rightarrow> i64 \<times> i64 \<times> i64 \<Rightarrow> bool" where
  "sane_request now step retention \<longleftrightarrow> 0 \<le> now \<and> now < 2 ^ 60 \<and> snd (snd retention) < 2 ^ 40 \<and>
    (case step of None \<Rightarrow> True | Some s \<Rightarrow> s < 2 ^ 60)"

lemma plan_want_bounds:
  assumes "sane_request now step retention"
  shows "1 \<le> plan_want range0 step retention" "plan_want range0 step retention < 2 ^ 60"
    "plan_range range0 retention \<le> plan_want range0 step retention * MAX_POINTS"
proof -
  let ?r = "plan_range range0 retention"
  have r: "60 \<le> ?r" "?r < 2 ^ 40" using plan_range_bounds [of range0 retention] assms by (auto simp: sane_request_def)
  have c: "?r \<le> (?r + MAX_POINTS - 1) div MAX_POINTS * MAX_POINTS"
    using r by (intro ceil_div) (simp_all add: MAX_POINTS_def)
  have f: "(?r + MAX_POINTS - 1) div MAX_POINTS \<le> plan_want range0 step retention" by (simp add: plan_want_def)
  then have "(?r + MAX_POINTS - 1) div MAX_POINTS * MAX_POINTS \<le> plan_want range0 step retention * MAX_POINTS"
    by (intro mult_right_mono) (simp_all add: MAX_POINTS_def)
  with c show "?r \<le> plan_want range0 step retention * MAX_POINTS" by (rule order_trans)
  show "1 \<le> plan_want range0 step retention" by (simp add: plan_want_def)
  have "(?r + MAX_POINTS - 1) div MAX_POINTS * MAX_POINTS < ?r + MAX_POINTS"
    using r by (intro ceil_div) (simp_all add: MAX_POINTS_def)
  then have "(?r + MAX_POINTS - 1) div MAX_POINTS < 2 ^ 60"
    using r by (simp add: MAX_POINTS_def)
  then show "plan_want range0 step retention < 2 ^ 60"
    using assms by (auto simp: plan_want_def sane_request_def split: option.splits)
qed

lemma plan_step:
  assumes "sane_request now step retention"
  shows "tier_res (pl_tier (plan now range0 step retention)) dvd pl_step_s (plan now range0 step retention)"
    "plan_want range0 step retention \<le> pl_step_s (plan now range0 step retention)"
    "pl_step_s (plan now range0 step retention) < 2 ^ 61"
proof -
  let ?p = "plan now range0 step retention" and ?w = "plan_want range0 step retention"
  let ?res = "tier_res (pl_tier ?p)"
  have w: "1 \<le> ?w" "?w < 2 ^ 60" using plan_want_bounds [OF assms] by auto
  have res: "5 \<le> ?res" "?res \<le> 600" by (rule tier_res_bounds)+
  have "i64_wrap (?w + ?res - 1) = ?w + ?res - 1" using w res by (intro i64_wrap_id) auto
  then have step: "pl_step_s ?p = (?w + ?res - 1) div ?res * ?res"
    using w res sdiv_pos [of "?w + ?res - 1" ?res] plan_fields(3) [of now range0 step retention] by simp
  show "?res dvd pl_step_s ?p" unfolding step by simp
  show "?w \<le> pl_step_s ?p" unfolding step using w res by (intro ceil_div) auto
  have "pl_step_s ?p < ?w + ?res" unfolding step using w res by (intro ceil_div) auto
  then show "pl_step_s ?p < 2 ^ 61" using w res by simp
qed

lemma plan_count:
  assumes "sane_request now step retention"
  shows "pl_points (plan now range0 step retention) =
      (plan_range range0 retention + pl_step_s (plan now range0 step retention) - 1) div pl_step_s (plan now range0 step retention)"
    "1 \<le> pl_points (plan now range0 step retention)" "pl_points (plan now range0 step retention) \<le> MAX_POINTS"
proof -
  let ?s = "pl_step_s (plan now range0 step retention)" and ?r = "plan_range range0 retention"
  have s: "plan_want range0 step retention \<le> ?s" "?s < 2 ^ 61" using plan_step [OF assms, of range0] by auto
  then have s1: "1 \<le> ?s" using plan_want_bounds(1) [OF assms, of range0] by linarith
  have r: "60 \<le> ?r" "?r < 2 ^ 41" using plan_range_bounds [of range0 retention] assms by (auto simp: sane_request_def)
  have "plan_want range0 step retention * MAX_POINTS \<le> ?s * MAX_POINTS"
    using s(1) by (intro mult_right_mono) (simp_all add: MAX_POINTS_def)
  then have "?r \<le> ?s * MAX_POINTS" using plan_want_bounds(3) [OF assms, of range0] by linarith
  then have le: "(?r + ?s - 1) div ?s \<le> MAX_POINTS"
    using s1 r by (intro ceil_div_le) (simp_all add: mult.commute)
  show "pl_points (plan now range0 step retention) = (?r + ?s - 1) div ?s"
    unfolding plan_fields(4) using s s1 r le by (intro plan_points_exact) auto
  then show "1 \<le> pl_points (plan now range0 step retention)" "pl_points (plan now range0 step retention) \<le> MAX_POINTS"
    using le s1 r by (simp_all add: int_one_le_iff_zero_less pos_imp_zdiv_pos_iff)
qed

lemma far_inside:
  fixes now m s t r :: int
  assumes "0 \<le> m" "m < s" "s < 2 ^ 61" "r \<le> t" "t < r + s" "60 \<le> r" "r < 2 ^ 41" "0 \<le> now" "now < 2 ^ 60"
  shows "- (2 ^ 63) \<le> now - m + s - t" "now - m + s - t < 2 ^ 63"
  using assms by simp_all

text \<open>The answer covers its range: whole steps, the last of which holds the present.\<close>

lemma plan_covers:
  fixes range0 :: i64
  assumes "sane_request now step retention"
  defines "p \<equiv> plan now range0 step retention"
  shows "pl_range_s p \<le> pl_points p * pl_step_s p" "pl_points p * pl_step_s p < pl_range_s p + pl_step_s p"
    "now < pl_start_ts p + pl_points p * pl_step_s p" "pl_start_ts p + pl_points p * pl_step_s p \<le> now + pl_step_s p"
    "pl_step_s p dvd pl_start_ts p"
proof -
  let ?s = "pl_step_s p" and ?r = "plan_range range0 retention"
  have s: "1 \<le> ?s" "?s < 2 ^ 61"
    using plan_step [OF assms(1), of range0] plan_want_bounds(1) [OF assms(1), of range0] unfolding p_def by linarith+
  have r: "60 \<le> ?r" "?r < 2 ^ 41" using plan_range_bounds [of range0 retention] assms by (auto simp: sane_request_def)
  have n: "pl_points p = (?r + ?s - 1) div ?s" unfolding p_def by (rule plan_count [OF assms(1)])
  have cover: "?r \<le> pl_points p * ?s" "pl_points p * ?s < ?r + ?s"
    unfolding n using s r by (intro ceil_div; simp)+
  then show "pl_range_s p \<le> pl_points p * ?s" "pl_points p * ?s < pl_range_s p + ?s"
    unfolding p_def plan_fields(1) by simp_all
  have m: "0 \<le> now mod ?s" "now mod ?s < ?s" using s by simp_all
  have now: "0 \<le> now" "now < 2 ^ 60" using assms by (auto simp: sane_request_def)
  have bounds: "- (2 ^ 63) \<le> now - now mod ?s + ?s - pl_points p * ?s" "now - now mod ?s + ?s - pl_points p * ?s < 2 ^ 63"
    using far_inside [OF m s(2) cover r now] by blast+
  have start: "pl_start_ts p = now - now mod ?s + ?s - pl_points p * ?s"
    using plan_fields(5) [of now range0 step retention] i64_wrap_id [OF bounds] s(1) unfolding p_def by simp
  then show "now < pl_start_ts p + pl_points p * ?s" "pl_start_ts p + pl_points p * ?s \<le> now + ?s"
    using m by linarith+
  show "?s dvd pl_start_ts p"
    unfolding start minus_mod_eq_div_mult by (intro dvd_diff dvd_add) simp_all
qed

section \<open>The roller books every point once\<close>

text \<open>A run of the roller: every batch it hands out, the flush at the end included.\<close>

fun roller_run :: "Roller \<Rightarrow> (i64 \<times> (string \<times> f64) list) list \<Rightarrow> RollupBatch option list" where
  "roller_run r [] = [snd (roller_flush r)]"
| "roller_run r ((ts, ps) # ins) = (let (r1, b) = roller_add r ts ps in b # roller_run r1 ins)"

text \<open>The reference: consecutive samples of one bucket, grouped.\<close>

fun bucket_groups :: "i64 \<Rightarrow> (i64 \<times> 'p list) list \<Rightarrow> (i64 \<times> 'p list) list" where
  "bucket_groups res [] = []"
| "bucket_groups res ((ts, ps) # ins) =
    (let b = ts - ts mod res in
     case bucket_groups res ins of
       (b1, qs) # gs \<Rightarrow> if b1 = b then (b, ps @ qs) # gs else (b, ps) # (b1, qs) # gs
     | [] \<Rightarrow> [(b, ps)])"

definition batch_of :: "i64 \<Rightarrow> i64 \<times> (string \<times> f64) list \<Rightarrow> RollupBatch option" where
  "batch_of res g =
    (if snd g = [] then None else Some \<lparr>rb_res = res, rb_ts = fst g, rb_rows = foldl put_point [] (snd g)\<rparr>)"

definition with_open :: "i64 \<Rightarrow> (string \<times> f64) list \<Rightarrow> (i64 \<times> (string \<times> f64) list) list \<Rightarrow> (i64 \<times> (string \<times> f64) list) list" where
  "with_open b ps gs =
    (case gs of (b1, qs) # gs1 \<Rightarrow> if b1 = b then (b, ps @ qs) # gs1 else (b, ps) # gs | [] \<Rightarrow> [(b, ps)])"

lemma bucket_groups_open: "bucket_groups res ((ts, ps) # ins) = with_open (ts - ts mod res) ps (bucket_groups res ins)"
  by (simp add: with_open_def Let_def split: list.split)

lemma with_open_twice: "with_open b ps (with_open b qs gs) = with_open b (ps @ qs) gs"
  by (auto simp: with_open_def split: list.split)

lemma with_open_other: "b \<noteq> b1 \<Longrightarrow> with_open b ps (with_open b1 qs gs) = (b, ps) # with_open b1 qs gs"
  by (auto simp: with_open_def split: list.split)

lemma put_point_nonempty: "foldl put_point acc ps = [] \<longleftrightarrow> acc = [] \<and> ps = []"
proof (induction ps rule: rev_induct)
  case (snoc p ps)
  have "bt_insert k v m \<noteq> []" for k v and m :: "(string, Agg) btree"
    by (cases m) (auto split: if_splits)
  then show ?case by (simp add: put_point_def split: option.split)
qed simp

definition roller_on :: "i64 \<Rightarrow> i64 \<Rightarrow> (string \<times> f64) list \<Rightarrow> Roller" where
  "roller_on res b ps = \<lparr>ro_res = res, ro_bucket = Some b, ro_acc = foldl put_point [] ps\<rparr>"

lemma roller_add_on:
  "roller_add (roller_on res b ps) ts qs =
    (if ts - ts mod res = b then (roller_on res b (ps @ qs), None)
     else (roller_on res (ts - ts mod res) qs, batch_of res (b, ps)))"
  by (simp add: roller_add_def roller_on_def roller_flush_def batch_of_def Let_def put_point_nonempty)

lemma roller_run_on:
  "List.map_filter id (roller_run (roller_on res b ps) ins) =
   List.map_filter (batch_of res) (with_open b ps (bucket_groups res ins))"
proof (induction ins arbitrary: b ps)
  case Nil
  show ?case by (simp add: roller_flush_def roller_on_def batch_of_def with_open_def put_point_nonempty List.map_filter_def)
next
  case (Cons i ins)
  obtain ts qs where i: "i = (ts, qs)" by fastforce
  show ?case
  proof (cases "ts - ts mod res = b")
    case True
    then show ?thesis
      using Cons.IH [of b "ps @ qs"] unfolding i bucket_groups_open
      by (simp add: roller_add_on with_open_twice List.map_filter_simps)
  next
    case False
    then have "b \<noteq> ts - ts mod res" by simp
    from with_open_other [OF this] show ?thesis
      using Cons.IH [of "ts - ts mod res" qs] False unfolding i bucket_groups_open
      by (simp add: roller_add_on List.map_filter_simps split: option.split)
  qed
qed

lemma roller_run_groups:
  "List.map_filter id (roller_run (roller_new res) ins) = List.map_filter (batch_of res) (bucket_groups res ins)"
proof (cases ins)
  case Nil
  then show ?thesis by (simp add: roller_flush_def roller_new_def List.map_filter_def)
next
  case (Cons i rest)
  obtain ts ps where i: "i = (ts, ps)" by fastforce
  have "roller_add (roller_new res) ts ps = (roller_on res (ts - ts mod res) ps, None)"
    by (simp add: roller_add_def roller_new_def roller_on_def Let_def)
  then show ?thesis
    using roller_run_on [of res "ts - ts mod res" ps rest] unfolding Cons i bucket_groups_open
    by (simp add: List.map_filter_simps)
qed

text \<open>Grouping loses no point and keeps their order.\<close>

lemma bucket_groups_points: "concat (map snd (bucket_groups res ins)) = concat (map snd ins)"
  by (induction res ins rule: bucket_groups.induct)
    (auto simp: Let_def simp del: concat_eq_Nil_conv Nil_eq_concat_conv split: list.split)

lemma bucket_groups_aligned: "0 < res \<Longrightarrow> list_all (\<lambda>g. res dvd fst g) (bucket_groups res ins)"
proof (induction res ins rule: bucket_groups.induct)
  case (2 res ts ps ins)
  have "res dvd ts - ts mod res" by (simp add: minus_mod_eq_mult_div)
  then show ?case using 2 by (auto simp: Let_def split: list.split)
qed simp

lemma bucket_start_mono:
  fixes res :: int
  assumes "0 < res" "s \<le> t"
  shows "s - s mod res \<le> t - t mod res"
proof -
  have "s div res \<le> t div res" using assms by (intro zdiv_mono1)
  then show ?thesis unfolding minus_mod_eq_div_mult using assms(1) by (simp add: mult_right_mono)
qed

lemma bucket_groups_hd: "bucket_groups res ((ts, ps) # ins) \<noteq> [] \<and> fst (hd (bucket_groups res ((ts, ps) # ins))) = ts - ts mod res"
  by (auto simp: Let_def split: list.split)

lemma bucket_groups_increasing:
  "0 < res \<Longrightarrow> sorted (map fst ins) \<Longrightarrow> sorted_wrt (<) (map fst (bucket_groups res ins))"
proof (induction res ins rule: bucket_groups.induct)
  case (2 res ts ps ins)
  have ih: "sorted_wrt (<) (map fst (bucket_groups res ins))" using 2 by simp
  show ?case
  proof (cases "bucket_groups res ins")
    case Nil
    then show ?thesis by (simp add: Let_def)
  next
    case (Cons g gs)
    obtain i rest where ins: "ins = i # rest" using Cons by (cases ins) auto
    have "fst g = fst i - fst i mod res"
      using bucket_groups_hd [of res "fst i" "snd i" rest] Cons ins by simp
    then have le: "ts - ts mod res \<le> fst g"
      using bucket_start_mono [of res ts "fst i"] 2(2,3) ins by simp
    have "\<And>h. h \<in> set gs \<Longrightarrow> fst g < fst h" using ih Cons by simp
    then show ?thesis using ih Cons le by (cases g) (fastforce simp: Let_def)
  qed
qed simp

text \<open>The row of a metric is the aggregate of its values, in their order.\<close>

fun agg_of :: "f64 list \<Rightarrow> Agg option" where
  "agg_of [] = None"
| "agg_of (v # vs) = Some (foldl (\<lambda>a w. agg_merge a (agg_one w)) (agg_one v) vs)"

lemma agg_of_snoc: "agg_of (vs @ [w]) = Some (case agg_of vs of None \<Rightarrow> agg_one w | Some a \<Rightarrow> agg_merge a (agg_one w))"
  by (cases vs) simp_all

definition values_of :: "string \<Rightarrow> (string \<times> f64) list \<Rightarrow> f64 list" where
  "values_of name ps = map snd (filter (\<lambda>p. fst p = name) ps)"

lemma put_points:
  "bt_invar (foldl put_point [] ps) \<and> bt_get name (foldl put_point [] ps) = agg_of (values_of name ps)"
proof (induction ps rule: rev_induct)
  case Nil
  show ?case by (simp add: bt.invar_empty bt_get_def values_of_def)
next
  case (snoc p ps)
  then have inv: "bt_invar (foldl put_point [] ps)" by simp
  obtain k v where p: "p = (k, v)" by fastforce
  have same: "values_of name (ps @ [(k, v)]) = (if k = name then values_of name ps @ [v] else values_of name ps)"
    by (simp add: values_of_def)
  show ?case
    using snoc inv unfolding p same
    by (auto simp: put_point_def agg_of_snoc bt.lookup_put bt.invar_put split: option.split)
qed

section \<open>The builder folds every row into the cell of its time\<close>

definition builder_run :: "Plan \<Rightarrow> string list \<Rightarrow> (string \<times> i64 \<times> Agg) list \<Rightarrow> SeriesBuilder" where
  "builder_run p tokens rows = foldl (\<lambda>b (m, ts, a). builder_add b m ts a) (builder_new p tokens) rows"

definition rows_at :: "Plan \<Rightarrow> string \<Rightarrow> nat \<Rightarrow> (string \<times> i64 \<times> Agg) list \<Rightarrow> Agg list" where
  "rows_at p name i rows = map (\<lambda>(m, ts, a). a) (filter (\<lambda>(m, ts, a). m = name \<and> builder_index p ts = Some i) rows)"

definition cell_of :: "Agg list \<Rightarrow> Agg option" where
  "cell_of as = foldl (\<lambda>c a. put_cell a c) None as"

definition builder_ok :: "Plan \<Rightarrow> string list \<Rightarrow> (string \<times> i64 \<times> Agg) list \<Rightarrow> SeriesBuilder \<Rightarrow> bool" where
  "builder_ok p tokens rows b \<longleftrightarrow> sb_plan b = p \<and> sb_tokens b = map (\<lambda>t. (t, parse_metric_token t)) tokens \<and>
     length (sb_seen b) = length tokens \<and>
     sb_cells b = map (\<lambda>t. map (\<lambda>i. cell_of (rows_at p (fst (parse_metric_token t)) i rows)) [0 ..< nat (pl_points p)]) tokens"

lemma rows_at_snoc:
  "rows_at p name i (rows @ [(m, ts, a)]) =
    (if m = name \<and> builder_index p ts = Some i then rows_at p name i rows @ [a] else rows_at p name i rows)"
  by (simp add: rows_at_def)

lemma zip_map_same: "zip (map f xs) (map g xs) = map (\<lambda>x. (f x, g x)) xs"
  by (induction xs) auto

lemma builder_index_bound: "builder_index p ts = Some i \<Longrightarrow> i < nat (pl_points p)"
  by (auto simp: builder_index_def Let_def split: if_splits)

lemma builder_add_ok:
  assumes "builder_ok p tokens rows b"
  shows "builder_ok p tokens (rows @ [(m, ts, a)]) (builder_add b m ts a)"
proof (cases "builder_index p ts")
  case None
  then show ?thesis using assms by (simp add: builder_add_def builder_ok_def rows_at_snoc)
next
  case (Some i)
  have upd: "(map (\<lambda>k. cell_of (rows_at p n k rows)) [0 ..< nat (pl_points p)])
      [i := put_cell a (cell_of (rows_at p n i rows))] =
    map (\<lambda>k. cell_of (rows_at p n k (rows @ [(n, ts, a)]))) [0 ..< nat (pl_points p)]" for n
    by (rule nth_equalityI) (auto simp: nth_list_update rows_at_snoc Some cell_of_def)
  have other: "n \<noteq> m \<Longrightarrow> rows_at p n k (rows @ [(m, ts, a)]) = rows_at p n k rows" for n k
    by (simp add: rows_at_snoc)
  have i: "i < nat (pl_points p)" using Some by (rule builder_index_bound)
  show ?thesis
    using assms Some i upd [of m] other
    by (auto simp: builder_add_def builder_ok_def zip_map_same token_is_def)
qed

lemma builder_run_ok: "builder_ok p tokens rows (builder_run p tokens rows)"
proof (induction rows rule: rev_induct)
  case Nil
  show ?case by (simp add: builder_run_def builder_ok_def builder_new_def rows_at_def cell_of_def map_replicate_const)
next
  case (snoc r rows)
  obtain m ts a where r: "r = (m, ts, a)" by (cases r) auto
  show ?case using builder_add_ok [OF snoc, of m ts a] by (simp add: builder_run_def r)
qed

lemma foldl_insert_get:
  "bt_invar acc \<Longrightarrow> bt_get k (foldl (\<lambda>m t. bt_insert (f t) (g t) m) acc ts) =
    (if k \<in> f ` set ts then Some (g (last (filter (\<lambda>t. f t = k) ts))) else bt_get k acc)"
proof (induction ts rule: rev_induct)
  case (snoc t ts)
  have "bt_invar (foldl (\<lambda>m t. bt_insert (f t) (g t) m) acc ts)"
    using snoc.prems by (induction ts rule: rev_induct) (auto simp: bt.invar_put)
  then show ?case using snoc by (auto simp: bt.lookup_put)
qed simp

lemma series_answer:
  assumes "token \<in> set tokens"
  shows "doc_get (builder_finish (builder_run p tokens rows) now) token =
    map (\<lambda>i. map_option (\<lambda>a. round4s (agg_pick a (snd (parse_metric_token token))))
      (cell_of (rows_at p (fst (parse_metric_token token)) i rows))) [0 ..< nat (pl_points p)]"
proof -
  let ?row = "\<lambda>t. finish_row ((t, parse_metric_token t),
    map (\<lambda>i. cell_of (rows_at p (fst (parse_metric_token t)) i rows)) [0 ..< nat (pl_points p)])"
  have b: "builder_ok p tokens rows (builder_run p tokens rows)" by (rule builder_run_ok)
  have "sd_series (builder_finish (builder_run p tokens rows) now) = foldl (\<lambda>m t. bt_insert t (?row t) m) [] tokens"
    using b by (simp add: builder_finish_def builder_ok_def zip_map_same foldl_map)
  then have "bt_get token (sd_series (builder_finish (builder_run p tokens rows) now)) =
      Some (?row (last (filter (\<lambda>t. t = token) tokens)))"
    using foldl_insert_get [of "[]" token "\<lambda>t. t" ?row tokens] assms by (simp add: bt.invar_empty)
  moreover have "last (filter (\<lambda>t. t = token) tokens) = token"
    using assms last_in_set [of "filter (\<lambda>t. t = token) tokens"] by (simp add: filter_empty_conv)
  ultimately show ?thesis by (simp add: doc_get_def bt_get_or_def finish_row_def)
qed

section \<open>The plan of a histogram\<close>

lemma hist_res_pos: "0 < hist_res range_s keep"
  by (simp add: hist_res_def RES_1M_def RES_10M_def)

lemma hist_step_ok:
  assumes "0 < range_s" "0 < res"
  shows "0 < hist_step range_s res" "res dvd hist_step range_s res" "range_s \<le> HIST_COLUMNS * hist_step range_s res"
proof -
  define w where "w = (range_s + HIST_COLUMNS - 1) div HIST_COLUMNS"
  have w: "range_s \<le> w * HIST_COLUMNS" unfolding w_def using assms by (intro ceil_div(1)) (simp_all add: HIST_COLUMNS_def)
  then have w0: "0 < w" using assms by (simp add: HIST_COLUMNS_def)
  have step: "hist_step range_s res = (w + res - 1) div res * res"
    using assms w0 by (simp add: hist_step_def w_def sdiv_pos HIST_COLUMNS_def)
  have "w \<le> hist_step range_s res" unfolding step using assms(2) w0 by (intro ceil_div(1)) simp_all
  then show "0 < hist_step range_s res" "range_s \<le> HIST_COLUMNS * hist_step range_s res"
    using w w0 by (simp_all add: HIST_COLUMNS_def)
  show "res dvd hist_step range_s res" unfolding step by simp
qed

lemma hist_plan_ok:
  assumes "0 < range_s"
  shows "\<exists>step start cols. hist_plan now range_s keep = Some (hist_res range_s keep, step, start, cols) \<and>
    0 < step \<and> hist_res range_s keep dvd step \<and> 1 \<le> cols \<and> cols \<le> HIST_COLUMNS \<and> range_s \<le> cols * step \<and>
    now < start + cols * step \<and> start + cols * step \<le> now + step"
proof -
  define step where "step = hist_step range_s (hist_res range_s keep)"
  define cols where "cols = (range_s + step - 1) div step"
  have s: "0 < step" "hist_res range_s keep dvd step" "range_s \<le> HIST_COLUMNS * step"
    unfolding step_def using hist_step_ok [OF assms hist_res_pos] by auto
  have c: "1 \<le> cols" "cols \<le> HIST_COLUMNS" "range_s \<le> cols * step"
    unfolding cols_def using s assms ceil_div(1) [OF s(1), of range_s] ceil_div_le [OF s(1), of range_s HIST_COLUMNS]
    by (simp_all add: int_one_le_iff_zero_less pos_imp_zdiv_pos_iff)
  have "hist_plan now range_s keep = Some (hist_res range_s keep, step, now - now mod step + step - cols * step, cols)"
    using s(1) assms c(1) sdiv_pos [of "range_s + step - 1" step]
    by (simp add: hist_plan_def Let_def step_def [symmetric] cols_def [symmetric])
  moreover have "0 \<le> now mod step" "now mod step < step" using s(1) by simp_all
  ultimately show ?thesis using s c by (intro exI conjI) (assumption | simp)+
qed

text \<open>A range that wraps to zero is accepted, and the histogram's plan then divides by zero.\<close>

lemma parse_range_wraps: "parse_range ''144115188075855872d'' = Some 0"
  by (simp add: parse_range_def Let_def trim_def trim_start_by_def trim_end_by_def is_ws_def range_unit_def
      parse_int_bits_def parse_uint_def strip_plus_def digits_val_def is_digit_def digit_val_def i64_wrap_def)

lemma hist_plan_zero: "hist_plan now 0 keep = None"
  by (simp add: hist_plan_def Let_def hist_step_def hist_res_def RES_1M_def RES_10M_def HIST_COLUMNS_def)

end
