(* ===== verification/Gateway.thy ===== *)
theory Gateway
  imports GateLogFacts Incidents Rates "HOL-Library.Multiset"
begin

text \<open>
  \<open>crates/lss-core/src/series.rs\<close>, lines 587 to 805: the tables of \<open>GET /gateway\<close>, built from the merged
  gate log with the collector's own probes taken out, and the uptime from the incidents.
\<close>

record GatewayRow =
  gr_name :: string
  gr_lane :: string
  gr_requests :: u64
  gr_coded_requests :: u64
  gr_c2xx :: "u64 option"
  gr_c4xx :: "u64 option"
  gr_c5xx :: "u64 option"
  gr_s413 :: "u64 option"
  gr_s429 :: "u64 option"
  gr_s499 :: "u64 option"
  gr_s503 :: "u64 option"
  gr_est_tokens_n :: u64
  gr_est_tokens_avg :: "f64 option"
  gr_est_tokens_max :: "f64 option"

definition codes_total :: "(nat, u64) btree \<Rightarrow> u64" where
  "codes_total codes = sum_list (map snd codes)"

definition row_from_codes :: "string \<Rightarrow> string \<Rightarrow> (nat, u64) btree \<Rightarrow> EstTokens \<Rightarrow> GatewayRow" where
  "row_from_codes name lane codes est =
    \<lparr>gr_name = name, gr_lane = lane, gr_requests = codes_total codes, gr_coded_requests = codes_total codes,
     gr_c2xx = Some (class_count 2 codes), gr_c4xx = Some (class_count 4 codes), gr_c5xx = Some (class_count 5 codes),
     gr_s413 = Some (bt_get_or 0 413 codes), gr_s429 = Some (bt_get_or 0 429 codes),
     gr_s499 = Some (bt_get_or 0 499 codes), gr_s503 = Some (bt_get_or 0 503 codes),
     gr_est_tokens_n = et_n est, gr_est_tokens_avg = map_option f_round (est_avg est),
     gr_est_tokens_max = (if 0 < et_n est then Some (et_max est) else None)\<rparr>"

definition row_uncoded :: "string \<Rightarrow> string \<Rightarrow> u64 \<Rightarrow> GatewayRow" where
  "row_uncoded name lane requests =
    \<lparr>gr_name = name, gr_lane = lane, gr_requests = requests, gr_coded_requests = 0, gr_c2xx = None, gr_c4xx = None,
     gr_c5xx = None, gr_s413 = None, gr_s429 = None, gr_s499 = None, gr_s503 = None, gr_est_tokens_n = 0,
     gr_est_tokens_avg = None, gr_est_tokens_max = None\<rparr>"

section \<open>How much of the range has status codes\<close>

record CodeCoverage =
  cv_since :: "i64 option"
  cv_gap :: bool

definition coverage_default :: CodeCoverage where
  "coverage_default = \<lparr>cv_since = None, cv_gap = False\<rparr>"

definition lane_coded :: "LaneLog \<Rightarrow> u64" where
  "lane_coded l = sum_list (map (\<lambda>(_, codes). codes_total codes) (ll_by_key_status l))"

definition coverage_lane :: "i64 \<Rightarrow> CodeCoverage \<Rightarrow> LaneLog \<Rightarrow> CodeCoverage" where
  "coverage_lane ts c l =
    (if ll_requests l = 0 then c
     else if ll_requests l \<le> lane_coded l then c\<lparr>cv_since := (case cv_since c of None \<Rightarrow> Some ts | Some s \<Rightarrow> Some s)\<rparr>
     else c\<lparr>cv_since := None, cv_gap := True\<rparr>)"

definition coverage_observe :: "CodeCoverage \<Rightarrow> i64 \<Rightarrow> LogDelta \<Rightarrow> CodeCoverage" where
  "coverage_observe c ts d = coverage_lane ts (coverage_lane ts c (ld_public d)) (ld_trusted d)"

definition coverage_label :: "CodeCoverage \<Rightarrow> string" where
  "coverage_label c = (if \<not> cv_gap c then ''full'' else if cv_since c \<noteq> None then ''partial'' else ''none'')"

definition coverage_since :: "CodeCoverage \<Rightarrow> i64 option" where
  "coverage_since c = (if cv_gap c then cv_since c else None)"

definition covers :: "CodeCoverage \<Rightarrow> i64 \<Rightarrow> bool" where
  "covers c ts \<longleftrightarrow> \<not> cv_gap c \<or> (case cv_since c of None \<Rightarrow> False | Some s \<Rightarrow> s \<le> ts)"

section \<open>The tables\<close>

record GatewayDoc =
  gd_generated_at :: i64
  gd_range_s :: i64
  gd_lanes :: "GatewayRow list"
  gd_keys :: "GatewayRow list"
  gd_ips :: "GatewayRow list"
  gd_probes_excluded :: u64
  gd_codes_coverage :: string
  gd_codes_since :: "i64 option"

definition NO_KEY :: string where "NO_KEY = ''(no key)''"

text \<open>\<open>if let Some(k) = map.get_mut(key) { *k = k.saturating_sub(1) }\<close>.\<close>

definition bt_lower :: "'k::linorder \<Rightarrow> ('k, u64) btree \<Rightarrow> ('k, u64) btree" where
  "bt_lower k m = (case bt_get k m of None \<Rightarrow> m | Some n \<Rightarrow> bt_insert k (n - 1) m)"

definition exclude_covered :: "string option \<Rightarrow> nat \<Rightarrow> LaneLog \<Rightarrow> LaneLog" where
  "exclude_covered probe_ip code l =
    l\<lparr>ll_by_key_status := (case bt_get NO_KEY (ll_by_key_status l) of None \<Rightarrow> ll_by_key_status l
        | Some codes \<Rightarrow> bt_insert NO_KEY (bt_lower code codes) (ll_by_key_status l)),
      ll_by_ip := (case probe_ip of None \<Rightarrow> ll_by_ip l | Some ip \<Rightarrow> bt_lower ip (ll_by_ip l))\<rparr>"

definition exclude_probe ::
  "CodeCoverage \<Rightarrow> string option \<Rightarrow> LaneLog \<times> u64 \<Rightarrow> i64 \<times> nat \<Rightarrow> LaneLog \<times> u64" where
  "exclude_probe cov probe_ip st probe =
    (let (l, n) = st; (ts, code) = probe in
     if bt_get_or 0 code (ll_by_status l) = 0 then st
     else
       (let l1 = l\<lparr>ll_by_status := bt_lower code (ll_by_status l), ll_requests := ll_requests l - 1,
              ll_by_key := bt_lower NO_KEY (ll_by_key l)\<rparr>
        in (if covers cov ts then exclude_covered probe_ip code l1 else l1, n + 1)))"

definition key_row :: "bool \<Rightarrow> string \<Rightarrow> LaneLog \<Rightarrow> string \<times> u64 \<Rightarrow> GatewayRow" where
  "key_row full lane l kn =
    (let (key, n) = kn;
         est = bt_get_or est_default key (ll_by_key_est l);
         row = (case bt_get key (ll_by_key_status l) of
             Some codes \<Rightarrow> if full \<or> 0 < codes_total codes then row_from_codes key lane codes est
               else row_uncoded key lane n
           | None \<Rightarrow> if \<not> full then row_uncoded key lane n else row_from_codes key lane [] est)
     in row\<lparr>gr_requests := max (gr_requests row) n\<rparr>)"

definition lane_keys :: "bool \<Rightarrow> string \<Rightarrow> LaneLog \<Rightarrow> GatewayRow list" where
  "lane_keys full lane l = filter (\<lambda>r. 0 < gr_requests r) (map (key_row full lane l) (ll_by_key l))"

definition lane_ips :: "string \<Rightarrow> LaneLog \<Rightarrow> GatewayRow list" where
  "lane_ips lane l = map (\<lambda>(ip, n). row_uncoded ip lane n) (filter (\<lambda>(_, n). 0 < n) (ll_by_ip l))"

text \<open>\<open>sort_by(requests descending, then name)\<close>, as two stable sorts.\<close>

definition busiest :: "GatewayRow list \<Rightarrow> GatewayRow list" where
  "busiest rows = sort_key (\<lambda>r. - int (gr_requests r)) (sort_key gr_name rows)"

definition build_gateway ::
  "i64 \<Rightarrow> i64 \<Rightarrow> LogDelta \<Rightarrow> (i64 \<times> nat) list \<Rightarrow> CodeCoverage \<Rightarrow> string option \<Rightarrow> GatewayDoc" where
  "build_gateway now range_s d probes coverage probe_ip =
    (let (trusted, excluded) = foldl (exclude_probe coverage probe_ip) (ld_trusted d, 0) probes;
         full = (coverage_label coverage = ''full'');
         pub = ld_public d
     in \<lparr>gd_generated_at = now, gd_range_s = range_s,
         gd_lanes = [row_from_codes ''public'' ''public'' (ll_by_status pub) (ll_est pub),
                     row_from_codes ''trusted'' ''trusted'' (ll_by_status trusted) (ll_est trusted)],
         gd_keys = take 50 (busiest (lane_keys full ''public'' pub @ lane_keys full ''trusted'' trusted)),
         gd_ips = take 20 (busiest (lane_ips ''public'' pub @ lane_ips ''trusted'' trusted)),
         gd_probes_excluded = excluded, gd_codes_coverage = coverage_label coverage,
         gd_codes_since = coverage_since coverage\<rparr>)"

section \<open>Uptime\<close>

record Incident =
  in_id :: i64
  in_start :: i64
  in_end :: "i64 option"
  in_kind :: string
  in_detail :: string

record Uptime =
  up_h24 :: "f64 option"
  up_d7 :: "f64 option"
  up_since :: i64

text \<open>The part of an incident inside the window.\<close>

definition down_secs :: "i64 \<Rightarrow> i64 \<Rightarrow> Incident \<Rightarrow> i64" where
  "down_secs now start i =
    max 0 (min (case in_end i of None \<Rightarrow> now | Some e \<Rightarrow> e) now - max (in_start i) start)"

definition uptime_window :: "i64 \<Rightarrow> i64 \<Rightarrow> Incident list \<Rightarrow> i64 \<Rightarrow> f64 option" where
  "uptime_window now first_sample_ts incidents secs =
    (let start = max (now - secs) first_sample_ts; span = now - start in
     if span \<le> 0 then None
     else
       (let down = sum_list (map (down_secs now start) (filter (\<lambda>i. in_kind i = ''serve_down'') incidents))
        in Some (f_div (f_round (f_mul
             (f_clamp (f_sub (F_Fin 1) (f_div (f_of_int down) (f_of_int span))) (F_Fin 0) (F_Fin 1)) (F_Fin 100000)))
             (F_Fin 100000))))"

definition uptime :: "i64 \<Rightarrow> i64 \<Rightarrow> Incident list \<Rightarrow> Uptime" where
  "uptime now first_sample_ts incidents =
    \<lparr>up_h24 = uptime_window now first_sample_ts incidents 86400,
     up_d7 = uptime_window now first_sample_ts incidents 604800, up_since = first_sample_ts\<rparr>"

section \<open>What the tables keep\<close>

lemma codes_total_weight: "codes_total codes = bt_weight id codes"
  by (simp add: codes_total_def bt_weight_def case_prod_unfold)

lemma bt_lower_invar [inv_intros]: "bt_invar m \<Longrightarrow> bt_invar (bt_lower k m)"
  by (simp add: bt_lower_def bt.invar_put split: option.split)

lemma bt_lower_total:
  assumes "bt_invar m" "bt_get_or 0 k m \<noteq> 0"
  shows "codes_total (bt_lower k m) + 1 = codes_total m"
proof -
  obtain n where n: "bt_get k m = Some n" "0 < n"
    using assms(2) by (auto simp: bt_get_or_def split: option.splits)
  show ?thesis
    using bt_weight_insert [of m id 0 k "n - 1"] assms(1) n by (simp add: codes_total_weight bt_lower_def bt_get_or_def)
qed

lemma exclude_probe_status:
  assumes "bt_invar (ll_by_status l)"
  shows "bt_invar (ll_by_status (fst (exclude_probe cov ip (l, n) probe)))"
    "codes_total (ll_by_status (fst (exclude_probe cov ip (l, n) probe))) + snd (exclude_probe cov ip (l, n) probe) =
     codes_total (ll_by_status l) + n"
    "n \<le> snd (exclude_probe cov ip (l, n) probe)" "snd (exclude_probe cov ip (l, n) probe) \<le> n + 1"
  using assms bt_lower_total [of "ll_by_status l"]
  by (auto simp: exclude_probe_def exclude_covered_def Let_def bt_lower_invar split: prod.split)

lemma exclude_all:
  assumes "bt_invar (ll_by_status l)"
  shows "bt_invar (ll_by_status (fst (foldl (exclude_probe cov ip) (l, n) probes))) \<and>
    codes_total (ll_by_status (fst (foldl (exclude_probe cov ip) (l, n) probes))) +
      snd (foldl (exclude_probe cov ip) (l, n) probes) = codes_total (ll_by_status l) + n \<and>
    snd (foldl (exclude_probe cov ip) (l, n) probes) \<le> n + length probes"
  using assms
proof (induction probes arbitrary: l n)
  case (Cons p probes)
  obtain l1 n1 where s: "exclude_probe cov ip (l, n) p = (l1, n1)" by fastforce
  have "bt_invar (ll_by_status l1)" "codes_total (ll_by_status l1) + n1 = codes_total (ll_by_status l) + n" "n1 \<le> n + 1"
    using exclude_probe_status [OF Cons.prems, where cov = cov and ip = ip and n = n and probe = p] unfolding s by auto
  then show ?case using Cons.IH [of l1 n1] s by simp
qed simp

text \<open>Exactly the probes whose code the log still holds are taken out.\<close>

lemma bt_get_lower: "bt_invar m \<Longrightarrow> bt_get_or 0 k (bt_lower c m) = bt_get_or 0 k m - (if k = c then 1 else 0)"
proof (cases "bt_get c m")
  case None
  then show ?thesis by (simp add: bt_lower_def bt_get_or_def)
next
  case (Some n)
  assume "bt_invar m"
  then show ?thesis using Some by (simp add: bt_lower_def bt_get_or_insert) (simp add: bt_get_or_def)
qed

lemma exclude_probe_codes:
  assumes "bt_invar (ll_by_status l)"
  shows "bt_get_or 0 k (ll_by_status (fst (exclude_probe cov ip (l, n) (ts, code)))) =
      bt_get_or 0 k (ll_by_status l) - (if k = code then 1 else 0)"
    "snd (exclude_probe cov ip (l, n) (ts, code)) = n + min 1 (bt_get_or 0 code (ll_by_status l))"
  using bt_get_lower [OF assms, of k code]
  by (auto simp: exclude_probe_def exclude_covered_def Let_def)

lemma exclude_exact:
  assumes "bt_invar (ll_by_status l)" "finite A" "set (map snd probes) \<subseteq> A"
  shows "snd (foldl (exclude_probe cov ip) (l, n) probes) =
    n + (\<Sum>c\<in>A. min (bt_get_or 0 c (ll_by_status l)) (count_list (map snd probes) c))"
  using assms(1,3)
proof (induction probes arbitrary: l n)
  case (Cons p probes)
  obtain ts code where p: "p = (ts, code)" by fastforce
  obtain l1 n1 where s: "exclude_probe cov ip (l, n) p = (l1, n1)" by fastforce
  let ?get = "\<lambda>l c. bt_get_or 0 c (ll_by_status l)" and ?k = "count_list (map snd probes)"
  have inv: "bt_invar (ll_by_status l1)" using exclude_probe_status(1) [OF Cons.prems(1), where cov = cov and ip = ip and n = n and probe = p] s by simp
  have get: "?get l1 c = ?get l c - (if c = code then 1 else 0)" and n1: "n1 = n + min 1 (?get l code)" for c
    using exclude_probe_codes [OF Cons.prems(1), where cov = cov and ip = ip and n = n and ts = ts and code = code] s p by simp_all
  have code: "code \<in> A" using Cons.prems(2) p by simp
  have rest: "(\<Sum>c\<in>A - {code}. min (?get l1 c) (?k c)) =
      (\<Sum>c\<in>A - {code}. min (?get l c) (count_list (map snd (p # probes)) c))"
    using p by (intro sum.cong) (auto simp: get)
  have "min (?get l code) (count_list (map snd (p # probes)) code) = min 1 (?get l code) + min (?get l1 code) (?k code)"
    using p by (simp add: get)
  then show ?case
    using Cons.IH [OF inv, of n1] Cons.prems(2) rest s n1
    by (simp add: sum.remove [OF assms(2) code] del: count_list.simps)
qed simp

lemma busiest_ok:
  "mset (busiest rows) = mset rows \<and> sorted_wrt (\<lambda>a b. gr_requests b \<le> gr_requests a) (busiest rows)"
proof -
  have "sorted (map (\<lambda>r. - int (gr_requests r)) (busiest rows))" by (simp add: busiest_def)
  then show ?thesis by (simp add: busiest_def sorted_map sorted_wrt_map)
qed

end
