(* ===== verification/Query.thy ===== *)
theory Query
  imports Samples RollupFacts Gateway Probe Hist
begin

text \<open>
  \<open>crates/lss-collector/src/query.rs\<close>: the handlers of \<open>GET /series\<close>, \<open>/hist\<close> and \<open>/gateway\<close> over the
  database. The database (SQLite, \<open>db.rs\<close>) is a record of its queries: \<open>None\<close> is a database error. The JSON of an
  answer is written by \<open>serde_json\<close>; the answers here are the documents.
\<close>

record Retention =
  re_raw :: i64
  re_m1 :: i64
  re_m10 :: i64

record Db =
  db_metric_names :: "string list option"
  db_rollup_rows :: "i64 \<Rightarrow> string \<Rightarrow> i64 \<Rightarrow> i64 \<Rightarrow> ((i64 \<times> Agg) list \<times> bool) option"
  db_samples :: "i64 \<Rightarrow> i64 \<Rightarrow> Sample list option"
  db_probes_between :: "i64 \<Rightarrow> i64 \<Rightarrow> ProbeRecord list option"
  db_hist_rows :: "i64 \<Rightarrow> string \<Rightarrow> i64 \<Rightarrow> i64 \<Rightarrow> (i64 \<times> HistAccum) list option"
  db_each_gatelog :: "i64 \<Rightarrow> i64 \<Rightarrow> (i64 \<times> LogDelta) list option"

datatype 'a answer = Answer 'a | Bad_Request string | Db_Error

section \<open>The query string\<close>

fun percent_bytes :: "string \<Rightarrow> string" where
  "percent_bytes [] = []"
| "percent_bytes (c # s) =
    (if c = CHR ''%'' then
       (case s of
          a # b # t \<Rightarrow>
            (case parse_hex 8 [a, b] of
               Some v \<Rightarrow> char_of v # percent_bytes t
             | None \<Rightarrow> CHR ''%'' # percent_bytes s)
        | _ \<Rightarrow> CHR ''%'' # percent_bytes s)
     else if c = CHR ''+'' then CHR '' '' # percent_bytes s
     else c # percent_bytes s)"

text \<open>\<open>String::from_utf8_lossy\<close> is an argument: the identity on valid UTF-8.\<close>

definition percent_decode :: "(string \<Rightarrow> string) \<Rightarrow> string \<Rightarrow> string" where
  "percent_decode utf8_lossy s = utf8_lossy (percent_bytes s)"

type_synonym Params = "(string \<times> string) list"

definition parse_query :: "(string \<Rightarrow> string) \<Rightarrow> string \<Rightarrow> Params" where
  "parse_query utf8_lossy url =
    (let query = (case split_once ''?'' url of None \<Rightarrow> [] | Some (_, q) \<Rightarrow> q)
     in List.map_filter (\<lambda>pair.
          let (k, v) = (case split_once ''='' pair of None \<Rightarrow> (pair, []) | Some kv \<Rightarrow> kv)
          in if k \<noteq> [] then Some (percent_decode utf8_lossy k, percent_decode utf8_lossy v) else None)
        (split_on CHR ''&'' query))"

text \<open>A later value of a key replaces an earlier one.\<close>

definition param :: "Params \<Rightarrow> string \<Rightarrow> string option" where
  "param q k = map_of (rev q) k"

definition DEFAULT_RANGE :: i64 where "DEFAULT_RANGE = 3600"
definition MAX_TOKENS :: nat where "MAX_TOKENS = 128"

definition range_of :: "Params \<Rightarrow> i64 option" where
  "range_of q = (case param q ''range'' of None \<Rightarrow> Some DEFAULT_RANGE | Some r \<Rightarrow> parse_range r)"

definition BAD_RANGE :: string where
  "BAD_RANGE = ''range must look like 15m, 1h, 6h, 24h, 7d (or plain seconds)''"

section \<open>/series\<close>

definition wanted_tokens :: "Params \<Rightarrow> string list" where
  "wanted_tokens q =
    (case param q ''metrics'' of None \<Rightarrow> []
     | Some m \<Rightarrow> filter (\<lambda>t. t \<noteq> []) (map trim (split_on CHR '','' m)))"

datatype SeriesAnswer = SA_Names "string list" | SA_Doc SeriesDoc

text \<open>The names recorded, with the three that live in the probe table.\<close>

definition known_names :: "Db \<Rightarrow> string list" where
  "known_names db =
    sort ((case db_metric_names db of None \<Rightarrow> [] | Some ns \<Rightarrow> ns) @ [''c1_tok_s'', ''c1_invalid'', ''c1_invalid_tok_s''])"

definition step_of :: "Params \<Rightarrow> i64 option answer" where
  "step_of q =
    (case param q ''step'' of None \<Rightarrow> Answer None
     | Some s \<Rightarrow> if s = ''auto'' \<or> s = [] then Answer None
         else case parse_range s of Some v \<Rightarrow> Answer (Some v)
           | None \<Rightarrow> Bad_Request ''step must be `auto` or a duration like 60, 60s, 10m'')"

definition recorded :: "Db \<Rightarrow> string \<Rightarrow> bool" where
  "recorded db name \<longleftrightarrow> (case db_metric_names db of None \<Rightarrow> False | Some ns \<Rightarrow> name \<in> set ns)"

definition add_rows :: "string \<Rightarrow> SeriesBuilder \<Rightarrow> (i64 \<times> Agg) list \<Rightarrow> SeriesBuilder" where
  "add_rows name b rows = foldl (\<lambda>b (ts, a). builder_add b name ts a) b rows"

text \<open>One round of the loop over the names: the builder, and the names to read from the samples.\<close>

definition series_name ::
  "Db \<Rightarrow> Plan \<Rightarrow> i64 \<Rightarrow> (SeriesBuilder \<times> string list) option \<Rightarrow> string \<Rightarrow> (SeriesBuilder \<times> string list) option" where
  "series_name db p finish st name =
    (case st of None \<Rightarrow> None
     | Some (b, from_samples) \<Rightarrow>
        if is_probe_metric name then Some (mark_known b name, from_samples)
        else if pl_tier p = T_Raw \<and> \<not> is_minute_native name then
          Some (if recorded db name then mark_known b name else b, from_samples @ [name])
        else
          (case db_rollup_rows db (if pl_tier p = T_M10 then 600 else 60) name (pl_start_ts p) finish of
             None \<Rightarrow> None
           | Some (rows, known) \<Rightarrow> Some (add_rows name (if known then mark_known b name else b) rows, from_samples)))"

text \<open>The points of the samples, each against the sample before it.\<close>

fun raw_points :: "Sample option \<Rightarrow> Sample list \<Rightarrow> (Sample \<times> string \<times> f64) list" where
  "raw_points prev [] = []"
| "raw_points prev (s # ss) = map (\<lambda>(name, v). (s, name, v)) (sample_points prev s) @ raw_points (Some s) ss"

definition add_raw :: "Plan \<Rightarrow> string list \<Rightarrow> SeriesBuilder \<Rightarrow> Sample list \<Rightarrow> SeriesBuilder" where
  "add_raw p from_samples b samples =
    foldl (\<lambda>b (s, name, v). builder_add b name (sp_ts s) (agg_one v)) b
      (filter (\<lambda>(s, name, v). pl_start_ts p \<le> sp_ts s \<and> name \<in> set from_samples) (raw_points None samples))"

definition add_probe :: "SeriesBuilder \<Rightarrow> ProbeRecord \<Rightarrow> SeriesBuilder" where
  "add_probe b pr =
    (case (is_reading pr, pr_decode_tok_s pr) of
       (True, Some v) \<Rightarrow> builder_add b ''c1_tok_s'' (pr_ts pr) (agg_one v)
     | (True, None) \<Rightarrow> b
     | (False, v) \<Rightarrow>
        (let b1 = builder_add b ''c1_invalid'' (pr_ts pr) (agg_one (F_Fin 1)) in
         case v of None \<Rightarrow> b1 | Some x \<Rightarrow> builder_add b1 ''c1_invalid_tok_s'' (pr_ts pr) (agg_one x)))"

definition read_samples :: "Db \<Rightarrow> Plan \<Rightarrow> i64 \<Rightarrow> SeriesBuilder \<times> string list \<Rightarrow> SeriesBuilder option" where
  "read_samples db p finish bf =
    (if snd bf = [] then Some (fst bf)
     else map_option (add_raw p (snd bf) (fst bf)) (db_samples db (pl_start_ts p - 10) finish))"

definition read_probes :: "Db \<Rightarrow> Plan \<Rightarrow> i64 \<Rightarrow> string list \<Rightarrow> SeriesBuilder \<Rightarrow> SeriesBuilder option" where
  "read_probes db p finish nms b =
    (if \<exists>n \<in> set nms. is_probe_metric n then map_option (foldl add_probe b) (db_probes_between db (pl_start_ts p) finish)
     else Some b)"

definition series_build :: "Db \<Rightarrow> i64 \<Rightarrow> Plan \<Rightarrow> string list \<Rightarrow> SeriesBuilder option" where
  "series_build db now p tokens =
    (let b = builder_new p tokens; finish = pl_start_ts p + pl_points p * pl_step_s p; nms = builder_names b in
     case foldl (series_name db p finish) (Some (b, [])) nms of None \<Rightarrow> None
     | Some bf \<Rightarrow> (case read_samples db p finish bf of None \<Rightarrow> None | Some b2 \<Rightarrow> read_probes db p finish nms b2))"

definition series_handler :: "Db \<Rightarrow> i64 \<Rightarrow> Params \<Rightarrow> Retention \<Rightarrow> SeriesAnswer answer" where
  "series_handler db now q keep =
    (let tokens = wanted_tokens q in
     if tokens = [] then Answer (SA_Names (known_names db))
     else if MAX_TOKENS < length tokens then Bad_Request ''too many metrics in one request (128 at most)''
     else case range_of q of None \<Rightarrow> Bad_Request BAD_RANGE
       | Some range_s \<Rightarrow>
          (case step_of q of Bad_Request m \<Rightarrow> Bad_Request m | Db_Error \<Rightarrow> Db_Error
           | Answer step \<Rightarrow>
              (case series_build db now (plan now range_s step (re_raw keep, re_m1 keep, re_m10 keep)) tokens of
                 None \<Rightarrow> Db_Error
               | Some b \<Rightarrow> Answer (SA_Doc (builder_finish b now)))))"

section \<open>/hist\<close>

record HistDoc =
  hd_generated_at :: i64
  hd_metric :: string
  hd_range_s :: i64
  hd_step_s :: i64
  hd_start_ts :: i64
  hd_le :: "f64 list"
  hd_total :: "f64 list"
  hd_summary :: "HistSummary option"
  hd_unit :: string
  hd_summary_raw :: "RawSummary option"
  hd_columns :: "f64 list list"

definition add_column :: "i64 \<Rightarrow> i64 \<Rightarrow> int \<Rightarrow> f64 list list \<Rightarrow> i64 \<times> HistAccum \<Rightarrow> f64 list list" where
  "add_column start step cols columns row =
    (let i = nat (clamp ((fst row - start) sdiv step) 0 (cols - 1));
         acc = ha_counts (snd row)
     in columns[i := (if columns ! i = [] then acc
          else map (\<lambda>(a, b). f_add a b) (zip (columns ! i) acc) @ drop (length acc) (columns ! i))])"

text \<open>The whole handler; \<open>None\<close> is a panic (a division by a step of zero).\<close>

definition hist_handler :: "Db \<Rightarrow> i64 \<Rightarrow> Params \<Rightarrow> Retention \<Rightarrow> HistDoc answer option" where
  "hist_handler db now q keep =
    (case param q ''metric'' of None \<Rightarrow> Some (Bad_Request ''metric must be one of ttft, e2e, itl, queue_time, prompt_tokens, gen_tokens'')
     | Some metric \<Rightarrow>
        if hist_index metric = None then Some (Bad_Request ''metric must be one of ttft, e2e, itl, queue_time, prompt_tokens, gen_tokens'')
        else case range_of q of None \<Rightarrow> Some (Bad_Request BAD_RANGE)
          | Some r \<Rightarrow>
             (let range_s = min r (re_m10 keep) in
              case hist_plan now range_s (re_m1 keep) of None \<Rightarrow> None
              | Some (res, step, start, cols) \<Rightarrow>
                 (case db_hist_rows db res metric start (start + cols * step) of None \<Rightarrow> Some Db_Error
                  | Some rows \<Rightarrow>
                     (let le = (if rows = [] then [] else ha_le (snd (last rows)));
                          same = filter (\<lambda>r. vec_eq (ha_le (snd r)) le) rows;
                          total0 = accum_default\<lparr>ha_le := le, ha_counts := replicate (length le + 1) (F_Fin 0)\<rparr>;
                          total1 = foldl (\<lambda>t r. ha_add t (snd r)) total0 same
                      in Some (Answer \<lparr>hd_generated_at = now, hd_metric = metric, hd_range_s = range_s, hd_step_s = step,
                           hd_start_ts = start, hd_le = le, hd_total = ha_counts total1,
                           hd_summary = (if latency_index metric = None then None else summary total1),
                           hd_unit = hist_unit metric, hd_summary_raw = summary_raw total1,
                           hd_columns = foldl (add_column start step cols) (replicate (nat cols) []) same\<rparr>)))))"

section \<open>/gateway\<close>

definition gateway_fold :: "CodeCoverage \<times> LogDelta \<Rightarrow> i64 \<times> LogDelta \<Rightarrow> CodeCoverage \<times> LogDelta" where
  "gateway_fold st td = (coverage_observe (fst st) (fst td) (snd td), log_delta_merge (snd st) (snd td))"

definition gateway_logs :: "Db \<Rightarrow> i64 \<Rightarrow> i64 \<Rightarrow> (i64 \<times> LogDelta) option \<Rightarrow> (i64 \<times> LogDelta) list option" where
  "gateway_logs db now range_s open_bucket =
    (let from = now - range_s in
     if range_s \<le> 3600 then map_option (map (\<lambda>s. (sp_ts s, sp_log s))) (db_samples db (from + 1) (now + 1))
     else map_option (\<lambda>ls. ls @ (case open_bucket of None \<Rightarrow> [] | Some td \<Rightarrow> [td]))
       (db_each_gatelog db (from - from mod 600) (now + 1)))"

definition gateway_handler ::
  "Db \<Rightarrow> i64 \<Rightarrow> Params \<Rightarrow> Retention \<Rightarrow> (i64 \<times> LogDelta) option \<Rightarrow> string option \<Rightarrow> GatewayDoc answer" where
  "gateway_handler db now q keep open_bucket probe_ip =
    (case range_of q of None \<Rightarrow> Bad_Request BAD_RANGE
     | Some r \<Rightarrow>
        (let range_s = min r (re_m10 keep); from = now - range_s in
         case gateway_logs db now range_s open_bucket of None \<Rightarrow> Db_Error
         | Some logs \<Rightarrow>
            (case db_probes_between db (from + 1) (now + 1) of None \<Rightarrow> Db_Error
             | Some ps \<Rightarrow>
                (let (coverage, d) = foldl gateway_fold (coverage_default, log_delta_default) logs;
                     probes = List.map_filter (\<lambda>p. map_option (\<lambda>code. (pr_ts p, code)) (gate_logged_status p)) ps
                 in Answer (build_gateway now range_s d probes coverage probe_ip)))))"

text \<open>
  What the history answers promise: every requested series is aligned to the plan, the tables of the
  gateway account for every request, and the request that makes the histogram panic.
\<close>

section \<open>Every series is aligned\<close>

definition builder_shape :: "Plan \<Rightarrow> string list \<Rightarrow> SeriesBuilder \<Rightarrow> bool" where
  "builder_shape p tokens b \<longleftrightarrow> sb_plan b = p \<and> sb_tokens b = map (\<lambda>t. (t, parse_metric_token t)) tokens \<and>
     length (sb_cells b) = length tokens \<and> list_all (\<lambda>r. length r = nat (pl_points p)) (sb_cells b)"

lemma shape_new: "builder_shape p tokens (builder_new p tokens)"
  by (auto simp: builder_shape_def builder_new_def list_all_iff)

lemma shape_mark: "builder_shape p tokens b \<Longrightarrow> builder_shape p tokens (mark_known b name)"
  by (simp add: builder_shape_def mark_known_def)

lemma shape_add: "builder_shape p tokens b \<Longrightarrow> builder_shape p tokens (builder_add b name ts a)"
  by (auto simp: builder_shape_def builder_add_def list_all_iff split: option.split dest!: set_zip_rightD)

lemma shape_fold: "(\<And>b x. builder_shape p tokens b \<Longrightarrow> builder_shape p tokens (f b x)) \<Longrightarrow>
  builder_shape p tokens b \<Longrightarrow> builder_shape p tokens (foldl f b xs)"
  by (induction xs arbitrary: b) auto

lemma shape_series_name:
  assumes "series_name db p finish (Some (b, fs)) name = Some (b1, fs1)" "builder_shape p tokens b"
  shows "builder_shape p tokens b1"
proof -
  have rows: "builder_shape p tokens c \<Longrightarrow> builder_shape p tokens (add_rows name c rows)" for c rows
    unfolding add_rows_def by (rule shape_fold) (auto simp: shape_add split: prod.split)
  show ?thesis
    using assms rows shape_mark [OF assms(2)] by (auto simp: series_name_def split: if_splits option.splits)
qed

lemma series_name_none: "foldl (series_name db p finish) None nms = None"
  by (induction nms) (simp_all add: series_name_def)

lemma shape_names:
  "foldl (series_name db p finish) (Some (b, fs)) nms = Some (b1, fs1) \<Longrightarrow> builder_shape p tokens b \<Longrightarrow>
   builder_shape p tokens b1"
proof (induction nms arbitrary: b fs)
  case (Cons name nms)
  show ?case
  proof (cases "series_name db p finish (Some (b, fs)) name")
    case None
    then show ?thesis using Cons.prems(1) series_name_none by simp
  next
    case (Some bf)
    obtain b2 fs2 where bf: "bf = (b2, fs2)" by fastforce
    then have "builder_shape p tokens b2" using Some Cons.prems(2) shape_series_name by blast
    then show ?thesis using Cons.IH [of b2 fs2] Cons.prems(1) Some bf by simp
  qed
qed simp

lemma shape_probe: "builder_shape p tokens b \<Longrightarrow> builder_shape p tokens (add_probe b pr)"
  by (auto simp: add_probe_def Let_def shape_add split: option.split bool.split)

lemma shape_build:
  assumes "series_build db now p tokens = Some b"
  shows "builder_shape p tokens b"
proof -
  define finish where "finish = pl_start_ts p + pl_points p * pl_step_s p"
  obtain b1 fs1 b2 where run:
    "foldl (series_name db p finish) (Some (builder_new p tokens, [])) (builder_names (builder_new p tokens)) = Some (b1, fs1)"
    "read_samples db p finish (b1, fs1) = Some b2"
    "read_probes db p finish (builder_names (builder_new p tokens)) b2 = Some b"
    using assms by (auto simp: series_build_def Let_def finish_def split: option.splits)
  have b1: "builder_shape p tokens b1" using shape_names [OF run(1) shape_new] .
  have "builder_shape p tokens (add_raw p fs1 b1 samples)" for samples
    unfolding add_raw_def using b1 by (intro shape_fold) (auto simp: shape_add split: prod.split)
  then have "builder_shape p tokens b2"
    using run(2) b1 by (auto simp: read_samples_def split: if_splits)
  then show ?thesis
    using run(3) shape_fold [of p tokens add_probe] shape_probe by (auto simp: read_probes_def split: if_splits)
qed

lemma foldl_insert_some:
  "bt_invar acc \<Longrightarrow> (\<And>tc. tc \<in> set tcs \<Longrightarrow> P (g tc)) \<Longrightarrow> k \<in> f ` set tcs \<Longrightarrow>
   \<exists>v. bt_get k (foldl (\<lambda>m tc. bt_insert (f tc) (g tc) m) acc tcs) = Some v \<and> P v"
  using foldl_insert_get [of acc k f g tcs] last_in_set [of "filter (\<lambda>t. f t = k) tcs"]
  by (auto simp: filter_empty_conv)

lemma finish_aligned:
  assumes "builder_shape p tokens b" "token \<in> set tokens"
  shows "length (doc_get (builder_finish b now) token) = nat (pl_points p)"
proof -
  let ?tcs = "zip (sb_tokens b) (sb_cells b)"
  have "length (finish_row tc) = nat (pl_points p)" if "tc \<in> set ?tcs" for tc
  proof -
    have "snd tc \<in> set (sb_cells b)" using that set_zip_rightD [of "fst tc" "snd tc"] by simp
    then show ?thesis using assms(1) by (simp add: builder_shape_def finish_row_def list_all_iff)
  qed
  moreover have "token \<in> (\<lambda>tc. fst (fst tc)) ` set ?tcs"
  proof -
    have "map (\<lambda>tc. fst (fst tc)) ?tcs = tokens"
      using assms(1) map_fst_zip [of "sb_tokens b" "sb_cells b"]
      by (simp add: builder_shape_def comp_def flip: map_map [unfolded o_def, of fst fst])
    then show ?thesis using assms(2) by (metis set_map)
  qed
  ultimately obtain v where "bt_get token (sd_series (builder_finish b now)) = Some v" "length v = nat (pl_points p)"
    using foldl_insert_some [of "[]" ?tcs "\<lambda>v. length v = nat (pl_points p)" finish_row token "\<lambda>tc. fst (fst tc)"]
    by (auto simp: builder_finish_def bt.invar_empty)
  then show ?thesis by (simp add: doc_get_def bt_get_or_def)
qed

definition keep_of :: "Retention \<Rightarrow> i64 \<times> i64 \<times> i64" where
  "keep_of keep = (re_raw keep, re_m1 keep, re_m10 keep)"

lemma series_aligned:
  assumes "series_handler db now q keep = Answer (SA_Doc d)" "token \<in> set (wanted_tokens q)"
  shows "\<exists>range_s step. range_of q = Some range_s \<and> step_of q = Answer step \<and> length (wanted_tokens q) \<le> MAX_TOKENS \<and>
    length (doc_get d token) = nat (pl_points (plan now range_s step (keep_of keep))) \<and>
    sd_start_ts d = pl_start_ts (plan now range_s step (keep_of keep)) \<and>
    sd_step_s d = pl_step_s (plan now range_s step (keep_of keep))"
proof -
  obtain range_s step b where h: "length (wanted_tokens q) \<le> MAX_TOKENS" "range_of q = Some range_s" "step_of q = Answer step"
    "series_build db now (plan now range_s step (keep_of keep)) (wanted_tokens q) = Some b" "d = builder_finish b now"
    using assms(1) by (auto simp: series_handler_def Let_def keep_of_def split: if_splits option.splits answer.splits)
  have shape: "builder_shape (plan now range_s step (keep_of keep)) (wanted_tokens q) b" using h(4) by (rule shape_build)
  then have "sb_plan b = plan now range_s step (keep_of keep)" by (simp add: builder_shape_def)
  then show ?thesis
    using h finish_aligned [OF shape assms(2), of now] by (intro exI [of _ range_s] exI [of _ step]) (simp add: builder_finish_def)
qed

text \<open>A database that answers every query never makes the handler fail.\<close>

definition db_answers :: "Db \<Rightarrow> bool" where
  "db_answers db \<longleftrightarrow> (\<forall>res n a b. db_rollup_rows db res n a b \<noteq> None) \<and> (\<forall>a b. db_samples db a b \<noteq> None) \<and>
     (\<forall>a b. db_probes_between db a b \<noteq> None) \<and> (\<forall>a b. db_each_gatelog db a b \<noteq> None)"

lemma series_name_some: "db_answers db \<Longrightarrow> series_name db p finish (Some bf) name \<noteq> None"
proof -
  assume "db_answers db"
  then have "db_rollup_rows db (if pl_tier p = T_M10 then 600 else 60) name (pl_start_ts p) finish \<noteq> None"
    unfolding db_answers_def by blast
  then show ?thesis by (cases bf) (auto simp: series_name_def)
qed

lemma series_names_some:
  "db_answers db \<Longrightarrow> foldl (series_name db p finish) (Some bf) nms \<noteq> None"
proof (induction nms arbitrary: bf)
  case (Cons name nms)
  obtain bf1 where "series_name db p finish (Some bf) name = Some bf1"
    using series_name_some [OF Cons.prems, of p finish bf name] by blast
  then show ?case using Cons by simp
qed simp

lemma reads_some:
  assumes "db_answers db"
  shows "read_samples db p finish bf \<noteq> None" "read_probes db p finish nms b \<noteq> None"
proof -
  have "db_samples db (pl_start_ts p - 10) finish \<noteq> None" "db_probes_between db (pl_start_ts p) finish \<noteq> None"
    using assms unfolding db_answers_def by blast+
  then show "read_samples db p finish bf \<noteq> None" "read_probes db p finish nms b \<noteq> None"
    by (simp_all add: read_samples_def read_probes_def)
qed

lemma series_build_some: "db_answers db \<Longrightarrow> \<exists>b. series_build db now p tokens = Some b"
  using series_names_some [of db p "pl_start_ts p + pl_points p * pl_step_s p" "(builder_new p tokens, [])"
      "builder_names (builder_new p tokens)"] reads_some [of db p]
  by (fastforce simp: series_build_def Let_def split: option.split)

section \<open>A range that wraps to zero\<close>

definition evil_query :: Params where
  "evil_query = [(''metric'', ''ttft''), (''range'', ''144115188075855872d'')]"

lemma evil_range: "range_of evil_query = Some 0"
  using parse_range_wraps by (simp add: range_of_def param_def evil_query_def)

lemma hist_panics: "0 \<le> re_m10 keep \<Longrightarrow> hist_handler db now evil_query keep = None"
proof -
  assume "0 \<le> re_m10 keep"
  moreover have "param evil_query ''metric'' = Some ''ttft''" by (simp add: param_def evil_query_def)
  moreover have "hist_index ''ttft'' \<noteq> None" by (simp add: hist_index_def HIST_METRICS_def)
  ultimately show ?thesis
    by (simp add: hist_handler_def evil_range hist_plan_zero Let_def del: fun_upd_apply)
qed

lemma hist_answers:
  assumes "range_of q = Some r" "0 < min r (re_m10 keep)"
  shows "hist_handler db now q keep \<noteq> None"
  using hist_plan_ok [OF assms(2), of now "re_m1 keep"] assms(1)
  by (auto simp: hist_handler_def Let_def split: option.splits)

section \<open>The gateway's tables account for every request\<close>

text \<open>What the tables need of a log: its codes are counted once and make up its requests. A log stored before
  the codes were kept per key is one of them.\<close>

definition lane_counted :: "LaneLog \<Rightarrow> bool" where
  "lane_counted l \<longleftrightarrow> bt_invar (ll_by_status l) \<and> codes_total (ll_by_status l) = ll_requests l"

definition delta_counted :: "LogDelta \<Rightarrow> bool" where
  "delta_counted d \<longleftrightarrow> lane_counted (ld_public d) \<and> lane_counted (ld_trusted d)"

lemma delta_ok_counted: "delta_ok d \<Longrightarrow> delta_counted d"
  by (simp add: delta_ok_def lane_ok_def delta_counted_def lane_counted_def codes_total_weight)

lemma lane_counted_merge:
  "lane_counted a \<Longrightarrow> lane_counted b \<Longrightarrow> lane_counted (lane_log_merge a b)"
  by (simp add: lane_counted_def lane_log_merge_def codes_total_weight bt_weight_add_counts add_counts_invar)

text \<open>Whether a lane's requests all have their codes per key, as \<open>CodeCoverage::observe\<close> decides it.\<close>

definition lane_known :: "LaneLog \<Rightarrow> bool" where
  "lane_known l \<longleftrightarrow> ll_requests l \<le> lane_coded l"

lemma coverage_gap: "cv_gap (coverage_observe c ts d) \<longleftrightarrow> cv_gap c \<or> \<not> (lane_known (ld_public d) \<and> lane_known (ld_trusted d))"
  by (auto simp: coverage_observe_def coverage_lane_def lane_known_def)

lemma gateway_folds:
  assumes "list_all (\<lambda>td. delta_counted (snd td)) logs" "delta_counted d"
  shows "delta_counted (snd (foldl gateway_fold (c, d) logs)) \<and>
    ll_requests (ld_trusted (snd (foldl gateway_fold (c, d) logs))) =
      ll_requests (ld_trusted d) + sum_list (map (\<lambda>td. ll_requests (ld_trusted (snd td))) logs) \<and>
    ll_requests (ld_public (snd (foldl gateway_fold (c, d) logs))) =
      ll_requests (ld_public d) + sum_list (map (\<lambda>td. ll_requests (ld_public (snd td))) logs) \<and>
    status_count (ld_trusted (snd (foldl gateway_fold (c, d) logs))) code =
      status_count (ld_trusted d) code + sum_list (map (\<lambda>td. status_count (ld_trusted (snd td)) code) logs) \<and>
    (cv_gap (fst (foldl gateway_fold (c, d) logs)) \<longleftrightarrow>
      cv_gap c \<or> \<not> list_all (\<lambda>td. lane_known (ld_public (snd td)) \<and> lane_known (ld_trusted (snd td))) logs)"
  using assms
proof (induction logs arbitrary: c d)
  case (Cons td logs)
  let ?d = "log_delta_merge d (snd td)" and ?c = "coverage_observe c (fst td) (snd td)"
  have d: "delta_counted ?d"
    using Cons.prems by (simp add: delta_counted_def log_delta_merge_def lane_counted_merge)
  have "ll_requests (ld_trusted ?d) = ll_requests (ld_trusted d) + ll_requests (ld_trusted (snd td))"
    "ll_requests (ld_public ?d) = ll_requests (ld_public d) + ll_requests (ld_public (snd td))"
    by (simp_all add: log_delta_merge_def lane_log_merge_def)
  moreover have "status_count (ld_trusted ?d) code = status_count (ld_trusted d) code + status_count (ld_trusted (snd td)) code"
    using Cons.prems
    by (simp add: delta_counted_def lane_counted_def log_delta_merge_def lane_log_merge_def status_count_def bt_get_add_counts)
  moreover note Cons.IH [OF _ d, of ?c] coverage_gap [of c "fst td" "snd td"]
  ultimately show ?case using Cons.prems(1) by (auto simp: gateway_fold_def)
qed simp

text \<open>The codes of the probes the gate has logged.\<close>

definition probe_codes :: "ProbeRecord list \<Rightarrow> nat list" where
  "probe_codes ps = List.map_filter gate_logged_status ps"

lemma probe_codes_snd:
  "map snd (List.map_filter (\<lambda>p. map_option (\<lambda>code. (pr_ts p, code)) (gate_logged_status p)) ps) = probe_codes ps"
  by (induction ps) (simp_all add: probe_codes_def List.map_filter_simps split: option.split)

lemma gateway_answer:
  assumes "gateway_handler db now q keep open_bucket ip = Answer doc"
    "gateway_logs db now (gd_range_s doc) open_bucket = Some logs"
    "db_probes_between db (now - gd_range_s doc + 1) (now + 1) = Some ps"
  shows "doc = build_gateway now (gd_range_s doc) (snd (foldl gateway_fold (coverage_default, log_delta_default) logs))
      (List.map_filter (\<lambda>p. map_option (\<lambda>code. (pr_ts p, code)) (gate_logged_status p)) ps)
      (fst (foldl gateway_fold (coverage_default, log_delta_default) logs)) ip"
proof -
  obtain r ps1 logs1 where h: "db_probes_between db (now - min r (re_m10 keep) + 1) (now + 1) = Some ps1"
    "gateway_logs db now (min r (re_m10 keep)) open_bucket = Some logs1"
    and doc: "doc = build_gateway now (min r (re_m10 keep)) (snd (foldl gateway_fold (coverage_default, log_delta_default) logs1))
        (List.map_filter (\<lambda>p. map_option (\<lambda>code. (pr_ts p, code)) (gate_logged_status p)) ps1)
        (fst (foldl gateway_fold (coverage_default, log_delta_default) logs1)) ip"
    using assms(1) by (auto simp: gateway_handler_def Let_def case_prod_beta split: option.splits)
  have "gd_range_s doc = min r (re_m10 keep)" using doc by (auto simp: build_gateway_def Let_def case_prod_beta)
  with h doc assms(2,3) show ?thesis by auto
qed

lemma gateway_accounts:
  assumes "gateway_handler db now q keep open_bucket ip = Answer doc"
    "gateway_logs db now (gd_range_s doc) open_bucket = Some logs" "list_all (\<lambda>td. delta_counted (snd td)) logs"
    "db_probes_between db (now - gd_range_s doc + 1) (now + 1) = Some ps"
  shows "\<exists>pub trusted. gd_lanes doc = [pub, trusted] \<and>
    gr_requests pub = sum_list (map (\<lambda>td. ll_requests (ld_public (snd td))) logs) \<and>
    gr_requests trusted + gd_probes_excluded doc = sum_list (map (\<lambda>td. ll_requests (ld_trusted (snd td))) logs) \<and>
    gd_probes_excluded doc = (\<Sum>code\<in>set (probe_codes ps).
      min (sum_list (map (\<lambda>td. status_count (ld_trusted (snd td)) code) logs)) (count_list (probe_codes ps) code)) \<and>
    (gd_codes_coverage doc = ''full'' \<longleftrightarrow>
      list_all (\<lambda>td. lane_known (ld_public (snd td)) \<and> lane_known (ld_trusted (snd td))) logs)"
proof -
  let ?f = "foldl gateway_fold (coverage_default, log_delta_default) logs"
  define d cov where "d = snd ?f" and "cov = fst ?f"
  define probes where
    "probes = List.map_filter (\<lambda>p. map_option (\<lambda>code. (pr_ts p, code)) (gate_logged_status p)) ps"
  have doc: "doc = build_gateway now (gd_range_s doc) d probes cov ip"
    using gateway_answer [OF assms(1,2,4)] unfolding d_def cov_def probes_def .
  have codes: "map snd probes = probe_codes ps" unfolding probes_def by (rule probe_codes_snd)
  have start: "delta_counted log_delta_default" "ll_requests (ld_trusted log_delta_default) = 0"
    "ll_requests (ld_public log_delta_default) = 0" "status_count (ld_trusted log_delta_default) code = 0" "\<not> cv_gap coverage_default" for code
    using delta_ok_counted [OF delta_ok_default]
    by (simp_all add: log_delta_default_def lane_log_default_def status_count_def bt_get_or_def bt_get_def coverage_default_def)
  note folds = gateway_folds [OF assms(3) start(1), of coverage_default, folded d_def cov_def, unfolded start(2-5)]
  have tot: "codes_total (ll_by_status (ld_public d)) = ll_requests (ld_public d)"
    "codes_total (ll_by_status (ld_trusted d)) = ll_requests (ld_trusted d)" "bt_invar (ll_by_status (ld_trusted d))"
    using folds [of 0] by (simp_all add: delta_counted_def lane_counted_def)
  let ?x = "foldl (exclude_probe cov ip) (ld_trusted d, 0) probes"
  have "codes_total (ll_by_status (fst ?x)) + snd ?x = ll_requests (ld_trusted d)"
    using exclude_all [OF tot(3), where cov = cov and ip = ip and n = 0 and probes = probes] tot(2) by simp
  moreover have "snd ?x = (\<Sum>code\<in>set (probe_codes ps).
      min (status_count (ld_trusted d) code) (count_list (probe_codes ps) code))"
    using exclude_exact [OF tot(3), of "set (map snd probes)" probes cov ip 0] unfolding codes status_count_def by simp
  moreover have "coverage_label cov = ''full'' \<longleftrightarrow> \<not> cv_gap cov" by (simp add: coverage_label_def)
  moreover have lanes: "gd_lanes doc = [row_from_codes ''public'' ''public'' (ll_by_status (ld_public d)) (ll_est (ld_public d)),
      row_from_codes ''trusted'' ''trusted'' (ll_by_status (fst ?x)) (ll_est (fst ?x))]"
    and "gd_probes_excluded doc = snd ?x" "gd_codes_coverage doc = coverage_label cov"
    by (subst doc, simp add: build_gateway_def Let_def case_prod_beta)+
  ultimately show ?thesis
    using tot(1) folds start(5) unfolding lanes by (simp add: row_from_codes_def)
qed

end
