(* ===== verification/Pipeline.thy ===== *)
theory Pipeline
  imports Samples RollupFacts GateLogFacts HistFacts
begin

text \<open>
  \<open>crates/lss-collector/src/rollup.rs\<close>: every sample is folded into the two rollup tiers, the latency
  windows and the gate log's ten-minute buckets. The database is what is written: a list of writes.
\<close>

datatype Write =
    W_Rollup RollupBatch bool
  | W_Hist ClosedWindow
  | W_GateLog i64 LogDelta bool

record Pipeline =
  pp_m1 :: Roller
  pp_m10 :: Roller
  pp_latency :: LatencyTracker
  pp_gate :: "(i64 \<times> LogDelta) option"
  pp_prev :: "Sample option"

definition pipeline_default :: Pipeline where
  "pipeline_default = \<lparr>pp_m1 = roller_new RES_1M, pp_m10 = roller_new RES_10M, pp_latency = tracker0, pp_gate = None,
     pp_prev = None\<rparr>"

definition latency_batch :: "ClosedWindow \<Rightarrow> RollupBatch" where
  "latency_batch w = \<lparr>rb_res = cw_res w, rb_ts = cw_ts w,
     rb_rows = map (\<lambda>(name, v, n). (name, agg_from_row v v v n)) (cw_points w)\<rparr>"

definition rollup_writes :: "bool \<Rightarrow> RollupBatch option \<Rightarrow> Write list" where
  "rollup_writes replace b = (case b of None \<Rightarrow> [] | Some batch \<Rightarrow> [W_Rollup batch replace])"

definition window_writes :: "ClosedWindow \<Rightarrow> Write list" where
  "window_writes w = [W_Hist w, W_Rollup (latency_batch w) True]"

text \<open>The gate log's bucket: written out when a sample of another bucket arrives.\<close>

definition gate_close :: "i64 \<Rightarrow> (i64 \<times> LogDelta) option \<Rightarrow> (i64 \<times> LogDelta) option \<times> (i64 \<times> LogDelta) option" where
  "gate_close bucket g =
    (case g of None \<Rightarrow> (None, None)
     | Some (t, d) \<Rightarrow> if t \<noteq> bucket then (None, Some (t, d)) else (Some (t, d), None))"

definition gate_push :: "i64 \<Rightarrow> LogDelta \<Rightarrow> (i64 \<times> LogDelta) option \<Rightarrow> (i64 \<times> LogDelta) option \<times> (i64 \<times> LogDelta) option" where
  "gate_push bucket d g =
    (let (kept, shut) = gate_close bucket g;
         (t, acc) = (case kept of None \<Rightarrow> (bucket, log_delta_default) | Some td \<Rightarrow> td)
     in (Some (t, log_delta_merge acc d), shut))"

definition gate_writes :: "bool \<Rightarrow> (i64 \<times> LogDelta) option \<Rightarrow> Write list" where
  "gate_writes replace shut = (case shut of None \<Rightarrow> [] | Some (t, d) \<Rightarrow> [W_GateLog t d replace])"

definition pipeline_push ::
  "Pipeline \<Rightarrow> Sample \<Rightarrow> HistSet option \<Rightarrow> bool \<Rightarrow> Pipeline \<times> Write list \<times> ClosedWindow list" where
  "pipeline_push p sample hists replace =
    (let points = sample_points (pp_prev p) sample;
         (m1, b1) = roller_add (pp_m1 p) (sp_ts sample) points;
         (m10, b10) = roller_add (pp_m10 p) (sp_ts sample) points;
         (latency, shut) = tracker_observe (pp_latency p) (sp_ts sample) hists;
         (gate, out) = gate_push (sp_ts sample - sp_ts sample mod RES_10M) (sp_log sample) (pp_gate p)
     in (\<lparr>pp_m1 = m1, pp_m10 = m10, pp_latency = latency, pp_gate = gate, pp_prev = Some sample\<rparr>,
         rollup_writes replace b1 @ rollup_writes replace b10 @ concat (map window_writes shut) @ gate_writes replace out,
         shut))"

definition gate_open_bucket :: "Pipeline \<Rightarrow> (i64 \<times> LogDelta) option" where
  "gate_open_bucket p = pp_gate p"

definition pipeline_latency_now :: "Pipeline \<Rightarrow> LatencyNow" where
  "pipeline_latency_now p = latency_now (pp_latency p)"

text \<open>\<open>replay\<close>: stored samples, without histograms, never overwriting what is stored.\<close>

fun pipeline_replay :: "Pipeline \<Rightarrow> Sample list \<Rightarrow> Pipeline \<times> Write list" where
  "pipeline_replay p [] = (p, [])"
| "pipeline_replay p (s # ss) =
    (let (p1, ws, _) = pipeline_push p s None False; (p2, ws2) = pipeline_replay p1 ss in (p2, ws @ ws2))"

fun pipeline_run :: "Pipeline \<Rightarrow> (Sample \<times> HistSet option) list \<Rightarrow> Pipeline \<times> Write list" where
  "pipeline_run p [] = (p, [])"
| "pipeline_run p ((s, h) # ss) =
    (let (p1, ws, _) = pipeline_push p s h True; (p2, ws2) = pipeline_run p1 ss in (p2, ws @ ws2))"

section \<open>The gate log is neither lost nor counted twice\<close>

definition gate_logs :: "Write list \<Rightarrow> LogDelta list" where
  "gate_logs ws = List.map_filter (\<lambda>w. case w of W_GateLog t d r \<Rightarrow> Some d | _ \<Rightarrow> None) ws"

lemma gate_logs_simps [simp]:
  "gate_logs [] = []" "gate_logs (ws @ vs) = gate_logs ws @ gate_logs vs"
  "gate_logs (rollup_writes r b) = []" "gate_logs (window_writes w) = []"
  "gate_logs (concat (map window_writes cs)) = []"
  "gate_logs (gate_writes r c) = (case c of None \<Rightarrow> [] | Some (t, d) \<Rightarrow> [d])"
proof -
  show app: "gate_logs (ws @ vs) = gate_logs ws @ gate_logs vs" for ws vs
    by (induction ws) (auto simp: gate_logs_def List.map_filter_simps split: option.split)
  show win: "gate_logs (window_writes w) = []" for w by (simp add: gate_logs_def window_writes_def List.map_filter_simps)
  show "gate_logs (concat (map window_writes cs)) = []"
    by (induction cs) (simp_all add: app win, simp add: gate_logs_def List.map_filter_simps)
qed (auto simp: gate_logs_def rollup_writes_def gate_writes_def List.map_filter_simps split: option.split)

definition open_log :: "Pipeline \<Rightarrow> LogDelta list" where
  "open_log p = (case pp_gate p of None \<Rightarrow> [] | Some (t, d) \<Rightarrow> [d])"

text \<open>Any count of the log that adds up over merging.\<close>

locale log_count =
  fixes ok :: "LogDelta \<Rightarrow> bool" and count :: "LogDelta \<Rightarrow> nat"
  assumes ok_default: "ok log_delta_default"
    and count_default: "count log_delta_default = 0"
    and ok_merged: "ok a \<Longrightarrow> ok b \<Longrightarrow> ok (log_delta_merge a b)"
    and count_merged: "ok a \<Longrightarrow> ok b \<Longrightarrow> count (log_delta_merge a b) = count a + count b"
begin

definition total_count :: "LogDelta list \<Rightarrow> nat" where
  "total_count ds = sum_list (map count ds)"

lemma gate_push_count:
  assumes "case g of None \<Rightarrow> True | Some (t, d) \<Rightarrow> ok d" "ok d"
  shows "\<exists>t acc. fst (gate_push bucket d g) = Some (t, acc) \<and> ok acc \<and>
    count acc + (case snd (gate_push bucket d g) of None \<Rightarrow> 0 | Some (t, c) \<Rightarrow> count c) =
    count d + (case g of None \<Rightarrow> 0 | Some (t, c) \<Rightarrow> count c)"
  using assms ok_default count_default
  by (auto simp: gate_push_def gate_close_def Let_def ok_merged count_merged split: option.splits prod.splits)

lemma pipeline_push_count:
  assumes "list_all ok (open_log p)" "ok (sp_log s)"
  shows "list_all ok (open_log (fst (pipeline_push p s h r))) \<and>
    total_count (open_log (fst (pipeline_push p s h r))) + total_count (gate_logs (fst (snd (pipeline_push p s h r)))) =
    total_count (open_log p) + count (sp_log s)"
proof -
  let ?b = "sp_ts s - sp_ts s mod RES_10M"
  have "case pp_gate p of None \<Rightarrow> True | Some (t, d) \<Rightarrow> ok d"
    using assms(1) by (auto simp: open_log_def split: option.splits)
  from gate_push_count [OF this assms(2), of ?b] obtain t acc where g:
    "fst (gate_push ?b (sp_log s) (pp_gate p)) = Some (t, acc)" "ok acc"
    "count acc + (case snd (gate_push ?b (sp_log s) (pp_gate p)) of None \<Rightarrow> 0 | Some (t, c) \<Rightarrow> count c) =
      count (sp_log s) + (case pp_gate p of None \<Rightarrow> 0 | Some (t, c) \<Rightarrow> count c)" by blast
  have "open_log (fst (pipeline_push p s h r)) = [acc]"
    using g(1) by (simp add: pipeline_push_def open_log_def Let_def case_prod_beta)
  moreover have "gate_logs (fst (snd (pipeline_push p s h r))) =
      (case snd (gate_push ?b (sp_log s) (pp_gate p)) of None \<Rightarrow> [] | Some (t, d) \<Rightarrow> [d])"
    by (simp add: pipeline_push_def Let_def case_prod_beta)
  ultimately show ?thesis
    using g(2,3) by (auto simp: total_count_def open_log_def split: option.splits)
qed

lemma pipeline_run_count:
  assumes "list_all ok (open_log p)" "list_all (\<lambda>(s, h). ok (sp_log s)) ss"
  shows "total_count (open_log (fst (pipeline_run p ss))) + total_count (gate_logs (snd (pipeline_run p ss))) =
    total_count (open_log p) + sum_list (map (\<lambda>(s, h). count (sp_log s)) ss)"
  using assms
proof (induction ss arbitrary: p)
  case (Cons sh ss)
  obtain s h where sh: "sh = (s, h)" by fastforce
  let ?p = "fst (pipeline_push p s h True)"
  have step: "list_all ok (open_log ?p)"
    "total_count (open_log ?p) + total_count (gate_logs (fst (snd (pipeline_push p s h True)))) =
      total_count (open_log p) + count (sp_log s)"
    using pipeline_push_count [OF Cons.prems(1), of s h True] Cons.prems(2) sh by auto
  show ?case
    using Cons.IH [OF step(1)] Cons.prems(2) step(2) unfolding sh
    by (simp add: Let_def case_prod_beta total_count_def)
qed (simp add: total_count_def gate_logs_def)

end

interpretation records: log_count delta_ok delta_records
  by unfold_locales (auto simp: by_record.ok_empty by_record.tells_empty by_record.ok_merge by_record.tells_merge)

interpretation codes: log_count delta_ok "\<lambda>d. status_count (lane_of pub d) code" for pub code
proof unfold_locales
  show "status_count (lane_of pub log_delta_default) code = 0" by (rule by_status.tells_empty)
qed (auto simp: by_status.ok_empty by_status.ok_merge by_status.tells_merge)

end
