(* ===== verification/BenchSafety.thy ===== *)
theory BenchSafety
  imports Probe "HOL-Library.Signed_Division"
begin

text \<open>
  The safety of a benchmark (\<open>crates/lss-core/src/bench.rs\<close>): when it may start, when it must stop because
  somebody else uses the server, and what its scorecard says of the traffic it ran with. The count of the
  bench's own requests (\<open>OwnLoad\<close>, \<open>crates/lss-collector/src/bench_run.rs\<close>) is here too.
\<close>

section \<open>What the safety poll sees\<close>

datatype OwnLane = OL_Trusted | OL_Public | OL_Neither

record SafetyObs =
  so_running :: "f64 option"
  so_queue :: "f64 option"
  so_gateway_public :: "f64 option"
  so_gateway_trusted :: "f64 option"
  so_other_users_inflight :: "u64 option"
  so_own_gateway_inflight :: u64
  so_own_lane :: OwnLane

definition ENGINE_DEFAULT_PRIORITY :: string where "ENGINE_DEFAULT_PRIORITY = ''0''"

definition own_lane_for :: "string \<Rightarrow> string \<Rightarrow> OwnLane" where
  "own_lane_for public_priority trusted_priority =
    (if trusted_priority = ENGINE_DEFAULT_PRIORITY then OL_Trusted
     else if public_priority = ENGINE_DEFAULT_PRIORITY then OL_Public else OL_Neither)"

definition bench_inflight :: "SafetyObs \<Rightarrow> u32 \<Rightarrow> f64" where
  "bench_inflight o1 step_max_concurrency = f_add (f_of_nat step_max_concurrency) (f_of_nat (so_own_gateway_inflight o1))"

definition LOAD_SRC_USERS :: string where "LOAD_SRC_USERS = ''gateway user table''"
definition LOAD_SRC_LANES :: string where "LOAD_SRC_LANES = ''gateway lanes''"
definition LOAD_SRC_ENGINE :: string where "LOAD_SRC_ENGINE = ''engine total less the bench's own''"
definition LOAD_SRC_NONE :: string where "LOAD_SRC_NONE = ''not measured''"

lemmas LOAD_SRC = LOAD_SRC_USERS_def LOAD_SRC_LANES_def LOAD_SRC_ENGINE_def LOAD_SRC_NONE_def

definition source_rank :: "string \<Rightarrow> nat" where
  "source_rank source =
    (if source = LOAD_SRC_USERS then 3 else if source = LOAD_SRC_LANES then 2
     else if source = LOAD_SRC_ENGINE then 1 else 0)"

lemma source_rank_simps [simp]:
  "source_rank LOAD_SRC_USERS = 3" "source_rank LOAD_SRC_LANES = 2" "source_rank LOAD_SRC_ENGINE = 1"
  "source_rank LOAD_SRC_NONE = 0"
  by (simp_all add: source_rank_def LOAD_SRC)

lemma load_src_distinct [simp]:
  "LOAD_SRC_USERS \<noteq> LOAD_SRC_ENGINE" "LOAD_SRC_LANES \<noteq> LOAD_SRC_ENGINE" "LOAD_SRC_USERS \<noteq> LOAD_SRC_LANES"
  "LOAD_SRC_LANES \<noteq> LOAD_SRC_USERS" "LOAD_SRC_ENGINE \<noteq> LOAD_SRC_USERS" "LOAD_SRC_ENGINE \<noteq> LOAD_SRC_LANES"
  by (simp_all add: LOAD_SRC)

text \<open>Other people's requests as one poll saw them, from the best source there is.\<close>

definition foreign_now :: "SafetyObs \<Rightarrow> u32 \<Rightarrow> (f64 \<times> string) option" where
  "foreign_now o1 step_max_concurrency =
    (case so_other_users_inflight o1 of Some n \<Rightarrow> Some (f_of_nat n, LOAD_SRC_USERS)
     | None \<Rightarrow>
        (let own = bench_inflight o1 step_max_concurrency in
         case (so_gateway_public o1, so_gateway_trusted o1) of
           (Some pub, Some trusted) \<Rightarrow>
             Some (case so_own_lane o1 of
                 OL_Trusted \<Rightarrow> f_add pub (f_max (f_sub trusted own) (F_Fin 0))
               | OL_Public \<Rightarrow> f_add (f_max (f_sub pub own) (F_Fin 0)) trusted
               | OL_Neither \<Rightarrow> f_add pub trusted, LOAD_SRC_LANES)
         | _ \<Rightarrow> map_option (\<lambda>r. (f_max (f_sub r own) (F_Fin 0), LOAD_SRC_ENGINE)) (so_running o1)))"

definition HALF :: f64 where "HALF = F_Fin (1 / 2)"

definition foreign_reason :: "f64 \<Rightarrow> string \<Rightarrow> string" where
  "foreign_reason n source =
    (if source = LOAD_SRC_USERS then
       ''real traffic: '' @ fmt_fixed 0 n @ '' request(s) in flight from a user that is not the bench (gateway user table)''
     else ''real traffic: '' @ fmt_fixed 0 n @ '' request(s) came in through the gateway while the bench was running'')"

definition engine_reason :: "SafetyObs \<Rightarrow> u32 \<Rightarrow> string option" where
  "engine_reason o1 step_max_concurrency =
    (case so_running o1 of None \<Rightarrow> None
     | Some r \<Rightarrow>
        (let allowed = bench_inflight o1 step_max_concurrency in
         if f_gt r (f_add allowed HALF) then
           Some (''real traffic: '' @ fmt_fixed 0 r @ '' requests running, the bench launched at most '' @ fmt_fixed 0 allowed)
         else None))"

definition abort_reason :: "SafetyObs \<Rightarrow> u32 \<Rightarrow> string option" where
  "abort_reason o1 step_max_concurrency =
    (case foreign_now o1 step_max_concurrency of
       Some (n, source) \<Rightarrow>
         if f_ge n HALF \<and> source \<noteq> LOAD_SRC_ENGINE then Some (foreign_reason n source)
         else engine_reason o1 step_max_concurrency
     | None \<Rightarrow> engine_reason o1 step_max_concurrency)"

section \<open>The idle gate\<close>

definition real_tokens_generated :: "f64 option \<Rightarrow> f64 \<Rightarrow> f64 option" where
  "real_tokens_generated raw_growth probe_tokens =
    map_option (\<lambda>grown. f_max (f_sub (f_sub grown probe_tokens) COUNTER_MARGIN_TOKENS) (F_Fin 0)) raw_growth"

record IdleObs =
  io_serve_up :: bool
  io_running :: f64
  io_queue :: f64
  io_tokens_generated :: "f64 option"
  io_idle_secs :: i64
  io_other_users_inflight :: u64

definition IDLE_WAYS_OUT :: string where
  "IDLE_WAYS_OUT = ''Try again when it is quiet, pass --force to start anyway, or pass --under-load to measure WITH the traffic and have the scorecard say so''"

definition idle_gate :: "IdleObs \<Rightarrow> bool \<Rightarrow> string + unit" where
  "idle_gate o1 skip =
    (if \<not> io_serve_up o1 then Inl ''the serve is not up: nothing to benchmark''
     else if skip then Inr ()
     else if f_ge (io_running o1) (F_Fin 1) \<or> f_ge (io_queue o1) (F_Fin 1) \<or> 0 < io_other_users_inflight o1 then
       Inl (''the server is busy ('' @ fmt_fixed 0 (f_max (io_running o1) (f_of_nat (io_other_users_inflight o1))) @
         '' running, '' @ fmt_fixed 0 (io_queue o1) @
         '' queued): a benchmark now would slow real users down and measure their traffic too. '' @ IDLE_WAYS_OUT)
     else
       (let mins = show_int ((io_idle_secs o1 + 59) sdiv 60) in
        case io_tokens_generated o1 of
          None \<Rightarrow> Inl (''not enough history yet to prove the engine has been quiet for '' @ mins @
            '' quiet minute(s): try again shortly, or pass --force'')
        | Some tok \<Rightarrow>
            if f_gt tok (F_Fin 0) then
              Inl (''the engine generated '' @ fmt_fixed 0 tok @ '' token(s) in the last '' @ mins @ '' min: waiting for '' @
                mins @ '' quiet minute(s) protects whoever is using it. '' @ IDLE_WAYS_OUT)
            else Inr ()))"

section \<open>What else was running\<close>

record LoadSampler =
  ls_samples :: u64
  ls_polls_with_traffic :: u64
  ls_foreign_sum :: f64
  ls_foreign_max :: f64
  ls_foreign_samples :: u64
  ls_queue_sum :: f64
  ls_queue_max :: f64
  ls_weakest :: "string option"

definition sampler_default :: LoadSampler where
  "sampler_default = \<lparr>ls_samples = 0, ls_polls_with_traffic = 0, ls_foreign_sum = F_Fin 0, ls_foreign_max = F_Fin 0,
     ls_foreign_samples = 0, ls_queue_sum = F_Fin 0, ls_queue_max = F_Fin 0, ls_weakest = None\<rparr>"

definition see_foreign :: "f64 \<Rightarrow> LoadSampler \<Rightarrow> LoadSampler" where
  "see_foreign n s = s\<lparr>ls_foreign_samples := ls_foreign_samples s + 1, ls_foreign_sum := f_add (ls_foreign_sum s) n,
     ls_foreign_max := f_max (ls_foreign_max s) n,
     ls_polls_with_traffic := ls_polls_with_traffic s + (if f_ge n HALF then 1 else 0)\<rparr>"

definition see_queue :: "f64 \<Rightarrow> LoadSampler \<Rightarrow> LoadSampler" where
  "see_queue q s = s\<lparr>ls_queue_sum := f_add (ls_queue_sum s) q, ls_queue_max := f_max (ls_queue_max s) q\<rparr>"

definition weaker :: "string \<Rightarrow> string option \<Rightarrow> string option" where
  "weaker source w =
    (case w of None \<Rightarrow> Some source
     | Some v \<Rightarrow> if source_rank source < source_rank v then Some source else w)"

definition sampler_push :: "LoadSampler \<Rightarrow> SafetyObs \<Rightarrow> u32 \<Rightarrow> LoadSampler" where
  "sampler_push s o1 step_max_concurrency =
    (let seen = foreign_now o1 step_max_concurrency;
         source = (case seen of None \<Rightarrow> LOAD_SRC_NONE | Some (_, src) \<Rightarrow> src);
         s1 = s\<lparr>ls_samples := ls_samples s + 1, ls_weakest := weaker source (ls_weakest s)\<rparr>;
         s2 = (case seen of None \<Rightarrow> s1 | Some (n, _) \<Rightarrow> see_foreign n s1)
     in (case so_queue o1 of None \<Rightarrow> s2 | Some q \<Rightarrow> see_queue q s2))"

record BackgroundLoad =
  bl_samples :: u64
  bl_polls_with_traffic :: u64
  bl_concurrent_avg :: "f64 option"
  bl_concurrent_max :: "f64 option"
  bl_source :: string
  bl_queue_avg :: f64
  bl_queue_max :: f64
  bl_engine_tok_s :: "f64 option"

definition round2 :: "f64 \<Rightarrow> f64" where
  "round2 v = f_div (f_round (f_mul v (F_Fin 100))) (F_Fin 100)"

definition sampler_finish :: "LoadSampler \<Rightarrow> f64 option \<Rightarrow> BackgroundLoad option" where
  "sampler_finish s engine_tok_s =
    (if ls_samples s = 0 then None
     else
       (let have = 0 < ls_foreign_samples s in
        Some \<lparr>bl_samples = ls_samples s, bl_polls_with_traffic = ls_polls_with_traffic s,
          bl_concurrent_avg = (if have then Some (round2 (f_div (ls_foreign_sum s) (f_of_nat (ls_foreign_samples s)))) else None),
          bl_concurrent_max = (if have then Some (round2 (ls_foreign_max s)) else None),
          bl_source = (case ls_weakest s of None \<Rightarrow> LOAD_SRC_NONE | Some w \<Rightarrow> w),
          bl_queue_avg = round2 (f_div (ls_queue_sum s) (f_of_nat (ls_samples s))),
          bl_queue_max = round2 (ls_queue_max s),
          bl_engine_tok_s = map_option (\<lambda>v. f_div (f_round (f_mul v (F_Fin 10))) (F_Fin 10)) engine_tok_s\<rparr>))"

datatype LoadClass = LC_Quiet | LC_Loaded | LC_Unknown

fun load_word :: "LoadClass \<Rightarrow> string" where
  "load_word LC_Quiet = ''quiet''"
| "load_word LC_Loaded = ''LOADED''"
| "load_word LC_Unknown = ''?''"

fun class_sentence :: "LoadClass \<Rightarrow> string" where
  "class_sentence LC_Quiet = ''measured on a quiet server: nothing else was running''"
| "class_sentence LC_Loaded = ''MEASURED UNDER LOAD: other traffic shared the server the whole time''"
| "class_sentence LC_Unknown = ''what else the server was doing was NOT recorded: do not read this as quiet''"

definition load_class :: "BackgroundLoad \<Rightarrow> LoadClass" where
  "load_class b =
    (let rank = source_rank (bl_source b) in
     if bl_samples b = 0 \<or> rank = 0 then LC_Unknown
     else if rank < 2 then (if 0 < bl_polls_with_traffic b then LC_Loaded else LC_Unknown)
     else if bl_polls_with_traffic b = 0 \<and> (case bl_concurrent_max b of None \<Rightarrow> False | Some m \<Rightarrow> f_lt m HALF)
     then LC_Quiet else LC_Loaded)"

definition MIDDLE_DOT :: string where "MIDDLE_DOT = [CHR 0xC2, CHR 0xB7]"

definition load_sentence :: "BackgroundLoad \<Rightarrow> string" where
  "load_sentence b =
    (let engine = (case bl_engine_tok_s b of None \<Rightarrow> []
           | Some t \<Rightarrow> '' '' @ MIDDLE_DOT @ '' the engine wrote '' @ fmt_fixed 0 t @ '' tok/s in all (the bench's own output included)'');
         looks = show_nat (bl_samples b)
     in if load_class b = LC_Quiet then
          ''quiet: no request but the benchmark's own in any of '' @ looks @ '' looks, 2 s apart ('' @ bl_source b @ '')'' @ engine
        else case (bl_concurrent_avg b, bl_concurrent_max b) of
          (Some avg, Some worst) \<Rightarrow>
            ''UNDER LOAD: '' @ fmt_fixed 2 avg @ '' other request(s) in flight on average, '' @ fmt_fixed 0 worst @
            '' at the worst, on '' @ show_nat (bl_polls_with_traffic b) @ '' of '' @ looks @ '' looks ('' @ bl_source b @ '') '' @
            MIDDLE_DOT @ '' engine queue '' @ fmt_fixed 1 (bl_queue_avg b) @ '' avg / '' @ fmt_fixed 0 (bl_queue_max b) @
            '' peak'' @ engine
        | _ \<Rightarrow> ''not recorded: nothing here could tell the benchmark's own requests apart from anyone else's in '' @ looks @
            '' looks ('' @ bl_source b @ '')'' @ engine)"

section \<open>The share of the engine\<close>

definition engine_share :: "f64 \<Rightarrow> f64" where
  "engine_share foreign = f_div (F_Fin 1) (f_add (F_Fin 1) (f_max foreign (F_Fin 0)))"

section \<open>The bench's own requests\<close>

text \<open>In flight, just ended (a grace of two polls), or abandoned by the client and still on the engine.\<close>

record OwnLoad =
  ol_inflight :: u64
  ol_grace_until :: nat
  ol_abandoned :: u64

definition own_new :: "nat \<Rightarrow> OwnLoad" where
  "own_new now = \<lparr>ol_inflight = 0, ol_grace_until = now, ol_abandoned = 0\<rparr>"

definition own_start :: "OwnLoad \<Rightarrow> u64 \<Rightarrow> OwnLoad" where
  "own_start s n = s\<lparr>ol_inflight := n\<rparr>"

definition own_finish :: "OwnLoad \<Rightarrow> nat \<Rightarrow> nat \<Rightarrow> u64 \<Rightarrow> OwnLoad" where
  "own_finish s now poll abandoned =
    s\<lparr>ol_inflight := 0, ol_grace_until := now + poll * 2, ol_abandoned := ol_abandoned s + abandoned\<rparr>"

definition own_count :: "OwnLoad \<Rightarrow> nat \<Rightarrow> f64 option \<Rightarrow> OwnLoad \<times> u64" where
  "own_count s now engine_running =
    (let settled = (case engine_running of None \<Rightarrow> False | Some r \<Rightarrow> f_le r (f_add (f_of_nat (ol_inflight s)) HALF));
         s1 = (if settled then s\<lparr>ol_abandoned := 0\<rparr> else s);
         live = (if 0 < ol_inflight s1 then ol_inflight s1 else if now < ol_grace_until s1 then 1 else 0)
     in (s1, live + ol_abandoned s1))"

definition timed_out :: "f64 \<Rightarrow> f64 \<Rightarrow> bool" where
  "timed_out secs timeout_secs \<longleftrightarrow> f_ge (f_add secs (F_Fin 1)) timeout_secs"

definition is_abandoned :: "nat \<Rightarrow> bool \<Rightarrow> f64 \<Rightarrow> f64 \<Rightarrow> bool" where
  "is_abandoned code client_timed_out secs timeout_secs \<longleftrightarrow> code = 0 \<and> client_timed_out \<and> timed_out secs timeout_secs"

end
