(* ===== verification/Loadout.thy ===== *)
theory Loadout
  imports Rollup "HOL-Library.Char_ord" "HOL-Library.List_Lexorder"
begin

text \<open>
  The identity of a loadout (\<open>crates/lss-core/src/loadout.rs\<close>): the model, the image, and a hash of the
  launch arguments and of the environment that matters. The hash is an argument of the definitions (its
  text as hexadecimal digits), and so is the reader of the JSON lists \<open>docker inspect\<close> prints.
\<close>

section \<open>What docker inspect says\<close>

record Inspected =
  in_image :: string
  in_args :: "string list"
  in_env :: "string list"

text \<open>\<open>str::splitn\<close>: at most \<open>n\<close> parts, the last one with whatever is left.\<close>

fun splitn :: "nat \<Rightarrow> string \<Rightarrow> string \<Rightarrow> string list" where
  "splitn 0 pat s = []"
| "splitn (Suc 0) pat s = [s]"
| "splitn (Suc n) pat s = (case split_once pat s of None \<Rightarrow> [s] | Some (a, b) \<Rightarrow> a # splitn n pat b)"

definition TAB :: string where "TAB = [CHR 0x09]"

definition parse_loadout_inspect :: "(string \<Rightarrow> string list option) \<Rightarrow> string \<Rightarrow> Inspected option" where
  "parse_loadout_inspect json text =
    (case find (\<lambda>l. trim l \<noteq> []) (str_lines text) of
       None \<Rightarrow> None
     | Some line \<Rightarrow>
        (case splitn 4 TAB line of
           img # path # args # rest \<Rightarrow>
             (case json (trim args) of
                None \<Rightarrow> None
              | Some as \<Rightarrow>
                 (let env = (case rest of e # _ \<Rightarrow> (case json (trim e) of Some v \<Rightarrow> v | None \<Rightarrow> []) | [] \<Rightarrow> [])
                  in if trim img = [] then None
                     else Some \<lparr>in_image = trim img, in_args = trim path # as, in_env = env\<rparr>))
         | _ \<Rightarrow> None))"

section \<open>The configuration\<close>

text \<open>Runs of whitespace collapsed to one space.\<close>

definition one_spaced :: "string \<Rightarrow> string" where
  "one_spaced s = join '' '' (split_whitespace s)"

definition normalise_args :: "string list \<Rightarrow> string" where
  "normalise_args args = join '' '' (filter (\<lambda>a. a \<noteq> []) (map one_spaced args))"

definition ENV_PREFIXES :: "string list" where
  "ENV_PREFIXES = [''SGLANG_'', ''SGL_'', ''VLLM_'', ''NCCL_'', ''TORCH_'', ''PYTORCH_'', ''FLASHINFER_'', ''TRITON_'',
     ''CUDA_VISIBLE'', ''CUDA_DEVICE'', ''NVIDIA_VISIBLE'', ''OMP_NUM'']"

definition SECRET_WORDS :: "string list" where
  "SECRET_WORDS = [''KEY'', ''TOKEN'', ''SECRET'', ''PASSWORD'', ''CREDENTIAL'']"

definition to_upper :: "char \<Rightarrow> char" where
  "to_upper c = (let n = of_char c :: nat in if 97 \<le> n \<and> n \<le> 122 then char_of (n - 32) else c)"

definition served_name :: "string \<Rightarrow> bool" where
  "served_name name \<longleftrightarrow>
     list_ex (\<lambda>p. starts_with name p) ENV_PREFIXES \<and>
     \<not> list_ex (\<lambda>w. contains (map to_upper name) w) SECRET_WORDS"

definition EQUALS :: string where "EQUALS = ''=''"

definition env_entry :: "string \<Rightarrow> string option" where
  "env_entry e =
    (case split_once EQUALS e of
       None \<Rightarrow> None
     | Some (name, value) \<Rightarrow> if served_name name then Some (name @ EQUALS @ one_spaced value) else None)"

definition relevant_env :: "string list \<Rightarrow> string list" where
  "relevant_env env = remdups_adj (sort (List.map_filter env_entry env))"

definition NL :: string where "NL = [CHR 0x0A]"

definition config_text :: "string list \<Rightarrow> string list \<Rightarrow> string" where
  "config_text args env = normalise_args args @ NL @ ''--env--'' @ NL @ join NL (relevant_env env)"

definition config_hash :: "(string \<Rightarrow> string) \<Rightarrow> string list \<Rightarrow> string list \<Rightarrow> string" where
  "config_hash sha args env = sha (config_text args env)"

section \<open>The flags that are shown\<close>

definition SHOW_FLAGS :: "(string \<times> string) list" where
  "SHOW_FLAGS = [(''--tp-size'', ''tp''), (''--tp'', ''tp''), (''--ep-size'', ''ep''), (''--context-length'', ''ctx''),
     (''--quantization'', ''quant''), (''--kv-cache-dtype'', ''kv''), (''--max-running-requests'', ''slots''),
     (''--mem-fraction-static'', ''mem''), (''--chunked-prefill-size'', ''chunk''), (''--speculative-algorithm'', ''spec''),
     (''--speculative-num-steps'', ''steps''), (''--speculative-eagle-topk'', ''topk''),
     (''--speculative-num-draft-tokens'', ''draft''), (''--attention-backend'', ''attn''),
     (''--cmdline-unreadable'', ''cmdline?''), (''--cmdline'', ''cmdline''), (''--engine-detail'', ''model'')]"

definition flag_of :: "string \<Rightarrow> string \<times> string option" where
  "flag_of a = (case split_once EQUALS a of Some (f, v) \<Rightarrow> (f, Some v) | None \<Rightarrow> (a, None))"

fun flags_from :: "string list \<Rightarrow> string list" where
  "flags_from [] = []"
| "flags_from (a # as) =
    (let (flag, inline) = flag_of a in
     case map_of SHOW_FLAGS flag of
       None \<Rightarrow> flags_from as
     | Some short \<Rightarrow>
        (let value = (case inline of Some v \<Rightarrow> Some v
           | None \<Rightarrow> (case as of v # _ \<Rightarrow> if starts_with v ''--'' then None else Some v | [] \<Rightarrow> None))
         in (case value of Some v \<Rightarrow> short @ '' '' @ one_spaced v | None \<Rightarrow> short) # flags_from as))"

definition DOT_SEP :: string where "DOT_SEP = [CHR '' '', CHR 0xC2, CHR 0xB7, CHR '' '']"

definition safe_flags :: "string list \<Rightarrow> string" where
  "safe_flags args = join DOT_SEP (flags_from args)"

section \<open>The identity\<close>

record LoadoutIdentity =
  li_id :: string
  li_model :: string
  li_image :: string
  li_args_hash :: string
  li_flags :: string

definition loadout_identity :: "(string \<Rightarrow> string) \<Rightarrow> string \<Rightarrow> string \<Rightarrow> string list \<Rightarrow> string list \<Rightarrow> LoadoutIdentity" where
  "loadout_identity sha model img args env =
    (let args_hash = config_hash sha args env
     in \<lparr>li_id = take 12 (sha (model @ NL @ img @ NL @ args_hash)), li_model = model, li_image = img,
         li_args_hash = args_hash, li_flags = safe_flags args\<rparr>)"

definition image_tag :: "string \<Rightarrow> string" where
  "image_tag img =
    (case rsplit_at (CHR '':'') img of
       Some (_, tag) \<Rightarrow> if CHR ''/'' \<notin> set tag \<and> tag \<noteq> [] then tag else last (split_on (CHR ''/'') img)
     | None \<Rightarrow> last (split_on (CHR ''/'') img))"

text \<open>An engine that is not a container: what it says of itself (\<open>engine.rs\<close>).\<close>

record EngineIdentity =
  ei_model :: "string option"
  ei_version :: "string option"
  ei_context_len :: "f64 option"
  ei_slots :: "u32 option"
  ei_detail :: string
  ei_cmdline :: string

lemma split_once_length: "split_once pat s = Some (a, b) \<Longrightarrow> pat \<noteq> [] \<Longrightarrow> length b < length s"
  by (cases pat, simp, induction s arbitrary: a b) (auto split: if_splits option.splits simp: less_Suc_eq_le less_imp_le)

function split_str :: "string \<Rightarrow> string \<Rightarrow> string list" where
  "split_str pat s =
    (case (if pat = [] then None else split_once pat s) of None \<Rightarrow> [s] | Some (a, b) \<Rightarrow> a # split_str pat b)"
  by auto
termination
  by (relation "measure (\<lambda>(pat, s). length s)") (auto split: if_splits intro: split_once_length)

declare split_str.simps [simp del]

definition on_gpu :: "string \<Rightarrow> bool" where
  "on_gpu d \<longleftrightarrow> ends_with d ''on the GPU''"

definition UNKNOWN_MODEL :: string where "UNKNOWN_MODEL = ''(unknown model)''"

definition engine_facts :: "(string \<Rightarrow> string) \<Rightarrow> EngineIdentity \<Rightarrow> string list" where
  "engine_facts sha e =
    (case ei_context_len e of
       Some c \<Rightarrow> if f_gt c (F_Fin 0) then [''--context-length='' @ fmt_fixed 0 c] else [] | None \<Rightarrow> []) @
    (case ei_slots e of
       Some n \<Rightarrow> if 0 < n then [''--max-running-requests='' @ show_nat n] else [] | None \<Rightarrow> []) @
    (let detail = filter (\<lambda>d. d \<noteq> [] \<and> \<not> on_gpu d) (map trim (split_str DOT_SEP (ei_detail e)))
     in if detail = [] then [] else [''--engine-detail='' @ join DOT_SEP detail]) @
    (if ei_cmdline e = [] then [''--cmdline-unreadable''] else [''--cmdline='' @ take 12 (sha (ei_cmdline e))])"

definition identity_from_engine :: "(string \<Rightarrow> string) \<Rightarrow> string \<Rightarrow> EngineIdentity \<Rightarrow> LoadoutIdentity" where
  "identity_from_engine sha kind e =
    (let model = (case ei_model e of Some m \<Rightarrow> m | None \<Rightarrow> UNKNOWN_MODEL);
         img = (case ei_version e of Some v \<Rightarrow> if v \<noteq> [] then kind @ '':'' @ v else kind | None \<Rightarrow> kind)
     in loadout_identity sha model img (engine_facts sha e) [])"

section \<open>What tells two loadouts apart\<close>

text \<open>\<open>sort\<close> and \<open>dedup\<close> list a set: order and repetition of the environment do not matter, and neither does
  any entry that is not served, or whose name looks like a secret.\<close>

definition env_set :: "string list \<Rightarrow> string set" where
  "env_set env = set (List.map_filter env_entry env)"

lemma sorted_distinct_adj: "sorted xs \<Longrightarrow> distinct_adj xs \<Longrightarrow> distinct xs" for xs :: "'a :: linorder list"
proof (induction xs rule: remdups_adj.induct)
  case (3 x y xs)
  then have "x < y" "\<forall>z\<in>set xs. y \<le> z" "distinct (y # xs)" by auto
  then show ?case by fastforce
qed simp_all

lemma relevant_env_sorted: "sorted (relevant_env env)" "distinct (relevant_env env)" "set (relevant_env env) = env_set env"
  by (simp_all add: relevant_env_def env_set_def sorted_remdups_adj sorted_distinct_adj)

lemma relevant_env_iff: "relevant_env env1 = relevant_env env2 \<longleftrightarrow> env_set env1 = env_set env2"
  using relevant_env_sorted [of env1] relevant_env_sorted [of env2]
  by (metis sorted_distinct_set_unique)

lemma words_no_ws: "w \<in> set (words_acc v s) \<Longrightarrow> (\<forall>c\<in>set v. \<not> is_ws c) \<Longrightarrow> \<forall>c\<in>set w. \<not> is_ws c"
proof (induction v s rule: words_acc.induct)
  case (2 v c s)
  show ?case
  proof (cases "is_ws c")
    case True
    then have "w = v \<or> w \<in> set (words_acc [] s)" using "2.prems"(1) by (simp split: if_splits)
    then show ?thesis
    proof
      assume rest: "w \<in> set (words_acc [] s)"
      have none: "\<forall>c\<in>set []. \<not> is_ws c" by simp
      show ?thesis
        by (cases "v = []") (rule "2.IH"(1) [OF True _ rest none] "2.IH"(2) [OF True _ rest none], assumption)+
    qed (use "2.prems"(2) in simp)
  next
    case False
    have "w \<in> set (words_acc (v @ [c]) s)" using "2.prems"(1) False by simp
    moreover have "\<forall>d\<in>set (v @ [c]). \<not> is_ws d" using "2.prems"(2) False by simp
    ultimately show ?thesis by (rule "2.IH"(3) [OF False])
  qed
qed (simp split: if_splits)

definition lineless :: "string \<Rightarrow> bool" where
  "lineless s \<longleftrightarrow> CHR 0x0A \<notin> set s"

lemma lineless_append [simp]: "lineless (s @ t) \<longleftrightarrow> lineless s \<and> lineless t"
  by (simp add: lineless_def)

lemma lineless_join: "list_all lineless ws \<Longrightarrow> lineless (join '' '' ws)"
  by (induction "'' ''" ws rule: join.induct) (auto simp: lineless_def)

lemma newline_ws: "is_ws (CHR 0x0A)"
  by (simp add: is_ws_def)

lemma one_spaced_lineless: "lineless (one_spaced s)"
proof -
  have "list_all lineless (split_whitespace s)"
    using words_no_ws [of _ "[]" s] newline_ws unfolding list_all_iff split_whitespace_def lineless_def by fastforce
  then show ?thesis unfolding one_spaced_def by (rule lineless_join)
qed

lemma normalise_lineless: "lineless (normalise_args args)"
  unfolding normalise_args_def by (rule lineless_join) (auto simp: list_all_iff one_spaced_lineless)

text \<open>The names before the \<open>=\<close> are single lines, as the shell and docker have them.\<close>

definition line_names :: "string list \<Rightarrow> bool" where
  "line_names env \<longleftrightarrow> list_all (\<lambda>e. \<forall>n v. split_once EQUALS e = Some (n, v) \<longrightarrow> lineless n) env"

lemma env_entry_line: "env_entry e = Some t \<Longrightarrow> (\<forall>n v. split_once EQUALS e = Some (n, v) \<longrightarrow> lineless n) \<Longrightarrow> lineless t \<and> t \<noteq> []"
  using one_spaced_lineless by (auto simp: env_entry_def EQUALS_def lineless_def split: option.splits if_splits)

lemma relevant_env_lines: "line_names env \<Longrightarrow> t \<in> set (relevant_env env) \<Longrightarrow> lineless t \<and> t \<noteq> []"
  using env_entry_line by (fastforce simp: relevant_env_sorted env_set_def line_names_def list_all_iff List.map_filter_def)

lemma join_lines_inj:
  assumes "\<forall>t\<in>set xs. lineless t \<and> t \<noteq> []" "\<forall>t\<in>set ys. lineless t \<and> t \<noteq> []"
  shows "join NL xs = join NL ys \<longleftrightarrow> xs = ys"
proof -
  have again: "zs = (if join NL zs = [] then [] else split_on (CHR 0x0A) (join NL zs))"
    if "\<forall>t\<in>set zs. lineless t \<and> t \<noteq> []" for zs
  proof (cases zs)
    case (Cons p ps)
    then have "split_on (CHR 0x0A) (join NL zs) = zs"
      unfolding NL_def Cons using that [unfolded Cons] by (intro split_on_join) (simp add: list_all_iff lineless_def)
    moreover have "join NL zs \<noteq> []" using that Cons by (cases ps) auto
    ultimately show ?thesis by simp
  qed simp
  show ?thesis using again [OF assms(1)] again [OF assms(2)] by metis
qed

lemma lineless_prefix:
  "lineless a \<Longrightarrow> lineless b \<Longrightarrow> a @ NL @ s = b @ NL @ t \<longleftrightarrow> a = b \<and> s = t"
  by (induction a arbitrary: b; case_tac b) (auto simp: lineless_def NL_def)

lemma config_text_iff:
  assumes "line_names env1" "line_names env2"
  shows "config_text args1 env1 = config_text args2 env2 \<longleftrightarrow>
    normalise_args args1 = normalise_args args2 \<and> env_set env1 = env_set env2"
proof -
  have "join NL (relevant_env env1) = join NL (relevant_env env2) \<longleftrightarrow> relevant_env env1 = relevant_env env2"
    using relevant_env_lines [OF assms(1)] relevant_env_lines [OF assms(2)] by (intro join_lines_inj) blast+
  then show ?thesis
    unfolding config_text_def lineless_prefix [OF normalise_lineless normalise_lineless] same_append_eq
    by (simp only: relevant_env_iff)
qed

lemma identity_env:
  assumes "env_set env1 = env_set env2"
  shows "loadout_identity sha m i args env1 = loadout_identity sha m i args env2"
proof -
  have "relevant_env env1 = relevant_env env2" using assms relevant_env_iff by blast
  then show ?thesis by (simp only: loadout_identity_def config_hash_def config_text_def)
qed

end
