(* ===== verification/BenchScore.thy ===== *)
theory BenchScore
  imports BenchSafety Loadout Curve "HOL-Library.Product_Lexorder"
begin

text \<open>
  The scorecard half of \<open>crates/lss-core/src/bench.rs\<close>: the scorecard of a run and the numbers a table row
  shows, the verdict, the rule that two runs may be compared, garbled output, the readers of the harness's
  JSON and the graders of the built-in checks. A document of \<open>serde_json\<close> is a parameter: a type \<open>'v\<close>
  and the record \<open>Json\<close> of the accessors the code calls on it. Texts are UTF-8 bytes.
\<close>

section \<open>Characters of a UTF-8 text\<close>

text \<open>A character starts at every byte that is not a continuation byte; \<open>char_code\<close> is its code point.\<close>

definition is_cont :: "char \<Rightarrow> bool" where
  "is_cont c \<longleftrightarrow> 0x80 \<le> (of_char c :: nat) \<and> (of_char c :: nat) < 0xC0"

function utf8_chars :: "string \<Rightarrow> string list" where
  "utf8_chars [] = []"
| "utf8_chars (c # cs) = (c # takeWhile is_cont cs) # utf8_chars (dropWhile is_cont cs)"
  by pat_completeness auto
termination by (relation "measure length") (auto simp: le_imp_less_Suc length_dropWhile_le)

definition char_code :: "string \<Rightarrow> nat" where
  "char_code s = (case s of [] \<Rightarrow> 0
     | c # cs \<Rightarrow>
        (let lead = (of_char c :: nat);
             bits = (if lead < 0x80 then lead else if lead < 0xE0 then lead - 0xC0
                     else if lead < 0xF0 then lead - 0xE0 else lead - 0xF0)
         in foldl (\<lambda>v d. v * 64 + (of_char d mod 64)) bits cs))"

section \<open>Garbled output\<close>

record Garbled =
  gb_chars :: u64
  gb_replacement_chars :: u64
  gb_cjk_chars :: u64
  gb_per_100k :: f64

definition is_cjk :: "nat \<Rightarrow> bool" where
  "is_cjk c \<longleftrightarrow>
     0x3040 \<le> c \<and> c \<le> 0x30FF \<or> 0x3400 \<le> c \<and> c \<le> 0x4DBF \<or> 0x4E00 \<le> c \<and> c \<le> 0x9FFF \<or>
     0xAC00 \<le> c \<and> c \<le> 0xD7AF \<or> 0xF900 \<le> c \<and> c \<le> 0xFAFF \<or> 0xFF66 \<le> c \<and> c \<le> 0xFF9F \<or>
     0x20000 \<le> c \<and> c \<le> 0x2FA1F"

definition garbled_char :: "Garbled \<Rightarrow> nat \<Rightarrow> Garbled" where
  "garbled_char g c = g\<lparr>gb_chars := gb_chars g + 1,
     gb_replacement_chars := gb_replacement_chars g + of_bool (c = 0xFFFD),
     gb_cjk_chars := gb_cjk_chars g + of_bool (is_cjk c)\<rparr>"

definition scan_garbled :: "string list \<Rightarrow> Garbled option" where
  "scan_garbled texts =
    (let g = foldl (\<lambda>g t. foldl garbled_char g (map char_code (utf8_chars t)))
           \<lparr>gb_chars = 0, gb_replacement_chars = 0, gb_cjk_chars = 0, gb_per_100k = F_Fin 0\<rparr> texts
     in if gb_chars g = 0 then None
        else Some (g\<lparr>gb_per_100k := f_div (f_round (f_mul (f_mul
          (f_div (f_of_nat (gb_replacement_chars g + gb_cjk_chars g)) (f_of_nat (gb_chars g)))
          (F_Fin 100000)) (F_Fin 10))) (F_Fin 10)\<rparr>))"

section \<open>The scorecard\<close>

record DecodeCell =
  dc_concurrency :: u32
  dc_context :: u64
  dc_per_user_tok_s :: f64
  dc_total_tok_s :: f64
  dc_ttft_ms :: "f64 option"
  dc_errors :: u64
  dc_capacity_limited :: bool

record PrefillCell =
  pf_tokens :: u64
  pf_tok_s :: f64
  pf_ttft_ms :: f64

record Check =
  ck_name :: string
  ck_pass :: bool
  ck_detail :: string

record NeedleResult =
  nd_depth_pct :: u32
  nd_prompt_tokens :: u64
  nd_pass :: bool
  nd_detail :: string
  nd_secs :: f64

record Accuracy =
  ac_dataset :: string
  ac_score :: f64
  ac_n :: u64
  ac_correct :: u64
  ac_wilson95_low :: "f64 option"
  ac_wilson95_high :: "f64 option"
  ac_file :: string

record Scorecard =
  sc_run_id :: i64
  sc_loadout_id :: string
  sc_model :: string
  sc_profile :: string
  sc_started_at :: i64
  sc_ended_at :: i64
  sc_duration_s :: i64
  sc_duration_ms :: "i64 option"
  sc_status :: string
  sc_aborted :: "string option"
  sc_forced :: bool
  sc_under_load :: bool
  sc_background :: "BackgroundLoad option"
  sc_note :: string
  sc_harness_version :: string
  sc_harness_commit :: string
  sc_target :: string
  sc_decode :: "DecodeCell list"
  sc_prefill :: "PrefillCell list"
  sc_sanity :: "Check list"
  sc_needle :: "NeedleResult list"
  sc_accept_length :: "f64 option"
  sc_accept_rate :: "f64 option"
  sc_kv_tokens :: "f64 option"
  sc_tokens_per_joule :: "f64 option"
  sc_wh_per_mtok :: "f64 option"
  sc_avg_watts :: "f64 option"
  sc_garbled :: "Garbled option"
  sc_accuracy :: "Accuracy list"
  sc_raw_dir :: string

record Headline =
  hl_c1_tok_s :: "f64 option"
  hl_ttft_c1_ms :: "f64 option"
  hl_max_total_tok_s :: "f64 option"
  hl_max_total_at :: "u32 option"
  hl_prefill_8k_tok_s :: "f64 option"
  hl_accuracy :: "f64 option"
  hl_accuracy_dataset :: "string option"

definition headline_default :: Headline where
  "headline_default = \<lparr>hl_c1_tok_s = None, hl_ttft_c1_ms = None, hl_max_total_tok_s = None,
     hl_max_total_at = None, hl_prefill_8k_tok_s = None, hl_accuracy = None, hl_accuracy_dataset = None\<rparr>"

definition card_cell :: "Scorecard \<Rightarrow> u32 \<Rightarrow> u64 \<Rightarrow> DecodeCell option" where
  "card_cell s concurrency context1 =
    find (\<lambda>c. dc_concurrency c = concurrency \<and> dc_context c = context1) (sc_decode s)"

definition abs_diff :: "nat \<Rightarrow> nat \<Rightarrow> nat" where
  "abs_diff a b = (if a < b then b - a else a - b)"

definition prefill_near :: "Scorecard \<Rightarrow> u64 \<Rightarrow> PrefillCell option" where
  "prefill_near s tokens = find (\<lambda>p. abs_diff (pf_tokens p) tokens * 20 \<le> tokens) (sc_prefill s)"

text \<open>\<open>max_by(total_cmp)\<close>: the last of the greatest. \<open>iter().min_by(..)\<close>: the first of the least.\<close>

definition max_by_f64 :: "('a \<Rightarrow> f64) \<Rightarrow> 'a list \<Rightarrow> 'a option" where
  "max_by_f64 f xs = foldl (\<lambda>best x. case best of None \<Rightarrow> Some x
     | Some b \<Rightarrow> if total_le (f b) (f x) then Some x else Some b) None xs"

definition min_by_f64 :: "('a \<Rightarrow> f64) \<Rightarrow> 'a list \<Rightarrow> 'a option" where
  "min_by_f64 f xs = foldl (\<lambda>best x. case best of None \<Rightarrow> Some x
     | Some b \<Rightarrow> if total_le (f b) (f x) then Some b else Some x) None xs"

definition first_of :: "'a list \<Rightarrow> 'a option" where
  "first_of xs = (case xs of [] \<Rightarrow> None | x # _ \<Rightarrow> Some x)"

definition card_headline :: "Scorecard \<Rightarrow> Headline" where
  "card_headline s =
    (let best = max_by_f64 dc_total_tok_s (filter (\<lambda>c. dc_context c = 0) (sc_decode s));
         acc = first_of (sc_accuracy s)
     in \<lparr>hl_c1_tok_s = map_option dc_per_user_tok_s (card_cell s 1 0),
         hl_ttft_c1_ms = Option.bind (card_cell s 1 0) dc_ttft_ms,
         hl_max_total_tok_s = map_option dc_total_tok_s best,
         hl_max_total_at = map_option dc_concurrency best,
         hl_prefill_8k_tok_s = map_option pf_tok_s (prefill_near s 8192),
         hl_accuracy = map_option ac_score acc,
         hl_accuracy_dataset = map_option ac_dataset acc\<rparr>)"

definition decode_row :: "DecodeCell \<Rightarrow> CurveRow" where
  "decode_row c = \<lparr>cr_running = dc_concurrency c, cr_samples = 1, cr_tok_s = Some (dc_total_tok_s c),
     cr_per_request_tok_s = Some (dc_per_user_tok_s c), cr_ttft_ms = dc_ttft_ms c,
     cr_spec_accept_length = None, cr_source = ''bench''\<rparr>"

definition card_curve_rows :: "Scorecard \<Rightarrow> CurveRow list" where
  "card_curve_rows s = map decode_row (filter (\<lambda>c. dc_context c = 0) (sc_decode s))"

definition card_complete :: "Scorecard \<Rightarrow> bool" where
  "card_complete s \<longleftrightarrow> sc_status s = ''ok''"

definition failed_checks :: "Scorecard \<Rightarrow> string list" where
  "failed_checks s =
    map ck_name (filter (\<lambda>c. \<not> ck_pass c) (sc_sanity s)) @
    map (\<lambda>n. ''needle at '' @ show_nat (nd_depth_pct n) @ ''%'') (filter (\<lambda>n. \<not> nd_pass n) (sc_needle s))"

text \<open>The statuses are ASCII words: \<open>to_uppercase\<close> is per character.\<close>

definition run_verdict :: "string \<Rightarrow> string list \<Rightarrow> bool \<Rightarrow> string" where
  "run_verdict status failed upper =
    (let cased = (\<lambda>w. if upper then map to_upper w else w)
     in if status \<noteq> ''ok'' \<or> failed = [] then cased status
        else
          (let n = length failed;
               head = ''ok, but '' @ show_nat n @ '' check'' @ (if n = 1 then [] else ''s'') @ '' failed''
           in cased head @ '': '' @ join '', '' failed))"

definition card_verdict :: "Scorecard \<Rightarrow> string" where
  "card_verdict s = run_verdict (sc_status s) (failed_checks s) True"

definition card_took :: "Scorecard \<Rightarrow> string" where
  "card_took s =
    (case sc_duration_ms s of
       Some ms \<Rightarrow> if ms < 10000 then fmt_fixed 1 (f_div (f_of_int ms) (F_Fin 1000)) @ ''s''
                  else fmt_duration (sc_duration_s s)
     | None \<Rightarrow> fmt_duration (sc_duration_s s))"

definition card_load_class :: "Scorecard \<Rightarrow> LoadClass" where
  "card_load_class s = (case sc_background s of None \<Rightarrow> LC_Unknown | Some b \<Rightarrow> load_class b)"

definition card_load_sentence :: "Scorecard \<Rightarrow> string" where
  "card_load_sentence s =
    (case sc_background s of None \<Rightarrow> class_sentence LC_Unknown | Some b \<Rightarrow> load_sentence b)"

end
