(* ===== verification/BenchCheck.thy ===== *)
theory BenchCheck
  imports BenchScore "HOL-Library.While_Combinator"
begin

text \<open>
  What the benchmark reads out of JSON and how it grades an answer (\<open>decode_cells\<close>, \<open>prefill_cells\<close>,
  \<open>accuracy_of\<close>, \<open>answer_text\<close>, \<open>grade_sanity\<close>, \<open>grade_needle\<close> of \<open>crates/lss-core/src/bench.rs\<close>), and the
  long prompt the needle hides in. The documents are values of a type \<open>'v\<close> read through \<open>Json\<close>.
\<close>

section \<open>A document of serde_json\<close>

text \<open>
  \<open>v[key]\<close> and \<open>v[i]\<close> give \<open>Null\<close> when there is nothing (every accessor of \<open>Null\<close> answers \<open>None\<close>);
  \<open>js_obj\<close> gives the members in the order of the map; \<open>js_parse\<close> is \<open>from_str\<close> with its error in words.
\<close>

record 'v Json =
  js_get :: "'v \<Rightarrow> string \<Rightarrow> 'v"
  js_nth :: "'v \<Rightarrow> nat \<Rightarrow> 'v"
  js_f64 :: "'v \<Rightarrow> f64 option"
  js_u64 :: "'v \<Rightarrow> u64 option"
  js_i64 :: "'v \<Rightarrow> i64 option"
  js_bool :: "'v \<Rightarrow> bool option"
  js_str :: "'v \<Rightarrow> string option"
  js_arr :: "'v \<Rightarrow> 'v list option"
  js_obj :: "'v \<Rightarrow> (string \<times> 'v) list option"
  js_text :: "'v \<Rightarrow> string"
  js_parse :: "string \<Rightarrow> string + 'v"

definition some_or :: "'a \<Rightarrow> 'a option \<Rightarrow> 'a" where
  "some_or d x = (case x of None \<Rightarrow> d | Some v \<Rightarrow> v)"

definition or_else :: "'a option \<Rightarrow> 'a option \<Rightarrow> 'a option" where
  "or_else x y = (case x of None \<Rightarrow> y | Some v \<Rightarrow> Some v)"

definition keep :: "('a \<Rightarrow> bool) \<Rightarrow> 'a option \<Rightarrow> 'a option" where
  "keep P x = (case x of None \<Rightarrow> None | Some v \<Rightarrow> if P v then Some v else None)"

definition json_num :: "'v Json \<Rightarrow> 'v \<Rightarrow> f64 option" where
  "json_num J v = keep is_finite (js_f64 J v)"

definition positive :: "f64 \<Rightarrow> bool" where
  "positive v \<longleftrightarrow> f_gt v (F_Fin 0)"

section \<open>The harness's results\<close>

definition harness_version :: "'v Json \<Rightarrow> 'v \<Rightarrow> string option" where
  "harness_version J doc =
    or_else (js_str J (js_get J (js_get J doc ''metadata'') ''version''))
      (js_str J (js_get J (js_get J doc ''startup_diagnostics'') ''version''))"

definition seconds_ms :: "f64 \<Rightarrow> f64" where
  "seconds_ms s = round1 (f_mul s (F_Fin 1000))"

definition decode_cell :: "'v Json \<Rightarrow> 'v \<Rightarrow> DecodeCell option" where
  "decode_cell J r =
    (case (js_u64 J (js_get J r ''concurrency''), json_num J (js_get J r ''aggregate_tps'')) of
       (Some c, Some tot) \<Rightarrow>
         (let concurrency = c mod 2 ^ 32 in
          if concurrency = 0 \<or> f_le tot (F_Fin 0) then None
          else
            Some \<lparr>dc_concurrency = concurrency,
              dc_context = some_or 0 (js_u64 J (js_get J r ''context_tokens'')),
              dc_per_user_tok_s = round1 (some_or (f_div tot (f_of_nat concurrency))
                (keep positive (json_num J (js_get J r ''per_request_avg_tps'')))),
              dc_total_tok_s = round1 tot,
              dc_ttft_ms = map_option seconds_ms (keep positive
                (or_else (json_num J (js_get J r ''ttft_p50'')) (json_num J (js_get J r ''ttft_avg'')))),
              dc_errors = some_or 0 (js_u64 J (js_get J r ''num_errors'')),
              dc_capacity_limited = some_or False (js_bool J (js_get J r ''capacity_limited''))\<rparr>)
     | _ \<Rightarrow> None)"

definition decode_cells :: "'v Json \<Rightarrow> 'v \<Rightarrow> DecodeCell list" where
  "decode_cells J doc =
    sort_key (\<lambda>c. (dc_context c, dc_concurrency c))
      (List.map_filter (decode_cell J) (some_or [] (js_arr J (js_get J doc ''results''))))"

definition prefill_cell :: "'v Json \<Rightarrow> string \<times> 'v \<Rightarrow> PrefillCell option" where
  "prefill_cell J e =
    (case keep positive (json_num J (js_get J (snd e) ''tok_per_sec'')) of None \<Rightarrow> None
     | Some tok_s \<Rightarrow>
        (case or_else (keep (\<lambda>t. 0 < t) (js_u64 J (js_get J (snd e) ''prompt_tokens''))) (parse_uint 64 (fst e)) of
           None \<Rightarrow> None
         | Some tokens \<Rightarrow>
            Some \<lparr>pf_tokens = tokens, pf_tok_s = round1 tok_s,
              pf_ttft_ms = seconds_ms (some_or (F_Fin 0) (json_num J (js_get J (snd e) ''ttft_seconds'')))\<rparr>))"

definition prefill_cells :: "'v Json \<Rightarrow> 'v \<Rightarrow> PrefillCell list" where
  "prefill_cells J doc =
    sort_key pf_tokens (List.map_filter (prefill_cell J) (some_or [] (js_obj J (js_get J doc ''prefill''))))"

definition accuracy_of :: "'v Json \<Rightarrow> 'v \<Rightarrow> string \<Rightarrow> string \<Rightarrow> Accuracy option" where
  "accuracy_of J doc dataset file =
    (let a = js_get J doc ''accuracy'' in
     case (keep (\<lambda>n. 0 < n) (js_u64 J (js_get J a ''scored'')), json_num J (js_get J a ''accuracy'')) of
       (Some n, Some score) \<Rightarrow>
         Some \<lparr>ac_dataset = dataset,
           ac_score = f_div (f_round (f_mul score (F_Fin 10000))) (F_Fin 10000), ac_n = n,
           ac_correct = some_or 0 (js_u64 J (js_get J a ''correct'')),
           ac_wilson95_low = json_num J (js_get J a ''wilson95_low''),
           ac_wilson95_high = json_num J (js_get J a ''wilson95_high''), ac_file = file\<rparr>
     | _ \<Rightarrow> None)"

section \<open>The answer of the model\<close>

definition SANITY_ARITHMETIC :: string where "SANITY_ARITHMETIC = ''arithmetic''"
definition SANITY_TOOL :: string where "SANITY_TOOL = ''tool call''"
definition SANITY_JSON :: string where "SANITY_JSON = ''json output''"
definition NEEDLE_CODE :: string where "NEEDLE_CODE = ''7421-ORCHID-88''"
definition THINK_END :: string where "THINK_END = ''</think>''"

text \<open>What follows the last occurrence (\<open>rfind\<close>) of a pattern.\<close>

fun after_last :: "string \<Rightarrow> string \<Rightarrow> string option" where
  "after_last pat [] = (if pat = [] then Some [] else None)"
| "after_last pat (c # cs) =
    (case after_last pat cs of Some r \<Rightarrow> Some r
     | None \<Rightarrow> if starts_with (c # cs) pat then Some (drop (length pat) (c # cs)) else None)"

definition first_message :: "'v Json \<Rightarrow> 'v \<Rightarrow> 'v" where
  "first_message J response = js_get J (js_nth J (js_get J response ''choices'') 0) ''message''"

definition answer_text :: "'v Json \<Rightarrow> 'v \<Rightarrow> string" where
  "answer_text J response =
    (let raw = some_or [] (js_str J (js_get J (first_message J response) ''content''))
     in trim (some_or raw (after_last THINK_END raw)))"

definition excerpt :: "string \<Rightarrow> string" where
  "excerpt text =
    (let one_line = join '' '' (split_whitespace text);
         cut = concat (take 80 (utf8_chars one_line))
     in if length cut < length one_line then cut @ ''...'' else cut)"

definition http_ok :: "nat \<Rightarrow> bool" where
  "http_ok status \<longleftrightarrow> 200 \<le> status \<and> status < 300"

definition check_pass :: "string \<Rightarrow> string \<Rightarrow> Check" where
  "check_pass name detail = \<lparr>ck_name = name, ck_pass = True, ck_detail = detail\<rparr>"

definition check_fail :: "string \<Rightarrow> string \<Rightarrow> Check" where
  "check_fail name detail = \<lparr>ck_name = name, ck_pass = False, ck_detail = detail\<rparr>"

definition http_failure :: "'v Json \<Rightarrow> nat \<Rightarrow> 'v \<Rightarrow> string" where
  "http_failure J status response = ''HTTP '' @ show_nat status @ '': '' @ excerpt (js_text J response)"

text \<open>The arguments of the tool call: a text that parses as JSON, or an object as it is.\<close>

definition call_args :: "'v Json \<Rightarrow> 'v \<Rightarrow> 'v option" where
  "call_args J call =
    (let a = js_get J call ''arguments'' in
     or_else (Option.bind (js_str J a) (\<lambda>s. case js_parse J s of Inl _ \<Rightarrow> None | Inr v \<Rightarrow> Some v))
       (map_option (\<lambda>_. a) (js_obj J a)))"

definition called_city :: "'v Json \<Rightarrow> 'v \<Rightarrow> string option" where
  "called_city J a = keep (\<lambda>c. c \<noteq> []) (js_str J (js_get J a ''city''))"

definition GET_WEATHER :: string where "GET_WEATHER = ''get_weather''"

definition grade_tool :: "'v Json \<Rightarrow> string \<Rightarrow> 'v \<Rightarrow> Check" where
  "grade_tool J name response =
    (let call = js_get J (js_nth J (js_get J (first_message J response) ''tool_calls'') 0) ''function'';
         args = call_args J call
     in case js_str J (js_get J call ''name'') of
          None \<Rightarrow> check_fail name (''no tool call in the answer: '' @ excerpt (answer_text J response))
        | Some called \<Rightarrow>
            (case if called = GET_WEATHER then Option.bind args (called_city J) else None of
               Some city \<Rightarrow> check_pass name (''get_weather(city='' @ city @ '')'')
             | None \<Rightarrow> check_fail name (''called '' @ called @ '', or its arguments are not JSON with a city'')))"

text \<open>\<open>trim_start_matches\<close> and \<open>trim_end_matches\<close> take the pattern off as often as it stands there.\<close>

function trim_start_matches :: "string \<Rightarrow> string \<Rightarrow> string" where
  "trim_start_matches p s =
    (if p \<noteq> [] \<and> starts_with s p then trim_start_matches p (drop (length p) s) else s)"
  by pat_completeness auto
termination
proof (relation "measure (\<lambda>(p, s). length s)")
  fix p s :: string
  assume "p \<noteq> [] \<and> starts_with s p"
  then have "p \<noteq> []" "s \<noteq> []" by (cases p; cases s; simp)+
  then show "((p, drop (length p) s), p, s) \<in> measure (\<lambda>(p, s). length s)" by (cases s) (auto simp: Suc_le_eq)
qed simp

declare trim_start_matches.simps [simp del]

definition trim_end_matches :: "string \<Rightarrow> string \<Rightarrow> string" where
  "trim_end_matches p s = rev (trim_start_matches (rev p) (rev s))"

definition FENCE :: string where "FENCE = ''```''"
definition JSON_FENCE :: string where "JSON_FENCE = ''```json''"

definition grade_json :: "'v Json \<Rightarrow> string \<Rightarrow> string \<Rightarrow> Check" where
  "grade_json J name text =
    (let body = trim (trim_end_matches FENCE (trim_start_matches FENCE (trim_start_matches JSON_FENCE (trim text))))
     in case js_parse J body of
          Inl e \<Rightarrow> check_fail name (''does not parse as JSON ('' @ e @ ''): '' @ excerpt body)
        | Inr v \<Rightarrow>
            (case js_obj J v of
               Some (m # ms) \<Rightarrow> check_pass name (''parses: '' @ excerpt body)
             | _ \<Rightarrow> check_fail name (''parses, but is not a JSON object: '' @ excerpt body)))"

definition grade_sanity :: "'v Json \<Rightarrow> string \<Rightarrow> nat \<Rightarrow> 'v \<Rightarrow> Check" where
  "grade_sanity J name http_status response =
    (if \<not> http_ok http_status then check_fail name (http_failure J http_status response)
     else
       (let text = answer_text J response in
        if name = SANITY_ARITHMETIC then
          (if filter is_digit text = ''391'' then check_pass name ''17 * 23 = 391''
           else check_fail name (''expected 391, got: '' @ excerpt text))
        else if name = SANITY_TOOL then grade_tool J name response
        else grade_json J name text))"

definition grade_needle :: "'v Json \<Rightarrow> u32 \<Rightarrow> nat \<Rightarrow> 'v \<Rightarrow> f64 \<Rightarrow> NeedleResult" where
  "grade_needle J depth_pct http_status response secs =
    (let text = answer_text J response;
         result = (\<lambda>p detail. \<lparr>nd_depth_pct = depth_pct,
           nd_prompt_tokens = some_or 0 (js_u64 J (js_get J (js_get J response ''usage'') ''prompt_tokens'')),
           nd_pass = p, nd_detail = detail, nd_secs = round1 secs\<rparr>)
     in if \<not> http_ok http_status then result False (http_failure J http_status response)
        else if contains text NEEDLE_CODE then result True (''found the code at '' @ show_nat depth_pct @ ''% depth'')
        else result False (''did not return the code: '' @ excerpt text))"

definition accept_length :: "f64 \<Rightarrow> f64 \<Rightarrow> f64 option" where
  "accept_length gen_tokens_delta verify_calls_delta =
    keep (\<lambda>v. f_ge v (F_Fin 1))
      (if positive verify_calls_delta \<and> positive gen_tokens_delta
       then Some (f_div (f_round (f_mul (f_div gen_tokens_delta verify_calls_delta) (F_Fin 100))) (F_Fin 100))
       else None)"

section \<open>The long prompt\<close>

definition FILLER :: "string list" where
  "FILLER =
    [''The harbour ledger records that the tide table was copied by hand each morning before the boats left.'',
     ''A baker on the corner kept a list of every loaf sold, and the list was filed by week in a tin box.'',
     ''The railway clerk noted the arrival of the evening train and wrote the delay in minutes beside it.'',
     ''In the orchard the pickers counted crates at noon and again at dusk, and the two counts rarely agreed.'',
     ''The museum catalogue gives the height of each vase in centimetres and the year it entered the collection.'',
     ''Every lighthouse keeper on the coast sent a monthly report about oil, glass, weather and visiting ships.'']"

definition NEEDLE :: string where
  "NEEDLE = ''IMPORTANT: the secret access code for the archive room is '' @ NEEDLE_CODE @ ''. Remember it.''"

definition PROMPT_INTRO :: string where
  "PROMPT_INTRO = ''Below is a long archive of notes. One line in it states a secret access code. Read everything, then answer the question at the end.'' @ NL @ NL"

definition PROMPT_QUESTION :: string where
  "PROMPT_QUESTION = NL @ ''Question: what is the secret access code for the archive room? Answer with the code only.''"

definition note_line :: "nat \<Rightarrow> string" where
  "note_line i = ''Note '' @ show_nat (i + 1) @ '': '' @ FILLER ! (i mod length FILLER) @ NL"

record PromptState =
  ps_out :: string
  ps_placed :: bool
  ps_i :: usize

definition prompt_start :: PromptState where
  "prompt_start = \<lparr>ps_out = PROMPT_INTRO, ps_placed = False, ps_i = 0\<rparr>"

definition place_needle :: "PromptState \<Rightarrow> PromptState" where
  "place_needle s = s\<lparr>ps_out := ps_out s @ NEEDLE @ NL, ps_placed := True\<rparr>"

definition add_note :: "PromptState \<Rightarrow> PromptState" where
  "add_note s = s\<lparr>ps_out := ps_out s @ note_line (ps_i s), ps_i := ps_i s + 1\<rparr>"

definition prompt_step :: "usize \<Rightarrow> PromptState \<Rightarrow> PromptState" where
  "prompt_step needle_at s =
    add_note (if \<not> ps_placed s \<and> needle_at \<le> length (ps_out s) then place_needle s else s)"

text \<open>The loop is \<open>while out.len() < target_chars\<close>: no result would be \<open>None\<close>.\<close>

definition prompt_loop :: "usize \<Rightarrow> usize \<Rightarrow> PromptState \<Rightarrow> PromptState option" where
  "prompt_loop target needle_at s =
    while_option (\<lambda>s. length (ps_out s) < target) (prompt_step needle_at) s"

definition target_chars :: "u64 \<Rightarrow> usize" where
  "target_chars tokens = f_to_uint 64 (f_mul (f_of_nat tokens) (f_lit (46 / 10)))"

definition needle_at :: "u64 \<Rightarrow> u32 \<Rightarrow> usize" where
  "needle_at tokens depth_pct = (target_chars tokens * min depth_pct 100) mod 2 ^ 64 div 100"

definition needle_prompt :: "u64 \<Rightarrow> u32 \<Rightarrow> string option" where
  "needle_prompt tokens depth_pct =
    map_option (\<lambda>s. ps_out (if ps_placed s then s else place_needle s) @ PROMPT_QUESTION)
      (prompt_loop (target_chars tokens) (needle_at tokens depth_pct) prompt_start)"

end
