(* ===== verification/Engines.thy ===== *)
theory Engines
  imports Hist BenchSafety BenchCheck
begin

text \<open>
  \<open>crates/lss-core/src/engine.rs\<close>: the engines, the numbers every engine is asked for and which of
  them a scrape does not have, and the readers of the three Prometheus texts (vLLM, TGI, llama.cpp).
\<close>

section \<open>The engines\<close>

datatype EngineKind = K_Sglang | K_Vllm | K_LlamaCpp | K_Ollama | K_LmStudio | K_Tgi | K_OpenAi

definition engine_kinds :: "EngineKind list" where
  "engine_kinds = [K_Sglang, K_Vllm, K_Tgi, K_LlamaCpp, K_Ollama, K_LmStudio, K_OpenAi]"

fun engine_name :: "EngineKind \<Rightarrow> string" where
  "engine_name K_Sglang = ''sglang''"
| "engine_name K_Vllm = ''vllm''"
| "engine_name K_LlamaCpp = ''llamacpp''"
| "engine_name K_Ollama = ''ollama''"
| "engine_name K_LmStudio = ''lmstudio''"
| "engine_name K_Tgi = ''tgi''"
| "engine_name K_OpenAi = ''openai''"

fun engine_kind_label :: "EngineKind \<Rightarrow> string" where
  "engine_kind_label K_Sglang = ''SGLang''"
| "engine_kind_label K_Vllm = ''vLLM''"
| "engine_kind_label K_LlamaCpp = ''llama.cpp''"
| "engine_kind_label K_Ollama = ''Ollama''"
| "engine_kind_label K_LmStudio = ''LM Studio''"
| "engine_kind_label K_Tgi = ''TGI''"
| "engine_kind_label K_OpenAi = ''this server''"

definition engine_parse :: "string \<Rightarrow> EngineKind option" where
  "engine_parse text =
    (let t = filter (\<lambda>c. c \<notin> {CHR ''.'', CHR ''-'', CHR ''_'', CHR '' ''}) (to_ascii_lowercase (trim text)) in
     if t = ''sglang'' then Some K_Sglang
     else if t = ''vllm'' then Some K_Vllm
     else if t = ''llamacpp'' \<or> t = ''llamaserver'' \<or> t = ''llama'' then Some K_LlamaCpp
     else if t = ''ollama'' then Some K_Ollama
     else if t = ''lmstudio'' then Some K_LmStudio
     else if t = ''tgi'' \<or> t = ''textgenerationinference'' then Some K_Tgi
     else if t = ''openai'' \<or> t = ''openaicompatible'' \<or> t = ''generic'' then Some K_OpenAi
     else None)"

fun default_ports :: "EngineKind \<Rightarrow> nat list" where
  "default_ports K_Sglang = [30000]"
| "default_ports K_Vllm = [8000]"
| "default_ports K_LlamaCpp = [8080]"
| "default_ports K_Ollama = [11434]"
| "default_ports K_LmStudio = [1234]"
| "default_ports K_Tgi = [3000, 80]"
| "default_ports K_OpenAi = []"

definition openai_chat_path :: "EngineKind \<Rightarrow> string" where
  "openai_chat_path k = ''/v1/chat/completions''"

lemma engine_parse_name: "engine_parse (engine_name k) = Some k"
  by (cases k; simp only:; code_simp)

lemma engine_parse_label: "k \<noteq> K_OpenAi \<Longrightarrow> engine_parse (engine_kind_label k) = Some k"
  by (cases k; (simp only:)?; (code_simp | simp))

section \<open>The numbers of an engine\<close>

record EngineMetrics =
  em_running :: "f64 option"
  em_queued :: "f64 option"
  em_kv_usage :: "f64 option"
  em_kv_capacity_tokens :: "f64 option"
  em_decode_tok_s :: "f64 option"
  em_prompt_tokens_total :: "f64 option"
  em_cached_tokens_total :: "f64 option"
  em_computed_prompt_tokens_total :: "f64 option"
  em_generation_tokens_total :: "f64 option"
  em_requests_total :: "f64 option"
  em_cache_hit_rate :: "f64 option"
  em_spec_accept_length :: "f64 option"
  em_spec_accept_rate :: "f64 option"
  em_preemptions_total :: "f64 option"
  em_prefill_seconds_total :: "f64 option"
  em_request_seconds_total :: "f64 option"
  em_context_len :: "f64 option"
  em_slots :: "f64 option"

definition em_default :: EngineMetrics where
  "em_default = \<lparr>em_running = None, em_queued = None, em_kv_usage = None, em_kv_capacity_tokens = None,
     em_decode_tok_s = None, em_prompt_tokens_total = None, em_cached_tokens_total = None,
     em_computed_prompt_tokens_total = None, em_generation_tokens_total = None, em_requests_total = None,
     em_cache_hit_rate = None, em_spec_accept_length = None, em_spec_accept_rate = None,
     em_preemptions_total = None, em_prefill_seconds_total = None, em_request_seconds_total = None,
     em_context_len = None, em_slots = None\<rparr>"

definition METRIC_FIELDS :: "(string \<times> string) list" where
  "METRIC_FIELDS =
    [(''running'', ''requests running''), (''queued'', ''requests queued''), (''kv_usage'', ''memory (KV) in use''),
     (''kv_capacity'', ''memory (KV) capacity''), (''decode_tok_s'', ''writing speed''),
     (''prefill_tok_s'', ''reading speed''), (''tokens'', ''token counters''), (''requests'', ''request counter''),
     (''cache_hit'', ''prefix-cache hits''), (''spec'', ''speculative decoding''), (''ttft'', ''time to first word''),
     (''itl'', ''time between tokens''), (''e2e'', ''request duration''),
     (''queue_time'', ''time waiting for a slot''), (''slots'', ''how many requests run at once''),
     (''preemptions'', ''requests pushed out to make room'')]"

definition from_sglang :: "ServeMetrics \<Rightarrow> EngineMetrics" where
  "from_sglang m =
    \<lparr>em_running = Some (sm_running m), em_queued = Some (sm_queue m), em_kv_usage = Some (kv_usage m),
     em_kv_capacity_tokens = Some (sm_max_total_tokens m), em_decode_tok_s = Some (sm_gen_throughput m),
     em_prompt_tokens_total = Some (sm_prompt_tokens_total m),
     em_cached_tokens_total = Some (sm_cached_tokens_total m),
     em_computed_prompt_tokens_total = Some (sm_prefill_compute_tokens_total m),
     em_generation_tokens_total = Some (sm_generation_tokens_total m),
     em_requests_total = Some (sm_requests_total m), em_cache_hit_rate = Some (sm_cache_hit_rate m),
     em_spec_accept_length = Some (sm_spec_accept_length m), em_spec_accept_rate = Some (sm_spec_accept_rate m),
     em_preemptions_total = Some (sm_retracted m), em_prefill_seconds_total = Some (sm_prefill_forward_sum m),
     em_request_seconds_total = Some (sm_e2e_sum m), em_context_len = Some (sm_context_len m), em_slots = None\<rparr>"

definition finite_or_0 :: "f64 option \<Rightarrow> f64" where
  "finite_or_0 x = (case x of Some n \<Rightarrow> if is_finite n then n else F_Fin 0 | None \<Rightarrow> F_Fin 0)"

definition to_serve_metrics :: "EngineMetrics \<Rightarrow> ServeMetrics" where
  "to_serve_metrics e =
    \<lparr>sm_running = finite_or_0 (em_running e), sm_queue = finite_or_0 (em_queued e),
     sm_running_public = F_Fin 0, sm_running_trusted = F_Fin 0, sm_queue_public = F_Fin 0, sm_queue_trusted = F_Fin 0,
     sm_gen_throughput = finite_or_0 (em_decode_tok_s e), sm_token_usage = finite_or_0 (em_kv_usage e),
     sm_full_token_usage = F_Fin 0, sm_kv_used_tokens = F_Fin 0,
     sm_max_total_tokens = finite_or_0 (em_kv_capacity_tokens e),
     sm_cache_hit_rate = finite_or_0 (em_cache_hit_rate e),
     sm_spec_accept_length = finite_or_0 (em_spec_accept_length e),
     sm_spec_accept_rate = finite_or_0 (em_spec_accept_rate e),
     sm_retracted = finite_or_0 (em_preemptions_total e),
     sm_prompt_tokens_total = finite_or_0 (em_prompt_tokens_total e),
     sm_generation_tokens_total = finite_or_0 (em_generation_tokens_total e),
     sm_requests_total = finite_or_0 (em_requests_total e),
     sm_ttft_sum = F_Fin 0, sm_ttft_count = F_Fin 0, sm_itl_sum = F_Fin 0, sm_itl_count = F_Fin 0,
     sm_queue_time_sum = F_Fin 0, sm_queue_time_count = F_Fin 0,
     sm_cached_tokens_total = finite_or_0 (em_cached_tokens_total e),
     sm_context_len = finite_or_0 (em_context_len e),
     sm_prefill_compute_tokens_total = finite_or_0 (em_computed_prompt_tokens_total e),
     sm_evicted_tokens_total = F_Fin 0, sm_spec_verify_calls_total = F_Fin 0,
     sm_e2e_sum = finite_or_0 (em_request_seconds_total e),
     sm_prefill_forward_sum = finite_or_0 (em_prefill_seconds_total e),
     sm_decode_sum_seq_lens = F_Fin 0, sm_prefill_inflight_reqs = F_Fin 0, sm_startup_time_s = F_Fin 0,
     sm_counters_v = COUNTERS_V\<rparr>"

text \<open>Whether a scrape has the number of a key; the histogram keys are those of \<open>HIST_METRICS\<close>.\<close>

definition has_hist :: "HistSet option \<Rightarrow> string \<Rightarrow> bool" where
  "has_hist hists name =
    (case (hist_index name, hists) of (Some i, Some h) \<Rightarrow> h ! i \<noteq> None | _ \<Rightarrow> False)"

definition has_metric :: "EngineMetrics \<Rightarrow> HistSet option \<Rightarrow> string \<Rightarrow> bool" where
  "has_metric e hists key =
    (if key = ''running'' then em_running e \<noteq> None
     else if key = ''queued'' then em_queued e \<noteq> None
     else if key = ''kv_usage'' then em_kv_usage e \<noteq> None
     else if key = ''kv_capacity'' then em_kv_capacity_tokens e \<noteq> None
     else if key = ''decode_tok_s'' then em_decode_tok_s e \<noteq> None \<or> em_generation_tokens_total e \<noteq> None
     else if key = ''prefill_tok_s'' then
       em_computed_prompt_tokens_total e \<noteq> None \<or>
       em_prompt_tokens_total e \<noteq> None \<and> em_cached_tokens_total e \<noteq> None
     else if key = ''tokens'' then em_generation_tokens_total e \<noteq> None \<and> em_prompt_tokens_total e \<noteq> None
     else if key = ''requests'' then em_requests_total e \<noteq> None
     else if key = ''cache_hit'' then em_cache_hit_rate e \<noteq> None \<or> em_cached_tokens_total e \<noteq> None
     else if key = ''spec'' then em_spec_accept_length e \<noteq> None
     else if key = ''slots'' then em_slots e \<noteq> None
     else if key = ''preemptions'' then em_preemptions_total e \<noteq> None
     else has_hist hists key)"

definition em_not_reported :: "EngineMetrics \<Rightarrow> HistSet option \<Rightarrow> string list" where
  "em_not_reported e hists = filter (\<lambda>k. \<not> has_metric e hists k) (map fst METRIC_FIELDS)"

section \<open>Prometheus families\<close>

definition family_rows :: "Series list \<Rightarrow> string \<Rightarrow> f64 list" where
  "family_rows series name = map sr_value (filter (\<lambda>s. sr_name s = name \<and> is_finite (sr_value s)) series)"

definition family_sum :: "Series list \<Rightarrow> string \<Rightarrow> f64 option" where
  "family_sum series name =
    (let rows = family_rows series name in if rows = [] then None else Some (f_add (f_sum rows) (F_Fin 0)))"

fun find_map :: "('a \<Rightarrow> 'b option) \<Rightarrow> 'a list \<Rightarrow> 'b option" where
  "find_map f [] = None"
| "find_map f (x # xs) = (case f x of None \<Rightarrow> find_map f xs | Some y \<Rightarrow> Some y)"

definition first_family :: "Series list \<Rightarrow> string list \<Rightarrow> f64 option" where
  "first_family series names = find_map (family_sum series) names"

definition label_of :: "Series list \<Rightarrow> string \<Rightarrow> string \<Rightarrow> string option" where
  "label_of series name label =
    (case find (\<lambda>s. sr_name s = name) series of None \<Rightarrow> None | Some s \<Rightarrow> sr_label s label)"

definition metric_ratio :: "f64 option \<Rightarrow> f64 option \<Rightarrow> f64 option" where
  "metric_ratio part whole =
    (case (part, whole) of
       (Some p, Some w) \<Rightarrow> if f_gt w (F_Fin 0) then Some (f_clamp (f_div p w) (F_Fin 0) (F_Fin 1)) else None
     | _ \<Rightarrow> None)"

definition opt2 :: "('a \<Rightarrow> 'b \<Rightarrow> 'c) \<Rightarrow> 'a option \<Rightarrow> 'b option \<Rightarrow> 'c option" where
  "opt2 f x y = (case (x, y) of (Some a, Some b) \<Rightarrow> Some (f a b) | _ \<Rightarrow> None)"

section \<open>vLLM\<close>

definition vllm_capacity :: "Series list \<Rightarrow> f64 option" where
  "vllm_capacity s =
    opt2 f_mul (Option.bind (label_of s ''vllm:cache_config_info'' ''num_gpu_blocks'') parse_f64)
      (Option.bind (label_of s ''vllm:cache_config_info'' ''block_size'') parse_f64)"

definition vllm_metrics :: "Series list \<Rightarrow> EngineMetrics" where
  "vllm_metrics s =
    (let hits = first_family s [''vllm:prefix_cache_hits_total'', ''vllm:gpu_prefix_cache_hits_total''];
         queries = first_family s [''vllm:prefix_cache_queries_total'', ''vllm:gpu_prefix_cache_queries_total''];
         prompt = family_sum s ''vllm:prompt_tokens_total'';
         cached = or_else (family_sum s ''vllm:prompt_tokens_cached_total'') hits;
         drafts = keep positive (family_sum s ''vllm:spec_decode_num_drafts_total'');
         accepted = family_sum s ''vllm:spec_decode_num_accepted_tokens_total'';
         draft_tokens = family_sum s ''vllm:spec_decode_num_draft_tokens_total''
     in \<lparr>em_running = family_sum s ''vllm:num_requests_running'',
         em_queued = family_sum s ''vllm:num_requests_waiting'',
         em_kv_usage = first_family s [''vllm:kv_cache_usage_perc'', ''vllm:gpu_cache_usage_perc''],
         em_kv_capacity_tokens = vllm_capacity s,
         em_decode_tok_s = family_sum s ''vllm:avg_generation_throughput_toks_per_s'',
         em_prompt_tokens_total = prompt, em_cached_tokens_total = cached,
         em_computed_prompt_tokens_total = opt2 (\<lambda>a c. f_max (f_sub a c) (F_Fin 0)) prompt cached,
         em_generation_tokens_total = family_sum s ''vllm:generation_tokens_total'',
         em_requests_total = family_sum s ''vllm:request_success_total'',
         em_cache_hit_rate = metric_ratio hits queries,
         em_spec_accept_length = opt2 (\<lambda>d a. f_add (F_Fin 1) (f_div a d)) drafts accepted,
         em_spec_accept_rate = metric_ratio accepted draft_tokens,
         em_preemptions_total = family_sum s ''vllm:num_preemptions_total'',
         em_prefill_seconds_total = family_sum s ''vllm:request_prefill_time_seconds_sum'',
         em_request_seconds_total = family_sum s ''vllm:e2e_request_latency_seconds_sum'',
         em_context_len = None, em_slots = None\<rparr>)"

definition vllm_families :: "string list list" where
  "vllm_families =
    [[''vllm:time_to_first_token_seconds''],
     [''vllm:e2e_request_latency_seconds''],
     [''vllm:inter_token_latency_seconds'', ''vllm:time_per_output_token_seconds''],
     [''vllm:request_queue_time_seconds''],
     [''vllm:request_prompt_tokens''],
     [''vllm:request_generation_tokens'']]"

definition vllm_parse :: "string \<Rightarrow> EngineMetrics \<times> HistSet" where
  "vllm_parse text =
    (let s = prom_parse text in
     (vllm_metrics s, map (\<lambda>names. find_map (extract_histogram_named s) names) vllm_families))"

section \<open>TGI\<close>

definition tgi_parse :: "string \<Rightarrow> EngineMetrics \<times> HistSet" where
  "tgi_parse text =
    (let s = prom_parse text in
     (em_default\<lparr>em_running := family_sum s ''tgi_batch_current_size'',
        em_queued := family_sum s ''tgi_queue_size'',
        em_prompt_tokens_total := family_sum s ''tgi_request_input_length_sum'',
        em_generation_tokens_total := family_sum s ''tgi_request_generated_tokens_sum'',
        em_requests_total := family_sum s ''tgi_request_success'',
        em_request_seconds_total := family_sum s ''tgi_request_duration_sum''\<rparr>,
      [None,
       extract_histogram_named s ''tgi_request_duration'',
       extract_histogram_named s ''tgi_request_mean_time_per_token_duration'',
       extract_histogram_named s ''tgi_request_queue_duration'',
       extract_histogram_named s ''tgi_request_input_length'',
       extract_histogram_named s ''tgi_request_generated_tokens'']))"

section \<open>llama.cpp\<close>

definition llama_metrics :: "Series list \<Rightarrow> EngineMetrics" where
  "llama_metrics s =
    (let computed = family_sum s ''llamacpp:prompt_tokens_total'';
         cached = family_sum s ''llamacpp:prompt_tokens_cached_total'';
         drafts = keep positive (family_sum s ''llamacpp:spec_decode_num_drafts_total'');
         accepted = family_sum s ''llamacpp:spec_decode_num_accepted_tokens_total'';
         prompt_s = family_sum s ''llamacpp:prompt_seconds_total'';
         predict_s = family_sum s ''llamacpp:tokens_predicted_seconds_total'';
         prompt = map_option (\<lambda>c. f_add c (some_or (F_Fin 0) cached)) computed
     in em_default\<lparr>em_running := family_sum s ''llamacpp:requests_processing'',
          em_queued := family_sum s ''llamacpp:requests_deferred'',
          em_kv_usage := family_sum s ''llamacpp:kv_cache_usage_ratio'',
          em_prompt_tokens_total := prompt,
          em_cached_tokens_total := cached,
          em_computed_prompt_tokens_total := computed,
          em_generation_tokens_total := family_sum s ''llamacpp:tokens_predicted_total'',
          em_cache_hit_rate := metric_ratio cached prompt,
          em_spec_accept_length := opt2 (\<lambda>d a. f_add (F_Fin 1) (f_div a d)) drafts accepted,
          em_spec_accept_rate := metric_ratio accepted (family_sum s ''llamacpp:spec_decode_num_draft_tokens_total''),
          em_prefill_seconds_total := prompt_s,
          em_request_seconds_total := opt2 f_add prompt_s predict_s\<rparr>)"

definition llama_parse :: "string \<Rightarrow> EngineMetrics" where
  "llama_parse text = llama_metrics (prom_parse text)"

section \<open>Facts\<close>

lemma metric_keys: "map fst METRIC_FIELDS =
    [''running'', ''queued'', ''kv_usage'', ''kv_capacity'', ''decode_tok_s'', ''prefill_tok_s'', ''tokens'', ''requests'',
     ''cache_hit'', ''spec'', ''ttft'', ''itl'', ''e2e'', ''queue_time'', ''slots'', ''preemptions'']"
  by (simp add: METRIC_FIELDS_def)

lemma em_not_reported_iff: "k \<in> set (em_not_reported e h) \<longleftrightarrow> k \<in> fst ` set METRIC_FIELDS \<and> \<not> has_metric e h k"
  by (auto simp: em_not_reported_def)

lemma vllm_has_hists:
  "vllm_parse text = (m, h) \<Longrightarrow> length h = N_HIST"
  by (auto simp: vllm_parse_def Let_def vllm_families_def N_HIST_def)

lemma tgi_has_hists:
  "tgi_parse text = (m, h) \<Longrightarrow> length h = N_HIST"
  by (auto simp: tgi_parse_def Let_def N_HIST_def)

end
