(* ===== verification/HistoryClaims.thy ===== *)
theory HistoryClaims
  imports Query Pipeline Engines
begin

text \<open>
  The properties of the history: what a sample contributes, the tiers it is folded into, the plans and
  answers of \<open>/series\<close>, \<open>/hist\<close> and \<open>/gateway\<close>, and who counts as a user.
\<close>

section \<open>What a sample contributes\<close>

definition idle_sample :: "i64 \<Rightarrow> Sample" where
  "idle_sample t = \<lparr>sp_ts = t, sp_serve_up = True, sp_model = None, sp_metrics = None, sp_gpus_ok = True, sp_gpus = [],
     sp_serve_ct = None, sp_gate_ct = None, sp_gate = None, sp_log = log_delta_default, sp_users = [], sp_slots = 0,
     sp_engine = [], sp_not_reported = [''running''], sp_gate_absent = True, sp_gpu_source = []\<rparr>"

lemma preemptions_not_reported:
  "em_preemptions_total e = None \<Longrightarrow> ''preemptions'' \<in> set (em_not_reported e hists)"
proof -
  assume "em_preemptions_total e = None"
  then have "\<not> has_metric e hists ''preemptions''" by (simp add: has_metric_def)
  moreover have "''preemptions'' \<in> set (map fst METRIC_FIELDS)" unfolding metric_keys by simp
  ultimately show ?thesis by (simp add: em_not_reported_def)
qed

lemma retracted_zero_drawn:
  assumes "sp_metrics cur = Some (to_serve_metrics e)" "em_preemptions_total e = None"
  shows "(''kv_retracted'', F_Fin 0) \<in> set (sample_points prev cur)"
proof -
  have "sm_retracted (to_serve_metrics e) = F_Fin 0" using assms(2) by (simp add: to_serve_metrics_def finite_or_0_def)
  then show ?thesis using retracted_drawn [OF assms(1), of prev] by (simp add: f_bool_def)
qed

lemma evicted_zero_drawn:
  assumes "sp_metrics cur = Some (to_serve_metrics e)" "sp_metrics p = Some (to_serve_metrics before)"
    "sp_ts p < sp_ts cur" "sp_ts cur \<le> sp_ts p + 60"
  shows "(''tok_evicted'', F_Fin 0) \<in> set (sample_points (Some p) cur)"
  by (rule evicted_drawn [OF assms(1,2) _ _ _ assms(3,4)]) (simp_all add: to_serve_metrics_def comparable_def)

text \<open>C40. A number the engine does not report does not show in the series, with two exceptions. If the
  metrics of a sample and of the one before it change only in numbers whose keys the engine does not report,
  the points stay the same, except that \<open>kv_retracted\<close> is drawn from the preemption counter and
  \<open>sum_energy_serving_j\<close> from the number of running requests without asking (\<open>unguarded\<close>); for an
  engine that reports both, no point changes. Every point is finite. The exception is a defect, not a
  gap: an engine without a preemption counter has the key \<open>preemptions\<close> among those not reported and
  its series still says that nothing was pushed out, a zero; and every engine but SGLang gets a zero of
  evicted tokens, for which there is no key.\<close>

theorem unreported_numbers_do_not_show:
  assumes "alike (map fst METRIC_FIELDS) cur (m, pm) (n, pn)"
  shows "guarded_points cur (sample_points (Some (p\<lparr>sp_metrics := Some pm\<rparr>)) (cur\<lparr>sp_metrics := Some m\<rparr>)) =
      guarded_points cur (sample_points (Some (p\<lparr>sp_metrics := Some pn\<rparr>)) (cur\<lparr>sp_metrics := Some n\<rparr>)) \<and>
    (reported cur ''running'' \<and> reported cur ''preemptions'' \<longrightarrow>
      sample_points (Some (p\<lparr>sp_metrics := Some pm\<rparr>)) (cur\<lparr>sp_metrics := Some m\<rparr>) =
      sample_points (Some (p\<lparr>sp_metrics := Some pn\<rparr>)) (cur\<lparr>sp_metrics := Some n\<rparr>)) \<and>
    list_all (\<lambda>point. is_finite (snd point)) (sample_points prev cur) \<and>
    (em_preemptions_total e = None \<longrightarrow> ''preemptions'' \<in> set (em_not_reported e hists) \<and>
      (''kv_retracted'', F_Fin 0) \<in> set (sample_points prev
        (cur\<lparr>sp_metrics := Some (to_serve_metrics e), sp_not_reported := em_not_reported e hists\<rparr>))) \<and>
    (sp_ts p < sp_ts cur \<and> sp_ts cur \<le> sp_ts p + 60 \<longrightarrow>
      (''tok_evicted'', F_Fin 0) \<in> set (sample_points (Some (p\<lparr>sp_metrics := Some (to_serve_metrics before)\<rparr>))
        (cur\<lparr>sp_metrics := Some (to_serve_metrics e), sp_not_reported := em_not_reported e hists\<rparr>)))"
proof (intro conjI impI)
  have keys: "set SERIES_KEYS \<subseteq> set (map fst METRIC_FIELDS)" by (simp add: SERIES_KEYS_def metric_keys)
  show same: "guarded_points cur (sample_points (Some (p\<lparr>sp_metrics := Some pm\<rparr>)) (cur\<lparr>sp_metrics := Some m\<rparr>)) =
      guarded_points cur (sample_points (Some (p\<lparr>sp_metrics := Some pn\<rparr>)) (cur\<lparr>sp_metrics := Some n\<rparr>))"
    by (rule guarded_sample [OF assms keys])
  show "sample_points (Some (p\<lparr>sp_metrics := Some pm\<rparr>)) (cur\<lparr>sp_metrics := Some m\<rparr>) =
      sample_points (Some (p\<lparr>sp_metrics := Some pn\<rparr>)) (cur\<lparr>sp_metrics := Some n\<rparr>)"
    if "reported cur ''running'' \<and> reported cur ''preemptions''"
    using same that by (simp add: guarded_points_def unguarded_def)
  show "list_all (\<lambda>point. is_finite (snd point)) (sample_points prev cur)"
    using finite_sample_points unfolding finite_points_def list_all_iff .
  show "''preemptions'' \<in> set (em_not_reported e hists)" if "em_preemptions_total e = None"
    by (rule preemptions_not_reported [OF that])
  show "(''kv_retracted'', F_Fin 0) \<in> set (sample_points prev
        (cur\<lparr>sp_metrics := Some (to_serve_metrics e), sp_not_reported := em_not_reported e hists\<rparr>))"
    if "em_preemptions_total e = None"
    by (rule retracted_zero_drawn [OF _ that]) simp
  show "(''tok_evicted'', F_Fin 0) \<in> set (sample_points (Some (p\<lparr>sp_metrics := Some (to_serve_metrics before)\<rparr>))
        (cur\<lparr>sp_metrics := Some (to_serve_metrics e), sp_not_reported := em_not_reported e hists\<rparr>))"
    if "sp_ts p < sp_ts cur \<and> sp_ts cur \<le> sp_ts p + 60"
    by (rule evicted_zero_drawn [where e = e and before = before]) (use that in simp_all)
qed

text \<open>An engine that publishes its finished requests and nothing else.\<close>

definition requests_only :: "u64 \<Rightarrow> EngineMetrics" where
  "requests_only n = em_default\<lparr>em_requests_total := Some (f_of_nat n)\<rparr>"

definition counting_sample :: "i64 \<Rightarrow> Sample" where
  "counting_sample t = (idle_sample t)\<lparr>sp_not_reported := em_not_reported (requests_only 0) None\<rparr>"

theorem unreported_numbers_do_not_show_witness:
  "guarded_points (counting_sample 5)
      (sample_points (Some (counting_sample 0\<lparr>sp_metrics := Some (to_serve_metrics (requests_only 10))\<rparr>))
        (counting_sample 5\<lparr>sp_metrics := Some (to_serve_metrics (requests_only 12))\<rparr>)) =
    guarded_points (counting_sample 5)
      (sample_points (Some (counting_sample 0\<lparr>sp_metrics := Some (to_serve_metrics (requests_only 10))\<rparr>))
        (counting_sample 5\<lparr>sp_metrics := Some ((to_serve_metrics (requests_only 12))
           \<lparr>sm_running := F_Fin 7, sm_queue := F_Fin 2, sm_retracted := F_Fin 3\<rparr>)\<rparr>)) \<and>
   (''kv_retracted'', F_Fin 0) \<in> set (sample_points (Some (counting_sample 0))
     (counting_sample 5\<lparr>sp_metrics := Some (to_serve_metrics (requests_only 12)),
       sp_not_reported := em_not_reported (requests_only 12) None\<rparr>))"
proof -
  have "alike (map fst METRIC_FIELDS) (counting_sample 5)
      (to_serve_metrics (requests_only 12), to_serve_metrics (requests_only 10))
      ((to_serve_metrics (requests_only 12))\<lparr>sm_running := F_Fin 7, sm_queue := F_Fin 2, sm_retracted := F_Fin 3\<rparr>,
       to_serve_metrics (requests_only 10))"
    by (simp add: alike_def metric_keys reported_def counting_sample_def em_not_reported_def has_metric_def
        requests_only_def em_default_def key_numbers_def to_serve_metrics_def comparable_def kv_usage_def)
  moreover have "em_preemptions_total (requests_only 12) = None" by (simp add: requests_only_def em_default_def)
  ultimately show ?thesis
    using unreported_numbers_do_not_show
      [where p = "counting_sample 0" and prev = "Some (counting_sample 0)" and e = "requests_only 12" and hists = None]
    by blast
qed

section \<open>The tiers\<close>

text \<open>C17. The roller books every point exactly once, in the bucket of its time: what it hands out (the last
  flush included) is one batch per group of consecutive samples of a bucket, every batch starts on a
  multiple of the resolution, no point is lost or reordered by the grouping, and the row of a
  metric is the aggregate of the values it had in the bucket. With times that do not step back, no
  bucket is handed out twice.\<close>

theorem roller_books_every_point_once:
  assumes "0 < res"
  shows "List.map_filter id (roller_run (roller_new res) ins) = List.map_filter (batch_of res) (bucket_groups res ins) \<and>
    concat (map snd (bucket_groups res ins)) = concat (map snd ins) \<and>
    list_all (\<lambda>g. res dvd fst g) (bucket_groups res ins) \<and>
    list_all (\<lambda>g. \<forall>b name. batch_of res g = Some b \<longrightarrow>
      rb_ts b = fst g \<and> bt_get name (rb_rows b) = agg_of (values_of name (snd g))) (bucket_groups res ins) \<and>
    (sorted (map fst ins) \<longrightarrow> sorted_wrt (<) (map fst (bucket_groups res ins)))"
proof (intro conjI)
  show "list_all (\<lambda>g. \<forall>b name. batch_of res g = Some b \<longrightarrow>
      rb_ts b = fst g \<and> bt_get name (rb_rows b) = agg_of (values_of name (snd g))) (bucket_groups res ins)"
    using put_points by (auto simp: list_all_iff batch_of_def)
  show "sorted (map fst ins) \<longrightarrow> sorted_wrt (<) (map fst (bucket_groups res ins))"
    using bucket_groups_increasing [OF assms] by blast
qed (rule roller_run_groups bucket_groups_points bucket_groups_aligned [OF assms])+

theorem roller_books_every_point_once_witness:
  "concat (map snd (bucket_groups 60 [(0, [(''queue'', F_Fin 1)]), (59, [(''queue'', F_Fin 3)]), (60, [])])) =
   [(''queue'', F_Fin 1), (''queue'', F_Fin 3)]"
  using roller_books_every_point_once [of 60 "[(0, [(''queue'', F_Fin 1)]), (59, [(''queue'', F_Fin 3)]), (60, [])]"]
  by simp

text \<open>C9. The gate's log survives the pipeline: after any samples, the records in the buckets written to the
  database and in the bucket still open are together the records the samples brought, and the same
  holds for the count of every status code of a lane.\<close>

theorem pipeline_keeps_every_record:
  assumes "list_all (\<lambda>(s, h). delta_ok (sp_log s)) ss"
  shows "sum_list (map delta_records (open_log (fst (pipeline_run pipeline_default ss)))) +
      sum_list (map delta_records (gate_logs (snd (pipeline_run pipeline_default ss)))) =
    sum_list (map (\<lambda>(s, h). delta_records (sp_log s)) ss) \<and>
    sum_list (map (\<lambda>d. status_count (lane_of pub d) code) (open_log (fst (pipeline_run pipeline_default ss)))) +
      sum_list (map (\<lambda>d. status_count (lane_of pub d) code) (gate_logs (snd (pipeline_run pipeline_default ss)))) =
    sum_list (map (\<lambda>(s, h). status_count (lane_of pub (sp_log s)) code) ss)"
proof -
  have "list_all delta_ok (open_log pipeline_default)" "open_log pipeline_default = []"
    by (simp_all add: open_log_def pipeline_default_def)
  then show ?thesis
    using records.pipeline_run_count [OF _ assms, of pipeline_default]
      codes.pipeline_run_count [OF _ assms, of pipeline_default pub code]
    by (simp add: records.total_count_def codes.total_count_def)
qed

definition one_record :: AuditRecord where
  "one_record = \<lparr>ar_caller = ''public'', ar_key = None, ar_method = ''POST'', ar_path = [], ar_model = None, ar_verdict = [],
     ar_status = 200, ar_ip = None, ar_estimated_tokens = None, ar_est_tokens = None, ar_completion_tokens = None,
     ar_completion_exact = None, ar_dur_ms = None, ar_ttfb_ms = None, ar_bench = None\<rparr>"

definition logged_sample :: "i64 \<Rightarrow> Sample" where
  "logged_sample t = (idle_sample t)\<lparr>sp_log := log_delta_add log_delta_default one_record\<rparr>"

theorem pipeline_keeps_every_record_witness:
  "sum_list (map delta_records (open_log (fst (pipeline_run pipeline_default
      [(logged_sample 0, None), (logged_sample 600, None)])))) +
    sum_list (map delta_records (gate_logs (snd (pipeline_run pipeline_default
      [(logged_sample 0, None), (logged_sample 600, None)])))) = 2"
  using pipeline_keeps_every_record [of "[(logged_sample 0, None), (logged_sample 600, None)]"]
    delta_ok_add [OF delta_ok_default, of one_record] delta_records_add [of log_delta_default one_record]
    by_record.tells_empty
  by (simp add: logged_sample_def)

section \<open>The plans\<close>

text \<open>An answer of \<open>/series\<close> covers its range within the limit of points: the range is at least a
  minute and within the retention, there are between 1 and 600 points, whole steps of the tier at
  least as long as the one asked for, just enough of them to reach back over the range, and the last
  one holds the present.\<close>

theorem plan_covers_its_range:
  assumes "sane_request now step retention"
  shows "60 \<le> pl_range_s (plan now range0 step retention) \<and>
    pl_range_s (plan now range0 step retention) \<le> max (snd (snd retention)) 60 \<and>
    1 \<le> pl_points (plan now range0 step retention) \<and> pl_points (plan now range0 step retention) \<le> MAX_POINTS \<and>
    tier_res (pl_tier (plan now range0 step retention)) dvd pl_step_s (plan now range0 step retention) \<and>
    (\<forall>s. step = Some s \<longrightarrow> s \<le> pl_step_s (plan now range0 step retention)) \<and>
    pl_range_s (plan now range0 step retention) \<le>
      pl_points (plan now range0 step retention) * pl_step_s (plan now range0 step retention) \<and>
    now < pl_start_ts (plan now range0 step retention) +
      pl_points (plan now range0 step retention) * pl_step_s (plan now range0 step retention) \<and>
    pl_start_ts (plan now range0 step retention) +
      pl_points (plan now range0 step retention) * pl_step_s (plan now range0 step retention) \<le>
      now + pl_step_s (plan now range0 step retention)"
  using plan_range_bounds [of range0 retention] plan_count(2,3) [OF assms, of range0] plan_step [OF assms, of range0]
    plan_covers(1,3,4) [OF assms, of range0]
  by (auto simp: plan_fields(1) plan_want_def)

theorem plan_covers_its_range_witness:
  "pl_points (plan 1000000 86400 None (86400, 1209600, 7776000)) \<le> MAX_POINTS"
  using plan_covers_its_range [of 1000000 None "(86400, 1209600, 7776000)" 86400] by (simp add: sane_request_def)

text \<open>The builder folds every row into the cell of its time: in the answer, the value of a token at
  step i is the aggregate (the one the token asks for) of exactly the rows of its metric whose time lies in
  that step, in the order they were read, and a step without rows is a gap.\<close>

theorem cells_hold_their_rows:
  assumes "token \<in> set tokens"
  shows "doc_get (builder_finish (builder_run p tokens rows) now) token =
    map (\<lambda>i. map_option (\<lambda>a. round4s (agg_pick a (snd (parse_metric_token token))))
      (cell_of (rows_at p (fst (parse_metric_token token)) i rows))) [0 ..< nat (pl_points p)]"
  using assms by (rule series_answer)

definition two_steps :: Plan where
  "two_steps = \<lparr>pl_tier = T_M1, pl_range_s = 120, pl_step_s = 60, pl_start_ts = 0, pl_points = 2\<rparr>"

theorem cells_hold_their_rows_witness:
  "doc_get (builder_finish (builder_run two_steps [''queue''] [(''queue'', 70, agg_one (F_Fin 3))]) 120) ''queue'' =
    [None, Some (round4s (F_Fin 3))]"
proof -
  have q: "parse_metric_token ''queue'' = (''queue'', Agg_Max)"
    by (simp add: parse_metric_token_def rsplit_colon_def Let_def default_agg_def SPIKY_def)
  show ?thesis
    using cells_hold_their_rows [of "''queue''" "[''queue'']" two_steps "[(''queue'', 70, agg_one (F_Fin 3))]" 120]
    unfolding q
    by (simp add: two_steps_def rows_at_def builder_index_def Let_def signed_divide_int_def cell_of_def put_cell_def
        agg_one_def upt_rec)
qed

text \<open>Every series of an answer is aligned: a \<open>/series\<close> request that is answered asked for at most 128
  tokens with a valid range and step, and every token it asked for has exactly one value per step of the
  plan, from the plan's start.\<close>

theorem answers_are_aligned:
  assumes "series_handler db now q retention = Answer (SA_Doc d)" "token \<in> set (wanted_tokens q)"
  shows "\<exists>range_s step. range_of q = Some range_s \<and> step_of q = Answer step \<and> length (wanted_tokens q) \<le> MAX_TOKENS \<and>
    length (doc_get d token) = nat (pl_points (plan now range_s step (keep_of retention))) \<and>
    sd_start_ts d = pl_start_ts (plan now range_s step (keep_of retention)) \<and>
    sd_step_s d = pl_step_s (plan now range_s step (keep_of retention))"
  using assms by (rule series_aligned)

definition empty_db :: Db where
  "empty_db = \<lparr>db_metric_names = Some [], db_rollup_rows = (\<lambda>res n a b. Some ([], False)), db_samples = (\<lambda>a b. Some []),
     db_probes_between = (\<lambda>a b. Some []), db_hist_rows = (\<lambda>res m a b. Some []), db_each_gatelog = (\<lambda>a b. Some [])\<rparr>"

definition keep_days :: Retention where
  "keep_days = \<lparr>re_raw = 86400, re_m1 = 1209600, re_m10 = 7776000\<rparr>"

lemma empty_db_answers: "db_answers empty_db"
  by (simp add: db_answers_def empty_db_def)

theorem answers_are_aligned_witness:
  "\<exists>d. series_handler empty_db 1000000 [(''metrics'', ''queue'')] keep_days = Answer (SA_Doc d) \<and>
    length (doc_get d ''queue'') = nat (pl_points (plan 1000000 3600 None (keep_of keep_days)))"
proof -
  let ?q = "[(''metrics'', ''queue'')]"
  have q: "wanted_tokens ?q = [''queue'']" "range_of ?q = Some 3600" "step_of ?q = Answer None"
    by (simp_all add: wanted_tokens_def param_def trim_def trim_start_by_def trim_end_by_def is_ws_def
        range_of_def DEFAULT_RANGE_def step_of_def)
  obtain b where "series_build empty_db 1000000 (plan 1000000 3600 None (keep_of keep_days)) [''queue''] = Some b"
    using series_build_some [OF empty_db_answers] by blast
  then have h: "series_handler empty_db 1000000 ?q keep_days = Answer (SA_Doc (builder_finish b 1000000))"
    using q by (simp add: series_handler_def MAX_TOKENS_def keep_of_def)
  show ?thesis
    using answers_are_aligned [OF h, of "''queue''"] h q by (intro exI [of _ "builder_finish b 1000000"]) auto
qed

text \<open>C18. A histogram request with a range that multiplies to zero in 64 bits takes the handler down: the
  range passes the check for positive numbers before it is multiplied, and the plan divides by a step of
  zero. Any request whose range stays positive is answered.\<close>

theorem hist_request_can_panic:
  "(0 \<le> re_m10 retention \<longrightarrow> hist_handler db now
      [(''metric'', ''ttft''), (''range'', ''144115188075855872d'')] retention = None) \<and>
   (range_of q = Some r \<and> 0 < min r (re_m10 retention) \<longrightarrow> hist_handler db now q retention \<noteq> None)"
  using hist_panics [of retention db now] hist_answers [of q r retention db now] by (auto simp: evil_query_def)

theorem hist_request_can_panic_witness:
  "hist_handler empty_db 1000000 [(''metric'', ''ttft''), (''range'', ''144115188075855872d'')] keep_days = None \<and>
   hist_handler empty_db 1000000 [(''metric'', ''ttft'')] keep_days \<noteq> None"
  using hist_request_can_panic [of keep_days empty_db 1000000 "[(''metric'', ''ttft'')]" 3600]
  by (simp add: keep_days_def range_of_def DEFAULT_RANGE_def param_def)

section \<open>The gateway and its users\<close>

text \<open>C19. The gateway's tables account for every request, those of logs stored before the status codes were
  kept per key included: the public lane shows all inference requests of the logs in the range; the trusted
  lane shows all but the collector's own probes, whose number is in the document; of every status code
  exactly as many probes are taken out as were sent, or as many as the logs hold if that is fewer, so a
  probe the logs do not hold is not taken out; and the document says that the codes cover the whole range
  only if every lane of every log has all its requests with a key and a code.\<close>

theorem gateway_accounts_for_every_request:
  assumes "gateway_handler db now q retention open_bucket ip = Answer doc"
    "gateway_logs db now (gd_range_s doc) open_bucket = Some logs" "list_all (\<lambda>td. delta_counted (snd td)) logs"
    "db_probes_between db (now - gd_range_s doc + 1) (now + 1) = Some ps"
  shows "\<exists>pub trusted. gd_lanes doc = [pub, trusted] \<and>
      gr_requests pub = sum_list (map (\<lambda>td. ll_requests (ld_public (snd td))) logs) \<and>
      gr_requests trusted + gd_probes_excluded doc = sum_list (map (\<lambda>td. ll_requests (ld_trusted (snd td))) logs) \<and>
      gd_probes_excluded doc = (\<Sum>code\<in>set (probe_codes ps).
        min (sum_list (map (\<lambda>td. status_count (ld_trusted (snd td)) code) logs)) (count_list (probe_codes ps) code)) \<and>
      (gd_codes_coverage doc = ''full'' \<longleftrightarrow>
        list_all (\<lambda>td. lane_known (ld_public (snd td)) \<and> lane_known (ld_trusted (snd td))) logs)"
  using assms by (rule gateway_accounts)

text \<open>An hour with a log stored before the codes were kept per key, one counted since, and three probes, one
  of them with a code that no log holds.\<close>

definition old_log :: LogDelta where
  "old_log = log_delta_default\<lparr>ld_trusted := lane_log_default
     \<lparr>ll_requests := 4, ll_by_status := [(200, 3), (503, 1)], ll_by_key := [(NO_KEY, 4)]\<rparr>\<rparr>"

definition new_log :: LogDelta where
  "new_log = log_delta_add (log_delta_add log_delta_default one_record) (one_record\<lparr>ar_caller := ''trusted''\<rparr>)"

definition probe_answered :: "i64 \<Rightarrow> nat \<Rightarrow> ProbeRecord" where
  "probe_answered t code = \<lparr>pr_ts = t, pr_status = ''ok'', pr_ttft_ms = None, pr_decode_tok_s = None, pr_tokens = None,
     pr_detail = [], pr_http_status = Some code, pr_valid = True, pr_invalid_reason = None, pr_unverified = False\<rparr>"

definition mixed_db :: Db where
  "mixed_db = empty_db
     \<lparr>db_samples := (\<lambda>a b. Some [(idle_sample a)\<lparr>sp_log := old_log\<rparr>, (idle_sample (b - 60))\<lparr>sp_log := new_log\<rparr>]),
      db_probes_between := (\<lambda>a b. Some [probe_answered a 200, probe_answered (a + 5) 503, probe_answered (b - 60) 429])\<rparr>"

lemma old_log_facts:
  "delta_counted old_log" "ll_requests (ld_public old_log) = 0" "ll_requests (ld_trusted old_log) = 4"
  "status_count (ld_trusted old_log) 200 = 3" "status_count (ld_trusted old_log) 503 = 1"
  "status_count (ld_trusted old_log) 429 = 0" "\<not> lane_known (ld_trusted old_log)"
  by (simp_all add: old_log_def log_delta_default_def lane_log_default_def delta_counted_def lane_counted_def
      codes_total_def bt_invar_def status_count_def bt_get_or_def bt_get_def lane_known_def lane_coded_def)

lemma new_log_facts:
  "delta_counted new_log" "ll_requests (ld_public new_log) = 1" "ll_requests (ld_trusted new_log) = 1"
  "status_count (ld_trusted new_log) code = (if code = 200 then 1 else 0)"
proof -
  show "delta_counted new_log"
    unfolding new_log_def by (intro delta_ok_counted delta_ok_add delta_ok_default)
  show "ll_requests (ld_public new_log) = 1" "ll_requests (ld_trusted new_log) = 1"
    by (simp_all add: new_log_def log_delta_add_def one_record_def lane_add_def lane_count_def Let_def
        log_delta_default_def lane_log_default_def)
  have "ld_trusted new_log = lane_add (one_record\<lparr>ar_caller := ''trusted''\<rparr>) lane_log_default"
    by (simp add: new_log_def log_delta_add_def one_record_def log_delta_default_def)
  moreover have "status_count lane_log_default code = 0"
    by (simp add: lane_log_default_def status_count_def bt_get_or_def bt_get_def)
  ultimately show "status_count (ld_trusted new_log) code = (if code = 200 then 1 else 0)"
    using status_add [OF lane_ok_default] by (simp add: one_record_def)
qed

theorem gateway_accounts_for_every_request_witness:
  "\<exists>doc pub trusted. gateway_handler mixed_db 1000000 [] keep_days None None = Answer doc \<and> gd_lanes doc = [pub, trusted] \<and>
    gr_requests pub = 1 \<and> gr_requests trusted = 3 \<and> gd_probes_excluded doc = 2 \<and> gd_codes_coverage doc \<noteq> ''full''"
proof -
  obtain doc where d: "gateway_handler mixed_db 1000000 [] keep_days None None = Answer doc" "gd_range_s doc = 3600"
    by (simp add: gateway_handler_def range_of_def param_def DEFAULT_RANGE_def keep_days_def gateway_logs_def mixed_db_def
        build_gateway_def Let_def case_prod_beta)
  have logs: "gateway_logs mixed_db 1000000 (gd_range_s doc) None = Some [(996401, old_log), (999941, new_log)]"
    unfolding d(2) by (simp add: gateway_logs_def mixed_db_def Let_def idle_sample_def)
  have ps: "db_probes_between mixed_db (1000000 - gd_range_s doc + 1) (1000000 + 1) =
      Some [probe_answered 996401 200, probe_answered 996406 503, probe_answered 999941 429]"
    unfolding d(2) by (simp add: mixed_db_def)
  have codes: "probe_codes [probe_answered 996401 200, probe_answered 996406 503, probe_answered 999941 429] = [200, 503, 429]"
    by (simp add: probe_codes_def List.map_filter_simps gate_logged_status_def probe_answered_def)
  have counted: "list_all (\<lambda>td. delta_counted (snd td)) [(996401, old_log), (999941, new_log)]"
    using old_log_facts(1) new_log_facts(1) by simp
  from gateway_accounts_for_every_request [OF d(1) logs counted ps] d(1) show ?thesis
    unfolding codes by (auto simp: old_log_facts new_log_facts)
qed
text \<open>The collector's own traffic is not a user: the benchmark is in no row, the address of the probe is
  in a row only with what is left after its probes are taken out, the number of active users is the
  number of real users with a request in flight, and at most 50 rows are shown, the busiest first.\<close>

theorem own_traffic_is_not_a_user:
  assumes "gah_users g = Some users"
  shows "list_all (\<lambda>r. \<exists>u \<in> set users. \<not> is_bench_user u \<and>
      (if is_probe_address own u then ur_gate r = rest_of own u \<and> (0 < gu_requests_24h (ur_gate r) \<or> 0 < gu_inflight u)
       else ur_gate r = u)) (us_rows (build_users (Some g) aliases tailscale own now)) \<and>
    us_active_now (build_users (Some g) aliases tailscale own now) =
      length (filter (\<lambda>u. \<not> is_bench_user u \<and> 0 < gu_inflight u) users) \<and>
    sorted_wrt row_le (us_rows (build_users (Some g) aliases tailscale own now)) \<and>
    length (us_rows (build_users (Some g) aliases tailscale own now)) \<le> 50"
  using rows_are_users [OF assms] active_now_exact [OF assms] rows_ordered [OF assms] unfolding list_all_iff by blast

definition some_user :: "string \<Rightarrow> u64 \<Rightarrow> GateUser" where
  "some_user name inflight = (ur_gate (probe_row \<lparr>ow_probe_user = None, ow_probes_1h = 0, ow_probes_24h = 0\<rparr> 0
     \<lparr>gu_lane = ''trusted'', gu_user = name, gu_inflight = inflight, gu_peak_inflight_10m = 0,
       gu_peak_inflight_24h = 0, gu_conc_limit = None, gu_rpm_limit = None, gu_rpm_now = 0,
       gu_requests_1h = 0, gu_requests_24h = 0, gu_ok_24h = 0,
       gu_rejected_24h = 0, gu_errors_24h = 0, gu_client_closed_24h = 0, gu_prompt_tokens_est_24h = 0,
       gu_completion_tokens_24h = 0, gu_completion_tokens_exact = True, gu_inflight_prompt_tokens_est = 0,
       gu_first_seen = F_Fin 0, gu_last_seen = F_Fin 0, gu_last_status = None,
       gu_by_upstream = []\<rparr>))\<lparr>gu_user := name, gu_inflight := inflight\<rparr>"

definition two_users :: GateHealth where
  "two_users = \<lparr>gah_version = [], gah_upstream_ok = True, gah_trusted = lane_default, gah_public = lane_default,
     gah_shadow = None, gah_users = Some [some_user BENCH_USER 5, some_user ''10.0.0.1'' 2], gah_totals = None,
     gah_attributed_upstreams = None, gah_upstream_loaded = []\<rparr>"

theorem own_traffic_is_not_a_user_witness:
  "us_active_now (build_users (Some two_users) [] []
     \<lparr>ow_probe_user = Some ''127.0.0.1'', ow_probes_1h = 1, ow_probes_24h = 3\<rparr> 1000) = 1"
  using own_traffic_is_not_a_user [of two_users "[some_user BENCH_USER 5, some_user ''10.0.0.1'' 2]"]
  by (simp add: two_users_def is_bench_user_def some_user_def probe_row_def BENCH_USER_def)

end
