(* ===== verification/BenchSafetyFacts.thy ===== *)
theory BenchSafetyFacts
  imports BenchSafety
begin

text \<open>
  What the safety of a benchmark promises: a quiet scorecard is a proof that every poll saw nobody else,
  a benchmark alone on the server never stops itself, and a stranger is seen.
\<close>

section \<open>A quiet scorecard\<close>

definition poll_run :: "(SafetyObs \<times> u32) list \<Rightarrow> LoadSampler" where
  "poll_run polls = foldl (\<lambda>s (o1, k). sampler_push s o1 k) sampler_default polls"

definition poll_source :: "SafetyObs \<times> u32 \<Rightarrow> string" where
  "poll_source p = (case foreign_now (fst p) (snd p) of None \<Rightarrow> LOAD_SRC_NONE | Some (_, src) \<Rightarrow> src)"

definition poll_traffic :: "SafetyObs \<times> u32 \<Rightarrow> bool" where
  "poll_traffic p = (case foreign_now (fst p) (snd p) of None \<Rightarrow> False | Some (n, _) \<Rightarrow> f_ge n HALF)"

lemma sampler_push_fields:
  "ls_samples (sampler_push s o1 k) = ls_samples s + 1"
  "ls_weakest (sampler_push s o1 k) = weaker (poll_source (o1, k)) (ls_weakest s)"
  "ls_polls_with_traffic (sampler_push s o1 k) = ls_polls_with_traffic s + (if poll_traffic (o1, k) then 1 else 0)"
  by (auto simp: sampler_push_def Let_def see_foreign_def see_queue_def poll_source_def poll_traffic_def
      split: option.splits prod.splits)

lemma weaker_rank: "weaker src w = Some v \<Longrightarrow> source_rank v \<le> source_rank src \<and>
    (\<forall>u. w = Some u \<longrightarrow> source_rank v \<le> source_rank u)"
  by (auto simp: weaker_def split: option.splits if_splits)

lemma poll_run_snoc: "poll_run (ps @ [p]) = sampler_push (poll_run ps) (fst p) (snd p)"
  by (simp add: poll_run_def case_prod_beta)

lemma poll_run_counts:
  "ls_samples (poll_run ps) = length ps"
  "ls_polls_with_traffic (poll_run ps) = length (filter poll_traffic ps)"
  by (induction ps rule: rev_induct)
    (simp_all add: poll_run_snoc sampler_push_fields, simp_all add: poll_run_def sampler_default_def)

lemma poll_run_weakest:
  "ls_weakest (poll_run ps) = Some w \<Longrightarrow> p \<in> set ps \<Longrightarrow> source_rank w \<le> source_rank (poll_source p)"
proof (induction ps arbitrary: w rule: rev_induct)
  case (snoc q qs)
  have w: "weaker (poll_source q) (ls_weakest (poll_run qs)) = Some w"
    using snoc.prems(1) by (simp add: poll_run_snoc sampler_push_fields)
  show ?case
  proof (cases "p = q")
    case True
    then show ?thesis using weaker_rank [OF w] by simp
  next
    case False
    then have mem: "p \<in> set qs" using snoc.prems(2) by simp
    show ?thesis
    proof (cases "ls_weakest (poll_run qs)")
      case None
      have "ls_weakest (poll_run qs) \<noteq> None"
        using mem by (cases qs rule: rev_cases)
          (auto simp: poll_run_snoc sampler_push_fields weaker_def split: option.splits)
      then show ?thesis using None by simp
    next
      case (Some u)
      then have "source_rank w \<le> source_rank u" using weaker_rank [OF w] by blast
      also have "\<dots> \<le> source_rank (poll_source p)" using snoc.IH [OF Some mem] .
      finally show ?thesis .
    qed
  qed
qed simp

lemma foreign_source: "foreign_now o1 k = Some (n, src) \<Longrightarrow> src \<in> {LOAD_SRC_USERS, LOAD_SRC_LANES, LOAD_SRC_ENGINE}"
  by (auto simp: foreign_now_def Let_def split: option.splits)

lemma quiet_is_proof:
  assumes "sampler_finish (poll_run ps) v = Some b" "load_class b = LC_Quiet" "p \<in> set ps"
  shows "\<exists>n src. foreign_now (fst p) (snd p) = Some (n, src) \<and> src \<in> {LOAD_SRC_USERS, LOAD_SRC_LANES} \<and> \<not> f_ge n HALF"
proof -
  have src: "bl_source b = (case ls_weakest (poll_run ps) of None \<Rightarrow> LOAD_SRC_NONE | Some w \<Rightarrow> w)"
    and polls: "bl_polls_with_traffic b = length (filter poll_traffic ps)"
    using assms(1) by (auto simp: sampler_finish_def Let_def poll_run_counts split: if_splits)
  have rank: "2 \<le> source_rank (bl_source b)" and none: "bl_polls_with_traffic b = 0"
    using assms(2) by (auto simp: load_class_def Let_def split: if_splits)
  obtain w where w: "ls_weakest (poll_run ps) = Some w" "2 \<le> source_rank w"
    using src rank by (cases "ls_weakest (poll_run ps)") auto
  have "2 \<le> source_rank (poll_source p)" using poll_run_weakest [OF w(1) assms(3)] w(2) by simp
  moreover have "\<not> poll_traffic p" using none polls assms(3) by (auto simp: filter_empty_conv)
  ultimately show ?thesis
    using foreign_source [of "fst p" "snd p"]
    by (auto simp: poll_source_def poll_traffic_def split: option.splits prod.splits)
qed

section \<open>Who is on the server\<close>

text \<open>
  The requests on the server, of the benchmark and of others, and what the poll sees of them: a request
  without a priority is counted in the lane that carries the engine's default, a request of the gateway's
  trusted port in the trusted lane, and the user table knows the benchmark's own gateway requests.
\<close>

record Requests =
  rq_direct :: nat
  rq_via_gate :: nat
  rq_others_public :: nat
  rq_others_trusted :: nat
  rq_others_direct :: nat

definition rq_all :: "Requests \<Rightarrow> nat" where
  "rq_all r = rq_direct r + rq_via_gate r + rq_others_public r + rq_others_trusted r + rq_others_direct r"

definition in_public :: "OwnLane \<Rightarrow> Requests \<Rightarrow> nat" where
  "in_public lane r = rq_others_public r + (if lane = OL_Public then rq_direct r + rq_others_direct r else 0)"

definition in_trusted :: "OwnLane \<Rightarrow> Requests \<Rightarrow> nat" where
  "in_trusted lane r = rq_others_trusted r + rq_via_gate r +
     (if lane = OL_Trusted then rq_direct r + rq_others_direct r else 0)"

definition seen_as :: "bool \<Rightarrow> OwnLane \<Rightarrow> u64 \<Rightarrow> Requests \<Rightarrow> SafetyObs" where
  "seen_as user_table lane own r =
    \<lparr>so_running = Some (f_of_nat (rq_all r)), so_queue = Some (F_Fin 0),
     so_gateway_public = Some (f_of_nat (in_public lane r)), so_gateway_trusted = Some (f_of_nat (in_trusted lane r)),
     so_other_users_inflight = (if user_table then Some (rq_others_public r + rq_others_trusted r) else None),
     so_own_gateway_inflight = own, so_own_lane = lane\<rparr>"

lemma f_nats:
  "m < 2 ^ 52 \<Longrightarrow> n < 2 ^ 52 \<Longrightarrow> f_add (f_of_nat m) (f_of_nat n) = f_of_nat (m + n)"
  "m < 2 ^ 52 \<Longrightarrow> f_ge (f_of_nat m) HALF \<longleftrightarrow> 1 \<le> m"
proof -
  assume b: "m < 2 ^ 52" "n < 2 ^ 52"
  then have lt: "m < 2 ^ 53" "n < 2 ^ 53" "m + n < 2 ^ 53" by simp_all
  show "f_add (f_of_nat m) (f_of_nat n) = f_of_nat (m + n)"
    by (simp only: f_of_nat_exact [OF lt(1)] f_of_nat_exact [OF lt(2)] f_add_Fin) (simp add: f_of_nat_def)
next
  assume b: "m < 2 ^ 52"
  have "(1 / 2 :: rat) \<le> of_nat m \<longleftrightarrow> 1 \<le> m"
  proof
    assume "(1 / 2 :: rat) \<le> of_nat m"
    then have "m \<noteq> 0" by (cases m) auto
    then show "1 \<le> m" by simp
  qed (use of_nat_mono [of 1 m, where 'a = rat] in simp)
  then show "f_ge (f_of_nat m) HALF \<longleftrightarrow> 1 \<le> m"
    using b by (simp add: f_of_nat_exact HALF_def)
qed

lemma excess_nats:
  assumes "m < 2 ^ 52" "n < 2 ^ 52"
  shows "f_max (f_sub (f_of_nat m) (f_of_nat n)) (F_Fin 0) = f_of_nat (m - n)"
proof (cases "n \<le> m")
  case True
  then have "f_sub (f_of_nat m) (f_of_nat n) = F_Fin (of_nat (m - n))"
    using assms rnd_of_nat [of "m - n"] by (simp add: f_of_nat_exact f_sub_Fin of_nat_diff)
  then show ?thesis using assms by (simp add: f_of_nat_exact f_max_def)
next
  case False
  then have "rnd (of_nat (n - m)) = F_Fin (of_nat (n - m))" using assms by (intro rnd_of_nat) simp
  moreover have "(of_nat m - of_nat n :: rat) = - of_nat (n - m)" using False by (simp add: of_nat_diff)
  moreover have "(of_nat (n - m) :: rat) \<noteq> 0" using False by simp
  ultimately have "f_sub (f_of_nat m) (f_of_nat n) = f_neg (F_Fin (of_nat (n - m)))"
    using assms rnd_minus [of "of_nat (n - m)"] by (simp add: f_of_nat_exact f_sub_Fin)
  then show ?thesis using assms False by (simp add: f_of_nat_exact f_max_def)
qed

text \<open>The benchmark's bound on its own load holds, and no count is near the precision of \<open>f64\<close>.\<close>

definition bench_bound :: "u32 \<Rightarrow> u64 \<Rightarrow> Requests \<Rightarrow> bool" where
  "bench_bound k own r \<longleftrightarrow> rq_direct r \<le> k \<and> rq_via_gate r \<le> own \<and> k + own < 2 ^ 50 \<and> rq_all r < 2 ^ 50"

lemma seen_bench_inflight: "bench_bound k own r \<Longrightarrow> bench_inflight (seen_as t lane own r) k = f_of_nat (k + own)"
  by (simp add: bench_inflight_def seen_as_def bench_bound_def f_nats)

lemma seen_foreign:
  assumes "bench_bound k own r"
  shows "foreign_now (seen_as t lane own r) k =
    (if t then Some (f_of_nat (rq_others_public r + rq_others_trusted r), LOAD_SRC_USERS)
     else Some (f_of_nat (case lane of
         OL_Trusted \<Rightarrow> in_public lane r + (in_trusted lane r - (k + own))
       | OL_Public \<Rightarrow> (in_public lane r - (k + own)) + in_trusted lane r
       | OL_Neither \<Rightarrow> in_public lane r + in_trusted lane r), LOAD_SRC_LANES))"
proof -
  have "in_public lane r \<le> rq_all r" "in_trusted lane r \<le> rq_all r"
    by (auto simp: in_public_def in_trusted_def rq_all_def)
  then have b: "in_public lane r < 2 ^ 52" "in_trusted lane r < 2 ^ 52" "k + own < 2 ^ 52"
    using assms by (simp_all add: bench_bound_def)
  then have d: "in_public lane r - (k + own) < 2 ^ 52" "in_trusted lane r - (k + own) < 2 ^ 52" by simp_all
  show ?thesis
    using seen_bench_inflight [OF assms, of t lane] f_nats(1) [OF b(1) d(2)] f_nats(1) [OF d(1) b(2)]
      f_nats(1) [OF b(1,2)] excess_nats [OF b(1,3)] excess_nats [OF b(2,3)]
    by (auto simp: foreign_now_def seen_as_def Let_def split: OwnLane.split)
qed

lemma seen_engine:
  assumes "bench_bound k own r"
  shows "engine_reason (seen_as t lane own r) k \<noteq> None \<longleftrightarrow> k + own < rq_all r"
proof -
  have b: "k + own < 2 ^ 53" "rq_all r < 2 ^ 53" using assms by (simp_all add: bench_bound_def)
  have half: "f_add (f_of_nat (k + own)) HALF = F_Fin (of_nat (k + own) + 1 / 2)"
  proof -
    have grid: "(of_nat (k + own) + 1 / 2 :: rat) = of_int (2 * int (k + own) + 1) * 2 powi (- 1)"
      by (simp add: power_int_minus field_simps)
    have small: "2 * int (k + own) + 1 < 2 ^ 53" using assms by (simp add: bench_bound_def)
    have top: "(of_nat (k + own) + 1 / 2 :: rat) < 2 ^ 1024"
    proof -
      have "(of_nat (k + own) :: rat) < of_nat (2 ^ 53)" using b(1) by (simp only: of_nat_less_iff)
      then have "(of_nat (k + own) + 1 / 2 :: rat) < 2 ^ 53 + 1 / 2" by simp
      also have "\<dots> < 2 ^ 54" by simp
      also have "(2 :: rat) ^ 54 < 2 ^ 1024" by (rule power_strict_increasing) simp_all
      finally show ?thesis .
    qed
    have "rnd (of_nat (k + own) + 1 / 2) = F_Fin (of_nat (k + own) + 1 / 2)"
      by (rule rnd_grid_pos [OF grid _ small _ top]) simp_all
    then show ?thesis using b(1) by (simp add: f_of_nat_exact HALF_def f_add_Fin)
  qed
  have "f_gt (f_of_nat (rq_all r)) (f_add (f_of_nat (k + own)) HALF) \<longleftrightarrow>
    (of_nat (k + own) + 1 / 2 :: rat) < of_nat (rq_all r)"
    using b half by (simp add: f_of_nat_exact)
  also have "\<dots> \<longleftrightarrow> k + own < rq_all r"
  proof
    assume "(of_nat (k + own) + 1 / 2 :: rat) < of_nat (rq_all r)"
    then have "(of_nat (k + own) :: rat) < of_nat (rq_all r)" by simp
    then show "k + own < rq_all r" by (simp only: of_nat_less_iff)
  next
    assume "k + own < rq_all r"
    then have "(of_nat (k + own + 1) :: rat) \<le> of_nat (rq_all r)" by (intro of_nat_mono) simp
    then show "(of_nat (k + own) + 1 / 2 :: rat) < of_nat (rq_all r)" by simp
  qed
  finally show ?thesis
    using seen_bench_inflight [OF assms, of t lane] by (simp add: engine_reason_def Let_def) (simp add: seen_as_def)
qed

definition others :: "Requests \<Rightarrow> nat" where
  "others r = rq_others_public r + rq_others_trusted r + rq_others_direct r"

lemma f_of_nat_inj: "m < 2 ^ 52 \<Longrightarrow> n < 2 ^ 52 \<Longrightarrow> f_of_nat m = f_of_nat n \<longleftrightarrow> m = n"
  by (simp add: f_of_nat_exact)

lemma abort_seen:
  assumes "bench_bound k own r"
  shows "abort_reason (seen_as t lane own r) k \<noteq> None \<longleftrightarrow>
    (\<exists>n src. foreign_now (seen_as t lane own r) k = Some (f_of_nat n, src) \<and> 1 \<le> n \<and> n < 2 ^ 52) \<or> k + own < rq_all r"
proof -
  have b: "in_public lane r \<le> rq_all r" "in_trusted lane r \<le> rq_all r" "rq_all r < 2 ^ 50"
    "rq_others_public r + rq_others_trusted r \<le> rq_all r"
    using assms by (auto simp: in_public_def in_trusted_def rq_all_def bench_bound_def)
  have "\<exists>n src. foreign_now (seen_as t lane own r) k = Some (f_of_nat n, src) \<and> n < 2 ^ 52 \<and> src \<noteq> LOAD_SRC_ENGINE"
    unfolding seen_foreign [OF assms] using b by (cases t; cases lane) auto
  then obtain n src where f: "foreign_now (seen_as t lane own r) k = Some (f_of_nat n, src)"
    and n: "n < 2 ^ 52" "src \<noteq> LOAD_SRC_ENGINE" by blast
  show ?thesis
    using f n f_nats(2) [OF n(1)] seen_engine [OF assms, of t lane] f_of_nat_inj [OF n(1)]
    by (auto simp: abort_reason_def)
qed

lemma abort_alone:
  assumes "bench_bound k own r" "others r = 0"
  shows "abort_reason (seen_as t lane own r) k = None \<longleftrightarrow> t \<or> lane = OL_Trusted \<or> rq_via_gate r = 0"
proof -
  have z: "rq_others_public r = 0" "rq_others_trusted r = 0" "rq_others_direct r = 0"
    using assms(2) by (simp_all add: others_def)
  have le: "rq_all r \<le> k + own" "rq_direct r + rq_via_gate r \<le> k + own" and b: "k + own < 2 ^ 50"
    using assms(1) z by (auto simp: rq_all_def bench_bound_def)
  define n where "n = (if t then 0 else case lane of OL_Trusted \<Rightarrow> 0 | _ \<Rightarrow> rq_via_gate r)"
  obtain src where f: "foreign_now (seen_as t lane own r) k = Some (f_of_nat n, src)"
    unfolding seen_foreign [OF assms(1)] n_def using z assms(1)
    by (cases t; cases lane) (auto simp: in_public_def in_trusted_def bench_bound_def)
  have "n < 2 ^ 52" using assms(1) by (auto simp: n_def bench_bound_def split: OwnLane.split)
  then have "abort_reason (seen_as t lane own r) k \<noteq> None \<longleftrightarrow> 1 \<le> n"
    using f le f_of_nat_inj unfolding abort_seen [OF assms(1)] by force
  then show ?thesis by (auto simp: n_def split: OwnLane.splits if_splits)
qed

lemma abort_strangers:
  assumes "bench_bound k own r"
    "(t \<and> 0 < rq_others_public r + rq_others_trusted r) \<or> (\<not> t \<and> lane \<noteq> OL_Public \<and> 0 < rq_others_public r) \<or>
     k + own < rq_all r"
  shows "abort_reason (seen_as t lane own r) k \<noteq> None"
proof -
  have b: "rq_all r < 2 ^ 50" using assms(1) by (simp add: bench_bound_def)
  show ?thesis
    unfolding abort_seen [OF assms(1)] seen_foreign [OF assms(1)] using assms(2) b
    by (cases t; cases lane) (auto simp: in_public_def in_trusted_def rq_all_def intro!: exI)
qed

end
