(* ===== verification/BenchShell.thy ===== *)
theory BenchShell
  imports Rollup
begin

text \<open>
  How a benchmark starts its harness (\<open>crates/lss-core/src/bench.rs\<close>): the command line, the words an ssh
  launcher's remote shell reads again, the remote directory of a run, and the API key, which is only ever
  written to standard input. \<open>redact_secret\<close> and \<open>expand_home\<close> are of \<open>config.rs\<close>. Strings are byte
  strings; the names these functions map character by character are ASCII.
\<close>

section \<open>Words for the remote shell\<close>

definition safe_char :: "char \<Rightarrow> bool" where
  "safe_char c \<longleftrightarrow> is_alnum c \<or> c \<in> set ''-_./:=@,+%''"

fun replace_quotes :: "string \<Rightarrow> string" where
  "replace_quotes [] = []"
| "replace_quotes (c # cs) = (if c = CHR 0x27 then [CHR 0x27, CHR 0x5C, CHR 0x27, CHR 0x27] else [c]) @ replace_quotes cs"

definition shell_quote :: "string \<Rightarrow> string" where
  "shell_quote word =
    (if word \<noteq> [] \<and> list_all safe_char word then word
     else [CHR 0x27] @ replace_quotes word @ [CHR 0x27])"

definition remote_word :: "string \<Rightarrow> string" where
  "remote_word word =
    (case strip_prefix word ''~/'' of
       Some rest \<Rightarrow> if rest \<noteq> [] then ''~/'' @ shell_quote rest else shell_quote word
     | None \<Rightarrow> shell_quote word)"

definition expand_home :: "string \<Rightarrow> string \<Rightarrow> string" where
  "expand_home path home =
    (case strip_prefix path ''~/'' of
       Some rest \<Rightarrow> trim_end_by (\<lambda>c. c = CHR ''/'') home @ ''/'' @ rest
     | None \<Rightarrow> if path = ''~'' then home else path)"

text \<open>\<open>Path::file_name\<close>: the last component, without the trailing separators and dots.\<close>

definition file_name :: "string \<Rightarrow> string option" where
  "file_name path =
    (let parts = filter (\<lambda>c. c \<noteq> [] \<and> c \<noteq> ''.'') (split_on (CHR ''/'') path)
     in if parts = [] \<or> last parts = ''..'' then None else Some (last parts))"

definition launcher_joins :: "string list \<Rightarrow> bool" where
  "launcher_joins launcher \<longleftrightarrow> list_ex (\<lambda>a. file_name a = Some ''ssh'') launcher"

definition with_launcher :: "string list \<Rightarrow> string list \<Rightarrow> string list" where
  "with_launcher launcher ws = launcher @ map (\<lambda>w. if launcher_joins launcher then remote_word w else w) ws"

definition harness_word :: "string list \<Rightarrow> string \<Rightarrow> string \<Rightarrow> string" where
  "harness_word launcher raw home =
    (let raw = trim raw in
     if launcher_joins launcher \<and> starts_with raw ''~/'' then raw else expand_home raw home)"

section \<open>The remote directory\<close>

definition dir_char :: "char \<Rightarrow> bool" where
  "dir_char c \<longleftrightarrow> is_alnum c \<or> c \<in> set ''-_.''"

definition safe_run_name :: "string \<Rightarrow> string" where
  "safe_run_name run_name =
    (let safe = map (\<lambda>c. if dir_char c then c else CHR ''_'') run_name
     in if safe = [] \<or> list_all (\<lambda>c. c = CHR ''.'') safe then ''run'' else safe)"

definition RUN_ROOT :: string where "RUN_ROOT = ''.cache/lss-bench/''"

definition remote_run_dir :: "string \<Rightarrow> string \<Rightarrow> string" where
  "remote_run_dir run_name token =
    (let safe = safe_run_name run_name; token = filter is_alnum token
     in if token = [] then RUN_ROOT @ safe else RUN_ROOT @ safe @ ''-'' @ token)"

definition in_remote_dir :: "string list \<Rightarrow> string list \<Rightarrow> string \<Rightarrow> string list" where
  "in_remote_dir launcher argv rdir =
    (if \<not> launcher_joins launcher \<or> length argv < length launcher then argv
     else
       (let q = shell_quote rdir
        in launcher @ [''mkdir'', ''-p'', q, ''&&'', ''cd'', q, ''&&''] @ drop (length launcher) argv))"

definition remote_fetch :: "string list \<Rightarrow> string \<Rightarrow> string \<Rightarrow> string list" where
  "remote_fetch launcher rdir file = launcher @ [''cat'', shell_quote (rdir @ ''/'' @ file)]"

definition remote_cleanup :: "string list \<Rightarrow> string \<Rightarrow> string list" where
  "remote_cleanup launcher rdir = launcher @ [''rm'', ''-rf'', ''--'', shell_quote rdir]"

definition REMOTE_COMMIT_UNKNOWN :: string where "REMOTE_COMMIT_UNKNOWN = ''unknown (remote)''"

text \<open>The directory of the harness word: what is before its last slash.\<close>

definition harness_dir :: "string \<Rightarrow> string" where
  "harness_dir word =
    (if CHR ''/'' \<notin> set word then ''.''
     else
       (let d = butlast (rev (dropWhile (\<lambda>c. c \<noteq> CHR ''/'') (rev word))) in if d = [] then ''/'' else d))"

definition remote_commit_argv :: "string list \<Rightarrow> string \<Rightarrow> string list" where
  "remote_commit_argv launcher word =
    (let dir = harness_dir word; dir = (if dir = ''~'' then dir else remote_word dir)
     in launcher @ [''git'', ''-C'', dir, ''rev-parse'', ''--short'', ''HEAD''])"

definition is_hex :: "char \<Rightarrow> bool" where
  "is_hex c \<longleftrightarrow> hex_val c \<noteq> None"

definition remote_commit :: "string option \<Rightarrow> string" where
  "remote_commit out =
    (let lines = (case out of None \<Rightarrow> [] | Some t \<Rightarrow> filter (\<lambda>l. l \<noteq> []) (map trim (str_lines t)));
         newest = (if lines = [] then [] else last lines)
     in if 4 \<le> length newest \<and> length newest \<le> 40 \<and> list_all is_hex newest then newest else REMOTE_COMMIT_UNKNOWN)"

section \<open>The command line and the key\<close>

datatype Role = R_Warmup | R_Decode | R_Prefill | R_Accuracy | R_DryRun

definition command_line :: "string \<Rightarrow> string list \<Rightarrow> string \<Rightarrow> string list \<Rightarrow> string list" where
  "command_line python launcher harness_path args = with_launcher launcher ([python, harness_path] @ args)"

record HarnessLaunch =
  hl_argv :: "string list"
  hl_stdin :: "string option"

definition KEY_SHIM :: string where
  "KEY_SHIM = ''import runpy,sys; k=sys.stdin.readline().strip(); sys.argv=sys.argv[1:]+(['--api-key',k] if k else []); runpy.run_path(sys.argv[0], run_name='__main__')''"

definition harness_launch :: "string \<Rightarrow> string list \<Rightarrow> string \<Rightarrow> string list \<Rightarrow> Role \<Rightarrow> string \<Rightarrow> HarnessLaunch" where
  "harness_launch python launcher harness_path args role key =
    (let key = trim key in
     if key = [] \<or> role = R_DryRun then \<lparr>hl_argv = command_line python launcher harness_path args, hl_stdin = None\<rparr>
     else
       \<lparr>hl_argv = with_launcher launcher ([python, ''-c'', KEY_SHIM, harness_path] @ args),
        hl_stdin = Some (key @ [CHR 0x0A])\<rparr>)"

definition harness_refused :: "string \<Rightarrow> string option" where
  "harness_refused log_text =
    map_option (\<lambda>l. take 200 (trim l))
      (find (\<lambda>l. contains l ''HTTP 401'' \<or> contains l ''HTTP 403'') (str_lines log_text))"

definition BLOCK_TEXT :: string where
  "BLOCK_TEXT = ''in the engine's [[engine]] block of collector.toml ''"

definition preflight_refusal :: "string \<Rightarrow> nat \<Rightarrow> bool \<Rightarrow> string option" where
  "preflight_refusal path status key_configured =
    (if status \<noteq> 401 \<and> status \<noteq> 403 then None
     else Some (if key_configured then
         ''the engine refused the configured key (HTTP '' @ show_nat status @ '' on '' @ path @
         '') before the benchmark started - check api_key '' @ BLOCK_TEXT @
         ''(`lss setup` tests it), then restart the collector''
       else
         ''the engine wants an API key (HTTP '' @ show_nat status @ '' on '' @ path @
         '') and none is configured - set api_key '' @ BLOCK_TEXT @
         ''(`lss setup` asks for it), then restart the collector''))"

definition redact_secret :: "string \<Rightarrow> string" where
  "redact_secret secret =
    (let n = length secret in
     if n = 0 then [] else if n < 12 then ''(set, hidden)''
     else ''(set, hidden) ...'' @ drop (n - 4) secret)"

definition API_KEY_FLAG :: string where "API_KEY_FLAG = ''--api-key''"

fun redact_from :: "bool \<Rightarrow> string list \<Rightarrow> string list" where
  "redact_from hide_next [] = []"
| "redact_from hide_next (a # as) =
    (if hide_next then redact_secret a # redact_from False as
     else if a = API_KEY_FLAG then a # redact_from True as
     else case strip_prefix a (API_KEY_FLAG @ ''='') of
       Some v \<Rightarrow> (API_KEY_FLAG @ ''='' @ redact_secret v) # redact_from False as
     | None \<Rightarrow> a # redact_from False as)"

definition redact_argv :: "string list \<Rightarrow> string list" where
  "redact_argv argv = redact_from False argv"

end
