(* ===== verification/BenchShellFacts.thy ===== *)
theory BenchShellFacts
  imports BenchShell
begin

text \<open>
  What the remote shell makes of the words: a reader of POSIX shell words (single quotes, the backslash,
  the home directory, \<open>&&\<close>), and the proof that it reads back exactly the words that were quoted, that the
  remote directory of a run is one name below \<open>.cache/lss-bench\<close>, and that the key is on no command line.
\<close>

section \<open>A reader of shell words\<close>

datatype Token = Word string | And_If

definition SPACE :: char where "SPACE = CHR '' ''"
definition SQUOTE :: char where "SQUOTE = CHR 0x27"
definition BACKSLASH :: char where "BACKSLASH = CHR 0x5C"

text \<open>Characters a shell takes as they are inside a word; any other unquoted character is not accepted here.\<close>

definition plain_char :: "char \<Rightarrow> bool" where
  "plain_char c \<longleftrightarrow> safe_char c"

definition end_word :: "string option \<Rightarrow> Token list \<Rightarrow> Token list" where
  "end_word w ts = (case w of None \<Rightarrow> ts | Some x \<Rightarrow> Word x # ts)"

definition grow_word :: "string option \<Rightarrow> string \<Rightarrow> string option" where
  "grow_word w s = Some (case w of None \<Rightarrow> s | Some x \<Rightarrow> x @ s)"

text \<open>\<open>q\<close>: inside single quotes; \<open>w\<close>: the word read so far.\<close>

fun sh_read :: "string \<Rightarrow> bool \<Rightarrow> string option \<Rightarrow> string \<Rightarrow> Token list option" where
  "sh_read home q w [] = (if q then None else Some (end_word w []))"
| "sh_read home True w (c # cs) =
    (if c = SQUOTE then sh_read home False w cs else sh_read home True (grow_word w [c]) cs)"
| "sh_read home False w (c # cs) =
    (if c = SPACE then map_option (end_word w) (sh_read home False None cs)
     else if c = SQUOTE then sh_read home True (grow_word w []) cs
     else if c = BACKSLASH then
       (case cs of [] \<Rightarrow> None | d # ds \<Rightarrow> sh_read home False (grow_word w [d]) ds)
     else if c = CHR ''~'' \<and> w = None \<and> starts_with cs ''/'' then sh_read home False (Some home) cs
     else if c = CHR ''&'' \<and> w = None \<and> (cs = ''&'' \<or> starts_with cs ''& '') then
       map_option (\<lambda>ts. And_If # ts) (sh_read home False None (drop 1 cs))
     else if plain_char c then sh_read home False (grow_word w [c]) cs
     else None)"

lemmas shell_chars = SPACE_def SQUOTE_def BACKSLASH_def

lemma not_safe [simp]:
  "\<not> safe_char (CHR '' '')" "\<not> safe_char (CHR 0x27)" "\<not> safe_char (CHR 0x5C)" "\<not> safe_char (CHR ''~'')"
  "\<not> safe_char (CHR ''&'')"
  by (simp_all add: safe_char_def is_alnum_def is_digit_def)

lemma grow_grow [simp]: "grow_word (grow_word w s) t = grow_word w (s @ t)"
  by (simp add: grow_word_def split: option.split)

lemma grow_not_none [simp]: "grow_word w s \<noteq> None"
  by (simp add: grow_word_def)

lemma grow_some [simp]: "grow_word (Some x) s = Some (x @ s)" "grow_word None s = Some s"
  by (simp_all add: grow_word_def)

lemma read_quoted:
  "sh_read home True w (replace_quotes s @ SQUOTE # rest) = sh_read home False (grow_word w s) rest" if "w \<noteq> None"
  using that
proof (induction s arbitrary: w)
  case Nil
  then show ?case by (auto simp: grow_word_def)
next
  case (Cons c s)
  have "sh_read home True w (replace_quotes (c # s) @ SQUOTE # rest) =
    sh_read home True (grow_word w [c]) (replace_quotes s @ SQUOTE # rest)"
    by (simp add: shell_chars)
  also have "\<dots> = sh_read home False (grow_word w (c # s)) rest"
    using Cons.IH [of "grow_word w [c]"] by simp
  finally show ?case .
qed

lemma read_safe:
  "list_all safe_char s \<Longrightarrow> s \<noteq> [] \<Longrightarrow> sh_read home False w (s @ rest) = sh_read home False (grow_word w s) rest"
proof (induction s arbitrary: w)
  case (Cons c s)
  then have c: "safe_char c" by simp
  have ne: "c \<noteq> SPACE" "c \<noteq> SQUOTE" "c \<noteq> BACKSLASH" "c \<noteq> CHR ''~''" "c \<noteq> CHR ''&''"
    using c not_safe unfolding shell_chars by metis+
  have "sh_read home False w ((c # s) @ rest) = sh_read home False (grow_word w [c]) (s @ rest)"
    using c ne by (simp add: plain_char_def)
  also have "\<dots> = sh_read home False (grow_word w (c # s)) rest"
    using Cons by (cases s) auto
  finally show ?case .
qed simp

lemma read_shell_quote: "sh_read home False w (shell_quote s @ rest) = sh_read home False (grow_word w s) rest"
proof (cases "s \<noteq> [] \<and> list_all safe_char s")
  case True
  then show ?thesis by (simp only: shell_quote_def if_True) (simp add: read_safe)
next
  case False
  have "shell_quote s @ rest = SQUOTE # replace_quotes s @ SQUOTE # rest"
    unfolding shell_quote_def SQUOTE_def if_not_P [OF False] by simp
  moreover have "sh_read home False w (SQUOTE # replace_quotes s @ SQUOTE # rest) = sh_read home False (grow_word w s) rest"
    using read_quoted [of "grow_word w []" home s rest] by (simp add: shell_chars)
  ultimately show ?thesis by simp
qed

text \<open>What a remote word stands for: the home directory of the remote user where it starts with \<open>~/\<close>.\<close>

definition remote_value :: "string \<Rightarrow> string \<Rightarrow> string" where
  "remote_value home word =
    (case strip_prefix word ''~/'' of Some rest \<Rightarrow> if rest \<noteq> [] then home @ ''/'' @ rest else word | None \<Rightarrow> word)"

lemma read_remote_word:
  "sh_read home False None (remote_word w @ rest) = sh_read home False (Some (remote_value home w)) rest"
proof (cases "\<exists>r. strip_prefix w ''~/'' = Some r \<and> r \<noteq> []")
  case True
  then obtain r where r: "strip_prefix w ''~/'' = Some r" "r \<noteq> []" by blast
  have slash: "safe_char (CHR ''/'')" by (simp add: safe_char_def)
  have "sh_read home False None (remote_word w @ rest) = sh_read home False (Some home) (CHR ''/'' # shell_quote r @ rest)"
    using r by (simp add: remote_word_def shell_chars)
  also have "\<dots> = sh_read home False (Some (home @ ''/'')) (shell_quote r @ rest)"
    using read_safe [of "''/''" home "Some home" "shell_quote r @ rest"] slash by simp
  also have "\<dots> = sh_read home False (Some (remote_value home w)) rest"
    using r by (simp add: read_shell_quote remote_value_def)
  finally show ?thesis .
next
  case False
  then have "remote_word w = shell_quote w" "remote_value home w = w"
    by (auto simp: remote_word_def remote_value_def split: option.split)
  then show ?thesis by (simp add: read_shell_quote)
qed

text \<open>A line of quoted words and of \<open>&&\<close>, joined by spaces, reads as these words.\<close>

definition reads_as :: "string \<Rightarrow> string \<Rightarrow> Token \<Rightarrow> bool" where
  "reads_as home text tok \<longleftrightarrow> (text = ''&&'' \<and> tok = And_If) \<or> (\<exists>w. text = remote_word w \<and> tok = Word (remote_value home w))"

lemma read_one:
  assumes "reads_as home t tok" "rest = [] \<or> (\<exists>r. rest = SPACE # r)"
  shows "sh_read home False None (t @ rest) = (if rest = [] then Some [tok] else
    map_option (\<lambda>ts. tok # ts) (sh_read home False None (drop 1 rest)))"
proof (cases "t = ''&&'' \<and> tok = And_If")
  case True
  then show ?thesis using assms(2)
    by (auto simp: shell_chars end_word_def option.map_comp comp_def option.map_ident split: option.split)
next
  case False
  then obtain w where "t = remote_word w" "tok = Word (remote_value home w)" using assms(1) by (auto simp: reads_as_def)
  then show ?thesis using assms(2)
    by (auto simp: read_remote_word end_word_def fun_eq_iff intro!: option.map_cong)
qed

lemma read_line:
  "list_all2 (reads_as home) ts toks \<Longrightarrow> sh_read home False None (join '' '' ts) = Some toks"
proof (induction ts arbitrary: toks)
  case (Cons t ts)
  then obtain tok ks where k: "toks = tok # ks" "reads_as home t tok" "list_all2 (reads_as home) ts ks"
    by (auto simp: list_all2_Cons1)
  show ?case
  proof (cases ts)
    case Nil
    then show ?thesis using read_one [OF k(2), of "[]"] k by simp
  next
    case (Cons u us)
    then have "join '' '' (t # ts) = t @ SPACE # join '' '' ts" by (simp add: SPACE_def)
    then show ?thesis using read_one [OF k(2), of "SPACE # join '' '' ts"] Cons.IH [OF k(3)] k(1) by simp
  qed
qed (simp add: end_word_def)

lemma reads_word: "reads_as home (remote_word w) (Word (remote_value home w))"
  by (auto simp: reads_as_def)

lemma reads_quoted: "\<not> starts_with w ''~/'' \<Longrightarrow> reads_as home (shell_quote w) (Word w)"
  by (auto simp: reads_as_def remote_word_def remote_value_def strip_prefix_def intro!: exI [of _ w])

lemma reads_plain:
  assumes "list_all safe_char w" "w \<noteq> []"
  shows "reads_as home w (Word w)"
proof -
  have "\<not> starts_with w ''~/''" using assms not_safe(4) by (cases w) auto
  then show ?thesis using reads_quoted [of w home] assms by (simp add: shell_quote_def)
qed

lemma reads_words: "list_all2 (reads_as home) (map remote_word ws) (map (Word \<circ> remote_value home) ws)"
  by (simp add: list_all2_conv_all_nth reads_word)

section \<open>The run's directory\<close>

lemma dir_char_no_slash: "dir_char c \<Longrightarrow> c \<noteq> CHR ''/''"
  by (auto simp: dir_char_def is_alnum_def is_digit_def)

lemma dir_char_parts [simp]: "dir_char (CHR ''_'')" "dir_char (CHR ''-'')" "is_alnum c \<Longrightarrow> dir_char c"
  by (simp_all add: dir_char_def)

definition one_name :: "string \<Rightarrow> bool" where
  "one_name n \<longleftrightarrow> list_all dir_char n \<and> n \<noteq> [] \<and> n \<noteq> ''.'' \<and> n \<noteq> ''..''"

lemma one_name_run: "one_name ''run''"
  by (simp add: one_name_def dir_char_def is_alnum_def)

lemma safe_run_name_one: "one_name (safe_run_name r)"
proof -
  define safe where "safe = map (\<lambda>c. if dir_char c then c else CHR ''_'') r"
  have dir: "list_all dir_char safe" by (auto simp: safe_def list_all_iff)
  have eq: "safe_run_name r = (if safe = [] \<or> list_all (\<lambda>c. c = CHR ''.'') safe then ''run'' else safe)"
    by (simp add: safe_run_name_def safe_def)
  show ?thesis
  proof (cases "safe = [] \<or> list_all (\<lambda>c. c = CHR ''.'') safe")
    case True
    then show ?thesis unfolding eq by (simp only: if_True one_name_run)
  next
    case False
    then have "safe \<noteq> ''.''" "safe \<noteq> ''..''" by auto
    then show ?thesis unfolding eq if_not_P [OF False] using False dir by (simp add: one_name_def)
  qed
qed

lemma one_name_append: "one_name n \<Longrightarrow> list_all dir_char t \<Longrightarrow> \<not> list_all (\<lambda>c. c = CHR ''.'') t \<Longrightarrow> one_name (n @ t)"
proof -
  assume a: "one_name n" "list_all dir_char t" "\<not> list_all (\<lambda>c. c = CHR ''.'') t"
  have dots: "list_all (\<lambda>c. c = CHR ''.'') t" if "set (n @ t) \<subseteq> {CHR ''.''}"
    using that by (auto simp: list_all_iff)
  have "n @ t \<noteq> ''.''" "n @ t \<noteq> ''..''" using dots a(3) by fastforce+
  then show "one_name (n @ t)" using a by (simp add: one_name_def)
qed

lemma run_dir_one_name: "\<exists>n. one_name n \<and> remote_run_dir r t = RUN_ROOT @ n"
proof (cases "filter is_alnum t = []")
  case True
  then have "remote_run_dir r t = RUN_ROOT @ safe_run_name r" by (simp add: remote_run_dir_def)
  then show ?thesis using safe_run_name_one by (intro exI conjI)
next
  case False
  then have "remote_run_dir r t = RUN_ROOT @ safe_run_name r @ ''-'' @ filter is_alnum t"
    by (simp add: remote_run_dir_def Let_def)
  moreover have "one_name (safe_run_name r @ ''-'' @ filter is_alnum t)"
    by (rule one_name_append [OF safe_run_name_one]) (auto simp: list_all_iff)
  ultimately show ?thesis by (intro exI conjI)
qed

lemma RUN_ROOT_safe: "list_all safe_char RUN_ROOT" "\<not> starts_with (RUN_ROOT @ n) ''~/''" "RUN_ROOT \<noteq> []"
  by (simp_all add: RUN_ROOT_def safe_char_def is_alnum_def)

lemma run_dir_quoted:
  "list_all safe_char (remote_run_dir r t)" "remote_run_dir r t \<noteq> []" "\<not> starts_with (remote_run_dir r t) ''~/''"
proof -
  obtain n where n: "one_name n" "remote_run_dir r t = RUN_ROOT @ n" using run_dir_one_name by blast
  have "dir_char c \<Longrightarrow> safe_char c" for c by (auto simp: dir_char_def safe_char_def)
  then have "list_all safe_char n" using n(1) by (auto simp: one_name_def list_all_iff)
  then show "list_all safe_char (remote_run_dir r t)" using n(2) RUN_ROOT_safe(1) by simp
  show "remote_run_dir r t \<noteq> []" "\<not> starts_with (remote_run_dir r t) ''~/''"
    using n(2) RUN_ROOT_safe(2,3) by simp_all
qed

section \<open>The lines a step and its clean-up are\<close>

lemma plain_words:
  "reads_as home ''mkdir'' (Word ''mkdir'')" "reads_as home ''-p'' (Word ''-p'')" "reads_as home ''cd'' (Word ''cd'')"
  "reads_as home ''rm'' (Word ''rm'')" "reads_as home ''-rf'' (Word ''-rf'')" "reads_as home ''--'' (Word ''--'')"
  "reads_as home ''&&'' And_If"
  by (rule reads_plain; simp add: safe_char_def is_alnum_def)+ (simp add: reads_as_def)

lemma remote_words:
  assumes "launcher_joins launcher"
  shows "\<exists>name. one_name name \<and>
    sh_read home False None (join '' '' (drop (length launcher)
       (in_remote_dir launcher (with_launcher launcher ws) (remote_run_dir run_name token)))) =
      Some ([Word ''mkdir'', Word ''-p'', Word (RUN_ROOT @ name), And_If, Word ''cd'', Word (RUN_ROOT @ name), And_If] @
        map (Word \<circ> remote_value home) ws) \<and>
    sh_read home False None (join '' '' (drop (length launcher)
       (remote_cleanup launcher (remote_run_dir run_name token)))) =
      Some [Word ''rm'', Word ''-rf'', Word ''--'', Word (RUN_ROOT @ name)]"
proof -
  obtain name where name: "one_name name" "remote_run_dir run_name token = RUN_ROOT @ name"
    using run_dir_one_name by blast
  have dir: "reads_as home (shell_quote (RUN_ROOT @ name)) (Word (RUN_ROOT @ name))"
    using run_dir_quoted(3) [of run_name token] name(2) by (intro reads_quoted) simp
  have words: "map (\<lambda>w. if launcher_joins launcher then remote_word w else w) ws = map remote_word ws"
    using assms by simp
  have step: "drop (length launcher) (in_remote_dir launcher (with_launcher launcher ws) (RUN_ROOT @ name)) =
    [''mkdir'', ''-p'', shell_quote (RUN_ROOT @ name), ''&&'', ''cd'', shell_quote (RUN_ROOT @ name), ''&&''] @ map remote_word ws"
    unfolding in_remote_dir_def with_launcher_def words Let_def using assms by simp
  have clean: "drop (length launcher) (remote_cleanup launcher (RUN_ROOT @ name)) =
    [''rm'', ''-rf'', ''--'', shell_quote (RUN_ROOT @ name)]"
    by (simp add: remote_cleanup_def)
  show ?thesis
    unfolding name(2) step clean
    by (intro exI [of _ name] conjI name(1) read_line list_all2_appendI reads_words list_all2_Cons [THEN iffD2]
        list_all2_Nil [THEN iffD2] plain_words dir refl)
qed

end
