(* ===== verification/BenchPlan.thy ===== *)
theory BenchPlan
  imports BenchShell
begin

text \<open>
  What a benchmark runs (\<open>crates/lss-core/src/bench.rs\<close>): the profiles, the steps of each profile, and the
  levels of simultaneous requests. The harness itself is an external program; a step of it is its arguments.
\<close>

section \<open>Profiles and steps\<close>

datatype Profile = P_Quick | P_Full | P_Accuracy | P_DryRun

definition profile_parse :: "string \<Rightarrow> Profile option" where
  "profile_parse word =
    (if word = ''quick'' then Some P_Quick
     else if word = ''full'' then Some P_Full
     else if word = ''accuracy'' then Some P_Accuracy
     else if word = ''dry-run'' \<or> word = ''dryrun'' \<or> word = ''dry_run'' then Some P_DryRun
     else None)"

fun profile_name :: "Profile \<Rightarrow> string" where
  "profile_name P_Quick = ''quick''"
| "profile_name P_Full = ''full''"
| "profile_name P_Accuracy = ''accuracy''"
| "profile_name P_DryRun = ''dry-run''"

text \<open>The part of \<open>[bench]\<close> of the configuration the plan and the runner read.\<close>

record BenchConfig =
  bc_harness :: string
  bc_python :: string
  bc_launcher :: "string list"
  bc_results_dir :: string
  bc_idle_secs :: i64
  bc_poll_secs :: u64
  bc_quick_duration :: u32
  bc_full_duration :: u32
  bc_quick_timeout_secs :: u64
  bc_full_timeout_secs :: u64
  bc_accuracy_timeout_secs :: u64
  bc_needle_tokens :: u64
  bc_keep_runs :: u32

definition bench_config_default :: BenchConfig where
  "bench_config_default = \<lparr>bc_harness = [], bc_python = ''python3'', bc_launcher = [],
     bc_results_dir = ''~/.local/state/lss/bench'', bc_idle_secs = 300, bc_poll_secs = 2, bc_quick_duration = 10,
     bc_full_duration = 30, bc_quick_timeout_secs = 900, bc_full_timeout_secs = 3600,
     bc_accuracy_timeout_secs = 21600, bc_needle_tokens = 250000, bc_keep_runs = 50\<rparr>"

fun timeout_secs :: "Profile \<Rightarrow> BenchConfig \<Rightarrow> u64" where
  "timeout_secs P_Quick cfg = bc_quick_timeout_secs cfg"
| "timeout_secs P_Full cfg = bc_full_timeout_secs cfg"
| "timeout_secs P_Accuracy cfg = bc_accuracy_timeout_secs cfg"
| "timeout_secs P_DryRun cfg = 60"

definition DATASETS :: "string list" where "DATASETS = [''gsm8k'', ''mmlu-pro'', ''gpqa-diamond'']"

record BenchRequest =
  br_profile :: string
  br_force :: bool
  br_under_load :: bool
  br_note :: string
  br_dataset :: string

datatype MiniKind = MK_Warmup | MK_Decode u32 u32 | MK_Prefill u64

datatype Step =
    S_Harness (s_name: string) (s_role: Role) (s_args: "string list") (s_output: string) (s_max: u32)
  | S_Sanity
  | S_Needle u64 "u32 list"
  | S_Garble u32 u32
  | S_Mini string MiniKind

fun step_name :: "Step \<Rightarrow> string" where
  "step_name (S_Harness name _ _ _ _) = name"
| "step_name S_Sanity = ''sanity checks''"
| "step_name (S_Needle _ _) = ''long-context needle''"
| "step_name (S_Garble _ _) = ''garbled-output check''"
| "step_name (S_Mini name _) = name"

fun max_concurrency :: "Step \<Rightarrow> u32" where
  "max_concurrency (S_Harness _ _ _ _ n) = n"
| "max_concurrency (S_Mini _ _) = 0"
| "max_concurrency _ = 1"

definition split_host_port :: "string \<Rightarrow> string \<times> nat option" where
  "split_host_port url =
    (let trimmed = trim_end_by (\<lambda>c. c = CHR ''/'') (trim url) in
     case strip_prefix trimmed ''http://'' of
       None \<Rightarrow> (trimmed, None)
     | Some rest \<Rightarrow>
         if CHR ''/'' \<in> set rest then (trimmed, None)
         else case rsplit_at (CHR '':'') rest of
           Some (host, port) \<Rightarrow> (case parse_uint 16 port of Some p \<Rightarrow> (host, Some p) | None \<Rightarrow> (rest, None))
         | None \<Rightarrow> (rest, None))"

definition LONG_DECODE_FILE :: string where "LONG_DECODE_FILE = ''decode-long.json''"

section \<open>The levels of simultaneous requests\<close>

definition slot_cap :: "u32 \<Rightarrow> u32" where
  "slot_cap slots = (if slots = 0 then 8 else min slots 64)"

definition concurrency_levels :: "u32 \<Rightarrow> u32 list" where
  "concurrency_levels slots =
    (let cap = slot_cap slots;
         levels = filter (\<lambda>n. n \<le> min cap 8) [1, 2, 4, 8, 16, 32, 64]
     in if cap < 8 \<and> cap \<notin> set levels then levels @ [cap] else levels)"

definition join_levels :: "u32 list \<Rightarrow> string" where
  "join_levels levels = join '','' (map show_nat levels)"

section \<open>The plans\<close>

definition plan_builtin :: "Profile \<Rightarrow> u32 \<Rightarrow> Step list" where
  "plan_builtin profile slots =
    (let (max_tokens, prompts) = (if profile = P_Full then (256, [2000, 8000]) else (128, [1000, 4000])) in
     if profile = P_DryRun \<or> profile = P_Accuracy then []
     else S_Mini ''warm-up'' MK_Warmup
       # map (\<lambda>n. S_Mini (''writing speed, '' @ show_nat n @ '' at once'') (MK_Decode n max_tokens)) (concurrency_levels slots)
       @ map (\<lambda>t. S_Mini (''reading speed, a '' @ show_nat t @ ''-token prompt'') (MK_Prefill t)) prompts
       @ [S_Sanity])"

definition harness_args :: "string \<Rightarrow> string \<Rightarrow> string list \<Rightarrow> string \<Rightarrow> string list" where
  "harness_args target model extra output =
    (let (host, port) = split_host_port target in
     [''--host'', host] @ (case port of None \<Rightarrow> [] | Some p \<Rightarrow> [''--port'', show_nat p]) @
     [''--model'', model, ''--display-mode'', ''plain''] @ extra @ [''--output'', output])"

definition warmup_steps :: "string \<Rightarrow> string \<Rightarrow> Step list" where
  "warmup_steps target model =
    [S_Harness ''warm-up (decode)'' R_Warmup
       (harness_args target model [''--concurrency'', ''1'', ''--contexts'', ''0'', ''--duration'', ''5'', ''--skip-prefill'',
          ''--no-hw-monitor''] ''warmup-decode.json'') ''warmup-decode.json'' 1,
     S_Harness ''warm-up (prefill)'' R_Warmup
       (harness_args target model [''--prefill-only'', ''--prefill-contexts'', ''8k'', ''--prefill-duration'', ''3'',
          ''--no-hw-monitor''] ''warmup-prefill.json'') ''warmup-prefill.json'' 1]"

definition decode_matrix :: "string \<Rightarrow> string \<Rightarrow> u32 list \<Rightarrow> u32 \<Rightarrow> Step" where
  "decode_matrix target model levels duration =
    S_Harness ''decode matrix'' R_Decode
      (harness_args target model [''--concurrency'', join_levels levels, ''--contexts'', ''0,16384'', ''--duration'',
         show_nat duration, ''--skip-prefill''] ''decode.json'') ''decode.json''
      (if levels = [] then 1 else Max (set levels))"

definition prefill_step :: "string \<Rightarrow> string \<Rightarrow> string \<Rightarrow> string \<Rightarrow> Step" where
  "prefill_step target model name sizes =
    S_Harness name R_Prefill (harness_args target model [''--prefill-only'', ''--prefill-contexts'', sizes] ''prefill.json'')
      ''prefill.json'' 1"

definition GARBLE_COUNT :: u32 where "GARBLE_COUNT = 6"

fun plan_of :: "Profile \<Rightarrow> BenchConfig \<Rightarrow> string \<Rightarrow> u32 \<Rightarrow> string \<Rightarrow> string \<Rightarrow> Step list" where
  "plan_of P_DryRun cfg model slots target dataset =
    [S_Harness ''harness --help (no load)'' R_DryRun [''--help''] [] 0]"
| "plan_of P_Quick cfg model slots target dataset =
    warmup_steps target model @
    [decode_matrix target model (concurrency_levels slots) (bc_quick_duration cfg),
     prefill_step target model ''prefill 8k, 64k'' ''8k,64k'', S_Sanity]"
| "plan_of P_Full cfg model slots target dataset =
    warmup_steps target model @
    [decode_matrix target model (concurrency_levels slots) (bc_full_duration cfg),
     S_Harness ''long conversations 64k, 128k'' R_Decode
       (harness_args target model [''--concurrency'', ''1'', ''--contexts'', ''65536,131072'', ''--duration'',
          show_nat (bc_full_duration cfg), ''--skip-prefill''] LONG_DECODE_FILE) LONG_DECODE_FILE 1,
     prefill_step target model ''prefill 8k, 64k, 128k'' ''8k,64k,128k'', S_Sanity, S_Garble GARBLE_COUNT 1500,
     S_Needle (bc_needle_tokens cfg) [10, 50, 90]]"
| "plan_of P_Accuracy cfg model slots target dataset =
    (let dset = (if dataset \<in> set DATASETS then dataset else hd DATASETS);
         levels = concurrency_levels slots;
         top_level = (if levels = [] then 1 else Max (set levels));
         output = ''accuracy-'' @ dset @ ''.json''
     in [S_Harness (''accuracy: '' @ dset) R_Accuracy (harness_args target model [''--test-profile'', dset] output) output
           (max top_level 16)])"

section \<open>What the plans keep\<close>

text \<open>The levels grow, start with one request, and end at the slots of the engine or at eight.\<close>

lemma levels_cases:
  "concurrency_levels slots =
    (case slot_cap slots of 0 \<Rightarrow> [0] | Suc 0 \<Rightarrow> [1] | Suc (Suc 0) \<Rightarrow> [1, 2] | Suc (Suc (Suc 0)) \<Rightarrow> [1, 2, 3]
     | Suc (Suc (Suc (Suc 0))) \<Rightarrow> [1, 2, 4] | Suc (Suc (Suc (Suc (Suc 0)))) \<Rightarrow> [1, 2, 4, 5]
     | Suc (Suc (Suc (Suc (Suc (Suc 0))))) \<Rightarrow> [1, 2, 4, 6] | Suc (Suc (Suc (Suc (Suc (Suc (Suc 0)))))) \<Rightarrow> [1, 2, 4, 7]
     | _ \<Rightarrow> [1, 2, 4, 8])"
  by (auto simp: concurrency_levels_def Let_def numeral_eq_Suc split: nat.split)

lemma slot_cap_pos: "1 \<le> slot_cap slots" "slot_cap slots \<le> 64" "0 < slots \<Longrightarrow> slot_cap slots \<le> slots"
  by (auto simp: slot_cap_def)

lemma levels_ok:
  "concurrency_levels slots \<noteq> [] \<and> hd (concurrency_levels slots) = 1 \<and>
   last (concurrency_levels slots) = min (slot_cap slots) 8 \<and> sorted_wrt (<) (concurrency_levels slots)"
  using slot_cap_pos(1) [of slots] unfolding levels_cases by (auto split: nat.splits)

lemma Max_levels: "Max (set (concurrency_levels slots)) = min (slot_cap slots) 8"
proof -
  have s: "sorted (concurrency_levels slots)" using levels_ok [of slots] by (simp add: strict_sorted_iff)
  have "Max (set (concurrency_levels slots)) = last (concurrency_levels slots)"
  proof (rule Max_eqI)
    show "last (concurrency_levels slots) \<in> set (concurrency_levels slots)"
      using levels_ok [of slots] last_in_set [of "concurrency_levels slots"] by blast
    show "y \<le> last (concurrency_levels slots)" if "y \<in> set (concurrency_levels slots)" for y
      using sorted_le_last [OF s that] .
  qed simp
  then show ?thesis using levels_ok [of slots] by simp
qed

text \<open>A profile that measures speed never asks for more at once than the engine has slots.\<close>

lemma plan_within_slots:
  assumes "profile \<noteq> P_Accuracy" "s \<in> set (plan_of profile cfg model slots target dataset)"
  shows "max_concurrency s \<le> min (slot_cap slots) 8"
  using assms slot_cap_pos(1) [of slots] levels_ok [of slots] Max_levels [of slots]
  by (cases profile) (auto simp: warmup_steps_def decode_matrix_def prefill_step_def)

end
