(* ===== verification/BenchRun.thy ===== *)
theory BenchRun
  imports BenchPlan BenchSafety
begin

text \<open>
  Starting a benchmark (\<open>crates/lss-collector/src/bench_run.rs\<close>): the checks of \<open>request_start\<close>, and the lock
  protocol that is to keep one benchmark at a time. The threads that accept requests (one per listener)
  and the threads that run a benchmark interleave; every access to the lock file and every critical section
  of the shared state is one atomic action.
\<close>

section \<open>The checks\<close>

record BenchSnapshot =
  sn_active :: bool
  sn_active_profile :: "string option"
  sn_idle :: IdleObs
  sn_down_reason :: "string option"
  sn_model :: "string option"

definition BUSY_TAIL :: string where
  "BUSY_TAIL = ''): one at a time. `lss bench status` shows it, `lss bench cancel` stops it''"

definition is_some_and_down :: "IdleObs \<Rightarrow> string option \<Rightarrow> string \<Rightarrow> string" where
  "is_some_and_down idle reason why =
    (if \<not> io_serve_up idle then (case reason of Some r \<Rightarrow> why @ '' - '' @ r | None \<Rightarrow> why) else why)"

text \<open>The harness: the path it resolved to, or why not; a path that is set but wrong is a refusal.\<close>

definition choose_harness :: "Profile \<Rightarrow> string \<Rightarrow> string + string \<Rightarrow> string + string option" where
  "choose_harness profile configured found =
    (case found of
       Inr p \<Rightarrow> Inr (Some p)
     | Inl e \<Rightarrow> if trim configured \<noteq> [] \<or> profile = P_Accuracy \<or> profile = P_DryRun then Inl e else Inr None)"

definition start_checks ::
  "BenchRequest \<Rightarrow> string \<Rightarrow> string + string \<Rightarrow> BenchSnapshot \<Rightarrow> (nat \<times> string) + (Profile \<times> string option \<times> string)" where
  "start_checks req configured found sn =
    (case profile_parse (if br_profile req = [] then ''quick'' else br_profile req) of
       None \<Rightarrow> Inl (400, ''unknown profile `'' @ br_profile req @ ''`: use quick, full, accuracy or dry-run'')
     | Some profile \<Rightarrow>
        if br_dataset req \<noteq> [] \<and> br_dataset req \<notin> set DATASETS then
          Inl (400, ''unknown dataset `'' @ br_dataset req @ ''`: use '' @ join '', '' DATASETS)
        else
          (case choose_harness profile configured found of
             Inl e \<Rightarrow> Inl (409, e)
           | Inr harness \<Rightarrow>
               if sn_active sn then
                 Inl (409, ''a benchmark is already running ('' @
                   (case sn_active_profile sn of None \<Rightarrow> [] | Some p \<Rightarrow> p) @ BUSY_TAIL)
               else
                 (case idle_gate (sn_idle sn) (br_force req \<or> br_under_load req) of
                    Inl why \<Rightarrow> Inl (409, is_some_and_down (sn_idle sn) (sn_down_reason sn) why)
                  | Inr _ \<Rightarrow>
                     (case sn_model sn of
                        None \<Rightarrow> Inl (409, ''the serve has no model loaded: nothing to benchmark'')
                      | Some model \<Rightarrow> Inr (profile, harness, model)))))"

definition run_steps :: "Profile \<Rightarrow> string option \<Rightarrow> BenchConfig \<Rightarrow> string \<Rightarrow> u32 \<Rightarrow> string \<Rightarrow> string \<Rightarrow> Step list" where
  "run_steps profile harness cfg model slots target dataset =
    (case harness of Some _ \<Rightarrow> plan_of profile cfg model slots target dataset | None \<Rightarrow> plan_builtin profile slots)"

section \<open>The lock file and the flag\<close>

text \<open>
  The lock file: who created it and whether its content is written yet (\<open>create_new\<close> and \<open>writeln!\<close> are
  two actions). \<open>Foreign\<close> is a file left by a process that is gone.
\<close>

datatype LockFile = Empty_By nat | Written_By nat | Foreign

text \<open>Where an accepting thread is in \<open>request_start\<close> and \<open>take_lock\<close>; the number is the attempt.\<close>

datatype Phase =
    Ph_Idle
  | Ph_Create nat
  | Ph_Read nat
  | Ph_Remove nat
  | Ph_Write
  | Ph_Record
  | Ph_Begin
  | Ph_Spawn

record Sys =
  sy_lock :: "LockFile option"
  sy_active :: bool
  sy_cancel :: bool
  sy_generation :: nat
  sy_phase :: "nat \<Rightarrow> Phase"
  sy_running :: nat
  sy_ending :: nat

definition sys_start :: "LockFile option \<Rightarrow> Sys" where
  "sys_start lock = \<lparr>sy_lock = lock, sy_active = False, sy_cancel = False, sy_generation = 0,
     sy_phase = (\<lambda>_. Ph_Idle), sy_running = 0, sy_ending = 0\<rparr>"

datatype Action =
    A_Check nat bool
  | A_Lock nat
  | A_Lock_Fails nat
  | A_Record nat bool
  | A_Begin nat
  | A_Spawn nat
  | A_Cancel
  | A_Release
  | A_Clear

definition goto :: "nat \<Rightarrow> Phase \<Rightarrow> Sys \<Rightarrow> Sys" where
  "goto i p s = s\<lparr>sy_phase := (sy_phase s)(i := p)\<rparr>"

text \<open>\<open>take_lock\<close>: create; if it exists, read it; a holder that lives refuses, any other content (none yet
  written included) is a stale lock, which is removed before the second attempt.\<close>

definition lock_step :: "nat \<Rightarrow> Sys \<Rightarrow> Sys" where
  "lock_step i s =
    (case sy_phase s i of
       Ph_Create n \<Rightarrow>
         (case sy_lock s of None \<Rightarrow> goto i Ph_Write (s\<lparr>sy_lock := Some (Empty_By i)\<rparr>) | Some _ \<Rightarrow> goto i (Ph_Read n) s)
     | Ph_Read n \<Rightarrow>
         (case sy_lock s of Some (Written_By _) \<Rightarrow> goto i Ph_Idle s | _ \<Rightarrow> goto i (Ph_Remove n) s)
     | Ph_Remove n \<Rightarrow> goto i (if n = 0 then Ph_Create 1 else Ph_Idle) (s\<lparr>sy_lock := None\<rparr>)
     | Ph_Write \<Rightarrow>
         goto i Ph_Record (if sy_lock s = Some (Empty_By i) then s\<lparr>sy_lock := Some (Written_By i)\<rparr> else s)
     | _ \<Rightarrow> s)"

text \<open>The same calls when the file system refuses them: a file that cannot be created ends the start, one that
  cannot be read counts as a stale lock, one that cannot be removed stays. A content that cannot be
  written, and a lock that cannot be removed at the end of a run, are not modelled.\<close>

definition lock_fails :: "nat \<Rightarrow> Sys \<Rightarrow> Sys" where
  "lock_fails i s =
    (case sy_phase s i of
       Ph_Create n \<Rightarrow> goto i Ph_Idle s
     | Ph_Read n \<Rightarrow> goto i (Ph_Remove n) s
     | Ph_Remove n \<Rightarrow> goto i (if n = 0 then Ph_Create 1 else Ph_Idle) s
     | _ \<Rightarrow> s)"

fun bench_act :: "Action \<Rightarrow> Sys \<Rightarrow> Sys" where
  "bench_act (A_Check i passes) s =
    (if sy_phase s i = Ph_Idle \<and> \<not> sy_active s \<and> passes then goto i (Ph_Create 0) s else s)"
| "bench_act (A_Lock i) s = lock_step i s"
| "bench_act (A_Lock_Fails i) s = lock_fails i s"
| "bench_act (A_Record i stored) s =
    (if sy_phase s i = Ph_Record then (if stored then goto i Ph_Begin s else goto i Ph_Idle (s\<lparr>sy_lock := None\<rparr>)) else s)"
| "bench_act (A_Begin i) s =
    (if sy_phase s i = Ph_Begin
     then goto i Ph_Spawn (s\<lparr>sy_active := True, sy_cancel := False, sy_generation := sy_generation s + 1\<rparr>) else s)"
| "bench_act (A_Spawn i) s =
    (if sy_phase s i = Ph_Spawn then goto i Ph_Idle (s\<lparr>sy_running := sy_running s + 1\<rparr>) else s)"
| "bench_act A_Cancel s = (if sy_active s then s\<lparr>sy_cancel := True\<rparr> else s)"
| "bench_act A_Release s =
    (if 0 < sy_running s then s\<lparr>sy_lock := None, sy_running := sy_running s - 1, sy_ending := sy_ending s + 1\<rparr> else s)"
| "bench_act A_Clear s =
    (if 0 < sy_ending s
     then s\<lparr>sy_active := False, sy_cancel := False, sy_generation := sy_generation s + 1, sy_ending := sy_ending s - 1\<rparr>
     else s)"

fun act_by :: "Action \<Rightarrow> nat option" where
  "act_by (A_Check i _) = Some i"
| "act_by (A_Lock i) = Some i"
| "act_by (A_Lock_Fails i) = Some i"
| "act_by (A_Record i _) = Some i"
| "act_by (A_Begin i) = Some i"
| "act_by (A_Spawn i) = Some i"
| "act_by _ = None"

definition bench_runs :: "Action list \<Rightarrow> Sys \<Rightarrow> Sys" where
  "bench_runs acts s = foldl (\<lambda>s a. bench_act a s) s acts"

section \<open>One accepting thread\<close>

text \<open>With one accepting thread the flag and the lock are right in every interleaving with the runner.\<close>

definition one_run :: "Sys \<Rightarrow> bool" where
  "one_run s \<longleftrightarrow>
    sy_running s + sy_ending s + (if sy_phase s 0 = Ph_Idle then 0 else 1) \<le> 1 \<and>
    (sy_active s \<longleftrightarrow> sy_phase s 0 = Ph_Spawn \<or> 0 < sy_running s + sy_ending s) \<and>
    (0 < sy_running s \<longrightarrow> sy_lock s = Some (Written_By 0)) \<and>
    (sy_phase s 0 \<in> {Ph_Record, Ph_Begin, Ph_Spawn} \<longrightarrow> sy_lock s = Some (Written_By 0)) \<and>
    (sy_phase s 0 = Ph_Write \<longrightarrow> sy_lock s = Some (Empty_By 0))"

lemma one_run_start: "one_run (sys_start lock)"
  by (simp add: one_run_def sys_start_def)

lemma one_run_lock: "one_run s \<Longrightarrow> one_run (lock_step 0 s)"
  by (cases "sy_phase s 0") (auto simp: one_run_def lock_step_def goto_def split: option.splits LockFile.splits)

lemma one_run_fails: "one_run s \<Longrightarrow> one_run (lock_fails 0 s)"
  by (cases "sy_phase s 0") (auto simp: one_run_def lock_fails_def goto_def)

lemma one_run_act: "one_run s \<Longrightarrow> act_by a \<in> {None, Some 0} \<Longrightarrow> one_run (bench_act a s)"
proof (cases a)
  case (A_Lock i)
  assume "one_run s" "act_by a \<in> {None, Some 0}"
  then show ?thesis using A_Lock one_run_lock by simp
next
  case (A_Lock_Fails i)
  assume "one_run s" "act_by a \<in> {None, Some 0}"
  then show ?thesis using A_Lock_Fails one_run_fails by simp
qed (auto simp: one_run_def goto_def split: if_splits)

lemma one_run_runs: "one_run s \<Longrightarrow> list_all (\<lambda>a. act_by a \<in> {None, Some 0}) acts \<Longrightarrow> one_run (bench_runs acts s)"
  unfolding bench_runs_def by (induction acts arbitrary: s) (auto intro!: one_run_act simp: bench_runs_def)

lemma one_run_parts:
  assumes "one_run s"
  shows "sy_running s + sy_ending s \<le> 1"
    "sy_active s \<longleftrightarrow> sy_phase s 0 = Ph_Spawn \<or> 0 < sy_running s + sy_ending s"
    "0 < sy_running s \<longrightarrow> sy_lock s = Some (Written_By 0)"
  using assms unfolding one_run_def by (linarith, simp, simp)

section \<open>A run can always be started again\<close>

text \<open>Nothing the collector itself leaves behind locks it out: only a file written by another process that
  lives refuses.\<close>

definition own_lock :: "Sys \<Rightarrow> bool" where
  "own_lock s \<longleftrightarrow> (\<forall>j. sy_lock s = Some (Written_By j) \<longrightarrow>
     sy_phase s 0 \<in> {Ph_Record, Ph_Begin, Ph_Spawn} \<or> 0 < sy_running s)"

lemma own_lock_lock: "one_run s \<Longrightarrow> own_lock s \<Longrightarrow> own_lock (lock_step 0 s)"
  by (cases "sy_phase s 0") (auto simp: one_run_def own_lock_def lock_step_def goto_def split: option.splits LockFile.splits)

lemma own_lock_fails: "one_run s \<Longrightarrow> own_lock s \<Longrightarrow> own_lock (lock_fails 0 s)"
  by (cases "sy_phase s 0") (auto simp: one_run_def own_lock_def lock_fails_def goto_def)

lemma own_lock_act: "one_run s \<Longrightarrow> own_lock s \<Longrightarrow> act_by a \<in> {None, Some 0} \<Longrightarrow> own_lock (bench_act a s)"
proof (cases a)
  case (A_Lock i)
  assume "one_run s" "own_lock s" "act_by a \<in> {None, Some 0}"
  then show ?thesis using A_Lock own_lock_lock by simp
next
  case (A_Lock_Fails i)
  assume "one_run s" "own_lock s" "act_by a \<in> {None, Some 0}"
  then show ?thesis using A_Lock_Fails own_lock_fails by simp
qed (auto simp: one_run_def own_lock_def goto_def split: if_splits)

lemma own_lock_runs:
  "one_run s \<Longrightarrow> own_lock s \<Longrightarrow> list_all (\<lambda>a. act_by a \<in> {None, Some 0}) acts \<Longrightarrow> own_lock (bench_runs acts s)"
  unfolding bench_runs_def by (induction acts arbitrary: s) (auto intro!: own_lock_act one_run_act simp: bench_runs_def)

definition run_inv :: "Sys \<Rightarrow> bool" where
  "run_inv s \<longleftrightarrow> one_run s \<and> own_lock s"

definition ours :: "Action \<Rightarrow> bool" where
  "ours a \<longleftrightarrow> act_by a \<in> {None, Some 0}"

lemma run_inv_act: "run_inv s \<Longrightarrow> ours a \<Longrightarrow> run_inv (bench_act a s)"
  unfolding run_inv_def ours_def by (blast intro: one_run_act own_lock_act)

text \<open>\<open>can_run s\<close>: from \<open>s\<close> some actions of the collector's own threads start a run.\<close>

definition can_run :: "Sys \<Rightarrow> bool" where
  "can_run s \<longleftrightarrow> (\<exists>acts. list_all ours acts \<and> sy_running (bench_runs acts s) = 1)"

lemma can_run_step:
  assumes later: "can_run (bench_act a s)" and a: "ours a"
  shows "can_run s"
proof -
  obtain acts where "list_all ours acts" "sy_running (bench_runs acts (bench_act a s)) = 1"
    using later unfolding can_run_def by blast
  then have "list_all ours (a # acts) \<and> sy_running (bench_runs (a # acts) s) = 1"
    using a by (simp add: bench_runs_def)
  then show ?thesis unfolding can_run_def by blast
qed

lemma can_run_now: "sy_running s = 1 \<Longrightarrow> can_run s"
  unfolding can_run_def by (rule exI [of _ "[]"]) (simp add: bench_runs_def)

named_theorems runs_on

lemma can_run_spawn [runs_on]: "run_inv s \<Longrightarrow> sy_phase s 0 = Ph_Spawn \<Longrightarrow> can_run s"
  by (rule can_run_step [of "A_Spawn 0"], rule can_run_now) (auto simp: run_inv_def one_run_def goto_def ours_def)

lemma can_run_begin [runs_on]: "run_inv s \<Longrightarrow> sy_phase s 0 = Ph_Begin \<Longrightarrow> can_run s"
  by (rule can_run_step [of "A_Begin 0"], rule can_run_spawn, erule run_inv_act) (auto simp: goto_def ours_def)

lemma can_run_record [runs_on]: "run_inv s \<Longrightarrow> sy_phase s 0 = Ph_Record \<Longrightarrow> can_run s"
  by (rule can_run_step [of "A_Record 0 True"], rule can_run_begin, erule run_inv_act) (auto simp: goto_def ours_def)

lemma can_run_write [runs_on]: "run_inv s \<Longrightarrow> sy_phase s 0 = Ph_Write \<Longrightarrow> can_run s"
  by (rule can_run_step [of "A_Lock 0"], rule can_run_record, erule run_inv_act) (auto simp: goto_def lock_step_def ours_def)

lemma can_run_free: "run_inv s \<Longrightarrow> sy_phase s 0 = Ph_Create n \<Longrightarrow> sy_lock s = None \<Longrightarrow> can_run s"
  by (rule can_run_step [of "A_Lock 0"], rule can_run_write, erule run_inv_act) (auto simp: goto_def lock_step_def ours_def)

definition quiet_idle :: "Sys \<Rightarrow> bool" where
  "quiet_idle s \<longleftrightarrow> sy_phase s 0 = Ph_Idle \<and> sy_running s = 0 \<and> sy_ending s = 0"

lemma quiet_inactive: "run_inv s \<Longrightarrow> quiet_idle s \<Longrightarrow> \<not> sy_active s"
  by (auto simp: run_inv_def one_run_def quiet_idle_def)

lemma can_run_idle_free: "run_inv s \<Longrightarrow> quiet_idle s \<Longrightarrow> sy_lock s = None \<Longrightarrow> can_run s"
  by (rule can_run_step [of "A_Check 0 True"], rule can_run_free [of _ 0], erule run_inv_act)
    (use quiet_inactive [of s] in \<open>auto simp: goto_def ours_def quiet_idle_def\<close>)

lemma not_idle_quiet: "run_inv s \<Longrightarrow> sy_phase s 0 \<noteq> Ph_Idle \<Longrightarrow> sy_running s = 0 \<and> sy_ending s = 0"
  by (auto simp: run_inv_def one_run_def split: if_splits)

lemma can_run_remove [runs_on]: "run_inv s \<Longrightarrow> sy_phase s 0 = Ph_Remove n \<Longrightarrow> can_run s"
proof (rule can_run_step [of "A_Lock 0"])
  assume inv: "run_inv s" and ph: "sy_phase s 0 = Ph_Remove n"
  have inv1: "run_inv (bench_act (A_Lock 0) s)" by (rule run_inv_act [OF inv]) (simp add: ours_def)
  show "can_run (bench_act (A_Lock 0) s)"
  proof (cases "n = 0")
    case True
    then show ?thesis by (intro can_run_free [OF inv1, of 1]) (use ph in \<open>simp_all add: goto_def lock_step_def\<close>)
  next
    case False
    then show ?thesis using not_idle_quiet [OF inv] ph
      by (intro can_run_idle_free [OF inv1]) (simp_all add: goto_def lock_step_def quiet_idle_def)
  qed
qed (simp add: ours_def)

lemma lock_not_live: "run_inv s \<Longrightarrow> sy_phase s 0 \<notin> {Ph_Record, Ph_Begin, Ph_Spawn} \<Longrightarrow> sy_running s = 0 \<Longrightarrow>
    sy_lock s \<noteq> Some (Written_By j)"
  by (auto simp: run_inv_def own_lock_def)

lemma can_run_read [runs_on]: "run_inv s \<Longrightarrow> sy_phase s 0 = Ph_Read n \<Longrightarrow> can_run s"
  by (rule can_run_step [of "A_Lock 0"], rule can_run_remove [of _ n], erule run_inv_act)
    (use not_idle_quiet [of s] lock_not_live [of s] in
      \<open>auto simp: goto_def lock_step_def ours_def split: option.split LockFile.split\<close>)

lemma can_run_create [runs_on]: "run_inv s \<Longrightarrow> sy_phase s 0 = Ph_Create n \<Longrightarrow> can_run s"
  by (cases "sy_lock s", erule (2) can_run_free, rule can_run_step [of "A_Lock 0"], rule can_run_read [of _ n],
      erule run_inv_act) (auto simp: goto_def lock_step_def ours_def)

lemma can_run_quiet: "run_inv s \<Longrightarrow> quiet_idle s \<Longrightarrow> can_run s"
  by (rule can_run_step [of "A_Check 0 True"], rule can_run_create [of _ 0], erule run_inv_act)
    (use quiet_inactive [of s] in \<open>auto simp: goto_def ours_def quiet_idle_def\<close>)

lemma can_run_idle [runs_on]: "run_inv s \<Longrightarrow> sy_phase s 0 = Ph_Idle \<Longrightarrow> can_run s"
proof -
  assume inv: "run_inv s" and idle: "sy_phase s 0 = Ph_Idle"
  then consider "sy_running s = 1" | "quiet_idle s" | "sy_running s = 0" "sy_ending s = 1"
    unfolding run_inv_def one_run_def quiet_idle_def by fastforce
  then show ?thesis
  proof cases
    case 3
    have "quiet_idle (bench_act A_Clear s)" "ours A_Clear" using 3 idle by (simp_all add: quiet_idle_def ours_def)
    then show ?thesis using can_run_quiet run_inv_act [OF inv] can_run_step by blast
  qed (use inv in \<open>simp_all add: can_run_now can_run_quiet\<close>)
qed

lemma always_can_run: "run_inv s \<Longrightarrow> can_run s"
  by (cases "sy_phase s 0") (auto intro: runs_on)

section \<open>Two accepting threads\<close>

text \<open>The second thread reads the lock file between its creation and the writing of its content.\<close>

definition double_start :: "Action list" where
  "double_start =
    [A_Check 0 True, A_Check 1 True, A_Lock 0,
     A_Lock 1, A_Lock 1, A_Lock 1, A_Lock 1, A_Lock 1,
     A_Lock 0, A_Record 0 True, A_Begin 0, A_Spawn 0,
     A_Record 1 True, A_Begin 1, A_Spawn 1]"

lemma double_start_runs:
  "sy_running (bench_runs double_start (sys_start None)) = 2"
  by (simp add: bench_runs_def double_start_def sys_start_def lock_step_def goto_def)

text \<open>The first of two runs that ends clears the flag of the other.\<close>

lemma double_start_flag:
  "sy_running (bench_runs (double_start @ [A_Release, A_Clear]) (sys_start None)) = 1 \<and>
   \<not> sy_active (bench_runs (double_start @ [A_Release, A_Clear]) (sys_start None))"
  by (simp add: bench_runs_def double_start_def sys_start_def lock_step_def goto_def)

end
