(* ===== verification/Http.thy ===== *)
theory Http
  imports HostText Users Pipeline "HOL-Library.AList"
begin

text \<open>
  The HTTP listener of the collector (\<open>crates/lss-collector/src/http.rs\<close>): which request goes where, who may
  change something, the queue of test alerts, and the cache of the history answers. A text that arrives as a
  request body is a list of Unicode scalar values. Answers rendered by \<open>serde_json\<close> are kept as values.
\<close>

section \<open>Text of a request\<close>

type_synonym utext = "nat list"

definition is_control :: "nat \<Rightarrow> bool" where
  "is_control c \<longleftrightarrow> c < 32 \<or> (127 \<le> c \<and> c < 160)"

definition is_white :: "nat \<Rightarrow> bool" where
  "is_white c \<longleftrightarrow> c \<in> {9, 10, 11, 12, 13, 32, 133, 160, 5760, 8232, 8233, 8239, 8287, 12288} \<or> (8192 \<le> c \<and> c \<le> 8202)"

definition trim_text :: "utext \<Rightarrow> utext" where
  "trim_text s = rev (dropWhile is_white (rev (dropWhile is_white s)))"

section \<open>Where a request comes from\<close>

text \<open>An address is its four or its eight numbers.\<close>

definition is_loopback :: "nat list \<Rightarrow> bool" where
  "is_loopback ip \<longleftrightarrow> (length ip = 4 \<and> hd ip = 127) \<or> ip = [0, 0, 0, 0, 0, 0, 0, 1]"

definition from_here :: "bool \<Rightarrow> nat list option \<Rightarrow> bool" where
  "from_here listener_is_loopback remote \<longleftrightarrow>
     listener_is_loopback \<and> (case remote of None \<Rightarrow> False | Some ip \<Rightarrow> is_loopback ip)"

section \<open>The shared state\<close>

record Shared =
  sh_status_json :: string
  sh_metrics_text :: string
  sh_rules_json :: string
  sh_loadouts_json :: string
  sh_tokens_json :: string
  sh_advice_json :: string
  sh_bench_json :: string
  sh_last_sample_ts :: i64
  sh_test_alerts :: "utext list"
  sh_gate_open :: "(i64 \<times> LogDelta) option"
  sh_maintenance :: MaintenanceState

datatype 'r Body = B_Text string | B_Queued utext | B_Maintenance MaintenanceReply | B_Bench 'r

type_synonym 'r reply = "nat \<times> string \<times> 'r Body"

definition JSON :: string where "JSON = ''application/json''"
definition PLAIN :: string where "PLAIN = ''text/plain''"

definition STALE_SECS :: i64 where "STALE_SECS = 30"
definition TEST_ALERT_MAX_CHARS :: nat where "TEST_ALERT_MAX_CHARS = 300"
definition TEST_ALERT_MAX_PENDING :: nat where "TEST_ALERT_MAX_PENDING = 5"
definition CACHE_TTL :: nat where "CACHE_TTL = 2000000000"
definition CACHE_MAX :: nat where "CACHE_MAX = 64"

section \<open>The requests that change something\<close>

definition alert_text :: "utext \<Rightarrow> utext" where
  "alert_text body = take TEST_ALERT_MAX_CHARS (trim_text (map (\<lambda>c. if is_control c then 32 else c) body))"

definition NOT_HERE_ALERT :: string where
  \<open>NOT_HERE_ALERT = ''{"error":"test-alert is only accepted on 127.0.0.1, from this machine"}'' @ [CHR 0x0A]\<close>

definition test_alert :: "bool \<Rightarrow> nat list option \<Rightarrow> bool \<Rightarrow> utext \<Rightarrow> Shared \<Rightarrow> Shared \<times> 'r reply" where
  \<open>test_alert listener_is_loopback remote is_post body s =
    (if \<not> from_here listener_is_loopback remote then (s, 403, JSON, B_Text NOT_HERE_ALERT)
     else if \<not> is_post then
       (s, 405, JSON, B_Text (''{"error":"POST the message as the request body"}'' @ [CHR 0x0A]))
     else
       (let msg = alert_text body in
        if msg = [] then (s, 400, JSON, B_Text (''{"error":"empty message"}'' @ [CHR 0x0A]))
        else if TEST_ALERT_MAX_PENDING \<le> length (sh_test_alerts s) then
          (s, 429, JSON, B_Text (''{"error":"too many test alerts pending"}'' @ [CHR 0x0A]))
        else (s\<lparr>sh_test_alerts := sh_test_alerts s @ [msg]\<rparr>, 202, JSON, B_Queued msg)))\<close>

text \<open>A refusal \<open>json(code, {"ok": false, "message": ...})\<close> is a reply that is not ok.\<close>

definition maintenance_refusal :: "string \<Rightarrow> MaintenanceReply" where
  "maintenance_refusal message = \<lparr>mr_ok = False, mr_message = message, mr_expires_at = 0\<rparr>"

definition NOT_HERE_MAINTENANCE :: string where
  "NOT_HERE_MAINTENANCE = ''maintenance mode can only be changed on the GPU box itself (127.0.0.1): run `lss maintenance` there, or over ssh''"

definition EMPTY_OBJECT :: utext where "EMPTY_OBJECT = [123, 125]"

definition maintenance_post ::
  "(utext \<Rightarrow> string + (string \<times> u32)) \<Rightarrow> string \<Rightarrow> bool \<Rightarrow> nat list option \<Rightarrow> utext \<Rightarrow> i64 \<Rightarrow> Shared \<Rightarrow>
    Shared \<times> nat \<times> MaintenanceReply" where
  "maintenance_post parse path listener_is_loopback remote body now s =
    (if \<not> from_here listener_is_loopback remote then (s, 403, maintenance_refusal NOT_HERE_MAINTENANCE)
     else if path = ''/maintenance/start'' then
       (case parse (if trim_text body = [] then EMPTY_OBJECT else body) of
          Inl e \<Rightarrow> (s, 400, maintenance_refusal (''the request body is not the JSON `lss maintenance start` sends: '' @ e))
        | Inr (reason, minutes) \<Rightarrow>
            (let (m, reply) = maintenance_start (sh_maintenance s) now reason minutes
             in (s\<lparr>sh_maintenance := m\<rparr>, if mr_ok reply then 200 else 400, reply)))
     else if path = ''/maintenance/stop'' then
       (let (m, reply) = maintenance_stop (sh_maintenance s) now
        in (s\<lparr>sh_maintenance := m\<rparr>, 200,
            case reply of Some r \<Rightarrow> r | None \<Rightarrow> maintenance_refusal ''no maintenance window is open''))
     else (s, 404, maintenance_refusal ''not found''))"

text \<open>The operations of the benchmark (\<open>bench_run.rs\<close>) on its own state, which the listener only calls.\<close>

record ('b, 'r) BenchOps =
  bo_parse :: "utext \<Rightarrow> string + 'r"
  bo_start :: "'b \<Rightarrow> 'r \<Rightarrow> 'b \<times> nat \<times> 'r"
  bo_cancel :: "'b \<Rightarrow> 'b \<times> nat \<times> 'r"
  bo_compare :: "'b \<Rightarrow> utext \<Rightarrow> nat \<times> 'r"
  bo_refuse :: "string \<Rightarrow> 'r"

definition NOT_HERE_BENCH :: string where
  "NOT_HERE_BENCH = ''a benchmark can only be started on the GPU box itself (127.0.0.1): run `lss bench` there, or over ssh''"

definition bench_post ::
  "('b, 'r) BenchOps \<Rightarrow> string \<Rightarrow> bool \<Rightarrow> nat list option \<Rightarrow> utext \<Rightarrow> 'b \<Rightarrow> 'b \<times> nat \<times> 'r" where
  "bench_post ops path listener_is_loopback remote body b =
    (if \<not> from_here listener_is_loopback remote then (b, 403, bo_refuse ops NOT_HERE_BENCH)
     else if path = ''/bench'' then
       (case bo_parse ops (if trim_text body = [] then EMPTY_OBJECT else body) of
          Inl e \<Rightarrow> (b, 400, bo_refuse ops (''the request body is not the JSON `lss bench` sends: '' @ e))
        | Inr req \<Rightarrow> bo_start ops b req)
     else if path = ''/bench/cancel'' then bo_cancel ops b
     else if path = ''/bench/compare-accuracy'' then (let (code, r) = bo_compare ops b body in (b, code, r))
     else (b, 404, bo_refuse ops ''not found''))"

section \<open>The documents\<close>

definition HELP_TEXT :: string where
  "HELP_TEXT = ''lss-collector: /status /rules /loadouts /tokens /advice /bench (JSON, schema v1)  /series?metrics=a,b&range=6h&step=auto  /hist?metric=ttft&range=1h  /gateway?range=1h  /metrics (Prometheus)  /health  POST /test-alert /bench /bench/cancel /maintenance/start /maintenance/stop (127.0.0.1 only)'' @ [CHR 0x0A]"

definition path_of :: "string \<Rightarrow> string" where
  "path_of url = hd (split_on (CHR ''?'') url)"

definition healthy :: "i64 \<Rightarrow> Shared \<Rightarrow> bool" where
  "healthy now s \<longleftrightarrow> 0 < sh_last_sample_ts s \<and> now - sh_last_sample_ts s \<le> STALE_SECS"

definition health_text :: "string \<Rightarrow> i64 \<Rightarrow> Shared \<Rightarrow> string" where
  \<open>health_text version now s =
    ''{"ok":'' @ show_bool (healthy now s) @ '',"last_sample_age_s":'' @
    show_int (if 0 < sh_last_sample_ts s then now - sh_last_sample_ts s else - 1) @ '',"version":"'' @ version @
    ''"}'' @ [CHR 0x0A]\<close>

definition route :: "string \<Rightarrow> i64 \<Rightarrow> string \<Rightarrow> Shared \<Rightarrow> 'r reply" where
  "route version now url s =
    (let path = path_of url in
     if path = ''/status'' then (200, JSON, B_Text (sh_status_json s))
     else if path = ''/metrics'' then (200, ''text/plain; version=0.0.4'', B_Text (sh_metrics_text s))
     else if path = ''/rules'' then (200, JSON, B_Text (sh_rules_json s))
     else if path = ''/loadouts'' then (200, JSON, B_Text (sh_loadouts_json s))
     else if path = ''/tokens'' then (200, JSON, B_Text (sh_tokens_json s))
     else if path = ''/advice'' then (200, JSON, B_Text (sh_advice_json s))
     else if path = ''/bench'' then (200, JSON, B_Text (sh_bench_json s))
     else if path = ''/health'' then
       (if healthy now s then 200 else 503, JSON, B_Text (health_text version now s))
     else if path = ''/'' then (200, PLAIN, B_Text HELP_TEXT)
     else (404, PLAIN, B_Text (''not found'' @ [CHR 0x0A])))"

definition is_history :: "string \<Rightarrow> bool" where
  "is_history path \<longleftrightarrow> path \<in> {''/series'', ''/hist'', ''/gateway''}"

section \<open>The listener\<close>

text \<open>An answer of the history endpoints is kept for two seconds, under its whole URL.\<close>

type_synonym cache = "(string \<times> nat \<times> nat \<times> string) list"

definition cached :: "cache \<Rightarrow> nat \<Rightarrow> string \<Rightarrow> (nat \<times> string) option" where
  "cached cache clock url =
    (case map_of cache url of None \<Rightarrow> None
     | Some (stamp, answer) \<Rightarrow> if clock - stamp < CACHE_TTL then Some answer else None)"

definition remember :: "cache \<Rightarrow> nat \<Rightarrow> string \<Rightarrow> nat \<times> string \<Rightarrow> cache" where
  "remember cache clock url fresh =
    AList.update url (clock, fresh) (if CACHE_MAX \<le> length cache then [] else cache)"

datatype Method = M_Get | M_Head | M_Post | M_Other

record Request =
  re_method :: Method
  re_url :: string
  re_remote :: "nat list option"
  re_body :: utext

record 'b World =
  wo_shared :: Shared
  wo_bench :: 'b
  wo_cache :: cache

text \<open>What the listener is given: its address, the program's version, the clocks, and the history handlers. A
  handler that panics (\<open>None\<close>) ends the listener's thread: nothing is answered and nothing is cached.\<close>

record ('b, 'r) Listener =
  li_loopback :: bool
  li_version :: string
  li_parse :: "utext \<Rightarrow> string + (string \<times> u32)"
  li_ops :: "('b, 'r) BenchOps"
  li_history :: "i64 \<Rightarrow> Shared \<Rightarrow> string \<Rightarrow> (nat \<times> string) option"

definition get_history ::
  "('b, 'r) Listener \<Rightarrow> i64 \<Rightarrow> nat \<Rightarrow> string \<Rightarrow> 'b World \<Rightarrow> 'b World \<times> (nat \<times> string) option" where
  "get_history l now clock url w =
    (case cached (wo_cache w) clock url of
       Some hit \<Rightarrow> (w, Some hit)
     | None \<Rightarrow>
        (case li_history l now (wo_shared w) url of
           None \<Rightarrow> (w, None)
         | Some fresh \<Rightarrow> (w\<lparr>wo_cache := remember (wo_cache w) clock url fresh\<rparr>, Some fresh)))"

definition serve_request ::
  "('b, 'r) Listener \<Rightarrow> i64 \<Rightarrow> nat \<Rightarrow> Request \<Rightarrow> 'b World \<Rightarrow> 'b World \<times> 'r reply option" where
  "serve_request l now clock req w =
    (let path = path_of (re_url req); reads = re_method req = M_Get \<or> re_method req = M_Head in
     if path = ''/test-alert'' then
       (let (s, reply) = test_alert (li_loopback l) (re_remote req) (re_method req = M_Post) (re_body req) (wo_shared w)
        in (w\<lparr>wo_shared := s\<rparr>, Some reply))
     else if re_method req = M_Post \<and> starts_with path ''/bench'' then
       (let (b, code, r) = bench_post (li_ops l) path (li_loopback l) (re_remote req) (re_body req) (wo_bench w)
        in (w\<lparr>wo_bench := b\<rparr>, Some (code, JSON, B_Bench r)))
     else if re_method req = M_Post \<and> starts_with path ''/maintenance'' then
       (let (s, code, r) = maintenance_post (li_parse l) path (li_loopback l) (re_remote req) (re_body req) now (wo_shared w)
        in (w\<lparr>wo_shared := s\<rparr>, Some (code, JSON, B_Maintenance r)))
     else if reads \<and> is_history path then
       (let (w1, answer) = get_history l now clock (re_url req) w
        in (w1, map_option (\<lambda>(code, text). (code, JSON, B_Text text)) answer))
     else if reads then (w, Some (route (li_version l) now (re_url req) (wo_shared w)))
     else (w, Some (405, PLAIN, B_Text (''method not allowed'' @ [CHR 0x0A]))))"

text \<open>The poll loop takes the pending test alerts, and closes an expired maintenance window.\<close>

definition take_alerts :: "'b World \<Rightarrow> 'b World \<times> utext list" where
  "take_alerts w = (w\<lparr>wo_shared := (wo_shared w)\<lparr>sh_test_alerts := []\<rparr>\<rparr>, sh_test_alerts (wo_shared w))"

section \<open>What every sequence of requests keeps\<close>

definition alert_ok :: "utext \<Rightarrow> bool" where
  "alert_ok m \<longleftrightarrow> m \<noteq> [] \<and> length m \<le> TEST_ALERT_MAX_CHARS \<and> list_all (\<lambda>c. \<not> is_control c) m"

lemma set_trim_text: "set (trim_text s) \<subseteq> set s"
  by (auto simp: trim_text_def dest!: set_dropWhileD)

lemma alert_text_ok: "alert_text body \<noteq> [] \<Longrightarrow> alert_ok (alert_text body)"
proof -
  assume ne: "alert_text body \<noteq> []"
  have clean: "\<not> is_control c" if "c \<in> set (map (\<lambda>c. if is_control c then 32 else c) body)" for c
  proof -
    from that obtain d where "c = (if is_control d then 32 else d)" unfolding set_map by (rule imageE)
    moreover have "\<not> is_control 32" by (simp add: is_control_def)
    ultimately show ?thesis by (cases "is_control d") simp_all
  qed
  have "set (alert_text body) \<subseteq> set (map (\<lambda>c. if is_control c then 32 else c) body)"
    unfolding alert_text_def by (rule subset_trans [OF set_take_subset set_trim_text])
  then have "\<not> is_control c" if "c \<in> set (alert_text body)" for c using that clean by blast
  moreover have "length (alert_text body) \<le> TEST_ALERT_MAX_CHARS" by (simp add: alert_text_def)
  ultimately show ?thesis unfolding alert_ok_def list_all_iff using ne by blast
qed

definition alerts_ok :: "Shared \<Rightarrow> bool" where
  "alerts_ok s \<longleftrightarrow> length (sh_test_alerts s) \<le> TEST_ALERT_MAX_PENDING \<and> list_all alert_ok (sh_test_alerts s)"

lemma test_alert_ok: "alerts_ok s \<Longrightarrow> alerts_ok (fst (test_alert here remote is_post body s))"
  by (auto simp: test_alert_def Let_def alerts_ok_def alert_text_ok)

lemma test_alert_maintenance [simp]:
  "sh_maintenance (fst (test_alert here remote is_post body s)) = sh_maintenance s"
  by (simp add: test_alert_def Let_def)

lemma maintenance_post_parts:
  "sh_test_alerts (fst (maintenance_post parse path here remote body now s)) = sh_test_alerts s"
  "maint_ok (sh_maintenance s) \<Longrightarrow> maint_ok (sh_maintenance (fst (maintenance_post parse path here remote body now s)))"
  using maint_ok_start maint_ok_stop
  by (auto simp: maintenance_post_def Let_def case_prod_beta split: sum.splits)

lemma maintenance_post_alerts [simp]:
  "alerts_ok (fst (maintenance_post parse path here remote body now s)) = alerts_ok s"
  by (simp add: alerts_ok_def maintenance_post_parts(1))

lemma length_update: "length (AList.update k v al) \<le> Suc (length al)"
  by (induction al) auto

lemma remember_bound: "length cache \<le> CACHE_MAX \<Longrightarrow> length (remember cache clock url fresh) \<le> CACHE_MAX"
  using length_update [of url "(clock, fresh)" cache] length_update [of url "(clock, fresh)" "[]"]
  by (auto simp: remember_def CACHE_MAX_def)

definition world_ok :: "'b World \<Rightarrow> bool" where
  "world_ok w \<longleftrightarrow> alerts_ok (wo_shared w) \<and> maint_ok (sh_maintenance (wo_shared w)) \<and> length (wo_cache w) \<le> CACHE_MAX"

lemma serve_cases:
  fixes l :: "('b, 'r) Listener"
  assumes w1: "w1 = fst (serve_request l now clock req w)"
  shows "(\<exists>is_post. wo_shared w1 = fst (test_alert (li_loopback l) (re_remote req) is_post (re_body req) (wo_shared w) :: Shared \<times> 'r reply) \<and>
        wo_bench w1 = wo_bench w \<and> wo_cache w1 = wo_cache w) \<or>
     (\<exists>path. wo_bench w1 = fst (bench_post (li_ops l) path (li_loopback l) (re_remote req) (re_body req) (wo_bench w)) \<and>
        wo_shared w1 = wo_shared w \<and> wo_cache w1 = wo_cache w) \<or>
     (\<exists>path. wo_shared w1 = fst (maintenance_post (li_parse l) path (li_loopback l) (re_remote req) (re_body req) now (wo_shared w)) \<and>
        wo_bench w1 = wo_bench w \<and> wo_cache w1 = wo_cache w) \<or>
     (\<exists>fresh. wo_shared w1 = wo_shared w \<and> wo_bench w1 = wo_bench w \<and>
        wo_cache w1 = remember (wo_cache w) clock (re_url req) fresh) \<or>
     w1 = w"
proof -
  let ?p = "path_of (re_url req)"
  let ?reads = "re_method req = M_Get \<or> re_method req = M_Head"
  have reads_not_post: "?reads \<Longrightarrow> re_method req \<noteq> M_Post" by auto
  note unfold = w1 serve_request_def Let_def case_prod_beta fst_conv
  consider "?p = ''/test-alert''" | "?p \<noteq> ''/test-alert''" "re_method req = M_Post \<and> starts_with ?p ''/bench''"
    | "?p \<noteq> ''/test-alert''" "\<not> (re_method req = M_Post \<and> starts_with ?p ''/bench'')"
      "re_method req = M_Post \<and> starts_with ?p ''/maintenance''"
    | "?p \<noteq> ''/test-alert''" "\<not> (re_method req = M_Post \<and> starts_with ?p ''/bench'')"
      "\<not> (re_method req = M_Post \<and> starts_with ?p ''/maintenance'')" "?reads \<and> is_history ?p"
    | "?p \<noteq> ''/test-alert''" "\<not> (re_method req = M_Post \<and> starts_with ?p ''/bench'')"
      "\<not> (re_method req = M_Post \<and> starts_with ?p ''/maintenance'')" "\<not> (?reads \<and> is_history ?p)"
    by blast
  then show ?thesis
  proof cases
    case 1
    have "w1 = w\<lparr>wo_shared := fst (test_alert (li_loopback l) (re_remote req) (re_method req = M_Post) (re_body req) (wo_shared w) :: Shared \<times> 'r reply)\<rparr>"
      unfolding unfold if_P [OF 1] by (rule refl)
    then show ?thesis by (intro disjI1 exI [of _ "re_method req = M_Post"]) simp
  next
    case 2
    have "w1 = w\<lparr>wo_bench := fst (bench_post (li_ops l) ?p (li_loopback l) (re_remote req) (re_body req) (wo_bench w))\<rparr>"
      unfolding unfold if_not_P [OF 2(1)] if_P [OF 2(2)] by (rule refl)
    then show ?thesis by (intro disjI2 [OF disjI1] exI [of _ ?p]) simp
  next
    case 3
    have "w1 = w\<lparr>wo_shared := fst (maintenance_post (li_parse l) ?p (li_loopback l) (re_remote req) (re_body req) now (wo_shared w))\<rparr>"
      unfolding unfold if_not_P [OF 3(1)] if_not_P [OF 3(2)] if_P [OF 3(3)] by (rule refl)
    then show ?thesis by (intro disjI2 [OF disjI2 [OF disjI1]] exI [of _ ?p]) simp
  next
    case 4
    have "w1 = fst (get_history l now clock (re_url req) w)"
      unfolding unfold if_not_P [OF 4(1)] if_not_P [OF 4(2)] if_not_P [OF 4(3)] if_P [OF 4(4)] by (rule refl)
    then have "w1 = w \<or> (\<exists>fresh. w1 = w\<lparr>wo_cache := remember (wo_cache w) clock (re_url req) fresh\<rparr>)"
      by (auto simp: get_history_def split: option.split)
    then show ?thesis by (elim disjE exE) (simp_all del: split_paired_Ex, blast)
  next
    case 5
    have "w1 = w"
      unfolding unfold if_not_P [OF 5(1)] if_not_P [OF 5(2)] if_not_P [OF 5(3)] if_not_P [OF 5(4)]
      by (simp only: fst_conv split: if_split) blast
    then show ?thesis by simp
  qed
qed

lemma serve_world_ok: "world_ok w \<Longrightarrow> world_ok (fst (serve_request l now clock req w))"
  using serve_cases [OF refl, of l now clock req w]
  by (auto simp: world_ok_def intro: test_alert_ok maintenance_post_parts(2) remember_bound)

lemma not_here_unchanged:
  assumes "\<not> from_here (li_loopback l) (re_remote req)"
  shows "wo_shared (fst (serve_request l now clock req w)) = wo_shared w \<and>
    wo_bench (fst (serve_request l now clock req w)) = wo_bench w"
  using serve_cases [OF refl, of l now clock req w] assms
  by (auto simp: test_alert_def bench_post_def maintenance_post_def)

inductive world_reach :: "('b, 'r) Listener \<Rightarrow> 'b World \<Rightarrow> bool" for l where
  start: "sh_test_alerts (wo_shared w) = [] \<Longrightarrow> sh_maintenance (wo_shared w) = maintenance_default \<Longrightarrow> wo_cache w = [] \<Longrightarrow>
    world_reach l w"
| serve: "world_reach l w \<Longrightarrow> world_reach l (fst (serve_request l now clock req w))"
| take: "world_reach l w \<Longrightarrow> world_reach l (fst (take_alerts w))"
| expire: "world_reach l w \<Longrightarrow> maintenance_expired (sh_maintenance (wo_shared w)) now \<Longrightarrow>
    world_reach l (w\<lparr>wo_shared := (wo_shared w)\<lparr>sh_maintenance := fst (maintenance_stop (sh_maintenance (wo_shared w)) now)\<rparr>\<rparr>)"

lemma world_reach_ok: "world_reach l w \<Longrightarrow> world_ok w"
proof (induction rule: world_reach.induct)
  case (start w)
  then show ?case by (simp add: world_ok_def alerts_ok_def maint_ok_def maintenance_default_def)
next
  case (take w)
  then show ?case by (simp add: world_ok_def take_alerts_def alerts_ok_def)
next
  case (expire w now)
  then show ?case by (simp add: world_ok_def alerts_ok_def maint_ok_stop)
qed (rule serve_world_ok)

text \<open>An answer from the cache is less than two seconds old, and the one given to the same URL then.\<close>

lemma remember_then_cached:
  "cached (remember cache at_time url fresh) clock url = (if clock - at_time < CACHE_TTL then Some fresh else None)"
  by (simp add: cached_def remember_def update_conv)

end
