(* ===== verification/ServiceClaims.thy ===== *)
theory ServiceClaims
  imports BenchSafetyFacts BenchShellFacts BenchRun Http
begin

text \<open>
  The properties of the collector as a service: what a request over HTTP can change, and the benchmark it
  runs on request - one at a time, stopped for other people only, and started through a shell that reads
  exactly the words it was given.
\<close>

section \<open>The listener\<close>

text \<open>C16. A request that does not come from the machine itself changes nothing but the cache of the
  history answers: whatever its method, its path and its body are, the alerts waiting to be sent, the
  maintenance window, every published document and the benchmark stay as they are. That holds too for a
  request whose handler panics (C18): it is not answered and ends the listener's thread.\<close>

theorem remote_requests_change_nothing:
  assumes "\<not> from_here (li_loopback l) (re_remote req)"
  shows "wo_shared (fst (serve_request l now clock req w)) = wo_shared w \<and>
    wo_bench (fst (serve_request l now clock req w)) = wo_bench w"
  by (rule not_here_unchanged [OF assms])

definition idle_ops :: "(nat, nat) BenchOps" where
  "idle_ops = \<lparr>bo_parse = (\<lambda>_. Inr 0), bo_start = (\<lambda>b r. (b + 1, 202, r)), bo_cancel = (\<lambda>b. (b - 1, 200, 0)),
     bo_compare = (\<lambda>b _. (200, b)), bo_refuse = (\<lambda>_. 1)\<rparr>"

definition open_listener :: "bool \<Rightarrow> (nat, nat) Listener" where
  "open_listener loop = \<lparr>li_loopback = loop, li_version = ''0.8.0'', li_parse = (\<lambda>_. Inr (''upgrade'', 30)),
     li_ops = idle_ops, li_history = (\<lambda>_ _ url. Some (200, url))\<rparr>"

definition bench_request :: "nat list option \<Rightarrow> Request" where
  "bench_request remote = \<lparr>re_method = M_Post, re_url = ''/bench'', re_remote = remote, re_body = []\<rparr>"

theorem remote_requests_change_nothing_witness:
  "\<forall>w. wo_bench (fst (serve_request (open_listener True) 0 0 (bench_request (Some [192, 168, 1, 7])) w)) = wo_bench w"
  using remote_requests_change_nothing [of "open_listener True" "bench_request (Some [192, 168, 1, 7])" 0 0]
  by (simp add: open_listener_def bench_request_def from_here_def is_loopback_def)

text \<open>Whatever requests arrive, in whatever order with the poll loop, the state the listener shares
  stays well formed: at most five test alerts wait, each of one to three hundred characters none of
  which is a control character, the maintenance window is none or one whose length is in bounds, and
  the cache holds at most sixty-four answers.\<close>

theorem service_state_is_well_formed:
  assumes "world_reach l w"
  shows "length (sh_test_alerts (wo_shared w)) \<le> TEST_ALERT_MAX_PENDING \<and>
    list_all (\<lambda>m. m \<noteq> [] \<and> length m \<le> TEST_ALERT_MAX_CHARS \<and> list_all (\<lambda>c. \<not> is_control c) m)
      (sh_test_alerts (wo_shared w)) \<and>
    maint_ok (sh_maintenance (wo_shared w)) \<and> length (wo_cache w) \<le> CACHE_MAX"
  using world_reach_ok [OF assms] by (simp add: world_ok_def alerts_ok_def alert_ok_def [abs_def])

definition alert_request :: "utext \<Rightarrow> Request" where
  "alert_request body = \<lparr>re_method = M_Post, re_url = ''/test-alert'', re_remote = Some [127, 0, 0, 1], re_body = body\<rparr>"

definition first_world :: "Shared \<Rightarrow> nat World" where
  "first_world s = \<lparr>wo_shared = s\<lparr>sh_test_alerts := [], sh_maintenance := maintenance_default\<rparr>, wo_bench = 0, wo_cache = []\<rparr>"

theorem service_state_is_well_formed_witness:
  "\<forall>s. length (sh_test_alerts (wo_shared (fst (serve_request (open_listener True) 0 0 (alert_request [104, 105]) (first_world s))))) \<le>
     TEST_ALERT_MAX_PENDING"
proof
  fix s
  have "world_reach (open_listener True) (first_world s)"
    by (rule world_reach.start) (simp_all add: first_world_def)
  then have "world_reach (open_listener True) (fst (serve_request (open_listener True) 0 0 (alert_request [104, 105]) (first_world s)))"
    by (rule world_reach.serve)
  from service_state_is_well_formed [OF this]
  show "length (sh_test_alerts (wo_shared (fst (serve_request (open_listener True) 0 0 (alert_request [104, 105]) (first_world s))))) \<le>
     TEST_ALERT_MAX_PENDING" by blast
qed

section \<open>One benchmark at a time\<close>

text \<open>C6. While one thread accepts the requests, at most one benchmark runs, in every interleaving of
  its actions with those of the running benchmark, whatever the lock file was at the start; the flag
  \<open>active\<close> is set exactly while one is about to run, runs or ends, and a running benchmark holds the lock
  file. With two accepting threads it is not so: the second one may read the lock file after it is created
  and before its content is written, take it for a stale one and remove it - two benchmarks run, and the
  first that ends clears the flag of the other.\<close>

theorem one_benchmark_at_a_time:
  "(list_all (\<lambda>a. act_by a \<in> {None, Some 0}) acts \<longrightarrow>
     sy_running (bench_runs acts (sys_start lock)) + sy_ending (bench_runs acts (sys_start lock)) \<le> 1 \<and>
     (sy_active (bench_runs acts (sys_start lock)) \<longleftrightarrow>
       sy_phase (bench_runs acts (sys_start lock)) 0 = Ph_Spawn \<or>
       0 < sy_running (bench_runs acts (sys_start lock)) + sy_ending (bench_runs acts (sys_start lock))) \<and>
     (0 < sy_running (bench_runs acts (sys_start lock)) \<longrightarrow>
       sy_lock (bench_runs acts (sys_start lock)) = Some (Written_By 0))) \<and>
   sy_running (bench_runs double_start (sys_start None)) = 2 \<and>
   sy_running (bench_runs (double_start @ [A_Release, A_Clear]) (sys_start None)) = 1 \<and>
   \<not> sy_active (bench_runs (double_start @ [A_Release, A_Clear]) (sys_start None))"
proof (intro conjI impI)
  assume "list_all (\<lambda>a. act_by a \<in> {None, Some 0}) acts"
  then have ok: "one_run (bench_runs acts (sys_start lock))" by (rule one_run_runs [OF one_run_start])
  note parts = one_run_parts [OF ok]
  show "sy_running (bench_runs acts (sys_start lock)) + sy_ending (bench_runs acts (sys_start lock)) \<le> 1"
    by (rule parts(1))
  show "sy_active (bench_runs acts (sys_start lock)) \<longleftrightarrow>
       sy_phase (bench_runs acts (sys_start lock)) 0 = Ph_Spawn \<or>
       0 < sy_running (bench_runs acts (sys_start lock)) + sy_ending (bench_runs acts (sys_start lock))"
    by (rule parts(2))
  show "sy_lock (bench_runs acts (sys_start lock)) = Some (Written_By 0)"
    if "0 < sy_running (bench_runs acts (sys_start lock))" using parts(3) that by (rule mp)
qed (use double_start_runs double_start_flag in simp_all)

definition one_start :: "Action list" where
  "one_start = [A_Check 0 True, A_Lock 0, A_Lock 0, A_Record 0 True, A_Begin 0, A_Spawn 0, A_Check 0 True]"

theorem one_benchmark_at_a_time_witness:
  "sy_running (bench_runs one_start (sys_start None)) \<le> 1 \<and>
   sy_lock (bench_runs one_start (sys_start None)) = Some (Written_By 0)"
proof -
  have "list_all (\<lambda>a. act_by a \<in> {None, Some 0}) one_start" by (simp add: one_start_def)
  moreover have "0 < sy_running (bench_runs one_start (sys_start None))"
    by (simp add: bench_runs_def one_start_def sys_start_def lock_step_def goto_def)
  ultimately show ?thesis using one_benchmark_at_a_time [of one_start None] by simp
qed

text \<open>C25. The collector never locks itself out of benchmarks: wherever the accepting thread and the runner
  are - in the middle of a start, of a run or of its end, after a lock file that a dead process left
  behind - some actions of their own lead to a state in which a benchmark runs. Only the lock file of
  another process that lives is respected.\<close>

theorem a_benchmark_can_always_start:
  assumes "list_all (\<lambda>a. act_by a \<in> {None, Some 0}) acts" "\<forall>j. lock \<noteq> Some (Written_By j)"
  shows "\<exists>more_acts. list_all (\<lambda>a. act_by a \<in> {None, Some 0}) more_acts \<and>
    sy_running (bench_runs (acts @ more_acts) (sys_start lock)) = 1"
proof -
  have "own_lock (sys_start lock)" using assms(2) by (simp add: own_lock_def sys_start_def)
  then have "run_inv (bench_runs acts (sys_start lock))"
    using one_run_runs own_lock_runs one_run_start assms(1) unfolding run_inv_def by blast
  from always_can_run [OF this] show ?thesis
    unfolding can_run_def ours_def bench_runs_def foldl_append .
qed

theorem a_benchmark_can_always_start_witness:
  "\<exists>more_acts. list_all (\<lambda>a. act_by a \<in> {None, Some 0}) more_acts \<and>
    sy_running (bench_runs ((one_start @ [A_Cancel, A_Release]) @ more_acts) (sys_start (Some (Empty_By 7)))) = 1"
  by (rule a_benchmark_can_always_start) (simp_all add: one_start_def)

section \<open>A benchmark and the other users\<close>

text \<open>C15. A scorecard that calls the run quiet is a proof: every poll of the run saw, from the gateway's user
  table or from its lanes, that nobody else had a request in flight. A poll that had only the engine's own
  total, or nothing at all, can never make a run quiet.\<close>

theorem quiet_scorecard_is_a_proof:
  assumes "sampler_finish (poll_run polls) engine_tok_s = Some b" "load_class b = LC_Quiet" "(o1, k) \<in> set polls"
  shows "\<exists>n src. foreign_now o1 k = Some (n, src) \<and> src \<in> {LOAD_SRC_USERS, LOAD_SRC_LANES} \<and> \<not> f_ge n HALF"
  using quiet_is_proof [OF assms] by simp

definition quiet_obs :: SafetyObs where
  "quiet_obs = \<lparr>so_running = Some (F_Fin 2), so_queue = Some (F_Fin 0), so_gateway_public = None, so_gateway_trusted = None,
     so_other_users_inflight = Some 0, so_own_gateway_inflight = 0, so_own_lane = OL_Trusted\<rparr>"

lemma quiet_obs_foreign: "foreign_now quiet_obs k = Some (F_Fin 0, LOAD_SRC_USERS)"
  by (simp add: foreign_now_def quiet_obs_def f_of_nat_exact)

definition quiet_load :: BackgroundLoad where
  "quiet_load = \<lparr>bl_samples = 1, bl_polls_with_traffic = 0, bl_concurrent_avg = Some (F_Fin 0), bl_concurrent_max = Some (F_Fin 0),
     bl_source = LOAD_SRC_USERS, bl_queue_avg = F_Fin 0, bl_queue_max = F_Fin 0, bl_engine_tok_s = None\<rparr>"

lemma quiet_run: "sampler_finish (poll_run [(quiet_obs, 2)]) None = Some quiet_load" "load_class quiet_load = LC_Quiet"
proof -
  have half: "\<lfloor>1 / 2 :: rat\<rfloor> = 0" by (simp add: floor_eq_iff)
  have queue: "so_queue quiet_obs = Some (F_Fin 0)" by (simp add: quiet_obs_def)
  have "sampler_push sampler_default quiet_obs 2 =
    sampler_default\<lparr>ls_samples := 1, ls_foreign_samples := 1, ls_weakest := Some LOAD_SRC_USERS\<rparr>"
    unfolding sampler_push_def Let_def quiet_obs_foreign queue option.case prod.case
    by (simp add: see_foreign_def see_queue_def weaker_def sampler_default_def f_add_Fin HALF_def f_max_def)
  then have "poll_run [(quiet_obs, 2)] = sampler_default\<lparr>ls_samples := 1, ls_foreign_samples := 1, ls_weakest := Some LOAD_SRC_USERS\<rparr>"
    by (simp add: poll_run_def)
  then show "sampler_finish (poll_run [(quiet_obs, 2)]) None = Some quiet_load"
    by (simp add: sampler_finish_def sampler_default_def quiet_load_def round2_def f_of_nat_exact f_div_def f_mul_def f_round_def f_zero_def Let_def half)
qed (simp add: load_class_def quiet_load_def HALF_def Let_def)

theorem quiet_scorecard_is_a_proof_witness:
  "\<exists>n src. foreign_now quiet_obs 2 = Some (n, src) \<and> src \<in> {LOAD_SRC_USERS, LOAD_SRC_LANES} \<and> \<not> f_ge n HALF"
  by (rule quiet_scorecard_is_a_proof [OF quiet_run]) simp

text \<open>C24. A benchmark stops for other people and not for itself. Alone on the server, within its own bounds,
  it never stops when the gateway has a user table, when the trusted lane carries the engine's default
  priority, or when none of its requests goes through the gateway; in the one case left - no user table,
  another lane the default, a request of its own through the gateway, as the sanity checks send them - it
  takes that request for a stranger's and stops. And it does stop when the user table knows of a
  stranger's request, when one is in the public lane and none of the benchmark's own can be, and whenever
  more requests run on the engine than the benchmark can have.\<close>

theorem benchmark_stops_for_others:
  assumes "bench_bound k own r"
  shows "(others r = 0 \<longrightarrow>
      (abort_reason (seen_as user_table lane own r) k = None \<longleftrightarrow> user_table \<or> lane = OL_Trusted \<or> rq_via_gate r = 0)) \<and>
    ((user_table \<and> 0 < rq_others_public r + rq_others_trusted r) \<or>
     (\<not> user_table \<and> lane \<noteq> OL_Public \<and> 0 < rq_others_public r) \<or> k + own < rq_all r \<longrightarrow>
      abort_reason (seen_as user_table lane own r) k \<noteq> None)"
  by (intro conjI impI abort_alone [OF assms] abort_strangers [OF assms])

definition sanity_alone :: Requests where
  "sanity_alone = \<lparr>rq_direct = 0, rq_via_gate = 1, rq_others_public = 0, rq_others_trusted = 0, rq_others_direct = 0\<rparr>"

theorem benchmark_stops_for_others_witness:
  "abort_reason (seen_as True OL_Public 1 sanity_alone) 1 = None \<and>
   abort_reason (seen_as False OL_Public 1 sanity_alone) 1 \<noteq> None"
proof -
  have "bench_bound 1 1 sanity_alone" "others sanity_alone = 0" "rq_via_gate sanity_alone = 1"
    by (simp_all add: bench_bound_def rq_all_def others_def sanity_alone_def)
  then show ?thesis
    using benchmark_stops_for_others [of 1 1 sanity_alone True OL_Public]
      benchmark_stops_for_others [of 1 1 sanity_alone False OL_Public] by simp
qed

text \<open>A step never asks for more requests at once than the engine has slots, nor for more than eight;
  the accuracy profile, whose harness fixes its own number, is the exception.\<close>

theorem plan_stays_within_slots:
  assumes "profile \<noteq> P_Accuracy" "s \<in> set (plan_of profile cfg model slots target dataset)"
  shows "max_concurrency s \<le> min (slot_cap slots) 8"
  by (rule plan_within_slots [OF assms])

theorem plan_stays_within_slots_witness:
  "list_all (\<lambda>s. max_concurrency s \<le> min (slot_cap 5) 8) (plan_of P_Full bench_config_default ''m'' 5 ''http://127.0.0.1:8000'' [])"
  unfolding list_all_iff
  by (intro ballI plan_stays_within_slots [of P_Full _ bench_config_default "''m''" 5 "''http://127.0.0.1:8000''" "[]"]) simp_all

section \<open>Words through a remote shell\<close>

text \<open>C10. A launcher that goes through ssh hands its words to a shell that splits them again, and that shell
  reads exactly the words of the step, whatever characters they contain, with \<open>~/\<close> the home directory
  there: it makes the run's directory, enters it, and runs the step. The directory is one name below
  \<open>.cache/lss-bench\<close>, neither hidden as a parent nor with a slash of its own, and the clean-up
  removes that one path.\<close>

theorem remote_shell_reads_the_words:
  assumes "launcher_joins launcher"
  shows "\<exists>name. one_name name \<and>
    sh_read home False None (join '' '' (drop (length launcher)
       (in_remote_dir launcher (with_launcher launcher ws) (remote_run_dir run_name token)))) =
      Some ([Word ''mkdir'', Word ''-p'', Word (RUN_ROOT @ name), And_If, Word ''cd'', Word (RUN_ROOT @ name), And_If] @
        map (Word \<circ> remote_value home) ws) \<and>
    sh_read home False None (join '' '' (drop (length launcher)
       (remote_cleanup launcher (remote_run_dir run_name token)))) =
      Some [Word ''rm'', Word ''-rf'', Word ''--'', Word (RUN_ROOT @ name)]"
  by (rule remote_words [OF assms])

definition ssh_box :: "string list" where
  "ssh_box = [''ssh'', ''box'']"

definition awkward_words :: "string list" where
  "awkward_words = [''python3'', ''it's; rm -rf /'', ''~/bench.py'']"

theorem remote_shell_reads_the_words_witness:
  "\<exists>name. one_name name \<and>
    sh_read ''/home/u'' False None (join '' '' (drop (length ssh_box)
       (in_remote_dir ssh_box (with_launcher ssh_box awkward_words) (remote_run_dir ''../x'' ''t'')))) =
      Some ([Word ''mkdir'', Word ''-p'', Word (RUN_ROOT @ name), And_If, Word ''cd'', Word (RUN_ROOT @ name), And_If] @
        map (Word \<circ> remote_value ''/home/u'') awkward_words)"
proof -
  have "launcher_joins ssh_box"
    by (simp add: launcher_joins_def file_name_def ssh_box_def)
  from remote_shell_reads_the_words [OF this, of "''/home/u''" awkward_words "''../x''" "''t''"]
  show ?thesis by blast
qed

end
