(* ===== verification/Ledger.thy ===== *)
theory Ledger
  imports Curve Hist Samples Probe
begin

text \<open>
  The ledger of a loadout (\<open>crates/lss-core/src/loadout.rs\<close>): everything a serving configuration showed,
  added up sample by sample, probe by probe and histogram window by histogram window.
\<close>

section \<open>The ledger\<close>

definition LEDGER_STEP_SECS :: i64 where "LEDGER_STEP_SECS = 30"
definition MIN_REAL_PROMPTS :: f64 where "MIN_REAL_PROMPTS = F_Fin 20"
definition C1_SAMPLES_KEPT :: usize where "C1_SAMPLES_KEPT = 200"
definition READING_STEP_TOKENS :: f64 where "READING_STEP_TOKENS = F_Fin 2000"
definition READ_PEAK_MIN_TOKENS :: f64 where "READ_PEAK_MIN_TOKENS = F_Fin 4000"
definition READ_PEAK_MIN_SECS :: f64 where "READ_PEAK_MIN_SECS = F_Fin 1"
definition READ_PEAK_WINDOW_SECS :: i64 where "READ_PEAK_WINDOW_SECS = 60"
definition COLD_STARTS_KEPT :: usize where "COLD_STARTS_KEPT = 10"

record LoadoutAcc =
  la_runs :: u64
  la_last_started_at :: i64
  la_samples :: u64
  la_up_samples :: u64
  la_secs :: f64
  la_serving_secs :: f64
  la_joules :: f64
  la_serving_joules :: f64
  la_gen_tokens :: f64
  la_prompt_tokens :: f64
  la_cached_tokens :: f64
  la_requests :: f64
  la_prefill_secs :: f64
  la_prefill_tokens :: f64
  la_read_tokens :: f64
  la_read_secs :: f64
  la_read_peak_tok_s :: f64
  la_read_window :: "i64 \<times> f64 \<times> f64"
  la_ctx_speed :: "(string, CurveCell) btree"
  la_cold_starts :: "f64 list"
  la_engine_startup_s :: f64
  la_curve :: Curve
  la_spec_len_sum :: f64
  la_spec_rate_sum :: f64
  la_spec_samples :: u64
  la_spec_gen_tokens :: f64
  la_spec_verify_calls :: f64
  la_kv_peak :: f64
  la_kv_capacity_tokens :: f64
  la_context_len :: f64
  la_slots :: u64
  la_evicted_tokens :: f64
  la_retracted_samples :: u64
  la_e2e_secs :: f64
  la_prefill_forward_secs :: f64
  la_c1_probes :: u64
  la_c1_sum :: f64
  la_c1_best :: f64
  la_c1_samples :: "f64 list"
  la_ttft :: HistAccum
  la_itl :: HistAccum
  la_prompt_len :: HistAccum
  la_gen_len :: HistAccum
  la_gate_requests :: u64
  la_gate_5xx :: u64
  la_gate_429 :: u64
  la_gate_503 :: u64
  la_gate_499 :: u64
  la_ttfb_by_size :: "(string, TimeAgg) btree"
  la_prompt_max_tokens :: f64
  la_last_ts :: i64

definition acc_default :: LoadoutAcc where
  "acc_default = \<lparr>la_runs = 0, la_last_started_at = 0, la_samples = 0, la_up_samples = 0, la_secs = F_Fin 0,
     la_serving_secs = F_Fin 0, la_joules = F_Fin 0, la_serving_joules = F_Fin 0, la_gen_tokens = F_Fin 0,
     la_prompt_tokens = F_Fin 0, la_cached_tokens = F_Fin 0, la_requests = F_Fin 0, la_prefill_secs = F_Fin 0,
     la_prefill_tokens = F_Fin 0, la_read_tokens = F_Fin 0, la_read_secs = F_Fin 0, la_read_peak_tok_s = F_Fin 0,
     la_read_window = (0, F_Fin 0, F_Fin 0), la_ctx_speed = bt_empty, la_cold_starts = [], la_engine_startup_s = F_Fin 0,
     la_curve = [], la_spec_len_sum = F_Fin 0, la_spec_rate_sum = F_Fin 0, la_spec_samples = 0,
     la_spec_gen_tokens = F_Fin 0, la_spec_verify_calls = F_Fin 0, la_kv_peak = F_Fin 0,
     la_kv_capacity_tokens = F_Fin 0, la_context_len = F_Fin 0, la_slots = 0, la_evicted_tokens = F_Fin 0,
     la_retracted_samples = 0, la_e2e_secs = F_Fin 0, la_prefill_forward_secs = F_Fin 0, la_c1_probes = 0,
     la_c1_sum = F_Fin 0, la_c1_best = F_Fin 0, la_c1_samples = [], la_ttft = accum_default, la_itl = accum_default,
     la_prompt_len = accum_default, la_gen_len = accum_default, la_gate_requests = 0, la_gate_5xx = 0,
     la_gate_429 = 0, la_gate_503 = 0, la_gate_499 = 0, la_ttfb_by_size = bt_empty, la_prompt_max_tokens = F_Fin 0,
     la_last_ts = 0\<rparr>"

section \<open>Runs and cold starts\<close>

definition note_run :: "LoadoutAcc \<Rightarrow> i64 \<Rightarrow> LoadoutAcc" where
  "note_run a started_at =
    (if started_at \<noteq> la_last_started_at a \<or> la_runs a = 0
     then a\<lparr>la_runs := la_runs a + 1, la_last_started_at := started_at\<rparr> else a)"

text \<open>The newest \<open>n\<close> of a list: \<open>drain(..len.saturating_sub(n))\<close>.\<close>

definition newest :: "nat \<Rightarrow> 'a list \<Rightarrow> 'a list" where
  "newest n xs = drop (length xs - n) xs"

definition note_cold_start :: "LoadoutAcc \<Rightarrow> f64 \<Rightarrow> LoadoutAcc" where
  "note_cold_start a secs =
    (if is_finite secs \<and> f_gt secs (F_Fin 0)
     then a\<lparr>la_cold_starts := newest COLD_STARTS_KEPT (la_cold_starts a @ [round1 secs])\<rparr> else a)"

section \<open>A sample\<close>

text \<open>The seconds of the step, 0 when the gap is not a step.\<close>

definition step_secs :: "Sample option \<Rightarrow> Sample \<Rightarrow> f64" where
  "step_secs prev cur =
    (let dt = (case prev of None \<Rightarrow> 0 | Some p \<Rightarrow> sp_ts cur - sp_ts p)
     in if 1 \<le> dt \<and> dt \<le> LEDGER_STEP_SECS then F_Fin (of_int dt) else F_Fin 0)"

definition is_serving :: "Sample \<Rightarrow> bool" where
  "is_serving cur \<longleftrightarrow> f_ge (case sp_metrics cur of None \<Rightarrow> F_Fin 0 | Some m \<Rightarrow> sm_running m) (F_Fin 1)"

text \<open>The trapezoid between the two power readings; one missing reading is the other one.\<close>

definition step_watts :: "Sample option \<Rightarrow> Sample \<Rightarrow> f64 option" where
  "step_watts prev cur =
    (case (Option.bind prev watts, watts cur) of
       (Some a, Some b) \<Rightarrow> Some (f_div (f_add a b) (F_Fin 2))
     | (Some a, None) \<Rightarrow> Some a
     | (None, b) \<Rightarrow> b)"

definition book_energy :: "f64 \<Rightarrow> bool \<Rightarrow> f64 option \<Rightarrow> LoadoutAcc \<Rightarrow> LoadoutAcc" where
  "book_energy dt serving w a =
    (case w of None \<Rightarrow> a
     | Some w \<Rightarrow>
        a\<lparr>la_joules := f_add (la_joules a) (f_mul w dt),
          la_serving_joules := (if serving then f_add (la_serving_joules a) (f_mul w dt) else la_serving_joules a)\<rparr>)"

definition book_time :: "Sample option \<Rightarrow> Sample \<Rightarrow> LoadoutAcc \<Rightarrow> LoadoutAcc" where
  "book_time prev cur a =
    (let dt = step_secs prev cur; serving = is_serving cur in
     if f_gt dt (F_Fin 0)
     then book_energy dt serving (step_watts prev cur)
       (a\<lparr>la_secs := f_add (la_secs a) dt,
          la_serving_secs := (if serving then f_add (la_serving_secs a) dt else la_serving_secs a)\<rparr>)
     else a)"

definition book_status :: "nat \<times> u64 \<Rightarrow> LoadoutAcc \<Rightarrow> LoadoutAcc" where
  "book_status cn a =
    (let (code, n) = cn in
     a\<lparr>la_gate_429 := la_gate_429 a + (if code = 429 then n else 0),
       la_gate_499 := la_gate_499 a + (if code = 499 then n else 0),
       la_gate_503 := la_gate_503 a + (if code = 503 then n else 0),
       la_gate_5xx := la_gate_5xx a + (if code div 100 = 5 then n else 0)\<rparr>)"

definition book_lane :: "LaneLog \<Rightarrow> LoadoutAcc \<Rightarrow> LoadoutAcc" where
  "book_lane lane a =
    (let a1 = fold book_status (ll_by_status lane) (a\<lparr>la_gate_requests := la_gate_requests a + ll_requests lane\<rparr>)
     in a1\<lparr>la_ttfb_by_size := bt_merge time_agg_default time_merge (la_ttfb_by_size a1) (ll_ttfb_by_size lane),
           la_prompt_max_tokens := f_max (la_prompt_max_tokens a1) (ll_prompt_max lane)\<rparr>)"

section \<open>The engine's part of a sample\<close>

definition CTX_BUCKETS :: "(string \<times> u64 \<times> f64) list" where
  "CTX_BUCKETS = [(''0'', 0, F_Fin 4096), (''16k'', 16384, F_Fin 40000), (''64k'', 65536, F_Fin 98000),
     (''128k'', 131072, F_Fin 190000), (''250k'', 250000, F_Inf False)]"

definition ctx_bucket :: "f64 \<Rightarrow> string" where
  "ctx_bucket context_tokens =
    (case find (\<lambda>(_, _, upper). f_lt context_tokens upper) CTX_BUCKETS of None \<Rightarrow> ''250k'' | Some (name, _, _) \<Rightarrow> name)"

definition step_reads :: "Sample option \<Rightarrow> ServeMetrics \<Rightarrow> bool" where
  "step_reads prev m \<longleftrightarrow>
    f_gt (sm_prefill_inflight_reqs m) (F_Fin 0) \<or>
    (case Option.bind prev sp_metrics of None \<Rightarrow> True
     | Some pm \<Rightarrow> f_ge (computed_prompt_tokens_since m pm) READING_STEP_TOKENS)"

definition book_ctx :: "ServeMetrics \<Rightarrow> (string, CurveCell) btree \<Rightarrow> (string, CurveCell) btree" where
  "book_ctx m t =
    (if f_eq (f_round (sm_running m)) (F_Fin 1) \<and> f_gt (sm_gen_throughput m) (F_Fin 0) \<and> f_gt (sm_decode_sum_seq_lens m) (F_Fin 0)
     then bt_upd cell_default (ctx_bucket (sm_decode_sum_seq_lens m)) (\<lambda>c. c\<lparr>cc_samples := cc_samples c + 1,
        cc_tok_s_sum := f_add (cc_tok_s_sum c) (sm_gen_throughput m)\<rparr>) t
     else t)"

definition book_gauges :: "Sample option \<Rightarrow> bool \<Rightarrow> ServeMetrics \<Rightarrow> LoadoutAcc \<Rightarrow> LoadoutAcc" where
  "book_gauges prev serving m a =
    (let a1 = a\<lparr>la_curve := (if step_reads prev m then la_curve a
            else curve_observe (la_curve a) (sm_running m) (sm_gen_throughput m)),
          la_ctx_speed := book_ctx m (la_ctx_speed a),
          la_engine_startup_s := (if f_gt (sm_startup_time_s m) (F_Fin 0) then sm_startup_time_s m else la_engine_startup_s a),
          la_kv_peak := f_max (la_kv_peak a) (kv_usage m),
          la_kv_capacity_tokens := f_max (la_kv_capacity_tokens a) (sm_max_total_tokens m),
          la_context_len := f_max (la_context_len a) (sm_context_len m),
          la_retracted_samples := la_retracted_samples a + (if f_gt (sm_retracted m) (F_Fin 0) then 1 else 0)\<rparr>
     in if serving \<and> f_gt (sm_spec_accept_length m) (F_Fin 0)
        then a1\<lparr>la_spec_len_sum := f_add (la_spec_len_sum a1) (sm_spec_accept_length m),
               la_spec_rate_sum := f_add (la_spec_rate_sum a1) (sm_spec_accept_rate m),
               la_spec_samples := la_spec_samples a1 + 1\<rparr>
        else a1)"

text \<open>The growth of a counter within a step: nothing after a restart, nor across samples whose counters differ.\<close>

definition step_grown :: "bool \<Rightarrow> f64 \<Rightarrow> f64 \<Rightarrow> f64" where
  "step_grown same now before = (if same \<and> f_ge now before then f_sub now before else F_Fin 0)"

definition grown_by :: "ServeMetrics \<Rightarrow> ServeMetrics \<Rightarrow> (ServeMetrics \<Rightarrow> f64) \<Rightarrow> f64" where
  "grown_by m pm f = step_grown (comparable m pm) (f m) (f pm)"

definition read_peak :: "i64 \<Rightarrow> LoadoutAcc \<Rightarrow> LoadoutAcc" where
  "read_peak ts a =
    (let (start_ts, tokens, _) = la_read_window a in
     if READ_PEAK_WINDOW_SECS \<le> ts - start_ts then
       (let wall_secs = F_Fin (of_int (ts - start_ts));
            peak = (if f_ge tokens READ_PEAK_MIN_TOKENS \<and> f_ge wall_secs READ_PEAK_MIN_SECS
              then f_max (la_read_peak_tok_s a) (f_div tokens wall_secs) else la_read_peak_tok_s a)
        in a\<lparr>la_read_peak_tok_s := peak, la_read_window := (ts, F_Fin 0, F_Fin 0)\<rparr>)
     else a)"

definition read_add :: "f64 \<Rightarrow> f64 \<Rightarrow> LoadoutAcc \<Rightarrow> LoadoutAcc" where
  "read_add computed read_secs a =
    (let (start_ts, tokens, secs) = la_read_window a
     in a\<lparr>la_read_window := (start_ts, f_add tokens computed, f_add secs read_secs)\<rparr>)"

definition book_reading :: "i64 \<Rightarrow> f64 \<Rightarrow> ServeMetrics \<Rightarrow> ServeMetrics \<Rightarrow> LoadoutAcc \<Rightarrow> LoadoutAcc" where
  "book_reading ts dt m pm a =
    (let computed = computed_prompt_tokens_since m pm;
         read_secs = grown_by m pm sm_prefill_forward_sum;
         a1 = (if f_gt computed (F_Fin 0)
           then a\<lparr>la_prefill_secs := f_add (la_prefill_secs a) dt, la_prefill_tokens := f_add (la_prefill_tokens a) computed\<rparr>
           else a)
     in if f_gt (sm_prefill_forward_sum m) (F_Fin 0) \<or> f_gt (sm_prefill_forward_sum pm) (F_Fin 0)
        then read_add computed read_secs (read_peak ts
          (a1\<lparr>la_read_tokens := f_add (la_read_tokens a1) computed, la_read_secs := f_add (la_read_secs a1) read_secs\<rparr>))
        else a1)"

definition book_counters :: "ServeMetrics \<Rightarrow> ServeMetrics \<Rightarrow> LoadoutAcc \<Rightarrow> LoadoutAcc" where
  "book_counters m pm a =
    (let generated = grown_by m pm sm_generation_tokens_total;
         verify = grown_by m pm sm_spec_verify_calls_total;
         a1 = a\<lparr>la_gen_tokens := f_add (la_gen_tokens a) generated,
           la_prompt_tokens := f_add (la_prompt_tokens a) (grown_by m pm sm_prompt_tokens_total),
           la_cached_tokens := f_add (la_cached_tokens a) (grown_by m pm sm_cached_tokens_total),
           la_requests := f_add (la_requests a) (grown_by m pm sm_requests_total),
           la_evicted_tokens := f_add (la_evicted_tokens a) (grown_by m pm sm_evicted_tokens_total),
           la_e2e_secs := f_add (la_e2e_secs a) (grown_by m pm sm_e2e_sum),
           la_prefill_forward_secs := f_add (la_prefill_forward_secs a) (grown_by m pm sm_prefill_forward_sum)\<rparr>
     in if f_gt verify (F_Fin 0)
        then a1\<lparr>la_spec_verify_calls := f_add (la_spec_verify_calls a1) verify,
               la_spec_gen_tokens := f_add (la_spec_gen_tokens a1) generated\<rparr>
        else a1)"

definition book_engine :: "Sample option \<Rightarrow> Sample \<Rightarrow> ServeMetrics \<Rightarrow> LoadoutAcc \<Rightarrow> LoadoutAcc" where
  "book_engine prev cur m a =
    (let dt = step_secs prev cur; serving = is_serving cur; a1 = book_gauges prev serving m a;
         (a2, ttft_sum, ttft_n) =
           (case (f_gt dt (F_Fin 0), Option.bind prev sp_metrics) of
              (True, Some pm) \<Rightarrow>
                (book_reading (sp_ts cur) dt m pm (book_counters m pm a1),
                 grown_by m pm sm_ttft_sum, grown_by m pm sm_ttft_count)
            | _ \<Rightarrow> (a1, F_Fin 0, F_Fin 0))
     in a2\<lparr>la_curve := curve_observe_extra (la_curve a2) (sm_running m) ttft_sum ttft_n
             (if serving then sm_spec_accept_length m else F_Fin 0)\<rparr>)"

definition ledger_observe :: "LoadoutAcc \<Rightarrow> Sample option \<Rightarrow> Sample \<Rightarrow> LoadoutAcc" where
  "ledger_observe a prev cur =
    (let a1 = a\<lparr>la_samples := la_samples a + 1, la_up_samples := la_up_samples a + (if sp_serve_up cur then 1 else 0),
           la_last_ts := sp_ts cur\<rparr>;
         a2 = book_time prev cur a1;
         a3 = book_lane (ld_trusted (sp_log cur)) (book_lane (ld_public (sp_log cur)) a2)
     in case sp_metrics cur of None \<Rightarrow> a3 | Some m \<Rightarrow> book_engine prev cur m a3)"

section \<open>Probes and histogram windows\<close>

definition observe_probe :: "LoadoutAcc \<Rightarrow> ProbeRecord \<Rightarrow> LoadoutAcc" where
  "observe_probe a p =
    (case (is_reading p, pr_decode_tok_s p) of
       (True, Some v) \<Rightarrow>
         a\<lparr>la_c1_probes := la_c1_probes a + 1, la_c1_sum := f_add (la_c1_sum a) v,
           la_c1_best := f_max (la_c1_best a) v, la_c1_samples := newest C1_SAMPLES_KEPT (la_c1_samples a @ [v])\<rparr>
     | _ \<Rightarrow> a)"

definition readings_of :: "ProbeRecord list \<Rightarrow> f64 list" where
  "readings_of probes = List.map_filter pr_decode_tok_s (filter is_reading probes)"

definition rebuild_c1 :: "LoadoutAcc \<Rightarrow> ProbeRecord list \<Rightarrow> LoadoutAcc" where
  "rebuild_c1 a probes =
    (let readings = readings_of probes
     in a\<lparr>la_c1_probes := length readings, la_c1_sum := f_sum readings, la_c1_best := foldl f_max (F_Fin 0) readings,
          la_c1_samples := newest C1_SAMPLES_KEPT readings\<rparr>)"

definition observe_window :: "LoadoutAcc \<Rightarrow> ClosedWindow \<Rightarrow> LoadoutAcc" where
  "observe_window a w =
    (if cw_res w \<noteq> 60 then a
     else a\<lparr>la_ttft := ha_add (la_ttft a) (cw_accs w ! 0), la_itl := ha_add (la_itl a) (cw_accs w ! 2),
            la_prompt_len := ha_add (la_prompt_len a) (cw_accs w ! 4), la_gen_len := ha_add (la_gen_len a) (cw_accs w ! 5)\<rparr>)"

end
