(* ===== verification/LoadoutRow.thy ===== *)
theory LoadoutRow
  imports Ledger Loadout RuleTypes
begin

text \<open>
  The scorecard of a loadout from real traffic alone (\<open>row\<close> of \<open>crates/lss-core/src/loadout.rs\<close>): every
  figure is measured or absent, never a made-up zero.
\<close>

record SizeRow =
  sr_bucket :: string
  sr_n :: u64
  sr_avg_ms :: "f64 option"
  sr_max_ms :: "f64 option"

record CtxRow =
  cx_bucket :: string
  cx_context_tokens :: u64
  cx_tok_s :: "f64 option"
  cx_samples :: u64
  cx_source :: string

record LoadoutRow =
  lr_id :: string
  lr_model :: string
  lr_image :: string
  lr_image_tag :: string
  lr_args_hash :: string
  lr_flags :: string
  lr_first_seen :: i64
  lr_last_seen :: i64
  lr_started_at :: i64
  lr_runs :: u64
  lr_current :: bool
  lr_hours_observed :: f64
  lr_uptime_pct :: "f64 option"
  lr_c1_tok_s :: "f64 option"
  lr_c1_best_tok_s :: "f64 option"
  lr_c1_probes :: u64
  lr_decode_p50_tok_s :: "f64 option"
  lr_decode_p90_tok_s :: "f64 option"
  lr_slots :: u64
  lr_curve :: "CurveRow list"
  lr_saturation :: "Saturation option"
  lr_peak_tok_s :: "f64 option"
  lr_peak_at_running :: "u64 option"
  lr_long_context :: "CtxRow list"
  lr_prefill_tok_s :: "f64 option"
  lr_prefill_peak_tok_s :: "f64 option"
  lr_ttft_p50_ms :: "f64 option"
  lr_ttft_p90_ms :: "f64 option"
  lr_ttft_by_size :: "SizeRow list"
  lr_avg_prompt_tokens :: "f64 option"
  lr_avg_gen_tokens :: "f64 option"
  lr_prompt_p50_tokens :: "f64 option"
  lr_prompt_p95_tokens :: "f64 option"
  lr_prompt_max_tokens :: "f64 option"
  lr_prompt_max_is_bucket_edge :: bool
  lr_spec_accept_length :: "f64 option"
  lr_spec_accept_rate :: "f64 option"
  lr_cache_hit_share :: "f64 option"
  lr_kv_peak :: f64
  lr_kv_capacity_tokens :: f64
  lr_context_len :: f64
  lr_evicted_tokens :: f64
  lr_retracted_pct :: "f64 option"
  lr_prefill_time_share :: "f64 option"
  lr_gen_tokens :: f64
  lr_prompt_tokens :: f64
  lr_cached_tokens :: f64
  lr_requests :: f64
  lr_tokens_per_joule :: "f64 option"
  lr_wh_per_mtok :: "f64 option"
  lr_wh_per_mtok_incl_idle :: "f64 option"
  lr_avg_watts_serving :: "f64 option"
  lr_avg_watts :: "f64 option"
  lr_kwh_per_day :: "f64 option"
  lr_usd_per_mtok :: "f64 option"
  lr_usd_per_mtok_incl_idle :: "f64 option"
  lr_usd_per_day :: "f64 option"
  lr_cold_start_s :: "f64 option"
  lr_cold_start_avg_s :: "f64 option"
  lr_cold_starts_seen :: u64
  lr_engine_startup_s :: "f64 option"
  lr_gate_requests :: u64
  lr_error_rate :: "f64 option"
  lr_rate_429 :: "f64 option"
  lr_rate_503 :: "f64 option"

definition row_round4 :: "f64 \<Rightarrow> f64" where
  "row_round4 v = f_div (f_round (f_mul v (F_Fin 10000))) (F_Fin 10000)"

definition ratio :: "f64 \<Rightarrow> f64 \<Rightarrow> f64 option" where
  "ratio a b = (if f_gt b (F_Fin 0) then Some (f_div a b) else None)"

definition keep_if :: "bool \<Rightarrow> f64 option \<Rightarrow> f64 option" where
  "keep_if c v = (if c then v else None)"

text \<open>The upper edge of the highest bucket that holds anything; none for the last, open one.\<close>

definition top_bucket_edge :: "HistAccum \<Rightarrow> f64 option" where
  "top_bucket_edge h =
    (let used = length (dropWhile (\<lambda>c. \<not> f_gt c (F_Fin 0)) (rev (ha_counts h)))
     in if used = 0 then None else if used - 1 < length (ha_le h) then Some (ha_le h ! (used - 1)) else None)"

text \<open>\<open>max_by(total_cmp)\<close>: the last of the greatest.\<close>

fun max_speed :: "(u64 \<times> f64) option \<Rightarrow> (u64 \<times> f64) list \<Rightarrow> (u64 \<times> f64) option" where
  "max_speed best [] = best"
| "max_speed best (p # ps) =
    (case best of None \<Rightarrow> max_speed (Some p) ps
     | Some b \<Rightarrow> max_speed (Some (if total_le (snd b) (snd p) then p else b)) ps)"

definition peak_of :: "CurveRow list \<Rightarrow> (u64 \<times> f64) option" where
  "peak_of curve =
    max_speed None (List.map_filter (\<lambda>r. map_option (\<lambda>t. (cr_running r, t)) (cr_tok_s r))
      (filter (\<lambda>r. MIN_LEVEL_SAMPLES \<le> cr_samples r) curve))"

definition real_prompt_max :: "LoadoutAcc \<Rightarrow> f64 option \<times> bool" where
  "real_prompt_max acc =
    (if f_gt (la_prompt_max_tokens acc) (F_Fin 0) then (Some (la_prompt_max_tokens acc), False)
     else if f_ge (f_sub (ha_count (la_prompt_len acc)) (f_of_nat (la_c1_probes acc))) MIN_REAL_PROMPTS
     then (top_bucket_edge (la_prompt_len acc), True) else (None, False))"

definition c1_speed :: "LoadoutAcc \<Rightarrow> f64 option" where
  "c1_speed acc =
    (if la_c1_samples acc = [] then map_option round1 (ratio (la_c1_sum acc) (f_of_nat (la_c1_probes acc)))
     else Some (round1 (median (la_c1_samples acc))))"

definition prefill_speed :: "LoadoutAcc \<Rightarrow> f64 option" where
  "prefill_speed acc =
    (if f_gt (la_read_secs acc) (F_Fin 0)
     then map_option round1 (keep_if (f_ge (la_read_tokens acc) READ_PEAK_MIN_TOKENS) (ratio (la_read_tokens acc) (la_read_secs acc)))
     else map_option round1 (ratio (la_prefill_tokens acc) (la_prefill_secs acc)))"

definition ctx_row :: "LoadoutAcc \<Rightarrow> string \<times> u64 \<times> f64 \<Rightarrow> CtxRow" where
  "ctx_row acc bucket =
    (let (b, ctx, _) = bucket; c = bt_get_or cell_default b (la_ctx_speed acc)
     in \<lparr>cx_bucket = b, cx_context_tokens = ctx,
         cx_tok_s = keep_if (MIN_LEVEL_SAMPLES \<le> cc_samples c) (Some (round1 (f_div (cc_tok_s_sum c) (f_of_nat (cc_samples c))))),
         cx_samples = cc_samples c, cx_source = ''live''\<rparr>)"

definition size_row :: "LoadoutAcc \<Rightarrow> string \<times> f64 \<Rightarrow> SizeRow" where
  "size_row acc bucket =
    (let t = bt_get_or time_agg_default (fst bucket) (la_ttfb_by_size acc)
     in \<lparr>sr_bucket = fst bucket, sr_n = ta_n t, sr_avg_ms = map_option round1 (time_avg_ms t),
         sr_max_ms = (if 0 < ta_n t then Some (round1 (ta_max_ms t)) else None)\<rparr>)"

definition itl_speed :: "LoadoutAcc \<Rightarrow> f64 \<Rightarrow> f64 option" where
  "itl_speed acc q =
    (case quantile (la_itl acc) q of
       None \<Rightarrow> None
     | Some s \<Rightarrow> if f_gt s (F_Fin 0) then Some (round1 (f_div (F_Fin 1) s)) else None)"

definition ms_of :: "f64 \<Rightarrow> f64" where
  "ms_of s = round1 (f_mul s (F_Fin 1000))"

definition count_share :: "LoadoutAcc \<Rightarrow> u64 \<Rightarrow> f64 option" where
  "count_share acc n = map_option row_round4 (ratio (f_of_nat n) (f_of_nat (la_gate_requests acc)))"

definition percent_of :: "u64 \<Rightarrow> u64 \<Rightarrow> f64 option" where
  "percent_of n total_n = map_option (\<lambda>v. row_round4 (f_mul v (F_Fin 100))) (ratio (f_of_nat n) (f_of_nat total_n))"

definition spec_length :: "LoadoutAcc \<Rightarrow> f64 option" where
  "spec_length acc =
    (let exact = (case ratio (la_spec_gen_tokens acc) (la_spec_verify_calls acc) of
           Some v \<Rightarrow> if f_ge v (F_Fin 1) then Some v else None | None \<Rightarrow> None);
         either = (case exact of Some v \<Rightarrow> Some v | None \<Rightarrow> ratio (la_spec_len_sum acc) (f_of_nat (la_spec_samples acc)))
     in map_option (\<lambda>v. f_div (f_round (f_mul v (F_Fin 100))) (F_Fin 100)) either)"

definition capped_share :: "f64 \<Rightarrow> f64 \<Rightarrow> f64 option" where
  "capped_share a b = map_option (\<lambda>v. row_round4 (f_min v (F_Fin 1))) (ratio a b)"

definition MILLION :: f64 where "MILLION = F_Fin 1000000"
definition HOUR :: f64 where "HOUR = F_Fin 3600"

definition wh_per_mtok :: "f64 \<Rightarrow> f64 \<Rightarrow> f64 option" where
  "wh_per_mtok joules tokens = map_option round1 (ratio (f_div joules HOUR) (f_div tokens MILLION))"

definition loadout_row :: "LoadoutIdentity \<Rightarrow> LoadoutAcc \<Rightarrow> i64 \<Rightarrow> bool \<Rightarrow> LoadoutRow" where
  "loadout_row ident acc first_seen current =
    (let curve = curve_rows (la_curve acc) (la_slots acc);
         peak = peak_of curve;
         (prompt_max, edge) = real_prompt_max acc
     in \<lparr>lr_id = li_id ident, lr_model = li_model ident, lr_image = li_image ident,
         lr_image_tag = image_tag (li_image ident), lr_args_hash = li_args_hash ident, lr_flags = li_flags ident,
         lr_first_seen = first_seen, lr_last_seen = la_last_ts acc, lr_started_at = la_last_started_at acc,
         lr_runs = la_runs acc, lr_current = current, lr_hours_observed = row_round4 (f_div (la_secs acc) HOUR),
         lr_uptime_pct = percent_of (la_up_samples acc) (la_samples acc),
         lr_c1_tok_s = c1_speed acc,
         lr_c1_best_tok_s = (if 0 < la_c1_probes acc then Some (round1 (la_c1_best acc)) else None),
         lr_c1_probes = la_c1_probes acc,
         lr_decode_p50_tok_s = itl_speed acc (F_Fin (1 / 2)), lr_decode_p90_tok_s = itl_speed acc (f_lit (9 / 10)),
         lr_slots = la_slots acc, lr_curve = curve,
         lr_saturation = Some (saturation_of curve (map_option snd peak)),
         lr_peak_tok_s = map_option snd peak, lr_peak_at_running = map_option fst peak,
         lr_long_context = map (ctx_row acc) CTX_BUCKETS,
         lr_prefill_tok_s = prefill_speed acc,
         lr_prefill_peak_tok_s = keep_if (f_gt (la_read_peak_tok_s acc) (F_Fin 0)) (Some (round1 (la_read_peak_tok_s acc))),
         lr_ttft_p50_ms = map_option ms_of (quantile (la_ttft acc) (F_Fin (1 / 2))),
         lr_ttft_p90_ms = map_option ms_of (quantile (la_ttft acc) (f_lit (9 / 10))),
         lr_ttft_by_size = map (size_row acc) SIZE_BUCKETS,
         lr_avg_prompt_tokens = map_option (\<lambda>s. round1 (rw_avg s)) (summary_raw (la_prompt_len acc)),
         lr_avg_gen_tokens = map_option (\<lambda>s. round1 (rw_avg s)) (summary_raw (la_gen_len acc)),
         lr_prompt_p50_tokens = map_option round1 (quantile (la_prompt_len acc) (F_Fin (1 / 2))),
         lr_prompt_p95_tokens = map_option round1 (quantile (la_prompt_len acc) (f_lit (95 / 100))),
         lr_prompt_max_tokens = prompt_max, lr_prompt_max_is_bucket_edge = (edge \<and> prompt_max \<noteq> None),
         lr_spec_accept_length = spec_length acc,
         lr_spec_accept_rate = map_option row_round4 (ratio (la_spec_rate_sum acc) (f_of_nat (la_spec_samples acc))),
         lr_cache_hit_share = capped_share (la_cached_tokens acc) (la_prompt_tokens acc),
         lr_kv_peak = row_round4 (la_kv_peak acc), lr_kv_capacity_tokens = la_kv_capacity_tokens acc,
         lr_context_len = la_context_len acc, lr_evicted_tokens = la_evicted_tokens acc,
         lr_retracted_pct = percent_of (la_retracted_samples acc) (la_samples acc),
         lr_prefill_time_share = capped_share (la_prefill_forward_secs acc) (la_e2e_secs acc),
         lr_gen_tokens = la_gen_tokens acc, lr_prompt_tokens = la_prompt_tokens acc,
         lr_cached_tokens = la_cached_tokens acc, lr_requests = la_requests acc,
         lr_tokens_per_joule = map_option row_round4
           (keep_if (f_gt (la_gen_tokens acc) (F_Fin 0)) (ratio (la_gen_tokens acc) (la_serving_joules acc))),
         lr_wh_per_mtok = wh_per_mtok (la_serving_joules acc) (la_gen_tokens acc),
         lr_wh_per_mtok_incl_idle = wh_per_mtok (la_joules acc) (la_gen_tokens acc),
         lr_avg_watts_serving = map_option round1 (ratio (la_serving_joules acc) (la_serving_secs acc)),
         lr_avg_watts = map_option round1 (ratio (la_joules acc) (la_secs acc)),
         lr_kwh_per_day = map_option (\<lambda>w. row_round4 (f_div (f_mul w (F_Fin 24)) (F_Fin 1000))) (ratio (la_joules acc) (la_secs acc)),
         lr_usd_per_mtok = None, lr_usd_per_mtok_incl_idle = None, lr_usd_per_day = None,
         lr_cold_start_s = last_opt (la_cold_starts acc),
         lr_cold_start_avg_s = (if la_cold_starts acc = [] then None
           else Some (round1 (f_div (f_sum (la_cold_starts acc)) (f_of_nat (length (la_cold_starts acc)))))),
         lr_cold_starts_seen = length (la_cold_starts acc),
         lr_engine_startup_s = keep_if (f_gt (la_engine_startup_s acc) (F_Fin 0)) (Some (round1 (la_engine_startup_s acc))),
         lr_gate_requests = la_gate_requests acc, lr_error_rate = count_share acc (la_gate_5xx acc),
         lr_rate_429 = count_share acc (la_gate_429 acc), lr_rate_503 = count_share acc (la_gate_503 acc)\<rparr>)"

definition usd_money :: "f64 \<Rightarrow> f64 \<Rightarrow> f64" where
  "usd_money price wh = f_div (f_round (f_mul (f_mul (f_div wh (F_Fin 1000)) price) (F_Fin 10000))) (F_Fin 10000)"

definition apply_price :: "LoadoutRow \<Rightarrow> f64 option \<Rightarrow> LoadoutRow" where
  "apply_price r usd_per_kwh =
    (case usd_per_kwh of
       None \<Rightarrow> r
     | Some price \<Rightarrow>
        if \<not> (is_finite price \<and> f_gt price (F_Fin 0)) then r
        else r\<lparr>lr_usd_per_mtok := map_option (usd_money price) (lr_wh_per_mtok r),
               lr_usd_per_mtok_incl_idle := map_option (usd_money price) (lr_wh_per_mtok_incl_idle r),
               lr_usd_per_day := map_option (\<lambda>k. f_div (f_round (f_mul (f_mul k price) (F_Fin 100))) (F_Fin 100)) (lr_kwh_per_day r)\<rparr>)"

end
