(* ===== verification/LedgerFacts.thy ===== *)
theory LedgerFacts
  imports LoadoutRow GateLogFacts
begin

text \<open>
  What the ledger of a loadout keeps under every sequence of its operations, and what that means for the
  scorecard made of it.
\<close>

section \<open>The newest of a list\<close>

lemma length_newest [simp]: "length (newest n xs) = min n (length xs)"
  by (simp add: newest_def)

lemma newest_newest: "newest n (newest n xs @ [y]) = newest n (xs @ [y])"
proof (cases "length xs \<le> n")
  case False
  then have "length (drop (length xs - n) xs @ [y]) - n = Suc 0" by simp
  then have "newest n (newest n xs @ [y]) = drop (Suc 0) (drop (length xs - n) xs @ [y])"
    by (simp only: newest_def)
  also have "\<dots> = drop (Suc (length xs - n)) (xs @ [y])"
    using False by (simp add: drop_append)
  finally show ?thesis using False by (simp add: newest_def Suc_diff_le)
qed (simp add: newest_def)

section \<open>Not negative\<close>

definition nn :: "f64 \<Rightarrow> bool" where
  "nn x \<longleftrightarrow> is_nan x \<or> f_le (F_Fin 0) x"

lemma nn_simps [simp]: "nn F_NaN" "nn F_NegZero" "nn (F_Fin r) \<longleftrightarrow> 0 \<le> r" "nn (F_Inf s) \<longleftrightarrow> \<not> s"
  by (auto simp: nn_def f_le_def)

lemma nn_rnd: "0 \<le> r \<Longrightarrow> nn (rnd r)"
  by (simp add: nn_def rnd_nonneg)

lemma nn_add: "nn a \<Longrightarrow> nn b \<Longrightarrow> nn (f_add a b)"
  by (cases a; cases b) (auto simp: f_add_def nn_rnd)

lemma f_class_inf: "f_class (F_Inf s) = (if s then - 1 else 1)"
  by (cases s) simp_all

lemma nn_sub: "f_ge a b \<Longrightarrow> nn (f_sub a b)"
  by (cases a; cases b) (auto simp: f_sub_def f_add_def f_le_def f_class_inf nn_rnd split: if_splits)

lemma nn_grown: "nn (grown_by m pm f)"
  by (simp add: grown_by_def step_grown_def nn_sub)

section \<open>The invariant\<close>

text \<open>The counts agree with each other, the lists are bounded, the observed seconds are exact.\<close>

definition whole :: "f64 \<Rightarrow> nat \<Rightarrow> bool" where
  "whole x n \<longleftrightarrow> x = F_Fin (of_nat n)"

definition secs_ok :: "LoadoutAcc \<Rightarrow> bool" where
  "secs_ok a \<longleftrightarrow> (la_samples a < 2 ^ 48 \<longrightarrow>
     (\<exists>m n. whole (la_serving_secs a) m \<and> whole (la_secs a) n \<and> m \<le> n \<and> n \<le> 30 * la_samples a))"

definition counts_ok :: "LoadoutAcc \<Rightarrow> bool" where
  "counts_ok a \<longleftrightarrow> la_up_samples a \<le> la_samples a \<and> la_retracted_samples a \<le> la_samples a \<and>
     la_spec_samples a \<le> la_samples a"

definition gate_ok :: "LoadoutAcc \<Rightarrow> bool" where
  "gate_ok a \<longleftrightarrow> la_gate_429 a + la_gate_499 a + la_gate_5xx a \<le> la_gate_requests a \<and> la_gate_503 a \<le> la_gate_5xx a"

definition lists_ok :: "LoadoutAcc \<Rightarrow> bool" where
  "lists_ok a \<longleftrightarrow> length (la_cold_starts a) \<le> COLD_STARTS_KEPT \<and>
     length (la_c1_samples a) = min C1_SAMPLES_KEPT (la_c1_probes a) \<and> length (la_curve a) \<le> CURVE_MAX_LEVELS"

definition sums_ok :: "LoadoutAcc \<Rightarrow> bool" where
  "sums_ok a \<longleftrightarrow> nn (la_cached_tokens a) \<and> nn (la_prefill_forward_secs a)"

definition ledger_ok :: "LoadoutAcc \<Rightarrow> bool" where
  "ledger_ok a \<longleftrightarrow> counts_ok a \<and> gate_ok a \<and> lists_ok a \<and> sums_ok a \<and> secs_ok a"

lemmas ledger_parts = ledger_ok_def counts_ok_def gate_ok_def lists_ok_def sums_ok_def

lemma ledger_ok_default: "ledger_ok acc_default"
  by (auto simp: ledger_parts secs_ok_def acc_default_def whole_def)

lemma ledger_ok_run: "ledger_ok a \<Longrightarrow> ledger_ok (note_run a t)"
  by (auto simp: ledger_parts secs_ok_def note_run_def)

lemma ledger_ok_cold: "ledger_ok a \<Longrightarrow> ledger_ok (note_cold_start a s)"
  by (auto simp: ledger_parts secs_ok_def note_cold_start_def)

lemma ledger_ok_probe: "ledger_ok a \<Longrightarrow> ledger_ok (observe_probe a p)"
  by (auto simp: ledger_parts secs_ok_def observe_probe_def split: option.splits bool.splits)

lemma ledger_ok_rebuild: "ledger_ok a \<Longrightarrow> ledger_ok (rebuild_c1 a ps)"
  by (auto simp: ledger_parts secs_ok_def rebuild_c1_def Let_def)

lemma ledger_ok_window: "ledger_ok a \<Longrightarrow> ledger_ok (observe_window a w)"
  by (auto simp: ledger_parts secs_ok_def observe_window_def)

section \<open>The gate's counts\<close>

definition status_sum :: "(nat \<Rightarrow> bool) \<Rightarrow> (nat \<times> u64) list \<Rightarrow> u64" where
  "status_sum P cs = sum_list (map (\<lambda>(c, n). if P c then n else 0) cs)"

lemma fold_status:
  "fold book_status cs a = a\<lparr>la_gate_5xx := la_gate_5xx a + status_sum (\<lambda>c. c div 100 = 5) cs,
     la_gate_429 := la_gate_429 a + status_sum (\<lambda>c. c = 429) cs,
     la_gate_503 := la_gate_503 a + status_sum (\<lambda>c. c = 503) cs,
     la_gate_499 := la_gate_499 a + status_sum (\<lambda>c. c = 499) cs\<rparr>"
  by (induction cs arbitrary: a) (simp_all add: status_sum_def book_status_def case_prod_beta)

lemma status_sum_parts:
  "status_sum (\<lambda>c. c = 429) cs + status_sum (\<lambda>c. c = 499) cs + status_sum (\<lambda>c. c div 100 = 5) cs \<le> bt_weight id cs"
  "status_sum (\<lambda>c. c = 503) cs \<le> status_sum (\<lambda>c. c div 100 = 5) cs"
  by (induction cs) (auto simp: status_sum_def)

lemma book_lane_ok:
  assumes "ledger_ok a" "lane_ok lane"
  shows "ledger_ok (book_lane lane a)"
proof -
  have "bt_weight id (ll_by_status lane) = ll_requests lane" using assms(2) by (simp add: lane_ok_def)
  then have "gate_ok (book_lane lane a)"
    using assms(1) status_sum_parts [of "ll_by_status lane"]
    by (simp add: ledger_ok_def gate_ok_def book_lane_def Let_def fold_status)
  then show ?thesis
    using assms(1) by (simp add: ledger_ok_def counts_ok_def lists_ok_def sums_ok_def secs_ok_def book_lane_def Let_def fold_status)
qed

section \<open>A sample keeps the invariant\<close>

text \<open>Most of the ledger is out of reach of each part of a sample.\<close>

lemma frame_gauges [simp]:
  "la_samples (book_gauges prev serving m a) = la_samples a"
  "la_up_samples (book_gauges prev serving m a) = la_up_samples a"
  "la_cold_starts (book_gauges prev serving m a) = la_cold_starts a"
  "la_c1_probes (book_gauges prev serving m a) = la_c1_probes a"
  "la_c1_samples (book_gauges prev serving m a) = la_c1_samples a"
  "la_gate_requests (book_gauges prev serving m a) = la_gate_requests a"
  "la_gate_429 (book_gauges prev serving m a) = la_gate_429 a"
  "la_gate_499 (book_gauges prev serving m a) = la_gate_499 a"
  "la_gate_5xx (book_gauges prev serving m a) = la_gate_5xx a"
  "la_gate_503 (book_gauges prev serving m a) = la_gate_503 a"
  "la_secs (book_gauges prev serving m a) = la_secs a"
  "la_serving_secs (book_gauges prev serving m a) = la_serving_secs a"
  "la_cached_tokens (book_gauges prev serving m a) = la_cached_tokens a"
  "la_prefill_forward_secs (book_gauges prev serving m a) = la_prefill_forward_secs a"
  by (simp_all add: book_gauges_def Let_def)

lemma frame_counters [simp]:
  "la_samples (book_counters m pm a) = la_samples a"
  "la_up_samples (book_counters m pm a) = la_up_samples a"
  "la_cold_starts (book_counters m pm a) = la_cold_starts a"
  "la_c1_probes (book_counters m pm a) = la_c1_probes a"
  "la_c1_samples (book_counters m pm a) = la_c1_samples a"
  "la_gate_requests (book_counters m pm a) = la_gate_requests a"
  "la_gate_429 (book_counters m pm a) = la_gate_429 a"
  "la_gate_499 (book_counters m pm a) = la_gate_499 a"
  "la_gate_5xx (book_counters m pm a) = la_gate_5xx a"
  "la_gate_503 (book_counters m pm a) = la_gate_503 a"
  "la_secs (book_counters m pm a) = la_secs a"
  "la_serving_secs (book_counters m pm a) = la_serving_secs a"
  "la_retracted_samples (book_counters m pm a) = la_retracted_samples a"
  "la_spec_samples (book_counters m pm a) = la_spec_samples a"
  "la_curve (book_counters m pm a) = la_curve a"
  by (simp_all add: book_counters_def Let_def)

lemma frame_peak [simp]:
  "la_samples (read_peak ts a) = la_samples a"
  "la_up_samples (read_peak ts a) = la_up_samples a"
  "la_cold_starts (read_peak ts a) = la_cold_starts a"
  "la_c1_probes (read_peak ts a) = la_c1_probes a"
  "la_c1_samples (read_peak ts a) = la_c1_samples a"
  "la_gate_requests (read_peak ts a) = la_gate_requests a"
  "la_gate_429 (read_peak ts a) = la_gate_429 a"
  "la_gate_499 (read_peak ts a) = la_gate_499 a"
  "la_gate_5xx (read_peak ts a) = la_gate_5xx a"
  "la_gate_503 (read_peak ts a) = la_gate_503 a"
  "la_secs (read_peak ts a) = la_secs a"
  "la_serving_secs (read_peak ts a) = la_serving_secs a"
  "la_retracted_samples (read_peak ts a) = la_retracted_samples a"
  "la_spec_samples (read_peak ts a) = la_spec_samples a"
  "la_curve (read_peak ts a) = la_curve a"
  "la_cached_tokens (read_peak ts a) = la_cached_tokens a"
  "la_prefill_forward_secs (read_peak ts a) = la_prefill_forward_secs a"
  by (simp_all add: read_peak_def Let_def case_prod_beta)

lemma frame_add [simp]:
  "la_samples (read_add c r a) = la_samples a"
  "la_up_samples (read_add c r a) = la_up_samples a"
  "la_cold_starts (read_add c r a) = la_cold_starts a"
  "la_c1_probes (read_add c r a) = la_c1_probes a"
  "la_c1_samples (read_add c r a) = la_c1_samples a"
  "la_gate_requests (read_add c r a) = la_gate_requests a"
  "la_gate_429 (read_add c r a) = la_gate_429 a"
  "la_gate_499 (read_add c r a) = la_gate_499 a"
  "la_gate_5xx (read_add c r a) = la_gate_5xx a"
  "la_gate_503 (read_add c r a) = la_gate_503 a"
  "la_secs (read_add c r a) = la_secs a"
  "la_serving_secs (read_add c r a) = la_serving_secs a"
  "la_retracted_samples (read_add c r a) = la_retracted_samples a"
  "la_spec_samples (read_add c r a) = la_spec_samples a"
  "la_curve (read_add c r a) = la_curve a"
  "la_cached_tokens (read_add c r a) = la_cached_tokens a"
  "la_prefill_forward_secs (read_add c r a) = la_prefill_forward_secs a"
  by (simp_all add: read_add_def Let_def case_prod_beta)

lemma frame_reading [simp]:
  "la_samples (book_reading ts dt m pm a) = la_samples a"
  "la_up_samples (book_reading ts dt m pm a) = la_up_samples a"
  "la_cold_starts (book_reading ts dt m pm a) = la_cold_starts a"
  "la_c1_probes (book_reading ts dt m pm a) = la_c1_probes a"
  "la_c1_samples (book_reading ts dt m pm a) = la_c1_samples a"
  "la_gate_requests (book_reading ts dt m pm a) = la_gate_requests a"
  "la_gate_429 (book_reading ts dt m pm a) = la_gate_429 a"
  "la_gate_499 (book_reading ts dt m pm a) = la_gate_499 a"
  "la_gate_5xx (book_reading ts dt m pm a) = la_gate_5xx a"
  "la_gate_503 (book_reading ts dt m pm a) = la_gate_503 a"
  "la_secs (book_reading ts dt m pm a) = la_secs a"
  "la_serving_secs (book_reading ts dt m pm a) = la_serving_secs a"
  "la_retracted_samples (book_reading ts dt m pm a) = la_retracted_samples a"
  "la_spec_samples (book_reading ts dt m pm a) = la_spec_samples a"
  "la_curve (book_reading ts dt m pm a) = la_curve a"
  "la_cached_tokens (book_reading ts dt m pm a) = la_cached_tokens a"
  "la_prefill_forward_secs (book_reading ts dt m pm a) = la_prefill_forward_secs a"
  by (simp_all add: book_reading_def Let_def)

lemma frame_energy [simp]:
  "la_samples (book_energy dt serving w a) = la_samples a"
  "la_up_samples (book_energy dt serving w a) = la_up_samples a"
  "la_cold_starts (book_energy dt serving w a) = la_cold_starts a"
  "la_c1_probes (book_energy dt serving w a) = la_c1_probes a"
  "la_c1_samples (book_energy dt serving w a) = la_c1_samples a"
  "la_gate_requests (book_energy dt serving w a) = la_gate_requests a"
  "la_gate_429 (book_energy dt serving w a) = la_gate_429 a"
  "la_gate_499 (book_energy dt serving w a) = la_gate_499 a"
  "la_gate_5xx (book_energy dt serving w a) = la_gate_5xx a"
  "la_gate_503 (book_energy dt serving w a) = la_gate_503 a"
  "la_secs (book_energy dt serving w a) = la_secs a"
  "la_serving_secs (book_energy dt serving w a) = la_serving_secs a"
  "la_retracted_samples (book_energy dt serving w a) = la_retracted_samples a"
  "la_spec_samples (book_energy dt serving w a) = la_spec_samples a"
  "la_curve (book_energy dt serving w a) = la_curve a"
  "la_cached_tokens (book_energy dt serving w a) = la_cached_tokens a"
  "la_prefill_forward_secs (book_energy dt serving w a) = la_prefill_forward_secs a"
  by (simp_all add: book_energy_def split: option.split)

lemma frame_time [simp]:
  "la_samples (book_time prev cur a) = la_samples a"
  "la_up_samples (book_time prev cur a) = la_up_samples a"
  "la_cold_starts (book_time prev cur a) = la_cold_starts a"
  "la_c1_probes (book_time prev cur a) = la_c1_probes a"
  "la_c1_samples (book_time prev cur a) = la_c1_samples a"
  "la_gate_requests (book_time prev cur a) = la_gate_requests a"
  "la_gate_429 (book_time prev cur a) = la_gate_429 a"
  "la_gate_499 (book_time prev cur a) = la_gate_499 a"
  "la_gate_5xx (book_time prev cur a) = la_gate_5xx a"
  "la_gate_503 (book_time prev cur a) = la_gate_503 a"
  "la_retracted_samples (book_time prev cur a) = la_retracted_samples a"
  "la_spec_samples (book_time prev cur a) = la_spec_samples a"
  "la_curve (book_time prev cur a) = la_curve a"
  "la_cached_tokens (book_time prev cur a) = la_cached_tokens a"
  "la_prefill_forward_secs (book_time prev cur a) = la_prefill_forward_secs a"
  by (simp_all add: book_time_def Let_def)

lemma frame_lane [simp]:
  "la_samples (book_lane lane a) = la_samples a"
  "la_up_samples (book_lane lane a) = la_up_samples a"
  "la_cold_starts (book_lane lane a) = la_cold_starts a"
  "la_c1_probes (book_lane lane a) = la_c1_probes a"
  "la_c1_samples (book_lane lane a) = la_c1_samples a"
  "la_secs (book_lane lane a) = la_secs a"
  "la_serving_secs (book_lane lane a) = la_serving_secs a"
  "la_retracted_samples (book_lane lane a) = la_retracted_samples a"
  "la_spec_samples (book_lane lane a) = la_spec_samples a"
  "la_curve (book_lane lane a) = la_curve a"
  "la_cached_tokens (book_lane lane a) = la_cached_tokens a"
  "la_prefill_forward_secs (book_lane lane a) = la_prefill_forward_secs a"
  by (simp_all add: book_lane_def Let_def fold_status)

lemma gauges_parts:
  "la_retracted_samples (book_gauges prev serving m a) \<le> Suc (la_retracted_samples a)"
  "la_spec_samples (book_gauges prev serving m a) \<le> Suc (la_spec_samples a)"
  "length (la_curve a) \<le> CURVE_MAX_LEVELS \<Longrightarrow> length (la_curve (book_gauges prev serving m a)) \<le> CURVE_MAX_LEVELS"
  by (simp_all add: book_gauges_def Let_def curve_observe_def length_upd_cell)

lemma counters_parts:
  "nn (la_cached_tokens a) \<Longrightarrow> nn (la_cached_tokens (book_counters m pm a))"
  "nn (la_prefill_forward_secs a) \<Longrightarrow> nn (la_prefill_forward_secs (book_counters m pm a))"
  by (simp_all add: book_counters_def Let_def nn_add nn_grown)

text \<open>The engine's part: at most one more sample of each kind, and nothing else of the invariant.\<close>

lemma frame_engine [simp]:
  "la_samples (book_engine prev cur m a) = la_samples a"
  "la_up_samples (book_engine prev cur m a) = la_up_samples a"
  "la_cold_starts (book_engine prev cur m a) = la_cold_starts a"
  "la_c1_probes (book_engine prev cur m a) = la_c1_probes a"
  "la_c1_samples (book_engine prev cur m a) = la_c1_samples a"
  "la_gate_requests (book_engine prev cur m a) = la_gate_requests a"
  "la_gate_429 (book_engine prev cur m a) = la_gate_429 a"
  "la_gate_499 (book_engine prev cur m a) = la_gate_499 a"
  "la_gate_5xx (book_engine prev cur m a) = la_gate_5xx a"
  "la_gate_503 (book_engine prev cur m a) = la_gate_503 a"
  "la_secs (book_engine prev cur m a) = la_secs a"
  "la_serving_secs (book_engine prev cur m a) = la_serving_secs a"
  by (simp_all add: book_engine_def Let_def split: bool.split option.split)

lemma engine_parts:
  "la_retracted_samples (book_engine prev cur m a) \<le> Suc (la_retracted_samples a)"
  "la_spec_samples (book_engine prev cur m a) \<le> Suc (la_spec_samples a)"
  "length (la_curve a) \<le> CURVE_MAX_LEVELS \<Longrightarrow> length (la_curve (book_engine prev cur m a)) \<le> CURVE_MAX_LEVELS"
  "nn (la_cached_tokens a) \<Longrightarrow> nn (la_cached_tokens (book_engine prev cur m a))"
  "nn (la_prefill_forward_secs a) \<Longrightarrow> nn (la_prefill_forward_secs (book_engine prev cur m a))"
  using gauges_parts
  by (simp_all add: book_engine_def Let_def curve_observe_extra_def length_upd_cell counters_parts split: bool.split option.split)

section \<open>The seconds\<close>

definition secs_in :: "nat \<Rightarrow> LoadoutAcc \<Rightarrow> bool" where
  "secs_in k a \<longleftrightarrow> (k < 2 ^ 48 \<longrightarrow>
     (\<exists>m n. whole (la_serving_secs a) m \<and> whole (la_secs a) n \<and> m \<le> n \<and> n \<le> 30 * k))"

lemma secs_ok_in: "secs_ok a \<longleftrightarrow> secs_in (la_samples a) a"
  by (simp add: secs_ok_def secs_in_def)

lemma step_secs_cases: "step_secs prev cur = F_Fin 0 \<or> (\<exists>d. 1 \<le> d \<and> d \<le> 30 \<and> step_secs prev cur = F_Fin (of_nat d))"
proof (cases "1 \<le> (case prev of None \<Rightarrow> 0 | Some p \<Rightarrow> sp_ts cur - sp_ts p) \<and>
    (case prev of None \<Rightarrow> 0 | Some p \<Rightarrow> sp_ts cur - sp_ts p) \<le> LEDGER_STEP_SECS")
  case True
  define d where "d = (case prev of None \<Rightarrow> 0 | Some p \<Rightarrow> sp_ts cur - sp_ts p)"
  have "1 \<le> nat d \<and> nat d \<le> 30 \<and> step_secs prev cur = F_Fin (of_nat (nat d))"
    using True by (simp add: step_secs_def d_def [symmetric] LEDGER_STEP_SECS_def) linarith
  then show ?thesis by blast
next
  case False
  then show ?thesis unfolding step_secs_def Let_def if_not_P [OF False] by simp
qed

lemma whole_add: "whole x m \<Longrightarrow> m + d < 2 ^ 53 \<Longrightarrow> whole (f_add x (F_Fin (of_nat d))) (m + d)"
  using rnd_of_nat [of "m + d"] by (simp add: whole_def f_add_Fin)

lemma book_time_secs:
  assumes "secs_in k a"
  shows "secs_in (Suc k) (book_time prev cur a)"
proof (cases "f_gt (step_secs prev cur) (F_Fin 0)")
  case True
  then obtain d where d: "1 \<le> d" "d \<le> 30" "step_secs prev cur = F_Fin (of_nat d)"
    using step_secs_cases [of prev cur] by auto
  show ?thesis unfolding secs_in_def
  proof
    assume k: "Suc k < 2 ^ 48"
    then obtain m n where mn: "whole (la_serving_secs a) m" "whole (la_secs a) n" "m \<le> n" "n \<le> 30 * k"
      using assms by (auto simp: secs_in_def)
    have add: "whole (f_add (la_secs a) (F_Fin (of_nat d))) (n + d)" "whole (f_add (la_serving_secs a) (F_Fin (of_nat d))) (m + d)"
      using mn d(2) k by (auto intro: whole_add)
    let ?m = "if is_serving cur then m + d else m"
    have "whole (la_serving_secs (book_time prev cur a)) ?m" "whole (la_secs (book_time prev cur a)) (n + d)"
      using True add mn(1) d(3) by (simp_all add: book_time_def Let_def)
    then show "\<exists>m n. whole (la_serving_secs (book_time prev cur a)) m \<and> whole (la_secs (book_time prev cur a)) n \<and> m \<le> n \<and> n \<le> 30 * Suc k"
      using mn d(2) by (intro exI [of _ ?m] exI [of _ "n + d"]) auto
  qed
next
  case False
  then have "book_time prev cur a = a" by (simp add: book_time_def Let_def)
  then show ?thesis using assms by (fastforce simp: secs_in_def)
qed

section \<open>The whole sample\<close>

definition sample_logged :: "Sample \<Rightarrow> bool" where
  "sample_logged s \<longleftrightarrow> delta_ok (sp_log s)"

lemma secs_in_lane [simp]: "secs_in k (book_lane lane a) = secs_in k a"
  by (simp add: secs_in_def)

lemma secs_in_engine [simp]: "secs_in k (book_engine prev cur m a) = secs_in k a"
  by (simp add: secs_in_def)

lemma book_lane_gate: "gate_ok a \<Longrightarrow> lane_ok lane \<Longrightarrow> gate_ok (book_lane lane a)"
proof -
  assume a: "gate_ok a" "lane_ok lane"
  then have "bt_weight id (ll_by_status lane) = ll_requests lane" by (simp add: lane_ok_def)
  then show ?thesis
    using a status_sum_parts [of "ll_by_status lane"] by (simp add: gate_ok_def book_lane_def Let_def fold_status)
qed

lemma ledger_ok_observe:
  assumes "ledger_ok a" "sample_logged cur"
  shows "ledger_ok (ledger_observe a prev cur)"
proof -
  let ?a1 = "a\<lparr>la_samples := la_samples a + 1, la_up_samples := la_up_samples a + (if sp_serve_up cur then 1 else 0),
    la_last_ts := sp_ts cur\<rparr>"
  let ?a3 = "book_lane (ld_trusted (sp_log cur)) (book_lane (ld_public (sp_log cur)) (book_time prev cur ?a1))"
  have lanes: "lane_ok (ld_trusted (sp_log cur))" "lane_ok (ld_public (sp_log cur))"
    using assms(2) by (simp_all add: sample_logged_def delta_ok_def)
  have gate: "gate_ok ?a3"
    using assms(1) lanes by (intro book_lane_gate) (simp_all add: ledger_ok_def gate_ok_def)
  have secs: "secs_in (Suc (la_samples a)) ?a3"
    using assms(1) book_time_secs [of "la_samples a" ?a1 prev cur] by (simp add: ledger_ok_def secs_ok_in secs_in_def)
  have counts: "la_up_samples ?a3 \<le> la_samples ?a3" "Suc (la_retracted_samples ?a3) \<le> la_samples ?a3"
      "Suc (la_spec_samples ?a3) \<le> la_samples ?a3"
    and lists: "lists_ok ?a3" and sums: "sums_ok ?a3"
    using assms(1) by (simp_all add: ledger_parts)
  show ?thesis
  proof (cases "sp_metrics cur")
    case None
    then have "ledger_observe a prev cur = ?a3" by (simp add: ledger_observe_def Let_def)
    then show ?thesis using gate secs counts lists sums by (simp add: ledger_ok_def counts_ok_def secs_ok_in)
  next
    case (Some m)
    then have "ledger_observe a prev cur = book_engine prev cur m ?a3" by (simp add: ledger_observe_def Let_def)
    then show ?thesis
      using gate secs counts lists sums engine_parts(1,2) [of prev cur m ?a3]
      by (simp add: ledger_ok_def counts_ok_def secs_ok_in gate_ok_def lists_ok_def sums_ok_def engine_parts)
  qed
qed

text \<open>Every sequence of operations on a new ledger; the log of a sample is one the gate-log reader made.\<close>

inductive ledger_reach :: "LoadoutAcc \<Rightarrow> bool" where
  init: "ledger_reach acc_default"
| run: "ledger_reach a \<Longrightarrow> ledger_reach (note_run a t)"
| cold: "ledger_reach a \<Longrightarrow> ledger_reach (note_cold_start a secs)"
| sample: "ledger_reach a \<Longrightarrow> sample_logged cur \<Longrightarrow> ledger_reach (ledger_observe a prev cur)"
| probe: "ledger_reach a \<Longrightarrow> ledger_reach (observe_probe a p)"
| repair: "ledger_reach a \<Longrightarrow> ledger_reach (rebuild_c1 a ps)"
| hists: "ledger_reach a \<Longrightarrow> ledger_reach (observe_window a w)"

lemma ledger_reach_ok: "ledger_reach a \<Longrightarrow> ledger_ok a"
  by (induction rule: ledger_reach.induct)
    (auto intro: ledger_ok_default ledger_ok_run ledger_ok_cold ledger_ok_observe ledger_ok_probe ledger_ok_rebuild ledger_ok_window)

section \<open>The repair\<close>

text \<open>The C1 figures rebuilt from the stored probes are those of the probes observed one by one.\<close>

definition no_c1 :: "LoadoutAcc \<Rightarrow> LoadoutAcc" where
  "no_c1 a = a\<lparr>la_c1_probes := 0, la_c1_sum := F_Fin 0, la_c1_best := F_Fin 0, la_c1_samples := []\<rparr>"

lemma readings_snoc:
  "readings_of (ps @ [p]) = readings_of ps @ (case (is_reading p, pr_decode_tok_s p) of (True, Some v) \<Rightarrow> [v] | _ \<Rightarrow> [])"
  by (auto simp: readings_of_def List.map_filter_def split: option.split bool.split)

lemma observe_probes:
  "foldl observe_probe (no_c1 a) ps = a\<lparr>la_c1_probes := length (readings_of ps),
     la_c1_sum := foldl f_add (F_Fin 0) (readings_of ps), la_c1_best := foldl f_max (F_Fin 0) (readings_of ps),
     la_c1_samples := newest C1_SAMPLES_KEPT (readings_of ps)\<rparr>"
proof (induction ps rule: rev_induct)
  case (snoc p ps)
  show ?case
    by (cases "is_reading p"; cases "pr_decode_tok_s p")
      (simp_all add: snoc readings_snoc observe_probe_def [where p = p] newest_newest)
qed (simp add: no_c1_def readings_of_def newest_def List.map_filter_def)

lemma sum_from_zero: "xs \<noteq> [] \<Longrightarrow> f_gt (hd xs) (F_Fin 0) \<Longrightarrow> foldl f_add (F_Fin 0) xs = f_sum xs"
proof -
  assume "xs \<noteq> []" "f_gt (hd xs) (F_Fin 0)"
  then obtain v vs where v: "xs = v # vs" "f_gt v (F_Fin 0)" by (cases xs) auto
  then have "f_add (F_Fin 0) v = f_add F_NegZero v" by (cases v) (auto simp: f_add_def f_lt_def)
  then show ?thesis by (simp add: f_sum_def v(1))
qed

lemma repair_is_replay:
  assumes "readings_of ps \<noteq> []" "f_gt (hd (readings_of ps)) (F_Fin 0)"
  shows "rebuild_c1 a ps = foldl observe_probe (no_c1 a) ps"
  unfolding observe_probes rebuild_c1_def Let_def sum_from_zero [OF assms] ..

end
