(* ===== verification/LoadoutClaims.thy ===== *)
theory LoadoutClaims
  imports LedgerFacts
begin

text \<open>
  The properties of a loadout: what makes two of them different, what its ledger keeps, and what the
  figures of its scorecard can be.
\<close>

section \<open>Shares\<close>

text \<open>Rounding to so many decimals keeps a number of \<open>0 .. M\<close> there.\<close>

lemma rounded_in:
  assumes "0 \<le> r" "r \<le> of_nat M" "0 < K" "M * K < 2 ^ 50" "M < 2 ^ 53"
  shows "\<exists>s. f_div (f_round (f_mul (F_Fin r) (F_Fin (of_nat K)))) (F_Fin (of_nat K)) = F_Fin s \<and> 0 \<le> s \<and> s \<le> of_nat M"
proof (cases "r = 0")
  case True
  then show ?thesis using assms(3) by (auto simp: f_mul_def f_zero_def f_round_def f_div_def Let_def floor_eq_iff)
next
  case False
  have K: "(0 :: rat) < of_nat K" using assms(3) by simp
  have "r * of_nat K \<le> of_nat (M * K)" using assms(2) K by (simp add: mult_right_mono)
  then obtain p where p: "rnd (r * of_nat K) = F_Fin p" "0 \<le> p" "p \<le> of_nat (M * K)"
    using rnd_between [of "r * of_nat K" "M * K"] assms by auto
  define n where "n = \<lfloor>p + 1 / 2\<rfloor>"
  have n0: "0 \<le> n" using p(2) by (simp add: n_def)
  have "of_int n \<le> p + 1 / 2" by (simp add: n_def)
  then have "(of_int n :: rat) < of_int (int (M * K) + 1)" using p(3) by simp
  then have nM: "n \<le> int (M * K)" by (simp only: of_int_less_iff)
  have mul: "f_mul (F_Fin r) (F_Fin (of_nat K)) = F_Fin p" using False assms K p(1) by (simp add: f_mul_Fin_pos)
  have rd: "f_round (F_Fin p) = F_Fin (of_int n)"
    using p(2) by (auto simp: f_round_def n_def [symmetric] f_zero_def Let_def)
  have "0 \<le> of_int n / (of_nat K :: rat)" "of_int n / (of_nat K :: rat) \<le> of_nat M"
  proof -
    show "0 \<le> of_int n / (of_nat K :: rat)" using n0 K by simp
    have "(of_int n :: rat) \<le> of_int (int (M * K))" using nM by (simp only: of_int_le_iff)
    then show "of_int n / (of_nat K :: rat) \<le> of_nat M" using K by (simp add: pos_divide_le_eq)
  qed
  then obtain s where "rnd (of_int n / of_nat K) = F_Fin s" "0 \<le> s" "s \<le> of_nat M"
    using rnd_between [of "of_int n / of_nat K" M] assms(5) by auto
  moreover have "f_div (F_Fin (of_int n)) (F_Fin (of_nat K)) = rnd (of_int n / of_nat K)"
    using n0 K by (cases "n = 0") (simp_all add: f_div_def f_zero_def)
  ultimately show ?thesis using mul rd by simp
qed

definition in_share :: "rat \<Rightarrow> f64 option \<Rightarrow> bool" where
  "in_share M v \<longleftrightarrow> (case v of None \<Rightarrow> True | Some x \<Rightarrow> f_le (F_Fin 0) x \<and> f_le x (F_Fin M))"

lemma row_round4_in: "0 \<le> r \<Longrightarrow> r \<le> of_nat M \<Longrightarrow> M \<le> 100 \<Longrightarrow> in_share (of_nat M) (Some (row_round4 (F_Fin r)))"
  using rounded_in [of r M 10000] by (auto simp: row_round4_def in_share_def)

lemma count_share_in: "n \<le> la_gate_requests a \<Longrightarrow> la_gate_requests a < 2 ^ 64 \<Longrightarrow> in_share 1 (count_share a n)"
proof (cases "la_gate_requests a = 0")
  case True
  then show ?thesis by (simp add: count_share_def ratio_def in_share_def f_of_nat_def)
next
  case False
  assume "n \<le> la_gate_requests a" "la_gate_requests a < 2 ^ 64"
  then obtain r where "f_div (f_of_nat n) (f_of_nat (la_gate_requests a)) = F_Fin r" "0 \<le> r" "r \<le> 1"
    using f_div_share [of n "la_gate_requests a"] False by auto
  then show ?thesis using row_round4_in [of r 1] by (simp add: count_share_def ratio_def in_share_def)
qed

lemma percent_in: "n \<le> m \<Longrightarrow> m < 2 ^ 64 \<Longrightarrow> in_share 100 (percent_of n m)"
proof (cases "m = 0")
  case True
  then show ?thesis by (simp add: percent_of_def ratio_def in_share_def f_of_nat_def)
next
  case False
  assume "n \<le> m" "m < 2 ^ 64"
  then obtain r where r: "f_div (f_of_nat n) (f_of_nat m) = F_Fin r" "0 \<le> r" "r \<le> 1"
    using f_div_share [of n m] False by auto
  obtain p where p: "f_mul (F_Fin r) (F_Fin 100) = F_Fin p" "0 \<le> p" "p \<le> 100"
  proof (cases "r = 0")
    case True
    then show ?thesis using that by (simp add: f_mul_def f_zero_def)
  next
    case False
    then show ?thesis using that r rnd_between [of "r * 100" 100] by (auto simp: f_mul_Fin_pos)
  qed
  then show ?thesis using row_round4_in [of p 100] r(1) by (simp add: percent_of_def ratio_def in_share_def)
qed

lemma row_round4_neg0: "row_round4 F_NegZero = F_NegZero"
proof -
  have "\<lfloor>1 / 2 :: rat\<rfloor> = 0" by (simp add: floor_eq_iff)
  then show ?thesis by (simp add: row_round4_def f_mul_def f_round_def f_zero_def f_div_def)
qed

lemma capped_in:
  assumes "nn a"
  shows "in_share 1 (capped_share a b)"
proof (cases "f_gt b (F_Fin 0)")
  case True
  have "nn (f_div a b)"
    using True assms by (cases a; cases b) (auto simp: f_div_def f_lt_def f_zero_def nn_rnd)
  then have "f_min (f_div a b) (F_Fin 1) = F_NegZero \<or> (\<exists>r. f_min (f_div a b) (F_Fin 1) = F_Fin r \<and> 0 \<le> r \<and> r \<le> 1)"
    by (cases "f_div a b") (auto simp: f_min_def f_lt_def)
  then have "in_share 1 (Some (row_round4 (f_min (f_div a b) (F_Fin 1))))"
  proof
    assume "f_min (f_div a b) (F_Fin 1) = F_NegZero"
    then show ?thesis by (simp add: row_round4_neg0 in_share_def f_le_def)
  qed (use row_round4_in [where M = 1] in auto)
  then show ?thesis using True by (simp add: capped_share_def ratio_def)
qed (simp add: capped_share_def ratio_def in_share_def)

text \<open>A ledger that counts fewer than \<open>2 ^ 64\<close> samples and requests makes a scorecard whose shares are
  shares: uptime and the share of samples with paused requests are percentages, and the error rates, the cache
  hits and the time spent reading prompts are between 0 and 1 - through every restart of the engine and
  whatever numbers the engine reported.\<close>

theorem scorecard_shares_are_shares:
  assumes "ledger_reach a" "la_samples a < 2 ^ 64" "la_gate_requests a < 2 ^ 64"
  shows "in_share 100 (lr_uptime_pct (loadout_row i a first_seen current)) \<and>
    in_share 100 (lr_retracted_pct (loadout_row i a first_seen current)) \<and>
    in_share 1 (lr_error_rate (loadout_row i a first_seen current)) \<and>
    in_share 1 (lr_rate_429 (loadout_row i a first_seen current)) \<and>
    in_share 1 (lr_rate_503 (loadout_row i a first_seen current)) \<and>
    in_share 1 (lr_cache_hit_share (loadout_row i a first_seen current)) \<and>
    in_share 1 (lr_prefill_time_share (loadout_row i a first_seen current))"
  using ledger_reach_ok [OF assms(1)] assms(2,3)
  by (auto simp: loadout_row_def Let_def case_prod_beta ledger_parts intro!: percent_in count_share_in capped_in)

definition watched_sample :: "i64 \<Rightarrow> Sample" where
  "watched_sample t = \<lparr>sp_ts = t, sp_serve_up = True, sp_model = Some ''m'', sp_metrics = None, sp_gpus_ok = True, sp_gpus = [],
     sp_serve_ct = None, sp_gate_ct = None, sp_gate = None, sp_log = log_delta_default, sp_users = [], sp_slots = 4,
     sp_engine = ''sglang'', sp_not_reported = [], sp_gate_absent = False, sp_gpu_source = []\<rparr>"

definition two_samples :: LoadoutAcc where
  "two_samples = ledger_observe (ledger_observe (note_run acc_default 3) None (watched_sample 5)) (Some (watched_sample 5)) (watched_sample 10)"

lemma two_samples_reach: "ledger_reach two_samples"
proof -
  have "sample_logged (watched_sample t)" for t
    by (simp add: sample_logged_def watched_sample_def delta_ok_def log_delta_default_def lane_ok_default)
  then show ?thesis unfolding two_samples_def by (intro ledger_reach.intros)
qed

lemma two_samples_counts: "la_samples two_samples = 2" "la_gate_requests two_samples = 0"
  by (simp_all add: two_samples_def ledger_observe_def Let_def note_run_def acc_default_def watched_sample_def book_lane_def
      log_delta_default_def lane_log_default_def)

theorem scorecard_shares_are_shares_witness:
  "in_share 100 (lr_uptime_pct (loadout_row (loadout_identity id ''m'' ''img:1'' [] []) two_samples 5 True))"
  using scorecard_shares_are_shares [OF two_samples_reach, of "loadout_identity id ''m'' ''img:1'' [] []" 5 True]
  by (simp add: two_samples_counts)

section \<open>The ledger\<close>

text \<open>C22. Whatever is booked into a ledger, in whatever order - runs, cold starts, samples, probes, repairs,
  histogram windows - it stays well formed: no part of its samples exceeds the samples, the refusals and the errors
  of the gateway are together at most its requests, at most ten cold starts, sixty-four levels and the newest two
  hundred readings are kept, and the observed seconds are an exact whole number, at most thirty per sample,
  of which the serving seconds are a part.\<close>

theorem ledger_stays_well_formed:
  assumes "ledger_reach a"
  shows "la_up_samples a \<le> la_samples a \<and> la_retracted_samples a \<le> la_samples a \<and> la_spec_samples a \<le> la_samples a \<and>
    la_gate_429 a + la_gate_499 a + la_gate_5xx a \<le> la_gate_requests a \<and> la_gate_503 a \<le> la_gate_5xx a \<and>
    length (la_cold_starts a) \<le> COLD_STARTS_KEPT \<and> length (la_curve a) \<le> CURVE_MAX_LEVELS \<and>
    length (la_c1_samples a) = min C1_SAMPLES_KEPT (la_c1_probes a) \<and>
    (la_samples a < 2 ^ 48 \<longrightarrow> (\<exists>m n. la_serving_secs a = F_Fin (of_nat m) \<and> la_secs a = F_Fin (of_nat n) \<and>
      m \<le> n \<and> n \<le> 30 * la_samples a))"
  using ledger_reach_ok [OF assms] by (simp add: ledger_parts secs_ok_def whole_def)

theorem ledger_stays_well_formed_witness:
  "\<exists>m n. la_serving_secs two_samples = F_Fin (of_nat m) \<and> la_secs two_samples = F_Fin (of_nat n) \<and> m \<le> n \<and> n \<le> 60"
  using ledger_stays_well_formed [OF two_samples_reach] by (simp add: two_samples_counts)

text \<open>The repair at start-up is a replay: the figures of the speed alone, rebuilt from the stored probes after
  some were re-judged, are those the ledger would have had it seen these probes one by one - the number, the sum (to the
  last bit), the best and the newest readings - and nothing else changes.\<close>

theorem repair_equals_replay:
  assumes "readings_of ps \<noteq> []" "f_gt (hd (readings_of ps)) (F_Fin 0)"
  shows "rebuild_c1 a ps = foldl observe_probe
    (a\<lparr>la_c1_probes := 0, la_c1_sum := F_Fin 0, la_c1_best := F_Fin 0, la_c1_samples := []\<rparr>) ps"
  using repair_is_replay [OF assms] by (simp add: no_c1_def)

definition good_probe :: "i64 \<Rightarrow> f64 \<Rightarrow> ProbeRecord" where
  "good_probe t speed = (skipped_busy t (F_Fin 0) (F_Fin 0))\<lparr>pr_status := ''ok'', pr_valid := True, pr_decode_tok_s := Some speed\<rparr>"

theorem repair_equals_replay_witness:
  "la_c1_samples (rebuild_c1 two_samples [good_probe 0 (F_Fin 40), skipped_busy 60 (F_Fin 3) (F_Fin 0), good_probe 90 (F_Fin 44)]) =
    la_c1_samples (foldl observe_probe
      (two_samples\<lparr>la_c1_probes := 0, la_c1_sum := F_Fin 0, la_c1_best := F_Fin 0, la_c1_samples := []\<rparr>)
      [good_probe 0 (F_Fin 40), skipped_busy 60 (F_Fin 3) (F_Fin 0), good_probe 90 (F_Fin 44)])"
proof -
  let ?ps = "[good_probe 0 (F_Fin 40), skipped_busy 60 (F_Fin 3) (F_Fin 0), good_probe 90 (F_Fin 44)]"
  have "readings_of ?ps = [F_Fin 40, F_Fin 44]"
    by (simp add: readings_of_def good_probe_def skipped_busy_def is_reading_def probe_is_ok_def List.map_filter_def)
  then have "rebuild_c1 two_samples ?ps = foldl observe_probe
      (two_samples\<lparr>la_c1_probes := 0, la_c1_sum := F_Fin 0, la_c1_best := F_Fin 0, la_c1_samples := []\<rparr>) ?ps"
    by (intro repair_equals_replay) simp_all
  then show ?thesis by (rule arg_cong)
qed

section \<open>The identity\<close>

text \<open>C23. The text that is hashed tells two configurations apart exactly when they are different: it is
  the same text if and only if the launch arguments, read word by word in their order, are the same and so is the set
  of environment entries that matter. So an entry that is not about serving, one whose name looks like a secret,
  the order of the environment and repeated entries never make a new loadout, and a changed switch always
  changes the text.\<close>

theorem loadout_tells_configurations_apart:
  assumes "line_names env1" "line_names env2"
  shows "(config_text args1 env1 = config_text args2 env2 \<longleftrightarrow>
      normalise_args args1 = normalise_args args2 \<and> env_set env1 = env_set env2) \<and>
    (env_set env1 = env_set env2 \<longrightarrow>
      loadout_identity sha model img args1 env1 = loadout_identity sha model img args1 env2)"
  using config_text_iff [OF assms] identity_env by blast

definition env_one :: "string list" where
  "env_one = [''VLLM_API_KEY=abc'', ''NCCL_P2P=1'', ''PATH=/bin'']"

definition env_two :: "string list" where
  "env_two = [''NCCL_P2P=1'', ''VLLM_API_KEY=xyz'', ''NCCL_P2P=1'']"

lemma env_parts: "line_names env_one" "line_names env_two" "env_set env_one = env_set env_two"
  by (simp_all add: env_one_def env_two_def line_names_def EQUALS_def lineless_def env_set_def List.map_filter_def env_entry_def
      served_name_def ENV_PREFIXES_def SECRET_WORDS_def to_upper_def)

theorem loadout_tells_configurations_apart_witness:
  "loadout_identity id ''m'' ''img:1'' [''--tp'', ''2''] env_one = loadout_identity id ''m'' ''img:1'' [''--tp'', ''2''] env_two"
  using loadout_tells_configurations_apart [OF env_parts(1,2)] env_parts(3) by blast

end
