(* ===== verification/BenchDocs.thy ===== *)
theory BenchDocs
  imports BenchCheck
begin

text \<open>
  Two runs side by side and the documents a client reads: \<open>load_gap\<close>, \<open>merge_curve\<close>, \<open>LastRun\<close>,
  \<open>BenchDoc\<close> and \<open>follow_step\<close> of \<open>crates/lss-core/src/bench.rs\<close>, with the loop of \<open>lss bench\<close> that
  follows a run (\<open>bench_shot\<close> of \<open>crates/lss/src/main.rs\<close>).
\<close>

section \<open>May two runs be compared?\<close>

definition unrecorded :: "Scorecard \<Rightarrow> string \<Rightarrow> string" where
  "unrecorded s which = ''the '' @ which @
     '' run did not record what else the server was doing while it ran, so a difference in the numbers cannot be told apart from a difference in the traffic ('' @
     class_sentence (card_load_class s) @ '')''"

definition share_gap :: "f64 \<Rightarrow> f64 \<Rightarrow> f64" where
  "share_gap na nb =
    (let sa = engine_share na; sb = engine_share nb in f_div (f_abs (f_sub sa sb)) (f_max sa sb))"

definition NOISE_EDGE :: f64 where "NOISE_EDGE = f_add NOISE (f_lit (1 / 10 ^ 12))"

definition gap_sentence :: "f64 \<Rightarrow> f64 \<Rightarrow> f64 \<Rightarrow> string" where
  "gap_sentence na nb gap =
    ''measured under different background load: '' @ fmt_fixed 2 na @ '' other request(s) in flight against '' @ fmt_fixed 2 nb @
    '', so one run had about '' @ fmt_fixed 0 (f_mul gap (F_Fin 100)) @
    ''% more of the engine to itself than the other - past the +-'' @ fmt_fixed 0 (f_mul NOISE (F_Fin 100)) @
    ''% band a difference has to clear to count at all. The gap in the numbers is at least as likely to be the traffic as the loadout''"

definition load_gap :: "Scorecard \<Rightarrow> Scorecard \<Rightarrow> string option" where
  "load_gap a b =
    (if card_load_class a = LC_Unknown then Some (unrecorded a ''first'')
     else if card_load_class b = LC_Unknown then Some (unrecorded b ''second'')
     else case (sc_background a, sc_background b) of
       (Some ba, Some bb) \<Rightarrow>
         (case (bl_concurrent_avg ba, bl_concurrent_avg bb) of
            (Some na, Some nb) \<Rightarrow>
              (let gap = share_gap na nb in if f_gt gap NOISE_EDGE then Some (gap_sentence na nb gap) else None)
          | _ \<Rightarrow> Some (unrecorded a ''first''))
     | _ \<Rightarrow> Some (unrecorded a ''first''))"

section \<open>The bench's rows over the live curve\<close>

definition lay_over :: "CurveRow list \<Rightarrow> CurveRow \<Rightarrow> CurveRow" where
  "lay_over over l =
    (case find (\<lambda>b. cr_running b = cr_running l) over of
       Some b \<Rightarrow> b\<lparr>cr_samples := cr_samples l, cr_spec_accept_length := cr_spec_accept_length l\<rparr>
     | None \<Rightarrow> l)"

definition push_new :: "CurveRow list \<Rightarrow> CurveRow \<Rightarrow> CurveRow list" where
  "push_new out b = (if \<exists>r \<in> set out. cr_running r = cr_running b then out else out @ [b])"

definition merge_curve :: "CurveRow list \<Rightarrow> Scorecard option \<Rightarrow> CurveRow list" where
  "merge_curve live bench =
    (let over = (case bench of None \<Rightarrow> [] | Some s \<Rightarrow> card_curve_rows s)
     in sort_key cr_running (foldl push_new (map (lay_over over) live) over))"

section \<open>The documents\<close>

record LastRun =
  la_run_id :: i64
  la_profile :: string
  la_ended_at :: i64
  la_status :: string
  la_aborted :: "string option"
  la_model :: string
  la_headline :: Headline
  la_load :: LoadClass
  la_failed_checks :: "string list"

record BenchBrief =
  bb_state :: string
  bb_profile :: "string option"
  bb_started_at :: "i64 option"
  bb_step :: "string option"
  bb_step_index :: u32
  bb_steps :: u32
  bb_last :: "LastRun option"
  bb_configured :: bool
  bb_builtin :: bool

definition last_run_of :: "Scorecard \<Rightarrow> LastRun" where
  "last_run_of s = \<lparr>la_run_id = sc_run_id s, la_profile = sc_profile s, la_ended_at = sc_ended_at s,
     la_status = sc_status s, la_aborted = sc_aborted s, la_model = sc_model s, la_headline = card_headline s,
     la_load = card_load_class s, la_failed_checks = failed_checks s\<rparr>"

definition last_verdict :: "LastRun \<Rightarrow> string" where
  "last_verdict l = run_verdict (la_status l) (la_failed_checks l) False"

definition last_clean :: "LastRun \<Rightarrow> bool" where
  "last_clean l \<longleftrightarrow> la_status l = ''ok'' \<and> la_failed_checks l = []"

record BenchDoc =
  bd_generated_at :: i64
  bd_brief :: BenchBrief
  bd_runs :: "Scorecard list"

section \<open>Following a run\<close>

datatype Follow = FollowRunning string | FollowFinished Scorecard | FollowWaiting | FollowLost

definition FOLLOW_GRACE_SECS :: i64 where "FOLLOW_GRACE_SECS = 120"

definition step_line :: "BenchBrief \<Rightarrow> string" where
  "step_line b = ''step '' @ show_nat (bb_step_index b) @ ''/'' @ show_nat (bb_steps b) @ '': '' @ some_or [] (bb_step b)"

definition follow_step :: "BenchDoc \<Rightarrow> i64 option \<Rightarrow> i64 option \<Rightarrow> i64 \<Rightarrow> Follow" where
  "follow_step doc run_id waiting_since waited_secs =
    (if bb_state (bd_brief doc) = ''running'' then FollowRunning (step_line (bd_brief doc))
     else case find (\<lambda>r. Some (sc_run_id r) = run_id) (bd_runs doc) of
       Some run \<Rightarrow> FollowFinished run
     | None \<Rightarrow>
         if (case waiting_since of None \<Rightarrow> False | Some began \<Rightarrow> began < bd_generated_at doc) \<or>
            FOLLOW_GRACE_SECS \<le> waited_secs
         then FollowLost else FollowWaiting)"

text \<open>The exit code of \<open>unreachable\<close>: a collector that waits for an engine is not a broken monitor.\<close>

definition WAITING :: string where "WAITING = ''collector running, no LLM server found yet: ''"

definition unreachable_exit :: "string \<Rightarrow> nat" where
  "unreachable_exit err = (if starts_with err WAITING then 1 else 2)"

definition exit_of :: "bool \<Rightarrow> nat" where
  "exit_of ok = (if ok then 0 else 1)"

text \<open>
  One turn of the loop: the answer to \<open>GET /bench\<close> (an error in words, or a document) takes the pair
  (\<open>waiting_since\<close>, \<open>waited\<close>) on, or ends the command with an exit code.
\<close>

type_synonym follower = "i64 option \<times> i64"

definition follow_turn :: "i64 option \<Rightarrow> follower \<Rightarrow> string + BenchDoc \<Rightarrow> nat + follower" where
  "follow_turn run_id st answer =
    (case answer of Inl e \<Rightarrow> Inl (unreachable_exit e)
     | Inr doc \<Rightarrow>
        (case follow_step doc run_id (fst st) (snd st) of
           FollowRunning _ \<Rightarrow> Inr (None, 0)
         | FollowWaiting \<Rightarrow> Inr (Some (some_or (bd_generated_at doc) (fst st)), snd st + 2)
         | FollowFinished run \<Rightarrow> Inl (exit_of (card_complete run))
         | FollowLost \<Rightarrow> Inl 1))"

text \<open>The loop over the answers as they come: the exit code, or the follower that still watches.\<close>

fun follow_run :: "i64 option \<Rightarrow> follower \<Rightarrow> (string + BenchDoc) list \<Rightarrow> nat + follower" where
  "follow_run run_id st [] = Inr st"
| "follow_run run_id st (a # as) =
    (case follow_turn run_id st a of Inl code \<Rightarrow> Inl code | Inr st1 \<Rightarrow> follow_run run_id st1 as)"

definition follow_bench :: "i64 option \<Rightarrow> (string + BenchDoc) list \<Rightarrow> nat + follower" where
  "follow_bench run_id answers = follow_run run_id (None, 0) answers"

section \<open>The answer to a start\<close>

record BenchStarted =
  bs_ok :: bool
  bs_run_id :: "i64 option"
  bs_message :: string
  bs_under_load :: bool

definition BODY_EXCERPT_CHARS :: usize where "BODY_EXCERPT_CHARS = 400"

definition UNDER_LOAD_IGNORED :: string where
  "UNDER_LOAD_IGNORED = ''lss: this collector is OLDER than --under-load and ignored it. It did not skip the idle gate, and it will abort the run at the first request from anyone else - which is exactly what --under-load exists to prevent. Install a matching lss-collector on the server and restart it, then run this again. (`lss` and `lss-collector` are two binaries: updating one does not update the other.)''"

definition trim_end :: "string \<Rightarrow> string" where "trim_end s = trim_end_by is_ws s"

text \<open>
  What goes to stdout, to stderr, and the exit code (\<open>None\<close>: the run is followed). The two error
  documents \<open>serde_json\<close> writes are the constructors of \<open>Printed\<close>.
\<close>

datatype 'v Printed = PText string | PNotJson string nat string | PTooOld string 'v

definition bench_start_result ::
  "'v Json \<Rightarrow> 'v \<Rightarrow> bool \<Rightarrow> string \<Rightarrow> bool \<Rightarrow> nat \<Rightarrow> string \<Rightarrow> BenchStarted \<Rightarrow> 'v Printed \<times> string \<times> nat option" where
  "bench_start_result J null json word asked_under_load code text answer =
    (let parsed = js_parse J text;
         is_object = (case parsed of Inl _ \<Rightarrow> False | Inr v \<Rightarrow> js_obj J v \<noteq> None)
     in if \<not> is_object then
          (let ex = concat (take BODY_EXCERPT_CHARS (utf8_chars (trim text))) in
           if json then
             (PNotJson (''the '' @ word @ '' request got HTTP '' @ show_nat code @
                '' with a body that is not a bench answer - a proxy or error page between lss and the collector, not the collector itself'')
                code ex, [], Some 2)
           else
             (let one_line = (let l = join '' '' (split_whitespace ex) in if l = [] then ''an empty body'' else l) in
              (PText [], ''lss: the collector did not answer the '' @ word @ '' request with JSON (HTTP '' @ show_nat code @
                 '') - something between lss and the collector replied instead: '' @ one_line, Some 2)))
        else if asked_under_load \<and> word \<noteq> ''cancel'' \<and> \<not> bs_under_load answer then
          (if json then (PTooOld UNDER_LOAD_IGNORED (case parsed of Inl _ \<Rightarrow> null | Inr v \<Rightarrow> v), [], Some 2)
           else (PText (bs_message answer), UNDER_LOAD_IGNORED, Some 2))
        else if json then (PText (trim_end text), [], Some (exit_of (bs_ok answer)))
        else (PText (bs_message answer), [], None))"

text \<open>
  What the lemmas of the scorecard rest on: the needle's prompt ends and holds the needle at its depth, the
  follower of a run ends once the collector stops saying that it runs and never before the run is listed, the
  comparison of two loads is symmetric, and the verdict, the curve and the garbled count are exact.
\<close>

section \<open>The needle's prompt\<close>

lemma needle_at_le: "needle_at tokens depth \<le> target_chars tokens"
proof -
  have "(target_chars tokens * min depth 100) mod 2 ^ 64 \<le> target_chars tokens * 100"
    by (rule order_trans [OF mod_less_eq_dividend]) simp
  then show ?thesis unfolding needle_at_def using div_le_mono [of _ "target_chars tokens * 100" 100] by simp
qed

text \<open>The text before the needle: the introduction, or notes of which all but the last end before the depth.\<close>

definition reaches :: "usize \<Rightarrow> string \<Rightarrow> bool" where
  "reaches depth pre \<longleftrightarrow> pre = PROMPT_INTRO \<or> (\<exists>p i. pre = p @ note_line i \<and> length p < depth)"

definition prompt_ok :: "usize \<Rightarrow> PromptState \<Rightarrow> bool" where
  "prompt_ok depth s \<longleftrightarrow>
     (if ps_placed s
      then \<exists>pre post. ps_out s = pre @ NEEDLE @ post \<and> depth \<le> length pre \<and> reaches depth pre
      else reaches depth (ps_out s))"

lemma prompt_ok_start: "prompt_ok depth prompt_start"
  by (simp add: prompt_ok_def prompt_start_def reaches_def)

lemma prompt_ok_place:
  "prompt_ok depth s \<Longrightarrow> \<not> ps_placed s \<Longrightarrow> depth \<le> length (ps_out s) \<Longrightarrow> prompt_ok depth (place_needle s)"
  by (auto simp: prompt_ok_def place_needle_def)

lemma prompt_ok_note:
  assumes "prompt_ok depth s" "ps_placed s \<or> length (ps_out s) < depth"
  shows "prompt_ok depth (add_note s)"
proof (cases "ps_placed s")
  case True
  then obtain pre post where "ps_out s = pre @ NEEDLE @ post" "depth \<le> length pre" "reaches depth pre"
    using assms(1) by (auto simp: prompt_ok_def)
  then have "ps_out (add_note s) = pre @ NEEDLE @ (post @ note_line (ps_i s)) \<and> depth \<le> length pre \<and> reaches depth pre"
    by (simp add: add_note_def)
  then show ?thesis using True unfolding prompt_ok_def by (auto simp: add_note_def)
next
  case False
  then have "reaches depth (ps_out (add_note s))"
    using assms(2) by (auto simp: reaches_def add_note_def)
  then show ?thesis using False by (simp add: prompt_ok_def add_note_def)
qed

lemma prompt_ok_step:
  assumes "prompt_ok depth s"
  shows "prompt_ok depth (prompt_step depth s)"
proof (cases "\<not> ps_placed s \<and> depth \<le> length (ps_out s)")
  case True
  then have "prompt_ok depth (place_needle s)" using assms prompt_ok_place by blast
  moreover have "ps_placed (place_needle s)" by (simp add: place_needle_def)
  ultimately show ?thesis using True prompt_ok_note by (simp add: prompt_step_def)
next
  case False
  then show ?thesis using assms prompt_ok_note by (auto simp: prompt_step_def)
qed

lemma prompt_step_grows: "length (ps_out s) < length (ps_out (prompt_step depth s))"
  by (simp add: prompt_step_def add_note_def place_needle_def note_line_def)

lemma prompt_loop_ends:
  "\<exists>s. prompt_loop target depth prompt_start = Some s \<and> target \<le> length (ps_out s) \<and> prompt_ok depth s"
proof -
  have "\<exists>s. prompt_loop target depth prompt_start = Some s"
    unfolding prompt_loop_def
    by (rule measure_while_option_Some [where P = "\<lambda>_. True" and f = "\<lambda>s. target - length (ps_out s)"])
      (use prompt_step_grows in \<open>auto intro: diff_less_mono2\<close>)
  then obtain s where s: "prompt_loop target depth prompt_start = Some s" by blast
  then have "\<not> length (ps_out s) < target"
    unfolding prompt_loop_def by (rule while_option_stop)
  moreover have "prompt_ok depth s"
    using s unfolding prompt_loop_def
    by (rule while_option_rule [rotated]) (auto intro: prompt_ok_step prompt_ok_start)
  ultimately show ?thesis using s by auto
qed

lemma needle_prompt_shape:
  "\<exists>pre post. needle_prompt tokens depth = Some (pre @ NEEDLE @ post) \<and>
     needle_at tokens depth \<le> length pre \<and> reaches (needle_at tokens depth) pre"
proof -
  let ?d = "needle_at tokens depth"
  obtain s where s: "prompt_loop (target_chars tokens) ?d prompt_start = Some s"
      "target_chars tokens \<le> length (ps_out s)" "prompt_ok ?d s"
    using prompt_loop_ends by blast
  let ?t = "if ps_placed s then s else place_needle s"
  have long: "?d \<le> length (ps_out s)" using s(2) needle_at_le order_trans by blast
  have "prompt_ok ?d ?t" "ps_placed ?t"
    using s(3) long prompt_ok_place [of ?d s] by (auto simp: place_needle_def)
  then obtain pre post where "ps_out ?t = pre @ NEEDLE @ post" "?d \<le> length pre" "reaches ?d pre"
    unfolding prompt_ok_def by auto
  then show ?thesis
    using s(1) by (intro exI [of _ pre] exI [of _ "post @ PROMPT_QUESTION"]) (simp add: needle_prompt_def)
qed

section \<open>Following a run\<close>

definition says_running :: "string + BenchDoc \<Rightarrow> bool" where
  "says_running a = (case a of Inl _ \<Rightarrow> False | Inr d \<Rightarrow> bb_state (bd_brief d) = ''running'')"

lemma follow_turn_quiet:
  assumes "\<not> says_running a" "follow_turn run_id st a = Inr st1"
  shows "snd st1 = snd st + 2 \<and> snd st < FOLLOW_GRACE_SECS"
  using assms by (auto simp: says_running_def follow_turn_def follow_step_def Let_def
      split: sum.splits option.splits if_splits)

lemma follow_run_quiet:
  assumes "list_all (\<lambda>a. \<not> says_running a) answers" "follow_run run_id st answers = Inr st1"
  shows "snd st1 = snd st + 2 * int (length answers) \<and> (answers \<noteq> [] \<longrightarrow> snd st1 < FOLLOW_GRACE_SECS + 2)"
  using assms
proof (induction answers arbitrary: st)
  case (Cons a as)
  then obtain st2 where st2: "follow_turn run_id st a = Inr st2" "follow_run run_id st2 as = Inr st1"
    by (auto split: sum.splits)
  then have "snd st2 = snd st + 2 \<and> snd st < FOLLOW_GRACE_SECS"
    using follow_turn_quiet [OF _ st2(1)] Cons.prems(1) by simp
  then show ?case using Cons.IH [OF _ st2(2)] Cons.prems(1) st2(2) by (cases as) auto
qed simp

lemma follow_run_gives_up:
  assumes "list_all (\<lambda>a. \<not> says_running a) answers" "0 \<le> snd st" "61 \<le> length answers"
  shows "\<exists>code. follow_run run_id st answers = Inl code"
proof (cases "follow_run run_id st answers")
  case (Inr st1)
  then have "snd st1 = snd st + 2 * int (length answers) \<and> snd st1 < 122"
    using follow_run_quiet [OF assms(1) Inr] assms(3) by (auto simp: FOLLOW_GRACE_SECS_def)
  then show ?thesis using assms(2,3) by simp
qed simp

text \<open>Where a zero exit comes from, and what a stale document does.\<close>

definition lists_run :: "i64 option \<Rightarrow> string + BenchDoc \<Rightarrow> Scorecard \<Rightarrow> bool" where
  "lists_run run_id a run \<longleftrightarrow>
     (case a of Inl _ \<Rightarrow> False
      | Inr d \<Rightarrow> \<not> says_running a \<and> run \<in> set (bd_runs d) \<and> Some (sc_run_id run) = run_id)"

lemma follow_turn_done:
  "follow_turn run_id st a = Inl 0 \<Longrightarrow> \<exists>run. lists_run run_id a run \<and> card_complete run"
  by (auto simp: follow_turn_def follow_step_def lists_run_def says_running_def exit_of_def unreachable_exit_def
      find_Some_iff in_set_conv_nth split: sum.splits Follow.splits option.splits if_splits)

lemma follow_run_done:
  "follow_run run_id st answers = Inl 0 \<Longrightarrow> \<exists>a \<in> set answers. \<exists>run. lists_run run_id a run \<and> card_complete run"
  by (induction answers arbitrary: st) (auto split: sum.splits dest: follow_turn_done)

text \<open>Rendered at or before \<open>g\<close>, idle and without the run: the document a collector still shows at first.\<close>

definition stale :: "i64 option \<Rightarrow> i64 \<Rightarrow> string + BenchDoc \<Rightarrow> bool" where
  "stale run_id g a =
    (case a of Inl _ \<Rightarrow> False
     | Inr d \<Rightarrow> \<not> says_running a \<and> bd_generated_at d = g \<and> (\<forall>r \<in> set (bd_runs d). Some (sc_run_id r) \<noteq> run_id))"

lemma follow_turn_stale:
  assumes "stale run_id g a" "snd st < FOLLOW_GRACE_SECS" "fst st = None \<or> fst st = Some g"
  shows "follow_turn run_id st a = Inr (Some g, snd st + 2)"
proof -
  obtain d where d: "a = Inr d" "bb_state (bd_brief d) \<noteq> ''running''" "bd_generated_at d = g"
      "find (\<lambda>r. Some (sc_run_id r) = run_id) (bd_runs d) = None"
    using assms(1) by (auto simp: stale_def says_running_def find_None_iff split: sum.splits)
  then show ?thesis
    using assms(2,3) by (auto simp: follow_turn_def follow_step_def some_or_def not_le)
qed

lemma follow_run_stale:
  assumes "list_all (stale run_id g) answers" "snd st + 2 * int (length answers) \<le> FOLLOW_GRACE_SECS"
    "fst st = None \<or> fst st = Some g"
  shows "\<exists>st1. follow_run run_id st (answers @ rest) = follow_run run_id st1 rest \<and>
    (fst st1 = None \<or> fst st1 = Some g)"
  using assms
proof (induction answers arbitrary: st)
  case (Cons a as)
  have "follow_turn run_id st a = Inr (Some g, snd st + 2)"
    using Cons.prems by (intro follow_turn_stale) (auto simp: FOLLOW_GRACE_SECS_def)
  then show ?case using Cons.IH [of "(Some g, snd st + 2)"] Cons.prems by auto
qed auto

lemma follow_run_running:
  "list_all says_running answers \<Longrightarrow> answers \<noteq> [] \<Longrightarrow>
   follow_run run_id st (answers @ rest) = follow_run run_id (None, 0) rest"
proof (induction answers arbitrary: st)
  case (Cons a as)
  have "follow_turn run_id st a = Inr (None, 0)"
    using Cons.prems(1) by (auto simp: says_running_def follow_turn_def follow_step_def split: sum.splits)
  then show ?case using Cons by (cases as) auto
qed simp

lemma follow_turn_listed:
  assumes "\<not> says_running (Inr d)" "find (\<lambda>r. Some (sc_run_id r) = run_id) (bd_runs d) = Some run"
  shows "follow_turn run_id st (Inr d) = Inl (exit_of (card_complete run))"
  using assms by (simp add: says_running_def follow_turn_def follow_step_def)

lemma follow_run_whole:
  assumes "list_all (stale run_id g) early" "length early \<le> 60" "list_all says_running ups" "ups \<noteq> [] \<or> early = []"
    "list_all (stale run_id h) late" "length late \<le> 60"
    "\<not> says_running (Inr d)" "find (\<lambda>r. Some (sc_run_id r) = run_id) (bd_runs d) = Some run"
  shows "follow_bench run_id (early @ ups @ late @ [Inr d]) = Inl (exit_of (card_complete run))"
proof -
  obtain st1 where e: "follow_bench run_id (early @ ups @ late @ [Inr d]) = follow_run run_id st1 (ups @ late @ [Inr d])"
      "early = [] \<longrightarrow> st1 = (None, 0)"
    using follow_run_stale [OF assms(1), of "(None, 0)" "ups @ late @ [Inr d]"] assms(2)
    by (cases "early = []") (auto simp: follow_bench_def FOLLOW_GRACE_SECS_def)
  have "follow_run run_id st1 (ups @ late @ [Inr d]) = follow_run run_id (None, 0) (late @ [Inr d])"
    using follow_run_running [OF assms(3)] assms(4) e(2) by (cases "ups = []") auto
  moreover obtain st2 where "follow_run run_id (None, 0) (late @ [Inr d]) = follow_run run_id st2 [Inr d]"
    using follow_run_stale [OF assms(5), of "(None, 0)" "[Inr d]"] assms(6)
    by (auto simp: FOLLOW_GRACE_SECS_def)
  ultimately show ?thesis using e(1) follow_turn_listed [OF assms(7,8)] by simp
qed

section \<open>Comparable loads\<close>

lemma f_abs_neg: "f_abs (f_neg a) = f_abs a"
  by (cases a) (auto simp: f_abs_def)

lemma rnd_swap: "f_abs (rnd (r - s)) = f_abs (rnd (s - r))"
  using rnd_minus [of "s - r"] f_abs_neg by (cases "r = s") auto

lemma engine_share_range: "\<exists>s. engine_share n = F_Fin s \<and> 0 \<le> s \<and> s \<le> 1 \<and> (f_ge n (F_Fin 1) \<longrightarrow> s \<le> 1 / 2)"
proof -
  define m where "m = f_max n (F_Fin 0)"
  have m0: "f_le (F_Fin 0) m" unfolding m_def by (rule f_max_nonneg)
  have m1: "f_le (F_Fin 1) m" if "f_ge n (F_Fin 1)"
    using that f_le_trans [OF that f_max_ge1 [of n "F_Fin 0"]] f_not_nan_le [OF that] by (simp add: m_def)
  have sum1: "f_le (F_Fin 1) (f_add (F_Fin 1) m)"
  proof (cases m)
    case (F_Fin r)
    then show ?thesis using rnd_mono [of 1 "1 + r"] m0 by (simp add: f_add_def)
  next
    case (F_Inf b)
    then show ?thesis using m0 by (cases b) (auto simp: f_add_def f_le_def)
  qed (use m0 in \<open>auto simp: f_add_def f_le_def\<close>)
  have share: "engine_share n = f_div (F_Fin 1) (f_add (F_Fin 1) m)" by (simp add: engine_share_def m_def)
  show ?thesis
  proof (cases "f_add (F_Fin 1) m")
    case (F_Fin d)
    have fin: "is_finite m" using F_Fin by (cases m) (auto simp: f_add_def)
    then have d: "rnd (1 + rat_of m) = F_Fin d" using F_Fin m0 by (auto simp: f_add_def f_le_def)
    have r0: "0 \<le> rat_of m" using m0 fin by (cases m) (auto simp: f_le_def)
    have d1: "1 \<le> d" using rnd_mono [of 1 "1 + rat_of m"] d r0 by simp
    have half: "rnd (1 / 2) = F_Fin (1 / 2)" by (rule rnd_grid_pos [where n = 1 and e = "- 1"]) simp_all
    have two: "rnd 2 = F_Fin 2" using rnd_numeral [of "num.Bit0 num.One"] by simp
    obtain s where s: "rnd (1 / d) = F_Fin s" "0 \<le> s" "s \<le> 1"
      using rnd_between_Fin [of "1 / d" 1] d1 by auto
    have "s \<le> 1 / 2" if "f_ge n (F_Fin 1)"
    proof -
      have "1 \<le> rat_of m" using m1 [OF that] fin by (cases m) (auto simp: f_le_def)
      then have "2 \<le> d" using rnd_mono [of 2 "1 + rat_of m"] d two by simp
      then have "1 / d \<le> 1 / 2" by (simp add: field_simps)
      then show ?thesis using rnd_mono [of "1 / d" "1 / 2"] s(1) half by simp
    qed
    moreover have "engine_share n = rnd (1 / d)" using share F_Fin d1 by (simp add: f_div_def)
    ultimately show ?thesis using s by auto
  next
    case (F_Inf b)
    then have "\<not> b" using sum1 by (auto simp: f_le_def)
    then show ?thesis using share F_Inf by (auto simp: f_div_def f_zero_def)
  qed (use sum1 in \<open>auto simp: f_le_def\<close>)
qed

lemma share_gap_swap: "share_gap a b = share_gap b a"
proof -
  obtain r s where "engine_share a = F_Fin r" "engine_share b = F_Fin s" using engine_share_range by metis
  then show ?thesis using rnd_swap [of r s] by (auto simp: share_gap_def f_sub_def f_add_def f_max_def Let_def)
qed

lemma rnd_half_power:
  "1 \<le> k \<Longrightarrow> k \<le> 50 \<Longrightarrow> rnd (2 powi (- k)) = F_Fin (2 powi (- k))"
  by (rule rnd_grid_pos [where n = 1 and e = "- k"]) (auto intro: less_le_trans [OF pow2_less_iff [THEN iffD2, of "- k" 0]])

lemma noise_edge: "\<exists>e. NOISE_EDGE = F_Fin e \<and> 0 \<le> e \<and> e \<le> 1 / 4"
proof -
  have p5: "(2::rat) powi (- 3) = 1 / 8" and p2: "(2::rat) powi (- 2) = 1 / 4" by (simp_all add: power_int_minus)
  have e8: "rnd (1 / 8) = F_Fin (1 / 8)" and e4: "rnd (1 / 4) = F_Fin (1 / 4)"
    using rnd_half_power [of 3] rnd_half_power [of 2] p5 p2 by simp_all
  obtain a where a: "rnd (3 / 100) = F_Fin a" "0 \<le> a" "a \<le> 1 / 8" using rnd_between_Fin [OF _ _ e8, of "3 / 100"] by auto
  obtain b where b: "rnd (1 / 10 ^ 12) = F_Fin b" "0 \<le> b" "b \<le> 1 / 8"
    using rnd_between_Fin [OF _ _ e8, of "1 / 10 ^ 12"] by auto
  have "0 \<le> a + b" "a + b \<le> 1 / 4" using a b by linarith+
  from rnd_between_Fin [OF this e4] show ?thesis
    unfolding NOISE_EDGE_def NOISE_def f_lit_def a(1) b(1) f_add_Fin by blast
qed

text \<open>The same load is no gap; a quiet server and one steady other user are.\<close>

lemma share_gap_same: "\<not> f_gt (share_gap n n) NOISE_EDGE"
proof -
  obtain e where e: "NOISE_EDGE = F_Fin e" "0 \<le> e" using noise_edge by blast
  obtain r where r: "engine_share n = F_Fin r" using engine_share_range by blast
  have gap: "share_gap n n = F_NaN \<or> f_abs (share_gap n n) = F_Fin 0 \<and> \<not> is_nan (share_gap n n)"
    by (simp add: share_gap_def r f_sub_Fin f_max_def f_abs_def f_div_def f_zero_def Let_def)
  then show ?thesis unfolding e(1) using e(2) by (cases "share_gap n n") (auto simp: f_lt_def f_abs_def split: if_splits)
qed

lemma share_gap_quiet_busy:
  assumes "f_ge n (F_Fin 1)"
  shows "f_gt (share_gap (F_Fin 0) n) NOISE_EDGE"
proof -
  obtain e where e: "NOISE_EDGE = F_Fin e" "e \<le> 1 / 4" using noise_edge by blast
  obtain s where s: "engine_share n = F_Fin s" "0 \<le> s" "s \<le> 1 / 2" using engine_share_range [of n] assms by blast
  have one: "engine_share (F_Fin 0) = F_Fin 1"
    by (simp add: engine_share_def f_max_def f_add_def f_div_def)
  have half: "rnd (1 / 2) = F_Fin (1 / 2)" by (rule rnd_grid_pos [where n = 1 and e = "- 1"]) simp_all
  obtain d where d: "rnd (1 - s) = F_Fin d" "d \<le> 1"
    using rnd_between_Fin [of "1 - s" 1] s by auto
  have "1 / 2 \<le> d" using rnd_mono [of "1 / 2" "1 - s"] s d half by simp
  moreover have "share_gap (F_Fin 0) n = rnd d"
    using one s d calculation by (simp add: share_gap_def f_sub_Fin f_max_def f_abs_def f_div_def)
  moreover have "f_le (rnd (1 / 2)) (rnd d)" using calculation(1) by (rule rnd_mono)
  ultimately have "f_le (F_Fin (1 / 2)) (share_gap (F_Fin 0) n)" using half by simp
  moreover have "f_lt NOISE_EDGE (F_Fin (1 / 2))" unfolding e(1) using e(2) by simp
  ultimately show ?thesis using f_lt_le_trans by blast
qed

lemma load_gap_none:
  "load_gap a b = None \<longleftrightarrow>
    card_load_class a \<noteq> LC_Unknown \<and> card_load_class b \<noteq> LC_Unknown \<and>
    (\<exists>na nb. Option.bind (sc_background a) bl_concurrent_avg = Some na \<and>
       Option.bind (sc_background b) bl_concurrent_avg = Some nb \<and> \<not> f_gt (share_gap na nb) NOISE_EDGE)"
  by (auto simp: load_gap_def Let_def split: option.splits)

section \<open>The verdict\<close>

lemma run_verdict_ok:
  "run_verdict status failed True = ''OK'' \<longleftrightarrow> map to_upper status = ''OK'' \<and> (status \<noteq> ''ok'' \<or> failed = [])"
proof (cases "status \<noteq> ''ok'' \<or> failed = []")
  case False
  then have "length (run_verdict status failed True) \<noteq> length ''OK''" by (simp add: run_verdict_def Let_def)
  then have "run_verdict status failed True \<noteq> ''OK''" by metis
  then show ?thesis using False by simp
qed (auto simp: run_verdict_def)

lemma failed_checks_empty:
  "failed_checks s = [] \<longleftrightarrow> list_all ck_pass (sc_sanity s) \<and> list_all nd_pass (sc_needle s)"
  by (auto simp: failed_checks_def list_all_iff filter_empty_conv)

section \<open>The curve with the bench over it\<close>

abbreviation levels :: "CurveRow list \<Rightarrow> nat list" where "levels rows \<equiv> map cr_running rows"

lemma set_push_new: "set (push_new out b) = (if cr_running b \<in> set (levels out) then set out else insert b (set out))"
proof -
  have "(\<exists>r \<in> set out. cr_running r = cr_running b) \<longleftrightarrow> cr_running b \<in> set (levels out)"
    unfolding set_map image_iff by metis
  then show ?thesis by (simp add: push_new_def)
qed

lemma levels_push_new: "set (levels (push_new out b)) = insert (cr_running b) (set (levels out))"
  unfolding set_map set_push_new by auto

lemma in_foldl_push:
  "r \<in> set (foldl push_new out over) \<longleftrightarrow>
    r \<in> set out \<or> cr_running r \<notin> set (levels out) \<and> find (\<lambda>b. cr_running b = cr_running r) over = Some r"
proof (induction over arbitrary: out)
  case (Cons b over)
  show ?case
  proof (cases "cr_running b = cr_running r")
    case True
    then show ?thesis
      unfolding foldl_Cons Cons.IH levels_push_new set_push_new by (auto simp: image_iff)
  next
    case False
    then show ?thesis
      unfolding foldl_Cons Cons.IH levels_push_new set_push_new by (auto simp: image_iff)
  qed
qed simp

lemma levels_foldl_push: "set (levels (foldl push_new out over)) = set (levels out) \<union> set (levels over)"
proof (induction over arbitrary: out)
  case (Cons b over)
  then show ?case unfolding foldl_Cons Cons.IH levels_push_new by auto
qed simp

lemma distinct_push: "distinct (levels out) \<Longrightarrow> distinct (levels (push_new out b))"
  by (auto simp: push_new_def image_iff)

lemma distinct_foldl_push: "distinct (levels out) \<Longrightarrow> distinct (levels (foldl push_new out over))"
  by (induction over arbitrary: out) (simp_all add: distinct_push)

lemma lay_over_level [simp]: "cr_running (lay_over over l) = cr_running l"
  by (auto simp: lay_over_def find_Some_iff split: option.split)

lemma levels_lay_over [simp]: "levels (map (lay_over over) live) = levels live"
  by (induction live) simp_all

lemma find_curve_rows: "find (\<lambda>b. cr_running b = n) (card_curve_rows s) = map_option decode_row (card_cell s n 0)"
proof -
  have "find (\<lambda>b. cr_running b = n) (map decode_row (filter (\<lambda>c. dc_context c = 0) cs)) =
    map_option decode_row (find (\<lambda>c. dc_concurrency c = n \<and> dc_context c = 0) cs)" for cs
    by (induction cs) (simp_all add: decode_row_def)
  then show ?thesis by (simp add: card_curve_rows_def card_cell_def)
qed

definition bench_speeds :: "CurveRow \<Rightarrow> DecodeCell \<Rightarrow> bool" where
  "bench_speeds r c \<longleftrightarrow> cr_source r = ''bench'' \<and> cr_tok_s r = Some (dc_total_tok_s c) \<and>
     cr_per_request_tok_s r = Some (dc_per_user_tok_s c) \<and> cr_ttft_ms r = dc_ttft_ms c"

lemma merge_curve_rows:
  assumes "r \<in> set (merge_curve live (Some s))"
  shows "case card_cell s (cr_running r) 0 of Some c \<Rightarrow> bench_speeds r c | None \<Rightarrow> r \<in> set live"
proof -
  let ?over = "card_curve_rows s"
  consider (kept) l where "l \<in> set live" "r = lay_over ?over l"
    | (pushed) "find (\<lambda>b. cr_running b = cr_running r) ?over = Some r"
    using assms by (auto simp: merge_curve_def Let_def in_foldl_push)
  then show ?thesis
  proof cases
    case kept
    then have lv: "cr_running r = cr_running l" by simp
    show ?thesis
    proof (cases "card_cell s (cr_running l) 0")
      case None
      then show ?thesis using kept lv by (simp add: lay_over_def find_curve_rows)
    next
      case (Some c)
      then show ?thesis unfolding lv using kept(2) by (simp add: lay_over_def find_curve_rows bench_speeds_def decode_row_def)
    qed
  next
    case pushed
    then show ?thesis by (auto simp: find_curve_rows bench_speeds_def decode_row_def split: option.split)
  qed
qed

lemma merge_curve_levels:
  "sorted (levels (merge_curve live bench))"
  "set (levels (merge_curve live bench)) =
     set (levels live) \<union> (case bench of None \<Rightarrow> {} | Some s \<Rightarrow> set (levels (card_curve_rows s)))"
  "distinct (levels live) \<Longrightarrow> distinct (levels (merge_curve live bench))"
proof -
  show "sorted (levels (merge_curve live bench))" by (simp add: merge_curve_def Let_def)
  show "set (levels (merge_curve live bench)) =
     set (levels live) \<union> (case bench of None \<Rightarrow> {} | Some s \<Rightarrow> set (levels (card_curve_rows s)))"
    using levels_foldl_push [of "map (lay_over over) live" over for over]
    by (simp add: merge_curve_def Let_def image_image split: option.split)
  show "distinct (levels live) \<Longrightarrow> distinct (levels (merge_curve live bench))"
    using distinct_foldl_push [of "map (lay_over over) live" for over]
    by (simp add: merge_curve_def Let_def distinct_map comp_def)
qed

section \<open>Garbled output\<close>

lemma garbled_fold:
  "gb_chars (foldl garbled_char g cs) = gb_chars g + length cs \<and>
   gb_replacement_chars (foldl garbled_char g cs) = gb_replacement_chars g + length (filter (\<lambda>c. c = 0xFFFD) cs) \<and>
   gb_cjk_chars (foldl garbled_char g cs) = gb_cjk_chars g + length (filter is_cjk cs)"
  by (induction cs arbitrary: g) (auto simp: garbled_char_def)

definition text_codes :: "string list \<Rightarrow> nat list" where
  "text_codes texts = concat (map (\<lambda>t. map char_code (utf8_chars t)) texts)"

lemma foldl_texts:
  "foldl (\<lambda>g t. foldl garbled_char g (map char_code (utf8_chars t))) g texts = foldl garbled_char g (text_codes texts)"
  by (induction texts arbitrary: g) (simp_all add: text_codes_def)

lemma scan_garbled_counts:
  "scan_garbled texts =
    (let codes = text_codes texts; bad = length (filter (\<lambda>c. c = 0xFFFD) codes); cjk = length (filter is_cjk codes)
     in if codes = [] then None
        else Some \<lparr>gb_chars = length codes, gb_replacement_chars = bad, gb_cjk_chars = cjk,
          gb_per_100k = f_div (f_round (f_mul (f_mul (f_div (f_of_nat (bad + cjk)) (f_of_nat (length codes)))
            (F_Fin 100000)) (F_Fin 10))) (F_Fin 10)\<rparr>)"
proof -
  let ?g = "foldl garbled_char \<lparr>gb_chars = 0, gb_replacement_chars = 0, gb_cjk_chars = 0, gb_per_100k = F_Fin 0\<rparr> (text_codes texts)"
  have "gb_chars ?g = length (text_codes texts)"
    "gb_replacement_chars ?g = length (filter (\<lambda>c. c = 0xFFFD) (text_codes texts))"
    "gb_cjk_chars ?g = length (filter is_cjk (text_codes texts))"
    using garbled_fold by simp_all
  then show ?thesis by (cases ?g) (simp add: scan_garbled_def foldl_texts Let_def)
qed

section \<open>Graded answers\<close>

lemma grade_needle_pass:
  "nd_pass (grade_needle J d status response secs) \<longleftrightarrow>
    http_ok status \<and> contains (answer_text J response) NEEDLE_CODE"
  by (simp add: grade_needle_def Let_def)

lemma grade_sanity_http: "ck_pass (grade_sanity J name status response) \<Longrightarrow> http_ok status"
  by (auto simp: grade_sanity_def check_fail_def split: if_splits)

end
