(* ===== verification/Compare.thy ===== *)
theory Compare
  imports BenchDocs LoadoutRow Headroom
begin

text \<open>
  \<open>crates/lss-core/src/compare.rs\<close>: every loadout with its scorecards, the selectors that name one, and two of
  them side by side. Like is only compared with like, and a difference within the noise band is none.
\<close>

section \<open>A loadout with its scorecards\<close>

record LoadoutCard =
  lc_row :: LoadoutRow
  lc_quick :: "Scorecard option"
  lc_full :: "Scorecard option"
  lc_accuracy :: "Scorecard list"
  lc_last_quick_at :: "i64 option"
  lc_last_full_at :: "i64 option"
  lc_last_accuracy_at :: "i64 option"
  lc_headroom :: "Headroom option"

definition empty_ctx_rows :: "CtxRow list" where
  "empty_ctx_rows = map (\<lambda>(b, ctx, _). \<lparr>cx_bucket = b, cx_context_tokens = ctx, cx_tok_s = None,
     cx_samples = 0, cx_source = ''live''\<rparr>) CTX_BUCKETS"

definition cards_of :: "Scorecard option list \<Rightarrow> Scorecard list" where
  "cards_of xs = List.map_filter id xs"

definition context_cell :: "Scorecard \<Rightarrow> string \<Rightarrow> DecodeCell option" where
  "context_cell s bucket = find (\<lambda>c. dc_concurrency c = 1 \<and> ctx_bucket (f_of_nat (dc_context c)) = bucket \<and>
     positive (dc_per_user_tok_s c) \<and> dc_errors c = 0) (sc_decode s)"

definition over_context :: "LoadoutCard \<Rightarrow> CtxRow \<Rightarrow> CtxRow" where
  "over_context c r =
    (case first_of (List.map_filter (\<lambda>s. context_cell s (cx_bucket r)) (cards_of [lc_full c, lc_quick c])) of
       Some cell \<Rightarrow> r\<lparr>cx_tok_s := Some (dc_per_user_tok_s cell), cx_source := ''bench''\<rparr>
     | None \<Rightarrow> r)"

definition long_context :: "LoadoutCard \<Rightarrow> CtxRow list" where
  "long_context c =
    map (over_context c)
      (if lr_long_context (lc_row c) = [] then empty_ctx_rows else lr_long_context (lc_row c))"

definition card_speed :: "LoadoutCard \<Rightarrow> Scorecard option" where
  "card_speed c = or_else (lc_full c) (lc_quick c)"

definition estimate_headroom :: "LoadoutCard \<Rightarrow> f64 \<Rightarrow> Headroom" where
  "estimate_headroom c min_tok_s_per_user =
    (let curve = merge_curve (lr_curve (lc_row c)) (card_speed c)
     in headroom_estimate \<lparr>hi_slots = lr_slots (lc_row c), hi_curve = curve, hi_live = lr_curve (lc_row c),
          hi_kv_peak = lr_kv_peak (lc_row c),
          hi_saturation = Some (saturation_of curve (lr_peak_tok_s (lc_row c))),
          hi_min_tok_s_per_user = min_tok_s_per_user\<rparr>)"

text \<open>\<open>n as u32\<close> keeps the low 32 bits.\<close>

definition loadout_headline :: "LoadoutCard \<Rightarrow> Headline" where
  "loadout_headline c =
    (let h = (case card_speed c of None \<Rightarrow> headline_default | Some s \<Rightarrow> card_headline s);
         r = lc_row c;
         h1 = h\<lparr>hl_c1_tok_s := or_else (hl_c1_tok_s h) (lr_c1_tok_s r),
                hl_ttft_c1_ms := or_else (hl_ttft_c1_ms h) (lr_ttft_p50_ms r)\<rparr>;
         h2 = (if hl_max_total_tok_s h1 = None
               then h1\<lparr>hl_max_total_tok_s := lr_peak_tok_s r,
                       hl_max_total_at := map_option (\<lambda>n. n mod 2 ^ 32) (lr_peak_at_running r)\<rparr>
               else h1);
         h3 = h2\<lparr>hl_prefill_8k_tok_s := or_else (hl_prefill_8k_tok_s h2) (lr_prefill_tok_s r)\<rparr>
     in case Option.bind (first_of (lc_accuracy c)) (\<lambda>s. first_of (sc_accuracy s)) of
          Some a \<Rightarrow> h3\<lparr>hl_accuracy := Some (ac_score a), hl_accuracy_dataset := Some (ac_dataset a)\<rparr>
        | None \<Rightarrow> h3)"

section \<open>Naming a loadout\<close>

definition ok_or :: "'a option \<Rightarrow> string \<Rightarrow> string + 'a" where
  "ok_or x e = (case x of None \<Rightarrow> Inl e | Some v \<Rightarrow> Inr v)"

definition newest_first :: "LoadoutCard list \<Rightarrow> LoadoutCard list" where
  "newest_first cards = sort_key (\<lambda>c. - lr_last_seen (lc_row c)) cards"

definition total_or0 :: "LoadoutCard \<Rightarrow> f64" where
  "total_or0 c = some_or (F_Fin 0) (hl_max_total_tok_s (loadout_headline c))"

definition id_matches :: "string \<Rightarrow> LoadoutCard \<Rightarrow> bool" where
  "id_matches sel c \<longleftrightarrow> 4 \<le> length sel \<and> starts_with (lr_id (lc_row c)) (to_ascii_lowercase sel)"

text \<open>Model names and selectors are ASCII: \<open>to_lowercase\<close> is per character.\<close>

definition resolve_named :: "string \<Rightarrow> LoadoutCard list \<Rightarrow> string + LoadoutCard" where
  "resolve_named sel cards =
    (case filter (id_matches sel) cards of
       [c] \<Rightarrow> Inr c
     | [] \<Rightarrow> ok_or (find (\<lambda>c. starts_with (to_ascii_lowercase (lr_model (lc_row c))) (to_ascii_lowercase sel)) (newest_first cards))
         (''no loadout matches `'' @ sel @ ''`: use current, previous, best, an id or a model name from `lss loadouts`'')
     | by_id \<Rightarrow> Inl (''`'' @ sel @ ''` matches '' @ show_nat (length by_id) @ '' loadout ids ('' @
         join '', '' (map (\<lambda>c. lr_id (lc_row c)) by_id) @ ''): use more characters''))"

definition resolve :: "string \<Rightarrow> LoadoutCard list \<Rightarrow> string + LoadoutCard" where
  "resolve selector cards =
    (let sel = trim selector in
     if cards = [] then Inl ''no loadout on record yet: the collector records one as soon as it sees the serve up''
     else if sel = ''current'' then
       ok_or (find (\<lambda>c. lr_current (lc_row c)) cards)
         ''nothing is serving right now, so there is no `current` loadout (try `previous`, or an id from `lss loadouts`)''
     else if sel = ''previous'' then
       ok_or (find (\<lambda>c. \<not> lr_current (lc_row c)) (newest_first cards))
         ''there is no `previous` loadout yet: only one has ever been seen''
     else if sel = ''best'' then
       ok_or (max_by_f64 total_or0 (filter (\<lambda>c. hl_max_total_tok_s (loadout_headline c) \<noteq> None) cards))
         ''no loadout has a measured total speed yet, so there is no `best`''
     else if sel = [] then Inl ''an empty selector: use current, previous, best, a loadout id or a model name''
     else resolve_named sel cards)"

section \<open>One measurement against another\<close>

datatype Mark = MK_Same | MK_Better | MK_Worse | MK_NoData | MK_Incomparable

definition CATEGORIES :: "(string \<times> string) list" where
  "CATEGORIES = [(''speed_alone'', ''speed alone''), (''speed_under_load'', ''speed under load''),
     (''reading_speed'', ''reading speed''), (''long_context'', ''long context''), (''accuracy'', ''accuracy''),
     (''efficiency'', ''efficiency''), (''reliability'', ''reliability'')]"

record CompareRow =
  cp_category :: string
  cp_label :: string
  cp_unit :: string
  cp_a :: "f64 option"
  cp_b :: "f64 option"
  cp_source :: string
  cp_higher_is_better :: bool
  cp_delta_pct :: "f64 option"
  cp_mark :: Mark

definition better_if :: "bool \<Rightarrow> bool \<Rightarrow> Mark" where
  "better_if up higher_is_better = (if up = higher_is_better then MK_Better else MK_Worse)"

definition judge :: "f64 option \<Rightarrow> f64 option \<Rightarrow> bool \<Rightarrow> f64 option \<times> Mark" where
  "judge oa ob higher_is_better =
    (case (oa, ob) of
       (Some a, Some b) \<Rightarrow>
         if is_finite a \<and> f_eq b (F_Fin 0) then
           (if f_eq a (F_Fin 0) then (Some (F_Fin 0), MK_Same)
            else (None, better_if (f_gt a (F_Fin 0)) higher_is_better))
         else if is_finite a \<and> is_finite b then
           (let delta = f_div (f_sub a b) (f_abs b);
                mark = (if f_le (f_abs delta) NOISE_EDGE then MK_Same
                        else better_if (f_gt delta (F_Fin 0)) higher_is_better)
            in (Some (f_div (f_round (f_mul delta (F_Fin 1000))) (F_Fin 10)), mark))
         else (None, MK_NoData)
     | _ \<Rightarrow> (None, MK_NoData))"

text \<open>The same source on both sides, bench first.\<close>

type_synonym pick = "f64 option \<times> f64 option"

fun pair_of :: "pick \<Rightarrow> pick \<Rightarrow> f64 option \<times> f64 option \<times> string" where
  "pair_of (Some x, _) (Some y, _) = (Some x, Some y, ''bench'')"
| "pair_of (_, Some x) (_, Some y) = (Some x, Some y, ''live'')"
| "pair_of (x, lx) (y, ly) = (or_else x lx, or_else y ly, [])"

definition compare_row :: "string \<Rightarrow> string \<Rightarrow> string \<Rightarrow> bool \<Rightarrow> pick \<Rightarrow> pick \<Rightarrow> CompareRow" where
  "compare_row category label unit higher pa pb =
    (let (va, vb, source) = pair_of pa pb;
         (delta, mark) = (if source = [] then (None, MK_NoData) else judge va vb higher)
     in \<lparr>cp_category = category, cp_label = label, cp_unit = unit, cp_a = va, cp_b = vb, cp_source = source,
         cp_higher_is_better = higher, cp_delta_pct = delta, cp_mark = mark\<rparr>)"

section \<open>Two loadouts side by side\<close>

definition speed_cell :: "u32 \<Rightarrow> u64 \<Rightarrow> LoadoutCard \<Rightarrow> DecodeCell option" where
  "speed_cell concurrency context1 c = Option.bind (card_speed c) (\<lambda>s. card_cell s concurrency context1)"

definition bench_levels :: "LoadoutCard \<Rightarrow> u32 list" where
  "bench_levels c = (case card_speed c of None \<Rightarrow> []
     | Some s \<Rightarrow> map dc_concurrency (filter (\<lambda>d. dc_context d = 0) (sc_decode s)))"

definition top_common_concurrency :: "LoadoutCard \<Rightarrow> LoadoutCard \<Rightarrow> u32 option" where
  "top_common_concurrency a b = max_opt (filter (\<lambda>n. n \<in> set (bench_levels b)) (bench_levels a))"

definition full_prefill :: "u64 \<Rightarrow> LoadoutCard \<Rightarrow> f64 option" where
  "full_prefill tokens c = map_option pf_tok_s (Option.bind (lc_full c) (\<lambda>s. prefill_near s tokens))"

definition speed_prefill :: "u64 \<Rightarrow> LoadoutCard \<Rightarrow> f64 option" where
  "speed_prefill tokens c = map_option pf_tok_s (Option.bind (card_speed c) (\<lambda>s. prefill_near s tokens))"

definition full_alone :: "u64 \<Rightarrow> LoadoutCard \<Rightarrow> f64 option" where
  "full_alone context1 c = map_option dc_per_user_tok_s (Option.bind (lc_full c) (\<lambda>s. card_cell s 1 context1))"

definition needles_found :: "LoadoutCard \<Rightarrow> f64 option" where
  "needles_found c = map_option (\<lambda>s. f_of_nat (length (filter nd_pass (sc_needle s))))
     (keep (\<lambda>s. sc_needle s \<noteq> []) (lc_full c))"

text \<open>A row over the same reading of both sides.\<close>

definition metric_row ::
  "LoadoutCard \<Rightarrow> LoadoutCard \<Rightarrow> string \<Rightarrow> string \<Rightarrow> string \<Rightarrow> bool \<Rightarrow> (LoadoutCard \<Rightarrow> pick) \<Rightarrow> CompareRow" where
  "metric_row a b category label unit higher p = compare_row category label unit higher (p a) (p b)"

definition load_rows :: "LoadoutCard \<Rightarrow> LoadoutCard \<Rightarrow> CompareRow list" where
  "load_rows a b =
    (let m = metric_row a b ''speed_under_load'' in
     m ''best total speed'' ''tok/s'' True
       (\<lambda>c. (Option.bind (card_speed c) (\<lambda>s. hl_max_total_tok_s (card_headline s)), lr_peak_tok_s (lc_row c))) #
     (case top_common_concurrency a b of None \<Rightarrow> []
      | Some n \<Rightarrow>
         [m (''each user, '' @ show_nat n @ '' at once'') ''tok/s'' True (\<lambda>c. (map_option dc_per_user_tok_s (speed_cell n 0 c), None)),
          m (''total, '' @ show_nat n @ '' at once'') ''tok/s'' True (\<lambda>c. (map_option dc_total_tok_s (speed_cell n 0 c), None))]))"

definition dataset_score :: "string \<Rightarrow> LoadoutCard \<Rightarrow> f64 option" where
  "dataset_score d c =
    map_option (\<lambda>x. f_div (f_round (f_mul (ac_score x) (F_Fin 1000))) (F_Fin 10))
      (find (\<lambda>x. ac_dataset x = d) (concat (map sc_accuracy (lc_accuracy c))))"

definition compare_datasets :: "LoadoutCard \<Rightarrow> LoadoutCard \<Rightarrow> string list" where
  "compare_datasets a b =
    remdups_adj (sort (concat (map (\<lambda>s. map ac_dataset (sc_accuracy s)) (lc_accuracy a @ lc_accuracy b))))"

definition accuracy_rows :: "LoadoutCard \<Rightarrow> LoadoutCard \<Rightarrow> CompareRow list" where
  "accuracy_rows a b =
    (let datasets = compare_datasets a b
     in if datasets = [] then [compare_row ''accuracy'' ''accuracy'' ''%'' True (None, None) (None, None)]
        else map (\<lambda>d. metric_row a b ''accuracy'' d ''%'' True (\<lambda>c. (dataset_score d c, None))) datasets)"

definition pct100 :: "f64 option \<Rightarrow> f64 option" where
  "pct100 v = map_option (\<lambda>x. f_div (f_round (f_mul x (F_Fin 1000000))) (F_Fin 10000)) v"

definition compare_rows :: "LoadoutCard \<Rightarrow> LoadoutCard \<Rightarrow> CompareRow list" where
  "compare_rows a b =
    (let m = metric_row a b in
     [m ''speed_alone'' ''one user alone'' ''tok/s'' True
        (\<lambda>c. (map_option dc_per_user_tok_s (speed_cell 1 0 c), lr_c1_tok_s (lc_row c))),
      m ''speed_alone'' ''time to first word'' ''ms'' False
        (\<lambda>c. (Option.bind (speed_cell 1 0 c) dc_ttft_ms, lr_ttft_p50_ms (lc_row c)))] @
     load_rows a b @
     [m ''reading_speed'' ''reading an 8k prompt'' ''tok/s'' True
        (\<lambda>c. (speed_prefill 8192 c, lr_prefill_tok_s (lc_row c))),
      m ''reading_speed'' ''reading a 64k prompt'' ''tok/s'' True (\<lambda>c. (speed_prefill 65536 c, None)),
      m ''long_context'' ''reading a 128k prompt'' ''tok/s'' True (\<lambda>c. (full_prefill 131072 c, None)),
      m ''long_context'' ''one user, 16k already read'' ''tok/s'' True
        (\<lambda>c. (map_option dc_per_user_tok_s (speed_cell 1 16384 c), None)),
      m ''long_context'' ''one user, 64k already read'' ''tok/s'' True (\<lambda>c. (full_alone 65536 c, None)),
      m ''long_context'' ''one user, 128k already read'' ''tok/s'' True (\<lambda>c. (full_alone 131072 c, None)),
      m ''long_context'' ''needle found (of 3 depths)'' [] True (\<lambda>c. (needles_found c, None))] @
     accuracy_rows a b @
     [m ''efficiency'' ''tokens per joule'' ''tok/J'' True
        (\<lambda>c. (Option.bind (lc_full c) sc_tokens_per_joule, lr_tokens_per_joule (lc_row c))),
      m ''efficiency'' ''energy per 1M tokens'' ''Wh'' False
        (\<lambda>c. (Option.bind (lc_full c) sc_wh_per_mtok, lr_wh_per_mtok (lc_row c))),
      m ''reliability'' ''time up'' ''%'' True (\<lambda>c. (None, lr_uptime_pct (lc_row c))),
      m ''reliability'' ''requests that failed (5xx)'' ''%'' False (\<lambda>c. (None, pct100 (lr_error_rate (lc_row c)))),
      m ''reliability'' ''requests turned away (429)'' ''%'' False (\<lambda>c. (None, pct100 (lr_rate_429 (lc_row c)))),
      m ''reliability'' ''cold start'' ''s'' False (\<lambda>c. (None, lr_cold_start_avg_s (lc_row c))),
      m ''reliability'' ''garbled output per 100k chars'' [] False
        (\<lambda>c. (map_option gb_per_100k (Option.bind (lc_full c) sc_garbled), None))])"

definition withdraw :: "CompareRow \<Rightarrow> CompareRow" where
  "withdraw r = (if cp_source r = ''bench'' then r\<lparr>cp_delta_pct := None, cp_mark := MK_Incomparable\<rparr> else r)"

section \<open>A sentence per category\<close>

definition abs_delta :: "CompareRow \<Rightarrow> f64" where
  "abs_delta r = f_abs (some_or (F_Fin 0) (cp_delta_pct r))"

definition biggest :: "CompareRow list \<Rightarrow> Mark \<Rightarrow> CompareRow option" where
  "biggest rows mark =
    foldl (\<lambda>best r. case best of None \<Rightarrow> Some r
        | Some b \<Rightarrow> if f_gt (abs_delta r) (abs_delta b) then Some r else Some b)
      None (filter (\<lambda>r. cp_mark r = mark) rows)"

definition is_pair :: "CompareRow \<Rightarrow> bool" where
  "is_pair r \<longleftrightarrow> cp_mark r \<noteq> MK_NoData \<and> cp_mark r \<noteq> MK_Incomparable"

definition amount :: "CompareRow \<Rightarrow> string" where
  "amount r = (case cp_delta_pct r of
     Some d \<Rightarrow> cp_label r @ '' '' @ fmt_fixed 0 (f_abs d) @ ''%'' | None \<Rightarrow> cp_label r)"

definition better_words :: "string \<Rightarrow> string \<times> string" where
  "better_words category =
    (if category = ''accuracy'' then (''more accurate'', ''less accurate'')
     else if category = ''efficiency'' then (''more efficient'', ''less efficient'')
     else if category = ''reliability'' then (''more reliable'', ''less reliable'')
     else if category = ''long_context'' then (''better'', ''worse'')
     else (''faster'', ''slower''))"

definition no_pair_sentence :: "string \<Rightarrow> string \<Rightarrow> string \<Rightarrow> string" where
  "no_pair_sentence category a b =
    (if category = ''accuracy'' then
       ''not measured on both: run `lss bench accuracy` on each (long: pick a quiet window), then `lss compare '' @ a @ '' '' @ b @ '' --accuracy`''
     else if category = ''long_context'' then ''not measured on both: `lss bench full` measures 128k prompts and the needle''
     else if category = ''reliability'' then ''not enough real traffic on both sides yet''
     else ''no measurement on both sides yet: run `lss bench quick` on each loadout'')"

definition LOST_PAIR :: string where
  "LOST_PAIR = ''cannot be compared: the two runs were measured under different background load, so the difference would be the traffic as much as the loadout (the note above says by how much)''"

definition same_sentence :: string where
  "same_sentence = ''~ same: every difference is within the +-'' @ fmt_fixed 0 (f_mul NOISE (F_Fin 100)) @ ''% run-to-run noise''"

text \<open>What a category says, before it is put into words.\<close>

datatype Ruling = R_Lost | R_NoPair | R_Same | R_Wins CompareRow | R_Loses CompareRow
  | R_Mixed "CompareRow list" "CompareRow list"

definition ruling :: "CompareRow list \<Rightarrow> bool \<Rightarrow> Ruling" where
  "ruling of_category warned =
    (let paired = filter is_pair of_category;
         wins = filter (\<lambda>r. cp_mark r = MK_Better) paired;
         losses = filter (\<lambda>r. cp_mark r = MK_Worse) paired
     in if paired = [] \<and> warned \<and> (\<exists>r \<in> set of_category. cp_mark r = MK_Incomparable) then R_Lost
        else case paired of [] \<Rightarrow> R_NoPair
        | lead # _ \<Rightarrow>
            if wins = [] \<and> losses = [] then R_Same
            else if losses = [] then R_Wins (some_or lead (biggest paired MK_Better))
            else if wins = [] then R_Loses (some_or lead (biggest paired MK_Worse))
            else R_Mixed wins losses)"

fun ruling_sentence :: "string \<Rightarrow> string \<Rightarrow> string \<Rightarrow> Ruling \<Rightarrow> string" where
  "ruling_sentence category a b R_Lost = LOST_PAIR"
| "ruling_sentence category a b R_NoPair = no_pair_sentence category a b"
| "ruling_sentence category a b R_Same = same_sentence"
| "ruling_sentence category a b (R_Wins r) =
     a @ '' is '' @ fst (better_words category) @ '' than '' @ b @ '' ('' @ amount r @ '')''"
| "ruling_sentence category a b (R_Loses r) =
     a @ '' is '' @ snd (better_words category) @ '' than '' @ b @ '' ('' @ amount r @ '')''"
| "ruling_sentence category a b (R_Mixed ws ls) =
     ''mixed: '' @ a @ '' wins on '' @ join '', '' (map amount ws) @ ''; loses on '' @ join '', '' (map amount ls)"

definition category_verdict :: "string \<Rightarrow> CompareRow list \<Rightarrow> string \<Rightarrow> string \<Rightarrow> string option \<Rightarrow> string" where
  "category_verdict category rows a b load_warning =
    ruling_sentence category a b (ruling (filter (\<lambda>r. cp_category r = category) rows) (load_warning \<noteq> None))"

section \<open>The comparison\<close>

record Verdict =
  vd_category :: string
  vd_title :: string
  vd_sentence :: string

record Side =
  sd_selector :: string
  sd_id :: string
  sd_model :: string
  sd_image_tag :: string
  sd_flags :: string
  sd_first_seen :: i64
  sd_bench_profile :: "string option"
  sd_bench_at :: "i64 option"
  sd_bench_load :: LoadClass
  sd_bench_load_detail :: string

record Comparison =
  cm_a :: Side
  cm_b :: Side
  cm_noise_pct :: f64
  cm_load_warning :: "string option"
  cm_rows :: "CompareRow list"
  cm_verdicts :: "Verdict list"

text \<open>\<open>LoadClass::default\<close> is unknown.\<close>

definition card_side :: "string \<Rightarrow> LoadoutCard \<Rightarrow> Side" where
  "card_side selector c =
    (let r = lc_row c; s = card_speed c
     in \<lparr>sd_selector = selector, sd_id = lr_id r, sd_model = lr_model r, sd_image_tag = lr_image_tag r,
         sd_flags = lr_flags r, sd_first_seen = lr_first_seen r,
         sd_bench_profile = map_option sc_profile s, sd_bench_at = map_option sc_ended_at s,
         sd_bench_load = some_or LC_Unknown (map_option card_load_class s),
         sd_bench_load_detail = some_or [] (map_option card_load_sentence s)\<rparr>)"

definition cards_load_gap :: "LoadoutCard \<Rightarrow> LoadoutCard \<Rightarrow> string option" where
  "cards_load_gap a b = (case (card_speed a, card_speed b) of
     (Some sa, Some sb) \<Rightarrow> load_gap sa sb | _ \<Rightarrow> None)"

definition judged_rows :: "LoadoutCard \<Rightarrow> LoadoutCard \<Rightarrow> CompareRow list" where
  "judged_rows a b = (if cards_load_gap a b = None then compare_rows a b else map withdraw (compare_rows a b))"

definition compare_loadouts :: "string \<Rightarrow> LoadoutCard \<Rightarrow> string \<Rightarrow> LoadoutCard \<Rightarrow> Comparison" where
  "compare_loadouts sel_a a sel_b b =
    (let rows = judged_rows a b; warning = cards_load_gap a b
     in \<lparr>cm_a = card_side sel_a a, cm_b = card_side sel_b b, cm_noise_pct = f_mul NOISE (F_Fin 100),
         cm_load_warning = warning, cm_rows = rows,
         cm_verdicts = map (\<lambda>(key, title). \<lparr>vd_category = key, vd_title = title,
           vd_sentence = category_verdict key rows sel_a sel_b warning\<rparr>) CATEGORIES\<rparr>)"

end
