(* ===== verification/CompareFacts.thy ===== *)
theory CompareFacts
  imports Compare BenchDocs
begin

text \<open>
  What the comparison of two loadouts promises: a mark follows the two numbers, the same row read from the
  other side never contradicts it, and a verdict rests on the rows it names.
\<close>

section \<open>A mark follows the numbers\<close>

lemma f_sub_sign:
  assumes "is_finite a" "is_finite b" "f_gt (f_sub a b) (F_Fin 0)"
  shows "f_gt a b"
proof -
  have "f_sub a b = rnd (rat_of a - rat_of b) \<or> f_sub a b = F_NegZero"
    using assms(1,2) by (cases a; cases b) (auto simp: f_sub_def f_add_def)
  then have "\<not> rat_of a - rat_of b \<le> 0"
    using assms(3) rnd_nonpos [of "rat_of a - rat_of b"] f_lt_imp_not_ge by (auto simp: f_lt_def f_le_def)
  then show ?thesis using assms(1,2) by (cases a; cases b) (auto simp: f_lt_def)
qed

lemma f_sub_sign_neg:
  assumes "is_finite a" "is_finite b" "f_lt (f_sub a b) (F_Fin 0)"
  shows "f_lt a b"
proof -
  have "f_sub a b = rnd (rat_of a - rat_of b) \<or> f_sub a b = F_NegZero"
    using assms(1,2) by (cases a; cases b) (auto simp: f_sub_def f_add_def)
  then have "\<not> 0 \<le> rat_of a - rat_of b"
    using assms(3) rnd_nonneg [of "rat_of a - rat_of b"] f_lt_imp_not_ge by (auto simp: f_lt_def f_le_def)
  then show ?thesis using assms(1,2) by (cases a; cases b) (auto simp: f_lt_def)
qed

text \<open>Dividing a number by a positive one keeps its sign.\<close>

definition f_sgn :: "f64 \<Rightarrow> int" where
  "f_sgn x = (if f_gt x (F_Fin 0) then 1 else if f_lt x (F_Fin 0) then - 1 else 0)"

lemma f_div_not_nan:
  assumes "is_finite b" "rat_of b \<noteq> 0" "\<not> is_nan a"
  shows "\<not> is_nan (f_div a b)"
  using assms by (cases a; cases b) (auto simp: f_div_def f_zero_def Let_def)

lemma f_div_gt0:
  assumes "is_finite b" "0 < rat_of b" "f_gt (f_div a b) (F_Fin 0)"
  shows "f_gt a (F_Fin 0)"
proof (cases a)
  case (F_Fin r)
  have "\<not> r \<le> 0"
  proof
    assume "r \<le> 0"
    then have "f_le (rnd (r / rat_of b)) (F_Fin 0)" using assms(2) by (intro rnd_nonpos) (simp add: field_simps)
    then show False
      using assms F_Fin f_lt_imp_not_ge by (cases b) (auto simp: f_div_def f_zero_def f_lt_def split: if_splits)
  qed
  then show ?thesis by (simp add: F_Fin)
next
  case (F_Inf s)
  then show ?thesis using assms by (cases b) (auto simp: f_div_def f_lt_def split: if_splits)
qed (use assms in \<open>cases b; auto simp: f_div_def f_zero_def f_lt_def\<close>)+

lemma f_div_lt0:
  assumes "is_finite b" "0 < rat_of b" "f_lt (f_div a b) (F_Fin 0)"
  shows "f_lt a (F_Fin 0)"
proof (cases a)
  case (F_Fin r)
  have "\<not> 0 \<le> r"
  proof
    assume "0 \<le> r"
    then have "f_le (F_Fin 0) (rnd (r / rat_of b))" using assms(2) by (intro rnd_nonneg) (simp add: field_simps)
    then show False
      using assms F_Fin f_lt_imp_not_ge by (cases b) (auto simp: f_div_def f_zero_def f_lt_def split: if_splits)
  qed
  then show ?thesis by (simp add: F_Fin)
next
  case (F_Inf s)
  then show ?thesis using assms by (cases b) (auto simp: f_div_def f_lt_def split: if_splits)
qed (use assms in \<open>cases b; auto simp: f_div_def f_zero_def f_lt_def\<close>)+

lemma f_abs_pos: "is_finite b \<Longrightarrow> \<not> f_eq b (F_Fin 0) \<Longrightarrow> is_finite (f_abs b) \<and> 0 < rat_of (f_abs b)"
  by (cases b) (auto simp: f_abs_def f_eq_def f_le_def)

lemma sub_not_nan: "is_finite a \<Longrightarrow> is_finite b \<Longrightarrow> \<not> is_nan (f_sub a b)"
  by (cases a; cases b) (auto simp: f_sub_def f_add_def)

definition ahead :: "bool \<Rightarrow> f64 \<Rightarrow> f64 \<Rightarrow> bool" where
  "ahead higher_is_better a b \<longleftrightarrow> (if higher_is_better then f_gt a b else f_lt a b)"

lemma judge_marks:
  assumes "judge (Some a) (Some b) h = (d, m)"
  shows "(m = MK_Better \<longrightarrow> ahead h a b) \<and> (m = MK_Worse \<longrightarrow> ahead h b a) \<and> m \<noteq> MK_Incomparable \<and>
    (m = MK_NoData \<longleftrightarrow> \<not> (is_finite a \<and> is_finite b))"
proof (cases "is_finite a \<and> is_finite b")
  case True
  show ?thesis
  proof (cases "f_eq b (F_Fin 0)")
    case zero: True
    then have "f_gt a b \<longleftrightarrow> f_gt a (F_Fin 0)" "f_lt a b \<longleftrightarrow> f_lt a (F_Fin 0)"
      using True by (cases a; cases b; auto simp: f_eq_def f_le_def f_lt_def)+
    moreover have "\<not> f_gt a (F_Fin 0) \<Longrightarrow> \<not> f_eq a (F_Fin 0) \<Longrightarrow> f_lt a (F_Fin 0)"
      using True by (cases a) (auto simp: f_lt_def f_eq_def f_le_def)
    ultimately show ?thesis
      using assms True zero by (auto simp: judge_def better_if_def ahead_def split: if_splits)
  next
    case False
    let ?d = "f_div (f_sub a b) (f_abs b)"
    have b: "is_finite (f_abs b)" "0 < rat_of (f_abs b)" using f_abs_pos True False by auto
    have nn: "\<not> is_nan ?d" using b sub_not_nan True f_div_not_nan by auto
    have up: "f_gt ?d (F_Fin 0) \<Longrightarrow> f_gt a b" using f_sub_sign f_div_gt0 [OF b] True by blast
    have eq: "f_le (f_abs ?d) NOISE_EDGE" if "\<not> f_gt ?d (F_Fin 0)" "\<not> f_lt ?d (F_Fin 0)"
    proof -
      obtain e where e: "NOISE_EDGE = F_Fin e" "0 \<le> e" using noise_edge by blast
      have "?d = F_Fin 0 \<or> ?d = F_NegZero" using that nn
      proof (cases ?d)
        case (F_Inf s)
        then show ?thesis using that by (cases s) (auto simp: f_lt_def)
      qed (auto simp: f_lt_def)
      then show ?thesis unfolding e(1) using e(2) by (auto simp: f_abs_def)
    qed
    have down: "\<not> f_gt ?d (F_Fin 0) \<Longrightarrow> \<not> f_le (f_abs ?d) NOISE_EDGE \<Longrightarrow> f_lt a b"
      using eq f_sub_sign_neg f_div_lt0 [OF b] True by blast
    show ?thesis
      using assms True False up down by (auto simp: judge_def Let_def better_if_def ahead_def split: if_splits)
  qed
next
  case False
  have "\<not> is_finite b \<Longrightarrow> \<not> f_eq b (F_Fin 0)"
  proof (cases b)
    case (F_Inf s)
    then show ?thesis by (cases s) (auto simp: f_eq_def f_le_def)
  qed (auto simp: f_eq_def f_le_def)
  then show ?thesis using assms False by (auto simp: judge_def split: if_splits)
qed

lemma ahead_asym: "ahead h a b \<Longrightarrow> \<not> ahead h b a"
  by (auto simp: ahead_def f_lt_def split: if_splits)

section \<open>Like with like\<close>

lemma pair_of_source:
  "pair_of pa pb = (va, vb, src) \<Longrightarrow> src \<noteq> [] \<Longrightarrow>
   (src = ''bench'' \<and> fst pa \<noteq> None \<and> fst pb \<noteq> None \<and> va = fst pa \<and> vb = fst pb) \<or>
   (src = ''live'' \<and> (fst pa = None \<or> fst pb = None) \<and> snd pa \<noteq> None \<and> snd pb \<noteq> None \<and> va = snd pa \<and> vb = snd pb)"
  by (cases "(pa, pb)" rule: pair_of.cases) auto

lemma pair_of_swap: "pair_of pa pb = (va, vb, src) \<Longrightarrow> pair_of pb pa = (vb, va, src)"
  by (cases "(pa, pb)" rule: pair_of.cases; cases "(pb, pa)" rule: pair_of.cases) auto

definition like_with_like :: "pick \<Rightarrow> pick \<Rightarrow> CompareRow \<Rightarrow> bool" where
  "like_with_like pa pb r \<longleftrightarrow>
     (cp_source r = ''bench'' \<and> cp_a r = fst pa \<and> cp_b r = fst pb \<and> cp_a r \<noteq> None \<and> cp_b r \<noteq> None) \<or>
     (cp_source r = ''live'' \<and> cp_a r = snd pa \<and> cp_b r = snd pb \<and> cp_a r \<noteq> None \<and> cp_b r \<noteq> None \<and>
        (fst pa = None \<or> fst pb = None)) \<or>
     cp_source r = [] \<and> cp_mark r = MK_NoData \<and> cp_delta_pct r = None"

lemma compare_row_like: "like_with_like pa pb (compare_row category label unit higher pa pb)"
proof -
  obtain va vb src where p: "pair_of pa pb = (va, vb, src)" by (metis prod_cases3)
  show ?thesis
    using pair_of_source [OF p] p
    by (cases "src = []") (auto simp: like_with_like_def compare_row_def split: prod.split)
qed

text \<open>A row and the same row with the sides swapped.\<close>

definition mirrors :: "CompareRow \<Rightarrow> CompareRow \<Rightarrow> bool" where
  "mirrors r q \<longleftrightarrow>
     cp_category q = cp_category r \<and> cp_label q = cp_label r \<and> cp_unit q = cp_unit r \<and> cp_source q = cp_source r \<and>
     cp_a q = cp_b r \<and> cp_b q = cp_a r \<and>
     (cp_mark r = MK_Better \<longrightarrow> cp_mark q = MK_Worse \<or> cp_mark q = MK_Same) \<and>
     (cp_mark r = MK_Worse \<longrightarrow> cp_mark q = MK_Better \<or> cp_mark q = MK_Same) \<and>
     (cp_mark q = MK_NoData \<longleftrightarrow> cp_mark r = MK_NoData) \<and> (cp_mark q = MK_Incomparable \<longleftrightarrow> cp_mark r = MK_Incomparable)"

lemma compare_row_mirrors:
  "mirrors (compare_row category label unit higher pa pb) (compare_row category label unit higher pb pa)"
proof -
  obtain va vb src where p: "pair_of pa pb = (va, vb, src)" by (metis prod_cases3)
  note q = pair_of_swap [OF p]
  show ?thesis
  proof (cases "src = []")
    case True
    then show ?thesis using p q by (simp add: mirrors_def compare_row_def)
  next
    case False
    then obtain a b where ab: "va = Some a" "vb = Some b" using pair_of_source [OF p] by auto
    obtain d m d2 m2 where j: "judge (Some a) (Some b) higher = (d, m)" "judge (Some b) (Some a) higher = (d2, m2)"
      by (metis surj_pair)
    show ?thesis
      using judge_marks [OF j(1)] judge_marks [OF j(2)] ahead_asym p q False j unfolding ab
      by (cases m; cases m2) (auto simp: mirrors_def compare_row_def)
  qed
qed

lemma metric_row_mirrors:
  "mirrors (metric_row a b category label unit higher f) (metric_row b a category label unit higher f)"
  unfolding metric_row_def by (rule compare_row_mirrors)

lemma max_opt_set: "set xs = set ys \<Longrightarrow> max_opt xs = max_opt (ys :: nat list)"
proof -
  assume eq: "set xs = set ys"
  have "fold max zs 0 = Max (insert 0 (set zs))" for zs :: "nat list"
    by (metis Max.set_eq_fold list.simps(15))
  then show ?thesis using eq by (auto simp: max_opt_def)
qed

lemma top_common_swap: "top_common_concurrency b a = top_common_concurrency a b"
  unfolding top_common_concurrency_def by (rule max_opt_set) auto

lemma datasets_swap: "compare_datasets b a = compare_datasets a b"
  unfolding compare_datasets_def
  by (intro arg_cong [where f = remdups_adj] properties_for_sort) simp_all

lemma load_rows_mirror: "list_all2 mirrors (load_rows a b) (load_rows b a)"
  by (auto simp: load_rows_def Let_def top_common_swap metric_row_mirrors split: option.split)

lemma accuracy_rows_mirror: "list_all2 mirrors (accuracy_rows a b) (accuracy_rows b a)"
  by (auto simp: accuracy_rows_def Let_def datasets_swap [of b a] metric_row_mirrors compare_row_mirrors
      list_all2_map1 list_all2_map2 intro: list_all2_refl)

lemma compare_rows_mirror: "list_all2 mirrors (compare_rows a b) (compare_rows b a)"
  unfolding compare_rows_def Let_def
  by (intro list_all2_appendI load_rows_mirror accuracy_rows_mirror) (simp_all add: metric_row_mirrors)

lemma cards_load_gap_swap: "cards_load_gap a b = None \<longleftrightarrow> cards_load_gap b a = None"
  unfolding cards_load_gap_def
  by (cases "card_speed a"; cases "card_speed b") (auto simp: load_gap_none share_gap_swap)

lemma withdraw_mirrors: "mirrors r q \<Longrightarrow> mirrors (withdraw r) (withdraw q)"
  by (auto simp: mirrors_def withdraw_def)

lemma judged_rows_mirror: "list_all2 mirrors (judged_rows a b) (judged_rows b a)"
  using compare_rows_mirror [of a b] cards_load_gap_swap [of a b]
  by (auto simp: judged_rows_def list_all2_map1 list_all2_map2 intro: withdraw_mirrors elim: list_all2_mono)

section \<open>Loads that do not match\<close>

lemma judged_rows_withdrawn:
  "cards_load_gap a b \<noteq> None \<Longrightarrow> r \<in> set (judged_rows a b) \<Longrightarrow>
   (cp_source r = ''bench'' \<longrightarrow> cp_mark r = MK_Incomparable \<and> cp_delta_pct r = None) \<and>
   (cp_source r \<noteq> ''bench'' \<longrightarrow> r \<in> set (compare_rows a b))"
  by (auto simp: judged_rows_def withdraw_def split: if_splits)

section \<open>A verdict rests on its rows\<close>

lemma foldl_greatest:
  assumes "\<And>x. x \<in> set xs \<Longrightarrow> \<not> is_nan (f x)" "xs \<noteq> []"
  shows "\<exists>b \<in> set xs. foldl (\<lambda>best r. case best of None \<Rightarrow> Some r | Some b \<Rightarrow> if f_gt (f r) (f b) then Some r else Some b)
      None xs = Some b \<and> (\<forall>x \<in> set xs. f_le (f x) (f b))"
  using assms
proof (induction xs rule: rev_induct)
  case (snoc x xs)
  show ?case
  proof (cases "xs = []")
    case True
    then show ?thesis using snoc.prems by simp
  next
    case False
    then obtain b where b: "b \<in> set xs" "foldl (\<lambda>best r. case best of None \<Rightarrow> Some r
        | Some b \<Rightarrow> if f_gt (f r) (f b) then Some r else Some b) None xs = Some b" "\<forall>x \<in> set xs. f_le (f x) (f b)"
      using snoc by auto
    have nn: "\<not> is_nan (f x)" "\<not> is_nan (f b)" using snoc.prems(1) b(1) by auto
    show ?thesis
    proof (cases "f_gt (f x) (f b)")
      case True
      then have "\<forall>y \<in> set xs. f_le (f y) (f x)" using b(3) f_le_trans f_lt_le by blast
      then show ?thesis using True b nn by auto
    next
      case False
      then have "f_le (f x) (f b)" using nn f_not_lt by blast
      then show ?thesis using False b by auto
    qed
  qed
qed simp

lemma mul_not_nan: "\<not> is_nan x \<Longrightarrow> 0 < c \<Longrightarrow> \<not> is_nan (f_mul x (F_Fin c))"
  by (cases x) (auto simp: f_mul_def f_zero_def Let_def)

lemma round_not_nan: "\<not> is_nan x \<Longrightarrow> \<not> is_nan (f_round x)"
  by (cases x) (auto simp: f_round_def f_zero_def Let_def)

lemma delta_not_nan:
  assumes "is_finite a" "is_finite b" "\<not> f_eq b (F_Fin 0)"
  shows "\<not> is_nan (f_div (f_round (f_mul (f_div (f_sub a b) (f_abs b)) (F_Fin 1000))) (F_Fin 10))"
proof -
  have "\<not> is_nan (f_div (f_sub a b) (f_abs b))"
    using f_abs_pos [OF assms(2,3)] sub_not_nan [OF assms(1,2)] f_div_not_nan by auto
  then show ?thesis using f_div_not_nan [of "F_Fin 10"] round_not_nan mul_not_nan by simp
qed

lemma judge_delta: "judge oa ob h = (Some d, m) \<Longrightarrow> \<not> is_nan d"
  by (auto simp: judge_def Let_def delta_not_nan split: option.splits if_splits)

definition row_delta_ok :: "CompareRow \<Rightarrow> bool" where
  "row_delta_ok r \<longleftrightarrow> \<not> is_nan (abs_delta r)"

lemma nan_abs [simp]: "is_nan (f_abs x) = is_nan x"
  by (cases x) (auto simp: f_abs_def)

lemma row_delta_ok_some: "(\<And>d. cp_delta_pct r = Some d \<Longrightarrow> \<not> is_nan d) \<Longrightarrow> row_delta_ok r"
  by (cases "cp_delta_pct r") (auto simp: row_delta_ok_def abs_delta_def some_or_def)

lemma compare_row_delta: "row_delta_ok (compare_row category label unit higher pa pb)"
proof (rule row_delta_ok_some)
  fix d assume d: "cp_delta_pct (compare_row category label unit higher pa pb) = Some d"
  obtain va vb src where p: "pair_of pa pb = (va, vb, src)" by (metis prod_cases3)
  obtain e m where "judge va vb higher = (e, m)" by (metis surj_pair)
  then show "\<not> is_nan d" using d p judge_delta by (auto simp: compare_row_def split: if_splits)
qed

lemma ruling_wins:
  assumes "ruling rows warned = R_Wins r" "list_all row_delta_ok rows"
  shows "r \<in> set rows \<and> cp_mark r = MK_Better \<and> list_all (\<lambda>q. cp_mark q \<noteq> MK_Worse) rows \<and>
    list_all (\<lambda>q. cp_mark q = MK_Better \<longrightarrow> f_le (abs_delta q) (abs_delta r)) rows"
proof -
  let ?wins = "filter (\<lambda>r. cp_mark r = MK_Better) (filter is_pair rows)"
  have ru: "?wins \<noteq> []" "filter (\<lambda>r. cp_mark r = MK_Worse) (filter is_pair rows) = []"
    "r = some_or (hd (filter is_pair rows)) (biggest (filter is_pair rows) MK_Better)"
    using assms(1) by (auto simp: ruling_def Let_def simp del: filter_filter split: if_splits list.splits)
  have "\<And>x. x \<in> set ?wins \<Longrightarrow> \<not> is_nan (abs_delta x)" using assms(2) by (auto simp: list_all_iff row_delta_ok_def)
  from foldl_greatest [of ?wins abs_delta, OF this ru(1)] obtain b where b: "b \<in> set ?wins"
    "biggest (filter is_pair rows) MK_Better = Some b" "\<forall>x \<in> set ?wins. f_le (abs_delta x) (abs_delta b)"
    unfolding biggest_def by blast
  have pair: "\<And>q. cp_mark q = MK_Better \<or> cp_mark q = MK_Worse \<Longrightarrow> is_pair q" by (auto simp: is_pair_def)
  have "list_all (\<lambda>q. cp_mark q \<noteq> MK_Worse) rows" using ru(2) pair by (auto simp: list_all_iff filter_empty_conv simp del: filter_filter)
  moreover have "list_all (\<lambda>q. cp_mark q = MK_Better \<longrightarrow> f_le (abs_delta q) (abs_delta b)) rows"
    using b(3) pair by (auto simp: list_all_iff)
  ultimately show ?thesis using b(1,2) ru(3) by (auto simp: some_or_def)
qed

lemma load_rows_delta: "list_all row_delta_ok (load_rows a b)"
  by (auto simp: load_rows_def Let_def metric_row_def compare_row_delta split: option.split)

lemma accuracy_rows_delta: "list_all row_delta_ok (accuracy_rows a b)"
  by (auto simp: accuracy_rows_def Let_def metric_row_def compare_row_delta list_all_iff)

lemma compare_rows_delta: "list_all row_delta_ok (compare_rows a b)"
  unfolding compare_rows_def Let_def list_all_append
  by (simp add: load_rows_delta accuracy_rows_delta metric_row_def compare_row_delta)

lemma withdraw_delta: "row_delta_ok r \<Longrightarrow> row_delta_ok (withdraw r)"
  by (auto simp: row_delta_ok_def withdraw_def abs_delta_def some_or_def)

lemma judged_rows_delta: "list_all row_delta_ok (judged_rows a b)"
  using compare_rows_delta [of a b] withdraw_delta by (auto simp: judged_rows_def list_all_iff)

section \<open>The band is that of the second side\<close>

lemma noise_edge_near: "f_lt NOISE_EDGE (F_Fin (31 / 1024)) \<and> f_le (F_Fin (121 / 4096)) NOISE_EDGE"
proof -
  have d: "rnd (123 / 4096) = F_Fin (123 / 4096)" by (rule rnd_grid_pos [where n = 123 and e = "- 12"]) simp_all
  have c: "rnd (121 / 4096) = F_Fin (121 / 4096)" by (rule rnd_grid_pos [where n = 121 and e = "- 12"]) simp_all
  have t: "rnd (1 / 2 ^ 20) = F_Fin (1 / 2 ^ 20)" by (rule rnd_grid_pos [where n = 1 and e = "- 20"]) simp_all
  have u: "rnd (123 / 4096 + 1 / 2 ^ 20) = F_Fin (123 / 4096 + 1 / 2 ^ 20)"
    by (rule rnd_grid_pos [where n = "123 * 2 ^ 8 + 1" and e = "- 20"]) simp_all
  obtain a where a: "rnd (3 / 100) = F_Fin a" "a \<le> 123 / 4096"
    using rnd_between_Fin [OF _ _ d, of "3 / 100"] by auto
  have a2: "121 / 4096 \<le> a" using rnd_mono [of "121 / 4096" "3 / 100"] a c by simp
  obtain b where b: "rnd (1 / 10 ^ 12) = F_Fin b" "0 \<le> b" "b \<le> 1 / 2 ^ 20"
    using rnd_between_Fin [OF _ _ t, of "1 / 10 ^ 12"] by auto
  have "0 \<le> a + b" "a + b \<le> 123 / 4096 + 1 / 2 ^ 20" using a a2 b by linarith+
  from rnd_between_Fin [OF this u] obtain e where e: "rnd (a + b) = F_Fin e" "e \<le> 123 / 4096 + 1 / 2 ^ 20" by blast
  have "f_le (rnd (121 / 4096)) (rnd (a + b))" using a2 b by (intro rnd_mono) linarith
  then have "121 / 4096 \<le> e" using c e by simp
  then show ?thesis using e unfolding NOISE_EDGE_def NOISE_def f_lit_def a(1) b(1) f_add_Fin by simp
qed

text \<open>1055 against 1024 is 3.03 % of 1024 and 2.94 % of 1055.\<close>

lemma judge_1055:
  "snd (judge (Some (F_Fin 1055)) (Some (F_Fin 1024)) True) = MK_Better"
  "snd (judge (Some (F_Fin 1024)) (Some (F_Fin 1055)) True) = MK_Same"
proof -
  have s: "rnd 31 = F_Fin 31" using rnd_numeral [of "num.Bit1 (num.Bit1 (num.Bit1 (num.Bit1 num.One)))"] by simp
  have s2: "rnd (- 31) = F_Fin (- 31)" using rnd_minus [of 31] s by simp
  have q: "rnd (31 / 1024) = F_Fin (31 / 1024)" by (rule rnd_grid_pos [where n = 31 and e = "- 10"]) simp_all
  have c: "rnd (121 / 4096) = F_Fin (121 / 4096)" by (rule rnd_grid_pos [where n = 121 and e = "- 12"]) simp_all
  obtain r where r: "rnd (31 / 1055) = F_Fin r" "0 \<le> r" "r \<le> 121 / 4096"
    using rnd_between_Fin [OF _ _ c, of "31 / 1055"] by auto
  have r2: "rnd (- (31 / 1055)) = f_neg (F_Fin r)" using rnd_minus [of "31 / 1055"] r by simp
  have big: "\<not> f_le (F_Fin (31 / 1024)) NOISE_EDGE" using noise_edge_near f_lt_imp_not_ge by blast
  have small: "f_le (F_Fin r) NOISE_EDGE" using r noise_edge_near f_le_trans [of "F_Fin r" "F_Fin (121 / 4096)"] by simp
  show "snd (judge (Some (F_Fin 1055)) (Some (F_Fin 1024)) True) = MK_Better"
    using big by (simp add: judge_def f_eq_def f_sub_Fin f_abs_def f_div_def s q better_if_def Let_def)
  have "f_abs (f_neg (F_Fin r)) = F_Fin r" using r(2) by (simp add: f_abs_def)
  then have edge: "f_le (f_abs (f_neg (F_Fin r))) NOISE_EDGE" using small by simp
  have pos: "f_abs (F_Fin 1055) = F_Fin 1055" by (simp add: f_abs_def)
  have delta: "f_div (f_sub (F_Fin 1024) (F_Fin 1055)) (f_abs (F_Fin 1055)) = f_neg (F_Fin r)"
    unfolding pos using r2 by (simp add: f_sub_Fin f_div_def s2)
  show "snd (judge (Some (F_Fin 1024)) (Some (F_Fin 1055)) True) = MK_Same"
    unfolding judge_def Let_def prod.case option.case delta using edge by (simp add: f_eq_def del: f_neg.simps)
qed

end
