(* ===== verification/Advice.thy ===== *)
theory Advice
  imports BenchCheck Targets Rates
begin

text \<open>
  \<open>crates/lss-core/src/advice.rs\<close>: evidence for settings and upgrades. Each rule reads one window's summary
  and says one sentence with its number, or nothing when the window has no data for it.
\<close>

section \<open>Severities and findings\<close>

datatype AdviceSeverity = AS_Fine | AS_Watch | AS_Act

fun advice_rank :: "AdviceSeverity \<Rightarrow> nat" where
  "advice_rank AS_Fine = 0"
| "advice_rank AS_Watch = 1"
| "advice_rank AS_Act = 2"

lemma advice_rank_inj: "advice_rank a = advice_rank b \<Longrightarrow> a = b"
  by (cases a; cases b) simp_all

text \<open>The derived order: in the order of the constructors.\<close>

instantiation AdviceSeverity :: linorder
begin

definition less_eq_AdviceSeverity :: "AdviceSeverity \<Rightarrow> AdviceSeverity \<Rightarrow> bool" where
  "less_eq_AdviceSeverity a b \<longleftrightarrow> advice_rank a \<le> advice_rank b"

definition less_AdviceSeverity :: "AdviceSeverity \<Rightarrow> AdviceSeverity \<Rightarrow> bool" where
  "less_AdviceSeverity a b \<longleftrightarrow> advice_rank a < advice_rank b"

instance
  by standard (auto simp: less_eq_AdviceSeverity_def less_AdviceSeverity_def advice_rank_inj)

end

fun advice_severity_str :: "AdviceSeverity \<Rightarrow> string" where
  "advice_severity_str AS_Fine = ''fine''"
| "advice_severity_str AS_Watch = ''watch''"
| "advice_severity_str AS_Act = ''act''"

definition MIN_PROMPT_REQUESTS :: f64 where "MIN_PROMPT_REQUESTS = F_Fin 100"

definition ADVICE_RULES :: "string list" where
  "ADVICE_RULES = [''slots_saturated'', ''queue_wait'', ''kv_pressure'', ''evictions'', ''prompt_sizes'',
     ''cache_reuse'', ''spec_decoding'', ''time_split'', ''rejections'', ''growth'', ''energy'', ''throttling'',
     ''saturation_point'', ''targets'']"

record Finding =
  fd_rule :: string
  fd_severity :: AdviceSeverity
  fd_window :: string
  fd_sentence :: string
  fd_value :: "f64 option"
  fd_unit :: string
  fd_points_at :: string

record LaneRejects =
  lj_lane :: string
  lj_too_busy_429 :: u64
  lj_too_large_413 :: u64

record GpuThrottle =
  gt_index :: u32
  gt_pct :: f64
  gt_excluded :: bool

record Growth =
  gw_tokens_per_day :: f64
  gw_tokens_per_day_prev :: f64
  gw_requests_per_day :: f64
  gw_requests_per_day_prev :: f64
  gw_peak_users :: f64
  gw_peak_users_prev :: f64
  gw_prev_days_covered :: f64
  gw_peak_users_basis :: "string option"

record WindowStats =
  ws_name :: string
  ws_secs :: i64
  ws_covered_secs :: i64
  ws_slots :: u32
  ws_slots_full_pct :: "f64 option"
  ws_queue_pct :: "f64 option"
  ws_queue_wait_p95_ms :: "f64 option"
  ws_kv_peak_pct :: "f64 option"
  ws_kv_p95_pct :: "f64 option"
  ws_retracted_pct :: "f64 option"
  ws_evicted_tokens :: "f64 option"
  ws_evicted_secs :: "i64 option"
  ws_prompt_p50 :: "f64 option"
  ws_prompt_p95 :: "f64 option"
  ws_prompt_max :: "f64 option"
  ws_prompt_max_is_bucket_edge :: bool
  ws_prompt_requests :: "f64 option"
  ws_context_len :: "f64 option"
  ws_cache_hit_pct :: "f64 option"
  ws_spec_by_level :: "(u64 \<times> f64) list"
  ws_prefill_time_pct :: "f64 option"
  ws_rejects :: "LaneRejects list"
  ws_gate_absent :: bool
  ws_growth :: "Growth option"
  ws_wh_per_mtok :: "f64 option"
  ws_gen_tokens :: "f64 option"
  ws_throttle :: "GpuThrottle list"
  ws_saturation :: "Saturation option"
  ws_saturation_levels :: u64
  ws_saturation_from_bench :: bool
  ws_targets :: "TargetsStatus option"

record AdviceConfig =
  av_slots_full_watch_pct :: f64
  av_slots_full_act_pct :: f64
  av_queue_watch_pct :: f64
  av_queue_act_pct :: f64
  av_kv_low_pct :: f64
  av_kv_watch_pct :: f64
  av_kv_act_pct :: f64
  av_cache_low_pct :: f64
  av_evictions_watch_per_hour :: f64
  av_spec_low_accept :: f64
  av_spec_drop_pct :: f64
  av_context_unused_pct :: f64
  av_rejects_watch_per_day :: f64
  av_rejects_act_per_day :: f64
  av_growth_watch_pct :: f64
  av_throttle_watch_pct :: f64
  av_throttle_act_pct :: f64
  av_prefill_heavy_pct :: f64

definition advice_config_default :: AdviceConfig where
  "advice_config_default = \<lparr>av_slots_full_watch_pct = F_Fin 5, av_slots_full_act_pct = F_Fin 20,
     av_queue_watch_pct = F_Fin 2, av_queue_act_pct = F_Fin 10, av_kv_low_pct = F_Fin 30,
     av_kv_watch_pct = F_Fin 80, av_kv_act_pct = F_Fin 95, av_cache_low_pct = F_Fin 20,
     av_evictions_watch_per_hour = F_Fin 1000000, av_spec_low_accept = F_Fin (3 / 2), av_spec_drop_pct = F_Fin 25,
     av_context_unused_pct = F_Fin 50, av_rejects_watch_per_day = F_Fin 5, av_rejects_act_per_day = F_Fin 50,
     av_growth_watch_pct = F_Fin 50, av_throttle_watch_pct = F_Fin 1, av_throttle_act_pct = F_Fin 10,
     av_prefill_heavy_pct = F_Fin 60\<rparr>"

section \<open>Words for numbers\<close>

definition span :: "string \<Rightarrow> string" where
  "span name = (if name = ''24h'' then ''the last 24 hours'' else if name = ''7d'' then ''the week''
     else if name = ''30d'' then ''the last 30 days'' else ''the period'')"

definition adv_pct :: "f64 \<Rightarrow> string" where
  "adv_pct v = (if f_lt v (f_lit (5 / 100)) then ''0%''
     else if f_lt v (F_Fin 10) then fmt_fixed 1 v @ ''%'' else fmt_fixed 0 v @ ''%'')"

text \<open>\<open>replace(".0M", "M")\<close>: the pattern can only stand at the end.\<close>

definition millions :: "f64 \<Rightarrow> string" where
  "millions v =
    (let s = fmt_fixed 1 (f_div v (F_Fin 1000000)) @ ''M''
     in if ends_with s ''.0M'' then take (length s - 3) s @ ''M'' else s)"

definition adv_tokens :: "f64 \<Rightarrow> string" where
  "adv_tokens v =
    (if f_ge v (F_Fin 1000000) then millions v
     else if f_ge v (F_Fin 10000) then fmt_fixed 0 (f_div v (F_Fin 1000)) @ ''k''
     else if f_ge v (F_Fin 1000) then fmt_fixed 1 (f_div v (F_Fin 1000)) @ ''k''
     else fmt_fixed 0 v)"

definition adv_secs :: "f64 \<Rightarrow> string" where
  "adv_secs ms =
    (if f_ge ms (F_Fin 10000) then fmt_fixed 0 (f_div ms (F_Fin 1000)) @ '' s''
     else if f_ge ms (F_Fin 1000) then fmt_fixed 1 (f_div ms (F_Fin 1000)) @ '' s''
     else fmt_fixed 0 ms @ '' ms'')"

definition adv_level :: "f64 \<Rightarrow> f64 \<Rightarrow> f64 \<Rightarrow> AdviceSeverity" where
  "adv_level v watch act = (if f_ge v act then AS_Act else if f_ge v watch then AS_Watch else AS_Fine)"

definition plural :: "bool \<Rightarrow> string" where
  "plural one = (if one then [] else ''s'')"

definition finding :: "WindowStats \<Rightarrow> string \<Rightarrow> AdviceSeverity \<Rightarrow> string \<Rightarrow> f64 option \<Rightarrow> string \<Rightarrow> string \<Rightarrow> Finding" where
  "finding w rule sev sentence value unit points =
    \<lparr>fd_rule = rule, fd_severity = sev, fd_window = ws_name w, fd_sentence = sentence, fd_value = value,
     fd_unit = unit, fd_points_at = points\<rparr>"

text \<open>A rule that watches or is fine, and points somewhere only when it watches.\<close>

definition watch_if :: "bool \<Rightarrow> AdviceSeverity" where
  "watch_if c = (if c then AS_Watch else AS_Fine)"

definition said_if :: "bool \<Rightarrow> string \<Rightarrow> string" where
  "said_if c s = (if c then s else [])"

section \<open>Slots, queue and memory\<close>

definition MORE_SLOTS :: string where "MORE_SLOTS = ''max-running-requests / a second server''"

fun slots_tail :: "AdviceSeverity \<Rightarrow> string" where
  "slots_tail AS_Fine = ''no capacity problem''"
| "slots_tail AS_Watch = ''getting close to full; keep an eye on it''"
| "slots_tail AS_Act = ''more slots (if memory allows) or a second server''"

definition rule_slots :: "WindowStats \<Rightarrow> AdviceConfig \<Rightarrow> Finding list" where
  "rule_slots w cfg =
    (case ws_slots_full_pct w of None \<Rightarrow> []
     | Some v \<Rightarrow>
        if ws_slots w = 0 then []
        else
          (let sev = adv_level v (av_slots_full_watch_pct cfg) (av_slots_full_act_pct cfg)
           in [finding w ''slots_saturated'' sev
                (''All '' @ show_nat (ws_slots w) @ '' slots were busy '' @ adv_pct v @ '' of '' @ span (ws_name w) @
                 '' - '' @ slots_tail sev @ ''.'')
                (Some v) ''%'' (said_if (sev \<noteq> AS_Fine) MORE_SLOTS)]))"

fun queue_tail :: "AdviceSeverity \<Rightarrow> string" where
  "queue_tail AS_Fine = '' - nobody is being held up.''"
| "queue_tail AS_Watch = '' - starting to queue at busy moments.''"
| "queue_tail AS_Act = '' - consider more slots or a second server.''"

definition rule_queue :: "WindowStats \<Rightarrow> AdviceConfig \<Rightarrow> Finding list" where
  "rule_queue w cfg =
    (case ws_queue_pct w of None \<Rightarrow> []
     | Some v \<Rightarrow>
        (let sev = adv_level v (av_queue_watch_pct cfg) (av_queue_act_pct cfg);
             wait = some_or [] (map_option (\<lambda>ms. '', p95 wait '' @ adv_secs ms) (keep positive (ws_queue_wait_p95_ms w)))
         in [finding w ''queue_wait'' sev
              (''Requests waited in line '' @ adv_pct v @ '' of the time'' @ wait @ queue_tail sev)
              (Some v) ''%'' (said_if (sev \<noteq> AS_Fine) MORE_SLOTS)]))"

definition MORE_MEMORY :: string where "MORE_MEMORY = ''max-running-requests / context-length / more GPU memory''"

definition kv_words :: "f64 \<Rightarrow> f64 \<Rightarrow> string \<Rightarrow> AdviceSeverity \<Rightarrow> AdviceConfig \<Rightarrow> string \<times> string" where
  "kv_words peak retracted p95 sev cfg =
    (if positive retracted then
       (''Memory (KV) ran out: the engine paused and re-queued requests '' @ adv_pct retracted @ '' of the time, peak use '' @
        adv_pct peak @ p95 @ '' - allow fewer simultaneous users or a shorter context, or add GPU memory.'', MORE_MEMORY)
     else if sev \<noteq> AS_Fine then
       (''Memory (KV) peaked at '' @ adv_pct peak @ p95 @
        '' - close to the limit; more users or longer prompts will start pausing requests.'', MORE_MEMORY)
     else if f_lt peak (av_kv_low_pct cfg) then
       (''Memory (KV) never passed '' @ adv_pct peak @ p95 @ '' - you could allow more simultaneous users.'',
        ''max-running-requests (raise)'')
     else (''Memory (KV) peaked at '' @ adv_pct peak @ p95 @ '' - comfortable.'', []))"

definition rule_kv :: "WindowStats \<Rightarrow> AdviceConfig \<Rightarrow> Finding list" where
  "rule_kv w cfg =
    (case ws_kv_peak_pct w of None \<Rightarrow> []
     | Some peak \<Rightarrow>
        (let retracted = some_or (F_Fin 0) (ws_retracted_pct w);
             sev = (if positive retracted then AS_Act else adv_level peak (av_kv_watch_pct cfg) (av_kv_act_pct cfg));
             p95 = some_or [] (map_option (\<lambda>p. '' (p95 '' @ adv_pct p @ '')'') (ws_kv_p95_pct w));
             (sentence, points) = kv_words peak retracted p95 sev cfg
         in [finding w ''kv_pressure'' sev sentence (Some peak) ''%'' points]))"

definition rule_prompts :: "WindowStats \<Rightarrow> AdviceConfig \<Rightarrow> Finding list" where
  "rule_prompts w cfg =
    (let enough = (case ws_prompt_requests w of None \<Rightarrow> True | Some n \<Rightarrow> f_ge n MIN_PROMPT_REQUESTS)
     in case (ws_prompt_max w, keep positive (ws_context_len w)) of
          (Some longest, Some ctx) \<Rightarrow>
            if enough then
              (let share = f_mul (f_div longest ctx) (F_Fin 100);
                   upto = said_if (ws_prompt_max_is_bucket_edge w) ''at most '';
                   typical = (case (ws_prompt_p50 w, ws_prompt_p95 w) of
                     (Some a, Some b) \<Rightarrow> '' (typical '' @ adv_tokens a @ '', p95 '' @ adv_tokens b @ '')'' | _ \<Rightarrow> []);
                   oversized = f_lt share (av_context_unused_pct cfg);
                   tail = said_if oversized '' - the context is larger than anyone uses; a smaller one would free memory for more users''
               in [finding w ''prompt_sizes'' (watch_if oversized)
                    (''Longest real prompt was '' @ upto @ adv_tokens longest @ '' tokens of the '' @ adv_tokens ctx @
                     '' reserved'' @ typical @ tail @ ''.'')
                    (Some longest) ''tokens'' (said_if oversized ''context-length (lower)'')])
            else []
        | _ \<Rightarrow> [])"

definition evicted_count :: "f64 \<Rightarrow> string" where
  "evicted_count v =
    (if f_ge v (F_Fin 1000000) then fmt_fixed 1 (f_div v (F_Fin 1000000)) @ ''M''
     else if f_ge v (F_Fin 1000) then fmt_fixed 0 (f_div v (F_Fin 1000)) @ ''k''
     else fmt_fixed 0 v)"

definition rule_evictions :: "WindowStats \<Rightarrow> AdviceConfig \<Rightarrow> Finding list" where
  "rule_evictions w cfg =
    (let over = some_or (ws_covered_secs w) (ws_evicted_secs w); sp = span (ws_name w)
     in case keep (\<lambda>_. 0 < over) (ws_evicted_tokens w) of None \<Rightarrow> []
      | Some evicted \<Rightarrow>
          (let per_hour = f_div evicted (f_div (f_of_int over) (F_Fin 3600))
           in if f_le evicted (F_Fin 0) then
                [finding w ''evictions'' AS_Fine
                  (''Nothing was thrown out of memory (KV) in '' @ sp @ '' - everything it had read stayed available for reuse.'')
                  (Some (F_Fin 0)) ''tok/h'' []]
              else
                (let heavy = f_ge per_hour (av_evictions_watch_per_hour cfg);
                     tail = (if heavy then '' - repeated prompts are being read again instead of reused; more memory for the cache would speed them up''
                       else '' - normal housekeeping at this rate'')
                 in [finding w ''evictions'' (watch_if heavy)
                      (''Memory (KV) threw out '' @ evicted_count evicted @ '' tokens of remembered text in '' @ sp @
                       '' to make room (about '' @ evicted_count per_hour @ '' per hour)'' @ tail @ ''.'')
                      (Some (f_round per_hour)) ''tok/h''
                      (said_if heavy ''mem-fraction-static (higher) / context-length (lower) / more GPU memory'')])))"

section \<open>Cache, drafting and the split of the time\<close>

definition rule_cache :: "WindowStats \<Rightarrow> AdviceConfig \<Rightarrow> Finding list" where
  "rule_cache w cfg =
    (case ws_cache_hit_pct w of None \<Rightarrow> []
     | Some v \<Rightarrow>
        (let low = f_lt v (av_cache_low_pct cfg);
             sentence = (if low then ''Only '' @ adv_pct v @
                 '' of prompt tokens came from the prefix cache - prompts rarely repeat, so reading speed (prefill) matters most here.''
               else adv_pct v @ '' of prompt tokens came from the prefix cache - repeated context is nearly free.'')
         in [finding w ''cache_reuse'' (watch_if low) sentence (Some v) ''%'' (said_if low ''prefill speed / cache size'')]))"

definition spec_levels :: "WindowStats \<Rightarrow> (u64 \<times> f64) list" where
  "spec_levels w = sort_key fst (filter (\<lambda>(n, a). 0 < n \<and> is_finite a \<and> positive a) (ws_spec_by_level w))"

definition rule_drafting :: "WindowStats \<Rightarrow> AdviceConfig \<Rightarrow> Finding list" where
  "rule_drafting w cfg =
    (case spec_levels w of [] \<Rightarrow> []
     | (n1, a1) # rest \<Rightarrow>
        (let (n2, a2) = last ((n1, a1) # rest);
             drop_pct = (if n1 \<noteq> n2 \<and> positive a1 then f_mul (f_div (f_sub a1 a2) a1) (F_Fin 100) else F_Fin 0);
             out = (\<lambda>sev sentence points. [finding w ''spec_decoding'' sev sentence (Some a1) ''tokens/step'' points])
         in if f_lt a1 (av_spec_low_accept cfg) then
              out AS_Act (''Speculative decoding accepts only '' @ fmt_fixed 1 a1 @
                '' tokens per step - the drafter is barely paying for itself; try another drafter or turn it off.'')
                ''speculative-decoding settings''
            else if f_gt drop_pct (av_spec_drop_pct cfg) then
              out AS_Watch (''Speculative decoding accepts '' @ fmt_fixed 1 a1 @ '' tokens per step with '' @ show_nat n1 @
                '' user'' @ plural (n1 = 1) @ '' but '' @ fmt_fixed 1 a2 @ '' with '' @ show_nat n2 @
                '' - it helps less under load; fewer draft tokens may serve a busy server better.'')
                ''speculative-num-draft-tokens''
            else
              out AS_Fine (''Speculative decoding accepts '' @ fmt_fixed 1 a1 @ '' tokens per step - the shortcut is working.'') []))"

definition rule_split :: "WindowStats \<Rightarrow> AdviceConfig \<Rightarrow> Finding list" where
  "rule_split w cfg =
    (case ws_prefill_time_pct w of None \<Rightarrow> []
     | Some v \<Rightarrow>
        (let heavy = f_gt v (av_prefill_heavy_pct cfg);
             sentence = adv_pct v @ (if heavy then '' of request time went into reading prompts - faster prefill would help more than faster decoding.''
               else '' of request time went into reading prompts, the rest into writing - a normal split.'')
         in [finding w ''time_split'' (watch_if heavy) sentence (Some v) ''%''
              (said_if heavy ''prefill speed (chunked-prefill-size, more GPUs)'')]))"

section \<open>The gateway, growth and energy\<close>

definition lane_total :: "LaneRejects \<Rightarrow> nat" where
  "lane_total r = lj_too_busy_429 r + lj_too_large_413 r"

definition window_days :: "WindowStats \<Rightarrow> f64" where
  "window_days w = f_max (f_div (f_of_int (max (ws_covered_secs w) 1)) (F_Fin 86400)) (f_lit (1 / 24))"

definition MOSTLY_BUSY :: string where
  \<open>MOSTLY_BUSY = ''mostly "too busy": raise that lane's limits or add capacity''\<close>

definition lane_finding :: "WindowStats \<Rightarrow> AdviceConfig \<Rightarrow> LaneRejects \<Rightarrow> Finding list" where
  "lane_finding w cfg r =
    (let per_day = f_div (f_of_nat (lane_total r)) (window_days w);
         sev = adv_level per_day (av_rejects_watch_per_day cfg) (av_rejects_act_per_day cfg);
         tail = (if sev = AS_Fine then ''rare enough to ignore''
           else if lj_too_busy_429 r < lj_too_large_413 r then ''mostly oversized prompts: raise that lane's prompt limit if they are legitimate''
           else MOSTLY_BUSY)
     in if lane_total r = 0 then []
        else [finding w ''rejections'' sev
          (''The '' @ lj_lane r @ '' lane turned away '' @ fmt_fixed 0 per_day @ '' request'' @
           plural (f_eq (f_round per_day) (F_Fin 1)) @ '' a day (too busy: '' @ show_nat (lj_too_busy_429 r) @
           '', too large: '' @ show_nat (lj_too_large_413 r) @ '') - '' @ tail @ ''.'')
          (Some per_day) ''per day'' (said_if (sev \<noteq> AS_Fine) ''gateway lane limits'')])"

definition rule_rejections :: "WindowStats \<Rightarrow> AdviceConfig \<Rightarrow> Finding list" where
  "rule_rejections w cfg =
    concat (map (lane_finding w cfg) (ws_rejects w)) @
    (if ws_rejects w \<noteq> [] \<and> list_all (\<lambda>r. lane_total r = 0) (ws_rejects w) \<and> \<not> ws_gate_absent w
     then [finding w ''rejections'' AS_Fine (''The gateway turned nobody away in '' @ span (ws_name w) @ ''.'')
       (Some (F_Fin 0)) ''per day'' []]
     else [])"

definition rule_growth :: "WindowStats \<Rightarrow> AdviceConfig \<Rightarrow> Finding list" where
  "rule_growth w cfg =
    (case keep (\<lambda>g. f_ge (gw_prev_days_covered g) (F_Fin 3) \<and> positive (gw_tokens_per_day_prev g)) (ws_growth w) of
       None \<Rightarrow> []
     | Some g \<Rightarrow>
        (let change = f_mul (f_div (f_sub (gw_tokens_per_day g) (gw_tokens_per_day_prev g)) (gw_tokens_per_day_prev g)) (F_Fin 100);
             fast = f_gt change (av_growth_watch_pct cfg);
             basis = some_or [] (map_option (\<lambda>b. '' ('' @ b @ '')'') (gw_peak_users_basis g))
         in [finding w ''growth'' (watch_if fast)
              (''Tokens per day '' @ (if f_ge change (F_Fin 0) then ''grew'' else ''fell'') @ '' '' @ fmt_fixed 0 (f_abs change) @
               ''% week over week ('' @ adv_tokens (gw_tokens_per_day_prev g) @ '' to '' @ adv_tokens (gw_tokens_per_day g) @
               ''); requests per day '' @ fmt_fixed 0 (gw_requests_per_day_prev g) @ '' to '' @ fmt_fixed 0 (gw_requests_per_day g) @
               ''; most users at once '' @ fmt_fixed 0 (gw_peak_users_prev g) @ '' to '' @ fmt_fixed 0 (gw_peak_users g) @ basis @
               said_if fast '' - at this pace the capacity findings above will change soon'' @ ''.'')
              (Some change) ''%'' (said_if fast ''capacity planning'')]))"

definition rule_energy :: "WindowStats \<Rightarrow> Finding list" where
  "rule_energy w =
    (case keep positive (ws_wh_per_mtok w) of None \<Rightarrow> []
     | Some wh \<Rightarrow>
        (let made = some_or [] (map_option (\<lambda>t. '' ('' @ adv_tokens t @ '' tokens written in '' @ span (ws_name w) @ '')'') (ws_gen_tokens w))
         in [finding w ''energy'' AS_Fine
              (''Energy: '' @ fmt_fixed 0 wh @ '' Wh of GPU power per 1M generated tokens'' @ made @ ''.'') (Some wh) ''Wh/1M tokens'' []]))"

section \<open>Throttling and saturation\<close>

definition gpu_words :: "GpuThrottle \<Rightarrow> string" where
  "gpu_words g = ''GPU'' @ show_nat (gt_index g) @ '' '' @ adv_pct (gt_pct g)"

definition worded_gpus :: "WindowStats \<Rightarrow> GpuThrottle list" where
  "worded_gpus w = filter (\<lambda>g. \<not> gt_excluded g) (ws_throttle w)"

definition rule_throttling :: "WindowStats \<Rightarrow> AdviceConfig \<Rightarrow> Finding list" where
  "rule_throttling w cfg =
    (case max_by_f64 gt_pct (worded_gpus w) of None \<Rightarrow> []
     | Some worst \<Rightarrow>
        if f_ge (gt_pct worst) (av_throttle_watch_pct cfg) then
          (let sev = adv_level (gt_pct worst) (av_throttle_watch_pct cfg) (av_throttle_act_pct cfg);
               others = map gpu_words (filter (\<lambda>g. gt_index g \<noteq> gt_index worst \<and> f_ge (gt_pct g) (av_throttle_watch_pct cfg)) (worded_gpus w))
           in [finding w ''throttling'' sev
                (''GPU'' @ show_nat (gt_index worst) @ '' slowed itself down to stay cool '' @ adv_pct (gt_pct worst) @ '' of '' @
                 span (ws_name w) @ (if others = [] then [] else '' (also '' @ join '', '' others @ '')'') @
                 '' - check airflow and fan curves before buying anything.'')
                (Some (gt_pct worst)) ''%'' ''cooling / airflow''])
        else [finding w ''throttling'' AS_Fine (''No GPU throttled for heat in '' @ span (ws_name w) @ ''.'') (Some (F_Fin 0)) ''%'' []])"

definition upper_first :: "string \<Rightarrow> string" where
  "upper_first s = (case s of [] \<Rightarrow> [] | c # cs \<Rightarrow> to_upper c # cs)"

definition saturation_after :: "WindowStats \<Rightarrow> Saturation \<Rightarrow> u64 \<Rightarrow> Finding" where
  "saturation_after w s users =
    (let solid = (ws_saturation_from_bench w \<or> 3 \<le> ws_saturation_levels w);
         below_slots = (0 < ws_slots w \<and> users < ws_slots w);
         wasted = (below_slots \<and> solid);
         tail = (if wasted then '', but '' @ show_nat (ws_slots w) @ '' are allowed at once - beyond '' @ show_nat users @
                   '' each extra user only slows the others down''
                 else if below_slots then '' in the little traffic seen so far - too few load levels to call it a limit (`lss bench quick` measures it)''
                 else [])
     in finding w ''saturation_point'' (watch_if wasted) (upper_first (saturation_sentence s) @ tail @ ''.'')
          (Some (f_of_nat users)) ''users''
          (said_if wasted ''max-running-requests (lower) / faster GPUs for more throughput''))"

definition rule_saturation :: "WindowStats \<Rightarrow> Finding list" where
  "rule_saturation w =
    (case ws_saturation w of
       Some (SatAfter users tot b) \<Rightarrow> [saturation_after w (SatAfter users tot b) users]
     | Some (StillGrowing users tot) \<Rightarrow>
         [finding w ''saturation_point'' AS_Fine
            (upper_first (saturation_sentence (StillGrowing users tot)) @ '' - there is throughput left.'')
            (Some (f_of_nat users)) ''users'' []]
     | _ \<Rightarrow> [])"

section \<open>The owner's targets\<close>

definition target_pct :: "TargetRow \<Rightarrow> f64 \<Rightarrow> string" where
  "target_pct r v =
    (if tr_key r = ''uptime'' then show_f64 (f_div (f_round (f_mul v (F_Fin 100))) (F_Fin 100)) @ ''%'' else adv_pct v)"

definition target_said :: "TargetRow \<Rightarrow> string" where
  "target_said r =
    (case tr_met_pct r of None \<Rightarrow> ''-'' | Some m \<Rightarrow> target_pct r m) @ '' '' @ tr_label r @ '' (share of '' @ tr_basis r @
    '', goal '' @ target_pct r (tr_goal_pct r) @ '')''"

definition met_or0 :: "TargetRow \<Rightarrow> f64" where
  "met_or0 r = some_or (F_Fin 0) (tr_met_pct r)"

definition target_points :: "string \<Rightarrow> string" where
  "target_points key =
    (if key = ''ttft'' then ''reading speed: chunked-prefill-size / fewer long prompts at once / faster GPUs''
     else if key = ''speed'' then ''max-running-requests (lower) / faster GPUs''
     else if key = ''queue'' then MORE_SLOTS
     else ''reliability: see 9 INCIDENTS for what went down'')"

definition rule_targets :: "WindowStats \<Rightarrow> Finding list" where
  "rule_targets w =
    (case keep targets_measured (ws_targets w) of None \<Rightarrow> []
     | Some t \<Rightarrow>
        (let missed = targets_missed t; met = filter (\<lambda>r. tr_ok r = Some True) (ts_rows t); sp = span (ws_name w)
         in case max_by_f64 (\<lambda>r. f_sub (tr_goal_pct r) (met_or0 r)) missed of
              Some worst \<Rightarrow>
                (let gap = f_sub (tr_goal_pct worst) (met_or0 worst);
                     sev = (if f_ge gap (if tr_key worst = ''uptime'' then F_Fin 1 else F_Fin 10) then AS_Act else AS_Watch);
                     also1 = (if 1 < length missed then '' ('' @ show_nat (length missed - 1) @ '' more missed)'' else [])
                 in [finding w ''targets'' sev (''Target missed in '' @ sp @ '': '' @ target_said worst @ also1 @ ''.'')
                      (tr_met_pct worst) ''%'' (target_points (tr_key worst))])
            | None \<Rightarrow>
                (let tightest = min_by_f64 (\<lambda>r. f_sub (met_or0 r) (tr_goal_pct r)) met
                 in [finding w ''targets'' AS_Fine
                      (''All '' @ show_nat (length met) @ '' targets met in '' @ sp @
                       some_or [] (map_option (\<lambda>r. '' - the closest: '' @ target_said r) tightest) @ ''.'')
                      (Option.bind tightest tr_met_pct) ''%'' []])))"

section \<open>Every finding, ranked\<close>

definition advice_evaluate :: "WindowStats \<Rightarrow> AdviceConfig \<Rightarrow> Finding list" where
  "advice_evaluate w cfg =
    rule_slots w cfg @ rule_queue w cfg @ rule_kv w cfg @ rule_prompts w cfg @ rule_evictions w cfg @
    rule_cache w cfg @ rule_drafting w cfg @ rule_split w cfg @ rule_rejections w cfg @ rule_growth w cfg @
    rule_energy w @ rule_throttling w cfg @ rule_saturation w @ rule_targets w"

fun rule_position :: "string \<Rightarrow> string list \<Rightarrow> usize" where
  "rule_position x [] = 0"
| "rule_position x (y # ys) = (if x = y then 0 else rule_position x ys + 1)"

text \<open>
  \<open>sort_by_key\<close> on the pair (reversed severity, position in \<open>RULES\<close>, past the end for an unknown rule).
\<close>

definition advice_key :: "Finding \<Rightarrow> nat \<times> usize" where
  "advice_key f = (2 - advice_rank (fd_severity f), rule_position (fd_rule f) ADVICE_RULES)"

definition rank_findings :: "Finding list \<Rightarrow> Finding list" where
  "rank_findings fs = sort_key advice_key fs"

record AdviceWindow =
  aw_stats :: WindowStats
  aw_findings :: "Finding list"

record AdviceDoc =
  ad_generated_at :: i64
  ad_windows :: "AdviceWindow list"
  ad_top :: "Finding list"
  ad_thermal_exclude :: "u32 list"

definition advice_window :: "AdviceConfig \<Rightarrow> WindowStats \<Rightarrow> AdviceWindow" where
  "advice_window cfg s = \<lparr>aw_stats = s, aw_findings = rank_findings (advice_evaluate s cfg)\<rparr>"

definition headline_window :: "AdviceWindow list \<Rightarrow> AdviceWindow option" where
  "headline_window ws =
    or_else (find (\<lambda>w. ws_name (aw_stats w) = ''7d'' \<and> 86400 \<le> ws_covered_secs (aw_stats w)) ws)
      (or_else (find (\<lambda>w. ws_name (aw_stats w) = ''24h'') ws) (first_of ws))"

definition advice_build :: "i64 \<Rightarrow> WindowStats list \<Rightarrow> AdviceConfig \<Rightarrow> u32 list \<Rightarrow> AdviceDoc" where
  "advice_build now stats cfg thermal_exclude =
    (let windows = map (advice_window cfg) stats
     in \<lparr>ad_generated_at = now, ad_windows = windows,
         ad_top = some_or [] (map_option (\<lambda>w. take 2 (aw_findings w)) (headline_window windows)),
         ad_thermal_exclude = thermal_exclude\<rparr>)"

text \<open>
  What a finding rests on, and the order they are shown in.
\<close>

section \<open>A finding has its evidence\<close>

text \<open>Per rule, what the window must hold for the rule to speak at all.\<close>

definition evidence :: "WindowStats \<Rightarrow> (string \<times> bool) list" where
  "evidence w =
    [(''slots_saturated'', ws_slots_full_pct w \<noteq> None \<and> 0 < ws_slots w),
     (''queue_wait'', ws_queue_pct w \<noteq> None),
     (''kv_pressure'', ws_kv_peak_pct w \<noteq> None),
     (''evictions'', ws_evicted_tokens w \<noteq> None \<and> 0 < some_or (ws_covered_secs w) (ws_evicted_secs w)),
     (''prompt_sizes'', ws_prompt_max w \<noteq> None \<and> keep positive (ws_context_len w) \<noteq> None \<and>
        (case ws_prompt_requests w of None \<Rightarrow> True | Some n \<Rightarrow> f_ge n (F_Fin 100))),
     (''cache_reuse'', ws_cache_hit_pct w \<noteq> None),
     (''spec_decoding'', \<exists>p \<in> set (ws_spec_by_level w). 0 < fst p \<and> is_finite (snd p) \<and> positive (snd p)),
     (''time_split'', ws_prefill_time_pct w \<noteq> None),
     (''rejections'', ws_rejects w \<noteq> []),
     (''growth'', ws_growth w \<noteq> None),
     (''energy'', keep positive (ws_wh_per_mtok w) \<noteq> None),
     (''throttling'', \<exists>g \<in> set (ws_throttle w). \<not> gt_excluded g),
     (''saturation_point'', ws_saturation w \<noteq> None \<and> ws_saturation w \<noteq> Some NotEnough),
     (''targets'', keep targets_measured (ws_targets w) \<noteq> None)]"

definition backed :: "WindowStats \<Rightarrow> Finding \<Rightarrow> bool" where
  "backed w f \<longleftrightarrow> (fd_rule f, True) \<in> set (evidence w) \<and> fd_window f = ws_name w \<and>
     (fd_severity f \<noteq> AS_Fine \<longrightarrow> fd_points_at f \<noteq> [])"

named_theorems advice_rules

lemma watch_if_fine [simp]: "watch_if c \<noteq> AS_Fine \<longleftrightarrow> c" "watch_if c = AS_Fine \<longleftrightarrow> \<not> c"
  by (simp_all add: watch_if_def)

lemma said_if_simps [simp]: "said_if True s = s" "said_if False s = []"
  by (simp_all add: said_if_def)

lemma backed_finding:
  "backed w (finding w rule sev sentence value unit points) \<longleftrightarrow>
    (rule, True) \<in> set (evidence w) \<and> (sev \<noteq> AS_Fine \<longrightarrow> points \<noteq> [])"
  by (simp add: backed_def finding_def)

lemma slots_backed [advice_rules]: "list_all (backed w) (rule_slots w cfg)"
  by (auto simp: rule_slots_def Let_def backed_finding evidence_def MORE_SLOTS_def said_if_def split: option.split)

lemma queue_backed [advice_rules]: "list_all (backed w) (rule_queue w cfg)"
  by (auto simp: rule_queue_def Let_def backed_finding evidence_def MORE_SLOTS_def said_if_def split: option.split)

lemma kv_words_points:
  "kv_words peak retracted p95 sev cfg = (sentence, points) \<Longrightarrow> positive retracted \<or> sev \<noteq> AS_Fine \<Longrightarrow> points \<noteq> []"
  by (auto simp: kv_words_def MORE_MEMORY_def split: if_splits)

lemma kv_backed [advice_rules]: "list_all (backed w) (rule_kv w cfg)"
  using kv_words_points by (fastforce simp: rule_kv_def Let_def backed_finding evidence_def split: option.split prod.split)

lemma prompts_backed [advice_rules]: "list_all (backed w) (rule_prompts w cfg)"
  by (auto simp: rule_prompts_def Let_def backed_finding evidence_def MIN_PROMPT_REQUESTS_def
      split: option.split)

lemma evictions_backed [advice_rules]: "list_all (backed w) (rule_evictions w cfg)"
  by (auto simp: rule_evictions_def Let_def backed_finding evidence_def keep_def split: option.splits if_splits)

lemma cache_backed [advice_rules]: "list_all (backed w) (rule_cache w cfg)"
  by (auto simp: rule_cache_def Let_def backed_finding evidence_def split: option.split)

lemma spec_levels_measured:
  "spec_levels w \<noteq> [] \<Longrightarrow> \<exists>p \<in> set (ws_spec_by_level w). 0 < fst p \<and> is_finite (snd p) \<and> positive (snd p)"
proof -
  assume "spec_levels w \<noteq> []"
  then obtain p where "p \<in> set (spec_levels w)" by (cases "spec_levels w") auto
  then show ?thesis by (force simp: spec_levels_def)
qed

lemma spec_backed [advice_rules]: "list_all (backed w) (rule_drafting w cfg)"
  using spec_levels_measured [of w]
  by (auto simp: rule_drafting_def Let_def backed_finding evidence_def split: list.split prod.split)

lemma split_backed [advice_rules]: "list_all (backed w) (rule_split w cfg)"
  by (auto simp: rule_split_def Let_def backed_finding evidence_def split: option.split)

lemma rejections_backed [advice_rules]: "list_all (backed w) (rule_rejections w cfg)"
  by (auto simp: rule_rejections_def lane_finding_def Let_def backed_finding evidence_def list_all_iff said_if_def)

lemma growth_backed [advice_rules]: "list_all (backed w) (rule_growth w cfg)"
  by (auto simp: rule_growth_def Let_def backed_finding evidence_def keep_def split: option.splits)

lemma energy_backed [advice_rules]: "list_all (backed w) (rule_energy w)"
  by (auto simp: rule_energy_def Let_def backed_finding evidence_def split: option.split)

lemma max_by_in: "max_by_f64 f xs = Some x \<Longrightarrow> x \<in> set xs"
proof -
  have "foldl (\<lambda>best x. case best of None \<Rightarrow> Some x | Some b \<Rightarrow> if total_le (f b) (f x) then Some x else Some b) acc xs = Some x
      \<Longrightarrow> x \<in> set xs \<or> acc = Some x" for acc
    by (induction xs arbitrary: acc) (auto split: option.splits if_splits)
  then show "max_by_f64 f xs = Some x \<Longrightarrow> x \<in> set xs" unfolding max_by_f64_def by blast
qed

lemma throttling_backed [advice_rules]: "list_all (backed w) (rule_throttling w cfg)"
proof (cases "max_by_f64 gt_pct (worded_gpus w)")
  case (Some worst)
  then have "worst \<in> set (ws_throttle w)" "\<not> gt_excluded worst"
    using max_by_in [OF Some] by (auto simp: worded_gpus_def)
  then have "(''throttling'', True) \<in> set (evidence w)" by (auto simp: evidence_def)
  then show ?thesis by (simp add: rule_throttling_def Some Let_def backed_finding)
qed (simp add: rule_throttling_def)

lemma saturation_backed [advice_rules]: "list_all (backed w) (rule_saturation w)"
  by (auto simp: rule_saturation_def saturation_after_def Let_def backed_finding evidence_def
      split: option.split Saturation.split)

lemma target_points_ne: "target_points key \<noteq> []"
  by (simp add: target_points_def MORE_SLOTS_def)

lemma targets_backed [advice_rules]: "list_all (backed w) (rule_targets w)"
  by (auto simp: rule_targets_def Let_def backed_finding evidence_def target_points_ne split: option.split)

lemma evaluate_backed: "list_all (backed w) (advice_evaluate w cfg)"
  by (simp add: advice_evaluate_def advice_rules)

section \<open>The order they are shown in\<close>

lemma rank_findings_order:
  "mset (rank_findings fs) = mset fs" "sorted (map advice_key (rank_findings fs))"
  "filter (\<lambda>f. advice_key f = k) (rank_findings fs) = filter (\<lambda>f. advice_key f = k) fs"
  unfolding rank_findings_def by (simp_all add: sort_key_stable)

lemma advice_key_severity: "advice_key f \<le> advice_key g \<Longrightarrow> fd_severity g \<le> fd_severity f"
  by (cases "fd_severity f"; cases "fd_severity g") (auto simp: advice_key_def less_eq_AdviceSeverity_def)

lemma sorted_take_drop:
  "sorted (map k xs) \<Longrightarrow> x \<in> set (take n xs) \<Longrightarrow> y \<in> set (drop n xs) \<Longrightarrow> k x \<le> k y"
proof -
  assume s: "sorted (map k xs)" "x \<in> set (take n xs)" "y \<in> set (drop n xs)"
  have "map k xs = map k (take n xs) @ map k (drop n xs)" by (metis append_take_drop_id map_append)
  then show "k x \<le> k y" using s by (metis sorted_append imageI list.set_map)
qed

end
