(* ===== verification/CardClaims.thy ===== *)
theory CardClaims
  imports CompareFacts Advice
begin

text \<open>
  The properties of the scorecards, of their comparison and of the advice.
\<close>

section \<open>The benchmark's own prompt and its follower\<close>

text \<open>C13. the loop that builds the needle's prompt ends for every size and depth, and the prompt it returns holds
  the needle sentence no earlier than the depth asked for, in the first place between two notes (or after the
  introduction) from there on.
\<close>

theorem needle_prompt_ends:
  "\<exists>pre post. needle_prompt tokens depth = Some (pre @ NEEDLE @ post) \<and> needle_at tokens depth \<le> length pre \<and>
     (pre = PROMPT_INTRO \<or> (\<exists>p i. pre = p @ note_line i \<and> length p < needle_at tokens depth))"
  using needle_prompt_shape unfolding reaches_def .

text \<open>\<open>lss bench\<close> never watches for ever a collector that is done: after 61 answers in a row of which none says
  that a run is going, the command has ended with an exit code, whatever those answers hold.
\<close>

theorem follower_ends:
  assumes "list_all (\<lambda>a. \<not> says_running a) answers" "61 \<le> length answers" "0 \<le> waited"
  shows "\<exists>code. follow_run run_id (waiting, waited) answers = Inl code"
  using follow_run_gives_up [of answers "(waiting, waited)"] assms by simp

definition idle_doc :: BenchDoc where
  "idle_doc = \<lparr>bd_generated_at = 100, bd_brief = \<lparr>bb_state = ''idle'', bb_profile = None, bb_started_at = None, bb_step = None,
     bb_step_index = 0, bb_steps = 0, bb_last = None, bb_configured = True, bb_builtin = False\<rparr>, bd_runs = []\<rparr>"

lemma follower_ends_witness:
  "\<exists>code. follow_run (Some 7) (None, 0) (replicate 61 (Inr idle_doc)) = Inl code"
  by (rule follower_ends) (simp_all add: list_all_iff says_running_def idle_doc_def)

text \<open>C27. a document that is older than what happened is "not yet", never "done": the command exits 0 only when an
  answer that does not say "running" lists this very run as complete; and a run whose documents are stale for
  up to two minutes before it shows and after it ended is followed to its scorecard and its exit code.
\<close>

theorem follower_waits_for_the_run:
  "(follow_bench run_id answers = Inl 0 \<longrightarrow>
      (\<exists>a \<in> set answers. \<exists>run. lists_run run_id a run \<and> card_complete run)) \<and>
   (list_all (stale run_id g) early \<and> length early \<le> 60 \<and> list_all says_running ups \<and> ups \<noteq> [] \<and>
      list_all (stale run_id h) late \<and> length late \<le> 60 \<and> \<not> says_running (Inr d) \<and>
      find (\<lambda>r. Some (sc_run_id r) = run_id) (bd_runs d) = Some run \<longrightarrow>
    follow_bench run_id (early @ ups @ late @ [Inr d]) = Inl (exit_of (card_complete run)))"
  using follow_run_done follow_run_whole unfolding follow_bench_def by blast

definition run_7 :: Scorecard where
  "run_7 = \<lparr>sc_run_id = 7, sc_loadout_id = [], sc_model = ''m'', sc_profile = ''quick'', sc_started_at = 0, sc_ended_at = 90,
     sc_duration_s = 90, sc_duration_ms = None, sc_status = ''ok'', sc_aborted = None, sc_forced = False,
     sc_under_load = False, sc_background = None, sc_note = [], sc_harness_version = [], sc_harness_commit = [],
     sc_target = [], sc_decode = [\<lparr>dc_concurrency = 1, dc_context = 0, dc_per_user_tok_s = F_Fin 50, dc_total_tok_s = F_Fin 50,
       dc_ttft_ms = None, dc_errors = 0, dc_capacity_limited = False\<rparr>],
     sc_prefill = [], sc_sanity = [], sc_needle = [], sc_accept_length = None, sc_accept_rate = None, sc_kv_tokens = None,
     sc_tokens_per_joule = None, sc_wh_per_mtok = None, sc_avg_watts = None, sc_garbled = None, sc_accuracy = [], sc_raw_dir = []\<rparr>"

definition running_doc :: BenchDoc where
  "running_doc = idle_doc\<lparr>bd_brief := (bd_brief idle_doc)\<lparr>bb_state := ''running''\<rparr>\<rparr>"

definition listed_doc :: BenchDoc where "listed_doc = idle_doc\<lparr>bd_runs := [run_7]\<rparr>"

lemma follower_waits_for_the_run_witness:
  "follow_bench (Some 7) ([Inr idle_doc] @ [Inr running_doc] @ [Inr idle_doc] @ [Inr listed_doc]) = Inl 0 \<and>
   (\<exists>a \<in> set [Inr idle_doc, Inr running_doc, Inr idle_doc, Inr listed_doc]. \<exists>run. lists_run (Some 7) a run \<and> card_complete run)"
proof -
  note w = follower_waits_for_the_run
    [of "Some 7" "[Inr idle_doc, Inr running_doc, Inr idle_doc, Inr listed_doc]" 100 "[Inr idle_doc]" "[Inr running_doc]"
      100 "[Inr idle_doc]" listed_doc run_7]
  have e: "follow_bench (Some 7) ([Inr idle_doc] @ [Inr running_doc] @ [Inr idle_doc] @ [Inr listed_doc]) = Inl 0"
    using w by (simp add: stale_def says_running_def idle_doc_def running_doc_def listed_doc_def run_7_def
        exit_of_def card_complete_def)
  then show ?thesis using w by simp
qed

section \<open>Comparing runs\<close>

text \<open>C29. two runs are only compared when what else the server did is known for both and alike: the rule is
  symmetric, no run with an unrecorded load is ever comparable, a run is comparable with one of the same
  recorded load, and a quiet server never with one steady other user.
\<close>

theorem only_like_loads_compare:
  "(load_gap a b = None \<longleftrightarrow> load_gap b a = None) \<and>
   (card_load_class a = LC_Unknown \<longrightarrow> load_gap a b \<noteq> None) \<and>
   (card_load_class a \<noteq> LC_Unknown \<and> card_load_class b \<noteq> LC_Unknown \<and>
      sc_background a = Some ba \<and> sc_background b = Some bb \<and>
      bl_concurrent_avg ba = Some na \<and> bl_concurrent_avg bb = Some nb \<longrightarrow>
      (na = nb \<longrightarrow> load_gap a b = None) \<and> (na = F_Fin 0 \<and> f_ge nb (F_Fin 1) \<longrightarrow> load_gap a b \<noteq> None))"
proof (intro conjI impI)
  show "load_gap a b = None \<longleftrightarrow> load_gap b a = None"
    unfolding load_gap_none using share_gap_swap by metis
qed (auto simp: load_gap_none share_gap_same share_gap_quiet_busy)

definition calm_load :: BackgroundLoad where
  "calm_load = \<lparr>bl_samples = 150, bl_polls_with_traffic = 0, bl_concurrent_avg = Some (F_Fin 0),
     bl_concurrent_max = Some (F_Fin 0), bl_source = LOAD_SRC_USERS, bl_queue_avg = F_Fin 0, bl_queue_max = F_Fin 0,
     bl_engine_tok_s = None\<rparr>"

definition busy_load :: BackgroundLoad where
  "busy_load = calm_load\<lparr>bl_polls_with_traffic := 150, bl_concurrent_avg := Some (F_Fin 1), bl_concurrent_max := Some (F_Fin 1)\<rparr>"

lemma load_classes:
  "card_load_class (run_7\<lparr>sc_background := Some calm_load\<rparr>) = LC_Quiet"
  "card_load_class (run_7\<lparr>sc_background := Some busy_load\<rparr>) = LC_Loaded"
  by (simp_all add: card_load_class_def load_class_def source_rank_def calm_load_def busy_load_def run_7_def
      LOAD_SRC_USERS_def HALF_def Let_def)

lemma only_like_loads_compare_witness:
  "load_gap (run_7\<lparr>sc_background := Some calm_load\<rparr>) (run_7\<lparr>sc_background := Some busy_load\<rparr>) \<noteq> None \<and>
   load_gap (run_7\<lparr>sc_background := Some calm_load\<rparr>) (run_7\<lparr>sc_background := Some calm_load\<rparr>) = None \<and>
   load_gap run_7 (run_7\<lparr>sc_background := Some calm_load\<rparr>) \<noteq> None"
proof (intro conjI)
  let ?q = "run_7\<lparr>sc_background := Some calm_load\<rparr>" and ?b = "run_7\<lparr>sc_background := Some busy_load\<rparr>"
  have avg: "bl_concurrent_avg calm_load = Some (F_Fin 0)" "bl_concurrent_avg busy_load = Some (F_Fin 1)"
    by (simp_all add: calm_load_def busy_load_def)
  show "load_gap ?q ?b \<noteq> None"
    using only_like_loads_compare [of ?q ?b calm_load busy_load "F_Fin 0" "F_Fin 1"] avg by (auto simp: load_classes)
  show "load_gap ?q ?q = None"
    using only_like_loads_compare [of ?q ?q calm_load calm_load "F_Fin 0" "F_Fin 0"] avg by (simp add: load_classes)
  have "card_load_class run_7 = LC_Unknown" by (simp add: card_load_class_def run_7_def)
  then show "load_gap run_7 ?q \<noteq> None" using only_like_loads_compare by blast
qed

lemma upper_ok: "map to_upper ''ok'' = ''OK''"
  by code_simp

text \<open>the headline of a run says a bare OK exactly when the measurement completed and every sanity check and
  every needle depth passed; the calm colour of the status page follows the same rule.
\<close>

theorem ok_means_every_check_passed:
  assumes "sc_status s \<in> {''ok'', ''aborted'', ''failed'', ''timeout''}"
  shows "(card_verdict s = ''OK'' \<longleftrightarrow>
      card_complete s \<and> list_all ck_pass (sc_sanity s) \<and> list_all nd_pass (sc_needle s)) \<and>
    (last_clean (last_run_of s) \<longleftrightarrow> card_verdict s = ''OK'')"
  using assms upper_ok
  by (auto simp: card_verdict_def run_verdict_ok card_complete_def failed_checks_empty last_clean_def last_run_of_def)

lemma ok_means_every_check_passed_witness:
  "card_verdict run_7 = ''OK'' \<and> card_verdict (run_7\<lparr>sc_sanity := [check_fail ''json output'' []]\<rparr>) \<noteq> ''OK''"
  using ok_means_every_check_passed [of run_7]
    ok_means_every_check_passed [of "run_7\<lparr>sc_sanity := [check_fail ''json output'' []]\<rparr>"]
  by (simp add: run_7_def card_complete_def check_fail_def)

text \<open>laying a scorecard over the live curve keeps the rows in order of their level, has exactly the levels of
  both, one row each, and every level the bench measured shows the bench's speeds and says so; the others stay
  the live rows they were.
\<close>

theorem bench_rows_win:
  assumes "distinct (map cr_running live)"
  shows "sorted (map cr_running (merge_curve live (Some s))) \<and> distinct (map cr_running (merge_curve live (Some s))) \<and>
    set (map cr_running (merge_curve live (Some s))) = set (map cr_running live) \<union> set (map cr_running (card_curve_rows s)) \<and>
    (\<forall>r \<in> set (merge_curve live (Some s)).
       case card_cell s (cr_running r) 0 of
         Some c \<Rightarrow> cr_source r = ''bench'' \<and> cr_tok_s r = Some (dc_total_tok_s c) \<and>
           cr_per_request_tok_s r = Some (dc_per_user_tok_s c) \<and> cr_ttft_ms r = dc_ttft_ms c
       | None \<Rightarrow> r \<in> set live)"
proof (intro conjI ballI)
  fix r assume "r \<in> set (merge_curve live (Some s))"
  from merge_curve_rows [OF this] show "case card_cell s (cr_running r) 0 of
      Some c \<Rightarrow> cr_source r = ''bench'' \<and> cr_tok_s r = Some (dc_total_tok_s c) \<and>
        cr_per_request_tok_s r = Some (dc_per_user_tok_s c) \<and> cr_ttft_ms r = dc_ttft_ms c
    | None \<Rightarrow> r \<in> set live"
    by (simp add: bench_speeds_def split: option.splits)
qed (use merge_curve_levels [of live "Some s"] assms in simp_all)

lemma bench_rows_win_witness:
  "sorted (map cr_running (merge_curve [curve_row [] 1, curve_row [] 2] (Some run_7))) \<and>
   set (map cr_running (merge_curve [curve_row [] 1, curve_row [] 2] (Some run_7))) = {1, 2}"
  using bench_rows_win [of "[curve_row [] 1, curve_row [] 2]" run_7]
  by (simp add: curve_row_def Let_def card_curve_rows_def decode_row_def run_7_def insert_commute)

section \<open>Two loadouts side by side\<close>

text \<open>like is only compared with like. A row with a delta or a mark has both numbers from the benchmark, or both
  from live traffic (and then one side at least has no benchmark number for it); when the two runs carried
  different loads, no row that came from the benchmark keeps a delta or a mark, and the live rows are untouched.
\<close>

theorem like_is_compared_with_like:
  "like_with_like pa pb (compare_row category label unit higher pa pb) \<and>
   (cards_load_gap a b \<noteq> None \<and> r \<in> set (judged_rows a b) \<longrightarrow>
      (cp_source r = ''bench'' \<longrightarrow> cp_mark r = MK_Incomparable \<and> cp_delta_pct r = None) \<and>
      (cp_source r \<noteq> ''bench'' \<longrightarrow> r \<in> set (compare_rows a b)))"
  using compare_row_like judged_rows_withdrawn by blast

text \<open>C14. read from the other side, a comparison has the same rows in the same order with the numbers exchanged,
  and no row contradicts itself: what is better one way is worse or within the noise the other way, and a row
  is without a pair, or incomparable, both ways or not at all.
\<close>

theorem marks_never_contradict:
  "list_all2 mirrors (cm_rows (compare_loadouts x a y b)) (cm_rows (compare_loadouts y b x a))"
  using judged_rows_mirror [of a b] by (simp add: compare_loadouts_def Let_def)

text \<open>C28. "A is faster than B (...)" is only said when a row of the category is marked better, none is marked worse,
  and the row it names has the biggest difference of those that are better.
\<close>

theorem verdict_rests_on_its_rows:
  assumes "rows = filter (\<lambda>r. cp_category r = category) (judged_rows a b)" "ruling rows warned = R_Wins r"
  shows "r \<in> set rows \<and> cp_mark r = MK_Better \<and> list_all (\<lambda>q. cp_mark q \<noteq> MK_Worse) rows \<and>
    list_all (\<lambda>q. cp_mark q = MK_Better \<longrightarrow> f_le (abs_delta q) (abs_delta r)) rows \<and>
    ruling_sentence category x y (R_Wins r) =
      x @ '' is '' @ fst (better_words category) @ '' than '' @ y @ '' ('' @ amount r @ '')''"
proof -
  have "list_all row_delta_ok rows"
    using judged_rows_delta [of a b] unfolding assms(1) by (auto simp: list_all_iff)
  from ruling_wins [OF assms(2) this] show ?thesis by simp
qed

definition read_at :: "f64 \<Rightarrow> LoadoutCard" where
  "read_at v = \<lparr>lc_row = (loadout_row (loadout_identity id ''m'' ''img:1'' [] []) acc_default 0 True)\<lparr>lr_prefill_tok_s := Some v\<rparr>,
     lc_quick = None, lc_full = None, lc_accuracy = [], lc_last_quick_at = None, lc_last_full_at = None,
     lc_last_accuracy_at = None, lc_headroom = None\<rparr>"

lemma row_category [simp]: "cp_category (compare_row category label unit higher pa pb) = category"
  by (simp add: compare_row_def case_prod_beta Let_def)

lemma read_at_rows:
  "filter (\<lambda>r. cp_category r = ''reading_speed'') (judged_rows (read_at x) (read_at y)) =
    [compare_row ''reading_speed'' ''reading an 8k prompt'' ''tok/s'' True (None, Some x) (None, Some y),
     compare_row ''reading_speed'' ''reading a 64k prompt'' ''tok/s'' True (None, None) (None, None)]"
  by (simp add: judged_rows_def cards_load_gap_def card_speed_def or_else_def read_at_def compare_rows_def load_rows_def
      top_common_concurrency_def bench_levels_def max_opt_def accuracy_rows_def compare_datasets_def metric_row_def
      speed_prefill_def Let_def)

lemma verdict_rests_on_its_rows_witness:
  "\<exists>r. ruling (filter (\<lambda>r. cp_category r = ''reading_speed'') (judged_rows (read_at (F_Fin 1055)) (read_at (F_Fin 1024)))) False = R_Wins r \<and>
    cp_mark r = MK_Better \<and>
    ruling_sentence ''reading_speed'' ''current'' ''previous'' (R_Wins r) = ''current is faster than previous ('' @ amount r @ '')''"
proof -
  let ?rows = "filter (\<lambda>r. cp_category r = ''reading_speed'') (judged_rows (read_at (F_Fin 1055)) (read_at (F_Fin 1024)))"
  obtain d where d: "judge (Some (F_Fin 1055)) (Some (F_Fin 1024)) True = (d, MK_Better)"
    using judge_1055(1) by (metis surjective_pairing)
  have "\<exists>r. ruling ?rows False = R_Wins r"
    unfolding read_at_rows by (simp add: ruling_def is_pair_def compare_row_def or_else_def d Let_def)
  then obtain r where r: "ruling ?rows False = R_Wins r" by blast
  show ?thesis
    using verdict_rests_on_its_rows [OF refl r, of "''current''" "''previous''"] r
    by (intro exI [of _ r]) (simp add: better_words_def)
qed

text \<open>
  The noise band is three percent of the SECOND side's number, so the two readings of one pair of loadouts can
  each find a winner: with 1055 against 1024 in one row and 1024 against 1055 in another, each side is said to be
  faster than the other when it is named first.
\<close>

theorem both_orders_can_win:
  fixes r1 r2 :: "pick \<Rightarrow> pick \<Rightarrow> CompareRow"
  defines "r1 \<equiv> compare_row ''speed_under_load'' ''best total speed'' ''tok/s'' True"
    and "r2 \<equiv> compare_row ''speed_under_load'' ''total, 4 at once'' ''tok/s'' True"
  shows "(\<exists>r. ruling [r1 (Some (F_Fin 1055), None) (Some (F_Fin 1024), None), r2 (Some (F_Fin 1024), None) (Some (F_Fin 1055), None)] False = R_Wins r) \<and>
    (\<exists>r. ruling [r1 (Some (F_Fin 1024), None) (Some (F_Fin 1055), None), r2 (Some (F_Fin 1055), None) (Some (F_Fin 1024), None)] False = R_Wins r)"
proof -
  obtain d1 d2 where d: "judge (Some (F_Fin 1055)) (Some (F_Fin 1024)) True = (d1, MK_Better)"
    "judge (Some (F_Fin 1024)) (Some (F_Fin 1055)) True = (d2, MK_Same)"
    using judge_1055 by (metis surjective_pairing)
  have "cp_mark (r1 (Some (F_Fin 1055), None) (Some (F_Fin 1024), None)) = MK_Better"
    "cp_mark (r2 (Some (F_Fin 1055), None) (Some (F_Fin 1024), None)) = MK_Better"
    "cp_mark (r1 (Some (F_Fin 1024), None) (Some (F_Fin 1055), None)) = MK_Same"
    "cp_mark (r2 (Some (F_Fin 1024), None) (Some (F_Fin 1055), None)) = MK_Same"
    by (simp_all add: r1_def r2_def compare_row_def d)
  then show ?thesis by (simp add: ruling_def is_pair_def Let_def)
qed

section \<open>Advice\<close>

text \<open>a rule without data says nothing: every finding of a window is of a documented rule whose evidence is in
  that window, is dated with the window, and names a setting or an upgrade whenever it is more than "fine".
\<close>

theorem advice_rests_on_evidence:
  "list_all (\<lambda>f. (fd_rule f, True) \<in> set (evidence w) \<and> fd_rule f \<in> set ADVICE_RULES \<and> fd_window f = ws_name w \<and>
      (fd_severity f \<noteq> AS_Fine \<longrightarrow> fd_points_at f \<noteq> [])) (advice_evaluate w cfg)"
proof -
  have "fst ` set (evidence w) = set ADVICE_RULES" by (simp add: evidence_def ADVICE_RULES_def)
  then have "(rule, True) \<in> set (evidence w) \<Longrightarrow> rule \<in> set ADVICE_RULES" for rule by force
  then show ?thesis using evaluate_backed [of w cfg] by (auto simp: list_all_iff backed_def)
qed

text \<open>C38. the two findings on top are the two most pressing of the window they come from: they are findings of it, at
  most two, and no finding left out is more severe, nor, at the same severity, of an earlier rule; and ranking
  loses, invents and reorders nothing else.
\<close>

theorem top_findings_are_the_most_pressing:
  assumes "headline_window (ad_windows (advice_build now stats cfg excl)) = Some w"
  shows "\<exists>rest. aw_findings w = ad_top (advice_build now stats cfg excl) @ rest \<and>
    length (ad_top (advice_build now stats cfg excl)) = min 2 (length (advice_evaluate (aw_stats w) cfg)) \<and>
    mset (aw_findings w) = mset (advice_evaluate (aw_stats w) cfg) \<and>
    (\<forall>t \<in> set (ad_top (advice_build now stats cfg excl)). \<forall>f \<in> set rest.
       fd_severity f \<le> fd_severity t \<and>
       (fd_severity f = fd_severity t \<longrightarrow> rule_position (fd_rule t) ADVICE_RULES \<le> rule_position (fd_rule f) ADVICE_RULES))"
proof -
  let ?fs = "rank_findings (advice_evaluate (aw_stats w) cfg)"
  have "w \<in> set (map (advice_window cfg) stats)"
    using assms by (auto simp: advice_build_def Let_def headline_window_def or_else_def first_of_def find_Some_iff
        split: option.splits list.splits dest: nth_mem)
  then have fs: "aw_findings w = ?fs" by (auto simp: advice_window_def)
  have tops: "ad_top (advice_build now stats cfg excl) = take 2 (aw_findings w)"
    using assms by (simp add: advice_build_def Let_def some_or_def)
  have key: "advice_key t \<le> advice_key f" if "t \<in> set (take 2 ?fs)" "f \<in> set (drop 2 ?fs)" for t f
    using sorted_take_drop [OF rank_findings_order(2) that] .
  have len: "length ?fs = length (advice_evaluate (aw_stats w) cfg)" by (simp add: rank_findings_def)
  have "\<forall>t \<in> set (take 2 ?fs). \<forall>f \<in> set (drop 2 ?fs). fd_severity f \<le> fd_severity t \<and>
      (fd_severity f = fd_severity t \<longrightarrow> rule_position (fd_rule t) ADVICE_RULES \<le> rule_position (fd_rule f) ADVICE_RULES)"
    using key advice_key_severity by (fastforce simp: advice_key_def)
  then show ?thesis
    unfolding tops fs using rank_findings_order(1) len by (intro exI [of _ "drop 2 ?fs"]) (simp add: min.commute)
qed

definition quiet_window :: WindowStats where
  "quiet_window = \<lparr>ws_name = ''24h'', ws_secs = 86400, ws_covered_secs = 3600, ws_slots = 8, ws_slots_full_pct = Some (F_Fin 50),
     ws_queue_pct = Some (F_Fin 0), ws_queue_wait_p95_ms = None, ws_kv_peak_pct = Some (F_Fin 40), ws_kv_p95_pct = None,
     ws_retracted_pct = None, ws_evicted_tokens = None, ws_evicted_secs = None, ws_prompt_p50 = None, ws_prompt_p95 = None,
     ws_prompt_max = None, ws_prompt_max_is_bucket_edge = False, ws_prompt_requests = None, ws_context_len = None,
     ws_cache_hit_pct = None, ws_spec_by_level = [], ws_prefill_time_pct = None, ws_rejects = [], ws_gate_absent = True,
     ws_growth = None, ws_wh_per_mtok = None, ws_gen_tokens = None, ws_throttle = [], ws_saturation = None,
     ws_saturation_levels = 0, ws_saturation_from_bench = False, ws_targets = None\<rparr>"

lemma top_findings_are_the_most_pressing_witness:
  "length (ad_top (advice_build 0 [quiet_window] advice_config_default [])) = 2"
proof -
  have "headline_window (ad_windows (advice_build 0 [quiet_window] advice_config_default [])) =
      Some (advice_window advice_config_default quiet_window)"
    by (simp add: advice_build_def headline_window_def or_else_def advice_window_def quiet_window_def Let_def)
  from top_findings_are_the_most_pressing [OF this]
  have "length (ad_top (advice_build 0 [quiet_window] advice_config_default [])) =
      min 2 (length (advice_evaluate quiet_window advice_config_default))"
    by (auto simp: advice_window_def)
  moreover have "2 \<le> length (advice_evaluate quiet_window advice_config_default)"
    by (simp add: advice_evaluate_def rule_slots_def rule_queue_def quiet_window_def Let_def)
  ultimately show ?thesis by simp
qed

end
