(* ===== verification/EngineAdapters.thy ===== *)
theory EngineAdapters
  imports Engines Loadout "HOL-Library.State_Monad"
begin

text \<open>
  \<open>crates/lss-core/src/engine.rs\<close>: the seven adapters (how an engine is recognised, what it serves,
  how its numbers are read) and the detection over one port. \<open>Fetch\<close> is an effect: the server has a
  state of its own that every request may change, so the adapters are programs of the state monad.
\<close>

type_synonym fetched = "string + string"
type_synonym 's fetch = "string \<Rightarrow> ('s, fetched) state"

abbreviation ret :: "'a \<Rightarrow> ('s, 'a) state" where "ret \<equiv> State_Monad.return"

fun fetched_ok :: "fetched \<Rightarrow> string option" where
  "fetched_ok (Inl e) = None"
| "fetched_ok (Inr body) = Some body"

section \<open>Helpers\<close>

definition parse_ok :: "'v Json \<Rightarrow> string \<Rightarrow> 'v option" where
  "parse_ok J text = (case js_parse J text of Inl e \<Rightarrow> None | Inr v \<Rightarrow> Some v)"

definition fetch_json :: "'v Json \<Rightarrow> 's fetch \<Rightarrow> string \<Rightarrow> ('s, 'v option) state" where
  "fetch_json J fetch path = do { a \<leftarrow> fetch path; ret (Option.bind (fetched_ok a) (parse_ok J)) }"

definition fetch_text :: "'s fetch \<Rightarrow> string \<Rightarrow> string \<Rightarrow> ('s, string option) state" where
  "fetch_text fetch path marker =
    do { a \<leftarrow> fetch path; ret (keep (\<lambda>t. contains t marker) (fetched_ok a)) }"

definition APOSTROPHE :: string where "APOSTROPHE = [CHR 0x27]"

definition NO_MODEL :: string where "NO_MODEL = ''(no model loaded)''"

definition read_model :: "'v Json \<Rightarrow> fetched \<Rightarrow> fetched" where
  "read_model J a =
    (case a of Inl e \<Rightarrow> Inl e
     | Inr body \<Rightarrow>
        (case js_parse J body of Inl e \<Rightarrow> Inl ''bad JSON from /v1/models''
         | Inr v \<Rightarrow>
           (case js_arr J (js_get J v ''data'') of
              None \<Rightarrow> Inl ''no model list in /v1/models''
            | Some [] \<Rightarrow> Inr NO_MODEL
            | Some (m # ms) \<Rightarrow>
               (case js_str J (js_get J m ''id'') of None \<Rightarrow> Inl ''no model id in /v1/models''
                | Some i \<Rightarrow> Inr i))))"

definition openai_model :: "'v Json \<Rightarrow> 's fetch \<Rightarrow> ('s, fetched) state" where
  "openai_model J fetch = do { a \<leftarrow> fetch ''/v1/models''; ret (read_model J a) }"

text \<open>Members of a document that may be missing (\<open>unwrap_or_default\<close> is \<open>Null\<close>).\<close>

definition at_get :: "'v Json \<Rightarrow> 'v option \<Rightarrow> string \<Rightarrow> 'v option" where
  "at_get J v k = map_option (\<lambda>d. js_get J d k) v"

definition has_member :: "'v Json \<Rightarrow> 'v \<Rightarrow> string \<Rightarrow> bool" where
  "has_member J v k \<longleftrightarrow> (case js_obj J v of None \<Rightarrow> False | Some ms \<Rightarrow> k \<in> fst ` set ms)"

definition at_str :: "'v Json \<Rightarrow> 'v option \<Rightarrow> string \<Rightarrow> string option" where
  "at_str J v k = Option.bind (at_get J v k) (js_str J)"

definition at_f64 :: "'v Json \<Rightarrow> 'v option \<Rightarrow> string \<Rightarrow> f64 option" where
  "at_f64 J v k = Option.bind (at_get J v k) (js_f64 J)"

definition at_u64 :: "'v Json \<Rightarrow> 'v option \<Rightarrow> string \<Rightarrow> u64 option" where
  "at_u64 J v k = Option.bind (at_get J v k) (js_u64 J)"

definition at_u32 :: "'v Json \<Rightarrow> 'v option \<Rightarrow> string \<Rightarrow> u32 option" where
  "at_u32 J v k = map_option (\<lambda>n. n mod 2 ^ 32) (at_u64 J v k)"

definition auth_refusal_hint :: "string \<Rightarrow> bool \<Rightarrow> string option" where
  "auth_refusal_hint detail key_configured =
    map_option (\<lambda>c. if key_configured then
        ''the engine refuses the configured API key (HTTP '' @ c @ '') - check api_key in its [[engine]] block of collector.toml (`lss setup` tests it), then restart the collector''
      else
        ''the engine wants an API key (HTTP '' @ c @ '') - set api_key in its [[engine]] block of collector.toml (`lss setup` asks for it), then restart the collector'')
     (find (\<lambda>c. contains detail (''HTTP '' @ c)) [''401'', ''403''])"

definition identity_default :: EngineIdentity where
  "identity_default = \<lparr>ei_model = None, ei_version = None, ei_context_len = None, ei_slots = None,
     ei_detail = [], ei_cmdline = []\<rparr>"

record Scrape =
  scr_model :: fetched
  scr_metrics :: "EngineMetrics option"
  scr_rich :: "ServeMetrics option"
  scr_hists :: "HistSet option"

definition scrape_serve_metrics :: "Scrape \<Rightarrow> ServeMetrics option" where
  "scrape_serve_metrics s = or_else (scr_rich s) (map_option to_serve_metrics (scr_metrics s))"

definition scrape_not_reported :: "Scrape \<Rightarrow> string list" where
  "scrape_not_reported s = em_not_reported (some_or em_default (scr_metrics s)) (scr_hists s)"

datatype Adapter =
    A_Sglang (sg_public_priority: string) (sg_trusted_priority: string)
  | A_Vllm | A_Tgi | A_LlamaCpp | A_Ollama | A_LmStudio | A_OpenAi

fun adapter_kind :: "Adapter \<Rightarrow> EngineKind" where
  "adapter_kind (A_Sglang p t) = K_Sglang"
| "adapter_kind A_Vllm = K_Vllm"
| "adapter_kind A_Tgi = K_Tgi"
| "adapter_kind A_LlamaCpp = K_LlamaCpp"
| "adapter_kind A_Ollama = K_Ollama"
| "adapter_kind A_LmStudio = K_LmStudio"
| "adapter_kind A_OpenAi = K_OpenAi"

definition adapters :: "string \<Rightarrow> string \<Rightarrow> Adapter list" where
  "adapters public_priority trusted_priority =
    [A_Sglang public_priority trusted_priority, A_Vllm, A_Tgi, A_LlamaCpp, A_Ollama, A_LmStudio, A_OpenAi]"

definition adapter_for :: "EngineKind \<Rightarrow> string \<Rightarrow> string \<Rightarrow> Adapter" where
  "adapter_for kind public_priority trusted_priority =
    the (find (\<lambda>a. adapter_kind a = kind) (adapters public_priority trusted_priority))"

section \<open>SGLang\<close>

definition sglang_detect :: "'v Json \<Rightarrow> 's fetch \<Rightarrow> ('s, string option) state" where
  "sglang_detect J fetch =
    do { t \<leftarrow> fetch_text fetch ''/metrics'' ''sglang:'';
         if t \<noteq> None then ret (Some ''/metrics carries `sglang:` series'')
         else do { v \<leftarrow> fetch_json J fetch ''/get_server_info'';
                   ret (map_option (\<lambda>_. ''/get_server_info answers (start it with --enable-metrics for the full picture)'')
                     (keep (\<lambda>d. has_member J d ''max_running_requests'') v)) } }"

definition sglang_identity :: "'v Json \<Rightarrow> 's fetch \<Rightarrow> ('s, EngineIdentity) state" where
  "sglang_identity J fetch =
    do { info \<leftarrow> fetch_json J fetch ''/get_server_info'';
         m \<leftarrow> openai_model J fetch;
         ret \<lparr>ei_model = fetched_ok m, ei_version = at_str J info ''version'',
           ei_context_len = or_else (at_f64 J info ''context_length'') (at_f64 J info ''max_total_num_tokens''),
           ei_slots = at_u32 J info ''max_running_requests'',
           ei_detail = some_or [] (map_option (\<lambda>q. ''quant '' @ q) (at_str J info ''quantization'')),
           ei_cmdline = []\<rparr> }"

definition sglang_scrape :: "'v Json \<Rightarrow> 's fetch \<Rightarrow> string \<Rightarrow> string \<Rightarrow> ('s, Scrape) state" where
  "sglang_scrape J fetch pub trusted =
    do { m \<leftarrow> openai_model J fetch;
         t \<leftarrow> fetch_text fetch ''/metrics'' ''sglang:'';
         let parsed = map_option prom_parse t;
         let rich = map_option (\<lambda>s. extract_serve_metrics_from s pub trusted) parsed;
         ret \<lparr>scr_model = m, scr_metrics = map_option from_sglang rich, scr_rich = rich,
           scr_hists = map_option extract_latency parsed\<rparr> }"

section \<open>vLLM\<close>

definition vllm_detect :: "'s fetch \<Rightarrow> ('s, string option) state" where
  "vllm_detect fetch =
    do { t \<leftarrow> fetch_text fetch ''/metrics'' ''vllm:'';
         ret (map_option (\<lambda>_. ''/metrics carries `vllm:` series'') t) }"

definition vllm_identity :: "'v Json \<Rightarrow> 's fetch \<Rightarrow> ('s, EngineIdentity) state" where
  "vllm_identity J fetch =
    do { models \<leftarrow> fetch_json J fetch ''/v1/models'';
         m \<leftarrow> openai_model J fetch;
         v \<leftarrow> fetch_json J fetch ''/version'';
         ret (identity_default\<lparr>ei_model := fetched_ok m, ei_version := at_str J v ''version'',
           ei_context_len := at_f64 J (map_option (\<lambda>d. js_nth J d 0) (at_get J models ''data'')) ''max_model_len''\<rparr>) }"

definition vllm_scrape :: "'v Json \<Rightarrow> 's fetch \<Rightarrow> ('s, Scrape) state" where
  "vllm_scrape J fetch =
    do { m \<leftarrow> openai_model J fetch;
         t \<leftarrow> fetch_text fetch ''/metrics'' ''vllm:'';
         let parsed = map_option vllm_parse t;
         ret \<lparr>scr_model = m, scr_metrics = map_option fst parsed, scr_rich = None,
           scr_hists = map_option snd parsed\<rparr> }"

section \<open>TGI\<close>

definition tgi_detect :: "'v Json \<Rightarrow> 's fetch \<Rightarrow> ('s, string option) state" where
  "tgi_detect J fetch =
    do { v \<leftarrow> fetch_json J fetch ''/info'';
         if (case at_str J v ''router'' of None \<Rightarrow> False | Some r \<Rightarrow> contains r ''text-generation'')
         then ret (Some ''/info says `text-generation-router`'')
         else do { a \<leftarrow> fetch ''/metrics'';
                   ret (map_option (\<lambda>_. ''/metrics carries `tgi_` series'')
                     (keep (\<lambda>t. contains t ''tgi_request_count'' \<or> contains t ''tgi_queue_size'') (fetched_ok a))) } }"

definition tgi_identity :: "'v Json \<Rightarrow> 's fetch \<Rightarrow> ('s, EngineIdentity) state" where
  "tgi_identity J fetch =
    do { info \<leftarrow> fetch_json J fetch ''/info'';
         ret \<lparr>ei_model = at_str J info ''model_id'', ei_version = at_str J info ''version'',
           ei_context_len = at_f64 J info ''max_total_tokens'',
           ei_slots = at_u32 J info ''max_concurrent_requests'',
           ei_detail = some_or [] (map_option (\<lambda>n. ''max input '' @ show_nat n @ '' tokens'') (at_u64 J info ''max_input_tokens'')),
           ei_cmdline = []\<rparr> }"

definition tgi_scrape :: "'v Json \<Rightarrow> 's fetch \<Rightarrow> ('s, Scrape) state" where
  "tgi_scrape J fetch =
    do { info \<leftarrow> fetch_json J fetch ''/info'';
         m \<leftarrow> (if info \<noteq> None then ret (Inr (some_or NO_MODEL (at_str J info ''model_id''))) else openai_model J fetch);
         t \<leftarrow> fetch_text fetch ''/metrics'' ''tgi_'';
         let parsed = map_option tgi_parse t;
         ret \<lparr>scr_model = m,
           scr_metrics = map_option (\<lambda>p. if info = None then fst p
             else (fst p)\<lparr>em_context_len := at_f64 J info ''max_total_tokens'',
                    em_slots := at_f64 J info ''max_concurrent_requests''\<rparr>) parsed,
           scr_rich = None, scr_hists = map_option snd parsed\<rparr> }"

section \<open>llama.cpp\<close>

definition slot_busy :: "'v Json \<Rightarrow> 'v \<Rightarrow> bool" where
  "slot_busy J s \<longleftrightarrow> some_or False (js_bool J (js_get J s ''is_processing'')) \<or>
     (case js_i64 J (js_get J s ''state'') of None \<Rightarrow> False | Some n \<Rightarrow> n \<noteq> 0)"

definition busy_slots :: "'v Json \<Rightarrow> string \<Rightarrow> (f64 \<times> f64) option" where
  "busy_slots J text =
    Option.bind (Option.bind (parse_ok J text) (js_arr J))
      (\<lambda>a. Some (f_of_nat (length (filter (slot_busy J) a)), f_of_nat (length a)))"

definition LLAMACPP_MARK :: string where \<open>LLAMACPP_MARK = ''"llamacpp"''\<close>

definition llama_detect :: "'v Json \<Rightarrow> 's fetch \<Rightarrow> ('s, string option) state" where
  "llama_detect J fetch =
    do { b \<leftarrow> fetch_text fetch ''/v1/models'' LLAMACPP_MARK;
         if b \<noteq> None then ret (Some ''/v1/models says owned_by `llamacpp`'')
         else do { t \<leftarrow> fetch_text fetch ''/metrics'' ''llamacpp:'';
                   if t \<noteq> None then ret (Some ''/metrics carries `llamacpp:` series'')
                   else do { v \<leftarrow> fetch_json J fetch ''/props'';
                             ret (map_option (\<lambda>_. ''/props has `default_generation_settings`'')
                               (keep (\<lambda>d. has_member J d ''default_generation_settings'') v)) } } }"

definition llama_identity :: "'v Json \<Rightarrow> 's fetch \<Rightarrow> ('s, EngineIdentity) state" where
  "llama_identity J fetch =
    do { props \<leftarrow> fetch_json J fetch ''/props'';
         let file = map_option (\<lambda>p. last (split_on CHR ''/'' p)) (at_str J props ''model_path'');
         m \<leftarrow> (case keep (\<lambda>a. a \<noteq> []) (at_str J props ''model_alias'') of
             Some a \<Rightarrow> ret (Some a)
           | None \<Rightarrow> do { a \<leftarrow> openai_model J fetch; ret (or_else (fetched_ok a) file) });
         ret \<lparr>ei_model = m, ei_version = at_str J props ''build_info'',
           ei_context_len = at_f64 J (at_get J props ''default_generation_settings'') ''n_ctx'',
           ei_slots = at_u32 J props ''total_slots'', ei_detail = some_or [] file, ei_cmdline = []\<rparr> }"

definition add_busy :: "(f64 \<times> f64) option \<Rightarrow> EngineMetrics \<Rightarrow> EngineMetrics" where
  "add_busy slots m =
    (case slots of None \<Rightarrow> m
     | Some (busy, tot) \<Rightarrow> m\<lparr>em_running := or_else (em_running m) (Some busy), em_slots := Some tot\<rparr>)"

definition add_props :: "'v Json \<Rightarrow> 'v option \<Rightarrow> EngineMetrics \<Rightarrow> EngineMetrics" where
  "add_props J props m =
    (if props = None then m
     else m\<lparr>em_context_len := at_f64 J (at_get J props ''default_generation_settings'') ''n_ctx'',
            em_slots := or_else (em_slots m) (at_f64 J props ''total_slots'')\<rparr>)"

definition llama_scrape :: "'v Json \<Rightarrow> 's fetch \<Rightarrow> ('s, Scrape) state" where
  "llama_scrape J fetch =
    do { m0 \<leftarrow> openai_model J fetch;
         m \<leftarrow> (case m0 of Inr i \<Rightarrow> ret (Inr i)
           | Inl e \<Rightarrow> do { h \<leftarrow> fetch ''/health'';
                         ret (case h of Inr b \<Rightarrow> Inr NO_MODEL | Inl e' \<Rightarrow> Inl e) });
         t \<leftarrow> fetch_text fetch ''/metrics'' ''llamacpp:'';
         let metrics = map_option llama_parse t;
         (case m of
            Inl e \<Rightarrow> ret \<lparr>scr_model = m, scr_metrics = metrics, scr_rich = None, scr_hists = None\<rparr>
          | Inr i \<Rightarrow>
             do { s \<leftarrow> fetch ''/slots'';
                  props \<leftarrow> fetch_json J fetch ''/props'';
                  ret \<lparr>scr_model = m,
                    scr_metrics = Some (add_props J props
                      (add_busy (Option.bind (fetched_ok s) (busy_slots J)) (some_or em_default metrics))),
                    scr_rich = None, scr_hists = None\<rparr> }) }"

section \<open>Ollama\<close>

definition SPACED_DOT :: string where "SPACED_DOT = '' '' @ MIDDLE_DOT @ '' ''"

definition somes :: "'a option list \<Rightarrow> 'a list" where
  "somes xs = List.map_filter id xs"

definition gpu_share_text :: "'v Json \<Rightarrow> 'v \<Rightarrow> string list" where
  "gpu_share_text J m =
    (case (js_f64 J (js_get J m ''size''), js_f64 J (js_get J m ''size_vram'')) of
       (Some sz, Some vram) \<Rightarrow>
         if f_gt sz (F_Fin 0)
         then [fmt_fixed 0 (f_clamp (f_mul (f_div vram sz) (F_Fin 100)) (F_Fin 0) (F_Fin 100)) @ ''% on the GPU'']
         else []
     | _ \<Rightarrow> [])"

definition ollama_model :: "'v Json \<Rightarrow> 'v \<Rightarrow> (string \<times> f64 option \<times> string) option" where
  "ollama_model J m =
    map_option (\<lambda>name.
      (let d = js_get J m ''details'' in
       (name, js_f64 J (js_get J m ''context_length''),
        join SPACED_DOT (somes [js_str J (js_get J d ''parameter_size''), js_str J (js_get J d ''quantization_level'')]
          @ gpu_share_text J m))))
     (or_else (js_str J (js_get J m ''name'')) (js_str J (js_get J m ''model'')))"

definition ollama_loaded :: "'v Json \<Rightarrow> string \<Rightarrow> (string \<times> f64 option \<times> string) list" where
  "ollama_loaded J text =
    List.map_filter (ollama_model J) (some_or [] (Option.bind (at_get J (parse_ok J text) ''models'') (js_arr J)))"

definition ollama_rate :: "'v Json \<Rightarrow> 'v option \<Rightarrow> string \<Rightarrow> string \<Rightarrow> f64 option" where
  "ollama_rate J v counter nanos =
    (case (at_f64 J v counter, at_f64 J v nanos) of
       (Some c, Some ns) \<Rightarrow> if f_gt ns (F_Fin 0) then Some (f_div c (f_div ns (F_Fin 1000000000))) else None
     | _ \<Rightarrow> None)"

definition ollama_speeds :: "'v Json \<Rightarrow> string \<Rightarrow> f64 option \<times> f64 option" where
  "ollama_speeds J text =
    (ollama_rate J (parse_ok J text) ''prompt_eval_count'' ''prompt_eval_duration'',
     ollama_rate J (parse_ok J text) ''eval_count'' ''eval_duration'')"

definition ollama_detect :: "'v Json \<Rightarrow> 's fetch \<Rightarrow> ('s, string option) state" where
  "ollama_detect J fetch =
    do { v \<leftarrow> fetch_json J fetch ''/api/version'';
         (case at_str J v ''version'' of None \<Rightarrow> ret None
          | Some version \<Rightarrow>
             do { tags \<leftarrow> fetch_json J fetch ''/api/tags'';
                  ret (map_option (\<lambda>_. ''/api/version says '' @ version @ '' and /api/tags lists models'')
                    (keep (\<lambda>d. js_arr J (js_get J d ''models'') \<noteq> None) tags)) }) }"

definition ollama_identity :: "'v Json \<Rightarrow> 's fetch \<Rightarrow> ('s, EngineIdentity) state" where
  "ollama_identity J fetch =
    do { a \<leftarrow> fetch ''/api/ps'';
         let first = first_of (some_or [] (map_option (ollama_loaded J) (fetched_ok a)));
         v \<leftarrow> fetch_json J fetch ''/api/version'';
         ret (identity_default\<lparr>ei_model := map_option fst first, ei_version := at_str J v ''version'',
           ei_context_len := Option.bind first (\<lambda>f. fst (snd f)),
           ei_detail := some_or [] (map_option (\<lambda>f. snd (snd f)) first)\<rparr>) }"

definition ollama_scrape :: "'v Json \<Rightarrow> 's fetch \<Rightarrow> ('s, Scrape) state" where
  "ollama_scrape J fetch =
    do { a \<leftarrow> fetch ''/api/ps'';
         (case a of
            Inl e \<Rightarrow> ret \<lparr>scr_model = Inl e, scr_metrics = None, scr_rich = None, scr_hists = None\<rparr>
          | Inr body \<Rightarrow>
             do { b \<leftarrow> fetch ''/api/ps'';
                  ret \<lparr>scr_model = Inr (case ollama_loaded J body of [] \<Rightarrow> NO_MODEL | f # fs \<Rightarrow> fst f),
                    scr_metrics = Some (em_default\<lparr>em_context_len :=
                      Option.bind (fetched_ok b) (\<lambda>t. Option.bind (first_of (ollama_loaded J t)) (\<lambda>f. fst (snd f)))\<rparr>),
                    scr_rich = None, scr_hists = None\<rparr> }) }"

section \<open>LM Studio, any OpenAI-compatible server\<close>

definition lmstudio_usable :: "'v Json \<Rightarrow> 'v \<Rightarrow> bool" where
  "lmstudio_usable J m \<longleftrightarrow>
    js_str J (js_get J m ''state'') = Some ''loaded'' \<and> js_str J (js_get J m ''type'') \<noteq> Some ''embeddings''"

definition lmstudio_loaded :: "'v Json \<Rightarrow> string \<Rightarrow> (string \<times> f64 option \<times> string) option" where
  "lmstudio_loaded J text =
    Option.bind (Option.bind (at_get J (parse_ok J text) ''data'') (js_arr J)) (\<lambda>ms.
    Option.bind (find (lmstudio_usable J) ms) (\<lambda>m.
    Option.bind (js_str J (js_get J m ''id'')) (\<lambda>i.
      Some (i, or_else (js_f64 J (js_get J m ''loaded_context_length'')) (js_f64 J (js_get J m ''max_context_length'')),
        join SPACED_DOT (somes [js_str J (js_get J m ''arch''), js_str J (js_get J m ''quantization''),
          js_str J (js_get J m ''compatibility_type'')])))))"

definition lmstudio_detect :: "'v Json \<Rightarrow> 's fetch \<Rightarrow> ('s, string option) state" where
  "lmstudio_detect J fetch =
    do { v \<leftarrow> fetch_json J fetch ''/api/v0/models'';
         ret (map_option (\<lambda>_. ''/api/v0/models answers (LM Studio'' @ APOSTROPHE @ ''s own API)'')
           (keep (\<lambda>d. js_arr J (js_get J d ''data'') \<noteq> None) v)) }"

definition lmstudio_identity :: "'v Json \<Rightarrow> 's fetch \<Rightarrow> ('s, EngineIdentity) state" where
  "lmstudio_identity J fetch =
    do { a \<leftarrow> fetch ''/api/v0/models'';
         let loaded = Option.bind (fetched_ok a) (lmstudio_loaded J);
         ret (identity_default\<lparr>ei_model := map_option fst loaded,
           ei_context_len := Option.bind loaded (\<lambda>f. fst (snd f)),
           ei_detail := some_or [] (map_option (\<lambda>f. snd (snd f)) loaded)\<rparr>) }"

definition lmstudio_scrape :: "'v Json \<Rightarrow> 's fetch \<Rightarrow> ('s, Scrape) state" where
  "lmstudio_scrape J fetch =
    do { a \<leftarrow> fetch ''/api/v0/models'';
         let loaded = Option.bind (fetched_ok a) (lmstudio_loaded J);
         m \<leftarrow> (case a of Inl e \<Rightarrow> openai_model J fetch
           | Inr b \<Rightarrow> ret (Inr (case loaded of Some f \<Rightarrow> fst f | None \<Rightarrow> NO_MODEL)));
         ret \<lparr>scr_model = m,
           scr_metrics = map_option (\<lambda>_. em_default\<lparr>em_context_len := Option.bind loaded (\<lambda>f. fst (snd f))\<rparr>) (fetched_ok m),
           scr_rich = None, scr_hists = None\<rparr> }"

definition openai_detect :: "'v Json \<Rightarrow> 's fetch \<Rightarrow> ('s, string option) state" where
  "openai_detect J fetch =
    do { m \<leftarrow> openai_model J fetch;
         ret (map_option (\<lambda>i. ''/v1/models answers ('' @ i @ ''): an OpenAI-compatible server lss has no adapter for'')
           (fetched_ok m)) }"

definition openai_identity :: "'v Json \<Rightarrow> 's fetch \<Rightarrow> ('s, EngineIdentity) state" where
  "openai_identity J fetch =
    do { m \<leftarrow> openai_model J fetch; ret (identity_default\<lparr>ei_model := fetched_ok m\<rparr>) }"

definition openai_scrape :: "'v Json \<Rightarrow> 's fetch \<Rightarrow> ('s, Scrape) state" where
  "openai_scrape J fetch =
    do { m \<leftarrow> openai_model J fetch;
         ret \<lparr>scr_model = m, scr_metrics = map_option (\<lambda>_. em_default) (fetched_ok m), scr_rich = None, scr_hists = None\<rparr> }"

section \<open>One adapter of each kind\<close>

fun adapter_detect :: "'v Json \<Rightarrow> 's fetch \<Rightarrow> Adapter \<Rightarrow> ('s, string option) state" where
  "adapter_detect J fetch (A_Sglang p t) = sglang_detect J fetch"
| "adapter_detect J fetch A_Vllm = vllm_detect fetch"
| "adapter_detect J fetch A_Tgi = tgi_detect J fetch"
| "adapter_detect J fetch A_LlamaCpp = llama_detect J fetch"
| "adapter_detect J fetch A_Ollama = ollama_detect J fetch"
| "adapter_detect J fetch A_LmStudio = lmstudio_detect J fetch"
| "adapter_detect J fetch A_OpenAi = openai_detect J fetch"

fun adapter_identity :: "'v Json \<Rightarrow> 's fetch \<Rightarrow> Adapter \<Rightarrow> ('s, EngineIdentity) state" where
  "adapter_identity J fetch (A_Sglang p t) = sglang_identity J fetch"
| "adapter_identity J fetch A_Vllm = vllm_identity J fetch"
| "adapter_identity J fetch A_Tgi = tgi_identity J fetch"
| "adapter_identity J fetch A_LlamaCpp = llama_identity J fetch"
| "adapter_identity J fetch A_Ollama = ollama_identity J fetch"
| "adapter_identity J fetch A_LmStudio = lmstudio_identity J fetch"
| "adapter_identity J fetch A_OpenAi = openai_identity J fetch"

fun adapter_scrape :: "'v Json \<Rightarrow> 's fetch \<Rightarrow> Adapter \<Rightarrow> ('s, Scrape) state" where
  "adapter_scrape J fetch (A_Sglang p t) = sglang_scrape J fetch p t"
| "adapter_scrape J fetch A_Vllm = vllm_scrape J fetch"
| "adapter_scrape J fetch A_Tgi = tgi_scrape J fetch"
| "adapter_scrape J fetch A_LlamaCpp = llama_scrape J fetch"
| "adapter_scrape J fetch A_Ollama = ollama_scrape J fetch"
| "adapter_scrape J fetch A_LmStudio = lmstudio_scrape J fetch"
| "adapter_scrape J fetch A_OpenAi = openai_scrape J fetch"

definition servable_model :: "'v Json \<Rightarrow> EngineKind \<Rightarrow> 's fetch \<Rightarrow> ('s, string option) state" where
  "servable_model J kind fetch =
    do { i \<leftarrow> adapter_identity J fetch (adapter_for kind [] []);
         (case keep (\<lambda>m. m \<noteq> NO_MODEL) (ei_model i) of
            Some m \<Rightarrow> ret (Some m)
          | None \<Rightarrow>
             (if kind = K_Ollama then
                do { tags \<leftarrow> fetch_json J fetch ''/api/tags'';
                     ret (Option.bind (Option.bind (at_get J tags ''models'') (js_arr J)) (\<lambda>ms.
                       Option.bind (first_of ms) (\<lambda>m.
                         or_else (js_str J (js_get J m ''name'')) (js_str J (js_get J m ''model''))))) }
              else do { m \<leftarrow> openai_model J fetch; ret (keep (\<lambda>i. i \<noteq> NO_MODEL) (fetched_ok m)) })) }"

end
