(* ===== verification/EngineDetect.thy ===== *)
theory EngineDetect
  imports EngineAdapters
begin

text \<open>
  \<open>crates/lss-core/src/engine.rs\<close>: which engine answers on a port. \<open>detect\<close> wraps the fetch in a
  table of answers (\<open>once\<close>) that asks each path at most once and at most \<open>MAX_DETECT_PATHS\<close> in all,
  then lets every adapter look; the ports of a machine and what \<open>--detect\<close> prints.
\<close>

section \<open>Detection\<close>

definition MAX_DETECT_PATHS :: nat where "MAX_DETECT_PATHS = 4"

definition BUDGET_SPENT :: string where "BUDGET_SPENT = ''lss: path budget spent for this port''"

text \<open>The state of \<open>once\<close>: the server, the answers so far and how many requests were made.\<close>

type_synonym 's asking = "'s \<times> (string \<times> fetched) list \<times> nat"

definition once :: "'s fetch \<Rightarrow> 's asking fetch" where
  "once fetch path = State (\<lambda>(server, seen, asked).
    (case map_of seen path of
       Some hit \<Rightarrow> (hit, (server, seen, asked))
     | None \<Rightarrow>
        if MAX_DETECT_PATHS \<le> asked then (Inl BUDGET_SPENT, (server, seen, asked))
        else (case run_state (fetch path) server of
                (got, server') \<Rightarrow> (got, (server', (path, got) # seen, asked + 1)))))"

fun find_engine :: "'v Json \<Rightarrow> 's fetch \<Rightarrow> Adapter list \<Rightarrow> ('s, (EngineKind \<times> string) option) state" where
  "find_engine J fetch [] = ret None"
| "find_engine J fetch (a # as) =
    do { w \<leftarrow> adapter_detect J fetch a;
         (case w of Some why \<Rightarrow> ret (Some (adapter_kind a, why)) | None \<Rightarrow> find_engine J fetch as) }"

definition detect_asking :: "'v Json \<Rightarrow> 's fetch \<Rightarrow> ('s asking, (EngineKind \<times> string) option) state" where
  "detect_asking J fetch =
    do { a \<leftarrow> once fetch ''/v1/models'';
         b \<leftarrow> once fetch ''/metrics'';
         v \<leftarrow> fetch_json J (once fetch) ''/api/version'';
         c \<leftarrow> (if at_str J v ''version'' \<noteq> None then once fetch ''/api/tags''
               else once fetch ''/api/v0/models'');
         find_engine J (once fetch) (adapters [] []) }"

definition detect_engine :: "'v Json \<Rightarrow> 's fetch \<Rightarrow> ('s, (EngineKind \<times> string) option) state" where
  "detect_engine J fetch = State (\<lambda>server.
    (case run_state (detect_asking J fetch) (server, [], 0) of
       (found, (server', seen, asked)) \<Rightarrow> (found, server')))"

section \<open>The ports of a machine\<close>

definition COMMON_PORTS :: "nat list" where
  "COMMON_PORTS = [30000, 8000, 8080, 11434, 1234, 3000, 8090, 8001, 5000, 9000, 80]"

definition rsplit_port :: "string \<Rightarrow> (string \<times> string) option" where
  "rsplit_port tok = or_else (rsplit_at CHR '':'' tok) (rsplit_at CHR ''.'' tok)"

definition local_host :: "string \<Rightarrow> bool" where
  "local_host host \<longleftrightarrow> host = [] \<or> host = ''*'' \<or> starts_with host ''['' \<or> CHR ''.'' \<in> set host \<or>
     CHR '':'' \<in> set host \<or> host = ''localhost''"

definition token_port :: "string \<Rightarrow> nat option" where
  "token_port tok =
    (case rsplit_port (trim_end_matches ''(LISTEN)'' tok) of
       None \<Rightarrow> None
     | Some (host, port) \<Rightarrow> keep (\<lambda>p. local_host host) (parse_uint 16 port))"

definition sort_ports :: "nat list \<Rightarrow> nat list" where
  "sort_ports ports = remdups_adj (sort ports)"

definition listening_ports :: "string \<Rightarrow> nat list" where
  "listening_ports text =
    sort_ports (filter (\<lambda>p. 80 \<le> p)
      (List.map_filter (\<lambda>l. find_map token_port (split_whitespace l))
        (filter (\<lambda>l. contains l ''LISTEN'') (str_lines text))))"

definition published_port :: "string \<Rightarrow> nat option" where
  "published_port part =
    (case split_once ''->'' part of
       None \<Rightarrow> None
     | Some (host, rest) \<Rightarrow> parse_uint 16 (last (split_on CHR '':'' (trim host))))"

definition docker_published_ports :: "string \<Rightarrow> nat list" where
  "docker_published_ports text =
    sort_ports (List.map_filter published_port
      (concat (map (split_on CHR '','') (split_on CHR 0x0A text))))"

record Found =
  fd_kind :: EngineKind
  fd_url :: string
  fd_why :: string
  fd_identity :: EngineIdentity

definition line :: "string \<Rightarrow> string" where "line s = s @ [CHR 0x0A]"

definition HINT_KIND :: string where
  \<open>HINT_KIND = ''    kind = "openai"            # sglang | vllm | llamacpp | ollama | lmstudio | tgi | openai''\<close>

definition HINT_URL :: string where
  \<open>HINT_URL = ''    url = "http://127.0.0.1:8000"''\<close>

definition DQUOTE :: string where \<open>DQUOTE = ''"''\<close>

definition describe_one :: "Found \<Rightarrow> string" where
  "describe_one f =
    (let i = fd_identity f in
     line [] @ line (''  '' @ engine_kind_label (fd_kind f) @ '' at '' @ fd_url f)
     @ line (''    why      '' @ fd_why f)
     @ line (''    model    '' @ some_or NO_MODEL (ei_model i)
         @ (if ei_detail i = [] then [] else ''  ('' @ ei_detail i @ '')''))
     @ (case ei_version i of None \<Rightarrow> [] | Some v \<Rightarrow> line (''    version  '' @ v))
     @ (case ei_context_len i of None \<Rightarrow> []
        | Some c \<Rightarrow> line (''    context  '' @ fmt_fixed 0 c @ '' tokens''
            @ some_or [] (map_option (\<lambda>s. SPACED_DOT @ show_nat s @ '' requests at once'') (ei_slots i))))
     @ line ''    config   [[engine]]''
     @ line (''             kind = '' @ DQUOTE @ engine_name (fd_kind f) @ DQUOTE)
     @ line (''             url = '' @ DQUOTE @ fd_url f @ DQUOTE))"

definition describe_found :: "Found list \<Rightarrow> nat list \<Rightarrow> string" where
  "describe_found found tried =
    (if found = [] then
       line ''No LLM server found on this machine.''
       @ line (''  tried ports: '' @ join '', '' (map show_nat tried))
       @ line ''  Start your server first, or tell lss where it is in collector.toml:''
       @ line ''    [[engine]]'' @ line HINT_KIND @ line HINT_URL
     else
       line (''Found '' @ show_nat (length found) @ '' LLM server'' @ (if length found = 1 then [] else ''s'')
         @ '' on this machine:'')
       @ concat (map describe_one found))"

section \<open>Facts\<close>

text \<open>
  The interface between the detection and the adapters: a fetch that is settled in a state answers from
  a table and changes nothing. Every adapter then reads the same thing from it as from that table alone.
\<close>

locale settled_fetch =
  fixes fetch :: "'s fetch" and table :: "string \<Rightarrow> fetched" and s :: 's
  assumes settled: "run_state (fetch p) s = (table p, s)"
begin

abbreviation table_fetch :: "unit fetch" where "table_fetch p \<equiv> ret (table p)"

definition agrees :: "('s, 'a) state \<Rightarrow> (unit, 'a) state \<Rightarrow> bool" where
  "agrees m n \<longleftrightarrow> run_state m s = (fst (run_state n ()), s)"

lemma agrees_ret [simp]: "agrees (ret x) (ret x)"
  by (simp add: agrees_def)

lemma agrees_fetch [simp]: "agrees (fetch p) (table_fetch p)"
  by (simp add: agrees_def settled)

lemma agrees_bind:
  assumes "agrees m n" "\<And>x. agrees (f x) (g x)"
  shows "agrees (State_Monad.bind m f) (State_Monad.bind n g)"
  using assms by (auto simp: agrees_def State_Monad.bind_def split: prod.splits)

lemma agrees_if: "(P \<Longrightarrow> agrees a c) \<Longrightarrow> (\<not> P \<Longrightarrow> agrees b d) \<Longrightarrow> agrees (if P then a else b) (if P then c else d)"
  by simp

lemma agrees_option:
  "agrees a c \<Longrightarrow> (\<And>x. agrees (f x) (g x)) \<Longrightarrow>
    agrees (case v of None \<Rightarrow> a | Some x \<Rightarrow> f x) (case v of None \<Rightarrow> c | Some x \<Rightarrow> g x)"
  by (cases v) simp_all

lemmas agrees_rules = agrees_ret agrees_fetch agrees_bind agrees_if agrees_option

lemma agrees_helpers:
  "agrees (fetch_json J fetch p) (fetch_json J table_fetch p)"
  "agrees (fetch_text fetch p mark) (fetch_text table_fetch p mark)"
  "agrees (openai_model J fetch) (openai_model J table_fetch)"
  unfolding fetch_json_def fetch_text_def openai_model_def by (intro agrees_rules)+

lemma agrees_detect: "agrees (adapter_detect J fetch a) (adapter_detect J table_fetch a)"
  by (cases a; simp only: adapter_detect.simps sglang_detect_def vllm_detect_def tgi_detect_def llama_detect_def
      ollama_detect_def lmstudio_detect_def openai_detect_def; intro agrees_rules agrees_helpers)

lemma agrees_find: "agrees (find_engine J fetch as) (find_engine J table_fetch as)"
proof (induction as)
  case (Cons a as)
  then show ?case unfolding find_engine.simps by (intro agrees_rules agrees_detect)
qed simp

lemma find_settled: "run_state (find_engine J fetch as) s = (fst (run_state (find_engine J table_fetch as) ()), s)"
  using agrees_find [of J as] by (simp add: agrees_def)

end

text \<open>What \<open>once\<close> answers when the budget is spent.\<close>

definition known :: "(string \<times> fetched) list \<Rightarrow> string \<Rightarrow> fetched" where
  "known seen p = (case map_of seen p of Some a \<Rightarrow> a | None \<Rightarrow> Inl BUDGET_SPENT)"

lemma once_settled: "settled_fetch (once fetch) (known seen) (server, seen, MAX_DETECT_PATHS)"
  by unfold_locales (simp add: once_def known_def split: option.split)

interpretation spent: settled_fetch "once fetch" "known seen" "(server, seen, MAX_DETECT_PATHS)"
  for fetch seen server
  by (rule once_settled)

lemma once_new:
  "map_of seen p = None \<Longrightarrow> n < MAX_DETECT_PATHS \<Longrightarrow>
    run_state (once fetch p) (server, seen, n) =
      (fst (run_state (fetch p) server), (snd (run_state (fetch p) server), (p, fst (run_state (fetch p) server)) # seen, n + 1))"
  by (simp add: once_def split: prod.split)

text \<open>The four requests, in order: each is made once, and the fourth depends on the third.\<close>

definition fourth_path :: "'v Json \<Rightarrow> fetched \<Rightarrow> string" where
  "fourth_path J version =
    (if at_str J (Option.bind (fetched_ok version) (parse_ok J)) ''version'' \<noteq> None then ''/api/tags'' else ''/api/v0/models'')"

definition four_requests :: "'v Json \<Rightarrow> 's fetch \<Rightarrow> ('s, (string \<times> fetched) list) state" where
  "four_requests J fetch =
    do { a \<leftarrow> fetch ''/v1/models'';
         b \<leftarrow> fetch ''/metrics'';
         v \<leftarrow> fetch ''/api/version'';
         c \<leftarrow> fetch (fourth_path J v);
         ret [(fourth_path J v, c), (''/api/version'', v), (''/metrics'', b), (''/v1/models'', a)] }"

lemma detect_asking_run:
  assumes "run_state (four_requests J fetch) server = (seen, server')"
  shows "run_state (detect_asking J fetch) (server, [], 0) =
    run_state (find_engine J (once fetch) (adapters [] [])) (server', seen, MAX_DETECT_PATHS)"
  using assms
  by (auto simp: four_requests_def detect_asking_def fetch_json_def fourth_path_def State_Monad.bind_def once_new
      MAX_DETECT_PATHS_def eval_nat_numeral split: prod.splits if_splits)

lemma detect_engine_run:
  assumes "run_state (four_requests J fetch) server = (seen, server')"
  shows "run_state (detect_engine J fetch) server =
    (fst (run_state (find_engine J (\<lambda>p. ret (known seen p)) (adapters [] [])) ()), server')"
  using spent.find_settled [of J fetch "adapters [] []" server' seen]
  by (simp add: detect_engine_def detect_asking_run [OF assms])

end
