(* ===== verification/EngineClaims.thy ===== *)
theory EngineClaims
  imports EngineDetect
begin

text \<open>The properties of the engine detection.\<close>

section \<open>What is asked\<close>

text \<open>A server that also keeps the list of the requests it got.\<close>

definition logged :: "'s fetch \<Rightarrow> ('s \<times> string list) fetch" where
  "logged fetch path = State (\<lambda>(server, log).
    (case run_state (fetch path) server of (a, server') \<Rightarrow> (a, (server', log @ [path]))))"

text \<open>Whatever the server answers, detection makes exactly four requests, all different:
  \<open>/v1/models\<close>, \<open>/metrics\<close>, \<open>/api/version\<close> and then one of \<open>/api/tags\<close> and \<open>/api/v0/models\<close>; no adapter
  adds one of its own.\<close>

theorem detection_asks_four_paths:
  "snd (snd (run_state (detect_engine J (logged fetch)) (server, []))) \<in>
    {[''/v1/models'', ''/metrics'', ''/api/version'', ''/api/tags''],
     [''/v1/models'', ''/metrics'', ''/api/version'', ''/api/v0/models'']}"
proof -
  obtain seen server' where r: "run_state (four_requests J (logged fetch)) (server, []) = (seen, server')"
    by (metis surj_pair)
  then show ?thesis
    unfolding detect_engine_run [OF r]
    by (auto simp: four_requests_def logged_def fourth_path_def State_Monad.bind_def split: prod.splits if_splits)
qed

section \<open>What is recognised\<close>

text \<open>The fingerprint of each engine in the answers to the four requests.\<close>

definition answered_with :: "(string \<Rightarrow> fetched) \<Rightarrow> string \<Rightarrow> string \<Rightarrow> bool" where
  "answered_with answers path marker \<longleftrightarrow>
    (case fetched_ok (answers path) of None \<Rightarrow> False | Some t \<Rightarrow> contains t marker)"

definition answered_json :: "'v Json \<Rightarrow> (string \<Rightarrow> fetched) \<Rightarrow> string \<Rightarrow> 'v option" where
  "answered_json J answers path = Option.bind (fetched_ok (answers path)) (parse_ok J)"

definition lists_under :: "'v Json \<Rightarrow> string \<Rightarrow> 'v option \<Rightarrow> bool" where
  "lists_under J k v \<longleftrightarrow> (case v of None \<Rightarrow> False | Some d \<Rightarrow> js_arr J (js_get J d k) \<noteq> None)"

fun fingerprint :: "'v Json \<Rightarrow> (string \<Rightarrow> fetched) \<Rightarrow> EngineKind \<Rightarrow> bool" where
  "fingerprint J a K_Sglang = answered_with a ''/metrics'' ''sglang:''"
| "fingerprint J a K_Vllm = answered_with a ''/metrics'' ''vllm:''"
| "fingerprint J a K_Tgi = (answered_with a ''/metrics'' ''tgi_request_count'' \<or> answered_with a ''/metrics'' ''tgi_queue_size'')"
| "fingerprint J a K_LlamaCpp = (answered_with a ''/v1/models'' LLAMACPP_MARK \<or> answered_with a ''/metrics'' ''llamacpp:'')"
| "fingerprint J a K_Ollama = (at_str J (answered_json J a ''/api/version'') ''version'' \<noteq> None \<and>
     lists_under J ''models'' (answered_json J a ''/api/tags''))"
| "fingerprint J a K_LmStudio = lists_under J ''data'' (answered_json J a ''/api/v0/models'')"
| "fingerprint J a K_OpenAi = (fetched_ok (read_model J (a ''/v1/models'')) \<noteq> None)"

text \<open>The requests of an adapter that are never made.\<close>

definition spent_paths :: "string list" where
  "spent_paths = [''/get_server_info'', ''/props'', ''/info'']"

lemma known_spent:
  assumes "run_state (four_requests J fetch) server = (seen, server')" "p \<in> set spent_paths"
  shows "known seen p = Inl BUDGET_SPENT"
  using assms by (auto simp: four_requests_def fourth_path_def State_Monad.bind_def spent_paths_def known_def
      split: prod.splits if_splits)

lemma keep_some: "keep P x \<noteq> None \<longleftrightarrow> (case x of None \<Rightarrow> False | Some v \<Rightarrow> P v)"
  by (auto simp: keep_def split: option.split)

lemma recognises_iff:
  assumes "\<And>p. p \<in> set spent_paths \<Longrightarrow> a p = Inl BUDGET_SPENT"
  shows "fst (run_state (adapter_detect J (\<lambda>p. ret (a p)) ad) ()) \<noteq> None \<longleftrightarrow> fingerprint J a (adapter_kind ad)"
  using assms [of "''/get_server_info''"] assms [of "''/props''"] assms [of "''/info''"]
  by (cases ad)
    (auto simp: sglang_detect_def vllm_detect_def tgi_detect_def llama_detect_def ollama_detect_def lmstudio_detect_def
      openai_detect_def fetch_text_def fetch_json_def openai_model_def answered_with_def answered_json_def
      lists_under_def spent_paths_def at_str_def at_get_def keep_def split: option.splits)

lemma find_engine_kind:
  assumes "\<And>p. p \<in> set spent_paths \<Longrightarrow> a p = Inl BUDGET_SPENT"
  shows "map_option fst (fst (run_state (find_engine J (\<lambda>p. ret (a p)) as) ())) =
    find (fingerprint J a) (map adapter_kind as)"
proof (induction as)
  case (Cons ad as)
  then show ?case using recognises_iff [of a J ad, OF assms]
    by (cases "run_state (adapter_detect J (\<lambda>p. ret (a p)) ad) ()")
      (auto split: option.splits)
qed simp

lemma adapter_kinds: "map adapter_kind (adapters p t) = engine_kinds"
  by (simp add: adapters_def engine_kinds_def)

text \<open>C12. What detection says is decided by the answers to its four requests alone: the first engine, in
  the order of the adapters, whose fingerprint is in them, and nothing when none is. In particular only
  \<open>/metrics\<close> can show an SGLang server, and \<open>/get_server_info\<close>, \<open>/info\<close> and \<open>/props\<close> never count.\<close>

theorem detection_is_first_fingerprint:
  "map_option fst (fst (run_state (detect_engine J fetch) server)) =
    find (fingerprint J (known (fst (run_state (four_requests J fetch) server)))) engine_kinds"
proof -
  obtain seen server' where r: "run_state (four_requests J fetch) server = (seen, server')"
    by (metis surj_pair)
  show ?thesis
    using find_engine_kind [of "known seen" J "adapters [] []", OF known_spent [OF r]]
    by (simp add: detect_engine_run [OF r] r adapter_kinds)
qed

end
