(* ===== verification/Readings.thy ===== *)
theory Readings
  imports RuleTypes SortBy RustText
begin

text \<open>
  \<open>crates/lss-core/src/readings.rs\<close>, the scale: one record for every reading, one severity axis, the
  order of the page and the headline with its hysteresis.
\<close>

section \<open>The scale\<close>

definition LOW :: f64 where "LOW = f_lit (34 / 100)"
definition MEDIUM :: f64 where "MEDIUM = f_lit (62 / 100)"
definition HIGH :: f64 where "HIGH = f_lit (85 / 100)"
definition CEILING :: f64 where "CEILING = f_lit (97 / 100)"
definition OFFLINE :: f64 where "OFFLINE = F_Fin 1"
definition HYSTERESIS :: f64 where "HYSTERESIS = f_lit (8 / 100)"

datatype ReadingState = RS_Live | RS_NoData string | RS_Offline string

record Reading =
  rd_key :: string
  rd_label :: string
  rd_value :: "string option"
  rd_detail :: string
  rd_severity :: f64
  rd_informational :: bool
  rd_state :: ReadingState

definition clamp_01 :: "f64 \<Rightarrow> f64" where
  "clamp_01 x = (if is_nan x then F_Fin 0 else f_clamp x (F_Fin 0) (F_Fin 1))"

definition live :: "string \<Rightarrow> string \<Rightarrow> string \<Rightarrow> string \<Rightarrow> f64 \<Rightarrow> Reading" where
  "live key label value detail score =
    \<lparr>rd_key = key, rd_label = label, rd_value = Some value, rd_detail = detail,
     rd_severity = f_min (clamp_01 score) CEILING, rd_informational = False, rd_state = RS_Live\<rparr>"

definition no_data :: "string \<Rightarrow> string \<Rightarrow> string \<Rightarrow> Reading" where
  "no_data key label reason =
    \<lparr>rd_key = key, rd_label = label, rd_value = None, rd_detail = reason, rd_severity = F_Fin 0,
     rd_informational = False, rd_state = RS_NoData reason\<rparr>"

definition offline :: "string \<Rightarrow> string \<Rightarrow> string \<Rightarrow> Reading" where
  "offline key label reason =
    \<lparr>rd_key = key, rd_label = label, rd_value = None, rd_detail = reason, rd_severity = OFFLINE,
     rd_informational = False, rd_state = RS_Offline reason\<rparr>"

definition informational :: "Reading \<Rightarrow> Reading" where
  "informational r = r\<lparr>rd_informational := True\<rparr>"

text \<open>\<open>Reading { detail, ..r }\<close>.\<close>

definition with_detail :: "string \<Rightarrow> Reading \<Rightarrow> Reading" where
  "with_detail d r = r\<lparr>rd_detail := d\<rparr>"

fun is_offline :: "ReadingState \<Rightarrow> bool" where
  "is_offline (RS_Offline reason) = True"
| "is_offline _ = False"

section \<open>Bands\<close>

datatype Band = B_NoData | B_Ok | B_Watch | B_High | B_Critical | B_Offline

fun band_rank :: "Band \<Rightarrow> nat" where
  "band_rank B_NoData = 0"
| "band_rank B_Ok = 1"
| "band_rank B_Watch = 2"
| "band_rank B_High = 3"
| "band_rank B_Critical = 4"
| "band_rank B_Offline = 5"

lemma band_rank_inj: "band_rank a = band_rank b \<longleftrightarrow> a = b"
  by (cases a; cases b) simp_all

instantiation Band :: linorder
begin
definition less_eq_Band :: "Band \<Rightarrow> Band \<Rightarrow> bool" where "less_eq_Band a b \<longleftrightarrow> band_rank a \<le> band_rank b"
definition less_Band :: "Band \<Rightarrow> Band \<Rightarrow> bool" where "less_Band a b \<longleftrightarrow> band_rank a < band_rank b"
instance
  by standard (auto simp: less_eq_Band_def less_Band_def band_rank_inj)
end

definition band_of :: "f64 \<Rightarrow> Band" where
  "band_of score =
    (if f_ge score HIGH then B_Critical else if f_ge score MEDIUM then B_High
     else if f_ge score LOW then B_Watch else B_Ok)"

fun band_word :: "Band \<Rightarrow> string" where
  "band_word B_NoData = ''no data''"
| "band_word B_Ok = ''ok''"
| "band_word B_Watch = ''watch''"
| "band_word B_High = ''high''"
| "band_word B_Critical = ''critical''"
| "band_word B_Offline = ''offline''"

definition reading_band :: "Reading \<Rightarrow> Band" where
  "reading_band r =
    (case rd_state r of RS_Offline reason \<Rightarrow> B_Offline | RS_NoData reason \<Rightarrow> B_NoData
     | RS_Live \<Rightarrow> band_of (rd_severity r))"

definition EM_DASH :: string where "EM_DASH = [CHR 0xE2, CHR 0x80, CHR 0x94]"

definition value_or_dash :: "Reading \<Rightarrow> string" where
  "value_or_dash r = (case rd_value r of None \<Rightarrow> EM_DASH | Some v \<Rightarrow> v)"

text \<open>The worst band of the judged readings of a group (\<open>max\<close> of bands, \<open>Ok\<close> for none).\<close>

definition worst_band :: "Reading list \<Rightarrow> Band" where
  "worst_band rs =
    (case map reading_band (filter (\<lambda>r. \<not> rd_informational r) rs) of
       [] \<Rightarrow> B_Ok | b # bs \<Rightarrow> foldl max b bs)"

section \<open>Scores\<close>

definition ramp :: "f64 \<Rightarrow> f64 \<Rightarrow> f64 \<Rightarrow> f64" where
  "ramp v lo full =
    (if is_nan v then F_Fin 0
     else if f_eq lo full then (if f_ge v full then F_Fin 1 else F_Fin 0)
     else clamp_01 (f_div (f_sub v lo) (f_sub full lo)))"

definition corroborate :: "f64 \<Rightarrow> bool \<Rightarrow> f64" where
  "corroborate score confirmed = (if confirmed then score else F_Fin 0)"

section \<open>The order and the headline\<close>

definition worse_first :: "Reading \<Rightarrow> Reading \<Rightarrow> bool" where
  "worse_first a b \<longleftrightarrow> total_le (rd_severity b) (rd_severity a) \<and>
     (total_le (rd_severity a) (rd_severity b) \<longrightarrow> rd_key a \<le> rd_key b)"

definition rank :: "Reading list \<Rightarrow> Reading list" where
  "rank rs = sort_by worse_first rs"

definition worst_of :: "Reading list \<Rightarrow> Reading option" where
  "worst_of rs = find (\<lambda>r. \<not> rd_informational r) (rank rs)"

definition may_lead :: "Reading \<Rightarrow> bool" where
  "may_lead r \<longleftrightarrow> \<not> rd_informational r \<and> f_ge (rd_severity r) LOW"

definition leading :: "Reading list \<Rightarrow> string option \<Rightarrow> Reading option" where
  "leading rs incumbent =
    (case worst_of rs of
       None \<Rightarrow> None
     | Some best \<Rightarrow>
        if \<not> f_ge (rd_severity best) LOW then None
        else (case Option.bind incumbent (\<lambda>k. find (\<lambda>r. rd_key r = k \<and> may_lead r) rs) of
            None \<Rightarrow> Some best
          | Some inc \<Rightarrow>
             if rd_key inc = rd_key best then Some inc
             else if is_offline (rd_state best) \<and> \<not> is_offline (rd_state inc) then Some best
             else if f_ge (rd_severity best) (f_add (rd_severity inc) HYSTERESIS) then Some best
             else Some inc))"

section \<open>What a reading is\<close>

text \<open>A live reading is on the scale and has a value; the other two have none, and only a dead
  source scores 1.\<close>

definition reading_ok :: "Reading \<Rightarrow> bool" where
  "reading_ok r \<longleftrightarrow>
    (case rd_state r of
       RS_Live \<Rightarrow> rd_value r \<noteq> None \<and> f_le (F_Fin 0) (rd_severity r) \<and> f_le (rd_severity r) CEILING
     | RS_NoData reason \<Rightarrow> rd_value r = None \<and> rd_severity r = F_Fin 0
     | RS_Offline reason \<Rightarrow> rd_value r = None \<and> rd_severity r = OFFLINE)"

named_theorems reading_intros

lemma scale_values:
  "LOW = F_Fin (6124895493223875 / 18014398509481984)"
  "MEDIUM = F_Fin (5584463537939415 / 9007199254740992)"
  "HIGH = F_Fin (7656119366529843 / 9007199254740992)"
  "CEILING = F_Fin (4368491638549381 / 4503599627370496)"
  "HYSTERESIS = F_Fin (5764607523034235 / 72057594037927936)"
  by code_simp+

lemma scale_order: "f_lt (F_Fin 0) LOW" "f_lt LOW MEDIUM" "f_lt MEDIUM HIGH" "f_lt HIGH CEILING" "f_lt CEILING OFFLINE"
  by (simp_all add: scale_values OFFLINE_def f_lt_Fin)

lemma clamp_01_range: "f_le (F_Fin 0) (clamp_01 x) \<and> f_le (clamp_01 x) (F_Fin 1)"
  by (cases "is_nan x") (simp_all add: clamp_01_def f_clamp_bounds f_le_Fin)

lemma ramp_range: "f_le (F_Fin 0) (ramp v lo full) \<and> f_le (ramp v lo full) (F_Fin 1)"
  using clamp_01_range by (auto simp: ramp_def f_le_Fin)

lemma live_severity: "f_le (F_Fin 0) (f_min (clamp_01 x) CEILING) \<and> f_le (f_min (clamp_01 x) CEILING) CEILING"
  using clamp_01_range [of x] f_not_lt [of CEILING "clamp_01 x"] f_not_nan_le [of "F_Fin 0" "clamp_01 x"]
  by (auto simp: f_min_def scale_values f_le_Fin)

lemma live_ok [reading_intros]: "reading_ok (live k l v d x)"
  using live_severity [of x] by (simp add: reading_ok_def live_def)

lemma no_data_ok [reading_intros]: "reading_ok (no_data k l d)"
  by (simp add: reading_ok_def no_data_def)

lemma offline_ok [reading_intros]: "reading_ok (offline k l d)"
  by (simp add: reading_ok_def offline_def)

lemma informational_ok [reading_intros]: "reading_ok r \<Longrightarrow> reading_ok (informational r)"
  by (simp add: reading_ok_def informational_def split: ReadingState.splits)

lemma with_detail_ok [reading_intros]: "reading_ok r \<Longrightarrow> reading_ok (with_detail d r)"
  by (simp add: reading_ok_def with_detail_def split: ReadingState.splits)

lemma reading_simps [simp]:
  "rd_informational (informational r)" "rd_state (informational r) = rd_state r" "rd_key (informational r) = rd_key r"
  "rd_severity (informational r) = rd_severity r"
  "rd_informational (live k l v d x) \<longleftrightarrow> False" "rd_state (live k l v d x) = RS_Live" "rd_key (live k l v d x) = k"
  "rd_informational (no_data k l d) \<longleftrightarrow> False" "rd_state (no_data k l d) = RS_NoData d" "rd_key (no_data k l d) = k"
  "rd_informational (offline k l d) \<longleftrightarrow> False" "rd_state (offline k l d) = RS_Offline d" "rd_key (offline k l d) = k"
  "rd_informational (with_detail t r) = rd_informational r" "rd_state (with_detail t r) = rd_state r"
  "rd_key (with_detail t r) = rd_key r" "rd_severity (with_detail t r) = rd_severity r"
  by (simp_all add: informational_def live_def no_data_def offline_def with_detail_def)

section \<open>The headline\<close>

interpretation page: comparator worse_first
proof
  show "worse_first a b \<or> worse_first b a" for a b
    using total_le_linear [of "rd_severity a" "rd_severity b"] by (auto simp: worse_first_def)
  show "worse_first a c" if "worse_first a b" "worse_first b c" for a b c
    using that total_le_trans [of "rd_severity c" "rd_severity b" "rd_severity a"]
      total_le_trans [of "rd_severity a" "rd_severity c" "rd_severity b"]
      total_le_trans [of "rd_severity b" "rd_severity a" "rd_severity c"]
    by (auto simp: worse_first_def)
qed

lemma rank_set [simp]: "set (rank rs) = set rs"
  by (simp add: rank_def)

text \<open>Order of finite severities: \<open>total_cmp\<close> is \<open>\<le>\<close>.\<close>

lemma total_le_imp: "\<not> is_nan a \<Longrightarrow> \<not> is_nan b \<Longrightarrow> total_le a b \<Longrightarrow> f_le a b"
  by (cases a; cases b) (auto simp: total_le_def f_le_def)

lemma ok_not_nan: "reading_ok r \<Longrightarrow> \<not> is_nan (rd_severity r)"
  using f_not_nan_le by (auto simp: reading_ok_def OFFLINE_def split: ReadingState.splits)

lemma worst_of_none: "worst_of rs = None \<longleftrightarrow> (\<forall>r \<in> set rs. rd_informational r)"
  by (auto simp: worst_of_def find_None_iff)

lemma worst_of_some:
  assumes "worst_of rs = Some b"
  shows "b \<in> set rs" "\<not> rd_informational b"
    "r \<in> set rs \<Longrightarrow> \<not> rd_informational r \<Longrightarrow> total_le (rd_severity r) (rd_severity b)"
proof -
  obtain i where i: "i < length (rank rs)" "b = rank rs ! i" "\<not> rd_informational b"
    "\<And>j. j < i \<Longrightarrow> rd_informational (rank rs ! j)"
    using assms by (auto simp: worst_of_def find_Some_iff)
  show "b \<in> set rs" using i(1,2) by (metis nth_mem rank_set)
  show "\<not> rd_informational b" by (rule i(3))
  assume r: "r \<in> set rs" "\<not> rd_informational r"
  obtain j where j: "j < length (rank rs)" "r = rank rs ! j" using r(1) by (metis in_set_conv_nth rank_set)
  have "\<not> j < i" using r(2) i(4) j(2) by metis
  then consider "j = i" | "i < j" by linarith
  then show "total_le (rd_severity r) (rd_severity b)"
  proof cases
    case 1
    then show ?thesis using i(2) j(2) by (simp add: total_le_refl)
  next
    case 2
    then have "worse_first b r"
      using sorted_wrt_nth_less [OF page.sorted_sort_by [of rs]] j i(2) by (simp add: rank_def)
    then show ?thesis by (simp add: worse_first_def)
  qed
qed

text \<open>The cases of \<open>leading\<close>.\<close>

lemma leading_cases:
  assumes "leading rs inc = Some r"
  obtains b where "worst_of rs = Some b" "may_lead b" "may_lead r" "r \<in> set rs"
    "r = b \<or> (inc = Some (rd_key r) \<and> rd_key r = rd_key b) \<or>
     (inc = Some (rd_key r) \<and> (is_offline (rd_state b) \<longrightarrow> is_offline (rd_state r)) \<and>
       \<not> f_ge (rd_severity b) (f_add (rd_severity r) HYSTERESIS))"
  using assms worst_of_some [of rs]
  by (auto simp: leading_def may_lead_def find_Some_iff Option.bind_eq_Some_conv split: option.splits if_splits bind_splits)

lemma leading_none: "leading rs inc = None \<longleftrightarrow> (\<forall>r \<in> set rs. \<not> may_lead r)"
  if "list_all reading_ok rs"
proof
  assume "leading rs inc = None"
  then consider "worst_of rs = None" | b where "worst_of rs = Some b" "\<not> f_ge (rd_severity b) LOW"
    by (auto simp: leading_def split: option.splits if_splits)
  then show "\<forall>r \<in> set rs. \<not> may_lead r"
  proof cases
    case 1
    then show ?thesis by (auto simp: worst_of_none may_lead_def)
  next
    case (2 b)
    show ?thesis
    proof
      fix r assume r: "r \<in> set rs"
      show "\<not> may_lead r"
      proof
        assume m: "may_lead r"
        then have "f_le (rd_severity r) (rd_severity b)"
          using worst_of_some [OF 2(1)] r that ok_not_nan
          by (intro total_le_imp) (auto simp: may_lead_def list_all_iff)
        then show False using m 2(2) f_le_trans by (auto simp: may_lead_def)
      qed
    qed
  qed
next
  assume none: "\<forall>r \<in> set rs. \<not> may_lead r"
  show "leading rs inc = None"
  proof (rule ccontr)
    assume "leading rs inc \<noteq> None"
    then obtain r where "leading rs inc = Some r" by blast
    then show False using none by (auto elim: leading_cases)
  qed
qed

text \<open>A dead source takes the headline at once. The keys of dead sources are their own.\<close>

definition own_offline_keys :: "Reading list \<Rightarrow> bool" where
  "own_offline_keys rs \<longleftrightarrow>
    (\<forall>r \<in> set rs. \<forall>q \<in> set rs. rd_key r = rd_key q \<longrightarrow> is_offline (rd_state q) \<longrightarrow> is_offline (rd_state r))"

lemma offline_severity:
  "reading_ok r \<Longrightarrow> is_offline (rd_state r) \<longleftrightarrow> f_le OFFLINE (rd_severity r)"
  using f_le_trans [of OFFLINE "rd_severity r" CEILING]
  by (cases "rd_state r") (auto simp: reading_ok_def OFFLINE_def scale_values f_le_Fin)

lemma offline_leads:
  assumes ok: "list_all reading_ok rs" and own: "own_offline_keys rs"
    and d: "d \<in> set rs" "is_offline (rd_state d)" "\<not> rd_informational d"
  obtains r where "leading rs inc = Some r" "is_offline (rd_state r)"
proof -
  have okd: "reading_ok d" using ok d(1) by (simp add: list_all_iff)
  have sev: "f_le OFFLINE (rd_severity d)" using offline_severity [OF okd] d(2) by simp
  then have "may_lead d"
    using d(3) f_le_trans [of LOW OFFLINE "rd_severity d"] by (simp add: may_lead_def scale_values OFFLINE_def f_le_Fin)
  then obtain r where r: "leading rs inc = Some r" using leading_none [OF ok, of inc] d(1) by fastforce
  then obtain b where b: "worst_of rs = Some b" "r \<in> set rs"
    "r = b \<or> (inc = Some (rd_key r) \<and> rd_key r = rd_key b) \<or>
     (inc = Some (rd_key r) \<and> (is_offline (rd_state b) \<longrightarrow> is_offline (rd_state r)) \<and>
       \<not> f_ge (rd_severity b) (f_add (rd_severity r) HYSTERESIS))"
    by (elim leading_cases)
  have bs: "b \<in> set rs" and okb: "reading_ok b" using worst_of_some [OF b(1)] ok by (auto simp: list_all_iff)
  have "f_le (rd_severity d) (rd_severity b)"
    using worst_of_some(3) [OF b(1) d(1,3)] ok_not_nan okd okb by (simp add: total_le_imp)
  then have "is_offline (rd_state b)" using offline_severity [OF okb] f_le_trans [OF sev] by simp
  then have "is_offline (rd_state r)" using b(2,3) bs own by (auto simp: own_offline_keys_def)
  then show ?thesis using r that by blast
qed

text \<open>The headline is stable: shown the same readings again, its own key keeps it.\<close>

lemma leading_stable:
  assumes "leading rs inc = Some r"
  obtains r' where "leading rs (Some (rd_key r)) = Some r'" "rd_key r' = rd_key r"
proof -
  obtain b where b: "worst_of rs = Some b" "f_ge (rd_severity b) LOW" and m: "may_lead r" "r \<in> set rs"
    using assms by (elim leading_cases) (auto simp: may_lead_def)
  obtain i where i: "find (\<lambda>q. rd_key q = rd_key r \<and> may_lead q) rs = Some i"
    using m by (cases "find (\<lambda>q. rd_key q = rd_key r \<and> may_lead q) rs") (auto simp: find_None_iff)
  then have ik: "rd_key i = rd_key r" by (auto simp: find_Some_iff)
  show ?thesis
  proof (cases "rd_key r = rd_key b")
    case True
    then have "leading rs (Some (rd_key r)) = Some i" using b i ik by (simp add: leading_def)
    then show ?thesis using ik that by blast
  next
    case False
    then have "r \<noteq> b" by auto
    then have "inc = Some (rd_key r)" using assms b by (auto elim!: leading_cases)
    then show ?thesis using assms that by blast
  qed
qed

text \<open>The headline is never far behind the worst judged reading.\<close>

lemma leading_near_worst:
  assumes "list_all reading_ok rs" "leading rs inc = Some r" "distinct (map rd_key rs)"
    "q \<in> set rs" "\<not> rd_informational q"
  shows "f_le (rd_severity q) (rd_severity r) \<or> \<not> f_ge (rd_severity q) (f_add (rd_severity r) HYSTERESIS)"
proof -
  obtain b where b: "worst_of rs = Some b" "r \<in> set rs"
    "r = b \<or> (inc = Some (rd_key r) \<and> rd_key r = rd_key b) \<or>
     (inc = Some (rd_key r) \<and> (is_offline (rd_state b) \<longrightarrow> is_offline (rd_state r)) \<and>
       \<not> f_ge (rd_severity b) (f_add (rd_severity r) HYSTERESIS))"
    using assms(2) by (elim leading_cases)
  have bs: "b \<in> set rs" "f_le (rd_severity q) (rd_severity b)"
    using worst_of_some [OF b(1)] assms(1,4,5) ok_not_nan by (auto simp: list_all_iff intro!: total_le_imp)
  show ?thesis
  proof (cases "r = b")
    case False
    then have "rd_key r \<noteq> rd_key b" using assms(3) b(2) bs(1) by (auto simp: distinct_map inj_on_def)
    then have "\<not> f_ge (rd_severity b) (f_add (rd_severity r) HYSTERESIS)" using b(3) False by auto
    then show ?thesis using f_le_trans [OF _ bs(2)] by blast
  qed (use bs in simp)
qed

text \<open>Adding the margin really raises a severity, in spite of the rounding.\<close>

lemma margin_raises:
  assumes "f_le (F_Fin 0) x" "f_le x (F_Fin 1)"
  shows "f_lt x (f_add x HYSTERESIS)"
proof -
  let ?h = "5764607523034235 / 72057594037927936 :: rat"
  obtain q where x: "x = F_NegZero \<and> q = 0 \<or> x = F_Fin q" and q: "0 \<le> q" "q \<le> 1"
    using assms by (cases x rule: f_class.cases) (auto simp: f_le_def)
  define n where "n = \<lfloor>q * 32\<rfloor> + 1"
  have n1: "q * 32 < of_int n" unfolding n_def by linarith
  have n2: "of_int n \<le> q * 32 + 1" unfolding n_def by linarith
  have "0 \<le> \<lfloor>q * 32\<rfloor>" using q(1) by simp
  then have n3: "0 < n" by (simp add: n_def)
  note n = n1 n2 n3
  have "\<lfloor>q * 32\<rfloor> \<le> 32" using q(2) by (simp add: floor_le_iff)
  then have "n \<le> 33" by (simp add: n_def)
  let ?g = "of_int n / 32 :: rat"
  have g: "q < ?g" "?g \<le> q + ?h" using n by (auto simp: field_simps)
  have "(of_int n :: rat) \<le> 33" using \<open>n \<le> 33\<close> by (metis of_int_le_iff of_int_numeral)
  then have "?g < 2" by simp
  moreover have "(2 :: rat) \<le> 2 ^ 1024" using power_increasing [of 1 1024 "2 :: rat"] by simp
  ultimately have small: "?g < 2 ^ 1024" by linarith
  have e: "?g = of_int n * 2 powi (- 5)" by simp
  have "n < 2 ^ 53" using \<open>n \<le> 33\<close> by simp
  then have r: "rnd ?g = F_Fin ?g" by (rule rnd_grid_pos [OF e n(3) _ _ small]) (use \<open>n < 2 ^ 53\<close> in simp_all)
  have ge: "f_le (F_Fin ?g) (rnd (q + ?h))" using rnd_mono [OF g(2)] unfolding r .
  have lt: "f_lt (F_Fin q) (F_Fin ?g)" using g(1) by (simp only: f_lt_Fin)
  have above: "f_lt (F_Fin q) (rnd (q + ?h))" by (rule f_lt_le_trans [OF lt ge])
  have "f_add x HYSTERESIS = rnd (q + ?h)" using x by (auto simp only: scale_values f_add_Fin) (simp add: f_add_def)
  moreover have "f_lt x y \<longleftrightarrow> f_lt (F_Fin q) y" for y using x by (auto simp: f_lt_def)
  ultimately show ?thesis using above by simp
qed

text \<open>The incumbent keeps the headline exactly when no judged reading beats it.\<close>

definition beats :: "Reading \<Rightarrow> Reading \<Rightarrow> bool" where
  "beats r q \<longleftrightarrow> \<not> rd_informational r \<and>
    (is_offline (rd_state r) \<and> \<not> is_offline (rd_state q) \<or> f_ge (rd_severity r) (f_add (rd_severity q) HYSTERESIS))"

lemma severity_range: "reading_ok r \<Longrightarrow> f_le (F_Fin 0) (rd_severity r) \<and> f_le (rd_severity r) (F_Fin 1)"
  using f_le_trans [of "rd_severity r" CEILING "F_Fin 1"]
  by (auto simp: reading_ok_def OFFLINE_def scale_values f_le_Fin split: ReadingState.splits)

lemma incumbent_stays:
  assumes ok: "list_all reading_ok rs" and keys: "distinct (map rd_key rs)" and q: "q \<in> set rs" "may_lead q"
  shows "leading rs (Some (rd_key q)) = Some q \<longleftrightarrow> (\<forall>r \<in> set rs. \<not> beats r q)"
proof -
  obtain b where b: "worst_of rs = Some b"
    using q by (cases "worst_of rs") (auto simp: worst_of_none may_lead_def)
  note worst = worst_of_some [OF b]
  have oks: "reading_ok r" if "r \<in> set rs" for r using ok that by (simp add: list_all_iff)
  have le: "f_le (rd_severity r) (rd_severity b)" if "r \<in> set rs" "\<not> rd_informational r" for r
    using worst(3) [OF that] oks ok_not_nan that(1) worst(1) total_le_imp by blast
  have lead: "f_ge (rd_severity b) LOW" using q le f_le_trans by (auto simp: may_lead_def)
  have found: "find (\<lambda>r. rd_key r = rd_key q \<and> may_lead r) rs = Some q"
    using keys q by (induction rs) (auto simp: inj_on_def)
  have same: "rd_key q = rd_key b \<longleftrightarrow> q = b" using keys q(1) worst(1) by (auto simp: distinct_map inj_on_def)
  have self: "\<not> f_ge (rd_severity q) (f_add (rd_severity q) HYSTERESIS)"
    using margin_raises severity_range oks [OF q(1)] f_lt_imp_not_ge by blast
  have mono: "beats b q" if r: "r \<in> set rs" "beats r q" for r
  proof -
    have "f_le (rd_severity r) (rd_severity b)" using le r by (simp add: beats_def)
    then show ?thesis
      using r worst(1,2) oks offline_severity f_le_trans unfolding beats_def by blast
  qed
  have "leading rs (Some (rd_key q)) = Some q \<longleftrightarrow> q = b \<or> \<not> beats b q"
    using b lead found same worst(2) by (auto simp: leading_def beats_def)
  also have "\<dots> \<longleftrightarrow> \<not> beats b q" using self by (auto simp: beats_def)
  also have "\<dots> \<longleftrightarrow> (\<forall>r \<in> set rs. \<not> beats r q)" using mono worst(1) by blast
  finally show ?thesis .
qed

end
