(* ===== verification/WatchFile.thy ===== *)
theory WatchFile
  imports RustText
begin

text \<open>
  \<open>crates/lss-core/src/watch.rs\<close> and \<open>crates/lss-collector/src/watch_run.rs\<close>: the file of followed
  sources, read back on every poll. What the file system answers is an argument of each poll; reading the
  JSON is a parameter (\<open>parse\<close>). What is printed to the log is part of the result.
\<close>

record WatchItem =
  wi_date :: string
  wi_summary :: string
  wi_url :: string
  wi_has_receipt :: bool

record WatchSource =
  wsrc_name :: string
  wsrc_covers :: string
  wsrc_last_checked :: "i64 option"
  wsrc_newest :: "WatchItem option"

record WatchStatus =
  wst_sources :: "WatchSource list"

record Watcher =
  wa_path :: string
  wa_mtime :: "i64 option"
  wa_last_good :: "WatchStatus option"
  wa_logged_missing :: bool

definition watcher_new :: "string \<Rightarrow> Watcher" where
  "watcher_new path = \<lparr>wa_path = path, wa_mtime = None, wa_last_good = None, wa_logged_missing = False\<rparr>"

text \<open>What the file system says at one poll: the modification time, and the text if it is read.\<close>

record FileView =
  fv_modified :: "string + i64"
  fv_text :: "string + string"

definition read_watch :: "(string \<Rightarrow> string + WatchStatus) \<Rightarrow> FileView \<Rightarrow> string + WatchStatus" where
  "read_watch parse f = (case fv_text f of Inl e \<Rightarrow> Inl e | Inr t \<Rightarrow> parse t)"

definition watcher_poll ::
  "(string \<Rightarrow> string + WatchStatus) \<Rightarrow> FileView \<Rightarrow> Watcher \<Rightarrow> WatchStatus option \<times> string list \<times> Watcher" where
  "watcher_poll parse f w =
    (if trim (wa_path w) = [] then (None, [], w)
     else
       (let (log_lines, w1) =
          (case fv_modified f of
             Inr mtime \<Rightarrow>
               (let w0 = w\<lparr>wa_logged_missing := False\<rparr> in
                if wa_mtime w \<noteq> Some mtime then
                  (case read_watch parse f of
                     Inr s \<Rightarrow> ([], w0\<lparr>wa_mtime := Some mtime, wa_last_good := Some s\<rparr>)
                   | Inl e \<Rightarrow> ([''watch: '' @ wa_path w @ '': '' @ e @ '' - showing the last good read, if any''], w0))
                else ([], w0))
           | Inl e \<Rightarrow>
               (if wa_logged_missing w then ([], w)
                else ([''watch: '' @ wa_path w @ '': '' @ e @ '' - watch tracking is off until this is fixed''],
                      w\<lparr>wa_logged_missing := True\<rparr>)))
        in (wa_last_good w1, log_lines, w1)))"

text \<open>A run of polls: what each showed and printed, oldest first.\<close>

fun watch_run ::
  "(string \<Rightarrow> string + WatchStatus) \<Rightarrow> FileView list \<Rightarrow> Watcher \<Rightarrow> (WatchStatus option \<times> string list) list" where
  "watch_run parse [] w = []"
| "watch_run parse (f # fs) w =
    (case watcher_poll parse f w of (shown, lines, w') \<Rightarrow> (shown, lines) # watch_run parse fs w')"

section \<open>Facts\<close>

lemma poll_path: "watcher_poll parse f w = (shown, lines, w') \<Longrightarrow> wa_path w' = wa_path w"
  by (auto simp: watcher_poll_def Let_def split: if_splits sum.splits)

lemma poll_shows_good:
  "watcher_poll parse f w = (shown, lines, w') \<Longrightarrow> trim (wa_path w) \<noteq> [] \<Longrightarrow> shown = wa_last_good w'"
  by (auto simp: watcher_poll_def Let_def split: if_splits sum.splits prod.splits)

text \<open>A poll keeps the last good read or replaces it by what the file says now.\<close>

lemma poll_good:
  "watcher_poll parse f w = (shown, lines, w') \<Longrightarrow>
    wa_last_good w' = wa_last_good w \<or> (\<exists>s. read_watch parse f = Inr s \<and> wa_last_good w' = Some s)"
  by (auto simp: watcher_poll_def Let_def split: if_splits sum.splits)

definition watch_origin :: "(string \<Rightarrow> string + WatchStatus) \<Rightarrow> FileView list \<Rightarrow> Watcher \<Rightarrow> bool" where
  "watch_origin parse fs w \<longleftrightarrow>
    (case wa_last_good w of None \<Rightarrow> True | Some s \<Rightarrow> \<exists>f \<in> set fs. read_watch parse f = Inr s)"

lemma watch_run_keeps:
  assumes "wa_last_good w \<noteq> None" "trim (wa_path w) \<noteq> []"
  shows "list_all (\<lambda>r. fst r \<noteq> None) (watch_run parse fs w)"
  using assms
proof (induction fs arbitrary: w)
  case (Cons f fs)
  obtain shown lines w' where p: "watcher_poll parse f w = (shown, lines, w')" by (metis surj_pair)
  show ?case
    using Cons.IH [of w'] Cons.prems poll_good [OF p] poll_path [OF p] poll_shows_good [OF p]
    by (auto simp: p)
qed simp

lemma watch_run_append:
  "\<exists>w'. watch_run parse (fs @ gs) w = watch_run parse fs w @ watch_run parse gs w' \<and> wa_path w' = wa_path w \<and>
     (trim (wa_path w) \<noteq> [] \<and> fs \<noteq> [] \<longrightarrow> fst (last (watch_run parse fs w)) = wa_last_good w')"
proof (induction fs arbitrary: w)
  case (Cons f fs)
  obtain shown lines w1 where p: "watcher_poll parse f w = (shown, lines, w1)" by (metis surj_pair)
  obtain w' where w': "watch_run parse (fs @ gs) w1 = watch_run parse fs w1 @ watch_run parse gs w'"
    "wa_path w' = wa_path w1" "trim (wa_path w1) \<noteq> [] \<and> fs \<noteq> [] \<longrightarrow> fst (last (watch_run parse fs w1)) = wa_last_good w'"
    using Cons.IH [of w1] by blast
  show ?case
  proof (cases "fs = []")
    case True
    then show ?thesis using poll_path [OF p] poll_shows_good [OF p] by (intro exI [of _ w1]) (simp add: p)
  next
    case False
    then have "watch_run parse fs w1 \<noteq> []" by (cases fs) (auto split: prod.splits)
    then show ?thesis using w' poll_path [OF p] False by (intro exI [of _ w']) (simp add: p)
  qed
qed auto

lemma watch_run_length: "length (watch_run parse fs w) = length fs"
  by (induction fs arbitrary: w) (auto split: prod.split)

text \<open>The good read of a run comes from a file the run saw.\<close>

lemma watch_run_shows:
  assumes "\<And>s. wa_last_good w = Some s \<Longrightarrow> \<exists>f \<in> set es. read_watch parse f = Inr s"
    "(Some s, lines) \<in> set (watch_run parse fs w)"
  shows "\<exists>f \<in> set (es @ fs). read_watch parse f = Inr s"
  using assms
proof (induction fs arbitrary: w es)
  case (Cons f fs)
  obtain shown lines1 w1 where p: "watcher_poll parse f w = (shown, lines1, w1)" by (metis surj_pair)
  have w1: "\<exists>g \<in> set (es @ [f]). read_watch parse g = Inr t" if "wa_last_good w1 = Some t" for t
    using poll_good [OF p] Cons.prems(1) that by auto
  consider "(Some s, lines) = (shown, lines1)" | "(Some s, lines) \<in> set (watch_run parse fs w1)"
    using Cons.prems(2) by (auto simp: p)
  then show ?case
  proof cases
    case 1
    then have "trim (wa_path w) \<noteq> []" using p by (auto simp: watcher_poll_def)
    then show ?thesis using w1 [of s] poll_shows_good [OF p] 1 by auto
  next
    case 2
    then show ?thesis using Cons.IH [of w1 "es @ [f]"] w1 by auto
  qed
qed simp

text \<open>A file that cannot be parsed is read and reported again on every poll.\<close>

lemma bad_file_logged_each_poll:
  assumes "trim (wa_path w) \<noteq> []" "fv_modified f = Inr t" "wa_mtime w \<noteq> Some t" "read_watch parse f = Inl e"
  shows "map snd (watch_run parse (replicate n f) w) =
    replicate n [''watch: '' @ wa_path w @ '': '' @ e @ '' - showing the last good read, if any'']"
  using assms
proof (induction n arbitrary: w)
  case (Suc n)
  then show ?case by (simp add: watcher_poll_def)
qed simp

end
