(* ===== verification/StatusDoc.thy ===== *)
theory StatusDoc
  imports Engines Rates WatchFile Users Gpu Incidents HostText Probe Targets Curve Gateway Advice BenchDocs RuleTypes Units
begin

text \<open>
  \<open>crates/lss-core/src/model.rs\<close>: the \<open>/status\<close> document. Every screen, the Prometheus text and the
  readings are computed from this one record.
\<close>

record CollectorInfo =
  ci_version :: string
  ci_started_at :: i64
  ci_poll_secs :: u64
  ci_last_sample_ts :: "i64 option"

record WorkWindow =
  ww_prompt :: f64
  ww_cached :: f64
  ww_generated :: f64
  ww_requests :: f64

record TokenWindows =
  tw_hour :: "WorkWindow option"
  tw_hour_covered_secs :: "i64 option"
  tw_day :: "WorkWindow option"
  tw_day_covered_secs :: "i64 option"
  tw_week :: "WorkWindow option"
  tw_week_covered_secs :: "i64 option"
  tw_month :: "WorkWindow option"
  tw_month_covered_secs :: "i64 option"

record ServeStatus =
  sv_up :: bool
  sv_down_reason :: "string option"
  sv_model :: "string option"
  sv_container :: "string option"
  sv_container_status :: "string option"
  sv_started_at :: "i64 option"
  sv_uptime_s :: "i64 option"
  sv_restart_count :: u64
  sv_restarts_today :: u32
  sv_down_since :: "i64 option"
  sv_running :: f64
  sv_slots :: u32
  sv_queue :: f64
  sv_decode_tok_s :: f64
  sv_kv_usage :: f64
  sv_kv_used_tokens :: f64
  sv_kv_max_tokens :: f64
  sv_ttft_avg_ms_10m :: "f64 option"
  sv_itl_avg_ms_10m :: "f64 option"
  sv_queue_time_avg_ms_10m :: "f64 option"
  sv_spec_accept_length :: f64
  sv_spec_accept_rate :: f64
  sv_cache_hit_rate :: f64
  sv_prompt_tokens_total :: f64
  sv_generation_tokens_total :: f64
  sv_requests_total :: f64
  sv_latency :: "LatencyNow option"
  sv_cached_tokens_total :: f64
  sv_context_len :: f64
  sv_prefill_tok_s :: "f64 option"
  sv_prefill_tok_s_typical :: "f64 option"
  sv_cached_share_10m :: "f64 option"
  sv_prefill_inflight :: f64
  sv_engine :: string
  sv_decode_tok_s_from_probe :: bool
  sv_not_reported :: "string list"
  sv_evicted_tok_per_hour_10m :: "f64 option"
  sv_preempted_per_hour_10m :: "f64 option"
  sv_secs_since_last_token :: "i64 option"
  sv_work_1h :: "WorkWindow option"
  sv_page1_fields_deployed :: bool
  sv_live_decode :: "CurveRow option"
  sv_public_priority :: string
  sv_trusted_priority :: string

record GateStatus =
  gst_up :: bool
  gst_absent :: bool
  gst_version :: "string option"
  gst_upstream_ok :: bool
  gst_container_status :: "string option"
  gst_started_at :: "i64 option"
  gst_restart_count :: u64
  gst_down_since :: "i64 option"
  gst_seconds_to_drain_charged :: "f64 option"

text \<open>\<open>collect::<Option<Vec<_>>>\<close>.\<close>

fun collect_somes :: "'a option list \<Rightarrow> 'a list option" where
  "collect_somes [] = Some []"
| "collect_somes (x # xs) =
    (case x of None \<Rightarrow> None | Some a \<Rightarrow> map_option (\<lambda>as. a # as) (collect_somes xs))"

text \<open>How many polls the published utilisation of a card is the median of.\<close>

definition UTIL_MEDIAN_POLLS :: nat where "UTIL_MEDIAN_POLLS = 6"

record GpuStatus =
  gps_sample :: GpuSample
  gps_util_pct_med :: "f64 option"
  gps_temp_f :: "f64 option"
  gps_mem_temp_f :: "f64 option"
  gps_throttle :: "string list"
  gps_thermal_excluded :: bool
  gps_health :: "GpuHealth option"

record CodeClasses =
  cc_2xx :: u64
  cc_4xx :: u64
  cc_5xx :: u64

record LaneProbes =
  lp_admitted :: u64
  lp_requests_10m :: u64
  lp_requests_60m :: u64

record LaneStatus =
  ls_running :: f64
  ls_queued :: f64
  ls_inflight_tokens :: u64
  ls_waiters :: u64
  ls_admitted :: u64
  ls_rejected_413 :: u64
  ls_rejected_429 :: u64
  ls_client_closed :: u64
  ls_upstream_down :: u64
  ls_max_duration :: u64
  ls_requests_10m :: u64
  ls_codes_10m :: CodeClasses
  ls_top_keys_60m :: "(string \<times> u64) list"
  ls_probes :: LaneProbes
  ls_budget_tokens :: "u64 option"
  ls_max_prompt_tokens :: "u64 option"

record Lanes =
  la_public :: LaneStatus
  la_trusted :: LaneStatus

type_synonym graph = "f64 option list"

record StatusSeries =
  ss_step_s :: i64
  ss_start_ts :: i64
  ss_points :: usize
  ss_decode_tok_s :: graph
  ss_prefill_tok_s :: graph
  ss_running :: graph
  ss_queue_public :: graph
  ss_queue_trusted :: graph
  ss_budget_used_frac :: graph
  ss_waiters_public :: graph
  ss_waiters_trusted :: graph
  ss_kv_usage :: graph
  ss_gpu_temp_c :: "graph list"
  ss_ttft_p99_ms :: graph
  ss_itl_p99_ms :: graph
  ss_prefix_hit :: graph
  ss_spec_accept_rate :: graph
  ss_refused :: graph
  ss_gpu_power_w :: graph
  ss_usd_per_hour :: graph

record AlertRow =
  ar_id :: i64
  ar_ts :: i64
  ar_rule :: string
  ar_severity :: string
  ar_message :: string
  ar_recovered :: bool
  ar_delivered :: bool

record ProbeStatus =
  ps_enabled :: bool
  ps_interval_s :: i64
  ps_baseline_tok_s :: "f64 option"
  ps_baseline_source :: string
  ps_last_ok :: "ProbeRecord option"
  ps_invalid_skipped :: u32
  ps_history :: "ProbeRecord list"

section \<open>The thresholds in force\<close>

record Thresholds =
  th_c1_ratio :: f64
  th_c1_consecutive :: u32
  th_c1_baseline_tok_s :: "f64 option"
  th_c1_floor_tok_s :: "f64 option"
  th_c1_max_ttft_s :: f64
  th_queue_reqs :: f64
  th_thermal_temp_c :: f64
  th_thermal_temp_f :: f64
  th_c1_stale_secs :: i64

definition thresholds_new :: "RulesConfig \<Rightarrow> f64 option \<Rightarrow> i64 \<Rightarrow> Thresholds" where
  "thresholds_new rules c1_baseline probe_interval_secs =
    \<lparr>th_c1_ratio = cfg_c1_ratio rules, th_c1_consecutive = cfg_c1_consecutive rules,
     th_c1_baseline_tok_s = c1_baseline,
     th_c1_floor_tok_s = map_option (\<lambda>b. round1 (f_mul b (cfg_c1_ratio rules))) c1_baseline,
     th_c1_max_ttft_s = cfg_c1_max_ttft_s rules, th_queue_reqs = cfg_queue_reqs rules,
     th_thermal_temp_c = cfg_thermal_temp_c rules, th_thermal_temp_f = c_to_f_round (cfg_thermal_temp_c rules),
     th_c1_stale_secs = max 1 probe_interval_secs * int (max 1 (cfg_c1_stale_probe_intervals rules))\<rparr>"

section \<open>Cost and loadout\<close>

record CostStatus =
  co_rate_name :: string
  co_rate_source :: string
  co_effective_date :: string
  co_is_flat :: bool
  co_current_usd_per_kwh :: "f64 option"
  co_current_period :: string
  co_live_usd_per_hour :: "f64 option"
  co_today_kwh :: "f64 option"
  co_today_usd :: "f64 option"
  co_today_usd_per_million_generated_tokens :: "f64 option"
  co_today_usd_per_million_prompt_tokens :: "f64 option"
  co_today_usd_per_million_real_work_tokens :: "f64 option"
  co_today_standby_kwh :: "f64 option"
  co_today_standby_usd :: "f64 option"
  co_fixed_usd_per_day :: "f64 option"
  co_unresolved_usd_per_kwh :: "f64 option"
  co_last_24h_kwh :: "f64 option"
  co_last_24h_usd :: "f64 option"
  co_today_covered_secs :: "i64 option"
  co_last_24h_covered_secs :: "i64 option"

record LoadoutBrief =
  lb_id :: string
  lb_model :: string
  lb_image_tag :: string
  lb_first_seen :: i64
  lb_runs :: u64
  lb_flags :: string

section \<open>The document\<close>

record Status =
  st_v :: u32
  st_host :: string
  st_generated_at :: i64
  st_collector :: CollectorInfo
  st_serve :: ServeStatus
  st_gate :: GateStatus
  st_gpu_source :: string
  st_gpus :: "GpuStatus list"
  st_lanes :: Lanes
  st_series :: StatusSeries
  st_incidents :: "Incident list"
  st_alerts :: "AlertRow list"
  st_firing :: "string list"
  st_probe :: ProbeStatus
  st_thresholds :: Thresholds
  st_users :: UsersStatus
  st_advice_top :: "Finding list"
  st_bench :: BenchBrief
  st_maintenance :: MaintenanceState
  st_loadout :: "LoadoutBrief option"
  st_targets :: TargetsStatus
  st_cost :: "CostStatus option"
  st_spending :: "SpendingStatus option"
  st_tokens_by_window :: "TokenWindows option"
  st_watch :: "WatchStatus option"

definition status_c1_baseline :: "Status \<Rightarrow> f64 option" where
  "status_c1_baseline s = or_else (th_c1_baseline_tok_s (st_thresholds s)) (ps_baseline_tok_s (st_probe s))"

definition status_c1_floor :: "Status \<Rightarrow> f64 option" where
  "status_c1_floor s = or_else (th_c1_floor_tok_s (st_thresholds s))
    (map_option (\<lambda>b. f_mul b (th_c1_ratio (st_thresholds s))) (status_c1_baseline s))"

section \<open>Can it take the next request\<close>

datatype AdmitVerdict = V_Ok | V_GatewayLimited | V_EngineFull | V_KvLimited | V_Down

fun verdict_label :: "AdmitVerdict \<Rightarrow> string" where
  "verdict_label V_Ok = ''OK''"
| "verdict_label V_GatewayLimited = ''GATEWAY-LIMITED''"
| "verdict_label V_EngineFull = ''ENGINE-FULL''"
| "verdict_label V_KvLimited = ''KV-LIMITED''"
| "verdict_label V_Down = ''DOWN''"

definition KV_LIMITED_THRESHOLD :: f64 where "KV_LIMITED_THRESHOLD = f_lit (97 / 100)"

definition lane_waiters :: "Status \<Rightarrow> u64" where
  "lane_waiters s = u64_add (ls_waiters (la_public (st_lanes s))) (ls_waiters (la_trusted (st_lanes s)))"

definition engine_full :: "Status \<Rightarrow> bool" where
  "engine_full s \<longleftrightarrow> 0 < sv_slots (st_serve s) \<and> f_ge (sv_running (st_serve s)) (f_of_nat (sv_slots (st_serve s)))"

definition admission_verdict :: "Status \<Rightarrow> AdmitVerdict" where
  "admission_verdict s =
    (if \<not> sv_up (st_serve s) then V_Down
     else if 0 < lane_waiters s \<and> \<not> engine_full s then V_GatewayLimited
     else if engine_full s then V_EngineFull
     else if f_ge (sv_kv_usage (st_serve s)) KV_LIMITED_THRESHOLD then V_KvLimited
     else V_Ok)"

section \<open>What an engine does not publish\<close>

definition is_na :: "ServeStatus \<Rightarrow> string \<Rightarrow> bool" where
  "is_na sv key \<longleftrightarrow> key \<in> set (sv_not_reported sv)"

definition engine_label :: "ServeStatus \<Rightarrow> string" where
  "engine_label sv = (case engine_parse (sv_engine sv) of None \<Rightarrow> ''the engine'' | Some k \<Rightarrow> engine_kind_label k)"

definition na_text :: "ServeStatus \<Rightarrow> string \<Rightarrow> string option" where
  "na_text sv key = (if is_na sv key then Some (''n/a (not reported by '' @ engine_label sv @ '')'') else None)"

definition no_reading_reason :: "ServeStatus \<Rightarrow> string" where
  "no_reading_reason sv =
    (if f_gt (sv_prompt_tokens_total sv) (sv_cached_tokens_total sv) then ''not enough reading yet to report a rate''
     else ''no prompt read yet'')"

section \<open>Facts\<close>

lemma verdict_label_inj: "verdict_label a = verdict_label b \<longleftrightarrow> a = b"
  by (cases a; cases b) simp_all

lemma verdict_cases:
  "admission_verdict s = V_Down \<longleftrightarrow> \<not> sv_up (st_serve s)"
  "admission_verdict s = V_EngineFull \<longleftrightarrow> sv_up (st_serve s) \<and> engine_full s"
  "admission_verdict s = V_GatewayLimited \<longleftrightarrow> sv_up (st_serve s) \<and> \<not> engine_full s \<and> 0 < lane_waiters s"
  "admission_verdict s = V_KvLimited \<longleftrightarrow> sv_up (st_serve s) \<and> \<not> engine_full s \<and> lane_waiters s = 0 \<and>
     f_ge (sv_kv_usage (st_serve s)) KV_LIMITED_THRESHOLD"
  by (auto simp: admission_verdict_def)

end
