(* ===== verification/PageReadings.thy ===== *)
theory PageReadings
  imports Readings StatusDoc
begin

text \<open>
  \<open>crates/lss-core/src/readings.rs\<close>, the domains: the readings of a \<open>/status\<close> document, with the one
  sentence that explains each. \<open>fmt_local\<close> (the host's local time as text, \<open>chrono\<close>) is an argument.
\<close>

section \<open>Numbers as text\<close>

definition pct0 :: "f64 \<Rightarrow> string" where
  "pct0 x = fmt_fixed 0 x @ ''%''"

definition dur_text :: "i64 \<Rightarrow> string" where
  "dur_text secs =
    (let s = nat (max 0 secs) in
     if s < 90 then show_nat s @ ''s''
     else if s < 5400 then show_nat (s div 60) @ ''m''
     else show_nat (s div 3600) @ ''h'' @ pad0 2 (show_nat ((s mod 3600) div 60)) @ ''m'')"

definition tok_text :: "f64 \<Rightarrow> string" where
  "tok_text x =
    (if f_ge x (F_Fin 1000000) then fmt_fixed 1 (f_div x (F_Fin 1000000)) @ ''M''
     else if f_ge x (F_Fin 1000) then fmt_fixed 1 (f_div x (F_Fin 1000)) @ ''k''
     else fmt_fixed 0 x)"

section \<open>The collector\<close>

definition collector_stale_after :: "Status \<Rightarrow> i64" where
  "collector_stale_after s = max 30 (int (ci_poll_secs (st_collector s)) * 3)"

definition collector_stale :: "Status \<Rightarrow> i64 \<Rightarrow> i64 option" where
  "collector_stale s now =
    (case ci_last_sample_ts (st_collector s) of
       None \<Rightarrow> None
     | Some ts \<Rightarrow> if collector_stale_after s < now - ts then Some (now - ts) else None)"

definition collector_readings :: "Status \<Rightarrow> i64 \<Rightarrow> Reading list" where
  "collector_readings s now =
    (case collector_stale s now of
       None \<Rightarrow> []
     | Some age \<Rightarrow> [offline ''collector'' ''collector''
         (''No sample for '' @ dur_text age @ '': every number on this page is at least that old.'')])"

section \<open>The engine\<close>

definition serve_down :: "Status \<Rightarrow> i64 \<Rightarrow> Reading" where
  "serve_down s now = offline ''serve.up'' ''engine''
    (''The model server has not answered''
      @ some_or [] (map_option (\<lambda>t. '' for '' @ dur_text (now - t)) (sv_down_since (st_serve s)))
      @ '': nothing reaches the model until it is back.'')"

definition serve_silent :: "ServeStatus \<Rightarrow> Reading list" where
  "serve_silent sv =
    (case keep (\<lambda>_. f_gt (sv_running sv) (F_Fin 0)) (sv_secs_since_last_token sv) of
       None \<Rightarrow> []
     | Some secs \<Rightarrow> [live ''serve.silent'' ''engine'' (show_int secs @ ''s silent'')
         (fmt_fixed 0 (sv_running sv) @ '' requests are running but no token has come out for '' @ show_int secs
           @ ''s - the pattern that came before the GPU hangs.'')
         (ramp (f_of_int secs) (F_Fin 10) (F_Fin 90))])"

definition serve_kv :: "ServeStatus \<Rightarrow> Reading" where
  "serve_kv sv =
    (if is_na sv ''kv_usage'' then
       no_data ''serve.kv'' ''KV cache'' (engine_label sv @ '' does not report KV cache use.'')
     else
       (let p = f_mul (sv_kv_usage sv) (F_Fin 100) in
        live ''serve.kv'' ''KV cache'' (pct0 p)
          ''When the KV cache fills, new requests wait for a running one to finish, however idle the GPUs look.''
          (ramp p (F_Fin 80) (F_Fin 100))))"

definition serve_evictions :: "ServeStatus \<Rightarrow> Reading" where
  "serve_evictions sv =
    (case sv_evicted_tok_per_hour_10m sv of
       Some e \<Rightarrow>
         if f_gt (sv_kv_max_tokens sv) (F_Fin 0) then
           live ''serve.evictions'' ''evictions'' (tok_text e @ '' tok/h'')
             ''Cached prompts are pushed out to make room, so a returning conversation pays to read its whole history again.''
             (ramp (f_div e (sv_kv_max_tokens sv)) (f_lit (1 / 2)) (F_Fin 5))
         else no_data ''serve.evictions'' ''evictions''
             ''The KV cache size is unknown, so evictions cannot be put in proportion.''
     | None \<Rightarrow> no_data ''serve.evictions'' ''evictions'' ''No eviction samples in the last 10 minutes yet.'')"

definition queue_full :: "Status \<Rightarrow> f64" where
  "queue_full s =
    (if f_gt (th_queue_reqs (st_thresholds s)) (F_Fin 0) then f_mul (th_queue_reqs (st_thresholds s)) (f_lit (3 / 2))
     else f_of_nat (max 1 (sv_slots (st_serve s))))"

definition serve_queue :: "Status \<Rightarrow> Reading" where
  "serve_queue s =
    (let sv = st_serve s in
     if f_gt (sv_queue sv) (F_Fin 0) then
       live ''serve.queue'' ''queue'' (fmt_fixed 0 (sv_queue sv) @ '' waiting'')
         (''Requests are waiting for a free slot: each one'' @ [CHR 0x27]
           @ ''s first word is delayed until a running answer finishes.'')
         (ramp (sv_queue sv) (F_Fin 0) (queue_full s))
     else live ''serve.queue'' ''queue'' ''0 waiting'' ''Every request gets a slot straight away.'' (F_Fin 0))"

definition serve_slots :: "Status \<Rightarrow> Reading list" where
  "serve_slots s =
    (if admission_verdict s = V_EngineFull then
       [live ''serve.slots'' ''slots'' (fmt_fixed 0 (sv_running (st_serve s)) @ ''/'' @ show_nat (sv_slots (st_serve s)))
          ''Every slot is busy, so the next request waits until an answer finishes.'' (f_lit (7 / 10))]
     else [])"

definition something_waits :: "Status \<Rightarrow> bool" where
  "something_waits s \<longleftrightarrow> f_gt (sv_queue (st_serve s)) (F_Fin 0) \<or>
     0 < ls_waiters (la_trusted (st_lanes s)) \<or> 0 < ls_waiters (la_public (st_lanes s))"

definition serve_queue_wait :: "Status \<Rightarrow> Reading" where
  "serve_queue_wait s =
    (case Option.bind (sv_latency (st_serve s)) ln_queue_time of
       Some q \<Rightarrow> live ''serve.queue_wait'' ''queue wait'' (''p50 '' @ fmt_fixed 0 (p50_ms q) @ '' ms'')
         ''Half of recent requests sat in line at least this long before the model started on them.''
         (corroborate (ramp (p50_ms q) (F_Fin 200) (F_Fin 5000)) (something_waits s))
     | None \<Rightarrow> no_data ''serve.queue_wait'' ''queue wait'' ''No queue-time histogram in the recent window.'')"

definition requests_slow :: "Status \<Rightarrow> bool" where
  "requests_slow s \<longleftrightarrow>
    (case sv_ttft_avg_ms_10m (st_serve s) of None \<Rightarrow> False
     | Some t \<Rightarrow> f_gt t (f_mul (th_c1_max_ttft_s (st_thresholds s)) (F_Fin 1000))) \<or>
    (case (sv_prefill_tok_s (st_serve s), sv_prefill_tok_s_typical (st_serve s)) of
       (Some now, Some typ) \<Rightarrow> f_gt typ (F_Fin 0) \<and> f_lt now (f_mul typ (f_lit (1 / 2)))
     | _ \<Rightarrow> False)"

definition serve_cache :: "Status \<Rightarrow> Reading list" where
  "serve_cache s =
    (let sv = st_serve s in
     if is_na sv ''cache_hit'' then
       [no_data ''serve.cache_hit'' ''cache hit'' (engine_label sv @ '' does not report a prefix-cache hit rate.'')]
     else if f_le (sv_prompt_tokens_total sv) (F_Fin 0) then
       [no_data ''serve.cache_hit'' ''cache hit'' ''No prompt has been read yet, so there is no hit rate to judge.'']
     else
       (let windowed = map_option (\<lambda>v. f_mul v (F_Fin 100)) (sv_cached_share_10m sv);
            p = some_or (f_mul (sv_cache_hit_rate sv) (F_Fin 100)) windowed;
            d = (if f_ge p (F_Fin 55) then ''Most of each prompt is served from cache, so long conversations start quickly.''
                 else ''Prompts that miss the cache are read from scratch, so long conversations get slower to start with every turn.'');
            v = (if windowed \<noteq> None then pct0 p @ '' of the last 10 min'' @ [CHR 0x27] @ ''s prompt tokens'' else pct0 p)
        in live ''serve.cache_hit'' ''cache hit'' v d (corroborate (ramp p (F_Fin 55) (F_Fin 5)) (requests_slow s))
           # (if windowed \<noteq> None then
                [informational (live ''serve.cache_hit_now'' ''cache hit (engine)''
                   (pct0 (f_mul (sv_cache_hit_rate sv) (F_Fin 100)))
                   ''What the engine reported for its last prompt read, which swings with a single cold batch.'' (F_Fin 0))]
              else [])))"

definition serve_speed :: "Status \<Rightarrow> i64 \<Rightarrow> Reading" where
  "serve_speed s now =
    (case (ps_baseline_tok_s (st_probe s), ps_last_ok (st_probe s)) of
       (None, _) \<Rightarrow> no_data ''serve.speed'' ''speed''
         (''No baseline yet: a single request'' @ [CHR 0x27] @ ''s normal speed on this box is still being learned.'')
     | (Some base, None) \<Rightarrow> no_data ''serve.speed'' ''speed'' ''The speed probe has not completed a reading yet.''
     | (Some base, Some p) \<Rightarrow>
         (let age = now - pr_ts p;
              busy = no_data ''serve.speed'' ''speed''
                (''The server has been too busy to time a single request for '' @ dur_text age @ ''.'')
          in case pr_decode_tok_s p of
               None \<Rightarrow> busy
             | Some t \<Rightarrow>
                if age \<le> max 1 (th_c1_stale_secs (st_thresholds s)) \<and> f_gt base (F_Fin 0) then
                  live ''serve.speed'' ''speed''
                    (fmt_fixed 0 t @ '' tok/s ('' @ fmt_fixed 0 (f_mul (f_div t base) (F_Fin 100)) @ ''% of normal)'')
                    ''One answer is being written at this speed; below normal, every reply takes longer to finish.''
                    (ramp t base (f_mul base (f_lit (45 / 100))))
                else busy))"

definition serve_ttft :: "Status \<Rightarrow> Reading" where
  "serve_ttft s =
    (case Option.bind (sv_latency (st_serve s)) ln_ttft of
       Some t \<Rightarrow>
         (let lim = f_mul (th_c1_max_ttft_s (st_thresholds s)) (F_Fin 1000) in
          live ''serve.ttft'' ''first word'' (''p50 '' @ fmt_fixed 0 (p50_ms t) @ '' / p90 '' @ fmt_fixed 0 (p90_ms t) @ '' ms'')
            ''One request in ten waited at least the p90 for its first word.''
            (if f_gt lim (F_Fin 0) then ramp (p90_ms t) lim (f_mul lim (F_Fin 4)) else F_Fin 0))
     | None \<Rightarrow> no_data ''serve.ttft'' ''first word'' ''No time-to-first-token histogram in the recent window.'')"

definition serve_facts :: "ServeStatus \<Rightarrow> Reading list" where
  "serve_facts sv =
    [informational (live ''serve.decode'' ''writing'' (fmt_fixed 0 (sv_decode_tok_s sv) @ '' tok/s'')
       ''Total writing speed across every running request.'' (F_Fin 0)),
     (case sv_prefill_tok_s sv of
        Some p \<Rightarrow> informational (live ''serve.prefill'' ''reading'' (tok_text p @ '' tok/s'')
          ''How fast prompts are read right now; a long prompt waits roughly its length divided by this for its first word.''
          (F_Fin 0))
      | None \<Rightarrow> no_data ''serve.prefill'' ''reading'' (''No prompt-reading rate: '' @ no_reading_reason sv @ ''.''))]
    @ (case Option.bind (sv_latency sv) ln_itl of
         None \<Rightarrow> []
       | Some i \<Rightarrow> [informational (live ''serve.itl'' ''between words'' (''p50 '' @ fmt_fixed 1 (p50_ms i) @ '' ms'')
           ''The gap between words once an answer is streaming.'' (F_Fin 0))])
    @ (if f_gt (sv_spec_accept_length sv) (F_Fin 0) then
         [informational (live ''serve.accept'' ''accept'' (fmt_fixed 2 (sv_spec_accept_length sv))
           ''Tokens the draft model gets accepted per step; more means more of the writing comes free.'' (F_Fin 0))]
       else [])
    @ [informational (live ''serve.running'' ''running'' (fmt_fixed 0 (sv_running sv) @ ''/'' @ show_nat (sv_slots sv))
         (''Requests being answered at once, out of the engine'' @ [CHR 0x27] @ ''s slots.'') (F_Fin 0))]"

definition serve_readings :: "Status \<Rightarrow> i64 \<Rightarrow> Reading list" where
  "serve_readings s now =
    (let sv = st_serve s in
     if \<not> sv_up sv then [serve_down s now]
     else serve_silent sv @ [serve_kv sv, serve_evictions sv, serve_queue s] @ serve_slots s
       @ [serve_queue_wait s] @ serve_cache s @ [serve_speed s now, serve_ttft s] @ serve_facts sv)"

section \<open>The GPUs\<close>

definition card_key :: "GpuStatus \<Rightarrow> string \<Rightarrow> string" where
  "card_key g f = ''gpu.'' @ show_nat (gs_index (gps_sample g)) @ ''.'' @ f"

definition card_name :: "GpuStatus \<Rightarrow> string \<Rightarrow> string" where
  "card_name g f = ''GPU'' @ show_nat (gs_index (gps_sample g)) @ '' '' @ f"

definition DEGREE_C :: string where "DEGREE_C = [CHR 0xC2, CHR 0xB0, CHR ''C'']"

definition gpu_temp :: "GpuStatus \<Rightarrow> bool \<Rightarrow> f64 \<Rightarrow> Reading" where
  "gpu_temp g grp alert_c =
    (case gs_temp_c (gps_sample g) of
       Some t \<Rightarrow>
         (let d = (if grp then ''A card this hot slows its clocks to protect itself, and the whole group waits for it.''
                   else ''A card this hot slows its clocks to protect itself, and every answer slows with it.'');
              score = (if f_gt alert_c (F_Fin 0)
                then ramp t (f_sub alert_c (F_Fin 15)) (f_add alert_c (F_Fin 5)) else ramp t (F_Fin 78) (F_Fin 92));
              r = live (card_key g ''temp'') (card_name g ''temp'') (fmt_fixed 0 t @ DEGREE_C) d score
          in if gps_thermal_excluded g then
               informational (with_detail ''Thermal alerts are off for this card by configuration, so its heat is shown but never headlined.'' r)
             else r)
     | None \<Rightarrow> no_data (card_key g ''temp'') (card_name g ''temp'') ''The driver reports no temperature for this card.'')"

definition THROTTLE_SCORES :: "string list" where
  "THROTTLE_SCORES = [''hw_thermal'', ''sw_thermal'', ''hw_slowdown'', ''hw_power_brake'']"

definition all_reasons :: "GpuStatus \<Rightarrow> string list" where
  "all_reasons g = filter (\<lambda>t. t \<noteq> [] \<and> t \<noteq> ''clean'') (gps_throttle g)"

definition scoring_reasons :: "GpuStatus \<Rightarrow> string list" where
  "scoring_reasons g = filter (\<lambda>r. r \<in> set THROTTLE_SCORES) (all_reasons g)"

definition clock_deficit :: "GpuStatus \<Rightarrow> f64 option" where
  "clock_deficit g =
    (case (gs_clock_mhz (gps_sample g), Option.bind (gps_health g) gh_clock_max_mhz) of
       (Some c, Some m) \<Rightarrow>
         if f_gt m (F_Fin 0) then Some (f_mul (f_sub (F_Fin 1) (f_div c m)) (F_Fin 100)) else None
     | _ \<Rightarrow> None)"

definition gpu_throttle :: "GpuStatus \<Rightarrow> Reading" where
  "gpu_throttle g =
    (let k = card_key g ''throttle''; l = card_name g ''throttle'' in
     if all_reasons g = [] then live k l ''none'' ''The driver reports no reason to hold the clocks back.'' (F_Fin 0)
     else if scoring_reasons g = [] then
       informational (live k l (join '', '' (all_reasons g))
         ''The driver reports this card is held to a configured power limit - a chosen setting, not a fault.'' (F_Fin 0))
     else
       (let reasons = join '', '' (scoring_reasons g) in
        case clock_deficit g of
          Some deficit \<Rightarrow>
            live k l (reasons @ '' (-'' @ fmt_fixed 0 (f_max deficit (F_Fin 0)) @ ''%)'')
              (''The driver is holding this card'' @ [CHR 0x27] @ ''s clock down, so it does less work per second than it can.'')
              (corroborate (ramp deficit (F_Fin 5) (F_Fin 45)) True)
        | None \<Rightarrow>
            live k l reasons
              (''The driver is holding this card'' @ [CHR 0x27] @ ''s clock down; how far is unknown until its maximum clock has been read.'')
              (F_Fin 0)))"

definition gpu_facts :: "GpuStatus \<Rightarrow> Reading list" where
  "gpu_facts g =
    (let sm = gps_sample g in
     (case (gs_power_w sm, gs_power_limit_w sm) of
        (Some p, Some l) \<Rightarrow> [informational (live (card_key g ''power'') (card_name g ''power'')
          (fmt_fixed 0 p @ ''/'' @ fmt_fixed 0 l @ '' W'')
          (''Power drawn against this card'' @ [CHR 0x27] @ ''s limit.'') (F_Fin 0))]
      | _ \<Rightarrow> [])
     @ (case gs_util_pct sm of
        Some u \<Rightarrow> [informational (live (card_key g ''util'') (card_name g ''util'') (pct0 u)
          ''Share of the last interval this card was computing.'' (F_Fin 0))]
      | None \<Rightarrow> [])
     @ (case (gs_mem_used_mib sm, gs_mem_total_mib sm) of
        (Some u, Some t) \<Rightarrow> [informational (live (card_key g ''mem'') (card_name g ''memory'')
          (fmt_fixed 1 (f_div u (F_Fin 1024)) @ ''/'' @ fmt_fixed 1 (f_div t (F_Fin 1024)) @ '' GiB'')
          ''Memory the engine reserved up front for weights and cache; full is normal for a serving card.'' (F_Fin 0))]
      | _ \<Rightarrow> []))"

definition gpu_readings_of :: "GpuStatus \<Rightarrow> bool \<Rightarrow> f64 \<Rightarrow> Reading list" where
  "gpu_readings_of g grp alert_c = [gpu_temp g grp alert_c, gpu_throttle g] @ gpu_facts g"

definition gpu_card :: "Status \<Rightarrow> GpuStatus \<Rightarrow> Reading list" where
  "gpu_card s g = gpu_readings_of g (1 < length (st_gpus s)) (th_thermal_temp_c (st_thresholds s))"

definition readings_median :: "f64 list \<Rightarrow> f64" where
  "readings_median xs =
    (let v = sort_total xs; n = length v in
     if n = 0 then F_Fin 0
     else if n mod 2 = 1 then v ! (n div 2)
     else f_div (f_add (v ! (n div 2 - 1)) (v ! (n div 2))) (F_Fin 2))"

text \<open>\<open>f64::MAX\<close>.\<close>

definition F64_MAX :: f64 where "F64_MAX = F_Fin (of_int ((2 ^ 53 - 1) * 2 ^ 971))"

definition gpu_skew :: "Status \<Rightarrow> Reading list" where
  "gpu_skew s =
    (case collect_somes (map gps_util_pct_med (st_gpus s)) of
       Some meds \<Rightarrow>
         if 1 < length meds then
           (let pack = readings_median meds;
                lo = foldl f_min F64_MAX meds;
                behind = f_max (f_sub pack lo) (F_Fin 0);
                engine_working = (sv_up (st_serve s) \<and> f_gt (sv_running (st_serve s)) (F_Fin 0));
                window = (if 0 < ci_poll_secs (st_collector s)
                  then dur_text (int (ci_poll_secs (st_collector s)) * int UTIL_MEDIAN_POLLS)
                  else show_nat UTIL_MEDIAN_POLLS @ '' polls'')
            in [live ''gpu.skew'' ''GPU skew'' (fmt_fixed 0 behind @ '' pts behind the pack over '' @ window)
                  ''The cards split every request between them, so the one lagging the rest holds them up and the group runs at the pace of the slowest.''
                  (corroborate (ramp behind (F_Fin 10) (F_Fin 40)) (engine_working \<and> f_ge pack (F_Fin 50)))])
         else []
     | None \<Rightarrow>
         if 1 < length (st_gpus s) then
           [no_data ''gpu.skew'' ''GPU skew''
             ''No windowed utilisation yet: one card lagging the others is only worth saying when it has lagged for a while, and this collector has not published enough polls to tell (an older collector never will - update it).'']
         else [])"

definition gpus_readings :: "Status \<Rightarrow> Reading list" where
  "gpus_readings s = concat (map (gpu_card s) (st_gpus s)) @ gpu_skew s"

section \<open>The gateway\<close>

definition gate_held :: "Status \<Rightarrow> Reading" where
  "gate_held s =
    (let waiters = u64_add (ls_waiters (la_trusted (st_lanes s))) (ls_waiters (la_public (st_lanes s))) in
     if waiters = 0 then live ''gate.waiters'' ''held'' ''0 waiting'' ''Nothing is held at the gateway.'' (F_Fin 0)
     else if admission_verdict s = V_GatewayLimited then
       live ''gate.waiters'' ''held'' (show_nat waiters @ '' waiting'')
         ''Requests are held at the gateway while the engine has free slots: the wait is ours - the token budget, not the GPUs.''
         (f_add MEDIUM (f_mul (f_lit (3 / 10)) (ramp (f_of_nat waiters) (F_Fin 0) (F_Fin 16))))
     else
       live ''gate.waiters'' ''held'' (show_nat waiters @ '' waiting'')
         ''Requests wait at the gateway because the engine is busy; they go in as answers finish.'' (F_Fin 0))"

definition lane_key :: "string \<Rightarrow> string \<Rightarrow> string" where
  "lane_key lane f = ''gate.'' @ lane @ ''.'' @ f"

definition lane_budget :: "string \<Rightarrow> LaneStatus \<Rightarrow> Reading" where
  "lane_budget lane l =
    (case keep (\<lambda>b. 0 < b) (ls_budget_tokens l) of
       Some b \<Rightarrow>
         (let used = f_of_nat (ls_inflight_tokens l); p = f_mul (f_div used (f_of_nat b)) (F_Fin 100) in
          live (lane_key lane ''budget'') (lane @ '' budget'')
            (tok_text used @ '' of '' @ tok_text (f_of_nat b) @ '' ('' @ pct0 p @ '')'')
            (''When the '' @ lane @ '' lane'' @ [CHR 0x27]
              @ ''s token budget is full, its requests wait at the gateway even if the engine has room.'')
            (ramp p (F_Fin 70) (F_Fin 100)))
     | None \<Rightarrow> no_data (lane_key lane ''budget'') (lane @ '' budget'')
         (''This gateway publishes no in-flight token budget for the '' @ lane @ '' lane.''))"

definition lane_failed :: "string \<Rightarrow> string \<Rightarrow> LaneStatus \<Rightarrow> Reading" where
  "lane_failed lane who l =
    (let failed = cc_5xx (ls_codes_10m l) in
     live (lane_key lane ''failed'') (lane @ '' failed'') (show_nat failed @ '' in 10 min'')
       (if 0 < failed then who @ '' got an error instead of an answer.''
        else ''No '' @ lane @ '' request has failed in the last 10 minutes.'')
       (if 0 < failed then f_add (f_lit (1 / 2)) (f_mul (f_lit (4 / 10)) (ramp (f_of_nat failed) (F_Fin 0) (F_Fin 20)))
        else F_Fin 0))"

definition lane_turned :: "string \<Rightarrow> string \<Rightarrow> LaneStatus \<Rightarrow> Reading" where
  "lane_turned lane who l =
    (let turned = cc_4xx (ls_codes_10m l) in
     live (lane_key lane ''turned'') (lane @ '' turned away'') (show_nat turned @ '' in 10 min'')
       (if 0 < turned then who @ '' were refused at the gateway and have to retry.''
        else ''No '' @ lane @ '' caller was turned away in the last 10 minutes.'')
       (if 0 < turned then f_add (f_lit (4 / 10)) (f_mul (f_lit (2 / 10)) (ramp (f_of_nat turned) (F_Fin 0) (F_Fin 50)))
        else F_Fin 0))"

definition lane_readings :: "string \<Rightarrow> string \<Rightarrow> LaneStatus \<Rightarrow> Reading list" where
  "lane_readings lane who l = [lane_budget lane l, lane_failed lane who l, lane_turned lane who l]"

definition gateway_readings :: "Status \<Rightarrow> Reading list" where
  "gateway_readings s =
    (if gst_absent (st_gate s) then []
     else if \<not> gst_up (st_gate s) then
       [offline ''gate.up'' ''gateway''
         ''The gateway is not answering: every client that goes through it is refused until it is back.'']
     else gate_held s
       # lane_readings ''public'' ''Outside callers'' (la_public (st_lanes s))
       @ lane_readings ''trusted'' ''Your own agents and tools'' (la_trusted (st_lanes s)))"

definition gate_lane :: "Status \<Rightarrow> string \<Rightarrow> Reading list" where
  "gate_lane s lane = filter (\<lambda>r. starts_with (rd_key r) (''gate.'' @ lane @ ''.'')) (gateway_readings s)"

end
