(* ===== verification/EventReadings.thy ===== *)
theory EventReadings
  imports PageReadings
begin

text \<open>
  \<open>crates/lss-core/src/readings.rs\<close>, the other domains: what the power costs, the loadout, alerts,
  incidents and driver errors, and the list of all readings.
\<close>

section \<open>Cost\<close>

definition spend_reading :: "string \<Rightarrow> string \<Rightarrow> SpendWindow \<Rightarrow> string \<Rightarrow> string \<Rightarrow> Reading" where
  "spend_reading key label w extent basis =
    (case sw_usd w of
       None \<Rightarrow> no_data key label (''Nothing priced yet '' @ extent @ ''.'')
     | Some usd \<Rightarrow>
         (let kwh = some_or [] (map_option (\<lambda>k. '' '' @ MIDDLE_DOT @ '' '' @ fmt_fixed 2 k @ '' kWh'') (sw_kwh w));
              covered = (if 0 < sw_nominal_secs w \<and>
                    f_ge (f_of_int (sw_covered_secs w)) (f_mul (f_of_int (sw_nominal_secs w)) (f_lit (95 / 100)))
                  then []
                  else '' Only '' @ fmt_days (sw_covered_secs w) @ '' of '' @ fmt_days (sw_nominal_secs w) @ '' '' @ extent
                    @ '' carried priced power, so this is a floor, not the total.'')
          in live key label (''$'' @ fmt_fixed 2 usd @ kwh)
               (''Spent on GPU power '' @ extent @ '' ('' @ basis @ '').'' @ covered) (F_Fin 0)))"

definition cost_basis :: "CostStatus \<Rightarrow> string" where
  "cost_basis c =
    (if co_rate_source c = [] then [] else ''rate: '' @ co_rate_source c @ ''; '')
    @ ''rates effective '' @ co_effective_date c @ ''; delivery and generation only, excludes the fixed daily charge''"

definition cost_live :: "CostStatus \<Rightarrow> Reading" where
  "cost_live c =
    (case (co_live_usd_per_hour c, co_current_usd_per_kwh c) of
       (Some h, Some k) \<Rightarrow>
         live ''cost.live'' ''cost now'' (''$'' @ fmt_fixed 2 h @ ''/hour'')
           (''What the GPUs draw right now costs per hour at $'' @ fmt_fixed 3 k @ ''/kWh''
             @ (if co_current_period c = [] then [] else '', the '' @ co_current_period c @ '' rate'')
             @ '' ('' @ cost_basis c @ '').'') (F_Fin 0)
     | _ \<Rightarrow> no_data ''cost.live'' ''cost now'' ''No live power reading or no rate for this hour.'')"

definition cost_today :: "CostStatus \<Rightarrow> Reading" where
  "cost_today c =
    (case co_today_usd c of
       Some u \<Rightarrow> live ''cost.today'' ''today'' (''$'' @ fmt_fixed 2 u)
         (''Spent on GPU power since midnight ('' @ cost_basis c @ '').'') (F_Fin 0)
     | None \<Rightarrow> no_data ''cost.today'' ''today'' ''No priced power samples since midnight yet.'')"

definition cost_per_1m :: "CostStatus \<Rightarrow> Reading" where
  "cost_per_1m c =
    (case co_today_usd_per_million_real_work_tokens c of
       Some u \<Rightarrow> live ''cost.per_1m'' ''per 1M tokens'' (''$'' @ fmt_fixed 3 u)
         (''What a million tokens of real work - prompt actually read plus text written - cost today ('' @ cost_basis c @ '').'')
         (F_Fin 0)
     | None \<Rightarrow> no_data ''cost.per_1m'' ''per 1M tokens'' ''Not enough real work today to price a million tokens.'')"

definition ytd_extent :: "(i64 \<Rightarrow> string \<Rightarrow> string) \<Rightarrow> Status \<Rightarrow> SpendingStatus \<Rightarrow> string" where
  "ytd_extent fmt_local s sp =
    (let jan1 = fmt_local (st_generated_at s) ''%Y'' @ ''-01-01'' in
     case sp_year_first_day sp of
       Some first \<Rightarrow> if jan1 < first then ''since Jan 1 (the stored history starts '' @ first @ '')'' else ''since Jan 1''
     | None \<Rightarrow> ''since Jan 1'')"

definition spending_readings :: "(i64 \<Rightarrow> string \<Rightarrow> string) \<Rightarrow> Status \<Rightarrow> CostStatus \<Rightarrow> SpendingStatus \<Rightarrow> Reading list" where
  "spending_readings fmt_local s c sp =
    (let basis = cost_basis c in
     [informational (spend_reading ''cost.week'' ''this week'' (sp_this_week sp) ''since Monday'' basis),
      informational (spend_reading ''cost.month'' ''month to date'' (sp_this_month sp) ''since the 1st'' basis),
      informational (spend_reading ''cost.ytd'' ''year to date'' (sp_this_year sp) (ytd_extent fmt_local s sp) basis),
      informational (case sp_month_projection_usd sp of
         Some p \<Rightarrow> live ''cost.month_projection'' ''month projected'' (''~$'' @ fmt_fixed 2 p)
           (''Where this month lands if the days so far are typical - '' @ sp_projection_note sp @ '' ('' @ basis @ '').'')
           (F_Fin 0)
       | None \<Rightarrow> no_data ''cost.month_projection'' ''month projected'' (sp_projection_note sp))])"

definition cost_readings :: "(i64 \<Rightarrow> string \<Rightarrow> string) \<Rightarrow> Status \<Rightarrow> Reading list" where
  "cost_readings fmt_local s =
    (case st_cost s of
       None \<Rightarrow> [informational (no_data ''cost'' ''cost'' ''No rates file is configured, so cost tracking is off.'')]
     | Some c \<Rightarrow>
         [informational (cost_live c), informational (cost_today c), informational (cost_per_1m c)]
         @ (case st_spending s of None \<Rightarrow> [] | Some sp \<Rightarrow> spending_readings fmt_local s c sp))"

section \<open>The loadout\<close>

definition loadout_readings :: "Status \<Rightarrow> Reading list" where
  "loadout_readings s =
    (case keep (\<lambda>m. m \<noteq> []) (or_else (sv_model (st_serve s)) (map_option lb_model (st_loadout s))) of
       Some m \<Rightarrow> [informational (live ''loadout.model'' ''model'' m ''The model the engine has loaded.'' (F_Fin 0))]
     | None \<Rightarrow> [])
    @ (case keep (\<lambda>l. lb_flags l \<noteq> []) (st_loadout s) of
         Some l \<Rightarrow> [informational (live ''loadout.flags'' ''flags'' (lb_flags l) ''The launch flags this loadout runs with.'' (F_Fin 0))]
       | None \<Rightarrow> [])"

section \<open>Alerts, incidents, driver errors\<close>

definition alert_score :: "string \<Rightarrow> f64" where
  "alert_score severity =
    (if severity = ''crit'' \<or> severity = ''critical'' \<or> severity = ''page'' then HIGH
     else if severity = ''warn'' \<or> severity = ''warning'' \<or> severity = ''hardware'' then MEDIUM
     else f_div LOW (F_Fin 2))"

definition XID_FRESH_SECS :: i64 where "XID_FRESH_SECS = 3600"
definition KIND_MAINTENANCE :: string where "KIND_MAINTENANCE = ''maintenance''"

text \<open>\<open>max_by_key(|a| a.ts)\<close>: the last of the newest.\<close>

definition newest_alert :: "AlertRow list \<Rightarrow> AlertRow option" where
  "newest_alert rows =
    foldl (\<lambda>best a. case best of None \<Rightarrow> Some a | Some b \<Rightarrow> if ar_ts b \<le> ar_ts a then Some a else Some b) None rows"

definition last_alert :: "Status \<Rightarrow> string \<Rightarrow> AlertRow option" where
  "last_alert s rule = newest_alert (filter (\<lambda>a. ar_rule a = rule \<and> \<not> ar_recovered a) (st_alerts s))"

definition alert_reading :: "Status \<Rightarrow> string \<Rightarrow> Reading" where
  "alert_reading s rule =
    (let (sev, msg) = (case last_alert s rule of
           None \<Rightarrow> (''warn'', ''Alert '' @ rule @ '' is firing.'')
         | Some a \<Rightarrow> (ar_severity a, ar_message a))
     in live (''alert.'' @ rule) ''alert'' rule (if ends_with msg ''.'' then msg else msg @ ''.'') (alert_score sev))"

definition open_incidents :: "Status \<Rightarrow> Incident list" where
  "open_incidents s = filter (\<lambda>i. in_end i = None) (st_incidents s)"

definition incident_count :: "Status \<Rightarrow> Reading" where
  "incident_count s = informational (live ''events.incidents'' ''incidents''
     (show_nat (length (st_incidents s)) @ '' (7 days), '' @ show_nat (length (open_incidents s)) @ '' open'')
     ''Outages and restarts recorded in the last week.'' (F_Fin 0))"

definition unwell :: "Status \<Rightarrow> bool" where
  "unwell s \<longleftrightarrow> \<not> sv_up (st_serve s) \<or> (\<not> gst_absent (st_gate s) \<and> \<not> gst_up (st_gate s)) \<or>
     list_ex (\<lambda>rule. case last_alert s rule of None \<Rightarrow> True | Some a \<Rightarrow> f_ge (alert_score (ar_severity a)) LOW) (st_firing s)"

definition QUOTED :: "string \<Rightarrow> string" where
  "QUOTED t = [CHR 0x22] @ t @ [CHR 0x22]"

definition undelivered_one :: "bool \<Rightarrow> AlertRow \<Rightarrow> Reading" where
  "undelivered_one works a =
    (let own = alert_score (ar_severity a);
         r = live (''events.undelivered.'' @ show_int (ar_id a)) ''alert not delivered'' (ar_rule a)
           (''The '' @ ar_severity a @ '' alert '' @ QUOTED (trim_end_matches ''.'' (ar_message a))
             @ '' was never handed over to the alert sink: nobody was told, and the next one may go the same way.'')
           (corroborate (f_min own MEDIUM) (works \<and> f_ge own LOW))
     in if \<not> works then
          informational (with_detail (''Not handed over - and nothing on this box ever has been, so there is probably no alert sink configured rather than one that failed (''
            @ ar_rule a @ '').'') r)
        else if f_lt own LOW then
          informational (with_detail (''Not handed over, and this page scores a '' @ ar_severity a
            @ '' alert below watch anyway: an alert nobody needed to be woken for is not a delivery fault ('' @ ar_rule a @ '').'') r)
        else r)"

definition undelivered_readings :: "Status \<Rightarrow> Reading list" where
  "undelivered_readings s =
    map (undelivered_one (list_ex ar_delivered (st_alerts s))) (filter (\<lambda>a. \<not> ar_delivered a) (st_alerts s))"

definition fault_text :: "string \<Rightarrow> string" where
  "fault_text detail = trim_end_by (\<lambda>c. c \<in> {CHR ''.'', CHR '','', CHR '' ''}) (trim detail)"

definition xid_incidents :: "Status \<Rightarrow> Incident list" where
  "xid_incidents s = filter (\<lambda>i. in_kind i = KIND_XID) (st_incidents s)"

definition newest_xid :: "Status \<Rightarrow> i64 option" where
  "newest_xid s = (case map in_start (xid_incidents s) of [] \<Rightarrow> None | t # ts \<Rightarrow> Some (foldl max t ts))"

definition xid_now :: "Status \<Rightarrow> i64 \<Rightarrow> bool \<Rightarrow> Incident \<Rightarrow> bool" where
  "xid_now s now bad i \<longleftrightarrow>
    max 0 (now - in_start i) \<le> XID_FRESH_SECS \<or> bad \<and> Some (in_start i) = newest_xid s"

definition xid_reading :: "Status \<Rightarrow> i64 \<Rightarrow> bool \<Rightarrow> Incident \<Rightarrow> Reading" where
  "xid_reading s now bad i =
    (let age = max 0 (now - in_start i);
         what = dur_text age @ '' ago ('' @ fault_text (in_detail i) @ '')'';
         r = live (''events.xid.'' @ show_int (in_id i)) ''GPU driver error'' (in_kind i)
           (if age \<le> XID_FRESH_SECS then
              ''The driver reported a GPU fault '' @ what @ '': a card that has just thrown an Xid can hang or drop off the bus again.''
            else ''The driver reported a GPU fault '' @ what
              @ '', and something is wrong on this box right now - this is the newest hardware fault that could explain it.'')
           (corroborate MEDIUM (xid_now s now bad i))
     in if xid_now s now bad i then r
        else informational (with_detail (''A GPU fault the driver reported '' @ what
          @ '', with nothing saying the box is unwell since: a dated record, not something happening now.'') r))"

definition xid_readings :: "Status \<Rightarrow> i64 \<Rightarrow> bool \<Rightarrow> Reading list" where
  "xid_readings s now bad = map (xid_reading s now bad) (xid_incidents s)"

definition open_reading :: "Status \<Rightarrow> Reading list" where
  "open_reading s =
    (case filter (\<lambda>i. in_kind i \<noteq> KIND_MAINTENANCE) (open_incidents s) of
       i # rest \<Rightarrow>
         (let r = live ''events.open'' ''open incident'' (in_kind i)
                (''An incident opened '' @ in_kind i @ '' has not been seen to close.'') (corroborate MEDIUM (unwell s))
          in [if unwell s then r
              else informational (with_detail (''An incident opened '' @ in_kind i
                @ '' has not been seen to close, and nothing else says the box is unwell right now.'') r)])
     | [] \<Rightarrow>
         (case find (\<lambda>i. in_kind i = KIND_MAINTENANCE) (open_incidents s) of
            Some i \<Rightarrow> [informational (live ''events.open'' ''open incident'' (in_kind i)
              ''Planned maintenance is open, which is a note to yourself rather than something wrong.'' (F_Fin 0))]
          | None \<Rightarrow> []))"

definition event_readings :: "Status \<Rightarrow> i64 \<Rightarrow> Reading list" where
  "event_readings s now =
    map (alert_reading s) (st_firing s) @ [incident_count s] @ undelivered_readings s
    @ xid_readings s now (unwell s) @ open_reading s"

section \<open>Every reading on the page\<close>

definition all_readings :: "(i64 \<Rightarrow> string \<Rightarrow> string) \<Rightarrow> Status \<Rightarrow> i64 \<Rightarrow> Reading list" where
  "all_readings fmt_local s now =
    collector_readings s now @ serve_readings s now @ gpus_readings s @ gateway_readings s
    @ cost_readings fmt_local s @ loadout_readings s @ event_readings s now"

end
