(* ===== verification/PageFacts.thy ===== *)
theory PageFacts
  imports EventReadings
begin

text \<open>
  Facts about the page: every reading is well formed, the dead sources have their own keys, the facts
  about the setup never lead.
\<close>

section \<open>Every reading is well formed\<close>

definition source_keys :: "string list" where
  "source_keys = [''collector'', ''serve.up'', ''gate.up'']"

definition page_ok :: "Reading \<Rightarrow> bool" where
  "page_ok r \<longleftrightarrow> reading_ok r \<and> (is_offline (rd_state r) \<longleftrightarrow> rd_key r \<in> set source_keys) \<and>
     (is_offline (rd_state r) \<longrightarrow> \<not> rd_informational r)"

lemma page_ok_simps [simp]:
  "page_ok (live k l v d x) \<longleftrightarrow> k \<notin> set source_keys"
  "page_ok (no_data k l d) \<longleftrightarrow> k \<notin> set source_keys"
  "page_ok (offline k l d) \<longleftrightarrow> k \<in> set source_keys"
  "page_ok (informational r) \<longleftrightarrow> page_ok r \<and> \<not> is_offline (rd_state r)"
  "page_ok (with_detail t r) \<longleftrightarrow> page_ok r"
  by (auto simp: page_ok_def intro: reading_intros)
    (auto simp: reading_ok_def with_detail_def informational_def split: ReadingState.splits)

named_theorems domain_simps

lemmas serve_defs = serve_down_def serve_silent_def serve_kv_def serve_evictions_def serve_queue_def serve_slots_def
  serve_queue_wait_def serve_cache_def serve_speed_def serve_ttft_def serve_facts_def Let_def source_keys_def

lemma collector_page_ok [domain_simps]: "list_all page_ok (collector_readings s now)"
  by (simp add: collector_readings_def source_keys_def split: option.split)

lemma serve_silent_ok: "list_all page_ok (serve_silent sv)"
  by (simp add: serve_defs split: option.split)

lemma serve_parts_ok:
  "page_ok (serve_down s now)" "page_ok (serve_kv sv)" "page_ok (serve_evictions sv)" "page_ok (serve_queue s)"
  "list_all page_ok (serve_slots s)" "page_ok (serve_queue_wait s)" "page_ok (serve_ttft s)"
  by (simp_all add: serve_defs split: option.split)

lemma serve_cache_ok: "list_all page_ok (serve_cache s)"
  by (simp add: serve_defs)

lemma serve_speed_ok: "page_ok (serve_speed s now)"
  by (simp add: serve_defs split: option.split)

lemma serve_facts_ok: "list_all page_ok (serve_facts sv)"
  by (simp add: serve_defs split: option.split)

lemma serve_page_ok [domain_simps]: "list_all page_ok (serve_readings s now)"
  by (simp add: serve_readings_def Let_def serve_silent_ok serve_parts_ok serve_cache_ok serve_speed_ok serve_facts_ok)

lemma gpu_card_ok: "list_all page_ok (gpu_card s g)"
  by (simp add: gpu_card_def gpu_readings_of_def gpu_temp_def gpu_throttle_def gpu_facts_def card_key_def Let_def
      source_keys_def split: option.split)

lemma gpu_skew_ok: "list_all page_ok (gpu_skew s)"
  by (simp add: gpu_skew_def Let_def source_keys_def split: option.split)

lemma gpus_page_ok [domain_simps]: "list_all page_ok (gpus_readings s)"
  using gpu_card_ok [of s] gpu_skew_ok [of s] by (auto simp: gpus_readings_def list_all_iff)

lemma lane_page_ok: "lane \<in> {''public'', ''trusted''} \<Longrightarrow> list_all page_ok (lane_readings lane who l)"
  by (auto simp: lane_readings_def lane_budget_def lane_failed_def lane_turned_def lane_key_def Let_def source_keys_def
      split: option.split)

lemma gateway_page_ok [domain_simps]: "list_all page_ok (gateway_readings s)"
  by (simp add: gateway_readings_def lane_page_ok gate_held_def Let_def source_keys_def)

lemma spend_reading_ok:
  "page_ok (spend_reading k l w e b) \<longleftrightarrow> k \<notin> set source_keys" "\<not> is_offline (rd_state (spend_reading k l w e b))"
  by (simp_all add: spend_reading_def Let_def split: option.split)

lemma cost_page_ok [domain_simps]: "list_all page_ok (cost_readings f s)"
  by (simp add: cost_readings_def cost_live_def cost_today_def cost_per_1m_def spending_readings_def spend_reading_ok
      source_keys_def Let_def split: option.split)

lemma loadout_page_ok [domain_simps]: "list_all page_ok (loadout_readings s)"
  by (simp add: loadout_readings_def source_keys_def split: option.split)

lemma event_page_ok [domain_simps]: "list_all page_ok (event_readings s now)"
  by (auto simp: event_readings_def alert_reading_def incident_count_def undelivered_readings_def undelivered_one_def
      xid_readings_def xid_reading_def open_reading_def source_keys_def Let_def list_all_iff
      split: option.split list.split prod.split)

lemma all_page_ok: "list_all page_ok (all_readings f s now)"
  by (simp add: all_readings_def domain_simps)

lemma all_reading_ok: "list_all reading_ok (all_readings f s now)"
  using all_page_ok by (auto simp: list_all_iff page_ok_def)

lemma all_own_keys: "own_offline_keys (all_readings f s now)"
  using all_page_ok [of f s now] unfolding own_offline_keys_def list_all_iff page_ok_def by metis

section \<open>Dead sources\<close>

definition gate_dead :: "Status \<Rightarrow> bool" where
  "gate_dead s \<longleftrightarrow> \<not> gst_absent (st_gate s) \<and> \<not> gst_up (st_gate s)"

definition alive :: "Reading \<Rightarrow> bool" where
  "alive r \<longleftrightarrow> \<not> is_offline (rd_state r)"

lemma alive_simps [simp]:
  "alive (live k l v d x)" "alive (no_data k l d)" "\<not> alive (offline k l d)"
  "alive (informational r) \<longleftrightarrow> alive r" "alive (with_detail t r) \<longleftrightarrow> alive r"
  by (simp_all add: alive_def)

lemma collector_dead: "list_all alive (collector_readings s now) \<longleftrightarrow> collector_stale s now = None"
  by (simp add: collector_readings_def split: option.split)

lemma serve_parts_alive:
  "list_all alive (serve_silent sv)" "alive (serve_kv sv)" "alive (serve_evictions sv)" "alive (serve_queue s)"
  "list_all alive (serve_slots s)" "alive (serve_queue_wait s)" "alive (serve_ttft s)" "list_all alive (serve_cache s)"
  "alive (serve_speed s now)" "list_all alive (serve_facts sv)" "\<not> alive (serve_down s now)"
  by (simp_all add: serve_defs split: option.split)

lemma serve_dead: "list_all alive (serve_readings s now) \<longleftrightarrow> sv_up (st_serve s)"
  by (simp add: serve_readings_def Let_def serve_parts_alive)

lemma gpu_card_alive: "list_all alive (gpu_card s g)"
  by (simp add: gpu_card_def gpu_readings_of_def gpu_temp_def gpu_throttle_def gpu_facts_def Let_def split: option.split)

lemma gpu_skew_alive: "list_all alive (gpu_skew s)"
  by (simp add: gpu_skew_def Let_def split: option.split)

lemma gpus_dead: "list_all alive (gpus_readings s)"
  using gpu_card_alive [of s] gpu_skew_alive [of s] by (auto simp: gpus_readings_def list_all_iff)

lemma lane_alive: "list_all alive (lane_readings lane who l)"
  by (simp add: lane_readings_def lane_budget_def lane_failed_def lane_turned_def Let_def split: option.split)

lemma gateway_dead: "list_all alive (gateway_readings s) \<longleftrightarrow> \<not> gate_dead s"
  by (simp add: gateway_readings_def gate_dead_def lane_alive gate_held_def Let_def)

lemma spend_alive: "alive (spend_reading k l w e b)"
  by (simp add: spend_reading_def Let_def split: option.split)

lemma cost_dead: "list_all alive (cost_readings f s)"
  by (simp add: cost_readings_def cost_live_def cost_today_def cost_per_1m_def spending_readings_def spend_alive
      Let_def split: option.split)

lemma loadout_dead: "list_all alive (loadout_readings s)"
  by (simp add: loadout_readings_def split: option.split)

lemma event_parts_alive:
  "alive (alert_reading s rule)" "alive (undelivered_one works a)" "alive (xid_reading s now bad i)"
  "alive (incident_count s)" "list_all alive (open_reading s)"
  by (simp_all add: alert_reading_def case_prod_beta undelivered_one_def xid_reading_def incident_count_def
      open_reading_def Let_def split: list.split option.split)

lemma event_dead: "list_all alive (event_readings s now)"
  using event_parts_alive(5) [of s]
  by (auto simp: event_readings_def undelivered_readings_def xid_readings_def event_parts_alive list_all_iff)

lemma all_dead: "list_all alive (all_readings f s now) \<longleftrightarrow>
    collector_stale s now = None \<and> sv_up (st_serve s) \<and> \<not> gate_dead s"
  by (simp add: all_readings_def collector_dead serve_dead gpus_dead gateway_dead cost_dead loadout_dead event_dead)

section \<open>Facts about the setup\<close>

lemma cost_informational: "list_all rd_informational (cost_readings f s)"
  by (simp add: cost_readings_def spending_readings_def Let_def split: option.split)

lemma loadout_informational: "list_all rd_informational (loadout_readings s)"
  by (simp add: loadout_readings_def split: option.split)

text \<open>A stable sort commutes with a filter, so the headline only sees the judged readings.\<close>

lemma filter_insert_by:
  "sorted_wrt worse_first ys \<Longrightarrow>
    filter P (insert_by worse_first x ys) = (if P x then insert_by worse_first x (filter P ys) else filter P ys)"
proof (induction ys)
  case (Cons y ys)
  have in_front: "insert_by worse_first x zs = x # zs" if "\<forall>z \<in> set zs. worse_first x z" for zs
    using that by (cases zs) auto
  show ?case
  proof (cases "worse_first x y")
    case True
    then have "\<forall>z \<in> set (y # ys). worse_first x z" using Cons.prems page.le_trans [of x y] by auto
    then have "insert_by worse_first x (filter P (y # ys)) = x # filter P (y # ys)" by (intro in_front) auto
    then show ?thesis using True by simp
  next
    case False
    then show ?thesis using Cons by simp
  qed
qed simp

lemma filter_rank: "filter P (rank rs) = rank (filter P rs)"
  unfolding rank_def
proof (induction rs)
  case (Cons r rs)
  then show ?case by (simp add: filter_insert_by page.sorted_sort_by)
qed simp

lemma find_filter: "find P xs = find P (filter Q xs)" if "\<And>x. P x \<Longrightarrow> Q x"
  using that by (induction xs) auto

lemma find_hd: "find P xs = (case filter P xs of [] \<Rightarrow> None | x # _ \<Rightarrow> Some x)"
  by (induction xs) auto

lemma leading_judged: "leading rs inc = leading (filter (\<lambda>r. \<not> rd_informational r) rs) inc"
proof -
  let ?js = "filter (\<lambda>r. \<not> rd_informational r) rs"
  have worst: "worst_of rs = worst_of ?js"
    by (simp add: worst_of_def find_hd filter_rank)
  have found: "(\<lambda>k. find (\<lambda>r. rd_key r = k \<and> may_lead r) rs) = (\<lambda>k. find (\<lambda>r. rd_key r = k \<and> may_lead r) ?js)"
    by (intro ext find_filter) (simp add: may_lead_def)
  show ?thesis unfolding leading_def worst found ..
qed

end
