(* ===== verification/PageClaims.thy ===== *)
theory PageClaims
  imports PageFacts
begin

text \<open>The properties of the readings, the headline and the watch file.\<close>

section \<open>The readings\<close>

text \<open>Every reading of every document is on the scale: a live one has a value and scores from 0 to
  \<open>CEILING\<close>, one without an input has no value and scores 0, and only a dead source scores 1.\<close>

theorem readings_are_on_the_scale: "list_all reading_ok (all_readings fmt_local s now)"
  by (rule all_reading_ok)

section \<open>The headline\<close>

text \<open>C11. The headline is a dead source exactly when one is dead: the collector has gone quiet, the
  engine is down, or a configured gateway is down. This holds whatever led before and whatever else is
  on the page.\<close>

theorem headline_is_dead_iff_a_source_is:
  "(case leading (all_readings fmt_local s now) incumbent of None \<Rightarrow> False | Some r \<Rightarrow> is_offline (rd_state r)) \<longleftrightarrow>
    \<not> (collector_stale s now = None \<and> sv_up (st_serve s) \<and> \<not> gate_dead s)"
    (is "?dead \<longleftrightarrow> ?source")
proof
  assume ?dead
  then obtain r where r: "leading (all_readings fmt_local s now) incumbent = Some r" "is_offline (rd_state r)"
    by (auto split: option.splits)
  then have "r \<in> set (all_readings fmt_local s now)" by (auto elim: leading_cases)
  then show ?source using r(2) all_dead [of fmt_local s now] by (auto simp: alive_def list_all_iff)
next
  assume ?source
  then obtain d where d: "d \<in> set (all_readings fmt_local s now)" "is_offline (rd_state d)"
    using all_dead [of fmt_local s now] by (auto simp: alive_def list_all_iff)
  then have "\<not> rd_informational d" using all_page_ok [of fmt_local s now] by (auto simp: list_all_iff page_ok_def)
  then obtain r where "leading (all_readings fmt_local s now) incumbent = Some r" "is_offline (rd_state r)"
    using offline_leads [OF all_reading_ok all_own_keys d] by blast
  then show ?dead by simp
qed

text \<open>C36. Money and launch flags never make the headline: it is the headline of the page without them.\<close>

theorem money_never_leads:
  "leading (all_readings fmt_local s now) incumbent =
    leading (collector_readings s now @ serve_readings s now @ gpus_readings s @ gateway_readings s @ event_readings s now)
      incumbent"
proof -
  have gone: "filter (\<lambda>r. \<not> rd_informational r) (cost_readings fmt_local s @ loadout_readings s) = []"
    using cost_informational [of fmt_local s] loadout_informational [of s] by (auto simp: list_all_iff filter_empty_conv)
  show ?thesis
    unfolding all_readings_def using gone by (subst (1 2) leading_judged) simp
qed

text \<open>The headline does not flicker: shown the same readings again with itself as the incumbent, it
  stays.\<close>

theorem headline_is_stable:
  "(case leading rs incumbent of
      None \<Rightarrow> True
    | Some r \<Rightarrow> map_option rd_key (leading rs (Some (rd_key r))) = Some (rd_key r))"
proof (cases "leading rs incumbent")
  case (Some r)
  then obtain r' where "leading rs (Some (rd_key r)) = Some r'" "rd_key r' = rd_key r" by (rule leading_stable)
  then show ?thesis using Some by simp
qed simp

text \<open>C35. The headline has hysteresis: a reading that led keeps the headline exactly as long as no judged
  reading of the page beats it, by being a dead source when it is not one or by scoring at least the margin
  more.\<close>

theorem headline_has_hysteresis:
  assumes "list_all reading_ok rs" "distinct (map rd_key rs)" "q \<in> set rs" "may_lead q"
  shows "leading rs (Some (rd_key q)) = Some q \<longleftrightarrow> list_all (\<lambda>r. \<not> beats r q) rs"
  using incumbent_stays [OF assms] by (simp add: list_all_iff)

definition two_readings :: "Reading list" where
  "two_readings = [live ''serve.kv'' ''KV cache'' ''50%'' ''d'' (F_Fin (1 / 2)),
     live ''gpu.0.temp'' ''GPU0 temp'' ''85'' ''d'' (F_Fin (9 / 16))]"

theorem headline_has_hysteresis_witness:
  "leading two_readings (Some (rd_key (two_readings ! 0))) = Some (two_readings ! 0) \<longleftrightarrow>
    list_all (\<lambda>r. \<not> beats r (two_readings ! 0)) two_readings"
  by (rule headline_has_hysteresis)
    (simp_all add: two_readings_def reading_intros may_lead_def,
     simp add: live_def clamp_01_def f_clamp_def f_min_def scale_values f_lt_Fin f_le_Fin)

section \<open>The watch file\<close>

text \<open>C37. Once the watch page has shown something it is never blank again, whatever happens to the file
  (deleted, unreadable, malformed), and what it shows was read from the file at some poll.\<close>

theorem watch_never_blanks:
  assumes "trim path \<noteq> []" "fs \<noteq> []" "fst (last (watch_run parse fs (watcher_new path))) \<noteq> None"
  shows "list_all (\<lambda>r. \<exists>s f. fst r = Some s \<and> f \<in> set (fs @ gs) \<and> read_watch parse f = Inr s)
    (drop (length fs) (watch_run parse (fs @ gs) (watcher_new path)))"
proof -
  let ?w = "watcher_new path"
  have p: "wa_path ?w = path" by (simp add: watcher_new_def)
  obtain w' where w': "watch_run parse (fs @ gs) ?w = watch_run parse fs ?w @ watch_run parse gs w'"
    "wa_path w' = path" "fst (last (watch_run parse fs ?w)) = wa_last_good w'"
    using watch_run_append [of parse fs gs ?w] assms(1,2) p by auto
  have shown: "\<exists>s f. fst r = Some s \<and> f \<in> set (fs @ gs) \<and> read_watch parse f = Inr s"
    if r: "r \<in> set (watch_run parse gs w')" for r
  proof -
    obtain s where s: "fst r = Some s"
      using watch_run_keeps [of w' parse gs] w' assms(1,3) r by (auto simp: list_all_iff)
    have "(Some s, snd r) \<in> set (watch_run parse (fs @ gs) ?w)"
      using r w'(1) by (simp add: s [symmetric])
    then have "\<exists>f \<in> set ([] @ fs @ gs). read_watch parse f = Inr s"
      by (intro watch_run_shows [where w = ?w and es = "[]"]) (auto simp: watcher_new_def)
    then show ?thesis using s by auto
  qed
  show ?thesis using shown w'(1) by (simp add: list_all_iff watch_run_length)
qed

definition gone_file :: FileView where
  "gone_file = \<lparr>fv_modified = Inl ''No such file'', fv_text = Inl ''No such file''\<rparr>"

definition good_file :: FileView where
  "good_file = \<lparr>fv_modified = Inr 7, fv_text = Inr ''{}''\<rparr>"

definition parse_empty :: "string \<Rightarrow> string + WatchStatus" where
  "parse_empty t = Inr \<lparr>wst_sources = []\<rparr>"

theorem watch_never_blanks_witness:
  "list_all (\<lambda>r. \<exists>s f. fst r = Some s \<and> f \<in> set ([good_file] @ [gone_file, gone_file]) \<and> read_watch parse_empty f = Inr s)
    (drop (length [good_file]) (watch_run parse_empty ([good_file] @ [gone_file, gone_file]) (watcher_new ''watch.json'')))"
  by (rule watch_never_blanks)
    (simp_all add: watcher_new_def watcher_poll_def good_file_def read_watch_def parse_empty_def Let_def trim_def
      trim_start_by_def trim_end_by_def is_ws_def)

end
