(* ===== verification/History.thy ===== *)
theory History
  imports Samples StatusDoc
begin

text \<open>
  \<open>crates/lss-core/src/history.rs\<close>, first half: the in-memory hour of samples, the windows over its
  counters, and the graphs of the status document, one bucket per half minute.
\<close>

section \<open>The samples\<close>

definition HISTORY_SECS :: i64 where "HISTORY_SECS = 3600"
definition SERIES_STEP_SECS :: i64 where "SERIES_STEP_SECS = 30"
definition SERIES_POINTS :: usize where "SERIES_POINTS = nat (HISTORY_SECS div SERIES_STEP_SECS)"
definition RATE_WINDOW_SECS :: i64 where "RATE_WINDOW_SECS = 600"

text \<open>A \<open>VecDeque\<close>, oldest first.\<close>

type_synonym History = "Sample list"

definition history_push :: "History \<Rightarrow> Sample \<Rightarrow> History" where
  "history_push h s =
    (let cutoff = sp_ts s - HISTORY_SECS - SERIES_STEP_SECS
     in dropWhile (\<lambda>f. sp_ts f < cutoff) (h @ [s]))"

definition history_latest :: "History \<Rightarrow> Sample option" where
  "history_latest h = (if h = [] then None else Some (last h))"

definition history_since :: "History \<Rightarrow> i64 \<Rightarrow> Sample list" where
  "history_since h ts = filter (\<lambda>s. ts < sp_ts s) h"

definition util_of :: "u32 \<Rightarrow> Sample \<Rightarrow> f64 option" where
  "util_of index s =
    (case find (\<lambda>g. gs_index g = index) (sp_gpus s) of None \<Rightarrow> None | Some g \<Rightarrow> gs_util_pct g)"

definition middle_of :: "f64 list \<Rightarrow> f64" where
  "middle_of v =
    (let n = length v
     in if n mod 2 = 1 then v ! (n div 2) else f_div (f_add (v ! (n div 2 - 1)) (v ! (n div 2))) (F_Fin 2))"

definition gpu_util_median :: "History \<Rightarrow> u32 \<Rightarrow> f64 option" where
  "gpu_util_median h index =
    (case collect_somes (map (util_of index) (take UTIL_MEDIAN_POLLS (rev h))) of None \<Rightarrow> None
     | Some v \<Rightarrow> if length v < UTIL_MEDIAN_POLLS then None else Some (middle_of (sort_total v)))"

definition history_lane_log :: "History \<Rightarrow> i64 \<Rightarrow> (Sample \<Rightarrow> LaneLog) \<Rightarrow> LaneLog" where
  "history_lane_log h since_ts pick = foldl (\<lambda>acc s. lane_log_merge acc (pick s)) lane_log_default (history_since h since_ts)"

section \<open>Windows over the counters\<close>

text \<open>The average of a sum and count pair over ten minutes. After a restart of the engine the
  current totals are the window.\<close>

definition windowed_avg_ms :: "History \<Rightarrow> i64 \<Rightarrow> (ServeMetrics \<Rightarrow> f64 \<times> f64) \<Rightarrow> f64 option" where
  "windowed_avg_ms h now pick =
    (case find_map sp_metrics (rev h) of None \<Rightarrow> None
     | Some m \<Rightarrow>
        (let cur = pick m;
             old = (case find_map sp_metrics (filter (\<lambda>s. now - RATE_WINDOW_SECS \<le> sp_ts s) h) of
                      None \<Rightarrow> (F_Fin 0, F_Fin 0) | Some b \<Rightarrow> pick b);
             (ds, dc) = (if f_ge (snd cur) (snd old) \<and> f_ge (fst cur) (fst old)
                         then (f_sub (fst cur) (fst old), f_sub (snd cur) (snd old)) else cur)
         in if f_gt dc (F_Fin 0) then Some (f_mul (f_div ds dc) (F_Fin 1000)) else None))"

text \<open>A loop that looks at each step between two readings that follow each other; a poll without a
  reading breaks the chain.\<close>

fun over_steps :: "('a \<Rightarrow> ServeMetrics \<Rightarrow> ServeMetrics \<Rightarrow> 'a) \<Rightarrow> 'a \<Rightarrow> ServeMetrics option \<Rightarrow> Sample list \<Rightarrow> 'a" where
  "over_steps f acc prev [] = acc"
| "over_steps f acc prev (s # ss) =
    (case sp_metrics s of None \<Rightarrow> over_steps f acc None ss
     | Some m \<Rightarrow> over_steps f (case prev of None \<Rightarrow> acc | Some pm \<Rightarrow> f acc pm m) (Some m) ss)"

definition window_of :: "History \<Rightarrow> i64 \<Rightarrow> Sample list" where
  "window_of h from_ts = filter (\<lambda>s. from_ts \<le> sp_ts s) h"

definition reading_step :: "f64 \<times> f64 \<times> f64 \<times> f64 \<Rightarrow> ServeMetrics \<Rightarrow> ServeMetrics \<Rightarrow> f64 \<times> f64 \<times> f64 \<times> f64" where
  "reading_step acc pm m =
    (let same = comparable m pm;
         step = (\<lambda>a b. if same \<and> f_ge a b then f_sub a b else F_Fin 0);
         (a0, a1, a2, a3) = acc
     in (f_add a0 (computed_prompt_tokens_since m pm),
         f_add a1 (step (sm_prefill_forward_sum m) (sm_prefill_forward_sum pm)),
         f_add a2 (step (sm_prompt_tokens_total m) (sm_prompt_tokens_total pm)),
         f_add a3 (step (sm_cached_tokens_total m) (sm_cached_tokens_total pm))))"

definition reading_window :: "History \<Rightarrow> i64 \<Rightarrow> f64 \<times> f64 \<times> f64 \<times> f64" where
  "reading_window h now =
    over_steps reading_step (F_Fin 0, F_Fin 0, F_Fin 0, F_Fin 0) None (window_of h (now - RATE_WINDOW_SECS))"

definition counter_step :: "(ServeMetrics \<Rightarrow> f64) \<Rightarrow> f64 \<times> bool \<Rightarrow> ServeMetrics \<Rightarrow> ServeMetrics \<Rightarrow> f64 \<times> bool" where
  "counter_step pick acc pm m =
    (if comparable m pm \<and> f_ge (pick m) (pick pm) then (f_add (fst acc) (f_sub (pick m) (pick pm)), True) else acc)"

definition counter_window :: "History \<Rightarrow> i64 \<Rightarrow> i64 \<Rightarrow> (ServeMetrics \<Rightarrow> f64) \<Rightarrow> f64 option" where
  "counter_window h now span_secs pick =
    (let (sum, seen) = over_steps (counter_step pick) (F_Fin 0, False) None (window_of h (now - span_secs))
     in if seen then Some sum else None)"

fun last_growth :: "Sample option \<Rightarrow> i64 option \<Rightarrow> Sample list \<Rightarrow> i64 option" where
  "last_growth prev found [] = found"
| "last_growth prev found (s # ss) =
    (let grew = (case (prev, sp_metrics s) of
           (Some p, Some m) \<Rightarrow>
             (case sp_metrics p of None \<Rightarrow> False
              | Some pm \<Rightarrow> comparable m pm \<and> f_gt (sm_generation_tokens_total m) (sm_generation_tokens_total pm))
         | _ \<Rightarrow> False)
     in last_growth (Some s) (if grew then Some (sp_ts s) else found) ss)"

definition secs_since_last_token :: "History \<Rightarrow> i64 \<Rightarrow> i64 option" where
  "secs_since_last_token h now = map_option (\<lambda>ts. max (now - ts) 0) (last_growth None None h)"

section \<open>Buckets\<close>

record Bucket =
  bk_sum :: f64
  bk_max :: f64
  bk_n :: u32

definition bucket_default :: Bucket where
  "bucket_default = \<lparr>bk_sum = F_Fin 0, bk_max = F_Fin 0, bk_n = 0\<rparr>"

definition bucket_put :: "Bucket \<Rightarrow> f64 \<Rightarrow> Bucket" where
  "bucket_put b v =
    (if \<not> is_finite v then b
     else \<lparr>bk_sum = f_add (bk_sum b) v, bk_max = (if bk_n b = 0 then v else f_max (bk_max b) v), bk_n = bk_n b + 1\<rparr>)"

definition bucket_mean :: "Bucket \<Rightarrow> f64 option" where
  "bucket_mean b = (if 0 < bk_n b then Some (round3 (f_div (bk_sum b) (f_of_nat (bk_n b)))) else None)"

definition bucket_max :: "Bucket \<Rightarrow> f64 option" where
  "bucket_max b = (if 0 < bk_n b then Some (round3 (bk_max b)) else None)"

definition row_put :: "Bucket list \<Rightarrow> nat \<Rightarrow> f64 \<Rightarrow> Bucket list" where
  "row_put row i v = row[i := bucket_put (row ! i) v]"

definition empty_row :: "Bucket list" where
  "empty_row = replicate SERIES_POINTS bucket_default"

text \<open>The grid ends with the step that holds \<open>now\<close>; \<open>%\<close> is \<open>rem_euclid\<close>.\<close>

definition series_end :: "i64 \<Rightarrow> i64" where
  "series_end now = now - now mod SERIES_STEP_SECS + SERIES_STEP_SECS"

definition series_start :: "i64 \<Rightarrow> i64" where
  "series_start now = series_end now - HISTORY_SECS"

definition on_grid :: "i64 \<Rightarrow> Sample \<Rightarrow> bool" where
  "on_grid now s \<longleftrightarrow> series_start now \<le> sp_ts s \<and> sp_ts s < series_end now"

definition grid_index :: "i64 \<Rightarrow> Sample \<Rightarrow> nat" where
  "grid_index now s = nat ((sp_ts s - series_start now) div SERIES_STEP_SECS)"

definition power_mean_w :: "History \<Rightarrow> i64 \<Rightarrow> graph" where
  "power_mean_w h now =
    map bucket_mean (foldl (\<lambda>power s. case watts s of None \<Rightarrow> power | Some w \<Rightarrow> row_put power (grid_index now s) w)
      empty_row (filter (on_grid now) h))"

section \<open>The graphs\<close>

text \<open>The buckets of every graph, and the last reading of the engine seen.\<close>

record Graphs =
  gr_prev :: "ServeMetrics option"
  gr_decode :: "Bucket list"
  gr_running :: "Bucket list"
  gr_q_pub :: "Bucket list"
  gr_q_tru :: "Bucket list"
  gr_budget_used :: "Bucket list"
  gr_w_pub :: "Bucket list"
  gr_w_tru :: "Bucket list"
  gr_kv :: "Bucket list"
  gr_temps :: "Bucket list list"
  gr_read :: "f64 option list"
  gr_hit :: "(f64 \<times> f64) option list"
  gr_spec :: "Bucket list"
  gr_refused :: "f64 option list"
  gr_power :: "Bucket list"

definition card_rows :: "History \<Rightarrow> nat" where
  "card_rows h = max_or0 (map (\<lambda>s. max_or0 (map (\<lambda>g. gs_index g + 1) (sp_gpus s))) h)"

definition graphs_empty :: "nat \<Rightarrow> Graphs" where
  "graphs_empty gpus =
    \<lparr>gr_prev = None, gr_decode = empty_row, gr_running = empty_row, gr_q_pub = empty_row, gr_q_tru = empty_row,
     gr_budget_used = empty_row, gr_w_pub = empty_row, gr_w_tru = empty_row, gr_kv = empty_row,
     gr_temps = replicate gpus empty_row, gr_read = replicate SERIES_POINTS None,
     gr_hit = replicate SERIES_POINTS None, gr_spec = empty_row, gr_refused = replicate SERIES_POINTS None,
     gr_power = empty_row\<rparr>"

text \<open>\<open>*row[i].get_or_insert(0.0) += v\<close>.\<close>

definition sum_put :: "f64 option list \<Rightarrow> nat \<Rightarrow> f64 \<Rightarrow> f64 option list" where
  "sum_put row i v = row[i := Some (f_add (case row ! i of None \<Rightarrow> F_Fin 0 | Some x \<Rightarrow> x) v)]"

definition hit_put :: "(f64 \<times> f64) option list \<Rightarrow> nat \<Rightarrow> f64 \<Rightarrow> f64 \<Rightarrow> (f64 \<times> f64) option list" where
  "hit_put row i dp dc =
    row[i := Some (let (a, b) = (case row ! i of None \<Rightarrow> (F_Fin 0, F_Fin 0) | Some x \<Rightarrow> x)
                   in (f_add a dp, f_add b dc))]"

definition hit_step :: "Sample \<Rightarrow> ServeMetrics option \<Rightarrow> ServeMetrics \<Rightarrow> nat \<Rightarrow> (f64 \<times> f64) option list \<Rightarrow> (f64 \<times> f64) option list" where
  "hit_step s prev m i row =
    (case prev of None \<Rightarrow> row
     | Some pm \<Rightarrow>
        if comparable m pm \<and> reported s ''tokens'' \<and> reported s ''cache_hit'' then
          (let dp = f_sub (sm_prompt_tokens_total m) (sm_prompt_tokens_total pm);
               dc = f_sub (sm_cached_tokens_total m) (sm_cached_tokens_total pm)
           in if f_ge dp (F_Fin 0) \<and> f_ge dc (F_Fin 0) then hit_put row i dp dc else row)
        else row)"

definition graph_metrics :: "Sample \<Rightarrow> nat \<Rightarrow> Graphs \<Rightarrow> Graphs" where
  "graph_metrics s i g =
    (case sp_metrics s of None \<Rightarrow> g
     | Some m \<Rightarrow>
        (let tokens = (case gr_prev g of None \<Rightarrow> F_Fin 0 | Some pm \<Rightarrow> computed_prompt_tokens_since m pm)
         in g\<lparr>gr_read := sum_put (gr_read g) i tokens,
              gr_hit := hit_step s (gr_prev g) m i (gr_hit g),
              gr_spec := (if reported s ''spec'' then row_put (gr_spec g) i (sm_spec_accept_rate m) else gr_spec g),
              gr_prev := Some m,
              gr_decode := row_put (gr_decode g) i (sm_gen_throughput m),
              gr_running := row_put (gr_running g) i (sm_running m),
              gr_q_pub := row_put (gr_q_pub g) i (sm_queue_public m),
              gr_q_tru := row_put (gr_q_tru g) i (sm_queue_trusted m),
              gr_kv := row_put (gr_kv g) i (kv_usage m)\<rparr>))"

definition graph_gate :: "Sample \<Rightarrow> nat \<Rightarrow> Graphs \<Rightarrow> Graphs" where
  "graph_gate s i g =
    (case sp_gate s of None \<Rightarrow> g
     | Some gate \<Rightarrow>
        g\<lparr>gr_budget_used :=
            (case la_budget_tokens (gah_trusted gate) of None \<Rightarrow> gr_budget_used g
             | Some cap \<Rightarrow>
                if 0 < cap then row_put (gr_budget_used g) i (f_div (f_of_nat (la_inflight_tokens (gah_trusted gate))) (f_of_nat cap))
                else gr_budget_used g),
          gr_w_pub := row_put (gr_w_pub g) i (f_of_nat (la_waiters (gah_public gate))),
          gr_w_tru := row_put (gr_w_tru g) i (f_of_nat (la_waiters (gah_trusted gate)))\<rparr>)"

definition temp_put :: "nat \<Rightarrow> Bucket list list \<Rightarrow> GpuSample \<Rightarrow> Bucket list list" where
  "temp_put i temps g =
    (case gs_temp_c g of None \<Rightarrow> temps
     | Some t \<Rightarrow>
        if gs_index g < length temps then temps[gs_index g := row_put (temps ! gs_index g) i t] else temps)"

definition policy_refusals :: "LogDelta \<Rightarrow> u64" where
  "policy_refusals d =
    u64_add (u64_add (status_count (ld_public d) 413) (status_count (ld_public d) 429))
            (u64_add (status_count (ld_trusted d) 413) (status_count (ld_trusted d) 429))"

definition graph_gpus :: "Sample \<Rightarrow> nat \<Rightarrow> Graphs \<Rightarrow> Graphs" where
  "graph_gpus s i g =
    g\<lparr>gr_temps := foldl (temp_put i) (gr_temps g) (sp_gpus s),
      gr_power := (case watts s of None \<Rightarrow> gr_power g | Some w \<Rightarrow> row_put (gr_power g) i w),
      gr_refused := (if sp_gate s \<noteq> None then sum_put (gr_refused g) i (f_of_nat (policy_refusals (sp_log s)))
                     else gr_refused g)\<rparr>"

definition graph_step :: "i64 \<Rightarrow> Graphs \<Rightarrow> Sample \<Rightarrow> Graphs" where
  "graph_step now g s =
    (if \<not> on_grid now s then g\<lparr>gr_prev := sp_metrics s\<rparr>
     else (let i = grid_index now s in graph_gpus s i (graph_gate s i (graph_metrics s i g))))"

definition prefix_share :: "(f64 \<times> f64) option \<Rightarrow> f64 option" where
  "prefix_share h =
    (case h of None \<Rightarrow> None
     | Some (p, c) \<Rightarrow> if f_gt p (F_Fin 0) then Some (round3 (f_clamp (f_div c p) (F_Fin 0) (F_Fin 1))) else None)"

definition history_series :: "History \<Rightarrow> i64 \<Rightarrow> StatusSeries" where
  "history_series h now =
    (let g = foldl (graph_step now) (graphs_empty (card_rows h)) h
     in \<lparr>ss_step_s = SERIES_STEP_SECS, ss_start_ts = series_start now, ss_points = SERIES_POINTS,
         ss_decode_tok_s = map bucket_mean (gr_decode g),
         ss_prefill_tok_s = map (map_option (\<lambda>t. f_round (f_div t (f_of_int SERIES_STEP_SECS)))) (gr_read g),
         ss_running = map bucket_max (gr_running g),
         ss_queue_public = map bucket_max (gr_q_pub g),
         ss_queue_trusted = map bucket_max (gr_q_tru g),
         ss_budget_used_frac = map bucket_max (gr_budget_used g),
         ss_waiters_public = map bucket_max (gr_w_pub g),
         ss_waiters_trusted = map bucket_max (gr_w_tru g),
         ss_kv_usage = map bucket_max (gr_kv g),
         ss_gpu_temp_c = map (map bucket_max) (gr_temps g),
         ss_ttft_p99_ms = replicate SERIES_POINTS None,
         ss_itl_p99_ms = replicate SERIES_POINTS None,
         ss_prefix_hit = map prefix_share (gr_hit g),
         ss_spec_accept_rate = map bucket_mean (gr_spec g),
         ss_refused = gr_refused g,
         ss_gpu_power_w = map bucket_max (gr_power g),
         ss_usd_per_hour = replicate SERIES_POINTS None\<rparr>)"

end
