(* ===== verification/StatusBuild.thy ===== *)
theory StatusBuild
  imports History
begin

text \<open>
  \<open>crates/lss-core/src/history.rs\<close>, second half: \<open>build_status\<close>, which puts the status document together from
  the hour of samples and what the collector's other parts hold.
\<close>

record StatusInputs =
  si_now :: i64
  si_host :: string
  si_collector_version :: string
  si_collector_started_at :: i64
  si_poll_secs :: u64
  si_slots :: u32
  si_history :: History
  si_incidents :: "Incident list"
  si_alerts :: "AlertRow list"
  si_probes :: "ProbeRecord list"
  si_last_valid_probe :: "ProbeRecord option"
  si_firing :: "string list"
  si_serve_down_since :: "i64 option"
  si_gate_down_since :: "i64 option"
  si_restarts_today :: u32
  si_thermal_exclude :: "u32 list"
  si_probe_enabled :: bool
  si_probe_interval_s :: i64
  si_c1_baseline :: "f64 option"
  si_c1_baseline_source :: string
  si_thresholds :: Thresholds
  si_probes_admitted_since_gate_start :: u64
  si_latency :: "LatencyNow option"
  si_gpu_health :: "GpuHealth list"
  si_user_aliases :: "UserAlias list"
  si_tailscale :: "(string, string) btree"
  si_own_traffic :: OwnTraffic
  si_advice_top :: "Finding list"
  si_bench :: BenchBrief
  si_maintenance :: MaintenanceState
  si_loadout :: "LoadoutBrief option"
  si_prefill_typical :: "f64 option"
  si_live_decode :: "CurveRow option"
  si_public_priority :: string
  si_trusted_priority :: string
  si_targets :: TargetsStatus
  si_user_log_24h :: "LogDelta option"
  si_cost :: "CostStatus option"
  si_spending :: "SpendingStatus option"
  si_tokens :: TokenWindows
  si_watch :: "WatchStatus option"

definition STATUS_SCHEMA_VERSION :: u32 where "STATUS_SCHEMA_VERSION = 1"

section \<open>The probe is not a user\<close>

definition MONITOR_KEY :: string where "MONITOR_KEY = ''(no key)''"

definition codes_minus_one :: "nat \<Rightarrow> CodeClasses \<Rightarrow> CodeClasses" where
  "codes_minus_one cls c =
    (if cls = 2 then c\<lparr>cc_2xx := cc_2xx c - 1\<rparr>
     else if cls = 4 then c\<lparr>cc_4xx := cc_4xx c - 1\<rparr>
     else if cls = 5 then c\<lparr>cc_5xx := cc_5xx c - 1\<rparr> else c)"

definition in_window :: "i64 \<Rightarrow> i64 \<Rightarrow> ProbeRecord \<Rightarrow> bool" where
  "in_window now secs p \<longleftrightarrow> now - secs < pr_ts p \<and> pr_ts p \<le> now"

definition probe_share :: "i64 \<Rightarrow> LaneProbes \<times> CodeClasses \<Rightarrow> ProbeRecord \<Rightarrow> LaneProbes \<times> CodeClasses" where
  "probe_share now acc p =
    (case gate_logged_status p of None \<Rightarrow> acc
     | Some code \<Rightarrow>
        (let (share, codes) = acc;
             share = (if in_window now HISTORY_SECS p then share\<lparr>lp_requests_60m := lp_requests_60m share + 1\<rparr> else share)
         in if in_window now RATE_WINDOW_SECS p
            then (share\<lparr>lp_requests_10m := lp_requests_10m share + 1\<rparr>, codes_minus_one (code div 100) codes)
            else (share, codes)))"

text \<open>More requests first, then by name.\<close>

definition key_count_le :: "string \<times> u64 \<Rightarrow> string \<times> u64 \<Rightarrow> bool" where
  "key_count_le = then_le (\<lambda>k. - int (snd k)) (key_le fst)"

fun lower_first :: "string \<Rightarrow> nat \<Rightarrow> (string \<times> u64) list \<Rightarrow> (string \<times> u64) list" where
  "lower_first k n [] = []"
| "lower_first k n ((a, c) # rows) = (if a = k then (a, c - n) # rows else (a, c) # lower_first k n rows)"

definition subtract_probes :: "LaneStatus \<Rightarrow> ProbeRecord list \<Rightarrow> i64 \<Rightarrow> u64 \<Rightarrow> LaneStatus" where
  "subtract_probes lane probes now admitted_since_gate_start =
    (let (share, codes) = foldl (probe_share now)
           (\<lparr>lp_admitted = min admitted_since_gate_start (ls_admitted lane), lp_requests_10m = 0, lp_requests_60m = 0\<rparr>,
            ls_codes_10m lane) probes;
         n10 = min (lp_requests_10m share) (ls_requests_10m lane);
         n60 = (case map_of (ls_top_keys_60m lane) MONITOR_KEY of None \<Rightarrow> 0 | Some c \<Rightarrow> min (lp_requests_60m share) c);
         rows = lower_first MONITOR_KEY n60 (ls_top_keys_60m lane)
     in lane\<lparr>ls_codes_10m := codes,
          ls_requests_10m := ls_requests_10m lane - n10,
          ls_admitted := ls_admitted lane - lp_admitted share,
          ls_top_keys_60m := sort_by key_count_le (filter (\<lambda>(_, c). 0 < c) rows),
          ls_probes := share\<lparr>lp_requests_10m := n10, lp_requests_60m := n60\<rparr>\<rparr>)"

section \<open>The engine\<close>

definition per_hour :: "f64 \<Rightarrow> f64" where
  "per_hour n = round3 (f_div n (f_div (f_of_int RATE_WINDOW_SECS) (F_Fin 3600)))"

definition evicted_rate :: "StatusInputs \<Rightarrow> f64 option" where
  "evicted_rate i = map_option per_hour (counter_window (si_history i) (si_now i) RATE_WINDOW_SECS sm_evicted_tokens_total)"

definition newest_sample :: "StatusInputs \<Rightarrow> Sample option" where
  "newest_sample i = history_latest (si_history i)"

definition preempted_rate :: "StatusInputs \<Rightarrow> f64 option" where
  "preempted_rate i =
    (if (case newest_sample i of None \<Rightarrow> False | Some s \<Rightarrow> ''preemptions'' \<in> set (sp_not_reported s)) then None
     else map_option per_hour (counter_window (si_history i) (si_now i) RATE_WINDOW_SECS sm_retracted))"

definition work_1h :: "StatusInputs \<Rightarrow> WorkWindow option" where
  "work_1h i =
    (let w = counter_window (si_history i) (si_now i) HISTORY_SECS
     in case (w sm_prompt_tokens_total, w sm_cached_tokens_total, w sm_generation_tokens_total, w sm_requests_total) of
          (Some p, Some c, Some g, Some r) \<Rightarrow> Some \<lparr>ww_prompt = p, ww_cached = c, ww_generated = g, ww_requests = r\<rparr>
        | _ \<Rightarrow> None)"

definition metrics_zero :: ServeMetrics where
  "metrics_zero =
    \<lparr>sm_running = F_Fin 0, sm_queue = F_Fin 0, sm_running_public = F_Fin 0, sm_running_trusted = F_Fin 0,
     sm_queue_public = F_Fin 0, sm_queue_trusted = F_Fin 0, sm_gen_throughput = F_Fin 0, sm_token_usage = F_Fin 0,
     sm_full_token_usage = F_Fin 0, sm_kv_used_tokens = F_Fin 0, sm_max_total_tokens = F_Fin 0,
     sm_cache_hit_rate = F_Fin 0, sm_spec_accept_length = F_Fin 0, sm_spec_accept_rate = F_Fin 0,
     sm_retracted = F_Fin 0, sm_prompt_tokens_total = F_Fin 0, sm_generation_tokens_total = F_Fin 0,
     sm_requests_total = F_Fin 0, sm_ttft_sum = F_Fin 0, sm_ttft_count = F_Fin 0, sm_itl_sum = F_Fin 0,
     sm_itl_count = F_Fin 0, sm_queue_time_sum = F_Fin 0, sm_queue_time_count = F_Fin 0,
     sm_cached_tokens_total = F_Fin 0, sm_context_len = F_Fin 0, sm_prefill_compute_tokens_total = F_Fin 0,
     sm_evicted_tokens_total = F_Fin 0, sm_spec_verify_calls_total = F_Fin 0, sm_e2e_sum = F_Fin 0,
     sm_prefill_forward_sum = F_Fin 0, sm_decode_sum_seq_lens = F_Fin 0, sm_prefill_inflight_reqs = F_Fin 0,
     sm_startup_time_s = F_Fin 0, sm_counters_v = 0\<rparr>"

definition newest_metrics :: "StatusInputs \<Rightarrow> ServeMetrics" where
  "newest_metrics i =
    (case Option.bind (newest_sample i) sp_metrics of None \<Rightarrow> metrics_zero | Some m \<Rightarrow> m)"

definition serve_ct :: "StatusInputs \<Rightarrow> ContainerState option" where
  "serve_ct i = Option.bind (newest_sample i) sp_serve_ct"

definition gate_ct :: "StatusInputs \<Rightarrow> ContainerState option" where
  "gate_ct i = Option.bind (newest_sample i) sp_gate_ct"

definition newest_gate :: "StatusInputs \<Rightarrow> GateHealth option" where
  "newest_gate i = Option.bind (newest_sample i) sp_gate"

definition serve_up_now :: "StatusInputs \<Rightarrow> bool" where
  "serve_up_now i = (case newest_sample i of None \<Rightarrow> False | Some s \<Rightarrow> sp_serve_up s)"

definition started_of :: "ContainerState option \<Rightarrow> i64 option" where
  "started_of ct = (case ct of None \<Rightarrow> None | Some c \<Rightarrow> if 0 < cs_started_at c then Some (cs_started_at c) else None)"

definition avg_ms_10m :: "StatusInputs \<Rightarrow> (ServeMetrics \<Rightarrow> f64 \<times> f64) \<Rightarrow> f64 option" where
  "avg_ms_10m i pick = map_option round3 (windowed_avg_ms (si_history i) (si_now i) pick)"

definition reading_rate :: "f64 \<times> f64 \<times> f64 \<times> f64 \<Rightarrow> f64 option" where
  "reading_rate w =
    (if f_ge (fst w) (F_Fin 500) \<and> f_gt (fst (snd w)) (f_lit (1 / 20)) then Some (f_round (f_div (fst w) (fst (snd w)))) else None)"

definition cached_share :: "f64 \<times> f64 \<times> f64 \<times> f64 \<Rightarrow> f64 option" where
  "cached_share w =
    (let (_, _, prompt, cached) = w
     in if f_gt prompt (F_Fin 0) then Some (round3 (f_clamp (f_div cached prompt) (F_Fin 0) (F_Fin 1))) else None)"

definition serve_before_probe :: "StatusInputs \<Rightarrow> ServeStatus" where
  "serve_before_probe i =
    (let m = newest_metrics i; h = si_history i; w = reading_window h (si_now i) in
     \<lparr>sv_up = serve_up_now i, sv_down_reason = None, sv_model = find_map sp_model (rev h),
      sv_container = map_option cs_name (serve_ct i), sv_container_status = map_option cs_status (serve_ct i),
      sv_started_at = started_of (serve_ct i),
      sv_uptime_s = (case serve_ct i of None \<Rightarrow> None
        | Some c \<Rightarrow> if container_running c \<and> 0 < cs_started_at c \<and> serve_up_now i
                    then Some (max (si_now i - cs_started_at c) 0) else None),
      sv_restart_count = (case serve_ct i of None \<Rightarrow> 0 | Some c \<Rightarrow> cs_restart_count c),
      sv_restarts_today = si_restarts_today i, sv_down_since = si_serve_down_since i,
      sv_running = sm_running m, sv_slots = si_slots i, sv_queue = sm_queue m,
      sv_decode_tok_s = sm_gen_throughput m, sv_kv_usage = round3 (kv_usage m),
      sv_kv_used_tokens = sm_kv_used_tokens m, sv_kv_max_tokens = sm_max_total_tokens m,
      sv_ttft_avg_ms_10m = avg_ms_10m i (\<lambda>m. (sm_ttft_sum m, sm_ttft_count m)),
      sv_itl_avg_ms_10m = avg_ms_10m i (\<lambda>m. (sm_itl_sum m, sm_itl_count m)),
      sv_queue_time_avg_ms_10m = avg_ms_10m i (\<lambda>m. (sm_queue_time_sum m, sm_queue_time_count m)),
      sv_spec_accept_length = sm_spec_accept_length m, sv_spec_accept_rate = sm_spec_accept_rate m,
      sv_cache_hit_rate = sm_cache_hit_rate m, sv_prompt_tokens_total = sm_prompt_tokens_total m,
      sv_generation_tokens_total = sm_generation_tokens_total m, sv_requests_total = sm_requests_total m,
      sv_latency = si_latency i, sv_cached_tokens_total = sm_cached_tokens_total m,
      sv_context_len = sm_context_len m, sv_prefill_tok_s = reading_rate w,
      sv_prefill_tok_s_typical = si_prefill_typical i, sv_cached_share_10m = cached_share w,
      sv_prefill_inflight = sm_prefill_inflight_reqs m,
      sv_engine = (case newest_sample i of None \<Rightarrow> [] | Some s \<Rightarrow> sp_engine s),
      sv_decode_tok_s_from_probe = False,
      sv_not_reported = (case newest_sample i of None \<Rightarrow> [] | Some s \<Rightarrow> sp_not_reported s),
      sv_evicted_tok_per_hour_10m = evicted_rate i, sv_preempted_per_hour_10m = preempted_rate i,
      sv_secs_since_last_token = secs_since_last_token h (si_now i), sv_work_1h = work_1h i,
      sv_page1_fields_deployed = False, sv_live_decode = si_live_decode i,
      sv_public_priority = si_public_priority i, sv_trusted_priority = si_trusted_priority i\<rparr>)"

definition last_ok_probe :: "StatusInputs \<Rightarrow> ProbeRecord option" where
  "last_ok_probe i = or_else (find is_reading (si_probes i)) (si_last_valid_probe i)"

text \<open>An engine that publishes no writing speed gets the one of the last valid probe, marked as such.\<close>

definition probe_speed :: "StatusInputs \<Rightarrow> ServeStatus \<Rightarrow> ServeStatus" where
  "probe_speed i sv =
    (if ''decode_tok_s'' \<in> set (sv_not_reported sv) then
       (case Option.bind (last_ok_probe i) pr_decode_tok_s of None \<Rightarrow> sv
        | Some v \<Rightarrow> sv\<lparr>sv_decode_tok_s := v, sv_decode_tok_s_from_probe := True,
                        sv_not_reported := filter (\<lambda>k. k \<noteq> ''decode_tok_s'') (sv_not_reported sv)\<rparr>)
     else sv)"

section \<open>The gate, the cards and the lanes\<close>

definition gate_status_of :: "StatusInputs \<Rightarrow> GateStatus" where
  "gate_status_of i =
    (let absent = (case newest_sample i of None \<Rightarrow> False | Some s \<Rightarrow> sp_gate_absent s); gate = newest_gate i in
     \<lparr>gst_up = (gate \<noteq> None \<or> absent), gst_absent = absent, gst_version = map_option gah_version gate,
      gst_upstream_ok = (case gate of None \<Rightarrow> False | Some g \<Rightarrow> gah_upstream_ok g),
      gst_container_status = map_option cs_status (gate_ct i), gst_started_at = started_of (gate_ct i),
      gst_restart_count = (case gate_ct i of None \<Rightarrow> 0 | Some c \<Rightarrow> cs_restart_count c),
      gst_down_since = si_gate_down_since i,
      gst_seconds_to_drain_charged = Option.bind (Option.bind gate gah_shadow) sh_seconds_to_drain_charged\<rparr>)"

definition gpu_status_of :: "StatusInputs \<Rightarrow> GpuSample \<Rightarrow> GpuStatus" where
  "gpu_status_of i g =
    \<lparr>gps_sample = g, gps_util_pct_med = gpu_util_median (si_history i) (gs_index g),
     gps_temp_f = map_option c_to_f_round (gs_temp_c g), gps_mem_temp_f = map_option c_to_f_round (gs_mem_temp_c g),
     gps_throttle = throttle_flags (gs_throttle_mask g),
     gps_thermal_excluded = (gs_index g \<in> set (si_thermal_exclude i)),
     gps_health = find (\<lambda>h. gh_index h = gs_index g) (si_gpu_health i)\<rparr>"

definition lane_status_of :: "StatusInputs \<Rightarrow> f64 \<Rightarrow> f64 \<Rightarrow> LaneAdmission option \<Rightarrow> (LogDelta \<Rightarrow> LaneLog) \<Rightarrow> LaneStatus" where
  "lane_status_of i running queued adm pick =
    (let adm = (case adm of None \<Rightarrow> lane_default | Some a \<Rightarrow> a);
         ten = history_lane_log (si_history i) (si_now i - RATE_WINDOW_SECS) (\<lambda>s. pick (sp_log s));
         hour = history_lane_log (si_history i) (si_now i - HISTORY_SECS) (\<lambda>s. pick (sp_log s));
         (c2, c4, c5) = status_classes ten
     in \<lparr>ls_running = running, ls_queued = queued, ls_inflight_tokens = la_inflight_tokens adm,
         ls_waiters = la_waiters adm, ls_admitted = la_admitted adm, ls_rejected_413 = la_rejected_413 adm,
         ls_rejected_429 = la_rejected_429 adm, ls_client_closed = la_client_closed adm,
         ls_upstream_down = la_upstream_down adm, ls_max_duration = la_max_duration adm,
         ls_requests_10m = ll_requests ten, ls_codes_10m = \<lparr>cc_2xx = c2, cc_4xx = c4, cc_5xx = c5\<rparr>,
         ls_top_keys_60m = take 6 (sort_by key_count_le (ll_by_key hour)),
         ls_probes = \<lparr>lp_admitted = 0, lp_requests_10m = 0, lp_requests_60m = 0\<rparr>,
         ls_budget_tokens = la_budget_tokens adm, ls_max_prompt_tokens = la_max_prompt_tokens adm\<rparr>)"

definition top_five :: "LaneStatus \<Rightarrow> LaneStatus" where
  "top_five l = l\<lparr>ls_top_keys_60m := take 5 (ls_top_keys_60m l)\<rparr>"

text \<open>The probe goes through the trusted port, so it is taken out of that lane only.\<close>

definition lanes_of :: "StatusInputs \<Rightarrow> Lanes" where
  "lanes_of i =
    (let m = newest_metrics i; gate = newest_gate i in
     \<lparr>la_public = top_five (lane_status_of i (sm_running_public m) (sm_queue_public m) (map_option gah_public gate) ld_public),
      la_trusted = top_five (subtract_probes
        (lane_status_of i (sm_running_trusted m) (sm_queue_trusted m) (map_option gah_trusted gate) ld_trusted)
        (si_probes i) (si_now i) (si_probes_admitted_since_gate_start i))\<rparr>)"

section \<open>The document\<close>

definition probe_status_of :: "StatusInputs \<Rightarrow> ProbeStatus" where
  "probe_status_of i =
    \<lparr>ps_enabled = si_probe_enabled i, ps_interval_s = si_probe_interval_s i, ps_baseline_tok_s = si_c1_baseline i,
     ps_baseline_source = si_c1_baseline_source i, ps_last_ok = last_ok_probe i,
     ps_invalid_skipped = length (takeWhile (\<lambda>p. \<not> is_reading p) (si_probes i)), ps_history = si_probes i\<rparr>"

definition users_of :: "StatusInputs \<Rightarrow> UsersStatus" where
  "users_of i =
    (let users = build_users (newest_gate i) (si_user_aliases i) (si_tailscale i) (si_own_traffic i) (si_now i)
     in case si_user_log_24h i of None \<Rightarrow> users
        | Some d \<Rightarrow> attach_experience users d (ow_probe_user (si_own_traffic i)))"

definition gpu_source_of :: "StatusInputs \<Rightarrow> string" where
  "gpu_source_of i = (case newest_sample i of None \<Rightarrow> ''nvidia''
     | Some s \<Rightarrow> if sp_gpu_source s = [] then ''nvidia'' else sp_gpu_source s)"

definition build_status :: "StatusInputs \<Rightarrow> Status" where
  "build_status i =
    \<lparr>st_v = STATUS_SCHEMA_VERSION, st_host = si_host i, st_generated_at = si_now i,
     st_collector = \<lparr>ci_version = si_collector_version i, ci_started_at = si_collector_started_at i,
       ci_poll_secs = si_poll_secs i, ci_last_sample_ts = map_option sp_ts (newest_sample i)\<rparr>,
     st_serve = probe_speed i (serve_before_probe i), st_gate = gate_status_of i,
     st_gpu_source = gpu_source_of i,
     st_gpus = (case newest_sample i of None \<Rightarrow> [] | Some s \<Rightarrow> map (gpu_status_of i) (sp_gpus s)),
     st_lanes = lanes_of i, st_series = history_series (si_history i) (si_now i),
     st_incidents = si_incidents i, st_alerts = si_alerts i, st_firing = si_firing i,
     st_probe = probe_status_of i, st_thresholds = si_thresholds i, st_users = users_of i,
     st_advice_top = si_advice_top i, st_bench = si_bench i, st_maintenance = si_maintenance i,
     st_loadout = si_loadout i, st_targets = si_targets i, st_cost = si_cost i, st_spending = si_spending i,
     st_tokens_by_window = Some (si_tokens i), st_watch = si_watch i\<rparr>"

section \<open>The token windows\<close>

text \<open>\<open>lss-collector/src/tokens_run.rs\<close>: the windows are sums over the rollup, whose reads are arguments
  (\<open>rollup_first_ts\<close> and \<open>rollup_sum\<close>, each may fail). A window says how many of its seconds hold data.\<close>

record RollupDb =
  rd_first_ts :: "i64 \<Rightarrow> string \<Rightarrow> i64 option option"
  rd_sum :: "i64 \<Rightarrow> string \<Rightarrow> i64 \<Rightarrow> i64 \<Rightarrow> f64 option"

definition token_window :: "RollupDb \<Rightarrow> i64 \<Rightarrow> i64 \<Rightarrow> i64 \<Rightarrow> WorkWindow option \<times> i64 option" where
  "token_window db res now from_ts =
    (case rd_first_ts db res ''tok_gen'' of
       Some (Some first_ts) \<Rightarrow>
         (let read = (\<lambda>metric. case rd_sum db res metric from_ts (now + 1) of None \<Rightarrow> F_Fin 0 | Some v \<Rightarrow> v)
          in (Some \<lparr>ww_prompt = read ''tok_prompt'', ww_cached = read ''tok_cached'', ww_generated = read ''tok_gen'',
                    ww_requests = read ''sum_requests''\<rparr>,
              Some (max (now - max first_ts from_ts) 0)))
     | _ \<Rightarrow> (None, None))"

definition token_windows :: "RollupDb \<Rightarrow> i64 \<Rightarrow> TokenWindows" where
  "token_windows db now =
    (let (hour, hour_covered) = token_window db RES_1M now (now - 3600);
         (day, day_covered) = token_window db RES_1M now (now - 86400);
         (week, week_covered) = token_window db RES_1M now (now - 7 * 86400);
         (month, month_covered) = token_window db RES_10M now (now - 30 * 86400)
     in \<lparr>tw_hour = hour, tw_hour_covered_secs = hour_covered, tw_day = day, tw_day_covered_secs = day_covered,
         tw_week = week, tw_week_covered_secs = week_covered, tw_month = month, tw_month_covered_secs = month_covered\<rparr>)"

text \<open>A young collector does not pass off its minutes as a day: no window claims more data than it spans, or
  than there is, and a longer window never claims less.\<close>

lemma token_window_covered:
  "snd (token_window db res now from_ts) =
    (case rd_first_ts db res ''tok_gen'' of Some (Some f) \<Rightarrow> Some (max (now - max f from_ts) 0) | _ \<Rightarrow> None)"
  by (simp add: token_window_def Let_def split: option.split)

lemma token_windows_covered:
  "tw_hour_covered_secs (token_windows db now) = snd (token_window db RES_1M now (now - 3600))"
  "tw_day_covered_secs (token_windows db now) = snd (token_window db RES_1M now (now - 86400))"
  "tw_week_covered_secs (token_windows db now) = snd (token_window db RES_1M now (now - 7 * 86400))"
  by (simp_all add: token_windows_def case_prod_unfold Let_def)

lemma token_windows_widen:
  assumes "tw_hour_covered_secs (token_windows db now) = Some h"
  shows "\<exists>d w. tw_day_covered_secs (token_windows db now) = Some d \<and> tw_week_covered_secs (token_windows db now) = Some w \<and>
    0 \<le> h \<and> h \<le> d \<and> d \<le> w \<and> h \<le> 3600 \<and> d \<le> 86400 \<and> w \<le> 604800"
proof -
  obtain f where "rd_first_ts db RES_1M ''tok_gen'' = Some (Some f)"
    using assms by (auto simp: token_windows_covered token_window_covered split: option.splits)
  then show ?thesis using assms by (auto simp: token_windows_covered token_window_covered)
qed

end
