(* ===== verification/StatusFacts.thy ===== *)
theory StatusFacts
  imports StatusBuild
begin

text \<open>
  What the hour of samples and the document made of it promise: what is kept, that each graph is what its
  buckets hold, that the probe's share and the rest of a lane add up, and what moves the median of a card.
\<close>

section \<open>What is kept\<close>

lemma drop_old_filter:
  "sorted (map f xs) \<Longrightarrow> dropWhile (\<lambda>x. f x < (c :: int)) xs = filter (\<lambda>x. c \<le> f x) xs"
  by (induction xs) (auto intro!: filter_True [symmetric])

lemma history_push_kept:
  assumes "sorted (map sp_ts (h @ [s]))"
  shows "history_push h s = filter (\<lambda>x. sp_ts s - 3630 \<le> sp_ts x) (h @ [s])"
  using drop_old_filter [OF assms, of "sp_ts s - 3630"]
  by (simp add: history_push_def HISTORY_SECS_def SERIES_STEP_SECS_def)

lemma history_run:
  "sorted (map sp_ts xs) \<Longrightarrow> foldl history_push [] xs = filter (\<lambda>x. sp_ts (last xs) - 3630 \<le> sp_ts x) xs"
proof (induction xs rule: rev_induct)
  case (snoc x xs)
  have srt: "sorted (map sp_ts xs)" and le: "\<forall>y \<in> set xs. sp_ts y \<le> sp_ts x"
    using snoc.prems by (auto simp: sorted_append)
  let ?h = "filter (\<lambda>y. sp_ts (last xs) - 3630 \<le> sp_ts y) xs"
  have "sorted (map sp_ts (?h @ [x]))"
    using sorted_filter [OF srt] le by (auto simp: sorted_append)
  then have "history_push ?h x = filter (\<lambda>y. sp_ts x - 3630 \<le> sp_ts y) (?h @ [x])" by (rule history_push_kept)
  moreover have "xs \<noteq> [] \<Longrightarrow> sp_ts (last xs) \<le> sp_ts x" using le by auto
  ultimately show ?case using snoc.IH [OF srt] by (cases "xs = []") (auto simp: filter_filter intro!: filter_cong)
qed simp

section \<open>The grid\<close>

lemma SERIES_POINTS_val: "SERIES_POINTS = 120"
  by (simp add: SERIES_POINTS_def HISTORY_SECS_def SERIES_STEP_SECS_def)

lemma grid_index_less: "on_grid now s \<Longrightarrow> grid_index now s < SERIES_POINTS"
proof -
  assume "on_grid now s"
  then have d: "sp_ts s - series_start now < 3600" "0 \<le> sp_ts s - series_start now"
    by (simp_all add: on_grid_def series_start_def HISTORY_SECS_def)
  have "d < 3600 \<Longrightarrow> d div 30 < 120" for d :: int by presburger
  with d have "(sp_ts s - series_start now) div 30 < 120" "0 \<le> (sp_ts s - series_start now) div 30"
    by (simp_all add: pos_imp_zdiv_nonneg_iff)
  then show ?thesis by (simp add: grid_index_def SERIES_POINTS_val SERIES_STEP_SECS_def nat_less_iff)
qed

lemma now_is_on_grid: "series_start now \<le> now \<and> now < series_end now"
  by (simp add: series_start_def series_end_def HISTORY_SECS_def SERIES_STEP_SECS_def)

section \<open>A row of buckets\<close>

text \<open>Putting values into a row one after the other is putting each bucket's own values into it.\<close>

definition bucket_of :: "f64 list \<Rightarrow> Bucket" where
  "bucket_of vs = foldl bucket_put bucket_default vs"

definition puts :: "Bucket list \<Rightarrow> (nat \<times> f64) list \<Rightarrow> Bucket list" where
  "puts row ivs = foldl (\<lambda>row (i, v). row_put row i v) row ivs"

lemma puts_simps [simp]:
  "puts row [] = row" "puts row ((i, v) # ivs) = puts (row_put row i v) ivs"
  by (simp_all add: puts_def)

lemma puts_append: "puts row (xs @ ys) = puts (puts row xs) ys"
  by (simp add: puts_def)

lemma length_row_put [simp]: "length (row_put row i v) = length row"
  by (simp add: row_put_def)

lemma length_puts [simp]: "length (puts row ivs) = length row"
  by (induction ivs arbitrary: row) auto

lemma nth_puts:
  "k < length row \<Longrightarrow> puts row ivs ! k = foldl bucket_put (row ! k) (map snd (filter (\<lambda>iv. fst iv = k) ivs))"
proof (induction ivs arbitrary: row)
  case (Cons iv ivs)
  obtain i v where iv: "iv = (i, v)" by (cases iv)
  show ?case using Cons.IH [of "row_put row i v"] Cons.prems unfolding iv
    by (cases "i = k") (simp_all add: row_put_def)
qed simp

lemma puts_empty_row:
  "puts empty_row ivs = map (\<lambda>k. bucket_of (map snd (filter (\<lambda>iv. fst iv = k) ivs))) [0..<SERIES_POINTS]"
  by (rule nth_equalityI) (simp_all add: nth_puts empty_row_def bucket_of_def)

text \<open>A bucket counts the finite values, and its maximum is the greatest of them.\<close>

lemma bucket_of_snoc: "bucket_of (vs @ [v]) = bucket_put (bucket_of vs) v"
  by (simp add: bucket_of_def)

lemma bucket_count: "bk_n (bucket_of vs) = length (filter is_finite vs)"
proof (induction vs rule: rev_induct)
  case Nil
  then show ?case by (simp add: bucket_of_def bucket_default_def)
next
  case (snoc v vs)
  then show ?case by (simp add: bucket_of_snoc bucket_put_def)
qed

lemma finite_not_nan: "is_finite x \<Longrightarrow> \<not> is_nan x"
  by (cases x) auto

lemma bucket_greatest:
  "filter is_finite vs \<noteq> [] \<Longrightarrow>
   bk_max (bucket_of vs) \<in> set (filter is_finite vs) \<and> (\<forall>v \<in> set (filter is_finite vs). f_le v (bk_max (bucket_of vs)))"
proof (induction vs rule: rev_induct)
  case (snoc v vs)
  let ?b = "bucket_of vs"
  show ?case
  proof (cases "is_finite v")
    case fin: True
    show ?thesis
    proof (cases "filter is_finite vs = []")
      case True
      then show ?thesis using fin by (auto simp: bucket_of_snoc bucket_put_def bucket_count finite_not_nan)
    next
      case False
      note ih = snoc.IH [OF False]
      have m: "bk_max (bucket_of (vs @ [v])) = f_max (bk_max ?b) v"
        using fin False by (simp add: bucket_of_snoc bucket_put_def bucket_count)
      have nn: "\<not> is_nan v" "\<not> is_nan (bk_max ?b)" using fin ih finite_not_nan by auto
      have "f_max (bk_max ?b) v = bk_max ?b \<or> f_max (bk_max ?b) v = v" using nn by (auto simp: f_max_def)
      moreover have "f_le (bk_max ?b) (f_max (bk_max ?b) v)" "f_le v (f_max (bk_max ?b) v)"
        using nn by (simp_all add: f_max_ge1 f_max_ge2)
      ultimately show ?thesis using ih fin unfolding m by (auto intro: f_le_trans)
    qed
  next
    case False
    then show ?thesis using snoc by (simp add: bucket_of_snoc bucket_put_def)
  qed
qed simp

section \<open>Each graph, bucket by bucket\<close>

text \<open>The samples of one half minute, and what a graph shows of them.\<close>

definition in_bucket :: "i64 \<Rightarrow> History \<Rightarrow> nat \<Rightarrow> Sample list" where
  "in_bucket now h k = filter (\<lambda>s. on_grid now s \<and> grid_index now s = k) h"

definition bucket_values :: "i64 \<Rightarrow> History \<Rightarrow> (Sample \<Rightarrow> f64 option) \<Rightarrow> nat \<Rightarrow> f64 list" where
  "bucket_values now h read k = List.map_filter read (in_bucket now h k)"

definition graph_of :: "(Bucket \<Rightarrow> f64 option) \<Rightarrow> i64 \<Rightarrow> History \<Rightarrow> (Sample \<Rightarrow> f64 option) \<Rightarrow> graph" where
  "graph_of show now h read = map (\<lambda>k. show (bucket_of (bucket_values now h read k))) [0..<SERIES_POINTS]"

definition events_of :: "i64 \<Rightarrow> (Sample \<Rightarrow> f64 option) \<Rightarrow> Sample \<Rightarrow> (nat \<times> f64) list" where
  "events_of now read s =
    (if on_grid now s then (case read s of None \<Rightarrow> [] | Some v \<Rightarrow> [(grid_index now s, v)]) else [])"

lemma events_in_bucket:
  "map snd (filter (\<lambda>iv. fst iv = k) (concat (map (events_of now read) h))) = bucket_values now h read k"
proof (induction h)
  case Nil
  then show ?case by (simp add: bucket_values_def in_bucket_def List.map_filter_def)
next
  case (Cons s h)
  have "bucket_values now (s # h) read k =
    (if on_grid now s \<and> grid_index now s = k then (case read s of None \<Rightarrow> [] | Some v \<Rightarrow> [v]) else []) @ bucket_values now h read k"
    by (simp add: bucket_values_def in_bucket_def List.map_filter_def split: option.split)
  moreover have "map snd (filter (\<lambda>iv. fst iv = k) (events_of now read s)) =
    (if on_grid now s \<and> grid_index now s = k then (case read s of None \<Rightarrow> [] | Some v \<Rightarrow> [v]) else [])"
    by (cases "on_grid now s"; cases "read s") (simp_all add: events_of_def)
  ultimately show ?case using Cons by simp
qed

text \<open>A row of the loop that takes at most one value of every sample.\<close>

locale graph_row =
  fixes now :: i64 and row :: "Graphs \<Rightarrow> Bucket list" and read :: "Sample \<Rightarrow> f64 option"
  assumes row_start: "row (graphs_empty n) = empty_row"
    and row_step: "row (graph_step now g s) = puts (row g) (events_of now read s)"
begin

lemma row_run: "row (foldl (graph_step now) g h) = puts (row g) (concat (map (events_of now read) h))"
  by (induction h arbitrary: g) (simp_all add: row_step puts_append)

lemma shown: "map show (row (foldl (graph_step now) (graphs_empty n) h)) = graph_of show now h read"
  by (simp add: row_run row_start puts_empty_row events_in_bucket graph_of_def)

end

definition read_metric :: "(ServeMetrics \<Rightarrow> f64) \<Rightarrow> Sample \<Rightarrow> f64 option" where
  "read_metric f s = map_option f (sp_metrics s)"

definition read_spec :: "Sample \<Rightarrow> f64 option" where
  "read_spec s = (if reported s ''spec'' then read_metric sm_spec_accept_rate s else None)"

definition read_waiters :: "(GateHealth \<Rightarrow> LaneAdmission) \<Rightarrow> Sample \<Rightarrow> f64 option" where
  "read_waiters lane s = map_option (\<lambda>g. f_of_nat (la_waiters (lane g))) (sp_gate s)"

definition read_budget :: "Sample \<Rightarrow> f64 option" where
  "read_budget s =
    Option.bind (sp_gate s) (\<lambda>g. Option.bind (la_budget_tokens (gah_trusted g)) (\<lambda>cap.
      if 0 < cap then Some (f_div (f_of_nat (la_inflight_tokens (gah_trusted g))) (f_of_nat cap)) else None))"

lemmas graph_defs = graph_step_def graph_metrics_def graph_gate_def graph_gpus_def events_of_def Let_def

interpretation decode_row: graph_row now gr_decode "read_metric sm_gen_throughput" for now
  by unfold_locales (simp_all add: graphs_empty_def graph_defs read_metric_def split: option.split)

interpretation running_row: graph_row now gr_running "read_metric sm_running" for now
  by unfold_locales (simp_all add: graphs_empty_def graph_defs read_metric_def split: option.split)

interpretation q_pub_row: graph_row now gr_q_pub "read_metric sm_queue_public" for now
  by unfold_locales (simp_all add: graphs_empty_def graph_defs read_metric_def split: option.split)

interpretation q_tru_row: graph_row now gr_q_tru "read_metric sm_queue_trusted" for now
  by unfold_locales (simp_all add: graphs_empty_def graph_defs read_metric_def split: option.split)

interpretation kv_row: graph_row now gr_kv "read_metric kv_usage" for now
  by unfold_locales (simp_all add: graphs_empty_def graph_defs read_metric_def split: option.split)

interpretation spec_row: graph_row now gr_spec read_spec for now
  by unfold_locales (simp_all add: graphs_empty_def graph_defs read_spec_def read_metric_def split: option.split)

interpretation w_pub_row: graph_row now gr_w_pub "read_waiters gah_public" for now
  by unfold_locales (simp_all add: graphs_empty_def graph_defs read_waiters_def split: option.split)

interpretation w_tru_row: graph_row now gr_w_tru "read_waiters gah_trusted" for now
  by unfold_locales (simp_all add: graphs_empty_def graph_defs read_waiters_def split: option.split)

interpretation budget_row: graph_row now gr_budget_used read_budget for now
  by unfold_locales (simp_all add: graphs_empty_def graph_defs read_budget_def split: option.split)

interpretation power_row: graph_row now gr_power watts for now
  by unfold_locales (simp_all add: graphs_empty_def graph_defs split: option.split)

text \<open>The greatest finite value of a bucket.\<close>

lemma shown_max:
  "bucket_max (bucket_of vs) =
    (if filter is_finite vs = [] then None else Some (round3 (bk_max (bucket_of vs))))"
  by (simp add: bucket_max_def bucket_count)

text \<open>The priced power takes the same samples as the drawn one, bucket by bucket.\<close>

lemma power_mean_values: "power_mean_w h now = graph_of bucket_mean now h watts"
proof -
  have "foldl (\<lambda>power s. case watts s of None \<Rightarrow> power | Some w \<Rightarrow> row_put power (grid_index now s) w) row (filter (on_grid now) h)
      = puts row (concat (map (events_of now watts) h))" for row
    by (induction h arbitrary: row) (auto simp: events_of_def split: option.split)
  then show ?thesis by (simp add: power_mean_w_def puts_empty_row events_in_bucket graph_of_def)
qed

section \<open>The probe's share of a lane\<close>

definition requests_of :: "(string \<times> u64) list \<Rightarrow> nat" where
  "requests_of rows = sum_list (map snd rows)"

lemma lower_first_sum:
  "map_of rows k = Some c \<Longrightarrow> n \<le> c \<Longrightarrow> requests_of (lower_first k n rows) + n = requests_of rows"
  by (induction rows) (auto simp: requests_of_def split: if_splits)

lemma lower_first_none: "lower_first k 0 rows = rows"
  by (induction rows) auto

lemma requests_of_shown [simp]: "requests_of (sort_by key_count_le (filter (\<lambda>(_, c). 0 < c) rows)) = requests_of rows"
proof -
  have "requests_of (sort_by le rows) = requests_of rows" for le rows
    unfolding requests_of_def by (metis mset_map mset_sort_by sum_mset_sum_list)
  moreover have "requests_of (filter (\<lambda>(_, c). 0 < c) rows) = requests_of rows"
    by (induction rows) (auto simp: requests_of_def)
  ultimately show ?thesis by simp
qed

lemma probe_share_admitted: "lp_admitted (fst (foldl (probe_share now) acc ps)) = lp_admitted (fst acc)"
proof (induction ps arbitrary: acc)
  case (Cons p ps)
  have "lp_admitted (fst (probe_share now acc p)) = lp_admitted (fst acc)"
    by (simp add: probe_share_def case_prod_unfold Let_def split: option.split)
  then show ?case using Cons by simp
qed simp

text \<open>Requests, admissions and the rows by key: what is left and the probe's share are what was there.\<close>

lemma subtract_probes_adds_up:
  fixes lane :: LaneStatus and probes :: "ProbeRecord list" and now :: i64 and n :: u64
  defines "after \<equiv> subtract_probes lane probes now n"
  shows "ls_requests_10m after + lp_requests_10m (ls_probes after) = ls_requests_10m lane"
    and "ls_admitted after + lp_admitted (ls_probes after) = ls_admitted lane"
    and "requests_of (ls_top_keys_60m after) + lp_requests_60m (ls_probes after) = requests_of (ls_top_keys_60m lane)"
    and "list_all (\<lambda>(k, c). 0 < c) (ls_top_keys_60m after)"
proof -
  let ?start = "(\<lparr>lp_admitted = min n (ls_admitted lane), lp_requests_10m = 0, lp_requests_60m = 0\<rparr>, ls_codes_10m lane)"
  obtain share codes where f: "foldl (probe_share now) ?start probes = (share, codes)" by (metis surj_pair)
  have adm: "lp_admitted share \<le> ls_admitted lane"
    using probe_share_admitted [of now ?start probes] unfolding f by simp
  show "ls_requests_10m after + lp_requests_10m (ls_probes after) = ls_requests_10m lane"
    by (simp add: after_def subtract_probes_def f Let_def)
  show "ls_admitted after + lp_admitted (ls_probes after) = ls_admitted lane"
    using adm by (simp add: after_def subtract_probes_def f Let_def)
  show "requests_of (ls_top_keys_60m after) + lp_requests_60m (ls_probes after) = requests_of (ls_top_keys_60m lane)"
    by (simp add: after_def subtract_probes_def f Let_def lower_first_none lower_first_sum split: option.split)
  show "list_all (\<lambda>(k, c). 0 < c) (ls_top_keys_60m after)"
    by (auto simp: after_def subtract_probes_def f Let_def list_all_iff)
qed

section \<open>The median of a card\<close>

lemma f_le_finite: "is_finite a \<Longrightarrow> is_finite b \<Longrightarrow> f_le a b \<longleftrightarrow> rat_of a \<le> rat_of b"
  by (cases a; cases b) (simp_all add: f_le_def)

lemma finite_between: "f_le a x \<Longrightarrow> f_le x b \<Longrightarrow> is_finite a \<Longrightarrow> is_finite b \<Longrightarrow> is_finite x"
  by (cases a; cases x; cases b) (auto simp: f_le_def split: if_splits elim: f_class.elims)

lemma f_class_le: "f_class b \<le> 1"
  by (cases b rule: f_class.cases) simp_all

lemma total_le_between:
  assumes "total_le a y" "total_le y b" "\<not> is_nan b"
  shows "\<not> is_nan a \<Longrightarrow> f_le a y" and "f_le y b"
proof -
  have y: "\<not> is_nan y" using assms(2,3) f_class_le [of b] by (cases y; cases b) (auto simp: total_le_def)
  show "\<not> is_nan a \<Longrightarrow> f_le a y" using assms(1) y by (cases a; cases y) (auto simp: total_le_def f_le_def)
  show "f_le y b" using assms(2,3) y by (cases y; cases b) (auto simp: total_le_def f_le_def)
qed

definition between :: "nat \<Rightarrow> nat \<Rightarrow> f64 \<Rightarrow> bool" where
  "between lo hi x \<longleftrightarrow> f_le (f_of_nat lo) x \<and> f_le x (f_of_nat hi)"

lemma between_finite:
  assumes "hi < 2 ^ 53" "lo \<le> hi"
  shows "between lo hi x \<longleftrightarrow> is_finite x \<and> of_nat lo \<le> rat_of x \<and> rat_of x \<le> of_nat hi"
proof -
  have "lo < 2 ^ 53" using assms by simp
  then have b: "between lo hi x \<longleftrightarrow> f_le (F_Fin (of_nat lo)) x \<and> f_le x (F_Fin (of_nat hi))"
    using assms by (simp add: between_def f_of_nat_exact)
  show ?thesis
  proof (cases "is_finite x")
    case True
    then show ?thesis by (simp add: b f_le_finite)
  next
    case False
    then show ?thesis using finite_between [of "F_Fin (of_nat lo)" x "F_Fin (of_nat hi)"] b by auto
  qed
qed

lemma rnd_in_nats:
  assumes "of_nat lo \<le> r" "r \<le> of_nat hi" "hi < 2 ^ 53"
  shows "is_finite (rnd r) \<and> of_nat lo \<le> rat_of (rnd r) \<and> rat_of (rnd r) \<le> of_nat hi"
proof -
  have "(of_nat lo :: rat) \<le> of_nat hi" using assms by linarith
  then have "lo < 2 ^ 53" using assms(3) by simp
  then have "between lo hi (rnd r)"
    using rnd_mono [OF assms(1)] rnd_mono [OF assms(2)] assms(3) by (simp add: between_def f_of_nat_def)
  then show ?thesis using between_finite [OF assms(3)] \<open>(of_nat lo :: rat) \<le> of_nat hi\<close> by simp
qed

lemma half_sum_between:
  assumes "hi < 2 ^ 52" "lo \<le> hi" "between lo hi x" "between lo hi y"
  shows "between lo hi (f_div (f_add x y) (F_Fin 2))"
proof -
  have big: "hi < 2 ^ 53" "2 * hi < 2 ^ 53" using assms(1) by simp_all
  note bf = between_finite [OF big(1) assms(2)]
  have fin: "is_finite x" "is_finite y" "of_nat lo \<le> rat_of x" "rat_of x \<le> of_nat hi" "of_nat lo \<le> rat_of y"
      "rat_of y \<le> of_nat hi"
    using assms(3,4) by (simp_all add: bf)
  let ?t = "f_add x y"
  have t: "is_finite ?t \<and> of_nat (2 * lo) \<le> rat_of ?t \<and> rat_of ?t \<le> of_nat (2 * hi)"
  proof (cases "x = F_NegZero \<and> y = F_NegZero")
    case True
    then show ?thesis using fin by (simp add: f_add_def)
  next
    case False
    then have "?t = rnd (rat_of x + rat_of y)" using fin by (auto simp: f_add_def elim: is_finite.elims is_nan.elims)
    then show ?thesis using rnd_in_nats [of "2 * lo" "rat_of x + rat_of y" "2 * hi"] fin big by simp
  qed
  show ?thesis
  proof (cases "rat_of ?t = 0")
    case True
    then have "f_div ?t (F_Fin 2) = f_zero (f_is_neg ?t)" using t by (cases ?t) (simp_all add: f_div_def)
    moreover have "lo = 0" using t True by simp
    ultimately show ?thesis using bf by (simp add: f_zero_def)
  next
    case False
    then have "f_div ?t (F_Fin 2) = rnd (rat_of ?t / 2)" using t by (cases ?t) (simp_all add: f_div_def)
    then show ?thesis using rnd_in_nats [of lo "rat_of ?t / 2" hi] t big bf by simp
  qed
qed

text \<open>Of six sorted readings with at most two strays, the middle two are not strays.\<close>

lemma sorted_wrt_le: "sorted_wrt total_le w \<Longrightarrow> i \<le> j \<Longrightarrow> j < length w \<Longrightarrow> total_le (w ! i) (w ! j)"
  by (cases "i = j") (simp_all add: sorted_wrt_nth_less)

lemma good_side:
  assumes "card G \<ge> 4" "G \<subseteq> {..<6}" "card B \<ge> 3" "B \<subseteq> {..<6 :: nat}"
  shows "\<exists>i. i \<in> G \<and> i \<in> B"
proof (rule ccontr)
  assume "\<nexists>i. i \<in> G \<and> i \<in> B"
  then have "G \<inter> B = {}" by auto
  moreover have "finite G" "finite B" using assms(2,4) finite_subset by blast+
  ultimately have "card (G \<union> B) = card G + card B" by (simp add: card_Un_disjoint)
  moreover have "card (G \<union> B) \<le> card {..<6 :: nat}" using assms(2,4) by (intro card_mono) auto
  ultimately show False using assms(1,3) by simp
qed

lemma middle_of_six:
  assumes "sorted_wrt total_le w" "length w = 6" "4 \<le> length (filter (between lo hi) w)" "j = 2 \<or> j = 3"
  shows "between lo hi (w ! j)"
proof -
  let ?G = "{i. i < length w \<and> between lo hi (w ! i)}"
  have g: "card ?G \<ge> 4" "?G \<subseteq> {..<6}" using assms(2,3) by (auto simp: length_filter_conv_card)
  obtain a where a: "a \<in> ?G" "a \<in> {0, 1, 2}" using good_side [OF g, of "{0, 1, 2}"] by auto
  obtain b where b: "b \<in> ?G" "b \<in> {3, 4, 5}" using good_side [OF g, of "{3, 4, 5}"] by auto
  have "a \<le> j" "j \<le> b" using a b assms(4) by auto
  then have s: "total_le (w ! a) (w ! j)" "total_le (w ! j) (w ! b)"
    using sorted_wrt_le [OF assms(1)] b assms(2,4) by auto
  have ab: "f_le (f_of_nat lo) (w ! a)" "f_le (w ! b) (f_of_nat hi)" using a b by (simp_all add: between_def)
  have nn: "\<not> is_nan (w ! a)" "\<not> is_nan (w ! b)" using f_not_nan_le ab by blast+
  show ?thesis using total_le_between [OF s nn(2)] nn(1) ab by (auto simp: between_def intro: f_le_trans)
qed

lemma collect_somes_length: "collect_somes xs = Some v \<Longrightarrow> length v = length xs"
  by (induction xs arbitrary: v) (auto split: option.splits)

lemma collect_somes_map: "collect_somes xs = Some v \<Longrightarrow> xs = map Some v"
  by (induction xs arbitrary: v) (auto split: option.splits)

end
