(* ===== verification/FloatText.thy ===== *)
theory FloatText
  imports Prom
begin

text \<open>
  The shortest decimal of an \<open>f64\<close> reads back as the same value: what the text of a metric carries.
\<close>

section \<open>Digits\<close>

lemma digits_val_append: "digits_val (a @ b) = digits_val a * 10 ^ length b + digits_val b"
proof (induction b rule: rev_induct)
  case (snoc c b)
  have "digits_val (a @ b @ [c]) = 10 * digits_val (a @ b) + digit_val c"
    using digits_val_snoc [of "a @ b" c] by simp
  then show ?case using snoc by simp
qed (simp add: digits_val_def)

lemma digits_val_zeros: "digits_val (replicate k CHR ''0'') = 0"
proof (induction k)
  case (Suc k)
  have "digit_val CHR ''0'' = 0" by code_simp
  then show ?case using Suc digits_val_append [of "[CHR ''0'']" "replicate k CHR ''0''"] by simp
qed (simp add: digits_val_def)

lemma digits_val_pad0 [simp]: "digits_val (pad0 k (show_nat n)) = n"
  by (simp add: pad0_def digits_val_append digits_val_zeros)

lemma pad0_digits: "list_all is_digit (pad0 k (show_nat n))"
proof -
  have "is_digit CHR ''0''" by code_simp
  then show ?thesis using show_nat_digits [of n] by (auto simp: pad0_def list_all_iff)
qed

lemma show_nat_short: "n < 10 ^ k \<Longrightarrow> 0 < k \<Longrightarrow> length (show_nat n) \<le> k"
proof (induction k arbitrary: n)
  case (Suc k)
  show ?case
  proof (cases "n < 10")
    case True
    then show ?thesis by (simp add: show_nat.simps [of n])
  next
    case False
    have "n div 10 < 10 ^ k" using Suc.prems by (simp add: div_less_iff_less_mult mult.commute)
    moreover have "0 < k" using False Suc.prems by (cases k) simp_all
    ultimately have "length (show_nat (n div 10)) \<le> k" using Suc.IH by blast
    then show ?thesis using False by (simp add: show_nat.simps [of n])
  qed
qed simp

lemma pad0_length: "n < 10 ^ k \<Longrightarrow> 0 < k \<Longrightarrow> length (pad0 k (show_nat n)) = k"
  using show_nat_short by (simp add: pad0_def)

section \<open>Trailing zeros\<close>

lemma trailing_zeros:
  obtains f z where "s = f @ replicate z CHR ''0''" "f = [] \<or> last f \<noteq> CHR ''0''"
proof -
  let ?P = "\<lambda>c :: char. c = CHR ''0''"
  let ?f = "rev (dropWhile ?P (rev s))"
  let ?z = "length (takeWhile ?P (rev s))"
  have "takeWhile ?P (rev s) = replicate ?z CHR ''0''"
    by (rule replicate_eqI) (auto dest: set_takeWhileD)
  then have "rev s = replicate ?z CHR ''0'' @ dropWhile ?P (rev s)" by (metis takeWhile_dropWhile_id)
  then have "s = ?f @ replicate ?z CHR ''0''" by (metis rev_append rev_replicate rev_rev_ident)
  moreover have "?f = [] \<or> last ?f \<noteq> CHR ''0''"
    using hd_dropWhile [of ?P "rev s"] by (auto simp: last_rev)
  ultimately show thesis using that by blast
qed

lemma digit_not_dot: "is_digit c \<Longrightarrow> c \<noteq> CHR ''.''"
  by (auto simp: is_digit_def)

lemma strip_zeros_fraction:
  assumes "list_all is_digit f" "f = [] \<or> last f \<noteq> CHR ''0''"
  shows "strip_zeros (i @ CHR ''.'' # f @ replicate z CHR ''0'') = (if f = [] then i else i @ CHR ''.'' # f)"
proof -
  have d: "dropWhile (\<lambda>c. c = CHR ''0'') (replicate z CHR ''0'' @ r) = dropWhile (\<lambda>c. c = CHR ''0'') r" for r
    by (induction z) simp_all
  show ?thesis
  proof (cases f rule: rev_cases)
    case Nil
    then show ?thesis by (simp add: strip_zeros_def d)
  next
    case (snoc g c)
    then have "c \<noteq> CHR ''0''" "c \<noteq> CHR ''.''" using assms digit_not_dot by auto
    then show ?thesis by (simp add: strip_zeros_def d snoc)
  qed
qed

section \<open>Reading a decimal back\<close>

lemma takeWhile_digits_then:
  assumes "list_all is_digit i" "r = [] \<or> \<not> is_digit (hd r)"
  shows "takeWhile is_digit (i @ r) = i" "dropWhile is_digit (i @ r) = r"
  using assms by (induction i) (auto simp: takeWhile_eq_Nil_iff dropWhile_eq_self_iff)

lemma dot_not_digit: "\<not> is_digit CHR ''.''"
  by code_simp

lemma parse_decimal_whole: "list_all is_digit i \<Longrightarrow> i \<noteq> [] \<Longrightarrow> parse_decimal i = Some (of_nat (digits_val i))"
proof -
  assume i: "list_all is_digit i" "i \<noteq> []"
  note t = conjunct1 [OF takeWhile_digits [OF i(1)]] conjunct2 [OF takeWhile_digits [OF i(1)]]
  show ?thesis unfolding parse_decimal_def t using i(2) by (simp add: parse_exp_def)
qed

lemma parse_decimal_fraction:
  assumes "list_all is_digit i" "i \<noteq> []" "list_all is_digit f"
  shows "parse_decimal (i @ CHR ''.'' # f) = Some (of_nat (digits_val (i @ f)) * 10 powi (- int (length f)))"
proof -
  note takeWhile_digits_then [of i "CHR ''.'' # f", OF assms(1)]
  then have t: "takeWhile is_digit (i @ CHR ''.'' # f) = i" "dropWhile is_digit (i @ CHR ''.'' # f) = CHR ''.'' # f"
    using dot_not_digit by simp_all
  note u = conjunct1 [OF takeWhile_digits [OF assms(3)]] conjunct2 [OF takeWhile_digits [OF assms(3)]]
  show ?thesis unfolding parse_decimal_def t list.sel u using assms(2) by (simp add: parse_exp_def u)
qed

text \<open>The text of \<open>c * 10 ^ -k\<close> with its trailing zeros dropped.\<close>

lemma parse_decimal_stripped:
  assumes "0 < k"
  shows "parse_decimal (strip_zeros (fixed_digits k c)) = Some (of_nat c * 10 powi (- int k))"
proof -
  let ?i = "show_nat (c div 10 ^ k)" and ?p = "pad0 k (show_nat (c mod 10 ^ k))"
  have i: "list_all is_digit ?i" "?i \<noteq> []" by (simp_all add: show_nat_digits)
  obtain f z where f: "?p = f @ replicate z CHR ''0''" "f = [] \<or> last f \<noteq> CHR ''0''" by (rule trailing_zeros)
  have df: "list_all is_digit f" using pad0_digits [of k "c mod 10 ^ k"] unfolding f by simp
  have len: "length f + z = k"
    using pad0_length [of "c mod 10 ^ k" k] assms unfolding f by simp
  have "digits_val (f @ replicate z CHR ''0'') = c mod 10 ^ k" unfolding f(1) [symmetric] by simp
  then have vf: "digits_val f * 10 ^ z = c mod 10 ^ k" by (simp add: digits_val_append digits_val_zeros)
  have "digits_val (?i @ f) * 10 ^ z = (c div 10 ^ k) * 10 ^ (length f + z) + c mod 10 ^ k"
    using vf by (simp add: digits_val_append power_add distrib_right mult.assoc)
  then have v: "digits_val (?i @ f) * 10 ^ z = c" using div_mult_mod_eq [of c "10 ^ k"] by (simp add: len)
  have val: "of_nat (digits_val (?i @ f)) * 10 powi (- int (length f)) = (of_nat c * 10 powi (- int k) :: rat)"
  proof -
    have "(of_nat c :: rat) = of_nat (digits_val (?i @ f)) * 10 ^ z" using v by (metis of_nat_mult of_nat_numeral of_nat_power)
    moreover have "(10 :: rat) ^ z * 10 powi (- int k) = 10 powi (- int (length f))"
    proof -
      have "int z - int k = - int (length f)" using len by simp
      then show ?thesis by (simp flip: power_int_of_nat power_int_add)
    qed
    ultimately show ?thesis by (simp add: mult.assoc)
  qed
  have "fixed_digits k c = ?i @ CHR ''.'' # f @ replicate z CHR ''0''" using assms f(1) by (simp add: fixed_digits_def)
  then have s: "strip_zeros (fixed_digits k c) = (if f = [] then ?i else ?i @ CHR ''.'' # f)"
    using strip_zeros_fraction [OF df f(2)] by simp
  show ?thesis
  proof (cases "f = []")
    case True
    then show ?thesis unfolding s using parse_decimal_whole [OF i] val by simp
  next
    case False
    then show ?thesis unfolding s using parse_decimal_fraction [OF i df] val by simp
  qed
qed

section \<open>Numbers that print\<close>

text \<open>Seventeen digits tell every binary64 value apart; the search of \<open>shortest_from\<close> finds such digits
  for the value at hand.\<close>

fun printable :: "f64 \<Rightarrow> bool" where
  "printable (F_Fin r) = (r = 0 \<or> list_ex (\<lambda>n. digits_of_length \<bar>r\<bar> n \<noteq> None) [1..<18])"
| "printable _ = True"

lemma printable_at: "n \<in> {1..<18} \<Longrightarrow> digits_of_length \<bar>r\<bar> n \<noteq> None \<Longrightarrow> printable (F_Fin r)"
  by (auto simp: list_ex_iff)

lemma shortest_from_Some:
  "list_ex (\<lambda>n. digits_of_length r n \<noteq> None) [n..<n + fuel] \<Longrightarrow>
   \<exists>m. digits_of_length r m = Some (shortest_from r n fuel)"
proof (induction fuel arbitrary: n)
  case (Suc fuel)
  show ?case
  proof (cases "digits_of_length r n")
    case None
    have "[n..<n + Suc fuel] = n # [Suc n..<Suc n + fuel]" by (simp add: upt_conv_Cons)
    then have "list_ex (\<lambda>n. digits_of_length r n \<noteq> None) [Suc n..<Suc n + fuel]" using Suc.prems None by simp
    from Suc.IH [OF this] show ?thesis using None by simp
  qed auto
qed simp

lemma digits_of_length_exact:
  "digits_of_length r n = Some (c, e) \<Longrightarrow> 0 \<le> r \<Longrightarrow> 0 \<le> c \<and> rnd (of_int c * 10 powi e) = F_Fin r"
  by (auto simp: digits_of_length_def Let_def split: if_splits)

lemma text_lower: "list_all (\<lambda>c. is_digit c \<or> c = CHR ''.'') s \<Longrightarrow> to_ascii_lowercase s = s"
proof (induction s)
  case (Cons c s)
  have "to_lower CHR ''.'' = CHR ''.''" by code_simp
  then show ?case using Cons to_lower_digit [of c] by (auto simp: to_ascii_lowercase_def)
qed (simp add: to_ascii_lowercase_def)

definition number_text :: "string \<Rightarrow> bool" where
  "number_text s \<longleftrightarrow> s \<noteq> [] \<and> list_all (\<lambda>c. is_digit c \<or> c = CHR ''.'') s"

lemma parse_unsigned_text:
  assumes "number_text s" "parse_decimal s = Some q"
  shows "parse_unsigned_f64 s = Some (rnd q)"
proof -
  have ne: "\<not> (is_digit CHR ''i'' \<or> CHR ''i'' = CHR ''.'')" "\<not> (is_digit CHR ''n'' \<or> CHR ''n'' = CHR ''.'')" by code_simp+
  have "s \<noteq> ''inf''" "s \<noteq> ''infinity''" "s \<noteq> ''nan''" using assms(1) ne by (auto simp: number_text_def)
  then show ?thesis using assms by (simp add: parse_unsigned_f64_def number_text_def text_lower Let_def)
qed

lemma number_text_nat: "number_text (show_nat n)"
  using show_nat_digits [of n] by (auto simp: number_text_def list_all_iff)

lemma strip_subset: "set (rev (let t = dropWhile P xs in if Q t then tl t else t)) \<subseteq> set xs"
proof -
  have "set (tl t) \<subseteq> set t" for t :: "'a list" by (cases t) auto
  then have "set (tl (dropWhile P xs)) \<subseteq> set xs" using set_dropWhileD [of _ P xs] by blast
  then show ?thesis by (auto simp: Let_def dest: set_dropWhileD)
qed

lemma strip_zeros_subset: "set (strip_zeros s) \<subseteq> set s"
  using strip_subset [of "\<lambda>c. c = CHR ''0''" "rev s" "\<lambda>t. t \<noteq> [] \<and> hd t = CHR ''.''"]
  unfolding strip_zeros_def set_rev [of s] .

text \<open>The digits of a positive value.\<close>

definition digits_text :: "rat \<Rightarrow> string" where
  "digits_text r = (let (c, e) = shortest_from r 1 17 in
     if 0 \<le> e then show_nat (nat c * 10 ^ nat e) else strip_zeros (fixed_digits (nat (- e)) (nat c)))"

lemma digits_text_reads:
  assumes "list_ex (\<lambda>n. digits_of_length r n \<noteq> None) [1..<18]" "0 < r"
  shows "number_text (digits_text r)" "parse_unsigned_f64 (digits_text r) = Some (F_Fin r)"
proof -
  obtain c e where ce: "shortest_from r 1 17 = (c, e)" by fastforce
  have "list_ex (\<lambda>n. digits_of_length r n \<noteq> None) [1..<1 + 17]" using assms(1) by simp
  from shortest_from_Some [OF this] have ok: "0 \<le> c" "rnd (of_int c * 10 powi e) = F_Fin r"
    using digits_of_length_exact assms(2) ce by (fastforce)+
  let ?t = "digits_text r"
  have "number_text ?t \<and> parse_decimal ?t = Some (of_int c * 10 powi e)"
  proof (cases "0 \<le> e")
    case True
    then have t: "?t = show_nat (nat c * 10 ^ nat e)" by (simp only: digits_text_def ce prod.case Let_def if_True if_False)
    have "(of_nat (nat c * 10 ^ nat e) :: rat) = of_int c * 10 powi e"
      using True ok(1) by (simp add: power_int_def)
    then show ?thesis unfolding t
      using number_text_nat parse_decimal_whole [OF show_nat_digits] by simp
  next
    case False
    then have t: "?t = strip_zeros (fixed_digits (nat (- e)) (nat c))" by (simp only: digits_text_def ce prod.case Let_def if_True if_False)
    have p: "parse_decimal ?t = Some (of_int c * 10 powi e)"
      unfolding t using parse_decimal_stripped [of "nat (- e)" "nat c"] False ok(1) by simp
    then have "?t \<noteq> []" by (auto simp: parse_decimal_def)
    moreover have "list_all (\<lambda>c. is_digit c \<or> c = CHR ''.'') (fixed_digits (nat (- e)) (nat c))"
      using show_nat_digits pad0_digits by (auto simp: fixed_digits_def list_all_iff)
    ultimately have "number_text ?t"
      using strip_zeros_subset [of "fixed_digits (nat (- e)) (nat c)"] unfolding t by (auto simp: number_text_def list_all_iff)
    then show ?thesis using p by simp
  qed
  then show "number_text ?t" "parse_unsigned_f64 ?t = Some (F_Fin r)"
    using parse_unsigned_text ok(2) by (auto)
qed

lemma show_f64_Fin:
  "r \<noteq> 0 \<Longrightarrow> show_f64 (F_Fin r) = (if r < 0 then ''-'' else []) @ digits_text \<bar>r\<bar>"
  by (simp add: digits_text_def case_prod_unfold Let_def)

lemma number_text_head: "number_text (c # s) \<Longrightarrow> c \<noteq> CHR ''-'' \<and> c \<noteq> CHR ''+'' \<and> c \<noteq> CHR ''N'' \<and> c \<noteq> CHR ''I''"
  by (auto simp: number_text_def is_digit_def)

text \<open>What is written is what is read back.\<close>

lemma parse_show_f64: "printable v \<Longrightarrow> parse_value (show_f64 v) = Some v"
proof (cases v)
  case F_NaN
  then show ?thesis by (simp add: parse_value_def)
next
  case (F_Inf s)
  have "parse_value ''inf'' = Some (F_Inf False)" "parse_value ''-inf'' = Some (F_Inf True)" by code_simp+
  then show ?thesis using F_Inf by simp
next
  case F_NegZero
  have "parse_value ''-0'' = Some F_NegZero" by code_simp
  then show ?thesis using F_NegZero by simp
next
  case (F_Fin r)
  assume p: "printable v"
  show ?thesis
  proof (cases "r = 0")
    case True
    have "parse_value ''0'' = Some (F_Fin 0)" by code_simp
    then show ?thesis using F_Fin True by simp
  next
    case False
    then have "list_ex (\<lambda>n. digits_of_length \<bar>r\<bar> n \<noteq> None) [1..<18]" "0 < \<bar>r\<bar>" using p F_Fin by simp_all
    note t = digits_text_reads [OF this]
    obtain c s where cs: "digits_text \<bar>r\<bar> = c # s" using t(1) by (cases "digits_text \<bar>r\<bar>") (auto simp: number_text_def)
    note h = number_text_head [OF t(1) [unfolded cs]]
    have wr: "show_f64 v = (if r < 0 then ''-'' else []) @ c # s" by (simp only: F_Fin show_f64_Fin [OF False] cs)
    have u: "parse_unsigned_f64 (c # s) = Some (F_Fin \<bar>r\<bar>)" using t(2) by (simp only: cs)
    show ?thesis unfolding wr using u h False by (cases "r < 0") (auto simp: F_Fin parse_value_def parse_f64_def)
  qed
qed

end
