(* ===== verification/PromOut.thy ===== *)
theory PromOut
  imports StatusDoc FloatText Samples
begin

text \<open>
  \<open>crates/lss-core/src/promout.rs\<close>: the collector's own \<open>/metrics\<close>, written from the status document.
  \<open>Out\<close> appends to a buffer; here it is the list of what is appended and \<open>line_text\<close> its text.
\<close>

section \<open>The text\<close>

definition replace_char :: "char \<Rightarrow> string \<Rightarrow> string \<Rightarrow> string" where
  "replace_char c t s = concat (map (\<lambda>x. if x = c then t else [x]) s)"

definition esc :: "string \<Rightarrow> string" where
  "esc v = replace_char NEWLINE [BSLASH, CHR ''n''] (replace_char QUOTE [BSLASH, QUOTE] (replace_char BSLASH [BSLASH, BSLASH] v))"

datatype metric_line = Family string string string | Sample string "(string \<times> string) list" f64

fun label_texts :: "(string \<times> string) list \<Rightarrow> string" where
  "label_texts [] = []"
| "label_texts ((k, v) # ls) = CHR '','' # k @ [CHR ''='', QUOTE] @ esc v @ [QUOTE] @ label_texts ls"

fun line_text :: "string \<Rightarrow> metric_line \<Rightarrow> string" where
  "line_text host (Family name kind help) =
    ''# HELP '' @ name @ '' '' @ help @ [NEWLINE] @ ''# TYPE '' @ name @ '' '' @ kind @ [NEWLINE]"
| "line_text host (Sample name labels value) =
    name @ ''{host='' @ [QUOTE] @ host @ [QUOTE] @ label_texts labels @ ''} '' @ show_f64 value @ [NEWLINE]"

definition gauge :: "string \<Rightarrow> string \<Rightarrow> f64 \<Rightarrow> metric_line list" where
  "gauge name help value = [Family name ''gauge'' help, Sample name [] value]"

definition some_line :: "f64 option \<Rightarrow> (f64 \<Rightarrow> metric_line list) \<Rightarrow> metric_line list" where
  "some_line x f = (case x of None \<Rightarrow> [] | Some v \<Rightarrow> f v)"

definition text_or_empty :: "string option \<Rightarrow> string" where
  "text_or_empty x = (case x of None \<Rightarrow> [] | Some t \<Rightarrow> t)"

section \<open>The metrics\<close>

definition serve_lines :: "Status \<Rightarrow> metric_line list" where
  "serve_lines s =
    gauge ''llm_serve_up''
       ''1 when the serve answers /v1/models''
       (f_bool (sv_up (st_serve s))) @
    [Family ''llm_serve_info'' ''gauge''
       ''Served model id and container''] @
    [Sample ''llm_serve_info'' [(''model'', text_or_empty (sv_model (st_serve s))), (''container'', text_or_empty (sv_container (st_serve s)))] (F_Fin 1)] @
    gauge ''llm_serve_restart_count''
       ''docker RestartCount of the serve container''
       (f_of_nat (sv_restart_count (st_serve s))) @
    gauge ''llm_serve_restarts_today''
       ''Serve container restarts since local midnight''
       (f_of_nat (sv_restarts_today (st_serve s))) @
    gauge ''llm_serve_uptime_seconds''
       ''Seconds since the serve container started (0 when down)''
       (f_of_int (case sv_uptime_s (st_serve s) of None \<Rightarrow> 0 | Some t \<Rightarrow> t))"

definition probe_lines :: "Status \<Rightarrow> metric_line list" where
  "probe_lines s =
    (case ps_last_ok (st_probe s) of None \<Rightarrow> []
     | Some p \<Rightarrow>
    some_line (pr_decode_tok_s p) (\<lambda>v. gauge ''llm_serve_c1_decode_tokens_per_second''
       ''Single-stream decode rate from the last VALID idle C1 probe''
       (v)) @
    some_line (pr_ttft_ms p) (\<lambda>v. gauge ''llm_serve_c1_ttft_seconds''
       ''Time to first token of the last VALID idle C1 probe''
       (f_div v (F_Fin 1000))) @
    gauge ''llm_serve_c1_probe_timestamp_seconds''
       ''Unix time of the last VALID C1 probe''
       (f_of_int (pr_ts p)) @
    gauge ''llm_serve_c1_probe_age_seconds''
       ''Seconds since the last VALID C1 probe (grows while probes are skipped or invalid)''
       (f_of_int (max (st_generated_at s - pr_ts p) 0)) @
    gauge ''llm_serve_c1_probes_invalid_skipped''
       ''Probes since the last valid one that were skipped, invalid or failed''
       (f_of_nat (ps_invalid_skipped (st_probe s)))) @
    some_line (ps_baseline_tok_s (st_probe s)) (\<lambda>v. gauge ''llm_serve_c1_baseline_tokens_per_second''
       ''C1 baseline the alert rule compares against''
       (v))"

definition engine_lines :: "Status \<Rightarrow> metric_line list" where
  "engine_lines s =
    gauge ''llm_serve_decode_tokens_per_second''
       ''SGLang gen_throughput''
       (sv_decode_tok_s (st_serve s)) @
    gauge ''llm_serve_kv_usage_ratio''
       ''KV cache utilisation 0..1''
       (sv_kv_usage (st_serve s)) @
    gauge ''llm_serve_slots''
       ''Max concurrent requests''
       (f_of_nat (sv_slots (st_serve s))) @
    [Family ''llm_serve_running_requests'' ''gauge''
       ''Requests being decoded/prefilled''] @
    [Sample ''llm_serve_running_requests'' [(''lane'', ''total'')] (sv_running (st_serve s))] @
    [Sample ''llm_serve_running_requests'' [(''lane'', ''public'')] (ls_running (la_public (st_lanes s)))] @
    [Sample ''llm_serve_running_requests'' [(''lane'', ''trusted'')] (ls_running (la_trusted (st_lanes s)))] @
    [Family ''llm_serve_queued_requests'' ''gauge''
       ''Requests waiting in the engine queue''] @
    [Sample ''llm_serve_queued_requests'' [(''lane'', ''total'')] (sv_queue (st_serve s))] @
    [Sample ''llm_serve_queued_requests'' [(''lane'', ''public'')] (ls_queued (la_public (st_lanes s)))] @
    [Sample ''llm_serve_queued_requests'' [(''lane'', ''trusted'')] (ls_queued (la_trusted (st_lanes s)))]"

definition lane_lines :: "string \<Rightarrow> LaneStatus \<Rightarrow> metric_line list" where
  "lane_lines lane l =
    [Sample ''llm_gate_waiters'' [(''lane'', lane)] (f_of_nat (ls_waiters l))] @
    [Sample ''llm_gate_inflight_tokens'' [(''lane'', lane)] (f_of_nat (ls_inflight_tokens l))] @
    [Sample ''llm_gate_rejected_total'' [(''lane'', lane), (''code'', ''413'')] (f_of_nat (ls_rejected_413 l))] @
    [Sample ''llm_gate_rejected_total'' [(''lane'', lane), (''code'', ''429'')] (f_of_nat (ls_rejected_429 l))]"

definition gate_lines :: "Status \<Rightarrow> metric_line list" where
  "gate_lines s =
    gauge ''llm_gate_up''
       ''1 when the gateway answers /gate/health''
       (f_bool (gst_up (st_gate s))) @
    [Family ''llm_gate_waiters'' ''gauge''
       ''Requests waiting at the gate for token budget''] @
    [Family ''llm_gate_inflight_tokens'' ''gauge''
       ''Estimated prompt tokens admitted and in flight''] @
    [Family ''llm_gate_rejected_total'' ''counter''
       ''Gate admission rejections since the gate started''] @
    lane_lines ''public'' (la_public (st_lanes s)) @
    lane_lines ''trusted'' (la_trusted (st_lanes s))"

definition gpu_lines :: "GpuSample \<Rightarrow> metric_line list" where
  "gpu_lines g =
    some_line (gs_temp_c g) (\<lambda>v. [Sample ''llm_gpu_temperature_celsius'' [(''gpu'', show_nat (gs_index g))] (v)]) @
    some_line (gs_power_w g) (\<lambda>v. [Sample ''llm_gpu_power_watts'' [(''gpu'', show_nat (gs_index g))] (v)]) @
    some_line (gs_util_pct g) (\<lambda>v. [Sample ''llm_gpu_utilization_percent'' [(''gpu'', show_nat (gs_index g))] (v)]) @
    some_line (gs_mem_used_mib g) (\<lambda>v. [Sample ''llm_gpu_memory_used_mib'' [(''gpu'', show_nat (gs_index g))] (v)]) @
    [Sample ''llm_gpu_throttle_mask'' [(''gpu'', show_nat (gs_index g))] (f_of_nat (unat (gs_throttle_mask g)))] @
    [Sample ''llm_gpu_thermal_throttled'' [(''gpu'', show_nat (gs_index g))] (f_bool (thermal_throttled g))]"

definition gpus_lines :: "Status \<Rightarrow> metric_line list" where
  "gpus_lines s =
    [Family ''llm_gpu_temperature_celsius'' ''gauge''
       ''GPU core temperature''] @
    [Family ''llm_gpu_power_watts'' ''gauge''
       ''GPU power draw''] @
    [Family ''llm_gpu_utilization_percent'' ''gauge''
       ''GPU utilisation''] @
    [Family ''llm_gpu_memory_used_mib'' ''gauge''
       ''GPU memory in use''] @
    [Family ''llm_gpu_throttle_mask'' ''gauge''
       ''clocks_throttle_reasons.active bitmask''] @
    [Family ''llm_gpu_thermal_throttled'' ''gauge''
       ''1 when a thermal slowdown bit (0x20|0x40) is set''] @
    concat (map (\<lambda>g. gpu_lines (gps_sample g)) (st_gpus s))"

definition own_lines :: "Status \<Rightarrow> metric_line list" where
  "own_lines s =
    gauge ''lss_alerts_firing''
       ''Alert rules currently firing''
       (f_of_nat (length (st_firing s))) @
    gauge ''lss_incidents_open''
       ''Incidents without an end time''
       (f_of_nat (length (filter (\<lambda>i. in_end i = None) (st_incidents s)))) @
    gauge ''lss_last_sample_timestamp_seconds''
       ''Unix time of the newest sample''
       (f_of_int (case ci_last_sample_ts (st_collector s) of None \<Rightarrow> 0 | Some t \<Rightarrow> t))"

definition metric_lines :: "Status \<Rightarrow> metric_line list" where
  "metric_lines s = serve_lines s @ probe_lines s @ engine_lines s @ gate_lines s @ gpus_lines s @ own_lines s"

definition prom_render :: "Status \<Rightarrow> string" where
  "prom_render s = concat (map (line_text (esc (st_host s))) (metric_lines s))"

section \<open>What is written is read back\<close>

lemma esc_escape: "esc v = escape v"
proof -
  have "esc [c] = escape_char c" for c by (simp add: esc_def replace_char_def escape_char_def)
  moreover have "esc (a @ b) = esc a @ esc b" for a b by (simp add: esc_def replace_char_def)
  moreover have "esc [] = []" by (simp add: esc_def replace_char_def)
  ultimately have "esc (c # v) = escape_char c @ esc v" for c v by (metis append_Cons append_Nil)
  with \<open>esc [] = []\<close> show ?thesis by (induction v) (simp_all add: escape_def)
qed

text \<open>The lines as they stand in the text.\<close>

fun phys_lines :: "string \<Rightarrow> metric_line \<Rightarrow> string list" where
  "phys_lines host (Family name kind help) =
    [''# HELP '' @ name @ '' '' @ help, ''# TYPE '' @ name @ '' '' @ kind]"
| "phys_lines host (Sample name labels value) =
    [name @ CHR ''{'' # render_labels ((''host'', host) # labels) @ CHR '' '' # show_f64 value]"

lemma label_texts_render:
  "label_texts ls @ CHR ''}'' # r = (if ls = [] then [] else [CHR '','']) @ render_labels ls @ r"
  by (induction ls rule: label_texts.induct) (auto simp: esc_escape)

lemma line_text_phys: "line_text (esc host) l = concat (map (\<lambda>t. t @ [NEWLINE]) (phys_lines host l))"
  using label_texts_render by (cases l) (simp_all add: esc_escape)

definition help_ok :: "string \<Rightarrow> bool" where
  "help_ok h \<longleftrightarrow> h \<noteq> [] \<and> list_all (\<lambda>c. c \<noteq> NEWLINE \<and> c \<noteq> CHR 0x0D) h"

fun shape_ok :: "metric_line \<Rightarrow> bool" where
  "shape_ok (Family name kind help) \<longleftrightarrow> word_ok name \<and> word_ok kind \<and> help_ok help"
| "shape_ok (Sample name labels value) \<longleftrightarrow> word_ok name \<and> list_all (\<lambda>(k, v). word_ok k) labels"

fun value_ok :: "metric_line \<Rightarrow> bool" where
  "value_ok (Family name kind help) \<longleftrightarrow> True"
| "value_ok (Sample name labels value) \<longleftrightarrow> printable value"

fun series_line :: "string \<Rightarrow> metric_line \<Rightarrow> Series option" where
  "series_line host (Family name kind help) = None"
| "series_line host (Sample name labels value) =
    Some \<lparr>sr_name = name, sr_labels = (''host'', host) # labels, sr_value = value\<rparr>"

text \<open>Every line the collector writes is well formed.\<close>

lemma gauge_shape: "list_all shape_ok (gauge name help v) \<longleftrightarrow> word_ok name \<and> help_ok help"
proof -
  have "word_ok ''gauge''" by code_simp
  then show ?thesis by (auto simp: gauge_def)
qed

lemma name_chars_ok: "list_all word_char ''abcdefghijklmnopqrstuvwxyz_0123456789''"
  by code_simp

lemmas name_chars = name_chars_ok [unfolded list.pred_inject]

lemma names_ok: "list_all word_ok [''llm_gate_inflight_tokens'',
    ''llm_gate_rejected_total'',
    ''llm_gate_up'',
    ''llm_gate_waiters'',
    ''llm_gpu_memory_used_mib'',
    ''llm_gpu_power_watts'',
    ''llm_gpu_temperature_celsius'',
    ''llm_gpu_thermal_throttled'',
    ''llm_gpu_throttle_mask'',
    ''llm_gpu_utilization_percent'',
    ''llm_serve_c1_baseline_tokens_per_second'',
    ''llm_serve_c1_decode_tokens_per_second'',
    ''llm_serve_c1_probe_age_seconds'',
    ''llm_serve_c1_probe_timestamp_seconds'',
    ''llm_serve_c1_probes_invalid_skipped'',
    ''llm_serve_c1_ttft_seconds'',
    ''llm_serve_decode_tokens_per_second'',
    ''llm_serve_info'',
    ''llm_serve_kv_usage_ratio'',
    ''llm_serve_queued_requests'',
    ''llm_serve_restart_count'',
    ''llm_serve_restarts_today'',
    ''llm_serve_running_requests'',
    ''llm_serve_slots'',
    ''llm_serve_up'',
    ''llm_serve_uptime_seconds'',
    ''lss_alerts_firing'',
    ''lss_incidents_open'',
    ''lss_last_sample_timestamp_seconds'',
    ''host'',
    ''model'',
    ''container'',
    ''lane'',
    ''code'',
    ''gpu'',
    ''gauge'',
    ''counter'']"
  by (simp add: word_ok_def name_chars)

lemma helps_ok: "list_all help_ok [''1 when the serve answers /v1/models'',
    ''Served model id and container'',
    ''docker RestartCount of the serve container'',
    ''Serve container restarts since local midnight'',
    ''Seconds since the serve container started (0 when down)'',
    ''Single-stream decode rate from the last VALID idle C1 probe'',
    ''Time to first token of the last VALID idle C1 probe'',
    ''Unix time of the last VALID C1 probe'',
    ''Seconds since the last VALID C1 probe (grows while probes are skipped or invalid)'',
    ''Probes since the last valid one that were skipped, invalid or failed'',
    ''C1 baseline the alert rule compares against'',
    ''SGLang gen_throughput'',
    ''KV cache utilisation 0..1'',
    ''Max concurrent requests'',
    ''Requests being decoded/prefilled'',
    ''Requests waiting in the engine queue'',
    ''1 when the gateway answers /gate/health'',
    ''Requests waiting at the gate for token budget'',
    ''Estimated prompt tokens admitted and in flight'',
    ''Gate admission rejections since the gate started'',
    ''GPU core temperature'',
    ''GPU power draw'',
    ''GPU utilisation'',
    ''GPU memory in use'',
    ''clocks_throttle_reasons.active bitmask'',
    ''1 when a thermal slowdown bit (0x20|0x40) is set'',
    ''Alert rules currently firing'',
    ''Incidents without an end time'',
    ''Unix time of the newest sample'']"
  by code_simp

lemmas names = names_ok [unfolded list.pred_inject]
lemmas helps = helps_ok [unfolded list.pred_inject]

lemma some_line_shape: "list_all P (some_line x f) \<longleftrightarrow> (case x of None \<Rightarrow> True | Some v \<Rightarrow> list_all P (f v))"
  by (simp add: some_line_def split: option.split)

lemma serve_shape: "list_all shape_ok (serve_lines s)"
  by (simp add: serve_lines_def gauge_shape names helps)

lemma probe_shape: "list_all shape_ok (probe_lines s)"
  by (simp add: probe_lines_def gauge_shape some_line_shape names helps split: option.split)

lemma engine_shape: "list_all shape_ok (engine_lines s)"
  by (simp add: engine_lines_def gauge_shape names helps)

lemma gate_shape: "list_all shape_ok (gate_lines s)"
  by (simp add: gate_lines_def lane_lines_def gauge_shape names helps)

lemma gpu_shape: "list_all shape_ok (gpu_lines g)"
  by (simp add: gpu_lines_def some_line_shape names split: option.split)

lemma gpus_shape: "list_all shape_ok (gpus_lines s)"
proof -
  have "list_all shape_ok (concat (map (\<lambda>g. gpu_lines (gps_sample g)) gs))" for gs :: "GpuStatus list"
    by (induction gs) (simp_all add: gpu_shape)
  then show ?thesis by (simp add: gpus_lines_def names helps)
qed

lemma own_shape: "list_all shape_ok (own_lines s)"
  by (simp add: own_lines_def gauge_shape names helps)

lemma metric_shape: "list_all shape_ok (metric_lines s)"
  by (simp add: metric_lines_def serve_shape probe_shape engine_shape gate_shape gpus_shape own_shape)

text \<open>Each line is read as the sample it writes, and the lines of a family as comments.\<close>

lemma show_f64_plain: "printable v \<Longrightarrow> list_all (\<lambda>c. \<not> is_ws c) (show_f64 v) \<and> show_f64 v \<noteq> []"
proof (cases v)
  case (F_Fin r)
  assume p: "printable v"
  show ?thesis
  proof (cases "r = 0")
    case True
    then show ?thesis using F_Fin by (simp add: is_ws_def)
  next
    case False
    then have "number_text (digits_text \<bar>r\<bar>)" using digits_text_reads(1) [of "\<bar>r\<bar>"] p F_Fin by simp
    then have "digits_text \<bar>r\<bar> \<noteq> [] \<and> list_all (\<lambda>c. \<not> is_ws c) (digits_text \<bar>r\<bar>)"
      by (auto simp: number_text_def list_all_iff is_ws_def is_digit_def)
    then show ?thesis unfolding F_Fin show_f64_Fin [OF False] by (simp add: is_ws_def)
  qed
qed (simp_all add: is_ws_def)

lemma word_no_break: "word_ok w \<Longrightarrow> NEWLINE \<notin> set w \<and> CHR 0x0D \<notin> set w"
proof -
  assume "word_ok w"
  note n = word_ok_not [OF this]
  have "is_ws CHR 0x0D" by code_simp
  then show ?thesis using n by blast
qed

lemma phys_fine:
  assumes "shape_ok l" "value_ok l"
  shows "list_all (\<lambda>t. NEWLINE \<notin> set t \<and> strip_cr t = t) (phys_lines host l)"
proof (cases l)
  case (Family name kind h)
  then have ok: "word_ok name" "word_ok kind" "help_ok h" using assms by simp_all
  have h: "h \<noteq> []" "NEWLINE \<notin> set h" "CHR 0x0D \<notin> set h" using ok(3) by (auto simp: help_ok_def list_all_iff)
  have k: "kind \<noteq> []" using ok(2) by (simp add: word_ok_def)
  have "last h \<noteq> CHR 0x0D" "last kind \<noteq> CHR 0x0D"
    using last_in_set [OF h(1)] last_in_set [OF k] h(3) word_no_break [OF ok(2)] by auto
  with h k word_no_break [OF ok(1)] word_no_break [OF ok(2)]
  show ?thesis by (simp add: Family strip_cr_def)
next
  case (Sample name labels v)
  have ok: "word_ok name" "list_all (\<lambda>(k, v). word_ok k) labels" "printable v" using assms Sample by simp_all
  note plain = show_f64_plain [OF ok(3)]
  have ws: "is_ws NEWLINE" "is_ws CHR 0x0D" by code_simp+
  have "\<forall>c \<in> set (show_f64 v). \<not> is_ws c" "last (show_f64 v) \<in> set (show_f64 v)" using plain by (simp_all add: list_all_iff)
  then have "NEWLINE \<notin> set (show_f64 v)" "last (show_f64 v) \<noteq> CHR 0x0D" using ws by metis+
  moreover have "word_ok ''host''" by code_simp
  then have "NEWLINE \<notin> set (render_labels ((''host'', host) # labels))"
    using render_labels_no_newline [of "(''host'', host) # labels"] ok(2) by simp
  ultimately show ?thesis using word_no_break [OF ok(1)] plain by (simp add: Sample strip_cr_def del: render_labels.simps)
qed

lemma parse_comment: "parse_line (CHR ''#'' # s) = None"
proof -
  have "trim (CHR ''#'' # s) \<noteq> [] \<Longrightarrow> hd (trim (CHR ''#'' # s)) = CHR ''#''"
    by (cases s rule: rev_cases) (simp_all add: trim_def trim_start_by_def is_ws_def trim_end_by_def dropWhile_append)
  then show ?thesis by (cases "trim (CHR ''#'' # s) = []") (auto simp: parse_line_def Let_def)
qed

lemma phys_read:
  assumes "shape_ok l" "value_ok l"
  shows "List.map_filter parse_line (phys_lines host l) = (case series_line host l of None \<Rightarrow> [] | Some x \<Rightarrow> [x])"
proof (cases l)
  case (Family name kind h)
  then show ?thesis by (simp add: List.map_filter_def parse_comment)
next
  case (Sample name labels v)
  have ok: "word_ok name" "list_all (\<lambda>(k, v). word_ok k) labels" "printable v" using assms Sample by simp_all
  have "word_ok ''host''" by code_simp
  then have ls: "list_all (\<lambda>(k, v). word_ok k) ((''host'', host) # labels)" using ok(2) by simp
  from parse_line_value [OF ok(1) ls _ _ parse_show_f64 [OF ok(3)]] show_f64_plain [OF ok(3)]
  show ?thesis by (simp add: Sample List.map_filter_def del: render_labels.simps)
qed

lemma map_filter_append: "List.map_filter f (xs @ ys) = List.map_filter f xs @ List.map_filter f ys"
  by (simp add: List.map_filter_def)

lemma render_reads:
  assumes "list_all shape_ok ls" "list_all value_ok ls"
  shows "prom_parse (concat (map (line_text (esc host)) ls)) = List.map_filter (series_line host) ls"
proof -
  have "concat (map (line_text (esc host)) ls) = concat (map (\<lambda>t. t @ [NEWLINE]) (concat (map (phys_lines host) ls)))"
    by (induction ls) (simp_all add: line_text_phys)
  moreover have "list_all (\<lambda>t. NEWLINE \<notin> set t \<and> strip_cr t = t) (concat (map (phys_lines host) ls))"
    using assms by (induction ls) (simp_all add: phys_fine)
  ultimately have "prom_parse (concat (map (line_text (esc host)) ls)) =
      List.map_filter parse_line (concat (map (phys_lines host) ls))"
    using str_lines_render by (simp add: prom_parse_def)
  also have "\<dots> = List.map_filter (series_line host) ls"
    using assms by (induction ls) (simp_all add: map_filter_append phys_read, simp_all add: List.map_filter_def split: option.split)
  finally show ?thesis .
qed

end
