(* ===== verification/StatusClaims.thy ===== *)
theory StatusClaims
  imports StatusFacts PromOut
begin

text \<open>The properties of the hour of samples and of the status document.\<close>

section \<open>The hour\<close>

text \<open>C30. After any run of polls in the order of time, the history holds exactly the samples of the last
  hour and one step, the oldest first: the queue that drops from its front never drops a young sample and never
  keeps an old one.\<close>

theorem history_holds_the_hour:
  assumes "sorted (map sp_ts polls)" "polls \<noteq> []"
  shows "foldl history_push [] polls =
      filter (\<lambda>s. sp_ts (last polls) - (HISTORY_SECS + SERIES_STEP_SECS) \<le> sp_ts s) polls \<and>
    history_latest (foldl history_push [] polls) = Some (last polls)"
proof -
  have run: "foldl history_push [] polls =
      filter (\<lambda>s. sp_ts (last polls) - (HISTORY_SECS + SERIES_STEP_SECS) \<le> sp_ts s) polls"
    using history_run [OF assms(1)] by (simp add: HISTORY_SECS_def SERIES_STEP_SECS_def)
  obtain ys y where p: "polls = ys @ [y]" using assms(2) by (metis rev_exhaust)
  have "history_latest (foldl history_push [] polls) = Some (last polls)"
    unfolding run by (simp add: p history_latest_def HISTORY_SECS_def SERIES_STEP_SECS_def)
  with run show ?thesis by blast
qed

definition sample_at :: "i64 \<Rightarrow> f64 option \<Rightarrow> Sample" where
  "sample_at ts util =
    \<lparr>sp_ts = ts, sp_serve_up = True, sp_model = None, sp_metrics = None, sp_gpus_ok = True,
     sp_gpus = [\<lparr>gs_index = 0, gs_temp_c = None, gs_power_w = None, gs_power_limit_w = None, gs_clock_mhz = None,
       gs_util_pct = util, gs_mem_used_mib = None, gs_mem_total_mib = None, gs_fan_pct = None, gs_throttle_mask = 0,
       gs_mem_util_pct = None, gs_mem_temp_c = None\<rparr>],
     sp_serve_ct = None, sp_gate_ct = None, sp_gate = None, sp_log = log_delta_default, sp_users = [], sp_slots = 0,
     sp_engine = [], sp_not_reported = [], sp_gate_absent = False, sp_gpu_source = []\<rparr>"

theorem history_holds_the_hour_witness:
  "foldl history_push [] [sample_at 0 None, sample_at 5000 None, sample_at 5005 None] =
    [sample_at 5000 None, sample_at 5005 None]"
  using history_holds_the_hour [of "[sample_at 0 None, sample_at 5000 None, sample_at 5005 None]"]
  by (simp add: sample_at_def HISTORY_SECS_def SERIES_STEP_SECS_def)

section \<open>The graphs\<close>

text \<open>C31. The one pass over the samples draws each graph as its definition says, half minute by half minute:
  a rate (the writing speed, the acceptance of drafts) is the mean of the finite readings of its bucket, and a level
  (running, queues, KV, waiters, budget, power) their maximum. What it costs is priced from the mean of the very
  power readings that are drawn.\<close>

theorem graphs_are_per_bucket:
  "ss_decode_tok_s (history_series h now) = graph_of bucket_mean now h (read_metric sm_gen_throughput) \<and>
   ss_spec_accept_rate (history_series h now) = graph_of bucket_mean now h read_spec \<and>
   ss_running (history_series h now) = graph_of bucket_max now h (read_metric sm_running) \<and>
   ss_queue_public (history_series h now) = graph_of bucket_max now h (read_metric sm_queue_public) \<and>
   ss_queue_trusted (history_series h now) = graph_of bucket_max now h (read_metric sm_queue_trusted) \<and>
   ss_kv_usage (history_series h now) = graph_of bucket_max now h (read_metric kv_usage) \<and>
   ss_waiters_public (history_series h now) = graph_of bucket_max now h (read_waiters gah_public) \<and>
   ss_waiters_trusted (history_series h now) = graph_of bucket_max now h (read_waiters gah_trusted) \<and>
   ss_budget_used_frac (history_series h now) = graph_of bucket_max now h read_budget \<and>
   ss_gpu_power_w (history_series h now) = graph_of bucket_max now h watts \<and>
   power_mean_w h now = graph_of bucket_mean now h watts"
  by (simp_all add: history_series_def Let_def decode_row.shown spec_row.shown running_row.shown q_pub_row.shown
      q_tru_row.shown kv_row.shown w_pub_row.shown w_tru_row.shown budget_row.shown power_row.shown power_mean_values)

text \<open>A spike is never lost and a gap is never drawn as a zero: a point of the running graph is null exactly
  when its half minute has no finite reading, and otherwise it is the greatest of them, rounded to three places.\<close>

theorem spikes_are_kept:
  fixes h :: History and now :: i64 and k :: nat
  assumes "k < SERIES_POINTS"
  defines "readings \<equiv> filter is_finite (bucket_values now h (read_metric sm_running) k)"
  shows "ss_running (history_series h now) ! k = None \<longleftrightarrow> readings = []"
    and "readings \<noteq> [] \<Longrightarrow> \<exists>v \<in> set readings. ss_running (history_series h now) ! k = Some (round3 v) \<and>
      list_all (\<lambda>x. f_le x v) readings"
proof -
  let ?b = "bucket_of (bucket_values now h (read_metric sm_running) k)"
  have p: "ss_running (history_series h now) ! k = bucket_max ?b"
    using assms(1) by (simp add: history_series_def Let_def running_row.shown graph_of_def)
  show "ss_running (history_series h now) ! k = None \<longleftrightarrow> readings = []"
    unfolding p by (simp add: shown_max readings_def)
  assume r: "readings \<noteq> []"
  have "bk_max ?b \<in> set readings \<and> list_all (\<lambda>x. f_le x (bk_max ?b)) readings"
    using bucket_greatest r unfolding readings_def list_all_iff by blast
  then show "\<exists>v \<in> set readings. ss_running (history_series h now) ! k = Some (round3 v) \<and>
      list_all (\<lambda>x. f_le x v) readings"
    using r unfolding p by (auto simp: shown_max readings_def)
qed

definition burst :: "f64 \<Rightarrow> i64 \<Rightarrow> Sample" where
  "burst n ts = (sample_at ts None)\<lparr>sp_metrics := Some (metrics_zero\<lparr>sm_running := n\<rparr>)\<rparr>"

theorem spikes_are_kept_witness:
  "ss_running (history_series [burst (F_Fin 2) 0, burst (F_Fin 9) 5, burst (F_Fin 4) 10] 10) ! 119 \<noteq> None"
proof -
  have "filter is_finite (bucket_values 10 [burst (F_Fin 2) 0, burst (F_Fin 9) 5, burst (F_Fin 4) 10] (read_metric sm_running) 119) \<noteq> []"
    by code_simp
  then show ?thesis using spikes_are_kept(1) [where k = 119 and now = 10] by (simp add: SERIES_POINTS_val)
qed

section \<open>The probe\<close>

text \<open>C32. The monitor's own probes are taken out of the trusted lane and shown beside it, and nothing else
  is: what the lane shows and the probe's share add up to what the gate counted (admissions) and to what the gate's log
  holds of the last ten minutes (requests), never less than zero.\<close>

theorem probes_are_set_aside:
  "let lane = la_trusted (st_lanes (build_status i)) in
    ls_requests_10m lane + lp_requests_10m (ls_probes lane) =
      ll_requests (history_lane_log (si_history i) (si_now i - 600) (\<lambda>s. ld_trusted (sp_log s))) \<and>
    ls_admitted lane + lp_admitted (ls_probes lane) =
      (case newest_gate i of None \<Rightarrow> 0 | Some g \<Rightarrow> la_admitted (gah_trusted g)) \<and>
    list_all (\<lambda>(k, c). 0 < c) (ls_top_keys_60m lane)"
proof -
  let ?lane = "la_trusted (st_lanes (build_status i))"
  let ?l = "lane_status_of i (sm_running_trusted (newest_metrics i)) (sm_queue_trusted (newest_metrics i))
    (map_option gah_trusted (newest_gate i)) ld_trusted"
  have lane: "?lane = top_five (subtract_probes ?l (si_probes i) (si_now i) (si_probes_admitted_since_gate_start i))"
    by (simp add: build_status_def lanes_of_def Let_def)
  note sums = subtract_probes_adds_up [of ?l "si_probes i" "si_now i" "si_probes_admitted_since_gate_start i"]
  have "ls_requests_10m ?lane + lp_requests_10m (ls_probes ?lane) =
      ll_requests (history_lane_log (si_history i) (si_now i - 600) (\<lambda>s. ld_trusted (sp_log s)))"
    using sums(1) unfolding lane by (simp add: top_five_def lane_status_of_def Let_def case_prod_unfold RATE_WINDOW_SECS_def)
  moreover have "ls_admitted ?lane + lp_admitted (ls_probes ?lane) =
      (case newest_gate i of None \<Rightarrow> 0 | Some g \<Rightarrow> la_admitted (gah_trusted g))"
    using sums(2) unfolding lane
    by (simp add: top_five_def lane_status_of_def Let_def case_prod_unfold lane_default_def split: option.split_asm option.split)
  moreover have "list_all (\<lambda>(k, c). 0 < c) (ls_top_keys_60m ?lane)"
    using sums(4) unfolding lane by (auto simp: top_five_def list_all_iff dest: in_set_takeD)
  ultimately show ?thesis unfolding Let_def by blast
qed

section \<open>The median\<close>

text \<open>C33. Two strays cannot move a card's utilisation: if four of its last six readings lie between two whole
  percentages, so does the median that is published.\<close>

theorem median_ignores_two_strays:
  assumes "gpu_util_median h index = Some m" "lo \<le> hi" "hi < 2 ^ 52"
    and "4 \<le> length (filter (\<lambda>u. case u of None \<Rightarrow> False | Some x \<Rightarrow> f_le (f_of_nat lo) x \<and> f_le x (f_of_nat hi))
      (map (util_of index) (take UTIL_MEDIAN_POLLS (rev h))))"
  shows "f_le (f_of_nat lo) m \<and> f_le m (f_of_nat hi)"
proof -
  obtain v where v: "collect_somes (map (util_of index) (take UTIL_MEDIAN_POLLS (rev h))) = Some v"
      "\<not> length v < UTIL_MEDIAN_POLLS" "m = middle_of (sort_total v)"
    using assms(1) by (auto simp: gpu_util_median_def split: option.splits if_splits)
  have map: "map (util_of index) (take UTIL_MEDIAN_POLLS (rev h)) = map Some v" using collect_somes_map [OF v(1)] .
  have six: "length v = 6"
    using v(2) collect_somes_length [OF v(1)] by (simp add: UTIL_MEDIAN_POLLS_def)
  let ?w = "sort_total v"
  have "length (filter (between lo hi) ?w) = length (filter (between lo hi) v)"
    by (metis mset_filter mset_sort_total size_mset)
  then have good: "4 \<le> length (filter (between lo hi) ?w)"
    using assms(4) unfolding map by (simp add: filter_map o_def between_def [abs_def])
  have w: "length ?w = 6" using six by (simp add: length_sort_total)
  have mid: "m = f_div (f_add (?w ! 2) (?w ! 3)) (F_Fin 2)" using v(3) w by (simp add: middle_of_def)
  have "between lo hi (?w ! 2)" "between lo hi (?w ! 3)"
    using middle_of_six [OF sorted_sort_total w good] by auto
  from half_sum_between [OF assms(3,2) this] show ?thesis unfolding mid by (simp add: between_def)
qed

definition six_polls :: History where
  "six_polls = map (\<lambda>(t, u). sample_at t (Some (F_Fin u))) [(0, 90), (5, 91), (10, 0), (15, 92), (20, 100), (25, 90)]"

theorem median_ignores_two_strays_witness:
  "gpu_util_median six_polls 0 = Some (F_Fin (181 / 2)) \<and> f_le (f_of_nat 90) (F_Fin (181 / 2)) \<and>
    f_le (F_Fin (181 / 2)) (f_of_nat 92)"
proof -
  have m: "gpu_util_median six_polls 0 = Some (F_Fin (181 / 2))" by code_simp
  moreover have "4 \<le> length (filter (\<lambda>u. case u of None \<Rightarrow> False | Some x \<Rightarrow> f_le (f_of_nat 90) x \<and> f_le x (f_of_nat 92))
      (map (util_of 0) (take UTIL_MEDIAN_POLLS (rev six_polls))))"
    by (simp add: six_polls_def sample_at_def util_of_def UTIL_MEDIAN_POLLS_def f_of_nat_exact)
  ultimately show ?thesis using median_ignores_two_strays [OF m, of 90 92] by simp
qed

section \<open>The metrics\<close>

text \<open>C34. The collector's own Prometheus text, read with the parser of the program, gives back every sample
  it was written from, in order: the metric's name, the host and the labels with whatever characters they hold, and the
  exact value, for all values that the shortest decimal writes.\<close>

theorem metrics_are_read_back:
  assumes "list_all value_ok (metric_lines s)"
  shows "prom_parse (prom_render s) = List.map_filter (series_line (st_host s)) (metric_lines s)"
  unfolding prom_render_def by (rule render_reads [OF metric_shape assms])

definition first_start :: StatusInputs where
  "first_start =
    \<lparr>si_now = 1000, si_host = [QUOTE, BSLASH, NEWLINE], si_collector_version = ''1'', si_collector_started_at = 0,
     si_poll_secs = 5, si_slots = 8, si_history = [], si_incidents = [], si_alerts = [], si_probes = [],
     si_last_valid_probe = None, si_firing = [], si_serve_down_since = None, si_gate_down_since = None,
     si_restarts_today = 0, si_thermal_exclude = [], si_probe_enabled = True, si_probe_interval_s = 600,
     si_c1_baseline = None, si_c1_baseline_source = [],
     si_thresholds = \<lparr>th_c1_ratio = F_Fin (1 / 2), th_c1_consecutive = 3, th_c1_baseline_tok_s = None,
       th_c1_floor_tok_s = None, th_c1_max_ttft_s = F_Fin 5, th_queue_reqs = F_Fin 8, th_thermal_temp_c = F_Fin 90,
       th_thermal_temp_f = F_Fin 194, th_c1_stale_secs = 1800\<rparr>,
     si_probes_admitted_since_gate_start = 0, si_latency = None, si_gpu_health = [], si_user_aliases = [],
     si_tailscale = [], si_own_traffic = \<lparr>ow_probe_user = None, ow_probes_1h = 0, ow_probes_24h = 0\<rparr>,
     si_advice_top = [],
     si_bench = \<lparr>bb_state = ''idle'', bb_profile = None, bb_started_at = None, bb_step = None, bb_step_index = 0,
       bb_steps = 0, bb_last = None, bb_configured = False, bb_builtin = False\<rparr>,
     si_maintenance = maintenance_default, si_loadout = None, si_prefill_typical = None, si_live_decode = None,
     si_public_priority = ''1'', si_trusted_priority = ''0'', si_targets = \<lparr>ts_window = [], ts_rows = []\<rparr>,
     si_user_log_24h = None, si_cost = None, si_spending = None,
     si_tokens = \<lparr>tw_hour = None, tw_hour_covered_secs = None, tw_day = None, tw_day_covered_secs = None,
       tw_week = None, tw_week_covered_secs = None, tw_month = None, tw_month_covered_secs = None\<rparr>, si_watch = None\<rparr>"

theorem metrics_are_read_back_witness:
  "prom_parse (prom_render (build_status first_start)) =
    List.map_filter (series_line (st_host (build_status first_start))) (metric_lines (build_status first_start))"
proof (rule metrics_are_read_back)
  have "digits_of_length \<bar>8\<bar> 1 \<noteq> None \<and> digits_of_length \<bar>1\<bar> 1 \<noteq> None"
    by code_simp
  then have "printable (F_Fin 8) \<and> printable (F_Fin 1) \<and> printable (F_Fin 0)"
    using printable_at [of 1 8] printable_at [of 1 1] by simp
  moreover have "f_of_nat 8 = F_Fin 8 \<and> f_of_int 0 = F_Fin 0 \<and> f_of_nat 0 = F_Fin 0 \<and> round3 (kv_usage metrics_zero) = F_Fin 0"
    by code_simp
  moreover have "newest_sample first_start = None" by (simp add: newest_sample_def history_latest_def first_start_def)
  moreover have "last_ok_probe first_start = None" by (simp add: last_ok_probe_def or_else_def first_start_def)
  ultimately show "list_all value_ok (metric_lines (build_status first_start))"
    by (simp add: metric_lines_def serve_lines_def probe_lines_def engine_lines_def gate_lines_def gpus_lines_def
        own_lines_def lane_lines_def gauge_def some_line_def f_bool_def build_status_def serve_before_probe_def
        probe_speed_def lanes_of_def lane_status_of_def subtract_probes_def top_five_def newest_metrics_def
        newest_gate_def serve_ct_def serve_up_now_def gate_status_of_def probe_status_of_def lane_default_def
        Let_def case_prod_unfold del: printable.simps) (simp add: first_start_def metrics_zero_def)
qed

end
