(* ===== verification/Spec2Isabelle.thy ===== *)
theory Spec2Isabelle
  imports RuleClaims MetricClaims PartClaims TrafficClaims HistoryClaims ServiceClaims LoadoutClaims CardClaims EngineClaims PageClaims StatusClaims HostText
begin

text \<open>
  A model of the core of \<open>lss\<close>, a monitor of LLM inference servers, and the theorems that make it
  correct. The program is a collector daemon that polls a serving box every few seconds (the
  server's Prometheus text, the gateway's health document, nvidia-smi, docker, the kernel log), an
  alert engine that turns the polls into alerts and a rule table, stores of latency and tokens, and
  clients that draw them. All decisions are pure functions of \<open>crates/lss-core/src\<close>; the collector
  (\<open>crates/lss-collector\<close>) and the terminal client (\<open>crates/lss\<close>) move bytes around them. The
  model is of the core and of the parts of the collector that decide; a poll is one \<open>Observation\<close>, the engine a record threaded through the
  handlers, and time is the poll's clock.

  Theories and the code they model (file names under \<open>crates/lss-core/src\<close>):

  Foundations. \<open>Prelude\<close>: the integer types (\<open>i64\<close> as \<open>int\<close>, unsigned types as \<open>nat\<close> with the
  wrap-around or saturation written where the code has it) and list lemmas. \<open>F64\<close>: \<open>f64\<close> as NaN,
  the infinities, negative zero and rationals, with the arithmetic rounded to nearest even at 53
  bits; comparisons as Rust has them (all false on NaN), \<open>total_cmp\<close>, \<open>max\<close>, \<open>clamp\<close>, \<open>round\<close>.
  \<open>RustText\<close>: strings as byte lists with the standard library's \<open>split\<close>, \<open>trim\<close>, \<open>parse\<close> and
  formatting. \<open>BTree\<close>: \<open>BTreeMap\<close> as an ordered association list, with its interface as the locale
  \<open>ordered_map\<close>, and maps of counters with the locale \<open>tally\<close> of what adds up under a merge. \<open>EdgeMachine\<close>: the locales of components that fire and recover.

  The alert engine (\<open>rules.rs\<close>). \<open>Sustained\<close>: \<open>Sustained::step\<close>, the growth windows, the flap
  tracker. \<open>RuleTypes\<close>: \<open>RulesConfig\<close> (\<open>config.rs\<close>), \<open>Observation\<close>, \<open>Engine\<close>. \<open>RuleEval\<close>: the twelve
  handlers and \<open>Engine::evaluate\<close>. \<open>RuleStates\<close>: \<open>firing\<close> and \<open>rule_states\<close>. \<open>RuleKeys\<close>: the contract
  of a handler (locale \<open>handler\<close>: which keys it alerts on, which fields it changes), interpreted on
  all twelve. \<open>RuleFixed\<close>: the specification of the thirteen fixed rules and the refinement.
  \<open>RuleInv\<close>: the state invariant, one interpretation of \<open>kept_by_handlers\<close> per part.
  \<open>RuleClaims\<close>: the properties.

  The metrics. \<open>Prom\<close> (\<open>prom.rs\<close>): the exposition parser and the extractor; \<open>Hist\<close> and \<open>HistFacts\<close>
  (\<open>hist.rs\<close>): histogram growth, quantiles, encoding, the window tracker; \<open>Tokens\<close> (\<open>tokens.rs\<close>):
  counter totals and the all-time ledger. \<open>MetricClaims\<close>: the properties.

  The parts. \<open>TimeUtil\<close>, \<open>Units\<close>, \<open>Gpu\<close>, \<open>Gate\<close>, \<open>Incidents\<close>: the files of those names; \<open>HostText\<close>:
  \<open>xid.rs\<close>, \<open>docker.rs\<close>, \<open>omp.rs\<close>, \<open>maintenance.rs\<close>. \<open>PartClaims\<close>: the properties.

  Traffic and capacity. \<open>GateLog\<close> (\<open>gatelog.rs\<close>): the audit records of the gateway, folded into per-lane counts;
  \<open>GateLogFacts\<close> interprets \<open>tally\<close> on its three breakdowns. \<open>Probe\<close> (\<open>probe.rs\<close>): when the speed probe
  runs and which runs are readings. \<open>Curve\<close> (\<open>loadout.rs\<close>), \<open>Targets\<close> (\<open>targets.rs\<close>), \<open>Headroom\<close>
  (\<open>headroom.rs\<close>): speed by concurrency, the saturation point, service levels, and how many more users
  fit. \<open>Rates\<close> (\<open>rates.rs\<close>): time-of-use prices, spending windows and the projection. \<open>TrafficClaims\<close>: the properties.

  History. \<open>SortBy\<close>: the library's stable sort, with comparators as the locale \<open>comparator\<close>. \<open>Users\<close>
  (\<open>users.rs\<close>): the user table without the monitor's own traffic. \<open>Samples\<close> (\<open>model.rs\<close>, \<open>series.rs\<close>):
  one stored poll and the points it contributes, that numbers an engine does not report change none of them,
  and the two series for which that fails.
  \<open>Rollup\<close> and \<open>RollupFacts\<close> (\<open>series.rs\<close>): the tiers, the plan of a request, the builder of its answer.
  \<open>Gateway\<close> (\<open>series.rs\<close>): the gateway tables and the uptime. \<open>Pipeline\<close> (\<open>lss-collector/src/rollup.rs\<close>):
  samples in, rows for the database out, with the locale \<open>log_count\<close> of the counts it conserves.
  \<open>Query\<close> (\<open>lss-collector/src/query.rs\<close>): the request handlers \<open>/series\<close>, \<open>/hist\<close> and
  \<open>/gateway\<close>, composed of all of these over a database. \<open>HistoryClaims\<close>: the properties.

  The service. \<open>Http\<close> (\<open>lss-collector/src/http.rs\<close>): every request of the listener, as a step of the
  shared state, the benchmark's state and the cache of answers. The benchmark (\<open>bench.rs\<close>,
  \<open>lss-collector/src/bench_run.rs\<close>): \<open>BenchShell\<close>, the words of a launch and the remote directory, and
  \<open>BenchShellFacts\<close>, a reader of shell words that gets exactly these words back; \<open>BenchPlan\<close>, profiles
  and steps; \<open>BenchSafety\<close>, the idle gate, the reasons to stop and the load of other people, with
  \<open>BenchSafetyFacts\<close> on who is really on the server; \<open>BenchRun\<close>, the start, the lock file and the end of
  a run as atomic actions of interleaved threads. \<open>ServiceClaims\<close>: the properties.

  Loadouts (\<open>loadout.rs\<close>). \<open>Loadout\<close>: the identity of a serving configuration, a hash of its arguments and of
  the environment that matters; \<open>Ledger\<close>: what it showed, sample by sample, and \<open>LedgerFacts\<close>: what the ledger
  keeps; \<open>LoadoutRow\<close>: the scorecard made of it. \<open>LoadoutClaims\<close>: the properties.

  Scorecards and advice. \<open>BenchScore\<close>, \<open>BenchCheck\<close>, \<open>BenchDocs\<close> (\<open>bench.rs\<close>, and \<open>lss bench\<close> in \<open>lss/src/main.rs\<close>):
  the scorecard of a benchmark run, what is read of the harness's JSON and how answers are graded, the rule
  that two runs may be compared, the documents of a run and the loop that follows one: that
  the loops end and the rules are symmetric. \<open>Compare\<close> (\<open>compare.rs\<close>) and \<open>CompareFacts\<close>: two loadouts side by
  side. \<open>Advice\<close> (\<open>advice.rs\<close>): the rules of the advice page and their ranking, with
  severities as an instance of \<open>linorder\<close>. \<open>CardClaims\<close>: the properties.

  Engines. \<open>Engines\<close>, \<open>EngineAdapters\<close>, \<open>EngineDetect\<close> (\<open>engine.rs\<close>): the numbers every engine is asked for, the
  seven adapters, and the detection over a port. A fetch may change the server, so the adapters are programs of
  the state monad (\<open>HOL-Library.State_Monad\<close>); the locale \<open>settled_fetch\<close> says what they read once the budget of
  requests is spent. \<open>EngineClaims\<close>: the properties.

  The page. \<open>WatchFile\<close> (\<open>watch.rs\<close>,
  \<open>lss-collector/src/watch_run.rs\<close>): the followed sources; \<open>StatusDoc\<close> (\<open>model.rs\<close>): the \<open>/status\<close> document and the
  admission verdict; \<open>Readings\<close>, \<open>PageReadings\<close>, \<open>EventReadings\<close> (\<open>readings.rs\<close>): the severity scale, the headline,
  and the readings of every domain; \<open>PageFacts\<close> and \<open>PageClaims\<close>: the properties.

  The document. \<open>History\<close> (\<open>history.rs\<close>): the hour of samples, the windows over its counters, and the graphs, filled
  in one pass; \<open>StatusBuild\<close>: \<open>build_status\<close>, which takes the probe out of its lane and puts the document together, and the
  token windows of \<open>lss-collector/src/tokens_run.rs\<close>. \<open>StatusFacts\<close>: the locale \<open>graph_row\<close>, interpreted on ten graphs, says that the pass
  draws each graph bucket by bucket. \<open>PromOut\<close> (\<open>promout.rs\<close>): the collector's own metrics, and
  \<open>FloatText\<close>: that the shortest decimal reads back as the same number. \<open>StatusClaims\<close>: the properties.

  Conventions. A handler of the source that mutates the engine and pushes alerts is a function from
  the engine to the engine and the alerts pushed, in order. A loop over a list is a \<open>fun\<close>; the loops
  that pop from the front of a buffer recurse on the buffer; the label scanner and the trimming of the
  ledger are \<open>function\<close>s with a measure, so no fuel is used anywhere; the loop that builds the needle's prompt
  is \<open>while_option\<close>, and that it returns is a property. Integer arithmetic on
  timestamps is exact: the source computes with \<open>i64\<close> seconds since 1970, far from its bounds.

  Where overflow can be reached from outside (the range of a request, sizes in \<open>u64\<close>) it is written out.
  A panic is the value \<open>None\<close> of the handler; the listener then gives no answer (its thread ends).

  Parameters. \<open>chrono\<close>'s readers of RFC 3339 and ISO text, its UTC clock text and the host's local
  calendar are arguments (\<open>rfc\<close>, \<open>isoz\<close>, \<open>utc\<close>, \<open>local\<close>); \<open>serde_json\<close> is an argument of
  \<open>parse_gate_health\<close> and of the log reader, and the record \<open>Json\<close> of its accessors where code walks a document; the lossy reading of UTF-8 is an argument of the query
  parser; the process-wide temperature unit is the argument \<open>u\<close>; SHA-256 is the
  argument \<open>sha\<close>. The database is the record \<open>Db\<close> of its
  reads, each of which may fail.

  Not modelled: the collector's sockets, SQL and subprocesses; the client's drawing; serialisation; the
  vendors' JSON of other GPU tools; and the documents of the setup and cost commands. Of the file system's
  failures on the benchmark's lock file, those of creating, reading and taking over are modelled
  (\<open>lock_fails\<close>), a content that cannot be written and a file that cannot be removed when a run ends are not. The
  rows a bucket hands to the database are modelled, not how \<open>INSERT OR REPLACE\<close> merges two of one time.
\<close>

end
